(* ===== verification/Prelude.thy ===== *)
theory Prelude
  imports Complex_Main "HOL-Library.List_Lexorder" "HOL-Library.Char_ord" "HOL-Library.Multiset"
begin

text \<open>
  Shared vocabulary of the development: the value types every component uses (text, instants,
  dates, money), the exceptions of the program as values, the result monad, and the small part of
  Python's standard library the modelled code calls (\<open>str.strip\<close>, \<open>dict.fromkeys\<close>,
  \<open>sorted(set(..))\<close>, \<open>next(.., None)\<close>, \<open>uuid.UUID\<close>), with the lemmas the
  components share.

  Conventions.  A \<open>str\<close> is a list of code points below 256, so \<open>length\<close> and
  \<open><\<close> agree with Python's on it.  An aware \<open>datetime\<close> is its instant, an
  integer number of microseconds; \<open>datetime\<close> below keeps naive values apart where the code
  tests for them.  A \<open>date\<close> is its ordinal day number.  A \<open>Decimal\<close> is the
  rational it denotes: the amounts of the program stay far inside the 28 digits in which
  \<open>decimal\<close> computes exactly.
\<close>

section \<open>Value types\<close>

type_synonym instant = int
type_synonym date = int
type_synonym money = rat

datatype datetime = Aware instant | Naive int

definition microseconds_per_second :: int where
  "microseconds_per_second = 1000000"

definition minutes :: "int \<Rightarrow> int" where
  "minutes n = n * 60 * microseconds_per_second"

definition days :: "int \<Rightarrow> int" where
  "days n = n * 24 * 60 * 60 * microseconds_per_second"

section \<open>Exceptions and results\<close>

text \<open>The exception classes the modelled code raises, with their messages.\<close>

datatype py_error =
    ValueError string
  | TypeError
  | ZeroDivisionError
  | KeyError
  | AssertionError
  | PolicyViolation string
  | FinanceReviewViolation string
  | InboundEmailError string
  | FinancePermissionDenied
  | DecisionPolicyViolation string string
  | IllegalExecutionTransition string
  | ExecutionProposalStale string
  | PersistenceIntegrityError string
  | RecordNotFound string
  | ImmutableRecordConflict string
  | FinanceReviewIdempotencyConflict
  | FinanceReviewRevisionConflict
  | StaleProposal string
  | IntegrityError
  | MultipleResultsFound
  | FinanceFinalizationConflict string
  | FinanceFinalizationInvalid string
  | EmailAuthorizationError
  | EmailRevisionConflict
  | EmailStateError string
  | EmailSendDisabled
  | PlaybackAuthorizationError string
  | PlaybackStateError string
  | SelectionIdempotencyConflict
  | PlaybackInterrupted
  | RuntimeModeConflict string
  | AnalysisClaimBusy string
  | FinanceCommandConflict string
  | FinanceRequestInvalid string
  | IdempotencyKeyConflict
  | PresenterRetentionPlanChanged
  | WorkIQProtocolError string
  | WorkIQResponseLimitError string
  | AuthenticationError string
  | AuthorizationError string
  | GraphAuthenticationError string
  | GraphMailError string
  | GraphMailSubmissionUncertain string
  | CapabilityDiagnosticError string string
  | HttpDecodingError
  | WorkIQSourceError string string
  | LiveSourceUnavailable "(string \<times> string) option"
  | RuntimeError string

type_synonym 'a result = "py_error + 'a"

named_theorems result_simps \<open>equations that open a successful or failed computation\<close>

definition bindR :: "'a result \<Rightarrow> ('a \<Rightarrow> 'b result) \<Rightarrow> 'b result" where
  "bindR r f = (case r of Inl e \<Rightarrow> Inl e | Inr x \<Rightarrow> f x)"

lemma bindR_simps [simp]:
  "bindR (Inl e) f = Inl e"
  "bindR (Inr x) f = f x"
  by (simp_all add: bindR_def)

lemma bindR_Inr_iff [result_simps]:
  "bindR r f = Inr y \<longleftrightarrow> (\<exists>x. r = Inr x \<and> f x = Inr y)"
  by (cases r) simp_all

text \<open>Opening a unit of work, one step at a time.\<close>

lemma bindR_InrE: "bindR r f = Inr y \<Longrightarrow> (\<And>x. r = Inr x \<Longrightarrow> f x = Inr y \<Longrightarrow> P) \<Longrightarrow> P"
  by (auto simp: bindR_Inr_iff)

lemma bindR_assoc: "bindR (bindR r f) g = bindR r (\<lambda>x. bindR (f x) g)"
  by (cases r) simp_all

lemma bindR_Inl_iff [result_simps]:
  "bindR r f = Inl e \<longleftrightarrow> r = Inl e \<or> (\<exists>x. r = Inr x \<and> f x = Inl e)"
  by (cases r) simp_all

text \<open>A guard: raise unless the condition holds.\<close>

definition require :: "bool \<Rightarrow> py_error \<Rightarrow> unit result" where
  "require b e = (if b then Inr () else Inl e)"

lemma require_Inr_iff [result_simps]: "require b e = Inr u \<longleftrightarrow> b"
  by (simp add: require_def)

lemma require_Inl_iff [result_simps]: "require b e = Inl e' \<longleftrightarrow> \<not> b \<and> e' = e"
  by (auto simp: require_def)

text \<open>A comprehension whose element expression may raise: the first error wins.\<close>

fun mapR :: "('a \<Rightarrow> 'b result) \<Rightarrow> 'a list \<Rightarrow> 'b list result" where
  "mapR f [] = Inr []"
| "mapR f (x # xs) = bindR (f x) (\<lambda>y. bindR (mapR f xs) (\<lambda>ys. Inr (y # ys)))"

lemma mapR_Inr_iff [result_simps]:
  "mapR f xs = Inr ys \<longleftrightarrow> list_all2 (\<lambda>x y. f x = Inr y) xs ys"
proof (induction xs arbitrary: ys)
  case Nil
  then show ?case by auto
next
  case (Cons x xs)
  then show ?case by (cases ys) (auto simp: bindR_Inr_iff)
qed

lemma mapR_total: "(\<And>x. x \<in> set xs \<Longrightarrow> f x = Inr (g x)) \<Longrightarrow> mapR f xs = Inr (map g xs)"
  by (induction xs) auto

text \<open>\<open>Some\<close> or an exception: reading an optional value the code relies on.\<close>

definition the_or :: "py_error \<Rightarrow> 'a option \<Rightarrow> 'a result" where
  "the_or e x = (case x of None \<Rightarrow> Inl e | Some v \<Rightarrow> Inr v)"

lemma the_or_simps [simp]: "the_or e None = Inl e" "the_or e (Some v) = Inr v"
  by (simp_all add: the_or_def)

lemma the_or_Inr_iff [result_simps]: "the_or e x = Inr v \<longleftrightarrow> x = Some v"
  by (cases x) simp_all

text \<open>A query that found one row found a row that satisfies it.\<close>

lemma filter_one: "filter p xs = [x] \<Longrightarrow> p x"
  by (auto dest: filter_eq_ConsD)

section \<open>Strings\<close>

text \<open>\<open>str.isspace\<close> on code points below 256.\<close>

definition py_isspace :: "char \<Rightarrow> bool" where
  "py_isspace c =
     (let n = (of_char c :: nat)
      in (9 \<le> n \<and> n \<le> 13) \<or> (28 \<le> n \<and> n \<le> 32) \<or> n = 133 \<or> n = 160)"

definition py_strip :: "string \<Rightarrow> string" where
  "py_strip s = rev (dropWhile py_isspace (rev (dropWhile py_isspace s)))"

text \<open>\<open>bool(s.strip())\<close>.\<close>

definition nonblank :: "string \<Rightarrow> bool" where
  "nonblank s \<longleftrightarrow> py_strip s \<noteq> []"

lemma nonblank_iff: "nonblank s \<longleftrightarrow> (\<exists>c \<in> set s. \<not> py_isspace c)"
proof (cases "dropWhile py_isspace s")
  case Nil
  then show ?thesis
    by (auto simp: nonblank_def py_strip_def dropWhile_eq_Nil_conv dest: set_dropWhileD)
next
  case (Cons c cs)
  then have "\<not> py_isspace c" "c \<in> set s"
    by (metis dropWhile_eq_Cons_conv, metis list.set_intros(1) set_dropWhileD)
  with Cons show ?thesis
    by (auto simp: nonblank_def py_strip_def dropWhile_eq_Nil_conv)
qed

lemma nonblank_not_Nil: "nonblank s \<Longrightarrow> s \<noteq> []"
  by (auto simp: nonblank_iff)

lemma dropWhile_py_strip: "dropWhile py_isspace (py_strip s) = py_strip s"
proof (cases "dropWhile py_isspace s")
  case Nil
  have "py_strip s = []" by (simp only: py_strip_def Nil) simp
  then show ?thesis by simp
next
  case (Cons c cs)
  then have c: "\<not> py_isspace c"
    by (metis dropWhile_eq_Cons_conv)
  then have "rev (dropWhile py_isspace (rev (c # cs))) =
      c # rev (dropWhile py_isspace (rev cs))"
    by (auto simp: dropWhile_append dropWhile_eq_Nil_conv dest: set_dropWhileD)
  with Cons c show ?thesis by (simp add: py_strip_def)
qed

lemma py_strip_idem [simp]: "py_strip (py_strip s) = py_strip s"
proof -
  have "py_strip (py_strip s) = rev (dropWhile py_isspace (rev (py_strip s)))"
    by (subst (1) py_strip_def) (simp add: dropWhile_py_strip)
  also have "\<dots> = py_strip s"
    by (simp add: py_strip_def)
  finally show ?thesis .
qed

lemma nonblank_strip [simp]: "nonblank (py_strip s) = nonblank s"
  by (simp add: nonblank_def)

text \<open>\<open>sep.join(xs)\<close>.\<close>

fun py_join :: "string \<Rightarrow> string list \<Rightarrow> string" where
  "py_join sep [] = []"
| "py_join sep [x] = x"
| "py_join sep (x # y # xs) = x @ sep @ py_join sep (y # xs)"

text \<open>\<open>str.lower\<close> on code points below 256.\<close>

definition py_lower_char :: "char \<Rightarrow> char" where
  "py_lower_char c =
     (let n = (of_char c :: nat)
      in if (65 \<le> n \<and> n \<le> 90) \<or> (192 \<le> n \<and> n \<le> 222 \<and> n \<noteq> 215) then char_of (n + 32) else c)"

definition py_lower :: "string \<Rightarrow> string" where
  "py_lower s = map py_lower_char s"

definition is_lower_hex :: "char \<Rightarrow> bool" where
  "is_lower_hex c \<longleftrightarrow> c \<in> set ''0123456789abcdef''"

text \<open>The pattern \<open>^[0-9a-f]{64}$\<close> as \<open>fullmatch\<close> reads it.\<close>

definition is_sha256_hex :: "string \<Rightarrow> bool" where
  "is_sha256_hex s \<longleftrightarrow> length s = 64 \<and> list_all is_lower_hex s"

subsection \<open>Identifiers of type \<open>uuid.UUID\<close>\<close>

text \<open>\<open>s.replace(pat, '')\<close> for a nonempty pattern.\<close>

function remove_sub :: "string \<Rightarrow> string \<Rightarrow> string" where
  "remove_sub pat s =
     (case s of
        [] \<Rightarrow> []
      | c # cs \<Rightarrow>
          if pat \<noteq> [] \<and> take (length pat) s = pat
          then remove_sub pat (drop (length pat) s)
          else c # remove_sub pat cs)"
  by pat_completeness auto
termination
proof (relation "measure (\<lambda>(pat, s). length s)", goal_cases)
  case 1
  show ?case by simp
next
  case (2 pat s c cs)
  then show ?case by (cases pat) auto
next
  case (3 pat s c cs)
  then show ?case by simp
qed

declare remove_sub.simps [simp del]

definition strip_chars :: "char list \<Rightarrow> string \<Rightarrow> string" where
  "strip_chars cs s =
     rev (dropWhile (\<lambda>c. c \<in> set cs) (rev (dropWhile (\<lambda>c. c \<in> set cs) s)))"

definition hex_value :: "char \<Rightarrow> nat option" where
  "hex_value c =
     (let n = (of_char c :: nat)
      in if 48 \<le> n \<and> n \<le> 57 then Some (n - 48)
         else if 97 \<le> n \<and> n \<le> 102 then Some (n - 87)
         else if 65 \<le> n \<and> n \<le> 70 then Some (n - 55)
         else None)"

text \<open>
  The digits of \<open>int(s, 16)\<close>: single underscores may separate digits.  The flag says that
  the previous character was a digit.
\<close>

fun hex_digits :: "bool \<Rightarrow> nat \<Rightarrow> string \<Rightarrow> nat option" where
  "hex_digits prev acc [] = (if prev then Some acc else None)"
| "hex_digits prev acc (c # cs) =
     (if c = CHR ''_'' then (if prev then hex_digits False acc cs else None)
      else case hex_value c of
             None \<Rightarrow> None
           | Some d \<Rightarrow> hex_digits True (16 * acc + d) cs)"

text \<open>
  \<open>int(s, 16)\<close> on a string without a minus sign (\<open>UUID\<close> removes every one): white
  space around the number, a plus sign and a \<open>0x\<close> prefix are accepted.
\<close>

definition py_int16 :: "string \<Rightarrow> nat option" where
  "py_int16 s0 =
     (let s1 = py_strip s0;
          s2 = (case s1 of [] \<Rightarrow> [] | c # cs \<Rightarrow> if c = CHR ''+'' then cs else s1);
          s3 = (case s2 of
                  z # x # cs \<Rightarrow>
                    if z = CHR ''0'' \<and> (x = CHR ''x'' \<or> x = CHR ''X'')
                    then (case cs of [] \<Rightarrow> [] | u # us \<Rightarrow> if u = CHR ''_'' then us else cs)
                    else s2
                | _ \<Rightarrow> s2)
      in hex_digits False 0 s3)"

text \<open>\<open>UUID(s)\<close>: its integer value, or None where the constructor raises ValueError.\<close>

definition py_uuid :: "string \<Rightarrow> nat option" where
  "py_uuid s =
     (let h = remove_sub ''-'' (strip_chars ''{}'' (remove_sub ''uuid:'' (remove_sub ''urn:'' s)))
      in if length h \<noteq> 32 then None else py_int16 h)"

text \<open>\<open>UUID(value or '')\<close>.\<close>

definition py_uuid_opt :: "string option \<Rightarrow> nat option" where
  "py_uuid_opt v = py_uuid (case v of None \<Rightarrow> [] | Some s \<Rightarrow> s)"

lemma py_uuid_opt_None [simp]: "py_uuid_opt None = None"
  by (simp add: py_uuid_opt_def py_uuid_def remove_sub.simps strip_chars_def)

section \<open>Collections\<close>

text \<open>\<open>tuple(dict.fromkeys(xs))\<close>: duplicates removed, first occurrences kept in order.\<close>

fun dict_fromkeys :: "'a list \<Rightarrow> 'a list" where
  "dict_fromkeys [] = []"
| "dict_fromkeys (x # xs) = x # filter (\<lambda>y. y \<noteq> x) (dict_fromkeys xs)"

lemma set_dict_fromkeys [simp]: "set (dict_fromkeys xs) = set xs"
  by (induction xs) auto

lemma distinct_dict_fromkeys [simp]: "distinct (dict_fromkeys xs)"
  by (induction xs) auto

lemma dict_fromkeys_Nil_iff [simp]: "dict_fromkeys xs = [] \<longleftrightarrow> xs = []"
  by (cases xs) auto

lemma dict_fromkeys_id [simp]: "distinct xs \<Longrightarrow> dict_fromkeys xs = xs"
proof (induction xs)
  case (Cons x xs)
  then have "filter (\<lambda>y. y \<noteq> x) xs = xs" by (auto intro!: filter_True)
  with Cons show ?case by simp
qed simp

text \<open>\<open>tuple(sorted(set(xs)))\<close>.\<close>

definition sorted_set :: "'a::linorder list \<Rightarrow> 'a list" where
  "sorted_set xs = sort (remdups xs)"

lemma set_sorted_set [simp]: "set (sorted_set xs) = set xs"
  by (simp add: sorted_set_def)

lemma distinct_sorted_set [simp]: "distinct (sorted_set xs)"
  by (simp add: sorted_set_def)

lemma sorted_sorted_set [simp]: "sorted (sorted_set xs)"
  by (simp add: sorted_set_def)

lemma sorted_set_eq_iff: "sorted_set xs = sorted_set ys \<longleftrightarrow> set xs = set ys"
proof
  assume "set xs = set ys"
  then show "sorted_set xs = sorted_set ys"
    by (intro sorted_distinct_set_unique) simp_all
qed (metis set_sorted_set)

lemma sorted_set_idem [simp]: "sorted_set (sorted_set xs) = sorted_set xs"
  by (simp add: sorted_set_eq_iff)

lemma sorted_set_id: "sorted xs \<Longrightarrow> distinct xs \<Longrightarrow> sorted_set xs = xs"
  by (intro sorted_distinct_set_unique) simp_all

text \<open>
  Sorting by a key that tells the elements apart forgets the order of its input: the canonical
  orders of the analysis rest on this.
\<close>

lemma sort_key_perm:
  assumes "mset xs = mset ys" and "distinct (map f xs)"
  shows "sort_key f xs = sort_key f ys"
proof -
  have "inj_on f (set xs)" using assms(2) by (simp add: distinct_map)
  with assms(1) show ?thesis by (intro sort_key_inj_key_eq) simp_all
qed

lemma distinct_map_mset:
  assumes "mset xs = mset ys"
  shows "distinct (map f xs) = distinct (map f ys)"
proof -
  have "mset (map f xs) = mset (map f ys)" using assms by simp
  then show ?thesis by (rule mset_eq_imp_distinct_iff)
qed

lemma distinct_map_sort_key [simp]: "distinct (map f (sort_key g xs)) = distinct (map f xs)"
  by (rule distinct_map_mset) simp

lemma sort_key_sorted_id: "sorted (map f xs) \<Longrightarrow> sort_key f xs = xs"
  by (intro properties_for_sort_key) simp_all

text \<open>A dict comprehension \<open>{key(x): x for x in xs}\<close>: the last entry of a key wins.\<close>

definition dict_by :: "('a \<Rightarrow> 'k) \<Rightarrow> 'a list \<Rightarrow> 'k \<Rightarrow> 'a option" where
  "dict_by key xs k = find (\<lambda>x. key x = k) (rev xs)"

lemma find_Some_key: "find P xs = Some x \<Longrightarrow> x \<in> set xs \<and> P x"
  by (auto simp: find_Some_iff)

lemma dict_by_Some: "dict_by key xs k = Some x \<Longrightarrow> x \<in> set xs \<and> key x = k"
  using find_Some_key [of "\<lambda>x. key x = k" "rev xs" x] by (simp add: dict_by_def)

lemma dict_by_None: "dict_by key xs k = None \<longleftrightarrow> k \<notin> key ` set xs"
  by (auto simp: dict_by_def find_None_iff)

lemma find_distinct:
  assumes "distinct (map key xs)" and "x \<in> set xs"
  shows "find (\<lambda>y. key y = key x) xs = Some x"
proof -
  obtain y where y: "find (\<lambda>y. key y = key x) xs = Some y"
    using assms(2) by (cases "find (\<lambda>y. key y = key x) xs") (auto simp: find_None_iff)
  then have "y \<in> set xs" "key y = key x" using find_Some_key by fastforce+
  with assms have "y = x" by (metis distinct_map inj_onD)
  with y show ?thesis by simp
qed

lemma dict_by_distinct:
  assumes "distinct (map key xs)" and "x \<in> set xs"
  shows "dict_by key xs (key x) = Some x"
  unfolding dict_by_def using assms
  by (intro find_distinct) (simp_all add: rev_map [symmetric])

text \<open>\<open>d[k] += v\<close> over a list of pairs: what a \<open>defaultdict(int)\<close> accumulates.\<close>

definition sum_at :: "('k \<times> int) list \<Rightarrow> 'k \<Rightarrow> int" where
  "sum_at ps k = (\<Sum>(k', v) \<leftarrow> ps. if k' = k then v else 0)"

lemma sum_at_Nil [simp]: "sum_at [] k = 0"
  by (simp add: sum_at_def)

lemma sum_at_Cons [simp]: "sum_at ((k', v) # ps) k = (if k' = k then v else 0) + sum_at ps k"
  by (simp add: sum_at_def)

lemma sum_at_not_key: "k \<notin> fst ` set ps \<Longrightarrow> sum_at ps k = 0"
  by (induction ps) auto

lemma sum_at_nonneg: "\<forall>p \<in> set ps. 0 \<le> snd p \<Longrightarrow> 0 \<le> sum_at ps k"
  by (induction ps) auto

text \<open>Totals by day add up to the total of the entries of those days.\<close>

lemma sum_sum_at:
  assumes "distinct ds" and "fst ` set ps \<subseteq> set ds"
  shows "(\<Sum>d \<leftarrow> ds. sum_at ps d) = (\<Sum>p \<leftarrow> ps. snd p)"
  using assms(2)
proof (induction ps)
  case Nil
  show ?case by (induction ds) simp_all
next
  case (Cons p ps)
  obtain k v where p: "p = (k, v)" by (cases p)
  have "(\<Sum>d \<leftarrow> ds. if k = d then v else 0) = v"
    using Cons.prems p assms(1) by (simp add: sum_list_distinct_conv_sum_set)
  then show ?case
    using Cons p by (simp add: sum_list_addf)
qed

lemma sum_at_filter:
  "sum_at (filter (\<lambda>p. P (fst p)) ps) k = (if P k then sum_at ps k else 0)"
  by (induction ps) auto

lemma sum_list_rat_nonneg: "(\<And>x. x \<in> set xs \<Longrightarrow> (0::rat) \<le> f x) \<Longrightarrow> 0 \<le> (\<Sum>x\<leftarrow>xs. f x)"
  by (induction xs) auto

end
