(* ===== verification/Domain_Evidence.thy ===== *)
theory Domain_Evidence
  imports Prelude
begin

text \<open>
  The shared enumerations (\<open>data/domain/common.py\<close>) and the evidence model
  (\<open>data/domain/evidence.py\<close>): evidence items with their provenance, declared conflicts and
  their human resolutions, and the validation verdicts the evidence policy produces.  Every
  \<open>StrEnum\<close> is a datatype with its \<open>.value\<close>; those the code sorts by value are made
  linear orders by that value.
\<close>

section \<open>Shared enumerations\<close>

datatype runtime_mode = RM_LIVE | RM_FALLBACK

fun runtime_mode_value :: "runtime_mode \<Rightarrow> string" where
  "runtime_mode_value RM_LIVE = ''live''"
| "runtime_mode_value RM_FALLBACK = ''fallback''"

datatype case_purpose = CP_AUTOMATED_TEST | CP_REHEARSAL | CP_SHOWCASE

fun case_purpose_value :: "case_purpose \<Rightarrow> string" where
  "case_purpose_value CP_AUTOMATED_TEST = ''automated_test''"
| "case_purpose_value CP_REHEARSAL = ''rehearsal''"
| "case_purpose_value CP_SHOWCASE = ''showcase''"

datatype response_option_kind =
  ROK_NO_MITIGATION | ROK_EXPEDITE | ROK_TRANSFER | ROK_RESEQUENCE | ROK_ALTERNATE_SOURCE
| ROK_COMBINED

fun response_option_kind_value :: "response_option_kind \<Rightarrow> string" where
  "response_option_kind_value ROK_NO_MITIGATION = ''no_mitigation''"
| "response_option_kind_value ROK_EXPEDITE = ''expedite''"
| "response_option_kind_value ROK_TRANSFER = ''transfer''"
| "response_option_kind_value ROK_RESEQUENCE = ''resequence''"
| "response_option_kind_value ROK_ALTERNATE_SOURCE = ''alternate_source''"
| "response_option_kind_value ROK_COMBINED = ''combined''"

lemma case_purpose_value_inj: "case_purpose_value a = case_purpose_value b \<longleftrightarrow> a = b"
  by (cases a; cases b) simp_all

lemma response_option_kind_value_inj:
  "response_option_kind_value a = response_option_kind_value b \<longleftrightarrow> a = b"
  by (cases a; cases b) simp_all

instantiation case_purpose :: linorder
begin

definition less_eq_case_purpose :: "case_purpose \<Rightarrow> case_purpose \<Rightarrow> bool" where
  "less_eq_case_purpose a b \<longleftrightarrow> case_purpose_value a \<le> case_purpose_value b"

definition less_case_purpose :: "case_purpose \<Rightarrow> case_purpose \<Rightarrow> bool" where
  "less_case_purpose a b \<longleftrightarrow> case_purpose_value a < case_purpose_value b"

instance
  by standard
    (auto simp: less_eq_case_purpose_def less_case_purpose_def less_le_not_le
      simp flip: case_purpose_value_inj)

end

instantiation response_option_kind :: linorder
begin

definition less_eq_response_option_kind ::
    "response_option_kind \<Rightarrow> response_option_kind \<Rightarrow> bool" where
  "less_eq_response_option_kind a b \<longleftrightarrow>
     response_option_kind_value a \<le> response_option_kind_value b"

definition less_response_option_kind ::
    "response_option_kind \<Rightarrow> response_option_kind \<Rightarrow> bool" where
  "less_response_option_kind a b \<longleftrightarrow>
     response_option_kind_value a < response_option_kind_value b"

instance
  by standard
    (auto simp: less_eq_response_option_kind_def less_response_option_kind_def less_le_not_le
      simp flip: response_option_kind_value_inj)

end

section \<open>Evidence\<close>

datatype evidence_kind =
  EK_OPERATIONAL_FACT | EK_SOURCE_STATEMENT | EK_PREREQUISITE_APPROVAL | EK_CONTEXTUAL_EVIDENCE

datatype evidence_source_system =
  ESS_FABRIC | ESS_SQLITE | ESS_WORK_IQ | ESS_SERVER | ESS_SYNTHETIC_FIXTURE

datatype authority_scope =
  AS_OPERATIONAL_QUANTITY | AS_OPERATIONAL_DATE | AS_QUALIFICATION_STATE
| AS_SUPPLIER_STATEMENT | AS_COLLABORATION_STATEMENT | AS_PREREQUISITE_APPROVAL

fun authority_scope_value :: "authority_scope \<Rightarrow> string" where
  "authority_scope_value AS_OPERATIONAL_QUANTITY = ''operational_quantity''"
| "authority_scope_value AS_OPERATIONAL_DATE = ''operational_date''"
| "authority_scope_value AS_QUALIFICATION_STATE = ''qualification_state''"
| "authority_scope_value AS_SUPPLIER_STATEMENT = ''supplier_statement''"
| "authority_scope_value AS_COLLABORATION_STATEMENT = ''collaboration_statement''"
| "authority_scope_value AS_PREREQUISITE_APPROVAL = ''prerequisite_approval''"

lemma authority_scope_value_inj: "authority_scope_value a = authority_scope_value b \<longleftrightarrow> a = b"
  by (cases a; cases b) simp_all

instantiation authority_scope :: linorder
begin

definition less_eq_authority_scope :: "authority_scope \<Rightarrow> authority_scope \<Rightarrow> bool" where
  "less_eq_authority_scope a b \<longleftrightarrow> authority_scope_value a \<le> authority_scope_value b"

definition less_authority_scope :: "authority_scope \<Rightarrow> authority_scope \<Rightarrow> bool" where
  "less_authority_scope a b \<longleftrightarrow> authority_scope_value a < authority_scope_value b"

instance
  by standard
    (auto simp: less_eq_authority_scope_def less_authority_scope_def less_le_not_le
      simp flip: authority_scope_value_inj)

end

datatype evidence_requirement = ER_REQUIRED_AUTHORITATIVE | ER_CONTEXTUAL

datatype freshness_state = FS_CURRENT | FS_STALE

datatype business_validity_state = BV_VALID | BV_NOT_YET_EFFECTIVE | BV_EXPIRED

datatype uncertainty_state = US_CERTAIN | US_UNCERTAIN | US_CONFLICTED

datatype retrieval_health = RH_HEALTHY | RH_UNHEALTHY

datatype identity_source = IS_ENTRA

datatype evidence_blocking_code =
  EBC_REQUIRED_EVIDENCE_MISSING
| EBC_REQUIRED_EVIDENCE_NOT_AUTHORITATIVE
| EBC_REQUIRED_CITATION_MISSING
| EBC_REQUIRED_SOURCE_METADATA_MISSING
| EBC_EVIDENCE_TIMESTAMP_STALE
| EBC_EVIDENCE_RETRIEVAL_OUTSIDE_WINDOW
| EBC_RETRIEVAL_HEALTH_UNACCEPTABLE
| EBC_EVIDENCE_NOT_YET_EFFECTIVE
| EBC_EVIDENCE_EXPIRED
| EBC_EVIDENCE_CONFLICT_UNRESOLVED
| EBC_CONFLICT_RESOLUTION_INVALID
| EBC_AUTHORITY_SCOPE_MISMATCH
| EBC_PROVENANCE_MISMATCH

fun evidence_blocking_code_value :: "evidence_blocking_code \<Rightarrow> string" where
  "evidence_blocking_code_value EBC_REQUIRED_EVIDENCE_MISSING = ''REQUIRED_EVIDENCE_MISSING''"
| "evidence_blocking_code_value EBC_REQUIRED_EVIDENCE_NOT_AUTHORITATIVE =
     ''REQUIRED_EVIDENCE_NOT_AUTHORITATIVE''"
| "evidence_blocking_code_value EBC_REQUIRED_CITATION_MISSING = ''REQUIRED_CITATION_MISSING''"
| "evidence_blocking_code_value EBC_REQUIRED_SOURCE_METADATA_MISSING =
     ''REQUIRED_SOURCE_METADATA_MISSING''"
| "evidence_blocking_code_value EBC_EVIDENCE_TIMESTAMP_STALE = ''EVIDENCE_TIMESTAMP_STALE''"
| "evidence_blocking_code_value EBC_EVIDENCE_RETRIEVAL_OUTSIDE_WINDOW =
     ''EVIDENCE_RETRIEVAL_OUTSIDE_WINDOW''"
| "evidence_blocking_code_value EBC_RETRIEVAL_HEALTH_UNACCEPTABLE =
     ''RETRIEVAL_HEALTH_UNACCEPTABLE''"
| "evidence_blocking_code_value EBC_EVIDENCE_NOT_YET_EFFECTIVE = ''EVIDENCE_NOT_YET_EFFECTIVE''"
| "evidence_blocking_code_value EBC_EVIDENCE_EXPIRED = ''EVIDENCE_EXPIRED''"
| "evidence_blocking_code_value EBC_EVIDENCE_CONFLICT_UNRESOLVED =
     ''EVIDENCE_CONFLICT_UNRESOLVED''"
| "evidence_blocking_code_value EBC_CONFLICT_RESOLUTION_INVALID = ''CONFLICT_RESOLUTION_INVALID''"
| "evidence_blocking_code_value EBC_AUTHORITY_SCOPE_MISMATCH = ''AUTHORITY_SCOPE_MISMATCH''"
| "evidence_blocking_code_value EBC_PROVENANCE_MISMATCH = ''PROVENANCE_MISMATCH''"

text \<open>Iteration over the enumeration class visits the members in declaration order.\<close>

definition all_evidence_blocking_codes :: "evidence_blocking_code list" where
  "all_evidence_blocking_codes =
     [EBC_REQUIRED_EVIDENCE_MISSING, EBC_REQUIRED_EVIDENCE_NOT_AUTHORITATIVE,
      EBC_REQUIRED_CITATION_MISSING, EBC_REQUIRED_SOURCE_METADATA_MISSING,
      EBC_EVIDENCE_TIMESTAMP_STALE, EBC_EVIDENCE_RETRIEVAL_OUTSIDE_WINDOW,
      EBC_RETRIEVAL_HEALTH_UNACCEPTABLE, EBC_EVIDENCE_NOT_YET_EFFECTIVE, EBC_EVIDENCE_EXPIRED,
      EBC_EVIDENCE_CONFLICT_UNRESOLVED, EBC_CONFLICT_RESOLUTION_INVALID,
      EBC_AUTHORITY_SCOPE_MISMATCH, EBC_PROVENANCE_MISMATCH]"

lemma mem_all_evidence_blocking_codes [simp]: "c \<in> set all_evidence_blocking_codes"
  by (cases c) (simp_all add: all_evidence_blocking_codes_def)

datatype citation_classification = CC_fabric | CC_work_iq | CC_untrusted

record evidence_item =
  ei_evidence_id :: string
  ei_case_id :: string
  ei_kind :: evidence_kind
  ei_authority_scope :: "authority_scope list"
  ei_source_system :: evidence_source_system
  ei_source_id :: string
  ei_source_timestamp :: "instant option"
  ei_retrieved_at :: "instant option"
  ei_retrieved_for_analysis_id :: string
  ei_retrieval_health :: retrieval_health
  ei_effective_at :: "instant option"
  ei_expires_at :: "instant option"
  ei_claim :: string
  ei_excerpt :: "string option"
  ei_citation_url :: "string option"
  ei_runtime_mode :: runtime_mode
  ei_synthetic :: bool
  ei_requirement :: evidence_requirement
  ei_uncertainty_state :: uncertainty_state
  ei_citation_classification :: "citation_classification option"
  ei_navigable_citation_url :: "string option"
  ei_citation_trusted_host :: "string option"

record evidence_conflict =
  ec_conflict_id :: string
  ec_case_id :: string
  ec_evidence_ids :: "string list"
  ec_authority_scope :: "authority_scope list"
  ec_description :: string
  ec_feasibility_relevant :: bool

record actor_provenance =
  ap_persona_id :: string
  ap_roles :: "string list"
  ap_identity_source :: identity_source
  ap_source_id :: string

record conflict_resolution =
  cr_conflict_id :: string
  cr_governing_evidence_id :: string
  cr_actor :: actor_provenance
  cr_why :: string

text \<open>The validated constructor of \<open>ConflictResolution\<close>.\<close>

definition mk_conflict_resolution ::
    "string \<Rightarrow> string \<Rightarrow> actor_provenance \<Rightarrow> string \<Rightarrow> conflict_resolution result" where
  "mk_conflict_resolution conflict_id governing_evidence_id actor why =
     (if \<not> nonblank why then Inl (ValueError ''why must be nonblank'')
      else Inr \<lparr>cr_conflict_id = conflict_id, cr_governing_evidence_id = governing_evidence_id,
                cr_actor = actor, cr_why = why\<rparr>)"

record evidence_item_validation =
  ev_evidence_id :: string
  ev_requirement :: evidence_requirement
  ev_validated_authority_scope :: "authority_scope list"
  ev_freshness :: freshness_state
  ev_business_validity :: business_validity_state
  ev_uncertainty_state :: uncertainty_state
  ev_retrieval_health :: retrieval_health
  ev_authoritative :: bool
  ev_blocking_codes :: "evidence_blocking_code list"

record evidence_validation =
  evv_policy_version :: string
  evv_item_results :: "evidence_item_validation list"
  evv_blocking_codes :: "evidence_blocking_code list"
  evv_global_blocking_codes :: "evidence_blocking_code list"

text \<open>The property \<open>EvidenceValidation.authoritative\<close>.\<close>

definition evv_authoritative :: "evidence_validation \<Rightarrow> bool" where
  "evv_authoritative v \<longleftrightarrow> evv_blocking_codes v = []"

end
