(* ===== verification/Domain_Cases.thy ===== *)
theory Domain_Cases
  imports Domain_Evidence
begin

text \<open>
  Case instances (\<open>data/domain/cases.py\<close>), the reviewed supplier email bound to a case
  (the value types of \<open>data/domain/inbound.py\<close>) and the validated copy that protects the
  identity of a case.
\<close>

section \<open>Reviewed supplier email\<close>

record supplier_disruption_facts =
  sdf_original_quantity :: int
  sdf_part_id :: string
  sdf_plant_name :: string
  sdf_original_due_date :: date
  sdf_partial_quantity :: int
  sdf_partial_due_date :: date
  sdf_additional_cost_per_unit :: money
  sdf_remaining_quantity :: int
  sdf_recovery_date :: "date option"

definition wf_supplier_disruption_facts :: "supplier_disruption_facts \<Rightarrow> bool" where
  "wf_supplier_disruption_facts f \<longleftrightarrow>
     0 < sdf_original_quantity f \<and> 0 < sdf_partial_quantity f \<and>
     0 \<le> sdf_additional_cost_per_unit f \<and> 0 < sdf_remaining_quantity f"

record supplier_email_source =
  ses_tenant_id :: string
  ses_mailbox_object_id :: string
  ses_internet_message_id :: string
  ses_review_fingerprint :: string
  ses_message_id :: string
  ses_subject :: string
  ses_sender :: string
  ses_recipients :: "string list"
  ses_received_at :: instant
  ses_reviewed_at :: instant
  ses_citation_url :: string
  ses_facts :: supplier_disruption_facts

definition wf_supplier_email_source :: "supplier_email_source \<Rightarrow> bool" where
  "wf_supplier_email_source s \<longleftrightarrow>
     3 \<le> length (ses_internet_message_id s) \<and> length (ses_internet_message_id s) \<le> 998 \<and>
     is_sha256_hex (ses_review_fingerprint s) \<and> wf_supplier_disruption_facts (ses_facts s)"

section \<open>Case instances\<close>

datatype case_status =
  CS_OPEN | CS_ANALYZING | CS_AWAITING_DECISION | CS_DECISION_REJECTED | CS_ACTION_PLANNING
| CS_EXECUTING | CS_MONITORING | CS_REANALYSIS_REQUIRED | CS_CLOSED

record demo_template =
  dt_template_id :: string
  dt_scenario_effective_time :: instant
  dt_scenario_timezone :: string

datatype workflow_version = WV_LEGACY | WV_INDEPENDENT_FINANCE

fun workflow_version_value :: "workflow_version \<Rightarrow> string" where
  "workflow_version_value WV_LEGACY = ''standing-authorization-v1''"
| "workflow_version_value WV_INDEPENDENT_FINANCE = ''independent-finance-v1''"

lemma workflow_version_value_inj [simp]:
  "workflow_version_value a = workflow_version_value b \<longleftrightarrow> a = b"
  by (cases a; cases b) simp_all

record case_instance =
  ci_case_id :: string
  ci_template_id :: string
  ci_purpose :: case_purpose
  ci_runtime_mode :: runtime_mode
  ci_scenario_effective_time :: instant
  ci_scenario_timezone :: string
  ci_status :: case_status
  ci_workflow_version :: "workflow_version option"
  ci_supplier_email :: "supplier_email_source option"
  ci_presenter_run_id :: "string option"

text \<open>The pattern \<open>^RL-RUN-[0-9a-f]{32}$\<close>, with the type's field constraints.\<close>

definition presenter_run_pattern :: "string \<Rightarrow> bool" where
  "presenter_run_pattern s \<longleftrightarrow>
     take 7 s = ''RL-RUN-'' \<and> length s = 39 \<and> list_all is_lower_hex (drop 7 s)"

definition wf_case_instance :: "case_instance \<Rightarrow> bool" where
  "wf_case_instance c \<longleftrightarrow>
     ci_scenario_timezone c = ''America/Chicago'' \<and>
     (case ci_supplier_email c of None \<Rightarrow> True | Some s \<Rightarrow> wf_supplier_email_source s) \<and>
     (case ci_presenter_run_id c of None \<Rightarrow> True | Some r \<Rightarrow> presenter_run_pattern r)"

definition effective_workflow_version :: "case_instance \<Rightarrow> workflow_version" where
  "effective_workflow_version c =
     (case ci_workflow_version c of None \<Rightarrow> WV_LEGACY | Some v \<Rightarrow> v)"

text \<open>
  \<open>CaseInstance.model_copy\<close>: the updated values are validated, and a change of the bound
  presenter run, supplier email, runtime mode or workflow needs a new case id.
\<close>

definition case_model_copy ::
    "(case_instance \<Rightarrow> case_instance) \<Rightarrow> case_instance \<Rightarrow> case_instance result" where
  "case_model_copy update self =
     (let changed = update self in
      if \<not> wf_case_instance changed then Inl (ValueError ''validation error'')
      else if ci_presenter_run_id changed \<noteq> ci_presenter_run_id self \<and>
              ci_case_id changed = ci_case_id self
      then Inl (ValueError ''presenter_run_id changes require a different case_id'')
      else if ci_supplier_email changed \<noteq> ci_supplier_email self \<and>
              ci_case_id changed = ci_case_id self
      then Inl (ValueError ''supplier_email changes require a different case_id'')
      else if ci_runtime_mode changed \<noteq> ci_runtime_mode self \<and>
              ci_case_id changed = ci_case_id self
      then Inl (ValueError ''runtime_mode changes require a different case_id'')
      else if effective_workflow_version changed \<noteq> effective_workflow_version self \<and>
              ci_case_id changed = ci_case_id self
      then Inl (ValueError ''workflow_version changes require a different case_id'')
      else Inr changed)"

text \<open>
  A copy under the same case id keeps what the case is bound to, and every copy is valid.
\<close>

definition same_binding :: "case_instance \<Rightarrow> case_instance \<Rightarrow> bool" where
  "same_binding a b \<longleftrightarrow>
     ci_presenter_run_id a = ci_presenter_run_id b \<and>
     ci_supplier_email a = ci_supplier_email b \<and>
     ci_runtime_mode a = ci_runtime_mode b \<and>
     effective_workflow_version a = effective_workflow_version b"

lemma case_model_copy_Inr_iff [result_simps]:
  "case_model_copy u c = Inr c' \<longleftrightarrow>
     c' = u c \<and> wf_case_instance c' \<and> (ci_case_id c' = ci_case_id c \<longrightarrow> same_binding c' c)"
  by (auto simp: case_model_copy_def same_binding_def Let_def)

end
