(* ===== verification/Domain_Operations.thy ===== *)
theory Domain_Operations
  imports Domain_Cases
begin

text \<open>
  The operational records of \<open>data/domain/operations.py\<close> with their field constraints, the
  operational snapshot of a case and its canonical instance \<open>RL-001\<close>
  (\<open>data/synthetic/rl001.py\<close>), and the check of reviewed supplier facts against a snapshot
  (\<open>data/domain/inbound.py\<close>).
\<close>

section \<open>Operational records\<close>

datatype qualification_status = QS_APPROVED | QS_PENDING | QS_NOT_APPROVED | QS_CONDITIONAL

fun qualification_status_value :: "qualification_status \<Rightarrow> string" where
  "qualification_status_value QS_APPROVED = ''approved''"
| "qualification_status_value QS_PENDING = ''pending''"
| "qualification_status_value QS_NOT_APPROVED = ''not_approved''"
| "qualification_status_value QS_CONDITIONAL = ''conditional''"

record supplier =
  sup_supplier_id :: string
  sup_name :: string

record part =
  part_part_id :: string
  part_description :: string
  part_unit_cost :: money

record supplier_part =
  sp_supplier_id :: string
  sp_part_id :: string
  sp_lead_time_days :: int
  sp_is_primary :: bool

record purchase_order =
  po_po_line_id :: string
  po_supplier_id :: string
  po_part_id :: string
  po_plant_id :: string
  po_quantity :: int
  po_due_date :: date
  po_confirmed :: bool

record inventory_position =
  ip_inventory_id :: string
  ip_part_id :: string
  ip_plant_id :: string
  ip_on_hand :: int
  ip_quality_hold :: int
  ip_protected_allocation :: int

definition wf_inventory_position :: "inventory_position \<Rightarrow> bool" where
  "wf_inventory_position p \<longleftrightarrow>
     0 \<le> ip_on_hand p \<and> 0 \<le> ip_quality_hold p \<and> 0 \<le> ip_protected_allocation p"

record bom_component =
  bom_bom_id :: string
  bom_product_id :: string
  bom_component_part_id :: string
  bom_quantity_per :: int

definition wf_bom_component :: "bom_component \<Rightarrow> bool" where
  "wf_bom_component b \<longleftrightarrow> 0 < bom_quantity_per b"

datatype production_status = PS_open | PS_released

record production_order =
  pro_production_order_id :: string
  pro_product_id :: string
  pro_plant_id :: string
  pro_quantity :: int
  pro_due_date :: date
  pro_status :: production_status
  pro_component_demand :: "int option"
  pro_customer_order_id :: "string option"
  pro_customer_priority :: "int option"
  pro_customer_revenue :: "money option"
  pro_customer_margin :: "money option"

definition wf_production_order :: "production_order \<Rightarrow> bool" where
  "wf_production_order o1 \<longleftrightarrow>
     0 < pro_quantity o1 \<and>
     (case pro_component_demand o1 of None \<Rightarrow> True | Some d \<Rightarrow> 0 < d) \<and>
     (case pro_customer_priority o1 of None \<Rightarrow> True | Some p \<Rightarrow> 1 \<le> p \<and> p \<le> 5) \<and>
     (case pro_customer_revenue o1 of None \<Rightarrow> True | Some r \<Rightarrow> 0 \<le> r) \<and>
     (case pro_customer_margin o1 of None \<Rightarrow> True | Some m \<Rightarrow> 0 \<le> m)"

record customer =
  cu_customer_id :: string
  cu_name :: string
  cu_priority :: int

record customer_order =
  co_customer_order_line_id :: string
  co_customer_id :: string
  co_product_id :: string
  co_plant_id :: string
  co_production_order_id :: "string option"
  co_quantity :: int
  co_due_date :: date
  co_unit_revenue :: money
  co_unit_margin :: money

definition wf_customer_order :: "customer_order \<Rightarrow> bool" where
  "wf_customer_order c \<longleftrightarrow>
     0 < co_quantity c \<and> 0 \<le> co_unit_revenue c \<and> 0 \<le> co_unit_margin c"

record transport_option =
  to_transport_option_id :: string
  to_supplier_id :: string
  to_plant_id :: string
  to_mode :: string
  to_max_quantity :: int
  to_incremental_cost_per_unit :: money
  to_transit_days :: int

record supply_receipt_option =
  sro_receipt_id :: string
  sro_supplier_id :: string
  sro_part_id :: string
  sro_plant_id :: string
  sro_quantity :: int
  sro_due_date :: date
  sro_incremental_cost_per_unit :: money

definition wf_supply_receipt_option :: "supply_receipt_option \<Rightarrow> bool" where
  "wf_supply_receipt_option r \<longleftrightarrow> 0 < sro_quantity r \<and> 0 \<le> sro_incremental_cost_per_unit r"

record inventory_transfer =
  it_transfer_id :: string
  it_part_id :: string
  it_source_plant_id :: string
  it_destination_plant_id :: string
  it_quantity :: int
  it_dispatch_date :: date
  it_arrival_date :: date
  it_incremental_cost_per_unit :: money

definition wf_inventory_transfer :: "inventory_transfer \<Rightarrow> bool" where
  "wf_inventory_transfer t \<longleftrightarrow> 0 < it_quantity t \<and> 0 \<le> it_incremental_cost_per_unit t"

record quality_qualification =
  qq_qualification_id :: string
  qq_supplier_id :: string
  qq_part_id :: string
  qq_status :: qualification_status
  qq_effective_date :: "date option"
  qq_evidence_ref :: string
  qq_audit_complete :: "bool option"
  qq_first_article_complete :: "bool option"
  qq_expected_decision_date :: "date option"

record disruption =
  di_disruption_id :: string
  di_supplier_id :: string
  di_po_line_id :: string
  di_part_id :: string
  di_plant_id :: string
  di_original_quantity :: int
  di_original_due_date :: date
  di_partial_quantity :: int
  di_partial_due_date :: "date option"
  di_recovery_date :: "date option"
  di_source_ref :: string

definition wf_disruption :: "disruption \<Rightarrow> bool" where
  "wf_disruption d \<longleftrightarrow> 0 < di_original_quantity d \<and> 0 \<le> di_partial_quantity d"

section \<open>Operational snapshot\<close>

record operational_snapshot =
  os_case_id :: string
  os_runtime_mode :: runtime_mode
  os_scenario_effective_time :: instant
  os_scenario_timezone :: string
  os_analysis_horizon_start :: instant
  os_analysis_horizon_end :: date
  os_inventory_positions :: "inventory_position list"
  os_production_orders :: "production_order list"
  os_customer_orders :: "customer_order list"
  os_disruption :: disruption
  os_alpha_expedite :: "supply_receipt_option option"
  os_transfer :: inventory_transfer
  os_beta_qualification :: quality_qualification

definition wf_operational_snapshot :: "operational_snapshot \<Rightarrow> bool" where
  "wf_operational_snapshot s \<longleftrightarrow>
     list_all wf_inventory_position (os_inventory_positions s) \<and>
     list_all wf_production_order (os_production_orders s) \<and>
     list_all wf_customer_order (os_customer_orders s) \<and>
     wf_disruption (os_disruption s) \<and>
     (case os_alpha_expedite s of None \<Rightarrow> True | Some r \<Rightarrow> wf_supply_receipt_option r) \<and>
     wf_inventory_transfer (os_transfer s)"

definition usable_inventory :: "operational_snapshot \<Rightarrow> string \<Rightarrow> string \<Rightarrow> int" where
  "usable_inventory s part_id plant_id =
     (\<Sum>p \<leftarrow> filter (\<lambda>p. ip_part_id p = part_id \<and> ip_plant_id p = plant_id)
                   (os_inventory_positions s).
        ip_on_hand p - ip_quality_hold p - ip_protected_allocation p)"

text \<open>2026-09-01T09:00:00-05:00 as an instant.\<close>

definition SCENARIO_EFFECTIVE_TIME :: instant where
  "SCENARIO_EFFECTIVE_TIME = 1788271200000000"

definition rl001_production_orders :: "production_order list" where
  "rl001_production_orders =
     [\<lparr>pro_production_order_id = ''RL-MO-DEMO-1'', pro_product_id = ''RL-PROD-00000'',
       pro_plant_id = ''RL-PLANT-CHI'', pro_quantity = 2500, pro_due_date = 739864,
       pro_status = PS_open, pro_component_demand = Some 5000,
       pro_customer_order_id = Some ''RL-CO-DEMO-1'', pro_customer_priority = Some 3,
       pro_customer_revenue = Some 375000, pro_customer_margin = Some 125000\<rparr>,
      \<lparr>pro_production_order_id = ''RL-MO-DEMO-2'', pro_product_id = ''RL-PROD-00000'',
       pro_plant_id = ''RL-PLANT-CHI'', pro_quantity = 2900, pro_due_date = 739867,
       pro_status = PS_open, pro_component_demand = Some 5800,
       pro_customer_order_id = Some ''RL-CO-DEMO-2'', pro_customer_priority = Some 1,
       pro_customer_revenue = Some 580000, pro_customer_margin = Some 203000\<rparr>]"

definition rl001_customer_orders :: "customer_order list" where
  "rl001_customer_orders =
     [\<lparr>co_customer_order_line_id = ''RL-CO-DEMO-1'', co_customer_id = ''RL-CUST-DEMO-1'',
       co_product_id = ''RL-PROD-00000'', co_plant_id = ''RL-PLANT-CHI'',
       co_production_order_id = Some ''RL-MO-DEMO-1'', co_quantity = 2500,
       co_due_date = 739864, co_unit_revenue = 150, co_unit_margin = 50\<rparr>,
      \<lparr>co_customer_order_line_id = ''RL-CO-DEMO-2'', co_customer_id = ''RL-CUST-DEMO-2'',
       co_product_id = ''RL-PROD-00000'', co_plant_id = ''RL-PLANT-CHI'',
       co_production_order_id = Some ''RL-MO-DEMO-2'', co_quantity = 2900,
       co_due_date = 739867, co_unit_revenue = 200, co_unit_margin = 70\<rparr>]"

definition rl001_snapshot :: "string \<Rightarrow> runtime_mode \<Rightarrow> operational_snapshot" where
  "rl001_snapshot case_id runtime_mode =
     \<lparr>os_case_id = case_id, os_runtime_mode = runtime_mode,
      os_scenario_effective_time = SCENARIO_EFFECTIVE_TIME,
      os_scenario_timezone = ''America/Chicago'',
      os_analysis_horizon_start = SCENARIO_EFFECTIVE_TIME,
      os_analysis_horizon_end =
        Max (set (map pro_due_date rl001_production_orders @
                  map co_due_date rl001_customer_orders)),
      os_inventory_positions =
        [\<lparr>ip_inventory_id = ''RL-INV-DEMO-CHI'', ip_part_id = ''RL-MAT-10247'',
          ip_plant_id = ''RL-PLANT-CHI'', ip_on_hand = 4500, ip_quality_hold = 200,
          ip_protected_allocation = 300\<rparr>,
         \<lparr>ip_inventory_id = ''RL-INV-DEMO-DAL'', ip_part_id = ''RL-MAT-10247'',
          ip_plant_id = ''RL-PLANT-DAL'', ip_on_hand = 1800, ip_quality_hold = 0,
          ip_protected_allocation = 300\<rparr>],
      os_production_orders = rl001_production_orders,
      os_customer_orders = rl001_customer_orders,
      os_disruption =
        \<lparr>di_disruption_id = ''RL-DISRUPTION-001'', di_supplier_id = ''RL-SUP-ALPHA'',
         di_po_line_id = ''RL-PO-000001'', di_part_id = ''RL-MAT-10247'',
         di_plant_id = ''RL-PLANT-CHI'', di_original_quantity = 8000,
         di_original_due_date = 739862, di_partial_quantity = 0,
         di_partial_due_date = None, di_recovery_date = None, di_source_ref = ''RL-001''\<rparr>,
      os_alpha_expedite =
        Some \<lparr>sro_receipt_id = ''RL-ALPHA-OPTIONAL-3000'', sro_supplier_id = ''RL-SUP-ALPHA'',
              sro_part_id = ''RL-MAT-10247'', sro_plant_id = ''RL-PLANT-CHI'',
              sro_quantity = 3000, sro_due_date = 739865,
              sro_incremental_cost_per_unit = 15 / 2\<rparr>,
      os_transfer =
        \<lparr>it_transfer_id = ''RL-TRANSFER-DAL-CHI-1500'', it_part_id = ''RL-MAT-10247'',
         it_source_plant_id = ''RL-PLANT-DAL'', it_destination_plant_id = ''RL-PLANT-CHI'',
         it_quantity = 1500, it_dispatch_date = 739863, it_arrival_date = 739864,
         it_incremental_cost_per_unit = 3 / 2\<rparr>,
      os_beta_qualification =
        \<lparr>qq_qualification_id = ''RL-QUAL-BETA'', qq_supplier_id = ''RL-SUP-BETA'',
         qq_part_id = ''RL-MAT-10247'', qq_status = QS_PENDING, qq_effective_date = None,
         qq_evidence_ref = ''RL-QUALITY-001'', qq_audit_complete = Some False,
         qq_first_article_complete = Some False,
         qq_expected_decision_date = Some 739874\<rparr>\<rparr>"

definition build_rl001_template :: demo_template where
  "build_rl001_template =
     \<lparr>dt_template_id = ''RL-001'', dt_scenario_effective_time = SCENARIO_EFFECTIVE_TIME,
      dt_scenario_timezone = ''America/Chicago''\<rparr>"

definition instantiate_rl001 ::
    "string \<Rightarrow> case_purpose \<Rightarrow> runtime_mode \<Rightarrow> workflow_version option \<Rightarrow>
     case_instance \<times> operational_snapshot" where
  "instantiate_rl001 case_id purpose runtime_mode workflow_version =
     (\<lparr>ci_case_id = case_id, ci_template_id = ''RL-001'', ci_purpose = purpose,
       ci_runtime_mode = runtime_mode, ci_scenario_effective_time = SCENARIO_EFFECTIVE_TIME,
       ci_scenario_timezone = ''America/Chicago'', ci_status = CS_OPEN,
       ci_workflow_version = workflow_version, ci_supplier_email = None,
       ci_presenter_run_id = None\<rparr>,
      rl001_snapshot case_id runtime_mode)"

text \<open>The evidence built for a snapshot; every item shares one template.\<close>

definition operational_evidence ::
    "operational_snapshot \<Rightarrow> string \<Rightarrow> instant \<Rightarrow> string \<Rightarrow> string \<Rightarrow> authority_scope list \<Rightarrow>
     evidence_item" where
  "operational_evidence s analysis_id retrieved_at evidence_id claim authority_scope =
     \<lparr>ei_evidence_id = evidence_id, ei_case_id = os_case_id s,
      ei_kind = EK_OPERATIONAL_FACT, ei_authority_scope = authority_scope,
      ei_source_system = ESS_SYNTHETIC_FIXTURE, ei_source_id = ''RL-SOURCE-'' @ evidence_id,
      ei_source_timestamp = Some retrieved_at, ei_retrieved_at = Some retrieved_at,
      ei_retrieved_for_analysis_id = analysis_id, ei_retrieval_health = RH_HEALTHY,
      ei_effective_at = Some (os_scenario_effective_time s),
      ei_expires_at = Some (os_scenario_effective_time s + days 1),
      ei_claim = claim, ei_excerpt = Some claim,
      ei_citation_url = Some (''https://rl.example/evidence/'' @ evidence_id),
      ei_runtime_mode = os_runtime_mode s, ei_synthetic = True,
      ei_requirement = ER_REQUIRED_AUTHORITATIVE, ei_uncertainty_state = US_CERTAIN,
      ei_citation_classification = None, ei_navigable_citation_url = None,
      ei_citation_trusted_host = None\<rparr>"

definition build_rl001_evidence ::
    "operational_snapshot \<Rightarrow> string \<Rightarrow> instant \<Rightarrow> evidence_item list" where
  "build_rl001_evidence s analysis_id retrieved_at =
     (case os_alpha_expedite s of
        None \<Rightarrow> []
      | Some r \<Rightarrow>
          [operational_evidence s analysis_id retrieved_at (sro_receipt_id r)
             ''Alpha partial shipment quantity and date are confirmed.''
             [AS_OPERATIONAL_QUANTITY, AS_OPERATIONAL_DATE]]) @
     [operational_evidence s analysis_id retrieved_at (it_transfer_id (os_transfer s))
        ''Dallas transfer quantity and date are confirmed.''
        [AS_OPERATIONAL_QUANTITY, AS_OPERATIONAL_DATE],
      operational_evidence s analysis_id retrieved_at
        (qq_evidence_ref (os_beta_qualification s))
        (''Beta qualification state is '' @
         qualification_status_value (qq_status (os_beta_qualification s)) @ ''.'')
        [AS_QUALIFICATION_STATE]]"

lemma wf_rl001_snapshot: "wf_operational_snapshot (rl001_snapshot cid m)"
  by (simp add: wf_operational_snapshot_def rl001_snapshot_def rl001_production_orders_def
      rl001_customer_orders_def wf_inventory_position_def wf_production_order_def
      wf_customer_order_def wf_disruption_def wf_supply_receipt_option_def
      wf_inventory_transfer_def)

section \<open>Reviewed supplier facts\<close>

text \<open>
  \<open>validate_supplier_facts\<close>: the reviewed email may be bound only where every fact agrees
  with the authoritative snapshot.
\<close>

definition validate_supplier_facts ::
    "supplier_disruption_facts \<Rightarrow> operational_snapshot \<Rightarrow> unit result" where
  "validate_supplier_facts facts snapshot =
     (let d = os_disruption snapshot; conflict = Inl (InboundEmailError ''INBOUND_EMAIL_CONFLICT'')
      in case os_alpha_expedite snapshot of
           None \<Rightarrow> conflict
         | Some option1 \<Rightarrow>
             if di_supplier_id d \<noteq> ''RL-SUP-ALPHA''
              \<or> sdf_part_id facts \<noteq> di_part_id d
              \<or> sdf_plant_name facts \<noteq> ''Chicago''
              \<or> di_plant_id d \<noteq> ''RL-PLANT-CHI''
              \<or> sdf_original_quantity facts \<noteq> di_original_quantity d
              \<or> sdf_original_due_date facts \<noteq> di_original_due_date d
              \<or> di_partial_quantity d \<noteq> 0
              \<or> di_partial_due_date d \<noteq> None
              \<or> sdf_recovery_date facts \<noteq> di_recovery_date d
              \<or> sdf_recovery_date facts \<noteq> None
              \<or> sdf_remaining_quantity facts \<noteq>
                  sdf_original_quantity facts - sdf_partial_quantity facts
              \<or> sro_supplier_id option1 \<noteq> di_supplier_id d
              \<or> sro_part_id option1 \<noteq> di_part_id d
              \<or> sro_plant_id option1 \<noteq> di_plant_id d
              \<or> sro_quantity option1 \<noteq> sdf_partial_quantity facts
              \<or> sro_due_date option1 \<noteq> sdf_partial_due_date facts
              \<or> sro_incremental_cost_per_unit option1 \<noteq> sdf_additional_cost_per_unit facts
             then conflict
             else Inr ())"

end
