(* ===== verification/Domain_Analysis.thy ===== *)
theory Domain_Analysis
  imports Domain_Operations "HOL-Library.Product_Lexorder"
begin

text \<open>
  The value types of the analysis (\<open>data/domain/analysis.py\<close>): timed quantities and
  projections, predicted outcomes, response options and the ranking trace.  The side-effect
  enumeration of \<open>data/domain/decisions.py\<close>, which options carry, is here too.
\<close>

datatype external_side_effect =
  XSE_EXTERNAL_SENDING | XSE_PURCHASE_ORDER_CHANGE | XSE_FINANCIAL_COMMITMENT

fun external_side_effect_value :: "external_side_effect \<Rightarrow> string" where
  "external_side_effect_value XSE_EXTERNAL_SENDING = ''external_sending''"
| "external_side_effect_value XSE_PURCHASE_ORDER_CHANGE = ''purchase_order_change''"
| "external_side_effect_value XSE_FINANCIAL_COMMITMENT = ''financial_commitment''"

lemma external_side_effect_value_inj:
  "external_side_effect_value a = external_side_effect_value b \<longleftrightarrow> a = b"
  by (cases a; cases b) simp_all

instantiation external_side_effect :: linorder
begin

definition less_eq_external_side_effect ::
    "external_side_effect \<Rightarrow> external_side_effect \<Rightarrow> bool" where
  "less_eq_external_side_effect a b \<longleftrightarrow>
     external_side_effect_value a \<le> external_side_effect_value b"

definition less_external_side_effect ::
    "external_side_effect \<Rightarrow> external_side_effect \<Rightarrow> bool" where
  "less_external_side_effect a b \<longleftrightarrow>
     external_side_effect_value a < external_side_effect_value b"

instance
  by standard
    (auto simp: less_eq_external_side_effect_def less_external_side_effect_def less_le_not_le
      simp flip: external_side_effect_value_inj)

end

record timed_quantity =
  tq_date :: date
  tq_quantity :: int
  tq_source_id :: string

record projection_point =
  pp_date :: date
  pp_receipts :: int
  pp_transfers :: int
  pp_demand :: int
  pp_projected_balance :: int

record calculation_metadata =
  cm_analysis_id :: string
  cm_calculation_version :: string
  cm_timestamp :: instant
  cm_assumptions :: "string list"
  cm_source_data_lineage :: "string list"

record exposure_result =
  exr_metadata :: calculation_metadata
  exr_usable_inventory :: int
  exr_projected_inventory :: "projection_point list"
  exr_first_stockout_date :: "date option"
  exr_maximum_shortage_quantity :: int
  exr_affected_production_order_ids :: "string list"
  exr_affected_customer_order_line_ids :: "string list"
  exr_revenue_at_risk :: money
  exr_margin_at_risk :: money
  exr_otif_lines_at_risk :: int
  exr_response_cost :: money
  exr_revenue_protected :: money
  exr_remaining_uncertainty :: "string list"

record predicted_outcome =
  pred_uncovered_part_demand :: int
  pred_otif_loss_percentage :: int
  pred_revenue_at_risk :: money
  pred_margin_at_risk :: money
  pred_response_cost :: money
  pred_protected_customer_order_ids :: "string list"

record response_option_evidence_requirement =
  roer_evidence_id :: string
  roer_authority_scope :: "authority_scope list"

record response_option =
  ro_option_id :: string
  ro_option_kind :: response_option_kind
  ro_name :: string
  ro_executable :: bool
  ro_active_mitigation :: bool
  ro_predicted :: "predicted_outcome option"
  ro_assumptions :: "string list"
  ro_evidence_ids :: "string list"
  ro_evidence_requirements :: "response_option_evidence_requirement list"
  ro_blocking_codes :: "string list"
  ro_prerequisite_roles :: "string list"
  ro_source_data_lineage :: "string list"
  ro_approval_burden :: int
  ro_execution_risk :: int
  ro_requested_side_effects :: "external_side_effect list"

text \<open>\<open>Decimal | str\<close>.\<close>

datatype comparator_val = CV_Decimal rat | CV_str string

record comparator_value =
  cv_option_id :: string
  cv_value :: comparator_val

record ranking_stage =
  rs_comparator :: string
  rs_threshold :: rat
  rs_lower_is_better :: bool
  rs_input_option_ids :: "string list"
  rs_values :: "comparator_value list"
  rs_retained_option_ids :: "string list"
  rs_eliminated_option_ids :: "string list"

record ranking_result =
  rr_policy_version :: string
  rr_eligible_option_ids :: "string list"
  rr_infeasible_option_ids :: "string list"
  rr_excluded_baseline_ids :: "string list"
  rr_stages :: "ranking_stage list"
  rr_recommended_option_id :: "string option"
  rr_no_feasible_mitigation :: bool

section \<open>Timed quantities\<close>

text \<open>The amount a list of timed quantities moves on a day, and up to and including a day.\<close>

definition tq_at :: "timed_quantity list \<Rightarrow> date \<Rightarrow> int" where
  "tq_at qs d = sum_at (map (\<lambda>q. (tq_date q, tq_quantity q)) qs) d"

definition tq_until :: "timed_quantity list \<Rightarrow> date \<Rightarrow> int" where
  "tq_until qs d = (\<Sum>q \<leftarrow> filter (\<lambda>q. tq_date q \<le> d) qs. tq_quantity q)"

lemma tq_at_Nil [simp]: "tq_at [] d = 0"
  by (simp add: tq_at_def)

lemma tq_at_Cons [simp]:
  "tq_at (q # qs) d = (if tq_date q = d then tq_quantity q else 0) + tq_at qs d"
  by (simp add: tq_at_def)

lemma tq_at_append [simp]: "tq_at (xs @ ys) d = tq_at xs d + tq_at ys d"
  by (induction xs) auto

lemma tq_until_Nil [simp]: "tq_until [] d = 0"
  by (simp add: tq_until_def)

lemma tq_until_Cons [simp]:
  "tq_until (q # qs) d = (if tq_date q \<le> d then tq_quantity q else 0) + tq_until qs d"
  by (simp add: tq_until_def)

lemma tq_until_append [simp]: "tq_until (xs @ ys) d = tq_until xs d + tq_until ys d"
  by (induction xs) auto

lemma tq_at_not_date: "d \<notin> tq_date ` set qs \<Longrightarrow> tq_at qs d = 0"
  by (induction qs) auto

lemma tq_at_nonneg: "\<forall>q \<in> set qs. 0 \<le> tq_quantity q \<Longrightarrow> 0 \<le> tq_at qs d"
  by (induction qs) auto

lemma tq_until_mono:
  "\<forall>q \<in> set qs. 0 \<le> tq_quantity q \<Longrightarrow> d \<le> d' \<Longrightarrow> tq_until qs d \<le> tq_until qs d'"
  by (induction qs) auto

lemma tq_until_nonneg: "\<forall>q \<in> set qs. 0 \<le> tq_quantity q \<Longrightarrow> 0 \<le> tq_until qs d"
  by (induction qs) auto

lemma tq_until_total:
  assumes "\<forall>q \<in> set qs. 0 \<le> tq_quantity q"
  shows "tq_until qs d \<le> (\<Sum>q \<leftarrow> qs. tq_quantity q)"
  using assms by (induction qs) auto

text \<open>
  A running total over strictly increasing days that cover the dates of the list is the amount
  moved up to the day.
\<close>

lemma tq_until_days:
  assumes "distinct ds" and "tq_date ` set qs \<subseteq> set ds"
  shows "(\<Sum>e \<leftarrow> filter (\<lambda>e. e \<le> d) ds. tq_at qs e) = tq_until qs d"
  using assms(2)
proof (induction qs)
  case Nil
  show ?case by (induction ds) simp_all
next
  case (Cons q qs)
  have "(\<Sum>e \<leftarrow> filter (\<lambda>e. e \<le> d) ds. if tq_date q = e then tq_quantity q else 0) =
      (if tq_date q \<le> d then tq_quantity q else 0)"
    using Cons.prems assms(1) by (simp add: sum_list_distinct_conv_sum_set)
  with Cons show ?case by (simp add: sum_list_addf)
qed

end
