(* ===== verification/Exposure.thy ===== *)
theory Exposure
  imports Domain_Analysis
begin

text \<open>
  The deterministic exposure calculator (\<open>services/exposure/calculator.py\<close>): usable
  inventory, the day-by-day projection, the component demand of a part, and the exposure result
  with its first stockout, largest shortage and affected orders.  The two loops of the code are
  recursive functions over the sorted days; the lemmas show that each computes the declarative
  cumulative balance, and that the two agree on whether anything runs short.
\<close>

section \<open>Model\<close>

definition CALCULATION_VERSION :: string where
  "CALCULATION_VERSION = ''exposure-v1''"

definition calculate_usable_inventory :: "inventory_position \<Rightarrow> int" where
  "calculate_usable_inventory p =
     max 0 (ip_on_hand p - ip_quality_hold p - ip_protected_allocation p)"

text \<open>The loop of \<open>project_inventory\<close> over the days, with the running balance.\<close>

fun project_loop ::
    "timed_quantity list \<Rightarrow> timed_quantity list \<Rightarrow> timed_quantity list \<Rightarrow> int \<Rightarrow> date list \<Rightarrow>
     projection_point list" where
  "project_loop receipts transfers demand balance [] = []"
| "project_loop receipts transfers demand balance (day # ds) =
     (let balance' = balance + (tq_at receipts day + tq_at transfers day - tq_at demand day)
      in \<lparr>pp_date = day, pp_receipts = tq_at receipts day, pp_transfers = tq_at transfers day,
          pp_demand = tq_at demand day, pp_projected_balance = balance'\<rparr>
         # project_loop receipts transfers demand balance' ds)"

definition project_inventory ::
    "int \<Rightarrow> timed_quantity list \<Rightarrow> timed_quantity list \<Rightarrow> timed_quantity list \<Rightarrow>
     projection_point list" where
  "project_inventory starting_balance receipts transfers demand =
     project_loop receipts transfers demand starting_balance
       (sorted_set (map tq_date receipts @ map tq_date transfers @ map tq_date demand))"

text \<open>\<open>qty_per_product\<close>: units of the part in one unit of each product.\<close>

definition qty_per_product :: "string \<Rightarrow> bom_component list \<Rightarrow> string \<Rightarrow> int" where
  "qty_per_product part_id boms product_id =
     sum_at (map (\<lambda>b. (bom_product_id b, bom_quantity_per b))
               (filter (\<lambda>b. bom_component_part_id b = part_id) boms)) product_id"

definition demands_part ::
    "string \<Rightarrow> string \<Rightarrow> bom_component list \<Rightarrow> production_order \<Rightarrow> bool" where
  "demands_part part_id plant_id boms ord \<longleftrightarrow>
     pro_plant_id ord = plant_id \<and> 0 < qty_per_product part_id boms (pro_product_id ord)"

definition order_demand :: "string \<Rightarrow> bom_component list \<Rightarrow> production_order \<Rightarrow> int" where
  "order_demand part_id boms ord =
     pro_quantity ord * qty_per_product part_id boms (pro_product_id ord)"

definition component_demand_for_part ::
    "string \<Rightarrow> string \<Rightarrow> bom_component list \<Rightarrow> production_order list \<Rightarrow> timed_quantity list" where
  "component_demand_for_part part_id plant_id boms orders =
     map (\<lambda>ord. \<lparr>tq_date = pro_due_date ord, tq_quantity = order_demand part_id boms ord,
                 tq_source_id = pro_production_order_id ord\<rparr>)
       (filter (demands_part part_id plant_id boms) orders)"

text \<open>One day of the netting loop: the orders due that day draw on the balance in id order.\<close>

fun net_day :: "(string \<Rightarrow> int) \<Rightarrow> int \<Rightarrow> production_order list \<Rightarrow> int \<times> string list" where
  "net_day need balance [] = (balance, [])"
| "net_day need balance (ord # os) =
     (let n = need (pro_production_order_id ord);
          (balance', affected) = net_day need (balance - n) os
      in (balance',
          if balance < n then pro_production_order_id ord # affected else affected))"

fun net_days ::
    "(date \<Rightarrow> int) \<Rightarrow> (date \<Rightarrow> production_order list) \<Rightarrow> (string \<Rightarrow> int) \<Rightarrow> int \<Rightarrow> date list \<Rightarrow>
     string list" where
  "net_days supply orders_by_date need balance [] = []"
| "net_days supply orders_by_date need balance (day # ds) =
     (let (balance', affected) =
            net_day need (balance + supply day)
              (sort_key pro_production_order_id (orders_by_date day))
      in affected @ net_days supply orders_by_date need balance' ds)"

text \<open>
  \<open>affected_prod\<close>: \<open>demand_by_order\<close> keeps the last quantity of an id; an order takes
  part when its id has a demand.
\<close>

definition affected_production_orders ::
    "int \<Rightarrow> timed_quantity list \<Rightarrow> timed_quantity list \<Rightarrow> timed_quantity list \<Rightarrow>
     production_order list \<Rightarrow> string list" where
  "affected_production_orders usable receipts transfers demand orders =
     (let demand_by_order = (\<lambda>i. map_option tq_quantity (dict_by tq_source_id demand i));
          listed = filter (\<lambda>ord. demand_by_order (pro_production_order_id ord) \<noteq> None) orders;
          orders_by_date = (\<lambda>d. filter (\<lambda>ord. pro_due_date ord = d) listed);
          ds = sorted_set (map pro_due_date listed @ map tq_date receipts @ map tq_date transfers)
      in net_days (\<lambda>d. tq_at receipts d + tq_at transfers d) orders_by_date
           (\<lambda>i. case demand_by_order i of None \<Rightarrow> 0 | Some q \<Rightarrow> q) usable ds)"

definition calculate_exposure ::
    "instant \<Rightarrow> string \<Rightarrow> string \<Rightarrow> string \<Rightarrow> inventory_position list \<Rightarrow> timed_quantity list \<Rightarrow>
     timed_quantity list \<Rightarrow> bom_component list \<Rightarrow> production_order list \<Rightarrow> customer_order list \<Rightarrow>
     money \<Rightarrow> string list \<Rightarrow> string list \<Rightarrow> exposure_result" where
  "calculate_exposure now analysis_id part_id plant_id inventory_positions receipts transfers
     bom_components production_orders customer_orders response_cost assumptions
     remaining_uncertainty =
     (let relevant_positions =
            filter (\<lambda>p. ip_part_id p = part_id \<and> ip_plant_id p = plant_id) inventory_positions;
          usable = (\<Sum>p \<leftarrow> relevant_positions. calculate_usable_inventory p);
          demand = component_demand_for_part part_id plant_id bom_components production_orders;
          projection = project_inventory usable receipts transfers demand;
          stockout_points = filter (\<lambda>p. pp_projected_balance p < 0) projection;
          first_stockout =
            (case stockout_points of [] \<Rightarrow> None | p # _ \<Rightarrow> Some (pp_date p));
          max_shortage =
            (if stockout_points \<noteq> []
             then \<bar>Min (set (map pp_projected_balance projection))\<bar> else 0);
          affected_prod =
            affected_production_orders usable receipts transfers demand production_orders;
          affected_customer =
            filter (\<lambda>c. case co_production_order_id c of
                          None \<Rightarrow> False | Some i \<Rightarrow> i \<in> set affected_prod) customer_orders;
          revenue = (\<Sum>c \<leftarrow> affected_customer. co_unit_revenue c * of_int (co_quantity c));
          margin = (\<Sum>c \<leftarrow> affected_customer. co_unit_margin c * of_int (co_quantity c));
          source_ids = sorted_set (map ip_inventory_id relevant_positions @
                         map tq_source_id (receipts @ transfers @ demand))
      in \<lparr>exr_metadata =
            \<lparr>cm_analysis_id = analysis_id, cm_calculation_version = CALCULATION_VERSION,
             cm_timestamp = now, cm_assumptions = assumptions,
             cm_source_data_lineage = source_ids\<rparr>,
          exr_usable_inventory = usable, exr_projected_inventory = projection,
          exr_first_stockout_date = first_stockout,
          exr_maximum_shortage_quantity = max_shortage,
          exr_affected_production_order_ids = affected_prod,
          exr_affected_customer_order_line_ids = map co_customer_order_line_id affected_customer,
          exr_revenue_at_risk = revenue, exr_margin_at_risk = margin,
          exr_otif_lines_at_risk = int (length affected_customer),
          exr_response_cost = response_cost, exr_revenue_protected = 0,
          exr_remaining_uncertainty = remaining_uncertainty\<rparr>)"

section \<open>The projection\<close>

text \<open>The balance a part has on a day, stated without a loop.\<close>

definition balance_on ::
    "int \<Rightarrow> timed_quantity list \<Rightarrow> timed_quantity list \<Rightarrow> timed_quantity list \<Rightarrow> date \<Rightarrow> int" where
  "balance_on starting receipts transfers demand d =
     starting + tq_until receipts d + tq_until transfers d - tq_until demand d"

definition movement_days ::
    "timed_quantity list \<Rightarrow> timed_quantity list \<Rightarrow> timed_quantity list \<Rightarrow> date list" where
  "movement_days receipts transfers demand =
     sorted_set (map tq_date receipts @ map tq_date transfers @ map tq_date demand)"

lemma project_loop_eq:
  assumes "sorted ds" and "distinct ds"
  shows "project_loop rs ts dm b ds =
     map (\<lambda>d. \<lparr>pp_date = d, pp_receipts = tq_at rs d, pp_transfers = tq_at ts d,
               pp_demand = tq_at dm d,
               pp_projected_balance =
                 b + (\<Sum>e \<leftarrow> filter (\<lambda>e. e \<le> d) ds. tq_at rs e + tq_at ts e - tq_at dm e)\<rparr>) ds"
  using assms
proof (induction ds arbitrary: b)
  case (Cons x ds)
  then have "filter (\<lambda>e. e \<le> x) ds = []" by (auto simp: filter_empty_conv)
  with Cons show ?case by (auto simp: Let_def)
qed simp

theorem project_inventory_eq:
  "project_inventory b rs ts dm =
     map (\<lambda>d. \<lparr>pp_date = d, pp_receipts = tq_at rs d, pp_transfers = tq_at ts d,
               pp_demand = tq_at dm d, pp_projected_balance = balance_on b rs ts dm d\<rparr>)
       (movement_days rs ts dm)"
proof -
  let ?ds = "movement_days rs ts dm"
  have ds: "sorted ?ds" "distinct ?ds" by (simp_all add: movement_days_def)
  have days: "tq_date ` set rs \<subseteq> set ?ds" "tq_date ` set ts \<subseteq> set ?ds"
      "tq_date ` set dm \<subseteq> set ?ds"
    by (auto simp: movement_days_def)
  have "(\<Sum>e \<leftarrow> filter (\<lambda>e. e \<le> d) ?ds. tq_at rs e + tq_at ts e - tq_at dm e) =
      tq_until rs d + tq_until ts d - tq_until dm d" for d
    using ds days by (simp add: sum_list_addf sum_list_subtractf tq_until_days)
  then show ?thesis
    by (simp add: project_inventory_def project_loop_eq [OF ds] balance_on_def
        flip: movement_days_def)
qed

text \<open>The balance of any day is that of the last movement day before it.\<close>

lemma tq_until_no_dates:
  "(\<And>q. q \<in> set qs \<Longrightarrow> tq_date q \<le> d \<longleftrightarrow> tq_date q \<le> e) \<Longrightarrow> tq_until qs d = tq_until qs e"
  by (induction qs) auto

lemma balance_on_movement_day:
  "balance_on b rs ts dm d = b \<or>
   (\<exists>e \<in> set (movement_days rs ts dm). e \<le> d \<and> balance_on b rs ts dm d = balance_on b rs ts dm e)"
proof (cases "\<exists>e \<in> set (movement_days rs ts dm). e \<le> d")
  case False
  then have "tq_until rs d = 0" "tq_until ts d = 0" "tq_until dm d = 0"
    by (auto simp: movement_days_def tq_until_def filter_empty_conv intro!: sum_list_0)
  then show ?thesis by (simp add: balance_on_def)
next
  case True
  let ?E = "{e \<in> set (movement_days rs ts dm). e \<le> d}"
  have E: "finite ?E" "?E \<noteq> {}" using True by auto
  define e where "e = Max ?E"
  have e: "e \<in> ?E" unfolding e_def using E by (rule Max_in)
  have "tq_date q \<le> d \<longleftrightarrow> tq_date q \<le> e" if "q \<in> set rs \<union> set ts \<union> set dm" for q
  proof
    assume "tq_date q \<le> d"
    then have "tq_date q \<in> ?E" using that by (auto simp: movement_days_def)
    then show "tq_date q \<le> e" unfolding e_def using E(1) by (intro Max_ge)
  qed (use e in auto)
  then have "balance_on b rs ts dm d = balance_on b rs ts dm e"
    by (simp add: balance_on_def tq_until_no_dates [of _ d e])
  with e show ?thesis by blast
qed

section \<open>Stockout and shortage\<close>

lemma usable_inventory_nonneg:
  "0 \<le> exr_usable_inventory
     (calculate_exposure now aid part plant ips rs ts boms orders custs cost asm unc)"
  by (auto simp: calculate_exposure_def Let_def calculate_usable_inventory_def
      intro!: sum_list_nonneg)

lemma hd_filter_sorted:
  assumes "sorted ds" and "filter P ds = d # es"
  shows "P d \<and> d \<in> set ds \<and> (\<forall>d' \<in> set ds. P d' \<longrightarrow> d \<le> d')"
proof -
  have d: "d \<in> set (filter P ds)" using assms(2) by simp
  have "sorted (filter P ds)" using assms(1) by (rule sorted_wrt_filter)
  then have "\<forall>d' \<in> set (filter P ds). d \<le> d'" using assms(2) by auto
  with d show ?thesis by auto
qed

text \<open>The first stockout and the shortage of a projection over a balance function.\<close>

lemma stockout_of_projection:
  fixes bal :: "date \<Rightarrow> int" and pts :: "projection_point list"
  assumes "sorted ds"
    and dates: "map pp_date pts = ds" and bals: "map pp_projected_balance pts = map bal ds"
    and days: "\<And>d. 0 \<le> bal d \<or> (\<exists>e \<in> set ds. e \<le> d \<and> bal d = bal e)"
    and sp: "sp = filter (\<lambda>p. pp_projected_balance p < 0) pts"
  shows "(case sp of [] \<Rightarrow> \<forall>d. 0 \<le> bal d
          | p # _ \<Rightarrow> bal (pp_date p) < 0 \<and> (\<forall>d' < pp_date p. 0 \<le> bal d'))"
    and "sp \<noteq> [] \<Longrightarrow> (\<forall>d. - bal d \<le> \<bar>Min (set (map pp_projected_balance pts))\<bar>) \<and>
           (\<exists>d. \<bar>Min (set (map pp_projected_balance pts))\<bar> = - bal d)"
proof -
  have pt: "pp_projected_balance p = bal (pp_date p)" "pp_date p \<in> set ds" if "p \<in> set pts" for p
  proof -
    from that obtain i where i: "i < length pts" "p = pts ! i" by (auto simp: in_set_conv_nth)
    have len: "length ds = length pts" using dates by (metis length_map)
    have "pp_date p = ds ! i" using i dates by (metis nth_map)
    moreover have "pp_projected_balance p = bal (ds ! i)"
      using i len bals by (metis nth_map)
    ultimately show "pp_projected_balance p = bal (pp_date p)" "pp_date p \<in> set ds"
      using i len by simp_all
  qed
  have onto: "\<exists>p \<in> set pts. pp_date p = e" if "e \<in> set ds" for e
    using that dates by auto
  have fd: "map pp_date sp = filter (\<lambda>d. bal d < 0) ds"
  proof -
    have "map pp_date sp = map pp_date (filter (\<lambda>p. bal (pp_date p) < 0) pts)"
      unfolding sp using pt(1) by (metis (no_types, lifting) filter_cong)
    also have "\<dots> = filter (\<lambda>d. bal d < 0) (map pp_date pts)"
      by (simp add: filter_map comp_def)
    finally show ?thesis using dates by simp
  qed
  show "case sp of [] \<Rightarrow> \<forall>d. 0 \<le> bal d
        | p # _ \<Rightarrow> bal (pp_date p) < 0 \<and> (\<forall>d' < pp_date p. 0 \<le> bal d')"
  proof (cases sp)
    case Nil
    then have "filter (\<lambda>d. bal d < 0) ds = []" using fd by simp
    then have "\<forall>d \<in> set ds. 0 \<le> bal d" by (simp add: filter_empty_conv not_less)
    then have "0 \<le> bal d" for d using days [of d] by auto
    with Nil show ?thesis by simp
  next
    case (Cons p ps)
    then have "filter (\<lambda>d. bal d < 0) ds = pp_date p # map pp_date ps" using fd by simp
    from hd_filter_sorted [OF assms(1) this]
    have first: "bal (pp_date p) < 0" "\<And>d'. d' \<in> set ds \<Longrightarrow> bal d' < 0 \<Longrightarrow> pp_date p \<le> d'"
      by auto
    have "0 \<le> bal d'" if "d' < pp_date p" for d'
    proof (rule ccontr)
      assume "\<not> 0 \<le> bal d'"
      with days [of d'] obtain e where "e \<in> set ds" "e \<le> d'" "bal e < 0" by auto
      with first(2) that show False by fastforce
    qed
    with Cons first(1) show ?thesis by simp
  qed
  assume "sp \<noteq> []"
  then obtain p where p: "p \<in> set pts" "pp_projected_balance p < 0"
    unfolding sp by (auto simp: filter_empty_conv)
  let ?M = "Min (set (map pp_projected_balance pts))"
  have "?M \<in> set (map pp_projected_balance pts)" using p(1) by (intro Min_in) auto
  then obtain q where q: "q \<in> set pts" "?M = pp_projected_balance q" by auto
  have "?M \<le> pp_projected_balance p" using p(1) by (intro Min_le) auto
  with p(2) have abs: "\<bar>?M\<bar> = - ?M" by simp
  have "- bal d \<le> - ?M" for d
  proof (cases "0 \<le> bal d")
    case True
    with \<open>?M \<le> pp_projected_balance p\<close> p(2) show ?thesis by simp
  next
    case False
    with days [of d] obtain e where "e \<in> set ds" "bal d = bal e" by auto
    with onto pt(1) obtain r where "r \<in> set pts" "pp_projected_balance r = bal d" by metis
    then have "?M \<le> bal d" by (metis Min_le finite_set image_eqI list.set_map)
    then show ?thesis by simp
  qed
  with abs q pt(1) show "(\<forall>d. - bal d \<le> \<bar>?M\<bar>) \<and> (\<exists>d. \<bar>?M\<bar> = - bal d)" by metis
qed

lemma exposure_stockout:
  fixes now aid part plant ips rs ts boms orders custs cost asm unc
  defines "E \<equiv> calculate_exposure now aid part plant ips rs ts boms orders custs cost asm unc"
  defines "bal \<equiv> balance_on (exr_usable_inventory E) rs ts
                  (component_demand_for_part part plant boms orders)"
  shows "case exr_first_stockout_date E of
           None \<Rightarrow> (\<forall>d. 0 \<le> bal d) \<and> exr_maximum_shortage_quantity E = 0
         | Some d \<Rightarrow> bal d < 0 \<and> (\<forall>d' < d. 0 \<le> bal d') \<and>
             (\<forall>d'. - bal d' \<le> exr_maximum_shortage_quantity E) \<and>
             (\<exists>d'. exr_maximum_shortage_quantity E = - bal d')"
proof -
  let ?dm = "component_demand_for_part part plant boms orders"
  let ?ds = "movement_days rs ts ?dm"
  let ?pts = "exr_projected_inventory E"
  have pts: "?pts = project_inventory (exr_usable_inventory E) rs ts ?dm"
    by (simp add: E_def calculate_exposure_def Let_def)
  have 1: "sorted ?ds" by (simp add: movement_days_def)
  have 2: "map pp_date ?pts = ?ds" "map pp_projected_balance ?pts = map bal ?ds"
    by (simp_all add: pts project_inventory_eq bal_def comp_def)
  have 3: "0 \<le> bal d \<or> (\<exists>e \<in> set ?ds. e \<le> d \<and> bal d = bal e)" for d
    using balance_on_movement_day [of "exr_usable_inventory E" rs ts ?dm d]
      usable_inventory_nonneg [of now aid part plant ips rs ts boms orders custs cost asm unc]
    by (auto simp: bal_def E_def)
  note so = stockout_of_projection [OF 1 2 3 refl]
  show ?thesis
  proof (cases "filter (\<lambda>p. pp_projected_balance p < 0) ?pts")
    case Nil
    then have "exr_first_stockout_date E = None" "exr_maximum_shortage_quantity E = 0"
      by (simp_all add: E_def calculate_exposure_def Let_def)
    with so(1) Nil show ?thesis by simp
  next
    case (Cons p ps)
    then have "exr_first_stockout_date E = Some (pp_date p)"
      "exr_maximum_shortage_quantity E = \<bar>Min (set (map pp_projected_balance ?pts))\<bar>"
      by (simp_all add: E_def calculate_exposure_def Let_def)
    with so Cons show ?thesis by simp
  qed
qed

section \<open>Affected orders\<close>

text \<open>
  The specification of the netting loop: orders are served first come, first served by due date
  and then id; an order is affected when the inventory and supply that has arrived by its due date
  does not cover the demand of all orders up to and including it.
\<close>

definition due_key :: "production_order \<Rightarrow> date \<times> string" where
  "due_key ord = (pro_due_date ord, pro_production_order_id ord)"

definition demand_through ::
    "(production_order \<Rightarrow> int) \<Rightarrow> production_order list \<Rightarrow> production_order \<Rightarrow> int" where
  "demand_through need orders ord =
     (\<Sum>ord' \<leftarrow> filter (\<lambda>ord'. due_key ord' \<le> due_key ord) orders. need ord')"

definition affected_spec ::
    "(date \<Rightarrow> int) \<Rightarrow> (production_order \<Rightarrow> int) \<Rightarrow> production_order list \<Rightarrow> string list" where
  "affected_spec avail need orders =
     map pro_production_order_id
       (filter (\<lambda>ord. avail (pro_due_date ord) < demand_through need orders ord)
          (sort_key due_key orders))"

text \<open>The loop over one sequence of orders, between the code's two loops and the specification.\<close>

fun serve ::
    "(date \<Rightarrow> int) \<Rightarrow> (production_order \<Rightarrow> int) \<Rightarrow> int \<Rightarrow> production_order list \<Rightarrow> string list" where
  "serve avail need used [] = []"
| "serve avail need used (ord # os) =
     (if avail (pro_due_date ord) - used < need ord then [pro_production_order_id ord] else []) @
     serve avail need (used + need ord) os"

lemma serve_append:
  "serve avail need u (xs @ ys) =
     serve avail need u xs @ serve avail need (u + (\<Sum>x\<leftarrow>xs. need x)) ys"
  by (induction xs arbitrary: u) (simp_all add: algebra_simps)

lemma net_day_serve:
  assumes "\<forall>ord \<in> set os. pro_due_date ord = d"
    and "\<And>ord. need ord = need' (pro_production_order_id ord)"
  shows "net_day need' (avail d - u) os =
    (avail d - u - (\<Sum>ord\<leftarrow>os. need ord), serve avail need u os)"
  using assms(1)
proof (induction os arbitrary: u)
  case (Cons ord os)
  then have "net_day need' (avail d - (u + need ord)) os =
      (avail d - (u + need ord) - (\<Sum>ord\<leftarrow>os. need ord), serve avail need (u + need ord) os)"
    by simp
  then show ?case
    using Cons.prems by (simp add: assms(2) [symmetric] Let_def diff_diff_eq add.assoc)
qed simp

lemma net_days_serve:
  assumes "sorted ds" "distinct ds"
    and "\<And>d. d \<in> set ds \<Longrightarrow> avail d = b + u + (\<Sum>e\<leftarrow>filter (\<lambda>e. e \<le> d) ds. supply e)"
    and need: "\<And>ord. need ord = need' (pro_production_order_id ord)"
    and due: "\<And>d ord. ord \<in> set (obd d) \<Longrightarrow> pro_due_date ord = d"
  shows "net_days supply obd need' b ds =
    serve avail need u (concat (map (\<lambda>d. sort_key pro_production_order_id (obd d)) ds))"
  using assms(1,2,3)
proof (induction ds arbitrary: b u)
  case (Cons d ds)
  let ?os = "sort_key pro_production_order_id (obd d)"
  let ?n = "\<Sum>ord\<leftarrow>?os. need ord"
  have "filter (\<lambda>e. e \<le> d) ds = []" using Cons.prems(1,2) by (auto simp: filter_empty_conv)
  then have ad: "avail d = b + u + supply d" using Cons.prems(3) [of d] by simp
  have day: "net_day need' (b + supply d) ?os = (b + supply d - ?n, serve avail need u ?os)"
    using net_day_serve [of ?os d need need' avail u] due need ad by simp
  have "avail e = (b + supply d - ?n) + (u + ?n) + (\<Sum>e\<leftarrow>filter (\<lambda>e'. e' \<le> e) ds. supply e)"
    if "e \<in> set ds" for e
    using Cons.prems(1,3) that by auto
  then have "net_days supply obd need' (b + supply d - ?n) ds =
      serve avail need (u + ?n)
        (concat (map (\<lambda>d. sort_key pro_production_order_id (obd d)) ds))"
    using Cons.prems(1,2) by (intro Cons.IH) auto
  with day show ?case by (simp add: serve_append)
qed simp

text \<open>Sorting by due date and id is sorting each day by id, day after day.\<close>

lemma concat_days_sort:
  assumes "sorted ds" "distinct ds" and "pro_due_date ` set orders \<subseteq> set ds"
    and dist: "distinct (map pro_production_order_id orders)"
  shows "concat (map (\<lambda>d. sort_key pro_production_order_id
             (filter (\<lambda>ord. pro_due_date ord = d) orders)) ds) = sort_key due_key orders"
    (is "?L = _")
proof -
  have m: "mset ?L = mset orders"
    using assms(1-3)
  proof -
    have "mset ?L = (\<Sum>d\<leftarrow>ds. mset (filter (\<lambda>ord. pro_due_date ord = d) orders))"
      by (induction ds) auto
    also have "\<dots> = mset orders"
      using assms(2,3)
    proof (induction orders)
      case Nil
      then show ?case by (induction ds) auto
    next
      case (Cons ord orders)
      have "(\<Sum>d\<leftarrow>ds. mset (filter (\<lambda>ord. pro_due_date ord = d) (ord # orders))) =
          (\<Sum>d\<leftarrow>ds. (if pro_due_date ord = d then {#ord#} else {#}) +
              mset (filter (\<lambda>ord. pro_due_date ord = d) orders))"
        by (intro arg_cong [where f = sum_list] map_cong) auto
      also have "\<dots> = {#ord#} + mset orders"
        using Cons by (simp add: sum_list_addf sum_list_distinct_conv_sum_set)
      finally show ?case by simp
    qed
    finally show ?thesis .
  qed
  have s: "sorted (map due_key ?L)"
    using assms(1,2)
  proof (induction ds)
    case (Cons d ds)
    let ?os = "sort_key pro_production_order_id (filter (\<lambda>ord. pro_due_date ord = d) orders)"
    have "sorted (map pro_production_order_id ?os)" by simp
    then have "sorted (map due_key ?os)"
      unfolding sorted_map by (rule sorted_wrt_mono_rel [rotated]) (auto simp: due_key_def)
    moreover have "due_key x \<le> due_key y"
      if "x \<in> set ?os"
        "y \<in> set (concat (map (\<lambda>d. sort_key pro_production_order_id
             (filter (\<lambda>ord. pro_due_date ord = d) orders)) ds))" for x y
    proof -
      have "pro_due_date x = d" "pro_due_date y \<in> set ds" using that by auto
      then have "pro_due_date x < pro_due_date y"
        using Cons.prems by (metis distinct.simps(2) less_le sorted_simps(2))
      then show ?thesis by (simp add: due_key_def)
    qed
    ultimately show ?case using Cons by (auto simp: sorted_append)
  qed simp
  have "distinct (map due_key orders)"
    using dist by (auto simp: distinct_map inj_on_def due_key_def)
  then have "sort_key due_key ?L = sort_key due_key orders"
    using m by (intro sort_key_perm) (auto simp: distinct_map_mset [OF m])
  with s show ?thesis by (simp add: sort_key_sorted_id)
qed

lemma serve_spec:
  assumes "sorted_wrt (\<lambda>x y. due_key x < due_key y) S"
  shows "serve avail need u S =
    map pro_production_order_id
      (filter (\<lambda>ord. avail (pro_due_date ord) - u < demand_through need S ord) S)"
  using assms
proof (induction S arbitrary: u)
  case (Cons x S)
  have 1: "demand_through need (x # S) x = need x"
  proof -
    have "filter (\<lambda>y. due_key y \<le> due_key x) S = []"
      using Cons.prems by (auto simp: filter_empty_conv not_le)
    then show ?thesis by (simp add: demand_through_def)
  qed
  have 2: "demand_through need (x # S) y = need x + demand_through need S y" if "y \<in> set S" for y
    using Cons.prems that by (auto simp: demand_through_def dest: less_imp_le)
  have "filter (\<lambda>ord. avail (pro_due_date ord) - (u + need x) < demand_through need S ord) S =
      filter (\<lambda>ord. avail (pro_due_date ord) - u < demand_through need (x # S) ord) S"
    using 2 by (intro filter_cong) auto
  with Cons 1 show ?case by auto
qed simp

lemma demand_through_perm:
  assumes "mset xs = mset ys"
  shows "demand_through need xs = demand_through need ys"
proof
  fix ord
  have "sum_mset (image_mset need (filter_mset (\<lambda>o'. due_key o' \<le> due_key ord) (mset xs))) =
      sum_mset (image_mset need (filter_mset (\<lambda>o'. due_key o' \<le> due_key ord) (mset ys)))"
    using assms by simp
  then show "demand_through need xs ord = demand_through need ys ord"
    by (simp add: demand_through_def flip: mset_filter mset_map sum_mset_sum_list)
qed

lemma strictly_sorted_due_key:
  assumes "distinct (map pro_production_order_id orders)"
  shows "sorted_wrt (\<lambda>x y. due_key x < due_key y) (sort_key due_key orders)"
proof -
  have "distinct (map due_key orders)"
    using assms by (auto simp: distinct_map inj_on_def due_key_def)
  then have "sorted_wrt (<) (map due_key (sort_key due_key orders))"
    by (simp add: strict_sorted_iff)
  then show ?thesis by (simp add: sorted_wrt_map)
qed

lemma affected_spec_cong:
  assumes "\<And>ord. ord \<in> set orders \<Longrightarrow> need ord = need' ord"
  shows "affected_spec avail need orders = affected_spec avail need' orders"
proof -
  have "demand_through need orders ord = demand_through need' orders ord" for ord
    unfolding demand_through_def using assms
    by (intro arg_cong [where f = sum_list] map_cong) auto
  then show ?thesis by (simp add: affected_spec_def)
qed

lemma demand_by_order_eq:
  assumes "distinct (map pro_production_order_id orders)" and "ord \<in> set orders"
  shows "map_option tq_quantity
           (dict_by tq_source_id (component_demand_for_part part plant boms orders)
             (pro_production_order_id ord)) =
         (if demands_part part plant boms ord then Some (order_demand part boms ord) else None)"
proof -
  let ?dm = "component_demand_for_part part plant boms orders"
  have ids: "map tq_source_id ?dm =
      map pro_production_order_id (filter (demands_part part plant boms) orders)"
    by (simp add: component_demand_for_part_def comp_def)
  show ?thesis
  proof (cases "demands_part part plant boms ord")
    case True
    let ?q = "\<lparr>tq_date = pro_due_date ord, tq_quantity = order_demand part boms ord,
        tq_source_id = pro_production_order_id ord\<rparr>"
    have "distinct (map tq_source_id ?dm)"
      using assms(1) by (simp add: ids distinct_map_filter)
    moreover have "?q \<in> set ?dm"
      using True assms(2) by (auto simp: component_demand_for_part_def)
    ultimately have "dict_by tq_source_id ?dm (tq_source_id ?q) = Some ?q"
      by (rule dict_by_distinct)
    with True show ?thesis by simp
  next
    case False
    have "pro_production_order_id ord \<notin> tq_source_id ` set ?dm"
    proof
      assume "pro_production_order_id ord \<in> tq_source_id ` set ?dm"
      then have "pro_production_order_id ord \<in> set (map tq_source_id ?dm)" by simp
      then obtain o' where o': "o' \<in> set orders" "demands_part part plant boms o'"
          "pro_production_order_id o' = pro_production_order_id ord"
        unfolding ids by auto
      with assms have "o' = ord" by (metis distinct_map inj_onD)
      with o'(2) False show False by simp
    qed
    with False show ?thesis by (simp add: dict_by_None)
  qed
qed

theorem affected_production_orders_eq:
  assumes dist: "distinct (map pro_production_order_id orders)"
  shows "affected_production_orders usable rs ts
           (component_demand_for_part part plant boms orders) orders =
         affected_spec (\<lambda>d. usable + tq_until rs d + tq_until ts d) (order_demand part boms)
           (filter (demands_part part plant boms) orders)"
proof -
  let ?dm = "component_demand_for_part part plant boms orders"
  let ?dbo = "\<lambda>i. map_option tq_quantity (dict_by tq_source_id ?dm i)"
  let ?need = "\<lambda>i. case ?dbo i of None \<Rightarrow> 0 | Some q \<Rightarrow> q"
  let ?L = "filter (demands_part part plant boms) orders"
  let ?ds = "sorted_set (map pro_due_date ?L @ map tq_date rs @ map tq_date ts)"
  let ?avail = "\<lambda>d. usable + tq_until rs d + tq_until ts d"
  have listed: "filter (\<lambda>ord. ?dbo (pro_production_order_id ord) \<noteq> None) orders = ?L"
    using demand_by_order_eq [OF dist] by (intro filter_cong) auto
  have "tq_date ` set rs \<subseteq> set ?ds" "tq_date ` set ts \<subseteq> set ?ds" by auto
  then have "?avail d = usable + 0 + (\<Sum>e\<leftarrow>filter (\<lambda>e. e \<le> d) ?ds. tq_at rs e + tq_at ts e)" for d
    by (simp add: sum_list_addf tq_until_days)
  then have "net_days (\<lambda>d. tq_at rs d + tq_at ts d) (\<lambda>d. filter (\<lambda>ord. pro_due_date ord = d) ?L)
        ?need usable ?ds =
      serve ?avail (\<lambda>ord. ?need (pro_production_order_id ord)) 0
        (concat (map (\<lambda>d. sort_key pro_production_order_id
            (filter (\<lambda>ord. pro_due_date ord = d) ?L)) ?ds))"
    by (intro net_days_serve) auto
  also have "concat (map (\<lambda>d. sort_key pro_production_order_id
            (filter (\<lambda>ord. pro_due_date ord = d) ?L)) ?ds) = sort_key due_key ?L"
    using dist by (intro concat_days_sort) (auto simp: distinct_map_filter)
  also have "serve ?avail (\<lambda>ord. ?need (pro_production_order_id ord)) 0 (sort_key due_key ?L) =
      affected_spec ?avail (\<lambda>ord. ?need (pro_production_order_id ord)) ?L"
    using dist strictly_sorted_due_key [of ?L]
      demand_through_perm [of "sort_key due_key ?L" ?L]
    by (simp add: serve_spec affected_spec_def distinct_map_filter)
  also have "\<dots> = affected_spec ?avail (order_demand part boms) ?L"
    using demand_by_order_eq [OF dist] by (intro affected_spec_cong) auto
  finally show ?thesis
    unfolding affected_production_orders_def Let_def listed .
qed

text \<open>The two loops agree: some order is affected exactly when some day runs short.\<close>

lemma order_demand_nonneg:
  assumes "demands_part part plant boms ord" and "wf_production_order ord"
  shows "0 < order_demand part boms ord"
  using assms by (auto simp: demands_part_def order_demand_def wf_production_order_def)

lemma tq_until_component_demand:
  "tq_until (component_demand_for_part part plant boms orders) d =
     (\<Sum>ord \<leftarrow> filter (\<lambda>ord. pro_due_date ord \<le> d)
                (filter (demands_part part plant boms) orders). order_demand part boms ord)"
  unfolding component_demand_for_part_def by (induction orders) auto

lemma sum_list_filter_mono:
  assumes "\<And>x. x \<in> set xs \<Longrightarrow> 0 \<le> (f x :: int)" and "\<And>x. P x \<Longrightarrow> Q x"
  shows "(\<Sum>x\<leftarrow>filter P xs. f x) \<le> (\<Sum>x\<leftarrow>filter Q xs. f x)"
  using assms(1)
proof (induction xs)
  case (Cons x xs)
  then show ?case using assms(2) [of x] by (cases "P x"; cases "Q x") fastforce+
qed simp

lemma affected_spec_empty_iff:
  assumes nonneg: "\<And>ord. ord \<in> set orders \<Longrightarrow> 0 \<le> need ord"
    and mono: "\<And>d e. d \<le> e \<Longrightarrow> avail d \<le> avail e" and pos: "\<And>d. 0 \<le> avail d"
  shows "affected_spec avail need orders = [] \<longleftrightarrow>
     (\<forall>d. (\<Sum>ord\<leftarrow>filter (\<lambda>ord. pro_due_date ord \<le> d) orders. need ord) \<le> avail d)"
    (is "?A \<longleftrightarrow> (\<forall>d. ?total d \<le> avail d)")
proof
  assume A: ?A
  then have cov: "demand_through need orders ord \<le> avail (pro_due_date ord)"
    if "ord \<in> set orders" for ord
    using that by (auto simp: affected_spec_def filter_empty_conv not_less)
  show "\<forall>d. ?total d \<le> avail d"
  proof
    fix d
    let ?D = "filter (\<lambda>ord. pro_due_date ord \<le> d) orders"
    show "?total d \<le> avail d"
    proof (cases "?D = []")
      case True
      then show ?thesis using pos by simp
    next
      case False
      define k where "k = Max (due_key ` set ?D)"
      have fin: "finite (due_key ` set ?D)" "due_key ` set ?D \<noteq> {}"
        using False by (auto simp del: set_filter)
      then have "k \<in> due_key ` set ?D" unfolding k_def by (rule Max_in)
      then obtain m where m: "m \<in> set ?D" "due_key m = k" by auto
      have "filter (\<lambda>o'. due_key o' \<le> due_key m) orders = ?D"
      proof (rule filter_cong [OF refl])
        fix x
        assume x: "x \<in> set orders"
        show "(due_key x \<le> due_key m) = (pro_due_date x \<le> d)"
        proof
          assume "due_key x \<le> due_key m"
          then have "pro_due_date x \<le> pro_due_date m"
            by (auto simp: due_key_def)
          with m(1) show "pro_due_date x \<le> d" by simp
        next
          assume "pro_due_date x \<le> d"
          with x have "due_key x \<in> due_key ` set ?D" by simp
          with fin(1) show "due_key x \<le> due_key m" unfolding m(2) k_def by (rule Max_ge)
        qed
      qed
      then have "?total d = demand_through need orders m" by (simp add: demand_through_def)
      also have "\<dots> \<le> avail (pro_due_date m)" using m(1) by (intro cov) simp
      also have "\<dots> \<le> avail d" using m(1) by (intro mono) simp
      finally show ?thesis .
    qed
  qed
next
  assume tot: "\<forall>d. ?total d \<le> avail d"
  have "demand_through need orders ord \<le> avail (pro_due_date ord)" for ord
  proof -
    have "demand_through need orders ord \<le> ?total (pro_due_date ord)"
      unfolding demand_through_def using nonneg
      by (intro sum_list_filter_mono) (auto simp: due_key_def)
    then show ?thesis using tot by (meson order_trans)
  qed
  then show ?A by (auto simp: affected_spec_def filter_empty_conv not_less)
qed

section \<open>A concrete exposure\<close>

text \<open>
  The RL-001 scenario with a bill of material of two components per product: 4,000 usable units,
  the Alpha receipt and the Dallas transfer against a demand of 5,000 and 5,800 units.
\<close>

definition ex_boms :: "bom_component list" where
  "ex_boms = [\<lparr>bom_bom_id = ''RL-BOM-1'', bom_product_id = ''RL-PROD-00000'',
               bom_component_part_id = ''RL-MAT-10247'', bom_quantity_per = 2\<rparr>]"

definition ex_receipts :: "timed_quantity list" where
  "ex_receipts = [\<lparr>tq_date = 739865, tq_quantity = 3000, tq_source_id = ''RL-ALPHA-OPTIONAL-3000''\<rparr>]"

definition ex_transfers :: "timed_quantity list" where
  "ex_transfers =
     [\<lparr>tq_date = 739864, tq_quantity = 1500, tq_source_id = ''RL-TRANSFER-DAL-CHI-1500''\<rparr>]"

definition ex_positions :: "inventory_position list" where
  "ex_positions = os_inventory_positions (rl001_snapshot ''RL-CASE-1'' RM_FALLBACK)"

definition ex_exposure :: exposure_result where
  "ex_exposure =
     calculate_exposure 0 ''RL-ANALYSIS-1'' ''RL-MAT-10247'' ''RL-PLANT-CHI'' ex_positions
       ex_receipts ex_transfers ex_boms rl001_production_orders rl001_customer_orders 0 [] []"

lemma ex_exposure_facts:
  "exr_usable_inventory ex_exposure = 4000"
  "exr_first_stockout_date ex_exposure = Some 739867"
  "exr_affected_production_order_ids ex_exposure = [''RL-MO-DEMO-2'']"
  by code_simp+

lemma ex_distinct: "distinct (map pro_production_order_id rl001_production_orders)"
  by (simp add: rl001_production_orders_def)

lemma ex_wf: "list_all wf_production_order rl001_production_orders"
  by (simp add: rl001_production_orders_def wf_production_order_def)

section \<open>Properties\<close>

text \<open>
  The day-by-day loop of \<open>project_inventory\<close> computes the cumulative balance: one
  point for every day with a movement, in increasing order of the days, and the projected balance of a
  day is the starting balance plus all receipts and transfers minus all demand up to that day.
\<close>

theorem projection_is_cumulative_balance:
  "project_inventory b rs ts dm =
     map (\<lambda>d. \<lparr>pp_date = d, pp_receipts = tq_at rs d, pp_transfers = tq_at ts d,
               pp_demand = tq_at dm d, pp_projected_balance = balance_on b rs ts dm d\<rparr>)
       (movement_days rs ts dm)"
  by (rule project_inventory_eq)

text \<open>
  C2.  The first stockout date of an exposure result is the earliest day on which cumulative
  demand exceeds usable inventory, receipts and transfers, and there is none exactly when no day
  runs short; the maximum shortage is the largest deficit any day ever shows.
\<close>

theorem exposure_first_stockout_and_shortage:
  fixes now aid part plant ips rs ts boms orders custs cost asm unc
  defines "E \<equiv> calculate_exposure now aid part plant ips rs ts boms orders custs cost asm unc"
  defines "bal \<equiv> balance_on (exr_usable_inventory E) rs ts
                  (component_demand_for_part part plant boms orders)"
  shows "case exr_first_stockout_date E of
           None \<Rightarrow> (\<forall>d. 0 \<le> bal d) \<and> exr_maximum_shortage_quantity E = 0
         | Some d \<Rightarrow> bal d < 0 \<and> (\<forall>d' < d. 0 \<le> bal d') \<and>
             (\<forall>d'. - bal d' \<le> exr_maximum_shortage_quantity E) \<and>
             (\<exists>d'. exr_maximum_shortage_quantity E = - bal d')"
  unfolding E_def bal_def by (rule exposure_stockout)

theorem exposure_first_stockout_and_shortage_witness:
  "exr_first_stockout_date ex_exposure = Some 739867 \<and>
   balance_on 4000 ex_receipts ex_transfers
     (component_demand_for_part ''RL-MAT-10247'' ''RL-PLANT-CHI'' ex_boms rl001_production_orders)
     739866 \<ge> 0"
  using exposure_first_stockout_and_shortage [of 0 "''RL-ANALYSIS-1''" "''RL-MAT-10247''"
      "''RL-PLANT-CHI''" ex_positions ex_receipts ex_transfers ex_boms rl001_production_orders
      rl001_customer_orders 0 "[]" "[]"]
  by (simp add: ex_exposure_facts flip: ex_exposure_def)

text \<open>
  C3.  With distinct order ids, the affected production orders are those a first-come,
  first-served allocation by due date and id cannot cover: the supply that has arrived by the
  order's due date is less than the demand of all orders up to and including it.
\<close>

theorem exposure_affected_orders:
  assumes "distinct (map pro_production_order_id orders)"
  shows "exr_affected_production_order_ids
      (calculate_exposure now aid part plant ips rs ts boms orders custs cost asm unc) =
    affected_spec
      (\<lambda>d. (\<Sum>p \<leftarrow> filter (\<lambda>p. ip_part_id p = part \<and> ip_plant_id p = plant) ips.
              calculate_usable_inventory p) + tq_until rs d + tq_until ts d)
      (order_demand part boms) (filter (demands_part part plant boms) orders)"
  using affected_production_orders_eq [OF assms]
  by (simp add: calculate_exposure_def Let_def)

theorem exposure_affected_orders_witness:
  "affected_spec (\<lambda>d. 4000 + tq_until ex_receipts d + tq_until ex_transfers d)
      (order_demand ''RL-MAT-10247'' ex_boms)
      (filter (demands_part ''RL-MAT-10247'' ''RL-PLANT-CHI'' ex_boms) rl001_production_orders) =
    [''RL-MO-DEMO-2'']"
proof -
  have "(\<Sum>p \<leftarrow> filter (\<lambda>p. ip_part_id p = ''RL-MAT-10247'' \<and> ip_plant_id p = ''RL-PLANT-CHI'')
      ex_positions. calculate_usable_inventory p) = 4000"
    by code_simp
  then show ?thesis
    using exposure_affected_orders [OF ex_distinct, of 0 "''RL-ANALYSIS-1''" "''RL-MAT-10247''"
        "''RL-PLANT-CHI''" ex_positions ex_receipts ex_transfers ex_boms rl001_customer_orders 0
        "[]" "[]"]
    by (simp add: ex_exposure_facts flip: ex_exposure_def)
qed

text \<open>
  The projection and the netting loop, two separate loops of the code, agree: a first
  stockout is reported exactly when some production order is reported affected.
\<close>

theorem stockout_iff_affected_orders:
  fixes now aid part plant ips rs ts boms orders custs cost asm unc
  defines "E \<equiv> calculate_exposure now aid part plant ips rs ts boms orders custs cost asm unc"
  assumes dist: "distinct (map pro_production_order_id orders)"
    and wf: "list_all wf_production_order orders"
    and rs: "\<forall>q \<in> set rs. 0 \<le> tq_quantity q" and ts: "\<forall>q \<in> set ts. 0 \<le> tq_quantity q"
  shows "exr_first_stockout_date E = None \<longleftrightarrow> exr_affected_production_order_ids E = []"
proof -
  let ?dm = "component_demand_for_part part plant boms orders"
  let ?L = "filter (demands_part part plant boms) orders"
  let ?u = "exr_usable_inventory E"
  have u: "0 \<le> ?u" unfolding E_def by (rule usable_inventory_nonneg)
  have "exr_affected_production_order_ids E =
      affected_production_orders ?u rs ts ?dm orders"
    by (simp add: E_def calculate_exposure_def Let_def)
  also have "\<dots> = affected_spec (\<lambda>d. ?u + tq_until rs d + tq_until ts d) (order_demand part boms) ?L"
    by (rule affected_production_orders_eq [OF dist])
  also have "\<dots> = [] \<longleftrightarrow> (\<forall>d. tq_until ?dm d \<le> ?u + tq_until rs d + tq_until ts d)"
    unfolding tq_until_component_demand
  proof (rule affected_spec_empty_iff)
    show "0 \<le> order_demand part boms ord" if "ord \<in> set ?L" for ord
      using that wf order_demand_nonneg [of part plant boms ord] by (auto simp: list_all_iff)
  qed (use u rs ts in \<open>auto intro!: add_mono tq_until_mono add_nonneg_nonneg tq_until_nonneg\<close>)
  also have "\<dots> \<longleftrightarrow> (\<forall>d. 0 \<le> balance_on ?u rs ts ?dm d)"
    by (simp add: balance_on_def)
  also have "\<dots> \<longleftrightarrow> exr_first_stockout_date E = None"
    using exposure_stockout [of now aid part plant ips rs ts boms orders custs cost asm unc]
    by (auto simp: E_def [symmetric] not_le split: option.splits)
  finally show ?thesis by simp
qed

theorem stockout_iff_affected_orders_witness:
  "exr_first_stockout_date ex_exposure \<noteq> None \<and> exr_affected_production_order_ids ex_exposure \<noteq> []"
  using stockout_iff_affected_orders [OF ex_distinct ex_wf, of ex_receipts ex_transfers 0
      "''RL-ANALYSIS-1''" "''RL-MAT-10247''" "''RL-PLANT-CHI''" ex_positions ex_boms
      rl001_customer_orders 0 "[]" "[]"]
  by (simp add: ex_exposure_facts ex_receipts_def ex_transfers_def flip: ex_exposure_def)

end
