(* ===== verification/Allocation.thy ===== *)
theory Allocation
  imports Domain_Analysis
begin

text \<open>
  The component supply allocator (\<open>services/analysis/exposure.py\<close>): component units are
  handed to the production orders in the caller's order, supply joins the pool when an order
  due no earlier than it is reached, and an order counts as protected only when it is covered
  completely.  The lemmas replace the loop's set of received dates by the list of due dates
  already processed and derive bounds, causality and monotonicity from that form.
\<close>

section \<open>Model\<close>

record order_allocation =
  oa_allocated_component_units :: int
  oa_uncovered_component_units :: int
  oa_full_and_on_time :: bool

record component_supply_allocation =
  csa_by_production_order_id :: "string \<Rightarrow> order_allocation option"
  csa_uncovered_component_units :: int

text \<open>\<open>ComponentSupplyAllocation.__getitem__\<close>.\<close>

definition csa_getitem ::
    "component_supply_allocation \<Rightarrow> string \<Rightarrow> order_allocation result" where
  "csa_getitem a production_order_id =
     the_or KeyError (csa_by_production_order_id a production_order_id)"

text \<open>The inner loop: dates not yet received and not after the due date join the pool.\<close>

fun receive_supply ::
    "(date \<Rightarrow> int) \<Rightarrow> date \<Rightarrow> date list \<Rightarrow> int \<Rightarrow> date list \<Rightarrow> int \<times> date list" where
  "receive_supply supply due [] available received = (available, received)"
| "receive_supply supply due (d # ds) available received =
     (if d \<le> due \<and> d \<notin> set received
      then receive_supply supply due ds (available + supply d) (d # received)
      else receive_supply supply due ds available received)"

definition missing_demand :: "production_order \<Rightarrow> py_error" where
  "missing_demand ord =
     ValueError (''Production order '' @ pro_production_order_id ord @
                 '' is missing component demand'')"

fun allocate_loop ::
    "(date \<Rightarrow> int) \<Rightarrow> date list \<Rightarrow> int \<Rightarrow> date list \<Rightarrow> int \<Rightarrow> production_order list \<Rightarrow>
     ((string \<times> order_allocation) list \<times> int) result" where
  "allocate_loop supply ds available received uncovered [] = Inr ([], uncovered)"
| "allocate_loop supply ds available received uncovered (ord # os) =
     (let (available', received') =
            receive_supply supply (pro_due_date ord) ds available received
      in case pro_component_demand ord of
           None \<Rightarrow> Inl (missing_demand ord)
         | Some demand \<Rightarrow>
             let allocated = min available' demand; order_uncovered = demand - allocated
             in bindR (allocate_loop supply ds (available' - allocated) received'
                         (uncovered + order_uncovered) os)
                  (\<lambda>(ps, u).
                     Inr ((pro_production_order_id ord,
                           \<lparr>oa_allocated_component_units = allocated,
                            oa_uncovered_component_units = order_uncovered,
                            oa_full_and_on_time = (order_uncovered = 0)\<rparr>) # ps, u)))"

text \<open>The dict of allocations: a later entry of an id replaces an earlier one.\<close>

definition allocate_component_supply ::
    "int \<Rightarrow> timed_quantity list \<Rightarrow> timed_quantity list \<Rightarrow> production_order list \<Rightarrow>
     component_supply_allocation result" where
  "allocate_component_supply starting_inventory receipts transfers production_orders =
     bindR (allocate_loop (tq_at (receipts @ transfers))
              (sorted_set (map tq_date (receipts @ transfers)))
              starting_inventory [] 0 production_orders)
       (\<lambda>(ps, u). Inr \<lparr>csa_by_production_order_id = map_of (rev ps),
                       csa_uncovered_component_units = u\<rparr>)"

section \<open>Reference allocation\<close>

text \<open>
  The reference form: what an order adds to the pool is the supply due by its date that no
  processed due date has released, and the result is the plain list of allocated amounts.
\<close>

definition released :: "date list \<Rightarrow> date \<Rightarrow> bool" where
  "released ps d \<longleftrightarrow> (\<exists>p \<in> set ps. d \<le> p)"

definition fresh_until :: "timed_quantity list \<Rightarrow> date list \<Rightarrow> date \<Rightarrow> int" where
  "fresh_until qs ps due =
     (\<Sum>q \<leftarrow> filter (\<lambda>q. tq_date q \<le> due \<and> \<not> released ps (tq_date q)) qs. tq_quantity q)"

fun ref_allocation ::
    "timed_quantity list \<Rightarrow> date list \<Rightarrow> int \<Rightarrow> (date \<times> int) list \<Rightarrow> int list" where
  "ref_allocation qs ps a [] = []"
| "ref_allocation qs ps a ((due, demand) # os) =
     (let a' = a + fresh_until qs ps due; x = min a' demand
      in x # ref_allocation qs (due # ps) (a' - x) os)"

definition order_needs :: "production_order list \<Rightarrow> (date \<times> int) list" where
  "order_needs os =
     map (\<lambda>ord. (pro_due_date ord, case pro_component_demand ord of None \<Rightarrow> 0 | Some d \<Rightarrow> d)) os"

definition allocation_entry :: "production_order \<Rightarrow> int \<Rightarrow> string \<times> order_allocation" where
  "allocation_entry ord x =
     (let demand = (case pro_component_demand ord of None \<Rightarrow> 0 | Some d \<Rightarrow> d)
      in (pro_production_order_id ord,
          \<lparr>oa_allocated_component_units = x, oa_uncovered_component_units = demand - x,
           oa_full_and_on_time = (demand - x = 0)\<rparr>))"

lemma length_ref_allocation [simp]: "length (ref_allocation qs ps a os) = length os"
  by (induction qs ps a os rule: ref_allocation.induct) (simp_all add: Let_def)

lemma receive_supply_eq:
  assumes "distinct ds"
  shows "receive_supply s due ds a rec =
     (a + (\<Sum>d\<leftarrow>filter (\<lambda>d. d \<le> due \<and> d \<notin> set rec) ds. s d),
      rev (filter (\<lambda>d. d \<le> due \<and> d \<notin> set rec) ds) @ rec)"
  using assms
proof (induction ds arbitrary: a rec)
  case (Cons d ds)
  have "filter (\<lambda>e. e \<le> due \<and> e \<noteq> d \<and> e \<notin> set rec) ds = filter (\<lambda>e. e \<le> due \<and> e \<notin> set rec) ds"
    using Cons.prems by (intro filter_cong) auto
  with Cons show ?case by (simp add: algebra_simps)
qed simp

lemma fresh_until_days:
  assumes "distinct ds" and "tq_date ` set qs \<subseteq> set ds"
  shows "(\<Sum>d\<leftarrow>filter (\<lambda>d. d \<le> due \<and> \<not> released ps d) ds. tq_at qs d) = fresh_until qs ps due"
  using assms(2)
proof (induction qs)
  case Nil
  show ?case by (induction ds) (simp_all add: fresh_until_def)
next
  case (Cons q qs)
  have "(\<Sum>d\<leftarrow>filter (\<lambda>d. d \<le> due \<and> \<not> released ps d) ds.
           if tq_date q = d then tq_quantity q else 0) =
      (if tq_date q \<le> due \<and> \<not> released ps (tq_date q) then tq_quantity q else 0)"
    using Cons.prems assms(1) by (simp add: sum_list_distinct_conv_sum_set)
  with Cons show ?case by (simp add: sum_list_addf fresh_until_def)
qed

lemma allocate_loop_ref:
  assumes "distinct ds" and "tq_date ` set qs \<subseteq> set ds"
    and "\<And>d. d \<in> set rec \<longleftrightarrow> d \<in> set ds \<and> released ps d"
    and "\<forall>ord \<in> set os. pro_component_demand ord \<noteq> None"
  shows "allocate_loop (tq_at qs) ds a rec u os =
    Inr (map2 allocation_entry os (ref_allocation qs ps a (order_needs os)),
         u + (\<Sum>(due, demand)\<leftarrow>order_needs os. demand) -
           sum_list (ref_allocation qs ps a (order_needs os)))"
  using assms(3,4)
proof (induction os arbitrary: rec ps a u)
  case (Cons ord os)
  obtain demand where dm: "pro_component_demand ord = Some demand" using Cons.prems(2) by auto
  let ?due = "pro_due_date ord"
  let ?F = "filter (\<lambda>d. d \<le> ?due \<and> d \<notin> set rec) ds"
  have F: "?F = filter (\<lambda>d. d \<le> ?due \<and> \<not> released ps d) ds"
    using Cons.prems(1) by (intro filter_cong) auto
  have pool: "a + (\<Sum>d\<leftarrow>?F. tq_at qs d) = a + fresh_until qs ps ?due"
    unfolding F using fresh_until_days [OF assms(1,2)] by simp
  have rec': "d \<in> set (rev ?F @ rec) \<longleftrightarrow> d \<in> set ds \<and> released (?due # ps) d" for d
    using Cons.prems(1) by (auto simp: released_def)
  have tail: "\<forall>ord \<in> set os. pro_component_demand ord \<noteq> None" using Cons.prems(2) by simp
  note IH = Cons.IH [OF rec' tail]
  show ?case
    by (simp add: receive_supply_eq [OF assms(1)] dm pool IH order_needs_def allocation_entry_def
        Let_def algebra_simps del: set_filter)
qed (simp add: order_needs_def)

lemma allocate_loop_Inr:
  "allocate_loop s ds a rec u os = Inr r \<Longrightarrow> \<forall>ord \<in> set os. pro_component_demand ord \<noteq> None"
proof (induction os arbitrary: a rec u r)
  case (Cons ord os)
  then show ?case
    by (auto simp: Let_def result_simps split: prod.splits option.splits)
qed simp

text \<open>The allocator is the reference allocation, entry by entry, wherever every order has a demand.\<close>

theorem allocate_component_supply_ref:
  fixes receipts transfers a os
  defines "xs \<equiv> ref_allocation (receipts @ transfers) [] a (order_needs os)"
  assumes "\<forall>ord \<in> set os. pro_component_demand ord \<noteq> None"
  shows "allocate_component_supply a receipts transfers os =
    Inr \<lparr>csa_by_production_order_id = map_of (rev (map2 allocation_entry os xs)),
         csa_uncovered_component_units = (\<Sum>(due, demand)\<leftarrow>order_needs os. demand) - sum_list xs\<rparr>"
proof -
  have "allocate_loop (tq_at (receipts @ transfers))
          (sorted_set (map tq_date (receipts @ transfers))) a [] 0 os =
      Inr (map2 allocation_entry os xs,
           0 + (\<Sum>(due, demand)\<leftarrow>order_needs os. demand) - sum_list xs)"
    unfolding xs_def using assms(2) by (intro allocate_loop_ref) (auto simp: released_def)
  then show ?thesis by (simp add: allocate_component_supply_def)
qed

lemma allocate_component_supply_Inr:
  "allocate_component_supply a rs ts os = Inr r \<Longrightarrow>
     \<forall>ord \<in> set os. pro_component_demand ord \<noteq> None"
  by (auto simp: allocate_component_supply_def result_simps dest!: allocate_loop_Inr)

lemma allocate_component_supply_total:
  "(\<exists>r. allocate_component_supply a rs ts os = Inr r) \<longleftrightarrow>
     (\<forall>ord \<in> set os. pro_component_demand ord \<noteq> None)"
  using allocate_component_supply_ref allocate_component_supply_Inr by metis

section \<open>Bounds, causality and monotonicity of the reference allocation\<close>

abbreviation nonneg_supply :: "timed_quantity list \<Rightarrow> bool" where
  "nonneg_supply qs \<equiv> \<forall>q \<in> set qs. 0 \<le> tq_quantity q"

lemma fresh_until_nonneg: "nonneg_supply qs \<Longrightarrow> 0 \<le> fresh_until qs ps d"
  unfolding fresh_until_def by (intro sum_list_nonneg) auto

lemma pool_nonneg: "nonneg_supply qs \<Longrightarrow> 0 \<le> a \<Longrightarrow> 0 \<le> a + fresh_until qs ps d"
  using fresh_until_nonneg [of qs ps d] by simp

lemma fresh_until_step:
  assumes "due \<le> M"
  shows "fresh_until qs ps M = fresh_until qs ps due + fresh_until qs (due # ps) M"
  using assms by (induction qs) (auto simp: fresh_until_def released_def)

lemma fresh_until_start: "fresh_until qs [] d = tq_until qs d"
  by (simp add: fresh_until_def tq_until_def released_def)

lemma fresh_until_append: "fresh_until (qs @ qs') ps d = fresh_until qs ps d + fresh_until qs' ps d"
  by (simp add: fresh_until_def)

lemma ref_allocation_bounds:
  assumes "nonneg_supply qs" and "0 \<le> a" and "\<forall>(due, demand) \<in> set os. 0 \<le> demand"
  shows "list_all2 (\<lambda>x (due, demand). 0 \<le> x \<and> x \<le> demand) (ref_allocation qs ps a os) os"
  using assms(2,3)
proof (induction os arbitrary: ps a)
  case (Cons o1 os)
  obtain due demand where o1: "o1 = (due, demand)" by force
  have "0 \<le> a + fresh_until qs ps due" by (rule pool_nonneg [OF assms(1) Cons.prems(1)])
  with Cons o1 show ?case by (simp add: Let_def min_def)
qed simp

lemma ref_allocation_le_demand:
  "list_all2 (\<lambda>x (due, demand). x \<le> demand) (ref_allocation qs ps a os) os"
  by (induction os arbitrary: ps a) (auto simp: Let_def)

text \<open>What the first orders receive is bounded by the supply due by the latest of their dates.\<close>

lemma nonneg_pool_prefix:
  assumes "nonneg_supply qs" and "0 \<le> a"
    and "\<forall>(due, demand) \<in> set (take n os). due \<le> M"
  shows "sum_list (take n (ref_allocation qs ps a os)) \<le> a + fresh_until qs ps M"
  using assms(2,3)
proof (induction os arbitrary: n ps a)
  case Nil
  then show ?case using pool_nonneg [OF assms(1)] by simp
next
  case (Cons o1 os)
  obtain due demand where o1: "o1 = (due, demand)" by force
  have pool: "0 \<le> a + fresh_until qs ps d" for d by (rule pool_nonneg [OF assms(1) Cons.prems(1)])
  show ?case
  proof (cases n)
    case 0
    then show ?thesis using pool by simp
  next
    case (Suc m)
    let ?a' = "a + fresh_until qs ps due"
    have due: "due \<le> M" using Cons.prems(2) Suc o1 by simp
    have "sum_list (take m (ref_allocation qs (due # ps) (?a' - min ?a' demand) os))
        \<le> ?a' - min ?a' demand + fresh_until qs (due # ps) M"
      using Cons.prems(2) Suc pool by (intro Cons.IH) auto
    with Suc o1 show ?thesis
      using fresh_until_step [OF due, of qs ps] by (simp add: Let_def)
  qed
qed

text \<open>A pool below zero is at zero as soon as the first order has been served.\<close>

lemma ref_allocation_prefix:
  assumes "nonneg_supply qs" and "0 \<le> a \<or> take n os \<noteq> []"
    and "\<forall>(due, demand) \<in> set (take n os). due \<le> M"
  shows "sum_list (take n (ref_allocation qs ps a os)) \<le> a + fresh_until qs ps M"
proof (cases "0 \<le> a")
  case True
  then show ?thesis using assms by (intro nonneg_pool_prefix) simp_all
next
  case False
  with assms(2) obtain due demand rest m where os: "os = (due, demand) # rest" and n: "n = Suc m"
    by (cases os; cases n; cases "hd os") auto
  let ?pool = "a + fresh_until qs ps due"
  have due: "due \<le> M" using assms(3) by (simp add: os n)
  have "sum_list (take m (ref_allocation qs (due # ps) (?pool - min ?pool demand) rest))
      \<le> ?pool - min ?pool demand + fresh_until qs (due # ps) M"
    using assms(3) by (intro nonneg_pool_prefix [OF assms(1)]) (simp_all add: os n)
  then show ?thesis
    using fresh_until_step [OF due, of qs ps] by (simp add: os n Let_def)
qed

text \<open>More supply and a larger pool never take anything away from an order.\<close>

lemma ref_allocation_mono:
  assumes "nonneg_supply extra" and "a \<le> a'"
  shows "list_all2 (\<le>) (ref_allocation qs ps a os) (ref_allocation (qs @ extra) ps a' os)"
  using assms(2)
proof (induction os arbitrary: ps a a')
  case (Cons o1 os)
  obtain due demand where o1: "o1 = (due, demand)" by force
  let ?b = "a + fresh_until qs ps due" and ?b' = "a' + fresh_until (qs @ extra) ps due"
  have le: "?b \<le> ?b'"
    using Cons.prems fresh_until_nonneg [OF assms(1), of ps due] by (simp add: fresh_until_append)
  then have "?b - min ?b demand \<le> ?b' - min ?b' demand" by simp
  then have "list_all2 (\<le>) (ref_allocation qs (due # ps) (?b - min ?b demand) os)
      (ref_allocation (qs @ extra) (due # ps) (?b' - min ?b' demand) os)"
    by (rule Cons.IH)
  moreover have "min ?b demand \<le> min ?b' demand" using le by simp
  ultimately show ?case using o1 by (simp add: Let_def)
qed simp

text \<open>The pool is a multiset of timed quantities: their order does not matter.\<close>

lemma fresh_until_perm: "mset qs = mset qs' \<Longrightarrow> fresh_until qs = fresh_until qs'"
proof -
  assume m: "mset qs = mset qs'"
  show "fresh_until qs = fresh_until qs'"
  proof (rule ext, rule ext)
    fix ps due
    let ?P = "\<lambda>q. tq_date q \<le> due \<and> \<not> released ps (tq_date q)"
    have "sum_mset (image_mset tq_quantity (filter_mset ?P (mset qs))) =
        sum_mset (image_mset tq_quantity (filter_mset ?P (mset qs')))"
      by (simp add: m)
    then show "fresh_until qs ps due = fresh_until qs' ps due"
      by (simp add: fresh_until_def flip: mset_filter mset_map sum_mset_sum_list)
  qed
qed

lemma ref_allocation_perm: "mset qs = mset qs' \<Longrightarrow> ref_allocation qs ps a os = ref_allocation qs' ps a os"
proof -
  assume "mset qs = mset qs'"
  note eq = fresh_until_perm [OF this]
  show ?thesis by (induction os arbitrary: ps a) (auto simp: Let_def eq)
qed

section \<open>The allocation of an order\<close>

lemma allocation_lookup:
  assumes alloc: "allocate_component_supply a rs ts os = Inr A"
    and dist: "distinct (map pro_production_order_id os)" and n: "n < length os"
  shows "csa_by_production_order_id A (pro_production_order_id (os ! n)) =
    Some (snd (allocation_entry (os ! n) (ref_allocation (rs @ ts) [] a (order_needs os) ! n)))"
proof -
  let ?xs = "ref_allocation (rs @ ts) [] a (order_needs os)"
  let ?ps = "map2 allocation_entry os ?xs"
  have len: "length ?xs = length os" by (simp add: order_needs_def)
  have A: "csa_by_production_order_id A = map_of (rev ?ps)"
    using allocate_component_supply_ref [OF allocate_component_supply_Inr [OF alloc], of a rs ts]
      alloc by auto
  have "map fst ?ps = map pro_production_order_id os"
    using len by (intro nth_equalityI) (simp_all add: allocation_entry_def Let_def)
  then have "distinct (map fst ?ps)" using dist by simp
  then have "map_of (rev ?ps) = map_of ?ps"
    by (intro map_of_inject_set [THEN iffD2]) (simp_all flip: rev_map)
  moreover have "(pro_production_order_id (os ! n),
      snd (allocation_entry (os ! n) (?xs ! n))) \<in> set ?ps"
  proof -
    have "allocation_entry (os ! n) (?xs ! n) \<in> set ?ps"
      using n len nth_mem [of n ?ps] by (simp del: set_map)
    then show ?thesis by (simp add: allocation_entry_def Let_def)
  qed
  ultimately show ?thesis
    using A \<open>distinct (map fst ?ps)\<close> by (simp add: map_of_is_SomeI)
qed

text \<open>Every order of the run has an entry.\<close>

lemma allocation_entries:
  assumes alloc: "allocate_component_supply a rs ts os = Inr A" and "ord \<in> set os"
  shows "csa_by_production_order_id A (pro_production_order_id ord) \<noteq> None"
proof -
  let ?ps = "map2 allocation_entry os (ref_allocation (rs @ ts) [] a (order_needs os))"
  have len: "length (ref_allocation (rs @ ts) [] a (order_needs os)) = length os"
    by (simp add: order_needs_def)
  have A: "csa_by_production_order_id A = map_of (rev ?ps)"
    using allocate_component_supply_ref [OF allocate_component_supply_Inr [OF alloc], of a rs ts]
      alloc by auto
  have "map fst ?ps = map pro_production_order_id os"
    using len by (intro nth_equalityI) (simp_all add: allocation_entry_def Let_def)
  then have "fst ` set ?ps = pro_production_order_id ` set os"
    by (metis list.set_map)
  then show ?thesis using assms(2) by (simp add: A map_of_eq_None_iff del: set_map)
qed

text \<open>The number of units an order was given, with its uncovered rest.\<close>

definition units_of :: "component_supply_allocation \<Rightarrow> production_order \<Rightarrow> int" where
  "units_of A ord =
     (case csa_by_production_order_id A (pro_production_order_id ord) of
        None \<Rightarrow> 0 | Some e \<Rightarrow> oa_allocated_component_units e)"

definition protects :: "component_supply_allocation \<Rightarrow> production_order \<Rightarrow> bool" where
  "protects A ord \<longleftrightarrow>
     (case csa_by_production_order_id A (pro_production_order_id ord) of
        None \<Rightarrow> False | Some e \<Rightarrow> oa_full_and_on_time e)"

lemma units_of_ref:
  assumes "allocate_component_supply a rs ts os = Inr A"
    and "distinct (map pro_production_order_id os)"
  shows "map (units_of A) os = ref_allocation (rs @ ts) [] a (order_needs os)"
proof (rule nth_equalityI)
  show "length (map (units_of A) os) = length (ref_allocation (rs @ ts) [] a (order_needs os))"
    by (simp add: order_needs_def)
next
  fix n
  assume "n < length (map (units_of A) os)"
  with allocation_lookup [OF assms, of n]
  show "map (units_of A) os ! n = ref_allocation (rs @ ts) [] a (order_needs os) ! n"
    by (simp add: units_of_def allocation_entry_def Let_def)
qed

lemma protects_iff:
  assumes "allocate_component_supply a rs ts os = Inr A"
    and "distinct (map pro_production_order_id os)" and "ord \<in> set os"
  shows "protects A ord \<longleftrightarrow> pro_component_demand ord = Some (units_of A ord)"
proof -
  obtain n where n: "n < length os" "ord = os ! n" using assms(3) by (auto simp: in_set_conv_nth)
  obtain d where "pro_component_demand ord = Some d"
    using allocate_component_supply_Inr [OF assms(1)] assms(3) by auto
  with allocation_lookup [OF assms(1,2) n(1)] n(2) show ?thesis
    by (auto simp: protects_def units_of_def allocation_entry_def Let_def)
qed

text \<open>
  With the orders in due-date order each one is given the least of its demand and of what is on
  hand by its own due date after the orders before it.
\<close>

lemma ref_allocation_sorted:
  assumes "sorted (map fst os)" and "n < length os"
  shows "ref_allocation qs ps a os ! n =
    min (snd (os ! n))
      (a + fresh_until qs ps (fst (os ! n)) - sum_list (take n (ref_allocation qs ps a os)))"
  using assms
proof (induction os arbitrary: n ps a)
  case (Cons o1 os)
  obtain due demand where o1: "o1 = (due, demand)" by force
  show ?case
  proof (cases n)
    case 0
    then show ?thesis using o1 by (simp add: Let_def)
  next
    case (Suc m)
    let ?a' = "a + fresh_until qs ps due"
    have m: "m < length os" using Cons.prems(2) Suc by simp
    then have le: "due \<le> fst (os ! m)" using Cons.prems(1) o1 by simp
    have "ref_allocation qs (due # ps) (?a' - min ?a' demand) os ! m =
      min (snd (os ! m)) (?a' - min ?a' demand + fresh_until qs (due # ps) (fst (os ! m)) -
        sum_list (take m (ref_allocation qs (due # ps) (?a' - min ?a' demand) os)))"
      using Cons.prems(1) m by (intro Cons.IH) simp_all
    with Suc o1 fresh_until_step [OF le, of qs ps] show ?thesis
      by (simp add: Let_def algebra_simps)
  qed
qed simp

definition demand_of :: "production_order \<Rightarrow> int" where
  "demand_of ord = (case pro_component_demand ord of None \<Rightarrow> 0 | Some d \<Rightarrow> d)"

lemma order_needs_demand_of: "order_needs os = map (\<lambda>ord. (pro_due_date ord, demand_of ord)) os"
  by (simp add: order_needs_def demand_of_def)

lemma allocation_grows:
  assumes "allocate_component_supply a rs ts os = Inr A"
    and "allocate_component_supply a' (rs @ rs') (ts @ ts') os = Inr A'"
    and "distinct (map pro_production_order_id os)"
    and "a \<le> a'" and "\<forall>q \<in> set (rs' @ ts'). 0 \<le> tq_quantity q"
  shows "(\<forall>ord \<in> set os. units_of A ord \<le> units_of A' ord) \<and>
    csa_uncovered_component_units A' \<le> csa_uncovered_component_units A \<and>
    (\<forall>ord \<in> set os. protects A ord \<longrightarrow> protects A' ord)"
proof -
  let ?xs = "ref_allocation (rs @ ts) [] a (order_needs os)"
  let ?qs' = "(rs @ rs') @ (ts @ ts')"
  have eq: "ref_allocation ?qs' [] a' (order_needs os) =
      ref_allocation ((rs @ ts) @ (rs' @ ts')) [] a' (order_needs os)"
    by (rule ref_allocation_perm) simp
  have xs: "map (units_of A) os = ?xs" by (rule units_of_ref [OF assms(1,3)])
  have xs': "map (units_of A') os = ref_allocation ?qs' [] a' (order_needs os)"
    by (rule units_of_ref [OF assms(2,3)])
  have le: "list_all2 (\<le>) (map (units_of A) os) (map (units_of A') os)"
    unfolding xs xs' eq by (rule ref_allocation_mono [OF assms(5,4)])
  then have units: "\<forall>ord \<in> set os. units_of A ord \<le> units_of A' ord"
    by (auto simp: list_all2_conv_all_nth in_set_conv_nth)
  have dem: "\<forall>ord \<in> set os. pro_component_demand ord \<noteq> None"
    by (rule allocate_component_supply_Inr [OF assms(1)])
  have un: "csa_uncovered_component_units A =
      (\<Sum>(due, demand)\<leftarrow>order_needs os. demand) - sum_list (map (units_of A) os)"
    using allocate_component_supply_ref [OF dem, of a rs ts] assms(1) xs by auto
  have un': "csa_uncovered_component_units A' =
      (\<Sum>(due, demand)\<leftarrow>order_needs os. demand) - sum_list (map (units_of A') os)"
    using allocate_component_supply_ref [OF dem, of a' "rs @ rs'" "ts @ ts'"] assms(2) xs' by auto
  have unc: "csa_uncovered_component_units A' \<le> csa_uncovered_component_units A"
    unfolding un un' using sum_list_mono [of os "units_of A" "units_of A'"] units by simp
  have "list_all2 (\<lambda>x (due, demand). x \<le> demand) (map (units_of A') os) (order_needs os)"
    unfolding xs' by (rule ref_allocation_le_demand)
  then have full: "units_of A' ord \<le> demand_of ord" if "ord \<in> set os" for ord
    using that by (auto simp: list_all2_conv_all_nth in_set_conv_nth order_needs_demand_of)
  have "protects A' ord" if "ord \<in> set os" "protects A ord" for ord
    using that units full [OF that(1)] protects_iff [OF assms(1,3) that(1)]
      protects_iff [OF assms(2,3) that(1)] by (force simp: demand_of_def)
  with units unc show ?thesis by blast
qed

lemma allocation_accounts:
  assumes "allocate_component_supply a rs ts os = Inr A"
    and "distinct (map pro_production_order_id os)"
  shows "\<forall>ord \<in> set os. units_of A ord \<le> demand_of ord"
    and "(\<Sum>ord\<leftarrow>os. units_of A ord) + csa_uncovered_component_units A = (\<Sum>ord\<leftarrow>os. demand_of ord)"
    and "nonneg_supply (rs @ ts) \<Longrightarrow> 0 \<le> a \<or> take n os \<noteq> [] \<Longrightarrow>
      \<forall>ord \<in> set (take n os). pro_due_date ord \<le> M \<Longrightarrow>
      (\<Sum>ord\<leftarrow>take n os. units_of A ord) \<le> a + tq_until (rs @ ts) M"
    and "nonneg_supply (rs @ ts) \<Longrightarrow> 0 \<le> a \<Longrightarrow> \<forall>ord \<in> set os. 0 \<le> demand_of ord \<Longrightarrow>
      \<forall>ord \<in> set os. 0 \<le> units_of A ord"
proof -
  let ?xs = "ref_allocation (rs @ ts) [] a (order_needs os)"
  let ?needs = "map (\<lambda>ord. (pro_due_date ord, demand_of ord)) os"
  have xs: "map (units_of A) os = ?xs" by (rule units_of_ref [OF assms(1,2)])
  have "list_all2 (\<lambda>x (due, demand). x \<le> demand) (map (units_of A) os) ?needs"
    using ref_allocation_le_demand [of "rs @ ts" "[]" a ?needs]
    unfolding xs order_needs_demand_of .
  then show "\<forall>ord \<in> set os. units_of A ord \<le> demand_of ord"
    by (auto simp: list_all2_conv_all_nth in_set_conv_nth)
  have "csa_uncovered_component_units A =
      (\<Sum>(due, demand)\<leftarrow>order_needs os. demand) - sum_list ?xs"
    using allocate_component_supply_ref [OF allocate_component_supply_Inr [OF assms(1)], of a rs ts]
      assms(1) by auto
  then show "(\<Sum>ord\<leftarrow>os. units_of A ord) + csa_uncovered_component_units A =
      (\<Sum>ord\<leftarrow>os. demand_of ord)"
    by (simp add: xs order_needs_demand_of comp_def)
  assume nonneg: "nonneg_supply (rs @ ts)"
  show "(\<Sum>ord\<leftarrow>take n os. units_of A ord) \<le> a + tq_until (rs @ ts) M"
    if "0 \<le> a \<or> take n os \<noteq> []" and "\<forall>ord \<in> set (take n os). pro_due_date ord \<le> M"
  proof -
    have "sum_list (take n ?xs) \<le> a + fresh_until (rs @ ts) [] M"
      using nonneg that by (intro ref_allocation_prefix) (auto simp: order_needs_demand_of take_map)
    then show ?thesis by (simp add: fresh_until_start take_map flip: xs)
  qed
  show "\<forall>ord \<in> set os. 0 \<le> units_of A ord" if "0 \<le> a" and "\<forall>ord \<in> set os. 0 \<le> demand_of ord"
  proof -
    have "list_all2 (\<lambda>x (due, demand). 0 \<le> x \<and> x \<le> demand) (map (units_of A) os) ?needs"
      unfolding xs order_needs_demand_of using nonneg that by (intro ref_allocation_bounds) auto
    then show ?thesis by (auto simp: list_all2_conv_all_nth in_set_conv_nth)
  qed
qed

lemma due_ordered_units:
  assumes "allocate_component_supply a rs ts os = Inr A"
    and "distinct (map pro_production_order_id os)"
    and "sorted (map pro_due_date os)" and "n < length os"
  defines "on_hand \<equiv> a + tq_until (rs @ ts) (pro_due_date (os ! n)) -
      (\<Sum>ord\<leftarrow>take n os. units_of A ord)"
  shows "units_of A (os ! n) = min (demand_of (os ! n)) on_hand \<and>
    (protects A (os ! n) \<longleftrightarrow> demand_of (os ! n) \<le> on_hand)"
proof -
  let ?xs = "ref_allocation (rs @ ts) [] a (order_needs os)"
  have xs: "map (units_of A) os = ?xs" by (rule units_of_ref [OF assms(1,2)])
  have fst: "map fst (order_needs os) = map pro_due_date os" by (simp add: order_needs_demand_of comp_def)
  have "?xs ! n = min (snd (order_needs os ! n))
      (a + fresh_until (rs @ ts) [] (fst (order_needs os ! n)) - sum_list (take n ?xs))"
    using assms(3,4) by (intro ref_allocation_sorted) (simp_all add: fst, simp add: order_needs_def)
  then have "map (units_of A) os ! n = min (snd (order_needs os ! n))
      (a + fresh_until (rs @ ts) [] (fst (order_needs os ! n)) -
        sum_list (take n (map (units_of A) os)))"
    unfolding xs .
  with assms(4) have u: "units_of A (os ! n) = min (demand_of (os ! n)) on_hand"
    by (simp add: fresh_until_start order_needs_demand_of on_hand_def take_map)
  obtain d where "pro_component_demand (os ! n) = Some d"
    using allocate_component_supply_Inr [OF assms(1)] assms(4) by (meson not_None_eq nth_mem)
  then have "protects A (os ! n) \<longleftrightarrow> units_of A (os ! n) = demand_of (os ! n)"
    using protects_iff [OF assms(1,2) nth_mem [OF assms(4)]] by (auto simp: demand_of_def)
  with u show ?thesis by (simp add: min_def)
qed

section \<open>The RL-001 example\<close>

definition ex_alpha_receipt :: timed_quantity where
  "ex_alpha_receipt =
     \<lparr>tq_date = 739865, tq_quantity = 3000, tq_source_id = ''RL-ALPHA-OPTIONAL-3000''\<rparr>"

definition ex_dallas_transfer :: timed_quantity where
  "ex_dallas_transfer =
     \<lparr>tq_date = 739864, tq_quantity = 1500, tq_source_id = ''RL-TRANSFER-DAL-CHI-1500''\<rparr>"

definition ex_allocation :: "timed_quantity list \<Rightarrow> component_supply_allocation" where
  "ex_allocation ts =
     (case allocate_component_supply 4000 [ex_alpha_receipt] ts rl001_production_orders of
        Inr A \<Rightarrow> A | Inl e \<Rightarrow> \<lparr>csa_by_production_order_id = Map.empty,
                               csa_uncovered_component_units = 0\<rparr>)"

lemma ex_allocation_eq:
  "allocate_component_supply 4000 [ex_alpha_receipt] ts rl001_production_orders =
     Inr (ex_allocation ts)"
proof -
  have "\<forall>ord \<in> set rl001_production_orders. pro_component_demand ord \<noteq> None"
    by (simp add: rl001_production_orders_def)
  then obtain A where
    "allocate_component_supply 4000 [ex_alpha_receipt] ts rl001_production_orders = Inr A"
    using allocate_component_supply_total by blast
  then show ?thesis by (simp add: ex_allocation_def)
qed

lemma ex_orders:
  "distinct (map pro_production_order_id rl001_production_orders)"
  "sorted (map pro_due_date rl001_production_orders)"
  "length rl001_production_orders = 2"
  "map demand_of rl001_production_orders = [5000, 5800]"
  by (simp_all add: rl001_production_orders_def demand_of_def)

lemma ex_demands: "\<forall>ord \<in> set rl001_production_orders. 0 \<le> demand_of ord"
  by (simp add: rl001_production_orders_def demand_of_def)

section \<open>Properties\<close>

text \<open>
  C5. Bounds and conservation, for orders with distinct ids: no order is given more than it
  demands, and what is handed out and what stays uncovered add up to the demand, whatever the
  quantities.  When no receipt or transfer has a negative quantity, the first orders together, one
  or more of them, never draw more than the starting pool and the supply due by the latest of their
  due dates; and when neither the pool nor a demand is negative either, no order is given a negative
  amount.  The snapshot does not rule out a negative pool, since the usable inventory is not clamped
  at zero.
\<close>

theorem allocation_bounds_and_conservation:
  assumes "allocate_component_supply a rs ts os = Inr A"
    and "distinct (map pro_production_order_id os)"
  shows "(\<forall>ord \<in> set os. units_of A ord \<le> demand_of ord) \<and>
    (\<Sum>ord\<leftarrow>os. units_of A ord) + csa_uncovered_component_units A = (\<Sum>ord\<leftarrow>os. demand_of ord) \<and>
    ((\<forall>q \<in> set (rs @ ts). 0 \<le> tq_quantity q) \<longrightarrow>
      (\<forall>n M. (0 \<le> a \<or> take n os \<noteq> []) \<and> (\<forall>ord \<in> set (take n os). pro_due_date ord \<le> M) \<longrightarrow>
         (\<Sum>ord\<leftarrow>take n os. units_of A ord) \<le> a + tq_until (rs @ ts) M) \<and>
      (0 \<le> a \<and> (\<forall>ord \<in> set os. 0 \<le> demand_of ord) \<longrightarrow> (\<forall>ord \<in> set os. 0 \<le> units_of A ord)))"
  using allocation_accounts [OF assms] by blast

theorem allocation_bounds_and_conservation_witness:
  "(\<Sum>ord\<leftarrow>rl001_production_orders. units_of (ex_allocation [ex_dallas_transfer]) ord) +
     csa_uncovered_component_units (ex_allocation [ex_dallas_transfer]) = 10800 \<and>
   units_of (ex_allocation [ex_dallas_transfer]) (hd rl001_production_orders) \<le> 5500"
proof -
  have qs: "\<forall>q \<in> set ([ex_alpha_receipt] @ [ex_dallas_transfer]). 0 \<le> tq_quantity q"
    by (simp add: ex_alpha_receipt_def ex_dallas_transfer_def)
  note C = allocation_bounds_and_conservation [OF ex_allocation_eq [of "[ex_dallas_transfer]"] ex_orders(1)]
  have sum: "(\<Sum>ord\<leftarrow>rl001_production_orders. demand_of ord) = 10800"
    unfolding ex_orders(4) by simp
  have take: "take 1 rl001_production_orders = [hd rl001_production_orders]"
    and due: "pro_due_date (hd rl001_production_orders) = 739864"
    by (simp_all add: rl001_production_orders_def)
  have "tq_until ([ex_alpha_receipt] @ [ex_dallas_transfer]) 739864 = 1500"
    by (simp add: ex_alpha_receipt_def ex_dallas_transfer_def)
  with C [THEN conjunct2, THEN conjunct2, THEN mp, OF qs, THEN conjunct1, rule_format, of 1 739864]
    C take due sum
  show ?thesis by simp
qed

text \<open>
  With the orders in due-date order (the baseline allocation) an order is given exactly the
  least of its demand and of the stock on hand by its own due date after the orders before it,
  and it is marked full and on time exactly when that stock covers its whole demand.
\<close>

theorem due_ordered_allocation_is_on_time:
  assumes "allocate_component_supply a rs ts os = Inr A"
    and "distinct (map pro_production_order_id os)"
    and "sorted (map pro_due_date os)" and "n < length os"
  defines "on_hand \<equiv> a + tq_until (rs @ ts) (pro_due_date (os ! n)) -
      (\<Sum>ord\<leftarrow>take n os. units_of A ord)"
  shows "units_of A (os ! n) = min (demand_of (os ! n)) on_hand \<and>
    (protects A (os ! n) \<longleftrightarrow> demand_of (os ! n) \<le> on_hand)"
  unfolding on_hand_def using assms(1-4) by (rule due_ordered_units)

theorem due_ordered_allocation_is_on_time_witness:
  "protects (ex_allocation [ex_dallas_transfer]) (hd rl001_production_orders) \<and>
   units_of (ex_allocation [ex_dallas_transfer]) (hd rl001_production_orders) = 5000"
proof -
  have "0 < length rl001_production_orders" by (simp add: ex_orders(3))
  note C = due_ordered_allocation_is_on_time
    [OF ex_allocation_eq [of "[ex_dallas_transfer]"] ex_orders(1,2) this]
  have "rl001_production_orders ! 0 = hd rl001_production_orders"
    and "pro_due_date (hd rl001_production_orders) = 739864"
    and "demand_of (hd rl001_production_orders) = 5000"
    by (simp_all add: rl001_production_orders_def demand_of_def)
  then show ?thesis using C by (simp add: ex_alpha_receipt_def ex_dallas_transfer_def)
qed

text \<open>
  C7. Monotonicity: adding receipts or transfers of nonnegative quantity, or starting from a
  larger pool, never takes a unit away from an order, never raises the uncovered total, and
  never unprotects an order.
\<close>

theorem allocation_monotone:
  assumes "allocate_component_supply a rs ts os = Inr A"
    and "allocate_component_supply a' (rs @ rs') (ts @ ts') os = Inr A'"
    and "distinct (map pro_production_order_id os)"
    and "a \<le> a'" and "\<forall>q \<in> set (rs' @ ts'). 0 \<le> tq_quantity q"
  shows "(\<forall>ord \<in> set os. units_of A ord \<le> units_of A' ord) \<and>
    csa_uncovered_component_units A' \<le> csa_uncovered_component_units A \<and>
    (\<forall>ord \<in> set os. protects A ord \<longrightarrow> protects A' ord)"
  using assms by (rule allocation_grows)

theorem allocation_monotone_witness:
  "csa_uncovered_component_units (ex_allocation [ex_dallas_transfer])
     \<le> csa_uncovered_component_units (ex_allocation [])"
proof -
  have eq: "allocate_component_supply 4000 ([ex_alpha_receipt] @ []) ([] @ [ex_dallas_transfer])
      rl001_production_orders = Inr (ex_allocation [ex_dallas_transfer])"
    using ex_allocation_eq by simp
  have "\<forall>q \<in> set ([] @ [ex_dallas_transfer]). 0 \<le> tq_quantity q"
    by (simp add: ex_dallas_transfer_def)
  from allocation_monotone [OF ex_allocation_eq eq ex_orders(1) order_refl this]
  show ?thesis by blast
qed

end
