(* ===== verification/Options.thy ===== *)
theory Options
  imports Allocation
begin

text \<open>
  The response options (\<open>services/analysis/options.py\<close>): the predicted outcome of an
  intervention, the availability guards, and the six options built from a snapshot.  A
  sort on the customer priority raises \<open>TypeError\<close> when some but not all of the
  priorities are missing; a missing component demand raises \<open>ValueError\<close>, no orders at
  all raise \<open>ZeroDivisionError\<close>, and a missing revenue or margin of an unprotected
  order raises \<open>TypeError\<close>.
\<close>

section \<open>Model\<close>

abbreviation MATERIAL_PLANNER :: string where "MATERIAL_PLANNER \<equiv> ''material_planner''"
abbreviation FINANCE_APPROVER :: string where "FINANCE_APPROVER \<equiv> ''finance_approver''"
abbreviation QUALITY_APPROVER :: string where "QUALITY_APPROVER \<equiv> ''quality_approver''"
abbreviation RESPONSE_APPROVER :: string where "RESPONSE_APPROVER \<equiv> ''response_approver''"

text \<open>\<open>services/policy/thresholds.py\<close>\<close>

definition DEFAULT_PREMIUM_FREIGHT_APPROVAL_THRESHOLD :: money where
  "DEFAULT_PREMIUM_FREIGHT_APPROVAL_THRESHOLD = 20000"

definition requires_finance_approval :: "money \<Rightarrow> bool" where
  "requires_finance_approval response_cost \<longleftrightarrow>
     DEFAULT_PREMIUM_FREIGHT_APPROVAL_THRESHOLD < response_cost"

definition calculate_approval_burden :: "string list \<Rightarrow> int" where
  "calculate_approval_burden prerequisite_roles =
     int (card (set (filter (\<lambda>role. role \<noteq> RESPONSE_APPROVER) prerequisite_roles)))"

definition calculate_execution_risk :: "int \<Rightarrow> int \<Rightarrow> int \<Rightarrow> int \<Rightarrow> int" where
  "calculate_execution_risk unconfirmed_external_commitments cross_plant_movements
       schedule_changes coordinated_action_count =
     2 * unconfirmed_external_commitments + cross_plant_movements + schedule_changes +
     max 0 (coordinated_action_count - 1)"

definition due_order :: "production_order list \<Rightarrow> production_order list" where
  "due_order = sort_key (\<lambda>ord. (pro_due_date ord, pro_production_order_id ord))"

text \<open>
  \<open>sorted\<close> by \<open>(customer_priority, production_order_id)\<close>: comparing
  \<open>None\<close> with an integer raises, and every sort of a list that mixes the two has
  to compare such a pair.
\<close>

definition priority_order :: "production_order list \<Rightarrow> production_order list result" where
  "priority_order os =
     (if (\<exists>ord \<in> set os. pro_customer_priority ord = None) \<and>
         (\<exists>ord \<in> set os. pro_customer_priority ord \<noteq> None)
      then Inl TypeError
      else Inr (sort_key (\<lambda>ord. (case pro_customer_priority ord of None \<Rightarrow> 0 | Some p \<Rightarrow> p,
                                     pro_production_order_id ord)) os))"

text \<open>\<open>sum(..., Decimal("0"))\<close> over optional amounts.\<close>

fun sum_money :: "money option list \<Rightarrow> money result" where
  "sum_money [] = Inr 0"
| "sum_money (None # xs) = Inl TypeError"
| "sum_money (Some x # xs) = bindR (sum_money xs) (\<lambda>s. Inr (x + s))"

definition calculate_intervention_outcome ::
    "operational_snapshot \<Rightarrow> timed_quantity list \<Rightarrow> timed_quantity list \<Rightarrow> bool \<Rightarrow> money \<Rightarrow>
     predicted_outcome result" where
  "calculate_intervention_outcome snapshot receipts transfers resequence_by_priority response_cost =
     bindR (if resequence_by_priority then priority_order (os_production_orders snapshot)
            else Inr (due_order (os_production_orders snapshot))) (\<lambda>orders.
     bindR (allocate_component_supply
              (usable_inventory snapshot (di_part_id (os_disruption snapshot))
                 (di_plant_id (os_disruption snapshot)))
              receipts transfers orders) (\<lambda>allocation.
     bindR (mapR (\<lambda>item. csa_getitem allocation (pro_production_order_id item)) orders)
       (\<lambda>entries.
     let protected = map fst (filter (\<lambda>(item, e). oa_full_and_on_time e) (zip orders entries));
         unprotected = filter (\<lambda>item. item \<notin> set protected) orders
     in
     bindR (require (orders \<noteq> []) ZeroDivisionError) (\<lambda>_.
     bindR (sum_money (map pro_customer_revenue unprotected)) (\<lambda>revenue.
     bindR (sum_money (map pro_customer_margin unprotected)) (\<lambda>margin.
     Inr \<lparr>pred_uncovered_part_demand = csa_uncovered_component_units allocation,
          pred_otif_loss_percentage =
            100 * (int (length orders) - int (length protected)) div int (length orders),
          pred_revenue_at_risk = revenue,
          pred_margin_at_risk = margin,
          pred_response_cost = response_cost,
          pred_protected_customer_order_ids =
            List.map_filter pro_customer_order_id protected\<rparr>))))))"

definition alpha_receipt :: "operational_snapshot \<Rightarrow> timed_quantity option" where
  "alpha_receipt snapshot =
     map_option (\<lambda>r. \<lparr>tq_date = sro_due_date r, tq_quantity = sro_quantity r,
                      tq_source_id = sro_receipt_id r\<rparr>) (os_alpha_expedite snapshot)"

definition dallas_transfer :: "operational_snapshot \<Rightarrow> timed_quantity" where
  "dallas_transfer snapshot =
     \<lparr>tq_date = it_arrival_date (os_transfer snapshot),
      tq_quantity = it_quantity (os_transfer snapshot),
      tq_source_id = it_transfer_id (os_transfer snapshot)\<rparr>"

definition option_roles :: "bool \<Rightarrow> bool \<Rightarrow> string list" where
  "option_roles finance_required quality_required =
     [MATERIAL_PLANNER] @ (if finance_required then [FINANCE_APPROVER] else []) @
     (if quality_required then [QUALITY_APPROVER] else [])"

definition unconfirmed_recovery_commitments :: "operational_snapshot \<Rightarrow> int" where
  "unconfirmed_recovery_commitments snapshot =
     (if di_recovery_date (os_disruption snapshot) = None then 1 else 0)"

definition recovery_uncertainties :: "operational_snapshot \<Rightarrow> string list" where
  "recovery_uncertainties snapshot =
     (if di_recovery_date (os_disruption snapshot) = None
      then [''Remaining supplier recovery date is unconfirmed.''] else [])"

definition transfer_available :: "operational_snapshot \<Rightarrow> bool" where
  "transfer_available snapshot \<longleftrightarrow>
     it_quantity (os_transfer snapshot) \<le>
       usable_inventory snapshot (it_part_id (os_transfer snapshot))
         (it_source_plant_id (os_transfer snapshot))"

definition resequence_available :: "operational_snapshot \<Rightarrow> bool result" where
  "resequence_available snapshot =
     bindR (priority_order (os_production_orders snapshot)) (\<lambda>os.
       Inr (map pro_production_order_id os \<noteq>
            map pro_production_order_id (due_order (os_production_orders snapshot))))"

definition cross_plant_movements :: "operational_snapshot \<Rightarrow> int" where
  "cross_plant_movements snapshot =
     (if it_source_plant_id (os_transfer snapshot) \<noteq> it_destination_plant_id (os_transfer snapshot)
      then 1 else 0)"

definition schedule_changes :: "bool \<Rightarrow> int" where
  "schedule_changes resequenced = of_bool resequenced"

definition coordinated_action_count :: "bool \<Rightarrow> bool \<Rightarrow> bool \<Rightarrow> int" where
  "coordinated_action_count expedite transfer resequence =
     of_bool expedite + of_bool transfer + of_bool resequence"

definition position_ids :: "operational_snapshot \<Rightarrow> string \<Rightarrow> string \<Rightarrow> string list" where
  "position_ids snapshot part_id plant_id =
     map ip_inventory_id (filter (\<lambda>p. ip_part_id p = part_id \<and> ip_plant_id p = plant_id)
                            (os_inventory_positions snapshot))"

definition option_lineage :: "operational_snapshot \<Rightarrow> bool \<Rightarrow> bool \<Rightarrow> bool \<Rightarrow> string list" where
  "option_lineage snapshot include_alpha include_transfer include_beta =
     [di_source_ref (os_disruption snapshot)] @
     position_ids snapshot (di_part_id (os_disruption snapshot))
       (di_plant_id (os_disruption snapshot)) @
     map pro_production_order_id (os_production_orders snapshot) @
     (case os_alpha_expedite snapshot of
        Some r \<Rightarrow> (if include_alpha then [sro_receipt_id r] else []) | None \<Rightarrow> []) @
     (if include_transfer
      then position_ids snapshot (it_part_id (os_transfer snapshot))
             (it_source_plant_id (os_transfer snapshot)) @ [it_transfer_id (os_transfer snapshot)]
      else []) @
     (if include_beta then [qq_evidence_ref (os_beta_qualification snapshot)] else [])"

definition make_response_option ::
    "string \<Rightarrow> response_option_kind \<Rightarrow> string \<Rightarrow> bool \<Rightarrow> bool \<Rightarrow> predicted_outcome option \<Rightarrow>
     string list \<Rightarrow> string list \<Rightarrow> string list \<Rightarrow> string list \<Rightarrow>
     response_option_evidence_requirement list \<Rightarrow> string list \<Rightarrow> int \<Rightarrow> int \<Rightarrow> int \<Rightarrow> int \<Rightarrow>
     response_option" where
  "make_response_option oid kind name executable active predicted roles codes assumptions
       evidence_ids requirements lineage unconfirmed movements changes actions =
     \<lparr>ro_option_id = oid, ro_option_kind = kind, ro_name = name, ro_executable = executable,
      ro_active_mitigation = active, ro_predicted = predicted, ro_assumptions = assumptions,
      ro_evidence_ids = evidence_ids, ro_evidence_requirements = requirements,
      ro_blocking_codes = codes, ro_prerequisite_roles = roles,
      ro_source_data_lineage = lineage, ro_approval_burden = calculate_approval_burden roles,
      ro_execution_risk = calculate_execution_risk unconfirmed movements changes actions,
      ro_requested_side_effects = []\<rparr>"

text \<open>The dict of \<open>_option_outcomes\<close>, with one field per key.\<close>

record option_outcomes =
  oo_no_mitigation :: predicted_outcome
  oo_expedite :: predicted_outcome
  oo_transfer :: predicted_outcome
  oo_resequence :: predicted_outcome
  oo_combined :: predicted_outcome

definition expedite_receipts :: "operational_snapshot \<Rightarrow> timed_quantity list" where
  "expedite_receipts snapshot =
     (case alpha_receipt snapshot of None \<Rightarrow> [] | Some r \<Rightarrow> [r])"

definition expedite_cost :: "operational_snapshot \<Rightarrow> money" where
  "expedite_cost snapshot =
     (case os_alpha_expedite snapshot of
        None \<Rightarrow> 0
      | Some r \<Rightarrow> of_int (sro_quantity r) * sro_incremental_cost_per_unit r)"

definition transfer_cost :: "operational_snapshot \<Rightarrow> money" where
  "transfer_cost snapshot =
     of_int (it_quantity (os_transfer snapshot)) *
     it_incremental_cost_per_unit (os_transfer snapshot)"

definition evaluate_option_outcomes :: "operational_snapshot \<Rightarrow> option_outcomes result" where
  "evaluate_option_outcomes s =
     (let receipts = expedite_receipts s; transfers = [dallas_transfer s] in
      bindR (calculate_intervention_outcome s [] [] False 0) (\<lambda>base.
      bindR (calculate_intervention_outcome s receipts [] False (expedite_cost s)) (\<lambda>expedite.
      bindR (calculate_intervention_outcome s [] transfers False (transfer_cost s)) (\<lambda>transfer.
      bindR (calculate_intervention_outcome s [] [] True 0) (\<lambda>resequence.
      bindR (calculate_intervention_outcome s receipts transfers True
               (expedite_cost s + transfer_cost s)) (\<lambda>combined.
      Inr \<lparr>oo_no_mitigation = base, oo_expedite = expedite, oo_transfer = transfer,
           oo_resequence = resequence, oo_combined = combined\<rparr>))))))"

definition quantity_and_date :: "string \<Rightarrow> response_option_evidence_requirement" where
  "quantity_and_date evidence_id =
     \<lparr>roer_evidence_id = evidence_id,
      roer_authority_scope = [AS_OPERATIONAL_QUANTITY, AS_OPERATIONAL_DATE]\<rparr>"

definition alpha_evidence :: "operational_snapshot \<Rightarrow> string list" where
  "alpha_evidence s =
     (case os_alpha_expedite s of None \<Rightarrow> [] | Some r \<Rightarrow> [sro_receipt_id r])"

definition build_options ::
    "operational_snapshot \<Rightarrow> option_outcomes \<Rightarrow> bool \<Rightarrow> response_option list" where
  "build_options s oo reseq_available =
     (let beta_blocked = (qq_status (os_beta_qualification s) \<noteq> QS_APPROVED);
          alpha_available = (os_alpha_expedite s \<noteq> None);
          transfer_ok = transfer_available s;
          transfer_id = it_transfer_id (os_transfer s);
          beta_ref = qq_evidence_ref (os_beta_qualification s);
          u = unconfirmed_recovery_commitments s; m = cross_plant_movements s
      in
      [make_response_option ''RL-OPTION-NO-MITIGATION'' ROK_NO_MITIGATION
         ''No-Mitigation Baseline'' False False (Some (oo_no_mitigation oo)) [] []
         [''Optional Alpha expedite receipt is excluded.''] [] []
         (option_lineage s False False False) 0 0 0 0,
       make_response_option ''RL-OPTION-EXPEDITE'' ROK_EXPEDITE
         ''Expedite Alpha partial receipt'' alpha_available True (Some (oo_expedite oo))
         (option_roles (requires_finance_approval (pred_response_cost (oo_expedite oo))) False)
         (if alpha_available then [] else [''ALPHA_PARTIAL_SHIPMENT_UNAVAILABLE''])
         ((if alpha_available then [''Alpha receipt is confirmed for its offered due date.'']
           else [''No positive Alpha partial-shipment offer is available.'']) @
          recovery_uncertainties s)
         (alpha_evidence s) (map quantity_and_date (alpha_evidence s))
         (option_lineage s True False False) u 0 0 (coordinated_action_count True False False),
       make_response_option ''RL-OPTION-TRANSFER'' ROK_TRANSFER
         ''Transfer inventory from Dallas'' transfer_ok True (Some (oo_transfer oo))
         (option_roles False False)
         (if transfer_ok then [] else [''TRANSFER_INVENTORY_UNAVAILABLE''])
         [] [transfer_id] [quantity_and_date transfer_id]
         (option_lineage s False True False) 0 m 0 (coordinated_action_count False True False),
       make_response_option ''RL-OPTION-RESEQUENCE'' ROK_RESEQUENCE
         ''Resequence production toward priority customers'' reseq_available True
         (Some (oo_resequence oo)) (option_roles False False)
         (if reseq_available then [] else [''RESEQUENCE_NOT_APPLICABLE''])
         [] [] [] (option_lineage s False False False) 0 0 (schedule_changes True)
         (coordinated_action_count False False True),
       make_response_option ''RL-OPTION-BETA'' ROK_ALTERNATE_SOURCE
         ''Source from Supplier Beta'' (\<not> beta_blocked) True
         (if beta_blocked then None else Some (oo_no_mitigation oo))
         (option_roles False True)
         (if beta_blocked then [''QUALITY_QUALIFICATION_PENDING''] else [])
         (if beta_blocked then []
          else [''No confirmed Beta receipt quantity or date; conservative '' @
                ''baseline exposure is retained.''])
         [beta_ref]
         [\<lparr>roer_evidence_id = beta_ref, roer_authority_scope = [AS_QUALIFICATION_STATE]\<rparr>]
         (option_lineage s False False True) u 0 0 (coordinated_action_count True False False),
       make_response_option ''RL-OPTION-COMBINED'' ROK_COMBINED
         ''Combine expedite, transfer, and resequencing''
         (alpha_available \<and> transfer_ok \<and> reseq_available) True (Some (oo_combined oo))
         (option_roles (requires_finance_approval (pred_response_cost (oo_combined oo))) False)
         ((if alpha_available then [] else [''ALPHA_PARTIAL_SHIPMENT_UNAVAILABLE'']) @
          (if transfer_ok then [] else [''TRANSFER_INVENTORY_UNAVAILABLE'']) @
          (if reseq_available then [] else [''RESEQUENCE_NOT_APPLICABLE'']))
         (recovery_uncertainties s)
         (alpha_evidence s @ [transfer_id])
         (map quantity_and_date (alpha_evidence s) @ [quantity_and_date transfer_id])
         (option_lineage s True True False) u m (schedule_changes True)
         (coordinated_action_count True True True)])"

definition evaluate_response_options :: "operational_snapshot \<Rightarrow> response_option list result" where
  "evaluate_response_options snapshot =
     bindR (evaluate_option_outcomes snapshot) (\<lambda>outcomes.
     bindR (resequence_available snapshot) (\<lambda>reseq.
     Inr (build_options snapshot outcomes reseq)))"

definition calculate_option_outcome ::
    "operational_snapshot \<Rightarrow> string \<Rightarrow> predicted_outcome result" where
  "calculate_option_outcome snapshot option_id =
     bindR (evaluate_response_options snapshot) (\<lambda>options.
       case find (\<lambda>opt. ro_option_id opt = option_id) options of
         None \<Rightarrow> Inl (ValueError (''Unknown response option: '' @ option_id))
       | Some opt \<Rightarrow>
           (case ro_predicted opt of
              None \<Rightarrow> Inl (ValueError (''Response option '' @ option_id @
                                      '' has no predicted outcome''))
            | Some p \<Rightarrow> Inr p))"

section \<open>Outcomes\<close>

text \<open>The order an intervention serves the production orders in.\<close>

definition serving_order :: "bool \<Rightarrow> production_order list \<Rightarrow> production_order list result" where
  "serving_order resequence os = (if resequence then priority_order os else Inr (due_order os))"

definition snapshot_pool :: "operational_snapshot \<Rightarrow> int" where
  "snapshot_pool s = usable_inventory s (di_part_id (os_disruption s)) (di_plant_id (os_disruption s))"

definition complete_order :: "production_order \<Rightarrow> bool" where
  "complete_order ord \<longleftrightarrow> pro_component_demand ord \<noteq> None \<and> pro_customer_revenue ord \<noteq> None \<and>
     pro_customer_margin ord \<noteq> None \<and> pro_customer_priority ord \<noteq> None"

definition money_of :: "money option \<Rightarrow> money" where
  "money_of m = (case m of None \<Rightarrow> 0 | Some x \<Rightarrow> x)"

lemma sum_money_Inr_iff:
  "sum_money ms = Inr x \<longleftrightarrow> None \<notin> set ms \<and> x = (\<Sum>m\<leftarrow>ms. money_of m)"
  by (induction ms arbitrary: x rule: sum_money.induct) (auto simp: result_simps money_of_def)

lemma serving_order_perm:
  "serving_order r os = Inr os' \<Longrightarrow> mset os' = mset os"
  by (auto simp: serving_order_def priority_order_def due_order_def split: if_splits)

lemma serving_order_total:
  "\<forall>ord \<in> set os. pro_customer_priority ord \<noteq> None \<Longrightarrow> \<exists>os'. serving_order r os = Inr os'"
  by (auto simp: serving_order_def priority_order_def)

lemma perm_facts:
  assumes "mset xs = mset ys"
  shows "set xs = set ys" "length xs = length ys" "distinct (map f xs) \<longleftrightarrow> distinct (map f ys)"
  using assms by (auto dest: mset_eq_setD mset_eq_length simp: distinct_map_mset [OF assms])

lemma filter_zip_lookup:
  assumes "mapR (\<lambda>x. the_or e (f x)) xs = Inr ys"
  shows "map fst (filter (\<lambda>(x, y). P y) (zip xs ys)) =
    filter (\<lambda>x. case f x of None \<Rightarrow> False | Some y \<Rightarrow> P y) xs"
  using assms by (induction xs arbitrary: ys) (auto simp: result_simps the_or_def split: option.splits)

definition outcome_of ::
    "component_supply_allocation \<Rightarrow> production_order list \<Rightarrow> money \<Rightarrow> predicted_outcome" where
  "outcome_of A os c =
     \<lparr>pred_uncovered_part_demand = csa_uncovered_component_units A,
      pred_otif_loss_percentage =
        100 * (int (length os) - int (length (filter (protects A) os))) div int (length os),
      pred_revenue_at_risk =
        (\<Sum>ord\<leftarrow>filter (\<lambda>ord. \<not> protects A ord) os. money_of (pro_customer_revenue ord)),
      pred_margin_at_risk =
        (\<Sum>ord\<leftarrow>filter (\<lambda>ord. \<not> protects A ord) os. money_of (pro_customer_margin ord)),
      pred_response_cost = c,
      pred_protected_customer_order_ids =
        List.map_filter pro_customer_order_id (filter (protects A) os)\<rparr>"

text \<open>Every outcome is read off one allocation of the serving order.\<close>

lemma intervention_outcome_Inr_iff:
  "calculate_intervention_outcome s rs ts r c = Inr p \<longleftrightarrow>
     (\<exists>os A. serving_order r (os_production_orders s) = Inr os \<and>
        allocate_component_supply (snapshot_pool s) rs ts os = Inr A \<and> os \<noteq> [] \<and>
        (\<forall>ord \<in> set os. \<not> protects A ord \<longrightarrow>
           pro_customer_revenue ord \<noteq> None \<and> pro_customer_margin ord \<noteq> None) \<and>
        p = outcome_of A os c)"
proof -
  have run: "(bindR (mapR (\<lambda>item. csa_getitem A (pro_production_order_id item)) os)
       (\<lambda>entries.
         let protected = map fst (filter (\<lambda>(item, e). oa_full_and_on_time e) (zip os entries));
             unprotected = filter (\<lambda>item. item \<notin> set protected) os
         in
         bindR (require (os \<noteq> []) ZeroDivisionError) (\<lambda>_.
         bindR (sum_money (map pro_customer_revenue unprotected)) (\<lambda>revenue.
         bindR (sum_money (map pro_customer_margin unprotected)) (\<lambda>margin.
         Inr \<lparr>pred_uncovered_part_demand = csa_uncovered_component_units A,
              pred_otif_loss_percentage =
                100 * (int (length os) - int (length protected)) div int (length os),
              pred_revenue_at_risk = revenue,
              pred_margin_at_risk = margin,
              pred_response_cost = c,
              pred_protected_customer_order_ids =
                List.map_filter pro_customer_order_id protected\<rparr>)))) = Inr p) \<longleftrightarrow>
      (os \<noteq> [] \<and>
        (\<forall>ord \<in> set os. \<not> protects A ord \<longrightarrow>
           pro_customer_revenue ord \<noteq> None \<and> pro_customer_margin ord \<noteq> None) \<and>
        p = outcome_of A os c)"
    if alloc: "allocate_component_supply (snapshot_pool s) rs ts os = Inr A" for os A
  proof -
    let ?f = "\<lambda>item. csa_by_production_order_id A (pro_production_order_id item)"
    have "\<exists>ys. mapR (\<lambda>item. the_or KeyError (?f item)) os = Inr ys"
      using mapR_total [of os "\<lambda>item. the_or KeyError (?f item)" "\<lambda>item. the (?f item)"]
        allocation_entries [OF alloc] by (force simp: the_or_def split: option.splits)
    then obtain ys where ys: "mapR (\<lambda>item. the_or KeyError (?f item)) os = Inr ys" by blast
    have prot: "map fst (filter (\<lambda>(item, e). oa_full_and_on_time e) (zip os ys)) =
        filter (protects A) os"
      using filter_zip_lookup [OF ys] by (simp add: protects_def [abs_def])
    have unprot: "filter (\<lambda>item. item \<notin> set (filter (protects A) os)) os =
        filter (\<lambda>ord. \<not> protects A ord) os"
      by (intro filter_cong) auto
    show ?thesis
      unfolding csa_getitem_def ys bindR_simps prot Let_def unprot outcome_of_def
      by (auto simp: result_simps sum_money_Inr_iff comp_def image_iff eq_commute [of None])
  qed
  show ?thesis
    unfolding calculate_intervention_outcome_def serving_order_def [symmetric]
      snapshot_pool_def [symmetric] bindR_Inr_iff [of "serving_order r (os_production_orders s)"]
      bindR_Inr_iff [of "allocate_component_supply (snapshot_pool s) rs ts os" for os]
    using run by auto
qed

lemma intervention_outcome_total:
  assumes "os_production_orders s \<noteq> []" and "\<forall>ord \<in> set (os_production_orders s). complete_order ord"
  shows "\<exists>p. calculate_intervention_outcome s rs ts r c = Inr p"
proof -
  obtain os where os: "serving_order r (os_production_orders s) = Inr os"
    using serving_order_total [of "os_production_orders s" r] assms(2)
    by (auto simp: complete_order_def)
  then have m: "mset os = mset (os_production_orders s)" by (rule serving_order_perm)
  then have c: "\<forall>ord \<in> set os. complete_order ord" using assms(2) perm_facts(1) by blast
  then obtain A where A: "allocate_component_supply (snapshot_pool s) rs ts os = Inr A"
    using allocate_component_supply_total unfolding complete_order_def by blast
  have "os \<noteq> []" using m assms(1) by auto
  then show ?thesis
    using os A c unfolding intervention_outcome_Inr_iff complete_order_def by blast
qed

lemma sum_filter_mono:
  fixes f :: "'a \<Rightarrow> rat"
  assumes "\<And>x. x \<in> set xs \<Longrightarrow> 0 \<le> f x" and "\<And>x. x \<in> set xs \<Longrightarrow> P x \<Longrightarrow> Q x"
  shows "(\<Sum>x\<leftarrow>filter P xs. f x) \<le> (\<Sum>x\<leftarrow>filter Q xs. f x)"
  using assms by (induction xs) (auto simp: add_increasing)

lemma length_filter_mono:
  "(\<And>x. x \<in> set xs \<Longrightarrow> P x \<Longrightarrow> Q x) \<Longrightarrow> length (filter P xs) \<le> length (filter Q xs)"
  by (induction xs) (auto simp: le_SucI)

lemma set_map_filter: "set (List.map_filter f xs) = {y. \<exists>x \<in> set xs. f x = Some y}"
  by (induction xs) (auto simp: List.map_filter_simps split: option.splits)

definition outcome_at_most :: "predicted_outcome \<Rightarrow> predicted_outcome \<Rightarrow> bool" where
  "outcome_at_most p' p \<longleftrightarrow>
     pred_uncovered_part_demand p' \<le> pred_uncovered_part_demand p \<and>
     pred_otif_loss_percentage p' \<le> pred_otif_loss_percentage p \<and>
     pred_revenue_at_risk p' \<le> pred_revenue_at_risk p \<and>
     pred_margin_at_risk p' \<le> pred_margin_at_risk p \<and>
     set (pred_protected_customer_order_ids p) \<subseteq> set (pred_protected_customer_order_ids p')"

lemma outcome_improves:
  assumes p: "calculate_intervention_outcome s rs ts r c = Inr p"
    and p': "calculate_intervention_outcome s (rs @ rs') (ts @ ts') r c' = Inr p'"
    and dist: "distinct (map pro_production_order_id (os_production_orders s))"
    and qs: "\<forall>q \<in> set (rs' @ ts'). 0 \<le> tq_quantity q"
    and amounts: "\<forall>ord \<in> set (os_production_orders s).
      0 \<le> money_of (pro_customer_revenue ord) \<and> 0 \<le> money_of (pro_customer_margin ord)"
  shows "outcome_at_most p' p"
proof -
  obtain os A where os: "serving_order r (os_production_orders s) = Inr os"
    and A: "allocate_component_supply (snapshot_pool s) rs ts os = Inr A" and ne: "os \<noteq> []"
    and p_eq: "p = outcome_of A os c"
    using p unfolding intervention_outcome_Inr_iff by blast
  obtain A' where A': "allocate_component_supply (snapshot_pool s) (rs @ rs') (ts @ ts') os = Inr A'"
    and p'_eq: "p' = outcome_of A' os c'"
    using p' os unfolding intervention_outcome_Inr_iff by auto
  note m = serving_order_perm [OF os]
  have "distinct (map pro_production_order_id os)" using dist perm_facts(3) [OF m] by blast
  from allocation_grows [OF A A' this order_refl qs]
  have unc: "csa_uncovered_component_units A' \<le> csa_uncovered_component_units A"
    and prot: "\<And>ord. ord \<in> set os \<Longrightarrow> protects A ord \<Longrightarrow> protects A' ord"
    by blast+
  have am: "0 \<le> money_of (pro_customer_revenue ord)" "0 \<le> money_of (pro_customer_margin ord)"
    if "ord \<in> set os" for ord
    using amounts that perm_facts(1) [OF m] by blast+
  have len: "length (filter (protects A) os) \<le> length (filter (protects A') os)"
    using prot by (rule length_filter_mono)
  have "100 * (int (length os) - int (length (filter (protects A') os))) div int (length os)
      \<le> 100 * (int (length os) - int (length (filter (protects A) os))) div int (length os)"
    using len ne by (intro zdiv_mono1) simp_all
  moreover have
    "(\<Sum>ord\<leftarrow>filter (\<lambda>ord. \<not> protects A' ord) os. money_of (pro_customer_revenue ord)) \<le>
     (\<Sum>ord\<leftarrow>filter (\<lambda>ord. \<not> protects A ord) os. money_of (pro_customer_revenue ord))"
    "(\<Sum>ord\<leftarrow>filter (\<lambda>ord. \<not> protects A' ord) os. money_of (pro_customer_margin ord)) \<le>
     (\<Sum>ord\<leftarrow>filter (\<lambda>ord. \<not> protects A ord) os. money_of (pro_customer_margin ord))"
    using am prot by (auto intro!: sum_filter_mono)
  moreover have "{y. \<exists>ord \<in> set (filter (protects A) os). pro_customer_order_id ord = Some y} \<subseteq>
      {y. \<exists>ord \<in> set (filter (protects A') os). pro_customer_order_id ord = Some y}"
    using prot by auto
  ultimately show ?thesis
    using unc unfolding outcome_at_most_def p_eq p'_eq outcome_of_def
    by (simp add: set_map_filter)
qed

lemma evaluate_response_options_Inr_iff:
  "evaluate_response_options s = Inr opts \<longleftrightarrow>
     (\<exists>oo r. evaluate_option_outcomes s = Inr oo \<and> resequence_available s = Inr r \<and>
        opts = build_options s oo r)"
  by (auto simp: evaluate_response_options_def result_simps)

lemma evaluate_option_outcomes_Inr:
  assumes "evaluate_option_outcomes s = Inr oo"
  shows "calculate_intervention_outcome s [] [] False 0 = Inr (oo_no_mitigation oo)"
    "calculate_intervention_outcome s (expedite_receipts s) [] False (expedite_cost s) =
       Inr (oo_expedite oo)"
    "calculate_intervention_outcome s [] [dallas_transfer s] False (transfer_cost s) =
       Inr (oo_transfer oo)"
    "calculate_intervention_outcome s [] [] True 0 = Inr (oo_resequence oo)"
    "calculate_intervention_outcome s (expedite_receipts s) [dallas_transfer s] True
       (expedite_cost s + transfer_cost s) = Inr (oo_combined oo)"
  using assms by (auto simp: evaluate_option_outcomes_def Let_def result_simps)

lemma outcome_cost:
  "calculate_intervention_outcome s rs ts r c = Inr p \<Longrightarrow> pred_response_cost p = c"
  by (auto simp: intervention_outcome_Inr_iff outcome_of_def)

lemma option_supply_nonneg:
  assumes "wf_operational_snapshot s"
  shows "\<forall>q \<in> set (expedite_receipts s). 0 \<le> tq_quantity q" "0 \<le> tq_quantity (dallas_transfer s)"
  using assms
  by (auto simp: wf_operational_snapshot_def wf_supply_receipt_option_def wf_inventory_transfer_def
      expedite_receipts_def alpha_receipt_def dallas_transfer_def split: option.splits)

lemma wf_snapshot_amounts:
  assumes "wf_operational_snapshot s" and "ord \<in> set (os_production_orders s)"
  shows "0 \<le> money_of (pro_customer_revenue ord)" "0 \<le> money_of (pro_customer_margin ord)"
    "0 \<le> demand_of ord"
proof -
  have "wf_production_order ord"
    using assms by (simp add: wf_operational_snapshot_def list_all_iff)
  then show "0 \<le> money_of (pro_customer_revenue ord)" "0 \<le> money_of (pro_customer_margin ord)"
      "0 \<le> demand_of ord"
    by (auto simp: wf_production_order_def money_of_def demand_of_def split: option.splits)
qed

lemma make_response_option_sel [simp]:
  "ro_option_id (make_response_option i k n x a pr rs bc as ev er l u m c q) = i"
  "ro_option_kind (make_response_option i k n x a pr rs bc as ev er l u m c q) = k"
  "ro_executable (make_response_option i k n x a pr rs bc as ev er l u m c q) = x"
  "ro_active_mitigation (make_response_option i k n x a pr rs bc as ev er l u m c q) = a"
  "ro_predicted (make_response_option i k n x a pr rs bc as ev er l u m c q) = pr"
  "ro_prerequisite_roles (make_response_option i k n x a pr rs bc as ev er l u m c q) = rs"
  "ro_blocking_codes (make_response_option i k n x a pr rs bc as ev er l u m c q) = bc"
  "ro_evidence_requirements (make_response_option i k n x a pr rs bc as ev er l u m c q) = er"
  "ro_approval_burden (make_response_option i k n x a pr rs bc as ev er l u m c q) =
     calculate_approval_burden rs"
  "ro_execution_risk (make_response_option i k n x a pr rs bc as ev er l u m c q) =
     calculate_execution_risk u m c q"
  by (simp_all add: make_response_option_def)

lemma build_options_ids:
  "map ro_option_id (build_options s oo r) =
     [''RL-OPTION-NO-MITIGATION'', ''RL-OPTION-EXPEDITE'', ''RL-OPTION-TRANSFER'',
      ''RL-OPTION-RESEQUENCE'', ''RL-OPTION-BETA'', ''RL-OPTION-COMBINED'']"
  by (simp add: build_options_def Let_def split del: if_split)

lemma evaluated_option_ids:
  assumes "evaluate_response_options s = Inr opts"
  shows "map ro_option_id opts =
     [''RL-OPTION-NO-MITIGATION'', ''RL-OPTION-EXPEDITE'', ''RL-OPTION-TRANSFER'',
      ''RL-OPTION-RESEQUENCE'', ''RL-OPTION-BETA'', ''RL-OPTION-COMBINED'']"
  using assms by (auto simp: evaluate_response_options_Inr_iff build_options_ids)

section \<open>The RL-001 example\<close>

abbreviation ex_snapshot :: operational_snapshot where
  "ex_snapshot \<equiv> rl001_snapshot ''RL-CASE-1'' RM_FALLBACK"

lemma ex_complete:
  "os_production_orders (rl001_snapshot cid m) \<noteq> []"
  "\<forall>ord \<in> set (os_production_orders (rl001_snapshot cid m)). complete_order ord"
  "distinct (map pro_production_order_id (os_production_orders (rl001_snapshot cid m)))"
  by (simp_all add: rl001_snapshot_def rl001_production_orders_def complete_order_def)

lemma ex_pool: "snapshot_pool (rl001_snapshot cid m) = 4000"
  by code_simp

lemma ex_transfer_outcome:
  "calculate_intervention_outcome ex_snapshot [] [dallas_transfer ex_snapshot] False 2250 =
     Inr \<lparr>pred_uncovered_part_demand = 5300, pred_otif_loss_percentage = 50,
          pred_revenue_at_risk = 580000, pred_margin_at_risk = 203000,
          pred_response_cost = 2250, pred_protected_customer_order_ids = [''RL-CO-DEMO-1'']\<rparr>"
  by code_simp

lemma evaluate_options_Inr:
  assumes "os_production_orders s \<noteq> []"
    and "\<forall>ord \<in> set (os_production_orders s). complete_order ord"
  shows "\<exists>opts. evaluate_response_options s = Inr opts"
proof -
  note run = intervention_outcome_total [OF assms]
  obtain a b c d e where
    "calculate_intervention_outcome s [] [] False 0 = Inr a"
    "calculate_intervention_outcome s (expedite_receipts s) [] False (expedite_cost s) = Inr b"
    "calculate_intervention_outcome s [] [dallas_transfer s] False (transfer_cost s) = Inr c"
    "calculate_intervention_outcome s [] [] True 0 = Inr d"
    "calculate_intervention_outcome s (expedite_receipts s) [dallas_transfer s] True
       (expedite_cost s + transfer_cost s) = Inr e"
    using run by metis
  then have "\<exists>oo. evaluate_option_outcomes s = Inr oo" by (simp add: evaluate_option_outcomes_def)
  moreover have "\<exists>r. resequence_available s = Inr r"
    using serving_order_total [of "os_production_orders s" True] assms(2)
    by (auto simp: resequence_available_def serving_order_def complete_order_def)
  ultimately show ?thesis unfolding evaluate_response_options_Inr_iff by blast
qed

lemma ex_evaluates: "\<exists>opts. evaluate_response_options ex_snapshot = Inr opts"
  by (rule evaluate_options_Inr [OF ex_complete(1,2)])

section \<open>Properties\<close>

text \<open>
  C8. Totality: a snapshot with at least one production order, all with a component demand, a
  priority, a revenue and a margin, is evaluated without an exception, whatever its supply, and
  gives the six options in a fixed order with distinct ids.
\<close>

theorem evaluate_options_total:
  assumes "os_production_orders s \<noteq> []"
    and "\<forall>ord \<in> set (os_production_orders s). complete_order ord"
  shows "\<exists>opts. evaluate_response_options s = Inr opts \<and>
    map ro_option_id opts =
      [''RL-OPTION-NO-MITIGATION'', ''RL-OPTION-EXPEDITE'', ''RL-OPTION-TRANSFER'',
       ''RL-OPTION-RESEQUENCE'', ''RL-OPTION-BETA'', ''RL-OPTION-COMBINED'']"
  using evaluate_options_Inr [OF assms] evaluated_option_ids by blast

theorem evaluate_options_total_witness:
  "\<exists>opts. evaluate_response_options ex_snapshot = Inr opts \<and> hd (map ro_option_id opts) = ''RL-OPTION-NO-MITIGATION''"
  using evaluate_options_total [OF ex_complete(1,2), of "''RL-CASE-1''" RM_FALLBACK] by auto

text \<open>
  C9. Feasibility and roles: in every evaluated set the baseline is the only option that is not
  an active mitigation and it is never executable; an active option is executable exactly when it
  has no blocking code; the combined response is executable exactly when all three of its parts
  are; only a Beta option that Quality has not approved lacks a prediction, and such a Beta is
  not executable; and the expedite and combined options require the finance approver exactly
  when their predicted cost exceeds the threshold.
\<close>

theorem evaluated_options_feasibility:
  assumes "evaluate_response_options s = Inr opts"
  shows "(\<forall>opt \<in> set opts.
      (\<not> ro_active_mitigation opt \<longleftrightarrow> ro_option_kind opt = ROK_NO_MITIGATION) \<and>
      (ro_executable opt \<longleftrightarrow> ro_active_mitigation opt \<and> ro_blocking_codes opt = []) \<and>
      (ro_predicted opt = None \<longleftrightarrow>
         ro_option_kind opt = ROK_ALTERNATE_SOURCE \<and> \<not> ro_executable opt) \<and>
      (ro_option_kind opt = ROK_ALTERNATE_SOURCE \<longrightarrow>
         (ro_executable opt \<longleftrightarrow> qq_status (os_beta_qualification s) = QS_APPROVED)) \<and>
      (ro_option_kind opt \<in> {ROK_EXPEDITE, ROK_COMBINED} \<longrightarrow>
         (FINANCE_APPROVER \<in> set (ro_prerequisite_roles opt) \<longleftrightarrow>
            (\<exists>p. ro_predicted opt = Some p \<and> 20000 < pred_response_cost p)))) \<and>
    (ro_executable (opts ! 5) \<longleftrightarrow>
       ro_executable (opts ! 1) \<and> ro_executable (opts ! 2) \<and> ro_executable (opts ! 3))"
proof -
  obtain oo r where opts: "opts = build_options s oo r"
    using assms by (auto simp: evaluate_response_options_Inr_iff)
  show ?thesis
    unfolding opts
    by (simp add: build_options_def Let_def option_roles_def
        requires_finance_approval_def DEFAULT_PREMIUM_FREIGHT_APPROVAL_THRESHOLD_def)
qed

theorem evaluated_options_feasibility_witness:
  "\<exists>opts. evaluate_response_options ex_snapshot = Inr opts \<and> \<not> ro_executable (hd opts)"
proof -
  obtain opts where opts: "evaluate_response_options ex_snapshot = Inr opts"
    using ex_evaluates by blast
  then have "map ro_option_id opts \<noteq> []" by (simp add: evaluated_option_ids)
  then have "hd opts \<in> set opts" by simp
  moreover have "ro_option_kind (hd opts) = ROK_NO_MITIGATION"
    using opts by (auto simp: evaluate_response_options_Inr_iff build_options_def Let_def)
  ultimately have "\<not> ro_executable (hd opts)"
    using evaluated_options_feasibility [OF opts] by blast
  with opts show ?thesis by blast
qed

text \<open>
  Accounting of an outcome: it comes from one allocation of the orders in the serving order,
  the OTIF loss is the whole percentage of unprotected orders and lies between 0 and 100, and
  the revenue and margin at risk with those of the protected orders make up the total.
\<close>

theorem intervention_outcome_accounting:
  assumes "calculate_intervention_outcome s rs ts r c = Inr p"
  shows "\<exists>os A. serving_order r (os_production_orders s) = Inr os \<and>
    allocate_component_supply (snapshot_pool s) rs ts os = Inr A \<and>
    pred_uncovered_part_demand p = csa_uncovered_component_units A \<and>
    pred_response_cost p = c \<and>
    0 \<le> pred_otif_loss_percentage p \<and> pred_otif_loss_percentage p \<le> 100 \<and>
    (pred_otif_loss_percentage p = 0 \<longleftrightarrow>
       100 * length (filter (\<lambda>ord. \<not> protects A ord) os) < length os) \<and>
    (pred_otif_loss_percentage p = 100 \<longleftrightarrow> filter (protects A) os = []) \<and>
    pred_revenue_at_risk p +
      (\<Sum>ord\<leftarrow>filter (protects A) os. money_of (pro_customer_revenue ord)) =
      (\<Sum>ord\<leftarrow>os_production_orders s. money_of (pro_customer_revenue ord)) \<and>
    pred_margin_at_risk p +
      (\<Sum>ord\<leftarrow>filter (protects A) os. money_of (pro_customer_margin ord)) =
      (\<Sum>ord\<leftarrow>os_production_orders s. money_of (pro_customer_margin ord))"
proof -
  obtain os A where os: "serving_order r (os_production_orders s) = Inr os"
    and A: "allocate_component_supply (snapshot_pool s) rs ts os = Inr A" and ne: "os \<noteq> []"
    and p: "p = outcome_of A os c"
    using assms unfolding intervention_outcome_Inr_iff by blast
  define k where "k = length (filter (\<lambda>ord. \<not> protects A ord) os)"
  have len: "length (filter (protects A) os) + k = length os"
    unfolding k_def by (rule sum_length_filter_compl)
  have split: "(\<Sum>ord\<leftarrow>filter (\<lambda>ord. \<not> protects A ord) os. f ord) +
      (\<Sum>ord\<leftarrow>filter (protects A) os. f ord) = (\<Sum>ord\<leftarrow>os_production_orders s. f ord)"
    for f :: "production_order \<Rightarrow> rat"
  proof -
    have "(\<Sum>ord\<leftarrow>filter (\<lambda>ord. \<not> protects A ord) os. f ord) +
        (\<Sum>ord\<leftarrow>filter (protects A) os. f ord) = (\<Sum>ord\<leftarrow>os. f ord)"
      by (induction os) (simp_all add: algebra_simps)
    also have "\<dots> = (\<Sum>ord\<leftarrow>os_production_orders s. f ord)"
      using serving_order_perm [OF os] by (metis mset_map sum_mset_sum_list)
    finally show ?thesis .
  qed
  have otif: "pred_otif_loss_percentage p = int (100 * k) div int (length os)"
  proof -
    have "int (length os) - int (length (filter (protects A) os)) = int k" using len by linarith
    then show ?thesis unfolding p outcome_of_def predicted_outcome.select_convs by simp
  qed
  have pos: "0 < length os" using ne by simp
  have nat_div: "int (100 * k) div int (length os) = int (100 * k div length os)"
    by (simp add: zdiv_int)
  have low: "100 * k div length os = 0 \<longleftrightarrow> 100 * k < length os"
    using pos by (simp add: div_eq_0_iff)
  have high: "100 * k div length os \<le> 100"
    using len pos div_le_mono [of "100 * k" "100 * length os" "length os"] by simp
  have full: "100 * k div length os = 100 \<longleftrightarrow> filter (protects A) os = []"
  proof
    assume "100 * k div length os = 100"
    then have "100 * length os \<le> 100 * k"
      by (metis div_times_less_eq_dividend mult.commute)
    then have "length (filter (protects A) os) = 0" using len by linarith
    then show "filter (protects A) os = []" by (simp only: length_0_conv)
  qed (use len pos in simp)
  have bounds: "0 \<le> pred_otif_loss_percentage p" "pred_otif_loss_percentage p \<le> 100"
    "pred_otif_loss_percentage p = 0 \<longleftrightarrow> 100 * k < length os"
    "pred_otif_loss_percentage p = 100 \<longleftrightarrow> filter (protects A) os = []"
    unfolding otif nat_div using low high full by (simp, simp, simp, linarith)
  have parts: "pred_uncovered_part_demand p = csa_uncovered_component_units A"
    "pred_response_cost p = c"
    "pred_revenue_at_risk p =
      (\<Sum>ord\<leftarrow>filter (\<lambda>ord. \<not> protects A ord) os. money_of (pro_customer_revenue ord))"
    "pred_margin_at_risk p =
      (\<Sum>ord\<leftarrow>filter (\<lambda>ord. \<not> protects A ord) os. money_of (pro_customer_margin ord))"
    by (simp_all add: p outcome_of_def)
  show ?thesis
    using os A split bounds unfolding parts k_def by blast
qed

theorem intervention_outcome_accounting_witness:
  "\<exists>os A. serving_order False (os_production_orders ex_snapshot) = Inr os \<and>
     csa_uncovered_component_units A = 5300 \<and> filter (protects A) os \<noteq> []"
  using intervention_outcome_accounting [OF ex_transfer_outcome]
  by (elim exE conjE) (intro exI conjI, assumption, simp, force)

text \<open>
  Mitigation never makes a prediction worse: on a well-formed snapshot with distinct order
  ids, the expedite and the transfer are at least as good as the baseline, and the combined
  response at least as good as resequencing alone, in uncovered demand, OTIF loss, revenue and
  margin at risk and in the set of protected customer orders.
\<close>

theorem mitigation_outcomes_improve:
  assumes "evaluate_option_outcomes s = Inr oo" and "wf_operational_snapshot s"
    and "distinct (map pro_production_order_id (os_production_orders s))"
  shows "outcome_at_most (oo_expedite oo) (oo_no_mitigation oo) \<and>
    outcome_at_most (oo_transfer oo) (oo_no_mitigation oo) \<and>
    outcome_at_most (oo_combined oo) (oo_resequence oo)"
proof (intro conjI)
  note runs = evaluate_option_outcomes_Inr [OF assms(1)]
  note qs = option_supply_nonneg [OF assms(2)]
  have amounts: "\<forall>ord \<in> set (os_production_orders s).
      0 \<le> money_of (pro_customer_revenue ord) \<and> 0 \<le> money_of (pro_customer_margin ord)"
    using wf_snapshot_amounts [OF assms(2)] by blast
  note better = outcome_improves [OF _ _ assms(3) _ amounts, where rs = "[]" and ts = "[]", simplified]
  show "outcome_at_most (oo_expedite oo) (oo_no_mitigation oo)"
    using qs(1) by (intro better [OF runs(1), where ts' = "[]", simplified, OF runs(2)]) simp
  show "outcome_at_most (oo_transfer oo) (oo_no_mitigation oo)"
    using qs(2) by (intro better [OF runs(1), where rs' = "[]", simplified, OF runs(3)]) simp
  show "outcome_at_most (oo_combined oo) (oo_resequence oo)"
    using qs by (intro better [OF runs(4,5)]) auto
qed

theorem mitigation_outcomes_improve_witness:
  "\<exists>oo. evaluate_option_outcomes ex_snapshot = Inr oo \<and>
     outcome_at_most (oo_combined oo) (oo_resequence oo)"
proof -
  obtain oo where "evaluate_option_outcomes ex_snapshot = Inr oo"
    using ex_evaluates by (auto simp: evaluate_response_options_Inr_iff)
  with mitigation_outcomes_improve [OF this wf_rl001_snapshot ex_complete(3)] show ?thesis by blast
qed

text \<open>The due dates of the due order are sorted.\<close>

lemma sorted_due_order: "sorted (map pro_due_date (due_order os))"
proof -
  have "sorted (map (\<lambda>ord. (pro_due_date ord, pro_production_order_id ord)) (due_order os))"
    by (simp add: due_order_def)
  then show ?thesis
    by (auto simp: sorted_iff_nth_mono less_eq_prod_def intro: less_imp_le)
qed

text \<open>
  Without resequencing a protected customer order is on time: its production order's whole
  demand fits in the starting pool and the supply that arrives no later than its own due date.
\<close>

theorem due_ordered_outcome_protects_on_time:
  assumes "calculate_intervention_outcome s rs ts False c = Inr p"
    and "wf_operational_snapshot s"
    and "distinct (map pro_production_order_id (os_production_orders s))"
    and "0 \<le> snapshot_pool s" and "\<forall>q \<in> set (rs @ ts). 0 \<le> tq_quantity q"
    and "cid \<in> set (pred_protected_customer_order_ids p)"
  shows "\<exists>ord \<in> set (os_production_orders s). pro_customer_order_id ord = Some cid \<and>
    demand_of ord \<le> snapshot_pool s + tq_until (rs @ ts) (pro_due_date ord)"
proof -
  let ?os = "due_order (os_production_orders s)"
  obtain A where A: "allocate_component_supply (snapshot_pool s) rs ts ?os = Inr A"
    and p: "p = outcome_of A ?os c"
    using assms(1) unfolding intervention_outcome_Inr_iff serving_order_def by auto
  have perm: "set ?os = set (os_production_orders s)" by (simp add: due_order_def)
  have dist: "distinct (map pro_production_order_id ?os)"
    using assms(3) by (simp add: due_order_def)
  have dem: "\<forall>ord \<in> set ?os. 0 \<le> demand_of ord"
    using wf_snapshot_amounts(3) [OF assms(2)] perm by simp
  obtain ord where ord: "ord \<in> set ?os" "protects A ord" "pro_customer_order_id ord = Some cid"
    using assms(6) by (auto simp: p outcome_of_def set_map_filter)
  then obtain n where n: "n < length ?os" "?os ! n = ord" by (auto simp: in_set_conv_nth)
  have "0 \<le> units_of A ord" if "ord \<in> set ?os" for ord
    using allocation_accounts(4) [OF A dist assms(5,4) dem] that by blast
  then have "0 \<le> (\<Sum>ord\<leftarrow>take n ?os. units_of A ord)"
    by (intro sum_list_nonneg) (auto dest: in_set_takeD)
  with due_ordered_units [OF A dist sorted_due_order n(1)] ord(2) n(2)
  have "demand_of ord \<le> snapshot_pool s + tq_until (rs @ ts) (pro_due_date ord)" by simp
  with ord perm show ?thesis by blast
qed

theorem due_ordered_outcome_protects_on_time_witness:
  "\<exists>ord \<in> set (os_production_orders ex_snapshot).
     pro_customer_order_id ord = Some ''RL-CO-DEMO-1'' \<and>
     demand_of ord \<le> 4000 + tq_until [dallas_transfer ex_snapshot] (pro_due_date ord)"
proof -
  have pool: "0 \<le> snapshot_pool ex_snapshot" by (simp add: ex_pool)
  have qs: "\<forall>q \<in> set ([] @ [dallas_transfer ex_snapshot]). 0 \<le> tq_quantity q"
    using option_supply_nonneg(2) [OF wf_rl001_snapshot] by simp
  have "''RL-CO-DEMO-1'' \<in> set [''RL-CO-DEMO-1'']" by simp
  then show ?thesis
    using due_ordered_outcome_protects_on_time
      [OF ex_transfer_outcome wf_rl001_snapshot ex_complete(3) pool qs, of "''RL-CO-DEMO-1''"]
    by (simp add: ex_pool)
qed

section \<open>RL-001\<close>

definition outcome_row :: "predicted_outcome \<Rightarrow> int \<times> int \<times> money \<times> money \<times> money" where
  "outcome_row p = (pred_uncovered_part_demand p, pred_otif_loss_percentage p,
     pred_revenue_at_risk p, pred_margin_at_risk p, pred_response_cost p)"

text \<open>
  The canonical contract of RL-001: evaluating its snapshot gives, option by option, the
  executability, uncovered demand, OTIF loss, revenue and margin at risk and cost of the
  contract's table, with the approval burden and execution risk of each.
\<close>

theorem rl001_contract_table:
  "map_sum id (map (\<lambda>opt. (ro_executable opt, map_option outcome_row (ro_predicted opt),
       ro_approval_burden opt, ro_execution_risk opt)))
     (evaluate_response_options (rl001_snapshot cid m)) =
   Inr [(False, Some (6800, 100, 955000, 328000, 0), 0, 0),
        (True, Some (3800, 100, 955000, 328000, 22500), 2, 2),
        (True, Some (5300, 50, 580000, 203000, 2250), 1, 1),
        (True, Some (6800, 100, 955000, 328000, 0), 1, 1),
        (False, None, 2, 2),
        (True, Some (2300, 50, 375000, 125000, 24750), 2, 6)]"
  by code_simp

text \<open>
  RL-001 with other demands: the order due first needs 6000 units, the priority order due two
  days later 1000.
\<close>

definition late_supply_snapshot :: operational_snapshot where
  "late_supply_snapshot =
     (let s = rl001_snapshot ''RL-CASE-1'' RM_FALLBACK
      in s\<lparr>os_production_orders :=
             map (\<lambda>ord. ord\<lparr>pro_component_demand :=
               Some (if pro_production_order_id ord = ''RL-MO-DEMO-1'' then 6000 else 1000)\<rparr>)
               (os_production_orders s)\<rparr>)"

text \<open>
  Resequencing can count late supply as on time: here the combined response predicts no
  OTIF loss and protects the customer order of the production order due on 2026-09-05, although
  that order needs 6000 units and the stock and every receipt up to its due date are 5500.
\<close>

theorem combined_outcome_counts_late_supply:
  "(case evaluate_option_outcomes late_supply_snapshot of
      Inl e \<Rightarrow> False
    | Inr oo \<Rightarrow>
        pred_otif_loss_percentage (oo_combined oo) = 0 \<and>
        ''RL-CO-DEMO-1'' \<in> set (pred_protected_customer_order_ids (oo_combined oo))) \<and>
   demand_of (hd (os_production_orders late_supply_snapshot)) = 6000 \<and>
   snapshot_pool late_supply_snapshot +
     tq_until (expedite_receipts late_supply_snapshot @ [dallas_transfer late_supply_snapshot])
       (pro_due_date (hd (os_production_orders late_supply_snapshot))) = 5500"
  by code_simp

end
