(* ===== verification/Interfaces.thy ===== *)
theory Interfaces
  imports Prelude
begin

text \<open>
  The contracts between the components, as locales: what a client may rely on and what the
  provider has to discharge.  Each is interpreted on the code's model in the theory of the
  component that provides it.
\<close>

section \<open>Recommendation\<close>

text \<open>
  The analysis hands a list of options to a ranker and reads the recommended id off its result.
  The ranker accepts exactly the lists with distinct ids, picks an eligible option whenever there
  is one, and does not depend on the order of the list.
\<close>

locale recommender =
  fixes rank :: "'o list \<Rightarrow> 'r result"
    and ident :: "'o \<Rightarrow> string"
    and eligible :: "'o \<Rightarrow> bool"
    and pick :: "'r \<Rightarrow> string option"
  assumes accepts: "(\<exists>r. rank opts = Inr r) \<longleftrightarrow> distinct (map ident opts)"
    and picks_eligible:
      "rank opts = Inr r \<Longrightarrow> pick r = Some i \<Longrightarrow> \<exists>opt \<in> set opts. ident opt = i \<and> eligible opt"
    and picks_some:
      "rank opts = Inr r \<Longrightarrow> opt \<in> set opts \<Longrightarrow> eligible opt \<Longrightarrow> pick r \<noteq> None"
    and canonical: "mset opts = mset opts' \<Longrightarrow> rank opts = rank opts'"
begin

text \<open>
  Filters that run before the ranking may only take eligibility away: then the pick is an option
  that was eligible before every one of them.
\<close>

lemma pick_after_narrowing:
  assumes "rank (map f opts) = Inr r" and "pick r = Some i"
    and "\<And>opt. opt \<in> set opts \<Longrightarrow> ident (f opt) = ident opt"
  shows "\<exists>opt \<in> set opts. ident opt = i \<and> eligible (f opt)"
  using picks_eligible [OF assms(1,2)] assms(3) by auto

lemma pick_none_iff:
  assumes "rank opts = Inr r"
  shows "pick r = None \<longleftrightarrow> (\<forall>opt \<in> set opts. \<not> eligible opt)"
proof
  assume "pick r = None"
  then show "\<forall>opt \<in> set opts. \<not> eligible opt" using picks_some [OF assms] by blast
next
  assume "\<forall>opt \<in> set opts. \<not> eligible opt"
  then show "pick r = None" using picks_eligible [OF assms] by (cases "pick r") auto
qed

lemma ids_kept_accepts:
  assumes "distinct (map ident opts)" and "\<And>opt. ident (f opt) = ident opt"
  shows "\<exists>r. rank (map f opts) = Inr r"
  using assms by (simp add: accepts comp_def)

end

section \<open>Lifecycles\<close>

text \<open>
  A record moves through statuses along allowed transitions and stops in the terminal ones.  A
  history is the list of its statuses, oldest first.
\<close>

locale lifecycle =
  fixes allowed :: "'s \<Rightarrow> 's \<Rightarrow> bool"
    and terminal :: "'s \<Rightarrow> bool"
  assumes terminal_stops: "terminal s \<Longrightarrow> \<not> allowed s t"
begin

lemma terminal_last:
  assumes "successively allowed ss" and "terminal (ss ! i)" and "i < length ss"
  shows "i = length ss - 1"
proof (rule ccontr)
  assume "i \<noteq> length ss - 1"
  with assms(3) have "Suc i < length ss" by linarith
  with assms(1) have "allowed (ss ! i) (ss ! Suc i)" by (simp add: successively_conv_nth)
  with terminal_stops [OF assms(2)] show False by blast
qed

lemma history_append:
  assumes "successively allowed ss" and "ss \<noteq> []" and "allowed (last ss) t"
  shows "successively allowed (ss @ [t])"
  using assms by (simp add: successively_append_iff)

end

text \<open>Where every transition lowers a rank, histories are short and never repeat a status.\<close>

locale ranked_lifecycle = lifecycle +
  fixes rank :: "'s \<Rightarrow> nat"
  assumes rank_less: "allowed s t \<Longrightarrow> rank t < rank s"
begin

lemma history_length: "successively allowed (s # ss) \<Longrightarrow> length ss \<le> rank s"
proof (induction ss arbitrary: s)
  case (Cons t ss)
  then have "allowed s t" "successively allowed (t # ss)" by simp_all
  with Cons.IH [of t] rank_less [of s t] show ?case by simp
qed simp

lemma history_rank: "successively allowed (s # ss) \<Longrightarrow> t \<in> set ss \<Longrightarrow> rank t < rank s"
proof (induction ss arbitrary: s)
  case (Cons u ss)
  then have "rank u < rank s" "successively allowed (u # ss)" using rank_less by simp_all
  with Cons.IH [of u] Cons.prems(2) show ?case by fastforce
qed simp

lemma history_distinct: "successively allowed ss \<Longrightarrow> distinct ss"
proof (induction ss)
  case (Cons s ss)
  then have "s \<notin> set ss" using history_rank [of s ss s] by blast
  moreover have "successively allowed ss" using Cons.prems by (cases ss) simp_all
  ultimately show ?case using Cons.IH by simp
qed simp

end

end
