(* ===== verification/Finance_Review.thy ===== *)
theory Finance_Review
  imports Options Domain_Cases Interfaces
begin

text \<open>
  The finance review of an expensive proposal: the records of \<open>data/domain/finance.py\<close> and
  \<open>IdentitySnapshot\<close> of \<open>data/domain/decisions.py\<close>, and the transitions of
  \<open>services/policy/finance_review.py\<close>.  A stored timestamp is an instant, because the
  validator rejects naive ones; the clock arguments of the policy are \<open>datetime\<close> values
  and are tested for awareness.
\<close>

section \<open>Records\<close>

record identity_snapshot =
  is_persona_id :: string
  is_effective_roles :: "string list"
  is_identity_source :: identity_source
  is_source_id :: string
  is_tenant_id :: "string option"
  is_object_id :: "string option"
  is_display_name :: "string option"
  is_user_principal_name :: "string option"

text \<open>The validator \<open>canonicalize_roles\<close>.\<close>

definition canonicalize_roles :: "identity_snapshot \<Rightarrow> identity_snapshot" where
  "canonicalize_roles a = a\<lparr>is_effective_roles := sorted_set (is_effective_roles a)\<rparr>"

datatype finance_review_status = FRS_PENDING | FRS_APPROVED | FRS_REJECTED | FRS_SUPERSEDED

fun finance_review_status_value :: "finance_review_status \<Rightarrow> string" where
  "finance_review_status_value FRS_PENDING = ''pending''"
| "finance_review_status_value FRS_APPROVED = ''approved''"
| "finance_review_status_value FRS_REJECTED = ''rejected''"
| "finance_review_status_value FRS_SUPERSEDED = ''superseded''"

record finance_proposal =
  fp_case_id :: string
  fp_analysis_id :: string
  fp_analysis_material_hash :: string
  fp_option_id :: string
  fp_response_cost :: money

definition exact_cents :: "money \<Rightarrow> bool" where
  "exact_cents c \<longleftrightarrow> of_int \<lfloor>100 * c\<rfloor> = 100 * c"

definition wf_finance_proposal :: "finance_proposal \<Rightarrow> bool" where
  "wf_finance_proposal p \<longleftrightarrow>
     is_sha256_hex (fp_analysis_material_hash p) \<and> 0 \<le> fp_response_cost p \<and>
     nonblank (fp_case_id p) \<and> nonblank (fp_analysis_id p) \<and> nonblank (fp_option_id p) \<and>
     exact_cents (fp_response_cost p)"

record finance_review =
  fr_review_id :: string
  fr_proposal :: finance_proposal
  fr_submitted_by :: identity_snapshot
  fr_submitted_at :: instant
  fr_status :: finance_review_status
  fr_reviewed_by :: "identity_snapshot option"
  fr_reviewed_at :: "instant option"
  fr_reason :: "string option"
  fr_superseded_at :: "instant option"

text \<open>\<open>normalize_reason\<close>\<close>

definition normalize_reason :: "string option \<Rightarrow> string option" where
  "normalize_reason v =
     (case v of None \<Rightarrow> None
      | Some s \<Rightarrow> (let stripped = py_strip s in if stripped = [] then None else Some stripped))"

text \<open>\<open>validate_state\<close>, on a review whose reason is normalised.\<close>

definition validate_state :: "finance_review \<Rightarrow> unit result" where
  "validate_state r =
     (let no_metadata = (fr_reviewed_by r = None \<and> fr_reviewed_at r = None \<and>
                         fr_reason r = None \<and> fr_superseded_at r = None) in
      bindR (require ((fr_reviewed_by r = None) = (fr_reviewed_at r = None))
               (ValueError ''reviewer and review time must be paired'')) (\<lambda>_.
      bindR (require (case fr_reviewed_at r of None \<Rightarrow> True | Some t \<Rightarrow> fr_submitted_at r \<le> t)
               (ValueError ''review time cannot precede submission'')) (\<lambda>_.
      bindR (require (case fr_superseded_at r of None \<Rightarrow> True | Some t \<Rightarrow> fr_submitted_at r \<le> t)
               (ValueError ''supersession cannot precede submission'')) (\<lambda>_.
      bindR (require (case (fr_superseded_at r, fr_reviewed_at r) of
                        (Some s, Some t) \<Rightarrow> t \<le> s | _ \<Rightarrow> True)
               (ValueError ''supersession cannot precede review'')) (\<lambda>_.
      bindR (require (fr_reason r = None \<or> fr_reviewed_by r \<noteq> None)
               (ValueError ''reason requires completed review metadata'')) (\<lambda>_.
      if fr_status r = FRS_PENDING then
        require no_metadata (ValueError ''pending review cannot contain review metadata'')
      else if fr_status r = FRS_APPROVED \<or> fr_status r = FRS_REJECTED then
        bindR (require (fr_reviewed_by r \<noteq> None \<and> fr_reviewed_at r \<noteq> None \<and>
                        fr_superseded_at r = None)
                 (ValueError ''resolved review requires reviewer and review time'')) (\<lambda>_.
        require (fr_status r = FRS_REJECTED \<longrightarrow> fr_reason r \<noteq> None)
          (ValueError ''rejected review requires a nonblank reason''))
      else
        require (fr_superseded_at r \<noteq> None)
          (ValueError ''superseded review requires superseded time'')))))))"

text \<open>The validated constructor \<open>FinanceReview(...)\<close> / \<open>model_validate\<close>.\<close>

definition mk_finance_review :: "finance_review \<Rightarrow> finance_review result" where
  "mk_finance_review r =
     bindR (require (nonblank (fr_review_id r)) (ValueError ''value must be nonblank'')) (\<lambda>_.
     bindR (require (case fr_reason r of None \<Rightarrow> True | Some s \<Rightarrow> length s \<le> 4000)
              (ValueError ''reason'')) (\<lambda>_.
     let r' = r\<lparr>fr_reason := normalize_reason (fr_reason r)\<rparr> in
     bindR (validate_state r') (\<lambda>_. Inr r')))"

section \<open>Policy\<close>

definition require_aware :: "datetime \<Rightarrow> instant result" where
  "require_aware now =
     (case now of
        Aware t \<Rightarrow> Inr t
      | Naive t \<Rightarrow> Inl (FinanceReviewViolation ''Timestamp must be timezone-aware''))"

definition require_uuid :: "string option \<Rightarrow> string \<Rightarrow> nat result" where
  "require_uuid value label =
     the_or (FinanceReviewViolation (label @ '' must be a valid UUID'')) (py_uuid_opt value)"

definition require_actor ::
    "identity_snapshot \<Rightarrow> string \<Rightarrow> string \<Rightarrow> string list \<Rightarrow> (nat \<times> nat) result" where
  "require_actor actor persona source roles =
     bindR (require (is_persona_id actor = persona \<and> is_source_id actor = source \<and>
                     is_identity_source actor = IS_ENTRA \<and>
                     is_effective_roles actor = sort roles)
              (FinanceReviewViolation ''Actor is not authorized for this Finance transition''))
       (\<lambda>_.
     bindR (require_uuid (is_tenant_id actor) ''tenant_id'') (\<lambda>tenant.
     bindR (require_uuid (is_object_id actor) ''object_id'') (\<lambda>object_id.
     Inr (tenant, object_id))))"

definition require_proposal_submitter :: "identity_snapshot \<Rightarrow> (nat \<times> nat) result" where
  "require_proposal_submitter actor =
     require_actor actor ''RL-PERSONA-ALEX'' ''RL-ENTRA-ALEX''
       [''material_planner'', ''response_approver'']"

definition submit_finance_review ::
    "string \<Rightarrow> finance_proposal \<Rightarrow> identity_snapshot \<Rightarrow> datetime \<Rightarrow> finance_review result" where
  "submit_finance_review review_id proposal actor now =
     bindR (require_aware now) (\<lambda>t.
     bindR (require_proposal_submitter actor) (\<lambda>_.
     bindR (require (nonblank review_id)
              (FinanceReviewViolation ''review_id must be nonblank'')) (\<lambda>_.
     bindR (require (requires_finance_approval (fp_response_cost proposal))
              (FinanceReviewViolation ''Finance review is not required for this cost'')) (\<lambda>_.
     mk_finance_review
       \<lparr>fr_review_id = review_id, fr_proposal = proposal, fr_submitted_by = actor,
        fr_submitted_at = t, fr_status = FRS_PENDING, fr_reviewed_by = None,
        fr_reviewed_at = None, fr_reason = None, fr_superseded_at = None\<rparr>))))"

definition resolve_finance_review ::
    "finance_review \<Rightarrow> finance_proposal \<Rightarrow> identity_snapshot \<Rightarrow> bool \<Rightarrow> string option \<Rightarrow>
     datetime \<Rightarrow> finance_review result" where
  "resolve_finance_review review current_proposal actor approved reason now =
     bindR (require_aware now) (\<lambda>t.
     bindR (require_actor actor ''RL-PERSONA-TAYLOR'' ''RL-ENTRA-TAYLOR'' [''finance_approver''])
       (\<lambda>(reviewer_tenant, reviewer_object).
     bindR (require_uuid (is_tenant_id (fr_submitted_by review)) ''submitter tenant_id'')
       (\<lambda>submitter_tenant.
     bindR (require_uuid (is_object_id (fr_submitted_by review)) ''submitter object_id'')
       (\<lambda>submitter_object.
     bindR (require (reviewer_tenant = submitter_tenant)
              (FinanceReviewViolation ''Finance reviewer must share the submitter tenant'')) (\<lambda>_.
     bindR (require (reviewer_object \<noteq> submitter_object)
              (FinanceReviewViolation ''Finance reviewer must be a different person'')) (\<lambda>_.
     bindR (require (fr_status review = FRS_PENDING)
              (FinanceReviewViolation ''Only a pending review can be resolved'')) (\<lambda>_.
     bindR (require (fr_proposal review = current_proposal)
              (FinanceReviewViolation ''The proposal has changed; submit a new review'')) (\<lambda>_.
     bindR (require (fr_submitted_at review \<le> t)
              (FinanceReviewViolation ''Review time cannot precede submission'')) (\<lambda>_.
     let normalized_reason = map_option py_strip reason in
     bindR (require (approved \<or> (case normalized_reason of None \<Rightarrow> False | Some s \<Rightarrow> s \<noteq> []))
              (FinanceReviewViolation ''Rejected review requires a nonblank reason'')) (\<lambda>_.
     mk_finance_review
       (review\<lparr>fr_status := (if approved then FRS_APPROVED else FRS_REJECTED),
               fr_reviewed_by := Some actor, fr_reviewed_at := Some t,
               fr_reason := normalized_reason\<rparr>)))))))))))"

definition supersede_finance_review ::
    "finance_review \<Rightarrow> datetime \<Rightarrow> finance_review result" where
  "supersede_finance_review review now =
     bindR (require_aware now) (\<lambda>t.
     bindR (require (fr_submitted_at review \<le> t \<and>
                     (case fr_reviewed_at review of None \<Rightarrow> True | Some r \<Rightarrow> r \<le> t))
              (FinanceReviewViolation
                 ''Supersession cannot precede existing review history'')) (\<lambda>_.
     if fr_status review = FRS_SUPERSEDED then Inr review
     else mk_finance_review
            (review\<lparr>fr_status := FRS_SUPERSEDED, fr_superseded_at := Some t\<rparr>)))"

section \<open>The lifecycle of a review\<close>

text \<open>The transitions of \<open>allowed\<close> in \<open>SqlAlchemyFinanceReviewRepository.append\<close>.\<close>

fun review_allowed :: "finance_review_status \<Rightarrow> finance_review_status \<Rightarrow> bool" where
  "review_allowed FRS_PENDING t \<longleftrightarrow> t \<in> {FRS_APPROVED, FRS_REJECTED, FRS_SUPERSEDED}"
| "review_allowed FRS_APPROVED t \<longleftrightarrow> t = FRS_SUPERSEDED"
| "review_allowed FRS_REJECTED t \<longleftrightarrow> t = FRS_SUPERSEDED"
| "review_allowed FRS_SUPERSEDED t \<longleftrightarrow> False"

fun review_rank :: "finance_review_status \<Rightarrow> nat" where
  "review_rank FRS_PENDING = 2"
| "review_rank FRS_APPROVED = 1"
| "review_rank FRS_REJECTED = 1"
| "review_rank FRS_SUPERSEDED = 0"

interpretation review_cycle: ranked_lifecycle review_allowed "\<lambda>s. s = FRS_SUPERSEDED" review_rank
proof unfold_locales
  fix s t :: finance_review_status
  show "review_allowed s t \<Longrightarrow> review_rank t < review_rank s"
    by (cases s) auto
qed simp

text \<open>The reviews the policy can produce.\<close>

inductive review_step :: "finance_review \<Rightarrow> finance_review \<Rightarrow> bool" where
  resolve: "resolve_finance_review r (fr_proposal r) actor approved reason now = Inr r' \<Longrightarrow>
     review_step r r'"
| supersede: "supersede_finance_review r now = Inr r' \<Longrightarrow> r' \<noteq> r \<Longrightarrow> review_step r r'"

inductive reachable_review :: "finance_review \<Rightarrow> bool" where
  submit: "submit_finance_review rid proposal actor now = Inr r \<Longrightarrow> reachable_review r"
| step: "reachable_review r \<Longrightarrow> review_step r r' \<Longrightarrow> reachable_review r'"

inductive_cases review_stepE: "review_step r r'"

section \<open>What a transition does\<close>

lemma mk_finance_review_Inr_iff [result_simps]:
  "mk_finance_review r = Inr r' \<longleftrightarrow>
     nonblank (fr_review_id r) \<and>
     (case fr_reason r of None \<Rightarrow> True | Some s \<Rightarrow> length s \<le> 4000) \<and>
     r' = r\<lparr>fr_reason := normalize_reason (fr_reason r)\<rparr> \<and> validate_state r' = Inr ()"
  by (auto simp: mk_finance_review_def Let_def result_simps)

definition is_actor :: "identity_snapshot \<Rightarrow> string \<Rightarrow> string \<Rightarrow> string list \<Rightarrow> nat \<Rightarrow> nat \<Rightarrow> bool" where
  "is_actor a persona source roles tenant object_id \<longleftrightarrow>
     is_persona_id a = persona \<and> is_source_id a = source \<and> is_identity_source a = IS_ENTRA \<and>
     is_effective_roles a = roles \<and> py_uuid_opt (is_tenant_id a) = Some tenant \<and>
     py_uuid_opt (is_object_id a) = Some object_id"

abbreviation is_alex :: "identity_snapshot \<Rightarrow> nat \<Rightarrow> nat \<Rightarrow> bool" where
  "is_alex a \<equiv> is_actor a ''RL-PERSONA-ALEX'' ''RL-ENTRA-ALEX''
     [''material_planner'', ''response_approver'']"

abbreviation is_taylor :: "identity_snapshot \<Rightarrow> nat \<Rightarrow> nat \<Rightarrow> bool" where
  "is_taylor a \<equiv> is_actor a ''RL-PERSONA-TAYLOR'' ''RL-ENTRA-TAYLOR'' [''finance_approver'']"

lemma require_actor_Inr_iff [result_simps]:
  "require_actor a persona source roles = Inr (tenant, object_id) \<longleftrightarrow>
     is_actor a persona source (sort roles) tenant object_id"
  by (auto simp: require_actor_def is_actor_def require_uuid_def result_simps)

lemma sorted_alex_roles:
  "sort [''material_planner'', ''response_approver''] = [''material_planner'', ''response_approver'']"
  by code_simp

lemma submit_finance_review_Inr:
  assumes "submit_finance_review rid proposal actor now = Inr r"
  shows "\<exists>t tenant object_id. now = Aware t \<and> is_alex actor tenant object_id \<and>
    20000 < fp_response_cost proposal \<and> nonblank rid \<and>
    r = \<lparr>fr_review_id = rid, fr_proposal = proposal, fr_submitted_by = actor,
         fr_submitted_at = t, fr_status = FRS_PENDING, fr_reviewed_by = None,
         fr_reviewed_at = None, fr_reason = None, fr_superseded_at = None\<rparr>"
  using assms
  by (auto simp: submit_finance_review_def require_proposal_submitter_def result_simps
      sorted_alex_roles requires_finance_approval_def DEFAULT_PREMIUM_FREIGHT_APPROVAL_THRESHOLD_def
      normalize_reason_def require_aware_def split: datetime.splits)

lemma resolve_finance_review_Inr:
  assumes "resolve_finance_review r p actor approved reason now = Inr r'"
  shows "\<exists>t tenant rev sub. now = Aware t \<and> is_taylor actor tenant rev \<and>
    py_uuid_opt (is_tenant_id (fr_submitted_by r)) = Some tenant \<and>
    py_uuid_opt (is_object_id (fr_submitted_by r)) = Some sub \<and> rev \<noteq> sub \<and>
    fr_status r = FRS_PENDING \<and> fr_proposal r = p \<and> fr_submitted_at r \<le> t \<and>
    r' = r\<lparr>fr_status := (if approved then FRS_APPROVED else FRS_REJECTED),
      fr_reviewed_by := Some actor, fr_reviewed_at := Some t,
      fr_reason := normalize_reason (map_option py_strip reason)\<rparr> \<and>
    validate_state r' = Inr ()"
  using assms
  by (auto simp: resolve_finance_review_def result_simps require_uuid_def require_aware_def Let_def
      split: datetime.splits prod.splits)

lemma supersede_finance_review_Inr:
  assumes "supersede_finance_review r now = Inr r'" and "r' \<noteq> r"
  shows "\<exists>t. now = Aware t \<and> fr_status r \<noteq> FRS_SUPERSEDED \<and> fr_submitted_at r \<le> t \<and>
    (\<forall>u. fr_reviewed_at r = Some u \<longrightarrow> u \<le> t) \<and>
    r' = r\<lparr>fr_status := FRS_SUPERSEDED, fr_superseded_at := Some t,
      fr_reason := normalize_reason (fr_reason r)\<rparr> \<and> validate_state r' = Inr ()"
  using assms
  by (auto simp: supersede_finance_review_def result_simps require_aware_def
      split: datetime.splits if_splits option.splits)

lemma review_step_allowed:
  assumes "review_step r r'"
  shows "review_allowed (fr_status r) (fr_status r') \<and> fr_review_id r' = fr_review_id r \<and>
    fr_proposal r' = fr_proposal r \<and> fr_submitted_by r' = fr_submitted_by r \<and>
    fr_submitted_at r' = fr_submitted_at r"
  using assms
proof cases
  case (resolve actor approved reason now)
  from resolve_finance_review_Inr [OF this] show ?thesis by auto
next
  case (supersede now)
  from supersede_finance_review_Inr [OF this] show ?thesis by (cases "fr_status r") auto
qed

text \<open>The separation of duties and the state constraints, as an invariant.\<close>

definition good_review :: "finance_review \<Rightarrow> bool" where
  "good_review r \<longleftrightarrow>
     20000 < fp_response_cost (fr_proposal r) \<and>
     (\<exists>tenant sub. is_alex (fr_submitted_by r) tenant sub \<and>
        (\<forall>a. fr_reviewed_by r = Some a \<longrightarrow> (\<exists>rev. is_taylor a tenant rev \<and> rev \<noteq> sub))) \<and>
     validate_state r = Inr ()"

lemma good_review_step: "good_review r \<Longrightarrow> review_step r r' \<Longrightarrow> good_review r'"
proof -
  assume good: "good_review r" and "review_step r r'"
  from this(2) show ?thesis
  proof cases
    case (resolve actor approved reason now)
    from resolve_finance_review_Inr [OF this] good show ?thesis
      by (auto simp: good_review_def is_actor_def)
  next
    case (supersede now)
    from supersede_finance_review_Inr [OF this] obtain t where
      r': "r' = r\<lparr>fr_status := FRS_SUPERSEDED, fr_superseded_at := Some t,
        fr_reason := normalize_reason (fr_reason r)\<rparr>" and "validate_state r' = Inr ()" by blast
    then have "fr_proposal r' = fr_proposal r" "fr_submitted_by r' = fr_submitted_by r"
      "fr_reviewed_by r' = fr_reviewed_by r" by simp_all
    with good \<open>validate_state r' = Inr ()\<close> show ?thesis unfolding good_review_def by simp
  qed
qed

lemma reachable_good: "reachable_review r \<Longrightarrow> good_review r"
proof (induction rule: reachable_review.induct)
  case (submit rid proposal actor now r)
  from submit_finance_review_Inr [OF this] obtain t tenant sub where
    alex: "is_alex actor tenant sub" and cost: "20000 < fp_response_cost proposal"
    and r: "r = \<lparr>fr_review_id = rid, fr_proposal = proposal, fr_submitted_by = actor,
         fr_submitted_at = t, fr_status = FRS_PENDING, fr_reviewed_by = None,
         fr_reviewed_at = None, fr_reason = None, fr_superseded_at = None\<rparr>" by blast
  have "validate_state r = Inr ()" by (simp add: r validate_state_def result_simps)
  moreover have "fr_submitted_by r = actor" "fr_proposal r = proposal" "fr_reviewed_by r = None"
    by (simp_all add: r)
  ultimately show ?case unfolding good_review_def using alex cost by auto
next
  case (step r r')
  then show ?case using good_review_step by blast
qed

text \<open>What \<open>validate_state\<close> leaves of each status.\<close>

lemma validate_state_Inr:
  assumes "validate_state r = Inr ()"
  shows "(fr_reviewed_by r = None) = (fr_reviewed_at r = None)"
    "fr_reviewed_at r = Some t \<Longrightarrow> fr_submitted_at r \<le> t"
    "fr_status r = FRS_PENDING \<Longrightarrow> fr_reviewed_by r = None \<and> fr_reason r = None \<and> fr_superseded_at r = None"
    "fr_status r \<in> {FRS_APPROVED, FRS_REJECTED} \<Longrightarrow>
       fr_reviewed_by r \<noteq> None \<and> fr_superseded_at r = None"
    "fr_status r = FRS_REJECTED \<Longrightarrow> fr_reason r \<noteq> None"
    "fr_status r = FRS_SUPERSEDED \<Longrightarrow> fr_superseded_at r \<noteq> None"
    "fr_superseded_at r = Some u \<Longrightarrow> fr_submitted_at r \<le> u"
    "fr_superseded_at r = Some u \<Longrightarrow> fr_reviewed_at r = Some t \<Longrightarrow> t \<le> u"
  using assms by (auto simp: validate_state_def Let_def result_simps split: if_splits option.splits)


text \<open>The times of a reachable review are ordered, and its status says what it carries.\<close>

definition review_shape :: "finance_review \<Rightarrow> bool" where
  "review_shape r \<longleftrightarrow>
     (case fr_status r of
        FRS_PENDING \<Rightarrow> fr_reviewed_by r = None \<and> fr_reason r = None \<and> fr_superseded_at r = None
      | FRS_APPROVED \<Rightarrow> fr_reviewed_by r \<noteq> None \<and> fr_superseded_at r = None
      | FRS_REJECTED \<Rightarrow> fr_reviewed_by r \<noteq> None \<and> fr_superseded_at r = None \<and> fr_reason r \<noteq> None
      | FRS_SUPERSEDED \<Rightarrow> fr_superseded_at r \<noteq> None)"

lemma validate_state_shape: "validate_state r = Inr () \<Longrightarrow> review_shape r"
  using validate_state_Inr(3-6) [of r] by (cases "fr_status r") (simp_all add: review_shape_def)

text \<open>Runs of the policy, as lists of reviews.\<close>

lemma review_chain_allowed:
  "successively review_step rs \<Longrightarrow> successively review_allowed (map fr_status rs)"
  by (auto simp: successively_conv_nth dest: review_step_allowed)

lemma review_chain_keeps:
  "successively review_step (r # rs) \<Longrightarrow>
   \<forall>s \<in> set rs. fr_review_id s = fr_review_id r \<and> fr_proposal s = fr_proposal r \<and>
     fr_submitted_by s = fr_submitted_by r \<and> fr_submitted_at s = fr_submitted_at r"
proof (induction rs arbitrary: r)
  case (Cons s rs)
  then have "review_step r s" "successively review_step (s # rs)" by simp_all
  with review_step_allowed [of r s] Cons.IH [of s] show ?case by auto
qed simp

section \<open>Properties\<close>

text \<open>Two identities and a proposal for the witnesses.\<close>

definition alex_identity :: identity_snapshot where
  "alex_identity =
     \<lparr>is_persona_id = ''RL-PERSONA-ALEX'',
      is_effective_roles = [''material_planner'', ''response_approver''],
      is_identity_source = IS_ENTRA, is_source_id = ''RL-ENTRA-ALEX'',
      is_tenant_id = Some ''00000000-0000-0000-0000-000000000001'',
      is_object_id = Some ''00000000-0000-0000-0000-000000000002'',
      is_display_name = None, is_user_principal_name = None\<rparr>"

definition taylor_identity :: identity_snapshot where
  "taylor_identity =
     \<lparr>is_persona_id = ''RL-PERSONA-TAYLOR'', is_effective_roles = [''finance_approver''],
      is_identity_source = IS_ENTRA, is_source_id = ''RL-ENTRA-TAYLOR'',
      is_tenant_id = Some ''{00000000000000000000000000000001}'',
      is_object_id = Some ''00000000-0000-0000-0000-000000000003'',
      is_display_name = None, is_user_principal_name = None\<rparr>"

definition example_proposal :: finance_proposal where
  "example_proposal =
     \<lparr>fp_case_id = ''CASE'', fp_analysis_id = ''ANALYSIS'',
      fp_analysis_material_hash = replicate 64 CHR ''0'', fp_option_id = ''OPTION'',
      fp_response_cost = 24000\<rparr>"

definition pending_example :: finance_review where
  "pending_example =
     \<lparr>fr_review_id = ''REVIEW'', fr_proposal = example_proposal, fr_submitted_by = alex_identity,
      fr_submitted_at = 100, fr_status = FRS_PENDING, fr_reviewed_by = None,
      fr_reviewed_at = None, fr_reason = None, fr_superseded_at = None\<rparr>"

definition rejected_example :: finance_review where
  "rejected_example =
     pending_example\<lparr>fr_status := FRS_REJECTED, fr_reviewed_by := Some taylor_identity,
       fr_reviewed_at := Some 200, fr_reason := Some ''too dear''\<rparr>"

lemma example_uuids:
  "py_uuid ''00000000-0000-0000-0000-000000000001'' = Some 1"
  "py_uuid ''{00000000000000000000000000000001}'' = Some 1"
  "py_uuid ''00000000-0000-0000-0000-000000000002'' = Some 2"
  "py_uuid ''00000000-0000-0000-0000-000000000003'' = Some 3"
  by code_simp+

lemma example_texts:
  "py_strip '' too dear '' = ''too dear''" "py_strip ''too dear'' = ''too dear''"
  "nonblank ''REVIEW''"
  by code_simp+

lemma alex_example: "is_actor alex_identity ''RL-PERSONA-ALEX'' ''RL-ENTRA-ALEX''
    [''material_planner'', ''response_approver''] 1 2"
  by (simp add: is_actor_def alex_identity_def py_uuid_opt_def example_uuids)

lemma taylor_example:
  "is_actor taylor_identity ''RL-PERSONA-TAYLOR'' ''RL-ENTRA-TAYLOR'' [''finance_approver''] 1 3"
  by (simp add: is_actor_def taylor_identity_def py_uuid_opt_def example_uuids)

lemma submit_example:
  "submit_finance_review ''REVIEW'' example_proposal alex_identity (Aware 100) = Inr pending_example"
proof -
  have "require_actor alex_identity ''RL-PERSONA-ALEX'' ''RL-ENTRA-ALEX''
      [''material_planner'', ''response_approver''] = Inr (1, 2)"
    using alex_example by (simp only: require_actor_Inr_iff sorted_alex_roles)
  moreover have "requires_finance_approval (fp_response_cost example_proposal)"
    by (simp add: example_proposal_def requires_finance_approval_def
        DEFAULT_PREMIUM_FREIGHT_APPROVAL_THRESHOLD_def)
  ultimately show ?thesis
    by (simp add: submit_finance_review_def require_aware_def require_proposal_submitter_def
        result_simps example_texts pending_example_def validate_state_def normalize_reason_def
        del: require_actor_Inr_iff)
qed

lemma reject_example:
  "resolve_finance_review pending_example example_proposal taylor_identity False
     (Some '' too dear '') (Aware 200) = Inr rejected_example"
proof -
  have "require_actor taylor_identity ''RL-PERSONA-TAYLOR'' ''RL-ENTRA-TAYLOR''
      [''finance_approver''] = Inr (1, 3)"
    using taylor_example by (simp only: require_actor_Inr_iff) simp
  moreover have "py_uuid_opt (is_tenant_id alex_identity) = Some 1"
    "py_uuid_opt (is_object_id alex_identity) = Some 2"
    using alex_example by (simp_all add: is_actor_def)
  ultimately show ?thesis
    by (simp add: resolve_finance_review_def require_aware_def require_uuid_def result_simps
        example_texts pending_example_def rejected_example_def validate_state_def
        normalize_reason_def del: require_actor_Inr_iff)
qed

lemma reachable_example: "reachable_review rejected_example"
proof (rule reachable_review.step)
  show "reachable_review pending_example"
    by (rule reachable_review.submit [OF submit_example])
  have "fr_proposal pending_example = example_proposal" by (simp add: pending_example_def)
  then show "review_step pending_example rejected_example"
    using review_step.resolve [of pending_example] reject_example by simp
qed

text \<open>
  C27. Separation of duties in every review the policy can produce: the proposal costs more than
  20000; it was submitted by Alex in both of Alex's roles with well-formed tenant and object
  ids; a reviewer, if there is one, is Taylor as finance approver, in the submitter's tenant and
  with another object id; a pending review carries no decision, a rejection has a reason; and
  submission, review and supersession are in this order in time.
\<close>

theorem finance_review_separates_duties:
  assumes "reachable_review r"
  shows "20000 < fp_response_cost (fr_proposal r) \<and>
    (\<exists>tenant sub. is_alex (fr_submitted_by r) tenant sub \<and>
       (\<forall>a. fr_reviewed_by r = Some a \<longrightarrow> (\<exists>rev. is_taylor a tenant rev \<and> rev \<noteq> sub))) \<and>
    review_shape r \<and>
    (fr_reviewed_by r = None) = (fr_reviewed_at r = None) \<and>
    (\<forall>t. fr_reviewed_at r = Some t \<longrightarrow> fr_submitted_at r \<le> t) \<and>
    (\<forall>u. fr_superseded_at r = Some u \<longrightarrow> fr_submitted_at r \<le> u \<and>
       (\<forall>t. fr_reviewed_at r = Some t \<longrightarrow> t \<le> u))"
proof -
  have good: "good_review r" by (rule reachable_good [OF assms])
  then have v: "validate_state r = Inr ()" by (simp add: good_review_def)
  have "review_shape r" by (rule validate_state_shape [OF v])
  with good validate_state_Inr(1,2,7,8) [OF v] show ?thesis
    unfolding good_review_def by blast
qed

theorem finance_review_separates_duties_witness:
  "review_shape rejected_example \<and> fr_reviewed_by rejected_example = Some taylor_identity"
  using finance_review_separates_duties [OF reachable_example]
  by (simp add: rejected_example_def)

text \<open>
  A review is decided at most once and closed at most once: any run of the policy from a
  submitted review has at most two transitions, never returns to a status, follows the transition
  table, keeps the review id, the proposal, the submitter and the submission time, and cannot
  continue from a superseded review.
\<close>

theorem finance_review_history_bounded:
  assumes "submit_finance_review rid proposal actor now = Inr r"
    and "successively review_step (r # rs)"
  shows "length rs \<le> 2 \<and> distinct (map fr_status (r # rs)) \<and>
    successively review_allowed (map fr_status (r # rs)) \<and>
    (\<forall>s \<in> set rs. fr_review_id s = rid \<and> fr_proposal s = proposal \<and>
       fr_submitted_by s = actor \<and> now = Aware (fr_submitted_at s)) \<and>
    (fr_status (last (r # rs)) = FRS_SUPERSEDED \<longrightarrow> \<not> (\<exists>s. review_step (last (r # rs)) s))"
proof -
  from submit_finance_review_Inr [OF assms(1)] have r: "fr_review_id r = rid"
    "fr_proposal r = proposal" "fr_submitted_by r = actor" "now = Aware (fr_submitted_at r)"
    "fr_status r = FRS_PENDING" by auto
  have chain: "successively review_allowed (map fr_status (r # rs))"
    using review_chain_allowed [OF assms(2)] .
  then have "length (map fr_status rs) \<le> review_rank (fr_status r)"
    using review_cycle.history_length [of "fr_status r" "map fr_status rs"] by simp
  moreover have "distinct (map fr_status (r # rs))" by (rule review_cycle.history_distinct [OF chain])
  moreover have "\<forall>s \<in> set rs. fr_review_id s = rid \<and> fr_proposal s = proposal \<and>
       fr_submitted_by s = actor \<and> now = Aware (fr_submitted_at s)"
    using review_chain_keeps [OF assms(2)] r by simp
  moreover have "fr_status (last (r # rs)) = FRS_SUPERSEDED \<longrightarrow> \<not> (\<exists>s. review_step (last (r # rs)) s)"
    using review_step_allowed review_cycle.terminal_stops by blast
  ultimately show ?thesis using chain r(5) by simp
qed

theorem finance_review_history_bounded_witness:
  "length [rejected_example] \<le> 2 \<and> fr_review_id rejected_example = ''REVIEW''"
proof -
  have "fr_proposal pending_example = example_proposal" by (simp add: pending_example_def)
  then have "successively review_step [pending_example, rejected_example]"
    using review_step.resolve [of pending_example] reject_example by simp
  from finance_review_history_bounded [OF submit_example this] show ?thesis by simp
qed

end
