(* ===== verification/Std_Url.thy ===== *)
theory Std_Url
  imports Prelude
begin

text \<open>
  What the evidence policy uses of \<open>urllib.parse.urlparse\<close>: the scheme and the network
  location of a URL, and the \<open>ValueError\<close> the splitter raises on a malformed bracketed
  host.  It follows \<open>urlsplit\<close> of Python 3.12 (\<open>_check_bracketed_netloc\<close>
  included) on code points below 256, where the NFKC check of \<open>_checknetloc\<close> never
  raises.
\<close>

fun split_on :: "char \<Rightarrow> string \<Rightarrow> string list" where
  "split_on c [] = [[]]"
| "split_on c (x # xs) =
     (if x = c then [] # split_on c xs
      else case split_on c xs of [] \<Rightarrow> [[x]] | p # ps \<Rightarrow> (x # p) # ps)"

text \<open>\<open>s.partition(c)\<close>: the part before, whether the separator occurs, the part after.\<close>

definition partition_at :: "char \<Rightarrow> string \<Rightarrow> string \<times> bool \<times> string" where
  "partition_at c s =
     (takeWhile (\<lambda>x. x \<noteq> c) s, c \<in> set s, tl (dropWhile (\<lambda>x. x \<noteq> c) s))"

text \<open>\<open>s.rpartition(c)[2]\<close>\<close>

definition after_last :: "char \<Rightarrow> string \<Rightarrow> string" where
  "after_last c s = rev (takeWhile (\<lambda>x. x \<noteq> c) (rev s))"

definition is_digit :: "char \<Rightarrow> bool" where
  "is_digit c \<longleftrightarrow> c \<in> set ''0123456789''"

definition is_hex :: "char \<Rightarrow> bool" where
  "is_hex c \<longleftrightarrow> c \<in> set ''0123456789abcdefABCDEF''"

definition is_ascii_alpha :: "char \<Rightarrow> bool" where
  "is_ascii_alpha c \<longleftrightarrow>
     c \<in> set ''abcdefghijklmnopqrstuvwxyzABCDEFGHIJKLMNOPQRSTUVWXYZ''"

definition is_scheme_char :: "char \<Rightarrow> bool" where
  "is_scheme_char c \<longleftrightarrow> is_ascii_alpha c \<or> is_digit c \<or> c \<in> set ''+-.''"

definition lower_char :: "char \<Rightarrow> char" where
  "lower_char c =
     (let n = (of_char c :: nat) in if 65 \<le> n \<and> n \<le> 90 then char_of (n + 32) else c)"

definition decimal_value :: "string \<Rightarrow> nat" where
  "decimal_value s = foldl (\<lambda>n c. 10 * n + (of_char c - 48)) 0 s"

definition octet_ok :: "string \<Rightarrow> bool" where
  "octet_ok s \<longleftrightarrow> s \<noteq> [] \<and> list_all is_digit s \<and> length s \<le> 3 \<and>
     \<not> (s \<noteq> ''0'' \<and> hd s = CHR ''0'') \<and> decimal_value s \<le> 255"

definition ipv4_ok :: "string \<Rightarrow> bool" where
  "ipv4_ok s \<longleftrightarrow> length (split_on (CHR ''.'') s) = 4 \<and> list_all octet_ok (split_on (CHR ''.'') s)"

definition hextet_ok :: "string \<Rightarrow> bool" where
  "hextet_ok s \<longleftrightarrow> s \<noteq> [] \<and> list_all is_hex s \<and> length s \<le> 4"

text \<open>The parts of an IPv6 address, one empty part in the middle standing for the skipped ones.\<close>

definition ipv6_parts_ok :: "string list \<Rightarrow> bool" where
  "ipv6_parts_ok parts \<longleftrightarrow>
     length parts \<le> 9 \<and>
     (case filter (\<lambda>i. parts ! i = []) [1 ..< length parts - 1] of
        [] \<Rightarrow> length parts = 8 \<and> list_all hextet_ok parts
      | [k] \<Rightarrow>
          let hi = (if parts ! 0 = [] then k - 1 else k);
              lo = (if last parts = [] then length parts - k - 2 else length parts - k - 1)
          in (parts ! 0 = [] \<longrightarrow> hi = 0) \<and> (last parts = [] \<longrightarrow> lo = 0) \<and>
             hi + lo \<le> 7 \<and>
             list_all hextet_ok (take hi parts) \<and>
             list_all hextet_ok (drop (length parts - lo) parts)
      | _ \<Rightarrow> False)"

definition ipv6_ok :: "string \<Rightarrow> bool" where
  "ipv6_ok s \<longleftrightarrow>
     CHR ''/'' \<notin> set s \<and>
     (case partition_at (CHR ''%'') s of
        (addr, scoped, scope_id) \<Rightarrow>
          (scoped \<longrightarrow> scope_id \<noteq> [] \<and> CHR ''%'' \<notin> set scope_id) \<and>
          addr \<noteq> [] \<and>
          (let parts = split_on (CHR '':'') addr in
           3 \<le> length parts \<and>
           (if CHR ''.'' \<in> set (last parts)
            then ipv4_ok (last parts) \<and> ipv6_parts_ok (butlast parts @ [''0'', ''0''])
            else ipv6_parts_ok parts)))"

definition ipvfuture_ok :: "string \<Rightarrow> bool" where
  "ipvfuture_ok s \<longleftrightarrow>
     (let rest = tl s in
      takeWhile is_hex rest \<noteq> [] \<and>
      (case dropWhile is_hex rest of
         c # x # xs \<Rightarrow> c = CHR ''.'' \<and> list_all (\<lambda>y. y \<noteq> CHR 0x0A) (x # xs)
       | _ \<Rightarrow> False))"

definition bracketed_host_ok :: "string \<Rightarrow> bool" where
  "bracketed_host_ok h = (if h \<noteq> [] \<and> hd h = CHR ''v'' then ipvfuture_ok h else ipv6_ok h)"

definition bracketed_netloc_ok :: "string \<Rightarrow> bool" where
  "bracketed_netloc_ok netloc \<longleftrightarrow>
     (case partition_at (CHR ''['') (after_last (CHR ''@'') netloc) of
        (before, open_br, bracketed) \<Rightarrow>
          if open_br
          then before = [] \<and>
               (case partition_at (CHR '']'') bracketed of
                  (host, has_close, port) \<Rightarrow>
                    (port = [] \<or> hd port = CHR '':'') \<and> bracketed_host_ok host)
          else bracketed_host_ok (fst (partition_at (CHR '':'') before)))"

definition netloc_ok :: "string \<Rightarrow> bool" where
  "netloc_ok netloc \<longleftrightarrow>
     (CHR ''['' \<in> set netloc \<longleftrightarrow> CHR '']'' \<in> set netloc) \<and>
     (CHR ''['' \<in> set netloc \<longrightarrow> bracketed_netloc_ok netloc)"

text \<open>\<open>(urlparse(s).scheme, urlparse(s).netloc)\<close>\<close>

definition url_clean :: "string \<Rightarrow> string" where
  "url_clean s =
     filter (\<lambda>c. c \<notin> {CHR 0x09, CHR 0x0D, CHR 0x0A})
       (dropWhile (\<lambda>c. (of_char c :: nat) \<le> 32) s)"

definition url_scheme_split :: "string \<Rightarrow> string \<times> string" where
  "url_scheme_split url =
     (case partition_at (CHR '':'') url of
        (s, found, rest) \<Rightarrow>
          if found \<and> s \<noteq> [] \<and> is_ascii_alpha (hd url) \<and> list_all is_scheme_char s
          then (map lower_char s, rest) else ([], url))"

definition urlparse :: "string \<Rightarrow> (string \<times> string) result" where
  "urlparse s =
     (case url_scheme_split (url_clean s) of
        (scheme, url) \<Rightarrow>
          if take 2 url = ''//''
          then let netloc = takeWhile (\<lambda>c. c \<notin> set ''/?#'') (drop 2 url)
               in if netloc_ok netloc then Inr (scheme, netloc)
                  else Inl (ValueError ''Invalid IPv6 URL'')
          else Inr (scheme, []))"

lemma urlparse_examples:
  "urlparse ''https://rl.example/evidence/RL-1'' = Inr (''https'', ''rl.example'')"
  "urlparse '' HTTP://[::1]:80/x'' = Inr (''http'', ''[::1]:80'')"
  "urlparse ''https://[1.2.3.4]/'' = Inl (ValueError ''Invalid IPv6 URL'')"
  "urlparse ''mailto:a@b'' = Inr (''mailto'', '''')"
  "urlparse ''http://[1:2:3:4:5:6:7:8:9]'' = Inl (ValueError ''Invalid IPv6 URL'')"
  "urlparse ''http://u@[v1.x]:8'' = Inr (''http'', ''u@[v1.x]:8'')"
  by code_simp+

end
