(* ===== verification/Evidence_Policy.thy ===== *)
theory Evidence_Policy
  imports Domain_Evidence Std_Url
begin

text \<open>
  The evidence policy (\<open>services/policy/evidence.py\<close>): which scopes a source may speak
  for, the verdict on each item, the conflicts declared between items and their resolution by an
  authorized human, and the verdict on the whole set.  The keyword arguments that stay the same
  for every item are the record \<open>evidence_context\<close>.
\<close>

section \<open>Model\<close>

definition EVIDENCE_POLICY_VERSION :: string where
  "EVIDENCE_POLICY_VERSION = ''evidence-policy-v3''"

definition EVIDENCE_RETRIEVAL_WINDOW :: int where
  "EVIDENCE_RETRIEVAL_WINDOW = minutes 5"

abbreviation OPERATIONAL_SCOPES :: "authority_scope list" where
  "OPERATIONAL_SCOPES \<equiv> [AS_OPERATIONAL_QUANTITY, AS_OPERATIONAL_DATE, AS_QUALIFICATION_STATE]"

abbreviation STATEMENT_SCOPES :: "authority_scope list" where
  "STATEMENT_SCOPES \<equiv> [AS_SUPPLIER_STATEMENT, AS_COLLABORATION_STATEMENT]"

fun SOURCE_AUTHORITY :: "evidence_source_system \<Rightarrow> authority_scope list" where
  "SOURCE_AUTHORITY ESS_FABRIC = OPERATIONAL_SCOPES"
| "SOURCE_AUTHORITY ESS_SQLITE = OPERATIONAL_SCOPES"
| "SOURCE_AUTHORITY ESS_WORK_IQ = STATEMENT_SCOPES"
| "SOURCE_AUTHORITY ESS_SERVER = [AS_PREREQUISITE_APPROVAL]"
| "SOURCE_AUTHORITY ESS_SYNTHETIC_FIXTURE = OPERATIONAL_SCOPES @ STATEMENT_SCOPES"

fun SOURCE_RUNTIME_MODES :: "evidence_source_system \<Rightarrow> runtime_mode list" where
  "SOURCE_RUNTIME_MODES ESS_FABRIC = [RM_LIVE]"
| "SOURCE_RUNTIME_MODES ESS_SQLITE = [RM_FALLBACK]"
| "SOURCE_RUNTIME_MODES ESS_WORK_IQ = [RM_LIVE]"
| "SOURCE_RUNTIME_MODES ESS_SERVER = [RM_LIVE, RM_FALLBACK]"
| "SOURCE_RUNTIME_MODES ESS_SYNTHETIC_FIXTURE = [RM_FALLBACK]"

fun KIND_AUTHORITY :: "evidence_kind \<Rightarrow> authority_scope list" where
  "KIND_AUTHORITY EK_OPERATIONAL_FACT = OPERATIONAL_SCOPES"
| "KIND_AUTHORITY EK_SOURCE_STATEMENT = STATEMENT_SCOPES"
| "KIND_AUTHORITY EK_PREREQUISITE_APPROVAL = [AS_PREREQUISITE_APPROVAL]"
| "KIND_AUTHORITY EK_CONTEXTUAL_EVIDENCE = STATEMENT_SCOPES"

definition PERSONA_ROLES :: "string \<Rightarrow> string list option" where
  "PERSONA_ROLES = map_of
     [(''RL-PERSONA-ALEX'', [''material_planner'', ''response_approver'']),
      (''RL-PERSONA-JORDAN'', [''quality_approver'']),
      (''RL-PERSONA-TAYLOR'', [''finance_approver''])]"

definition PERSONA_SOURCE_IDS :: "string \<Rightarrow> string option" where
  "PERSONA_SOURCE_IDS = map_of
     [(''RL-PERSONA-ALEX'', ''RL-ENTRA-ALEX''),
      (''RL-PERSONA-JORDAN'', ''RL-ENTRA-JORDAN''),
      (''RL-PERSONA-TAYLOR'', ''RL-ENTRA-TAYLOR'')]"

fun SCOPE_RESOLVER_ROLES :: "authority_scope \<Rightarrow> string list" where
  "SCOPE_RESOLVER_ROLES AS_OPERATIONAL_QUANTITY = [''material_planner'', ''response_approver'']"
| "SCOPE_RESOLVER_ROLES AS_OPERATIONAL_DATE = [''material_planner'', ''response_approver'']"
| "SCOPE_RESOLVER_ROLES AS_QUALIFICATION_STATE = [''quality_approver'']"
| "SCOPE_RESOLVER_ROLES AS_SUPPLIER_STATEMENT = [''material_planner'', ''response_approver'']"
| "SCOPE_RESOLVER_ROLES AS_COLLABORATION_STATEMENT =
     [''material_planner'', ''quality_approver'', ''response_approver'']"
| "SCOPE_RESOLVER_ROLES AS_PREREQUISITE_APPROVAL =
     [''material_planner'', ''finance_approver'', ''quality_approver'', ''response_approver'']"

definition navigable_http_url :: "string option \<Rightarrow> bool result" where
  "navigable_http_url value =
     (case value of
        None \<Rightarrow> Inr False
      | Some url \<Rightarrow>
          if \<not> nonblank url then Inr False
          else bindR (urlparse url) (\<lambda>(scheme, netloc).
                 Inr (scheme \<in> {''http'', ''https''} \<and> netloc \<noteq> [])))"

definition validated_scope :: "evidence_item \<Rightarrow> runtime_mode \<Rightarrow> authority_scope list" where
  "validated_scope item mode =
     (if ei_runtime_mode item \<noteq> mode \<or> mode \<notin> set (SOURCE_RUNTIME_MODES (ei_source_system item))
      then []
      else sorted_set (filter (\<lambda>s. s \<in> set (SOURCE_AUTHORITY (ei_source_system item)) \<and>
                                   s \<in> set (KIND_AUTHORITY (ei_kind item)))
                         (ei_authority_scope item)))"

definition actor_is_authorized :: "authority_scope list \<Rightarrow> actor_provenance \<Rightarrow> bool" where
  "actor_is_authorized scopes actor \<longleftrightarrow>
     (let roles = ap_roles actor in
      ap_identity_source actor = IS_ENTRA \<and> nonblank (ap_source_id actor) \<and> roles \<noteq> [] \<and>
      ''agent'' \<notin> set roles \<and>
      (case PERSONA_ROLES (ap_persona_id actor) of
         None \<Rightarrow> False
       | Some recognized \<Rightarrow>
           Some (ap_source_id actor) = PERSONA_SOURCE_IDS (ap_persona_id actor) \<and>
           set roles \<subseteq> set recognized) \<and>
      scopes \<noteq> [] \<and>
      (\<exists>role \<in> set roles. \<forall>scope \<in> set scopes. role \<in> set (SCOPE_RESOLVER_ROLES scope)))"

definition resolution_is_valid ::
    "evidence_conflict \<Rightarrow> conflict_resolution \<Rightarrow> authority_scope list \<Rightarrow> bool" where
  "resolution_is_valid conflict resolution scopes \<longleftrightarrow>
     cr_conflict_id resolution = ec_conflict_id conflict \<and>
     cr_governing_evidence_id resolution \<in> set (ec_evidence_ids conflict) \<and>
     nonblank (cr_why resolution) \<and>
     actor_is_authorized scopes (cr_actor resolution)"

definition validated_conflict_scope ::
    "evidence_conflict \<Rightarrow> (string \<Rightarrow> evidence_item_validation option) \<Rightarrow>
     authority_scope list result" where
  "validated_conflict_scope conflict validation =
     (let declared = sorted_set (ec_authority_scope conflict) in
      if ec_evidence_ids conflict = [] \<or> declared = [] \<or>
         \<not> (\<forall>i \<in> set (ec_evidence_ids conflict).
              case validation i of
                None \<Rightarrow> False
              | Some r \<Rightarrow> set declared \<subseteq> set (ev_validated_authority_scope r))
      then Inl (PolicyViolation
        ''Conflict authority scope must match every referenced validated evidence scope.'')
      else Inr declared)"

record evidence_context =
  ctx_analysis_id :: string
  ctx_runtime_mode :: runtime_mode
  ctx_scenario_effective_time :: instant
  ctx_analysis_started_at :: instant
  ctx_analysis_recorded_at :: instant

definition scope_valid :: "evidence_context \<Rightarrow> evidence_item \<Rightarrow> bool" where
  "scope_valid ctx item \<longleftrightarrow>
     ei_kind item \<noteq> EK_CONTEXTUAL_EVIDENCE \<and> ei_authority_scope item \<noteq> [] \<and>
     set (ei_authority_scope item) \<subseteq> set (validated_scope item (ctx_runtime_mode ctx))"

definition timestamps_ordered :: "evidence_item \<Rightarrow> bool" where
  "timestamps_ordered item \<longleftrightarrow>
     (case (ei_source_timestamp item, ei_retrieved_at item) of
        (Some s, Some r) \<Rightarrow> s \<le> r | _ \<Rightarrow> False)"

definition current_retrieval :: "evidence_context \<Rightarrow> evidence_item \<Rightarrow> bool" where
  "current_retrieval ctx item \<longleftrightarrow>
     ei_retrieved_for_analysis_id item = ctx_analysis_id ctx \<and>
     ei_retrieval_health item = RH_HEALTHY"

definition retrieval_in_window :: "evidence_context \<Rightarrow> evidence_item \<Rightarrow> bool" where
  "retrieval_in_window ctx item \<longleftrightarrow>
     (case ei_retrieved_at item of
        None \<Rightarrow> False
      | Some r \<Rightarrow> ctx_analysis_started_at ctx \<le> r \<and>
          r \<le> ctx_analysis_started_at ctx + EVIDENCE_RETRIEVAL_WINDOW \<and>
          r \<le> ctx_analysis_recorded_at ctx)"

definition business_validity :: "evidence_context \<Rightarrow> evidence_item \<Rightarrow> business_validity_state" where
  "business_validity ctx item =
     (if (case ei_effective_at item of None \<Rightarrow> False
          | Some t \<Rightarrow> ctx_scenario_effective_time ctx < t) then BV_NOT_YET_EFFECTIVE
      else if (case ei_expires_at item of None \<Rightarrow> False
               | Some t \<Rightarrow> t \<le> ctx_scenario_effective_time ctx) then BV_EXPIRED
      else BV_VALID)"

definition item_validation ::
    "evidence_context \<Rightarrow> string list \<Rightarrow> evidence_item \<Rightarrow> evidence_item_validation result" where
  "item_validation ctx conflicted_evidence_ids item =
     (let scope = validated_scope item (ctx_runtime_mode ctx);
          scope_ok = scope_valid ctx item;
          required = (ei_requirement item = ER_REQUIRED_AUTHORITATIVE);
          required_live_work_iq = (required \<and> ctx_runtime_mode ctx = RM_LIVE \<and>
                                   ei_source_system item = ESS_WORK_IQ)
      in
      bindR (if required_live_work_iq then navigable_http_url (ei_citation_url item)
             else Inr True) (\<lambda>citation_ok.
      let metadata_ok = (required_live_work_iq \<longrightarrow> nonblank (ei_source_id item) \<and>
                           (case ei_excerpt item of None \<Rightarrow> False | Some e \<Rightarrow> nonblank e));
          ordered = timestamps_ordered item;
          current = current_retrieval ctx item;
          in_window = retrieval_in_window ctx item;
          freshness = (if ordered \<and> current \<and> in_window then FS_CURRENT else FS_STALE);
          validity = business_validity ctx item;
          codes =
            (if scope_ok then [] else [EBC_AUTHORITY_SCOPE_MISMATCH]) @
            (if citation_ok then [] else [EBC_REQUIRED_CITATION_MISSING]) @
            (if metadata_ok then [] else [EBC_REQUIRED_SOURCE_METADATA_MISSING]) @
            (if required \<and> \<not> ordered then [EBC_EVIDENCE_TIMESTAMP_STALE] else []) @
            (if required \<and> \<not> current then [EBC_RETRIEVAL_HEALTH_UNACCEPTABLE] else []) @
            (if required \<and> \<not> in_window then [EBC_EVIDENCE_RETRIEVAL_OUTSIDE_WINDOW] else []) @
            (if required \<and> validity = BV_NOT_YET_EFFECTIVE
             then [EBC_EVIDENCE_NOT_YET_EFFECTIVE] else []) @
            (if required \<and> validity = BV_EXPIRED then [EBC_EVIDENCE_EXPIRED] else []);
          uncertainty = (if ei_evidence_id item \<in> set conflicted_evidence_ids
                         then US_CONFLICTED else ei_uncertainty_state item)
      in Inr \<lparr>ev_evidence_id = ei_evidence_id item, ev_requirement = ei_requirement item,
              ev_validated_authority_scope = scope, ev_freshness = freshness,
              ev_business_validity = validity, ev_uncertainty_state = uncertainty,
              ev_retrieval_health = ei_retrieval_health item,
              ev_authoritative = (required \<and> scope_ok \<and> freshness = FS_CURRENT \<and>
                validity = BV_VALID \<and> uncertainty \<noteq> US_CONFLICTED \<and> codes = []),
              ev_blocking_codes = dict_fromkeys codes\<rparr>))"

text \<open>One resolution against the declared conflicts: each rejection is a policy violation.\<close>

definition check_resolution ::
    "evidence_conflict list \<Rightarrow> (string \<Rightarrow> authority_scope list) \<Rightarrow> conflict_resolution \<Rightarrow>
     unit result" where
  "check_resolution conflicts scopes resolution =
     (case find (\<lambda>c. ec_conflict_id c = cr_conflict_id resolution) conflicts of
        None \<Rightarrow> Inl (PolicyViolation
          ''Conflict resolution governing evidence must belong to its conflict.'')
      | Some c \<Rightarrow>
          if cr_governing_evidence_id resolution \<notin> set (ec_evidence_ids c) then
            Inl (PolicyViolation
              ''Conflict resolution governing evidence must belong to its conflict.'')
          else if \<not> nonblank (cr_why resolution) then
            Inl (PolicyViolation ''Conflict resolution requires a nonblank rationale.'')
          else if \<not> actor_is_authorized (scopes (ec_conflict_id c)) (cr_actor resolution) then
            Inl (PolicyViolation ''Conflict resolution requires an authorized human.'')
          else Inr ())"

definition conflict_scopes_of ::
    "evidence_conflict list \<Rightarrow> authority_scope list list \<Rightarrow> string \<Rightarrow> authority_scope list" where
  "conflict_scopes_of conflicts scopes i =
     (case map_of (rev (zip (map ec_conflict_id conflicts) scopes)) i of
        None \<Rightarrow> [] | Some s \<Rightarrow> s)"

definition unresolved_conflicts ::
    "evidence_conflict list \<Rightarrow> (string \<Rightarrow> authority_scope list) \<Rightarrow> conflict_resolution list \<Rightarrow>
     evidence_conflict list" where
  "unresolved_conflicts conflicts scopes resolutions =
     filter (\<lambda>c. ec_feasibility_relevant c \<and>
       \<not> (\<exists>r \<in> set resolutions. resolution_is_valid c r (scopes (ec_conflict_id c)))) conflicts"

definition validate_required_evidence ::
    "evidence_context \<Rightarrow> evidence_item list \<Rightarrow> authority_scope list \<Rightarrow> evidence_conflict list \<Rightarrow>
     conflict_resolution list \<Rightarrow> evidence_validation result" where
  "validate_required_evidence ctx items required_scope conflicts resolutions =
     bindR (require (ctx_analysis_started_at ctx \<le> ctx_analysis_recorded_at ctx)
              (PolicyViolation ''Analysis recording time cannot precede its start.'')) (\<lambda>_.
     bindR (require (\<forall>item \<in> set items.
                case ei_retrieved_at item of None \<Rightarrow> True
                | Some r \<Rightarrow> r \<le> ctx_analysis_recorded_at ctx)
              (PolicyViolation ''Evidence retrieval cannot follow Analysis recording time.'')) (\<lambda>_.
     let sorted_items = sort_key ei_evidence_id items in
     bindR (mapR (item_validation ctx []) sorted_items) (\<lambda>base_results.
     bindR (mapR (\<lambda>c. validated_conflict_scope c (dict_by ev_evidence_id base_results)) conflicts)
       (\<lambda>scope_list.
     let scopes = conflict_scopes_of conflicts scope_list in
     bindR (mapR (check_resolution conflicts scopes) resolutions) (\<lambda>_.
     let unresolved = unresolved_conflicts conflicts scopes resolutions;
         conflicted_ids = concat (map ec_evidence_ids unresolved) in
     bindR (mapR (item_validation ctx conflicted_ids) sorted_items) (\<lambda>item_results.
     let authoritative_scope =
           concat (map ev_validated_authority_scope (filter ev_authoritative item_results));
         authority_mismatch = (\<not> set required_scope \<subseteq> set authoritative_scope);
         item_codes =
           concat (map ev_blocking_codes
             (filter (\<lambda>r. ev_requirement r = ER_REQUIRED_AUTHORITATIVE) item_results)) @
           (if unresolved = [] then [] else [EBC_EVIDENCE_CONFLICT_UNRESOLVED]) @
           (if authority_mismatch then [EBC_AUTHORITY_SCOPE_MISMATCH] else [])
     in Inr \<lparr>evv_policy_version = EVIDENCE_POLICY_VERSION, evv_item_results = item_results,
             evv_blocking_codes =
               filter (\<lambda>c. c \<in> set item_codes) all_evidence_blocking_codes,
             evv_global_blocking_codes =
               (if authority_mismatch then [EBC_AUTHORITY_SCOPE_MISMATCH] else [])\<rparr>))))))"

definition resolve_conflict ::
    "evidence_conflict \<Rightarrow> evidence_validation \<Rightarrow> actor_provenance \<Rightarrow> string \<Rightarrow> string \<Rightarrow>
     conflict_resolution result" where
  "resolve_conflict conflict validation actor governing_evidence_id why =
     bindR (require (evv_policy_version validation = EVIDENCE_POLICY_VERSION)
              (PolicyViolation
                 ''Evidence validation policy version does not match the evaluator.'')) (\<lambda>_.
     bindR (validated_conflict_scope conflict
              (dict_by ev_evidence_id (evv_item_results validation))) (\<lambda>scopes.
     bindR (require (actor_is_authorized scopes actor)
              (PolicyViolation ''Conflict resolution requires an authorized human.'')) (\<lambda>_.
     bindR (require (governing_evidence_id \<in> set (ec_evidence_ids conflict))
              (PolicyViolation ''Governing evidence must belong to the conflict.'')) (\<lambda>_.
     mk_conflict_resolution (ec_conflict_id conflict) governing_evidence_id actor why))))"

section \<open>What the verdicts mean\<close>

text \<open>The contract of an authoritative item, free of the order of the checks.\<close>

definition sound_item :: "evidence_context \<Rightarrow> evidence_item \<Rightarrow> bool" where
  "sound_item ctx item \<longleftrightarrow>
     ei_requirement item = ER_REQUIRED_AUTHORITATIVE \<and>
     ei_kind item \<noteq> EK_CONTEXTUAL_EVIDENCE \<and> ei_authority_scope item \<noteq> [] \<and>
     ei_runtime_mode item = ctx_runtime_mode ctx \<and>
     ctx_runtime_mode ctx \<in> set (SOURCE_RUNTIME_MODES (ei_source_system item)) \<and>
     set (ei_authority_scope item) \<subseteq>
       set (SOURCE_AUTHORITY (ei_source_system item)) \<inter> set (KIND_AUTHORITY (ei_kind item)) \<and>
     (\<exists>t r. ei_source_timestamp item = Some t \<and> ei_retrieved_at item = Some r \<and> t \<le> r \<and>
        ctx_analysis_started_at ctx \<le> r \<and>
        r \<le> ctx_analysis_started_at ctx + EVIDENCE_RETRIEVAL_WINDOW \<and>
        r \<le> ctx_analysis_recorded_at ctx) \<and>
     ei_retrieved_for_analysis_id item = ctx_analysis_id ctx \<and>
     ei_retrieval_health item = RH_HEALTHY \<and>
     (\<forall>t. ei_effective_at item = Some t \<longrightarrow> t \<le> ctx_scenario_effective_time ctx) \<and>
     (\<forall>t. ei_expires_at item = Some t \<longrightarrow> ctx_scenario_effective_time ctx < t) \<and>
     (ctx_runtime_mode ctx = RM_LIVE \<and> ei_source_system item = ESS_WORK_IQ \<longrightarrow>
        navigable_http_url (ei_citation_url item) = Inr True \<and> nonblank (ei_source_id item) \<and>
        (\<exists>e. ei_excerpt item = Some e \<and> nonblank e))"

definition trusted :: "evidence_context \<Rightarrow> string list \<Rightarrow> evidence_item \<Rightarrow> bool" where
  "trusted ctx conflicted item \<longleftrightarrow>
     sound_item ctx item \<and> ei_evidence_id item \<notin> set conflicted \<and>
     ei_uncertainty_state item \<noteq> US_CONFLICTED"

lemma scope_valid_iff:
  "scope_valid ctx item \<longleftrightarrow>
     ei_kind item \<noteq> EK_CONTEXTUAL_EVIDENCE \<and> ei_authority_scope item \<noteq> [] \<and>
     ei_runtime_mode item = ctx_runtime_mode ctx \<and>
     ctx_runtime_mode ctx \<in> set (SOURCE_RUNTIME_MODES (ei_source_system item)) \<and>
     set (ei_authority_scope item) \<subseteq>
       set (SOURCE_AUTHORITY (ei_source_system item)) \<inter> set (KIND_AUTHORITY (ei_kind item))"
  by (auto simp: scope_valid_def validated_scope_def)

lemma business_validity_VALID_iff:
  "business_validity ctx item = BV_VALID \<longleftrightarrow>
     (\<forall>t. ei_effective_at item = Some t \<longrightarrow> t \<le> ctx_scenario_effective_time ctx) \<and>
     (\<forall>t. ei_expires_at item = Some t \<longrightarrow> ctx_scenario_effective_time ctx < t)"
  by (auto simp: business_validity_def split: option.splits)

lemma window_iff:
  "timestamps_ordered item \<and> retrieval_in_window ctx item \<longleftrightarrow>
     (\<exists>t r. ei_source_timestamp item = Some t \<and> ei_retrieved_at item = Some r \<and> t \<le> r \<and>
        ctx_analysis_started_at ctx \<le> r \<and>
        r \<le> ctx_analysis_started_at ctx + EVIDENCE_RETRIEVAL_WINDOW \<and>
        r \<le> ctx_analysis_recorded_at ctx)"
  by (auto simp: timestamps_ordered_def retrieval_in_window_def split: option.splits)

lemma sound_item_iff:
  "sound_item ctx item \<longleftrightarrow>
     ei_requirement item = ER_REQUIRED_AUTHORITATIVE \<and> scope_valid ctx item \<and>
     timestamps_ordered item \<and> current_retrieval ctx item \<and> retrieval_in_window ctx item \<and>
     business_validity ctx item = BV_VALID \<and>
     (ctx_runtime_mode ctx = RM_LIVE \<and> ei_source_system item = ESS_WORK_IQ \<longrightarrow>
        navigable_http_url (ei_citation_url item) = Inr True \<and> nonblank (ei_source_id item) \<and>
        (\<exists>e. ei_excerpt item = Some e \<and> nonblank e))"
  unfolding sound_item_def scope_valid_iff business_validity_VALID_iff current_retrieval_def
  using window_iff [of item ctx] by blast

lemma item_validation_Inr:
  assumes "item_validation ctx conflicted item = Inr r"
  shows "ev_evidence_id r = ei_evidence_id item" "ev_requirement r = ei_requirement item"
    "ev_validated_authority_scope r = validated_scope item (ctx_runtime_mode ctx)"
    "ev_authoritative r \<longleftrightarrow> trusted ctx conflicted item"
    "ev_uncertainty_state r =
       (if ei_evidence_id item \<in> set conflicted then US_CONFLICTED else ei_uncertainty_state item)"
    "ei_requirement item = ER_REQUIRED_AUTHORITATIVE \<Longrightarrow>
       ev_blocking_codes r = [] \<longleftrightarrow> sound_item ctx item"
proof -
  let ?live = "ei_requirement item = ER_REQUIRED_AUTHORITATIVE \<and> ctx_runtime_mode ctx = RM_LIVE \<and>
    ei_source_system item = ESS_WORK_IQ"
  obtain citation_ok where c: "(if ?live then navigable_http_url (ei_citation_url item)
      else Inr True) = Inr citation_ok"
    using assms unfolding item_validation_def Let_def bindR_Inr_iff by blast
  have nav: "?live \<Longrightarrow> navigable_http_url (ei_citation_url item) = Inr True \<longleftrightarrow> citation_ok"
    using c by (cases citation_ok) simp_all
  have other: "\<not> ?live \<Longrightarrow> citation_ok" using c by (auto split: if_splits)
  have meta: "(case ei_excerpt item of None \<Rightarrow> False | Some e \<Rightarrow> nonblank e) \<longleftrightarrow>
      (\<exists>e. ei_excerpt item = Some e \<and> nonblank e)"
    by (cases "ei_excerpt item") simp_all
  have bv: "business_validity ctx item = BV_VALID \<longleftrightarrow>
      business_validity ctx item \<noteq> BV_NOT_YET_EFFECTIVE \<and> business_validity ctx item \<noteq> BV_EXPIRED"
    by (cases "business_validity ctx item") simp_all
  note r = assms [unfolded item_validation_def Let_def c bindR_simps sum.inject,
      unfolded meta, symmetric]
  show "ev_evidence_id r = ei_evidence_id item" "ev_requirement r = ei_requirement item"
    "ev_validated_authority_scope r = validated_scope item (ctx_runtime_mode ctx)"
    "ev_uncertainty_state r =
       (if ei_evidence_id item \<in> set conflicted then US_CONFLICTED else ei_uncertainty_state item)"
    unfolding r by simp_all
  show codes: "ev_blocking_codes r = [] \<longleftrightarrow> sound_item ctx item"
    if "ei_requirement item = ER_REQUIRED_AUTHORITATIVE"
    unfolding r sound_item_iff using that nav other bv by auto
  show "ev_authoritative r \<longleftrightarrow> trusted ctx conflicted item"
    unfolding r trusted_def sound_item_iff using nav other bv by auto
qed

section \<open>Open conflicts\<close>

text \<open>The relevant conflicts no listed resolution settles, by their declared scopes.\<close>

definition open_conflicts ::
    "evidence_conflict list \<Rightarrow> conflict_resolution list \<Rightarrow> evidence_conflict list" where
  "open_conflicts conflicts resolutions =
     unresolved_conflicts conflicts
       (\<lambda>i. case find (\<lambda>c. ec_conflict_id c = i) conflicts of
              None \<Rightarrow> [] | Some c \<Rightarrow> sorted_set (ec_authority_scope c)) resolutions"

lemma validated_conflict_scope_Inr:
  "validated_conflict_scope c V = Inr scopes \<Longrightarrow> scopes = sorted_set (ec_authority_scope c)"
  by (auto simp: validated_conflict_scope_def Let_def split: if_splits)

lemma conflict_scopes_declared:
  assumes "mapR (\<lambda>c. validated_conflict_scope c V) conflicts = Inr scope_list"
    and "distinct (map ec_conflict_id conflicts)" and "c \<in> set conflicts"
  shows "conflict_scopes_of conflicts scope_list (ec_conflict_id c) = sorted_set (ec_authority_scope c)"
proof -
  have "scope_list = map (\<lambda>c. sorted_set (ec_authority_scope c)) conflicts"
    using assms(1) validated_conflict_scope_Inr
    by (intro nth_equalityI) (auto simp: mapR_Inr_iff list_all2_conv_all_nth)
  then have zip: "zip (map ec_conflict_id conflicts) scope_list =
      map (\<lambda>c. (ec_conflict_id c, sorted_set (ec_authority_scope c))) conflicts"
    by (simp add: zip_map_map zip_same_conv_map)
  have "map_of (rev (zip (map ec_conflict_id conflicts) scope_list)) (ec_conflict_id c) =
      Some (sorted_set (ec_authority_scope c))"
    unfolding zip using assms(2,3)
    by (intro map_of_is_SomeI) (auto simp: rev_map [symmetric] comp_def)
  then show ?thesis by (simp add: conflict_scopes_of_def)
qed

lemma validate_parts:
  assumes "validate_required_evidence ctx items req conflicts resolutions = Inr v"
    and "distinct (map ec_conflict_id conflicts)"
  defines "conflicted \<equiv> concat (map ec_evidence_ids (open_conflicts conflicts resolutions))"
  shows "mapR (item_validation ctx conflicted) (sort_key ei_evidence_id items) =
      Inr (evv_item_results v)"
    and "evv_blocking_codes v = [] \<longleftrightarrow>
      open_conflicts conflicts resolutions = [] \<and>
      (\<forall>r \<in> set (evv_item_results v).
         ev_requirement r = ER_REQUIRED_AUTHORITATIVE \<longrightarrow> ev_blocking_codes r = []) \<and>
      set req \<subseteq> (\<Union>r \<in> {r \<in> set (evv_item_results v). ev_authoritative r}.
        set (ev_validated_authority_scope r))"
    and "evv_policy_version v = EVIDENCE_POLICY_VERSION"
    and "evv_global_blocking_codes v = [] \<longleftrightarrow>
      set req \<subseteq> (\<Union>r \<in> {r \<in> set (evv_item_results v). ev_authoritative r}.
        set (ev_validated_authority_scope r))"
proof -
  obtain base scope_list results where base:
      "mapR (item_validation ctx []) (sort_key ei_evidence_id items) = Inr base"
    and scope_list:
      "mapR (\<lambda>c. validated_conflict_scope c (dict_by ev_evidence_id base)) conflicts = Inr scope_list"
    and results: "mapR (item_validation ctx (concat (map ec_evidence_ids
        (unresolved_conflicts conflicts (conflict_scopes_of conflicts scope_list) resolutions))))
        (sort_key ei_evidence_id items) = Inr results"
    and v: "v = \<lparr>evv_policy_version = EVIDENCE_POLICY_VERSION, evv_item_results = results,
        evv_blocking_codes = filter (\<lambda>c. c \<in> set (
          concat (map ev_blocking_codes
             (filter (\<lambda>r. ev_requirement r = ER_REQUIRED_AUTHORITATIVE) results)) @
           (if unresolved_conflicts conflicts (conflict_scopes_of conflicts scope_list) resolutions = []
            then [] else [EBC_EVIDENCE_CONFLICT_UNRESOLVED]) @
           (if \<not> set req \<subseteq> set (concat (map ev_validated_authority_scope
                 (filter ev_authoritative results)))
            then [EBC_AUTHORITY_SCOPE_MISMATCH] else []))) all_evidence_blocking_codes,
        evv_global_blocking_codes =
          (if \<not> set req \<subseteq> set (concat (map ev_validated_authority_scope
                 (filter ev_authoritative results)))
           then [EBC_AUTHORITY_SCOPE_MISMATCH] else [])\<rparr>"
    using assms(1) unfolding validate_required_evidence_def Let_def bindR_Inr_iff by auto
  have "unresolved_conflicts conflicts (conflict_scopes_of conflicts scope_list) resolutions =
      open_conflicts conflicts resolutions"
    unfolding open_conflicts_def unresolved_conflicts_def
    using conflict_scopes_declared [OF scope_list assms(2)] find_distinct [OF assms(2)]
    by (intro filter_cong refl) simp
  note v = v [unfolded this] and results = results [unfolded this]
  show "mapR (item_validation ctx conflicted) (sort_key ei_evidence_id items) =
      Inr (evv_item_results v)"
    using results by (simp add: v conflicted_def)
  have F: "filter (\<lambda>c. c \<in> set cs) all_evidence_blocking_codes = [] \<longleftrightarrow> set cs = {}" for cs
    using mem_all_evidence_blocking_codes [of "hd cs"]
    by (cases cs) (auto simp: filter_empty_conv simp del: mem_all_evidence_blocking_codes)
  have A: "set (concat (map ev_blocking_codes
        (filter (\<lambda>r. ev_requirement r = ER_REQUIRED_AUTHORITATIVE) results))) = {} \<longleftrightarrow>
      (\<forall>r \<in> set results. ev_requirement r = ER_REQUIRED_AUTHORITATIVE \<longrightarrow> ev_blocking_codes r = [])"
    by auto
  have B: "set (if X then [] else [c]) = {} \<longleftrightarrow> X" "set (if \<not> X then [c] else []) = {} \<longleftrightarrow> X"
    for X and c :: evidence_blocking_code
    by simp_all
  have D: "set (concat (map ev_validated_authority_scope (filter ev_authoritative results))) =
      (\<Union>r \<in> {r \<in> set results. ev_authoritative r}. set (ev_validated_authority_scope r))"
    by auto
  show "evv_blocking_codes v = [] \<longleftrightarrow>
      open_conflicts conflicts resolutions = [] \<and>
      (\<forall>r \<in> set (evv_item_results v).
         ev_requirement r = ER_REQUIRED_AUTHORITATIVE \<longrightarrow> ev_blocking_codes r = []) \<and>
      set req \<subseteq> (\<Union>r \<in> {r \<in> set (evv_item_results v). ev_authoritative r}.
        set (ev_validated_authority_scope r))"
    unfolding v evidence_validation.select_convs F
    unfolding set_append Un_empty A B D by blast
  show "evv_policy_version v = EVIDENCE_POLICY_VERSION" by (simp add: v)
  show "evv_global_blocking_codes v = [] \<longleftrightarrow>
      set req \<subseteq> (\<Union>r \<in> {r \<in> set (evv_item_results v). ev_authoritative r}.
        set (ev_validated_authority_scope r))"
    unfolding v evidence_validation.select_convs D by simp
qed

text \<open>Item by item, in the order of the ids.\<close>

lemma validate_items:
  assumes "validate_required_evidence ctx items req conflicts resolutions = Inr v"
    and "distinct (map ec_conflict_id conflicts)"
  defines "conflicted \<equiv> concat (map ec_evidence_ids (open_conflicts conflicts resolutions))"
  shows "list_all2 (\<lambda>item r. item_validation ctx conflicted item = Inr r)
    (sort_key ei_evidence_id items) (evv_item_results v)"
  using validate_parts(1) [OF assms(1,2)] by (simp add: mapR_Inr_iff conflicted_def)

lemma validate_perm:
  assumes "mset items = mset items'" and "distinct (map ei_evidence_id items)"
  shows "validate_required_evidence ctx items req conflicts resolutions =
    validate_required_evidence ctx items' req conflicts resolutions"
  unfolding validate_required_evidence_def sort_key_perm [OF assms]
    mset_eq_setD [OF assms(1)] ..

lemma validate_each_item:
  assumes "validate_required_evidence ctx items req conflicts resolutions = Inr v"
    and "distinct (map ec_conflict_id conflicts)"
  defines "conflicted \<equiv> concat (map ec_evidence_ids (open_conflicts conflicts resolutions))"
  shows "list_all2 (\<lambda>item r. ev_evidence_id r = ei_evidence_id item \<and>
      ev_requirement r = ei_requirement item \<and>
      ev_validated_authority_scope r = validated_scope item (ctx_runtime_mode ctx) \<and>
      (ev_authoritative r \<longleftrightarrow> trusted ctx conflicted item))
    (sort_key ei_evidence_id items) (evv_item_results v)"
  using validate_items [OF assms(1,2)] unfolding conflicted_def
  by (rule list_all2_mono) (simp add: item_validation_Inr)

lemma list_all2_set1: "list_all2 P xs ys \<Longrightarrow> x \<in> set xs \<Longrightarrow> \<exists>y \<in> set ys. P x y"
  by (metis in_set_conv_nth list_all2_conv_all_nth)

lemma list_all2_set2: "list_all2 P xs ys \<Longrightarrow> y \<in> set ys \<Longrightarrow> \<exists>x \<in> set xs. P x y"
  by (metis in_set_conv_nth list_all2_conv_all_nth)

lemma trusted_scope:
  "sound_item ctx item \<Longrightarrow>
     set (validated_scope item (ctx_runtime_mode ctx)) = set (ei_authority_scope item)"
  by (auto simp: sound_item_def validated_scope_def)

lemma authoritative_scopes:
  assumes res: "list_all2 (\<lambda>item r. item_validation ctx cs item = Inr r)
      (sort_key ei_evidence_id items) results"
  shows "(\<Union>r \<in> {r \<in> set results. ev_authoritative r}. set (ev_validated_authority_scope r)) =
      \<Union> (set ` ei_authority_scope ` {item \<in> set items. trusted ctx cs item})" (is "?A = ?B")
proof
  show "?A \<subseteq> ?B"
  proof
    fix x assume "x \<in> ?A"
    then obtain r where r: "r \<in> set results" "ev_authoritative r"
      "x \<in> set (ev_validated_authority_scope r)" by blast
    obtain item where "item \<in> set (sort_key ei_evidence_id items)"
      "item_validation ctx cs item = Inr r" using list_all2_set2 [OF res r(1)] by blast
    with r item_validation_Inr(3,4) trusted_scope show "x \<in> ?B"
      by (fastforce simp: trusted_def)
  qed
  show "?B \<subseteq> ?A"
  proof
    fix x assume "x \<in> ?B"
    then obtain item where item: "item \<in> set items" "trusted ctx cs item"
      "x \<in> set (ei_authority_scope item)" by blast
    then obtain r where "r \<in> set results" "item_validation ctx cs item = Inr r"
      using list_all2_set1 [OF res, of item] by auto
    with item item_validation_Inr(3,4) trusted_scope show "x \<in> ?A"
      by (fastforce simp: trusted_def)
  qed
qed

section \<open>Examples\<close>

definition ex_context :: evidence_context where
  "ex_context =
     \<lparr>ctx_analysis_id = ''RL-ANALYSIS-1'', ctx_runtime_mode = RM_FALLBACK,
      ctx_scenario_effective_time = 1000, ctx_analysis_started_at = 500,
      ctx_analysis_recorded_at = 900\<rparr>"

definition ex_item :: "string \<Rightarrow> authority_scope list \<Rightarrow> evidence_item" where
  "ex_item i scopes =
     \<lparr>ei_evidence_id = i, ei_case_id = ''RL-CASE-1'', ei_kind = EK_OPERATIONAL_FACT,
      ei_authority_scope = scopes, ei_source_system = ESS_SYNTHETIC_FIXTURE,
      ei_source_id = i, ei_source_timestamp = Some 600, ei_retrieved_at = Some 700,
      ei_retrieved_for_analysis_id = ''RL-ANALYSIS-1'', ei_retrieval_health = RH_HEALTHY,
      ei_effective_at = Some 1000, ei_expires_at = Some 2000, ei_claim = i,
      ei_excerpt = Some i, ei_citation_url = None, ei_runtime_mode = RM_FALLBACK,
      ei_synthetic = True, ei_requirement = ER_REQUIRED_AUTHORITATIVE,
      ei_uncertainty_state = US_CERTAIN, ei_citation_classification = None,
      ei_navigable_citation_url = None, ei_citation_trusted_host = None\<rparr>"

definition ex_alex :: actor_provenance where
  "ex_alex = \<lparr>ap_persona_id = ''RL-PERSONA-ALEX'', ap_roles = [''material_planner''],
     ap_identity_source = IS_ENTRA, ap_source_id = ''RL-ENTRA-ALEX''\<rparr>"

definition ex_conflict :: evidence_conflict where
  "ex_conflict = \<lparr>ec_conflict_id = ''C1'', ec_case_id = ''RL-CASE-1'',
     ec_evidence_ids = [''E1'', ''E2''], ec_authority_scope = [AS_OPERATIONAL_DATE],
     ec_description = ''dates differ'', ec_feasibility_relevant = True\<rparr>"

abbreviation ex_items :: "evidence_item list" where
  "ex_items \<equiv> [ex_item ''E2'' [AS_OPERATIONAL_DATE],
                ex_item ''E1'' [AS_OPERATIONAL_QUANTITY, AS_OPERATIONAL_DATE]]"

abbreviation ex_resolutions :: "conflict_resolution list" where
  "ex_resolutions \<equiv> [\<lparr>cr_conflict_id = ''C1'', cr_governing_evidence_id = ''E1'',
     cr_actor = ex_alex, cr_why = ''confirmed by phone''\<rparr>]"

definition ex_validation :: "conflict_resolution list \<Rightarrow> evidence_validation" where
  "ex_validation rs =
     (case validate_required_evidence ex_context ex_items [AS_OPERATIONAL_QUANTITY] [ex_conflict] rs of
        Inr v \<Rightarrow> v
      | Inl e \<Rightarrow> \<lparr>evv_policy_version = [], evv_item_results = [], evv_blocking_codes = [],
                 evv_global_blocking_codes = []\<rparr>)"

lemma ex_validation_open:
  "validate_required_evidence ex_context ex_items [AS_OPERATIONAL_QUANTITY] [ex_conflict] [] =
     Inr (ex_validation [])"
  by code_simp

lemma ex_validation_resolved:
  "validate_required_evidence ex_context ex_items [AS_OPERATIONAL_QUANTITY] [ex_conflict]
     ex_resolutions = Inr (ex_validation ex_resolutions)"
  by code_simp

lemma ex_conflict_distinct: "distinct (map ec_conflict_id [ex_conflict])"
  by simp

section \<open>Properties\<close>

text \<open>
  C19. For conflicts with distinct ids, a verdict is authoritative exactly for the items the policy
  trusts: required, claiming at least one scope, of this runtime mode and of a source of it, of a
  kind other than context and such that kind and source may speak for every scope claimed; with the
  time of the source and a time of retrieval that is not before it, retrieved healthily for this
  analysis within five minutes of its start and not after its recording; in force at the scenario
  time; for a live statement of Work IQ, with a navigable citation, a source id and an excerpt that
  are not blank; not marked as conflicted, and touched by no open conflict.  There is one verdict
  per item, in the order of the ids.
\<close>

theorem authoritative_iff_trusted:
  assumes "validate_required_evidence ctx items req conflicts resolutions = Inr v"
    and "distinct (map ec_conflict_id conflicts)"
  shows "list_all2 (\<lambda>item r. ev_evidence_id r = ei_evidence_id item \<and>
      (ev_authoritative r \<longleftrightarrow>
         sound_item ctx item \<and> ei_uncertainty_state item \<noteq> US_CONFLICTED \<and>
         (\<forall>c \<in> set (open_conflicts conflicts resolutions).
            ei_evidence_id item \<notin> set (ec_evidence_ids c))))
    (sort_key ei_evidence_id items) (evv_item_results v)"
  using validate_each_item [OF assms]
  by (rule list_all2_mono) (auto simp: trusted_def)

theorem authoritative_iff_trusted_witness:
  "length (evv_item_results (ex_validation [])) = 2"
  using list_all2_lengthD [OF authoritative_iff_trusted [OF ex_validation_open ex_conflict_distinct]]
  by (simp only: length_sort) simp

text \<open>
  C20. The set of evidence is accepted, with no blocking code at all, exactly when every required
  item meets the contract of an authoritative item, no relevant conflict is open, and the
  required scopes are covered by the scopes of the trusted items.
\<close>

theorem evidence_accepted_iff:
  assumes "validate_required_evidence ctx items req conflicts resolutions = Inr v"
    and "distinct (map ec_conflict_id conflicts)"
  shows "evv_authoritative v \<longleftrightarrow>
    (\<forall>item \<in> set items. ei_requirement item = ER_REQUIRED_AUTHORITATIVE \<longrightarrow> sound_item ctx item) \<and>
    open_conflicts conflicts resolutions = [] \<and>
    set req \<subseteq> \<Union> (set ` ei_authority_scope ` {item \<in> set items. trusted ctx [] item})"
proof (cases "open_conflicts conflicts resolutions = []")
  case True
  note parts = validate_parts [OF assms] and items = validate_items [OF assms]
  have res: "list_all2 (\<lambda>item r. item_validation ctx [] item = Inr r)
      (sort_key ei_evidence_id items) (evv_item_results v)"
    using items by (simp add: True)
  have codes: "(\<forall>r \<in> set (evv_item_results v).
        ev_requirement r = ER_REQUIRED_AUTHORITATIVE \<longrightarrow> ev_blocking_codes r = []) \<longleftrightarrow>
      (\<forall>item \<in> set items. ei_requirement item = ER_REQUIRED_AUTHORITATIVE \<longrightarrow> sound_item ctx item)"
    (is "?L \<longleftrightarrow> ?R")
  proof
    assume ?L
    then show ?R using list_all2_set1 [OF res] item_validation_Inr(2,6) by fastforce
  next
    assume ?R
    then show ?L using list_all2_set2 [OF res] item_validation_Inr(2,6) by fastforce
  qed
  note scopes = authoritative_scopes [OF res]
  show ?thesis unfolding evv_authoritative_def parts(2) codes scopes using True by blast
next
  case False
  then show ?thesis
    unfolding evv_authoritative_def validate_parts(2) [OF assms] by blast
qed

theorem evidence_accepted_iff_witness:
  "\<not> evv_authoritative (ex_validation []) \<and> evv_authoritative (ex_validation ex_resolutions)"
proof -
  have "open_conflicts [ex_conflict] [] \<noteq> []" by code_simp
  moreover have "open_conflicts [ex_conflict] ex_resolutions = []" by code_simp
  moreover have "sound_item ex_context (ex_item i s)" if "s \<noteq> []" "set s \<subseteq> set OPERATIONAL_SCOPES"
    for i s
    using that by (auto simp: sound_item_def ex_context_def ex_item_def
        EVIDENCE_RETRIEVAL_WINDOW_def minutes_def microseconds_per_second_def)
  then have "trusted ex_context [] (ex_item ''E1'' [AS_OPERATIONAL_QUANTITY, AS_OPERATIONAL_DATE])"
    "\<forall>item \<in> set ex_items. sound_item ex_context item"
    by (simp_all add: trusted_def) (simp add: ex_item_def)
  moreover have "ei_authority_scope (ex_item i s) = s" for i s by (simp add: ex_item_def)
  ultimately show ?thesis
    using evidence_accepted_iff [OF ex_validation_open ex_conflict_distinct]
      evidence_accepted_iff [OF ex_validation_resolved ex_conflict_distinct]
    by fastforce
qed

text \<open>
  Who may settle a conflict: a resolution is only produced for an Entra persona the policy
  knows, under its own source id, acting in roles that are all its own, one of which may resolve
  every declared scope; it names evidence of the conflict, gives a reason, and settles the
  conflict when the evidence is validated again.  A conflict that spans the qualification and an
  operational scope has no such persona.
\<close>

theorem conflict_resolution_authority:
  assumes "resolve_conflict conflict v actor governing why = Inr res"
  shows "ap_persona_id actor \<in> {''RL-PERSONA-ALEX'', ''RL-PERSONA-JORDAN'', ''RL-PERSONA-TAYLOR''} \<and>
    PERSONA_SOURCE_IDS (ap_persona_id actor) = Some (ap_source_id actor) \<and>
    ''agent'' \<notin> set (ap_roles actor) \<and>
    (\<exists>role \<in> set (ap_roles actor). \<forall>scope \<in> set (ec_authority_scope conflict).
       role \<in> set (SCOPE_RESOLVER_ROLES scope)) \<and>
    resolution_is_valid conflict res (sorted_set (ec_authority_scope conflict)) \<and>
    \<not> (AS_QUALIFICATION_STATE \<in> set (ec_authority_scope conflict) \<and>
       (AS_OPERATIONAL_QUANTITY \<in> set (ec_authority_scope conflict) \<or>
        AS_OPERATIONAL_DATE \<in> set (ec_authority_scope conflict)))"
proof -
  obtain scopes where scopes: "scopes = sorted_set (ec_authority_scope conflict)"
    and auth: "actor_is_authorized scopes actor"
    and gov: "governing \<in> set (ec_evidence_ids conflict)"
    and res: "mk_conflict_resolution (ec_conflict_id conflict) governing actor why = Inr res"
    using assms validated_conflict_scope_Inr
    unfolding resolve_conflict_def bindR_Inr_iff require_Inr_iff by blast
  have valid: "resolution_is_valid conflict res (sorted_set (ec_authority_scope conflict))"
    using res gov auth scopes
    by (auto simp: resolution_is_valid_def mk_conflict_resolution_def split: if_splits)
  obtain roles where persona: "PERSONA_ROLES (ap_persona_id actor) = Some roles"
      "PERSONA_SOURCE_IDS (ap_persona_id actor) = Some (ap_source_id actor)"
    and role: "''agent'' \<notin> set (ap_roles actor)"
      "\<exists>role \<in> set (ap_roles actor). \<forall>scope \<in> set (ec_authority_scope conflict).
         role \<in> set (SCOPE_RESOLVER_ROLES scope)"
    using auth by (auto simp: actor_is_authorized_def scopes Let_def split: option.splits)
  have known: "ap_persona_id actor \<in>
      {''RL-PERSONA-ALEX'', ''RL-PERSONA-JORDAN'', ''RL-PERSONA-TAYLOR''}"
    using persona(1) by (auto simp: PERSONA_ROLES_def split: if_splits)
  have "\<not> (AS_QUALIFICATION_STATE \<in> set (ec_authority_scope conflict) \<and>
       (AS_OPERATIONAL_QUANTITY \<in> set (ec_authority_scope conflict) \<or>
        AS_OPERATIONAL_DATE \<in> set (ec_authority_scope conflict)))"
  proof -
    obtain r where r: "\<And>scope. scope \<in> set (ec_authority_scope conflict) \<Longrightarrow>
        r \<in> set (SCOPE_RESOLVER_ROLES scope)"
      using role(2) by blast
    show ?thesis
      using r [of AS_QUALIFICATION_STATE] r [of AS_OPERATIONAL_QUANTITY] r [of AS_OPERATIONAL_DATE]
      by auto
  qed
  with known persona(2) role valid show ?thesis by blast
qed

theorem conflict_resolution_authority_witness:
  "\<exists>res. resolve_conflict ex_conflict (ex_validation []) ex_alex ''E1'' ''by phone'' = Inr res \<and>
     resolution_is_valid ex_conflict res (sorted_set (ec_authority_scope ex_conflict))"
proof -
  have "resolve_conflict ex_conflict (ex_validation []) ex_alex ''E1'' ''by phone'' =
      Inr \<lparr>cr_conflict_id = ''C1'', cr_governing_evidence_id = ''E1'', cr_actor = ex_alex,
           cr_why = ''by phone''\<rparr>"
    by code_simp
  from conflict_resolution_authority [OF this] this show ?thesis by blast
qed

end
