(* ===== verification/Approvals.thy ===== *)
theory Approvals
  imports Domain_Analysis Domain_Cases
begin

text \<open>
  Standing authorizations and approval satisfactions (the first part of
  \<open>data/domain/decisions.py\<close>, \<open>services/policy/approvals.py\<close> and
  \<open>services/policy/workflow.py\<close>): what an authorization permits, which prerequisite
  roles of an option it satisfies, and which authorizations a case may use under its approval
  policy.
\<close>

section \<open>Model\<close>

datatype corpus_scope = CPS_DEMO_CORPUS | CPS_REAL_BUSINESS | CPS_UNSPECIFIED

fun corpus_scope_value :: "corpus_scope \<Rightarrow> string" where
  "corpus_scope_value CPS_DEMO_CORPUS = ''demo_corpus''"
| "corpus_scope_value CPS_REAL_BUSINESS = ''real_business''"
| "corpus_scope_value CPS_UNSPECIFIED = ''unspecified''"

lemma corpus_scope_value_inj: "corpus_scope_value a = corpus_scope_value b \<longleftrightarrow> a = b"
  by (cases a; cases b) simp_all

instantiation corpus_scope :: linorder
begin

definition less_eq_corpus_scope :: "corpus_scope \<Rightarrow> corpus_scope \<Rightarrow> bool" where
  "less_eq_corpus_scope a b \<longleftrightarrow> corpus_scope_value a \<le> corpus_scope_value b"

definition less_corpus_scope :: "corpus_scope \<Rightarrow> corpus_scope \<Rightarrow> bool" where
  "less_corpus_scope a b \<longleftrightarrow> corpus_scope_value a < corpus_scope_value b"

instance
  by standard
    (auto simp: less_eq_corpus_scope_def less_corpus_scope_def less_le_not_le
      simp flip: corpus_scope_value_inj)

end

record authorization_conditions =
  ac_allowed_option_kinds :: "response_option_kind list"
  ac_maximum_response_cost :: money
  ac_allowed_corpora :: "corpus_scope list"
  ac_allowed_template_ids :: "string list"
  ac_allowed_case_purposes :: "case_purpose list"
  ac_valid_from :: instant
  ac_valid_through :: instant
  ac_forbidden_external_side_effects :: "external_side_effect list"

record approval_target =
  at_case :: case_instance
  at_corpus :: corpus_scope
  at_scenario_effective_time :: instant
  at_total_response_cost :: money
  at_requested_side_effects :: "external_side_effect list"

text \<open>The validated constructor: a negative cost is a \<open>ValidationError\<close>.\<close>

definition mk_approval_target ::
    "case_instance \<Rightarrow> corpus_scope \<Rightarrow> instant \<Rightarrow> money \<Rightarrow> external_side_effect list \<Rightarrow>
     approval_target result" where
  "mk_approval_target c corpus t cost effects =
     (if cost < 0 then Inl (ValueError ''total_response_cost'')
      else Inr \<lparr>at_case = c, at_corpus = corpus, at_scenario_effective_time = t,
                at_total_response_cost = cost, at_requested_side_effects = effects\<rparr>)"

record standing_authorization =
  sa_authorization_id :: string
  sa_persona_id :: string
  sa_role :: string
  sa_conditions :: authorization_conditions

text \<open>\<open>StandingAuthorization.taylor_rl001\<close>; day zero is 2026-09-01T09:00:00-05:00.\<close>

definition taylor_rl001 :: standing_authorization where
  "taylor_rl001 =
     \<lparr>sa_authorization_id = ''RL-AUTH-TAYLOR-FINANCE-1'', sa_persona_id = ''RL-PERSONA-TAYLOR'',
      sa_role = ''finance_approver'',
      sa_conditions =
        \<lparr>ac_allowed_option_kinds = [ROK_EXPEDITE, ROK_COMBINED],
         ac_maximum_response_cost = 25000, ac_allowed_corpora = [CPS_DEMO_CORPUS],
         ac_allowed_template_ids = [''RL-001''],
         ac_allowed_case_purposes = [CP_AUTOMATED_TEST, CP_REHEARSAL, CP_SHOWCASE],
         ac_valid_from = 1788271200000000,
         ac_valid_through = 1788271200000000 + days 14,
         ac_forbidden_external_side_effects =
           [XSE_EXTERNAL_SENDING, XSE_PURCHASE_ORDER_CHANGE, XSE_FINANCIAL_COMMITMENT]\<rparr>\<rparr>"

definition permits ::
    "standing_authorization \<Rightarrow> response_option \<Rightarrow> approval_target \<Rightarrow> bool" where
  "permits auth option1 target \<longleftrightarrow>
     (let conditions = sa_conditions auth in
      case ro_predicted option1 of
        None \<Rightarrow> False
      | Some predicted \<Rightarrow>
          ro_option_kind option1 \<in> set (ac_allowed_option_kinds conditions) \<and>
          at_corpus target \<in> set (ac_allowed_corpora conditions) \<and>
          ci_template_id (at_case target) \<in> set (ac_allowed_template_ids conditions) \<and>
          ci_purpose (at_case target) \<in> set (ac_allowed_case_purposes conditions) \<and>
          ci_scenario_effective_time (at_case target) = at_scenario_effective_time target \<and>
          at_total_response_cost target = pred_response_cost predicted \<and>
          at_requested_side_effects target = ro_requested_side_effects option1 \<and>
          at_total_response_cost target \<le> ac_maximum_response_cost conditions \<and>
          ac_valid_from conditions \<le> at_scenario_effective_time target \<and>
          at_scenario_effective_time target \<le> ac_valid_through conditions \<and>
          set (at_requested_side_effects target) \<inter>
            set (ac_forbidden_external_side_effects conditions) = {})"

record approval_satisfaction =
  as_analysis_id :: string
  as_option_id :: string
  as_authorization_id :: string
  as_persona_id :: string
  as_role :: string
  as_satisfied :: bool
  as_target :: approval_target
  as_authorization_conditions :: authorization_conditions

definition satisfaction_from_authorization ::
    "string \<Rightarrow> response_option \<Rightarrow> standing_authorization \<Rightarrow> approval_target \<Rightarrow>
     approval_satisfaction result" where
  "satisfaction_from_authorization analysis_id option1 auth target =
     (if \<not> permits auth option1 target
      then Inl (ValueError ''Standing Authorization does not permit this target.'')
      else Inr \<lparr>as_analysis_id = analysis_id, as_option_id = ro_option_id option1,
                as_authorization_id = sa_authorization_id auth,
                as_persona_id = sa_persona_id auth, as_role = sa_role auth,
                as_satisfied = True, as_target = target,
                as_authorization_conditions = sa_conditions auth\<rparr>)"

definition ROLE_PERSONAS :: "string \<Rightarrow> string option" where
  "ROLE_PERSONAS = [''quality_approver'' \<mapsto> ''RL-PERSONA-JORDAN'']"

definition evaluate_approval_satisfaction ::
    "response_option \<Rightarrow> string \<Rightarrow> standing_authorization list \<Rightarrow> approval_target \<Rightarrow>
     approval_satisfaction list result" where
  "evaluate_approval_satisfaction option1 analysis_id auths target =
     (let required =
            sorted_set (filter (\<lambda>r. r \<noteq> ''response_approver'') (ro_prerequisite_roles option1))
      in mapR (\<lambda>auth. satisfaction_from_authorization analysis_id option1 auth target)
           (concat (map (\<lambda>role.
              filter (\<lambda>auth. sa_role auth = role \<and>
                        (case ROLE_PERSONAS role of
                           None \<Rightarrow> True | Some persona \<Rightarrow> sa_persona_id auth = persona) \<and>
                        permits auth option1 target) auths) required)))"

text \<open>\<open>services/policy/workflow.py\<close>\<close>

definition approval_policy_for :: "case_instance \<Rightarrow> string" where
  "approval_policy_for c = workflow_version_value (effective_workflow_version c)"

definition standing_authorizations_for ::
    "case_instance \<Rightarrow> standing_authorization list \<Rightarrow> standing_authorization list" where
  "standing_authorizations_for c auths =
     (if effective_workflow_version c = WV_LEGACY then auths
      else filter (\<lambda>a. sa_role a \<noteq> ''finance_approver'') auths)"

section \<open>Facts\<close>

definition satisfaction_of ::
    "string \<Rightarrow> response_option \<Rightarrow> approval_target \<Rightarrow> standing_authorization \<Rightarrow>
     approval_satisfaction" where
  "satisfaction_of analysis_id option1 target auth =
     \<lparr>as_analysis_id = analysis_id, as_option_id = ro_option_id option1,
      as_authorization_id = sa_authorization_id auth, as_persona_id = sa_persona_id auth,
      as_role = sa_role auth, as_satisfied = True, as_target = target,
      as_authorization_conditions = sa_conditions auth\<rparr>"

definition satisfies ::
    "response_option \<Rightarrow> approval_target \<Rightarrow> standing_authorization \<Rightarrow> bool" where
  "satisfies option1 target auth \<longleftrightarrow>
     sa_role auth \<in> set (ro_prerequisite_roles option1) \<and> sa_role auth \<noteq> ''response_approver'' \<and>
     (sa_role auth = ''quality_approver'' \<longrightarrow> sa_persona_id auth = ''RL-PERSONA-JORDAN'') \<and>
     permits auth option1 target"

lemma permitsD:
  assumes "permits auth opt target"
  shows "\<exists>p. ro_predicted opt = Some p \<and> at_total_response_cost target = pred_response_cost p \<and>
    pred_response_cost p \<le> ac_maximum_response_cost (sa_conditions auth) \<and>
    ro_option_kind opt \<in> set (ac_allowed_option_kinds (sa_conditions auth)) \<and>
    at_corpus target \<in> set (ac_allowed_corpora (sa_conditions auth)) \<and>
    ac_valid_from (sa_conditions auth) \<le> at_scenario_effective_time target \<and>
    at_scenario_effective_time target \<le> ac_valid_through (sa_conditions auth) \<and>
    set (ro_requested_side_effects opt) \<inter>
      set (ac_forbidden_external_side_effects (sa_conditions auth)) = {}"
  using assms unfolding permits_def Let_def by (cases "ro_predicted opt") auto

text \<open>The evaluation never raises, and its entries are those of the satisfying authorizations.\<close>

lemma evaluate_approval_satisfaction_eq:
  "\<exists>sats. evaluate_approval_satisfaction option1 aid auths target = Inr sats \<and>
     set sats = satisfaction_of aid option1 target ` {auth \<in> set auths. satisfies option1 target auth}"
proof -
  let ?pick = "\<lambda>role. filter (\<lambda>auth. sa_role auth = role \<and>
      (case ROLE_PERSONAS role of None \<Rightarrow> True | Some persona \<Rightarrow> sa_persona_id auth = persona) \<and>
      permits auth option1 target) auths"
  let ?chosen = "concat (map ?pick (sorted_set (filter (\<lambda>r. r \<noteq> ''response_approver'')
      (ro_prerequisite_roles option1))))"
  have "mapR (\<lambda>auth. satisfaction_from_authorization aid option1 auth target) ?chosen =
      Inr (map (satisfaction_of aid option1 target) ?chosen)"
    by (intro mapR_total) (auto simp: satisfaction_from_authorization_def satisfaction_of_def)
  moreover have "set ?chosen = {auth \<in> set auths. satisfies option1 target auth}"
    by (auto simp: satisfies_def ROLE_PERSONAS_def split: if_splits)
  ultimately show ?thesis by (simp add: evaluate_approval_satisfaction_def Let_def)
qed

section \<open>An example\<close>

definition ex_case :: "workflow_version option \<Rightarrow> case_instance" where
  "ex_case w =
     \<lparr>ci_case_id = ''RL-CASE-1'', ci_template_id = ''RL-001'', ci_purpose = CP_SHOWCASE,
      ci_runtime_mode = RM_FALLBACK, ci_scenario_effective_time = 1788271200000000,
      ci_scenario_timezone = ''America/Chicago'', ci_status = CS_OPEN,
      ci_workflow_version = w, ci_supplier_email = None, ci_presenter_run_id = None\<rparr>"

definition ex_expedite :: response_option where
  "ex_expedite =
     \<lparr>ro_option_id = ''RL-OPTION-EXPEDITE'', ro_option_kind = ROK_EXPEDITE,
      ro_name = ''Expedite'', ro_executable = True, ro_active_mitigation = True,
      ro_predicted = Some \<lparr>pred_uncovered_part_demand = 3800, pred_otif_loss_percentage = 100,
        pred_revenue_at_risk = 955000, pred_margin_at_risk = 328000,
        pred_response_cost = 22500, pred_protected_customer_order_ids = []\<rparr>,
      ro_assumptions = [], ro_evidence_ids = [], ro_evidence_requirements = [],
      ro_blocking_codes = [], ro_prerequisite_roles = [''material_planner'', ''finance_approver''],
      ro_source_data_lineage = [], ro_approval_burden = 2, ro_execution_risk = 2,
      ro_requested_side_effects = []\<rparr>"

definition ex_target :: "workflow_version option \<Rightarrow> approval_target" where
  "ex_target w =
     \<lparr>at_case = ex_case w, at_corpus = CPS_DEMO_CORPUS,
      at_scenario_effective_time = 1788271200000000, at_total_response_cost = 22500,
      at_requested_side_effects = []\<rparr>"

lemma ex_permits: "permits taylor_rl001 ex_expedite (ex_target w)"
  by (simp add: permits_def taylor_rl001_def ex_expedite_def ex_target_def ex_case_def Let_def
      days_def microseconds_per_second_def)

section \<open>Properties\<close>

text \<open>
  C22. The evaluation of approvals never fails and satisfies exactly what the standing
  authorizations cover: every satisfaction comes from a listed authorization whose role the
  option requires, is never the final response approver, belongs to Jordan when it is for
  Quality, and lies within the authorization's option kinds, corpora, cost limit, validity window
  and forbidden side effects, for the cost that was predicted.
\<close>

theorem approval_satisfactions_are_authorized:
  "\<exists>sats. evaluate_approval_satisfaction opt aid auths target = Inr sats \<and>
    (\<forall>sat \<in> set sats. \<exists>auth \<in> set auths. \<exists>p.
       as_authorization_id sat = sa_authorization_id auth \<and> as_role sat = sa_role auth \<and>
       as_option_id sat = ro_option_id opt \<and> as_analysis_id sat = aid \<and> as_satisfied sat \<and>
       as_role sat \<in> set (ro_prerequisite_roles opt) - {''response_approver''} \<and>
       (as_role sat = ''quality_approver'' \<longrightarrow> as_persona_id sat = ''RL-PERSONA-JORDAN'') \<and>
       ro_predicted opt = Some p \<and>
       at_total_response_cost target = pred_response_cost p \<and>
       pred_response_cost p \<le> ac_maximum_response_cost (sa_conditions auth) \<and>
       ro_option_kind opt \<in> set (ac_allowed_option_kinds (sa_conditions auth)) \<and>
       at_corpus target \<in> set (ac_allowed_corpora (sa_conditions auth)) \<and>
       ac_valid_from (sa_conditions auth) \<le> at_scenario_effective_time target \<and>
       at_scenario_effective_time target \<le> ac_valid_through (sa_conditions auth) \<and>
       set (ro_requested_side_effects opt) \<inter>
         set (ac_forbidden_external_side_effects (sa_conditions auth)) = {}) \<and>
    (\<forall>auth \<in> set auths. satisfies opt target auth \<longrightarrow>
       sa_authorization_id auth \<in> as_authorization_id ` set sats)"
proof -
  obtain sats where sats: "evaluate_approval_satisfaction opt aid auths target = Inr sats"
    and set: "set sats =
      satisfaction_of aid opt target ` {auth \<in> set auths. satisfies opt target auth}"
    using evaluate_approval_satisfaction_eq by blast
  have "\<exists>auth \<in> set auths. sat = satisfaction_of aid opt target auth \<and> satisfies opt target auth"
    if "sat \<in> set sats" for sat
    using that set by auto
  then have "\<forall>sat \<in> set sats. \<exists>auth \<in> set auths. sat = satisfaction_of aid opt target auth \<and>
      sa_role auth \<in> set (ro_prerequisite_roles opt) - {''response_approver''} \<and>
      (sa_role auth = ''quality_approver'' \<longrightarrow> sa_persona_id auth = ''RL-PERSONA-JORDAN'') \<and>
      permits auth opt target"
    unfolding satisfies_def by blast
  moreover have "sa_authorization_id auth \<in> as_authorization_id ` set sats"
    if "auth \<in> set auths" "satisfies opt target auth" for auth
    using that set by (auto simp: satisfaction_of_def image_iff)
  ultimately show ?thesis
    using sats permitsD
    by (intro exI [of _ sats] conjI ballI impI) (fastforce simp: satisfaction_of_def)+
qed

theorem approval_satisfactions_are_authorized_witness:
  "\<exists>sats. evaluate_approval_satisfaction ex_expedite ''A1'' [taylor_rl001] (ex_target None) =
       Inr sats \<and> ''RL-AUTH-TAYLOR-FINANCE-1'' \<in> as_authorization_id ` set sats"
proof -
  have "satisfies ex_expedite (ex_target None) taylor_rl001"
    unfolding satisfies_def using ex_permits by (simp add: taylor_rl001_def ex_expedite_def)
  moreover have "sa_authorization_id taylor_rl001 = ''RL-AUTH-TAYLOR-FINANCE-1''"
    by (simp add: taylor_rl001_def)
  ultimately show ?thesis
    using approval_satisfactions_are_authorized
      [of ex_expedite "''A1''" "[taylor_rl001]" "ex_target None"]
    by (metis list.set_intros(1))
qed

text \<open>
  The approval policy of a case decides who may speak for Finance: a case under the
  independent-finance policy never obtains a finance satisfaction from a standing authorization,
  and keeps every other one; a legacy case uses all of them.
\<close>

theorem independent_case_has_no_standing_finance:
  assumes "evaluate_approval_satisfaction opt aid (standing_authorizations_for c auths) target =
      Inr sats"
    and "evaluate_approval_satisfaction opt aid auths target = Inr all_sats"
  shows "set sats =
    (if effective_workflow_version c = WV_INDEPENDENT_FINANCE
     then {sat \<in> set all_sats. as_role sat \<noteq> ''finance_approver''} else set all_sats)"
proof -
  have "set sats = satisfaction_of aid opt target `
      {auth \<in> set (standing_authorizations_for c auths). satisfies opt target auth}"
    using evaluate_approval_satisfaction_eq
      [of opt aid "standing_authorizations_for c auths" target] assms(1) by auto
  moreover have "set all_sats = satisfaction_of aid opt target `
      {auth \<in> set auths. satisfies opt target auth}"
    using evaluate_approval_satisfaction_eq [of opt aid auths target] assms(2) by auto
  moreover have "as_role (satisfaction_of aid opt target auth) = sa_role auth" for auth
    by (simp add: satisfaction_of_def)
  ultimately show ?thesis
    by (cases "effective_workflow_version c") (auto simp: standing_authorizations_for_def)
qed

theorem independent_case_has_no_standing_finance_witness:
  "evaluate_approval_satisfaction ex_expedite ''A1''
     (standing_authorizations_for (ex_case (Some WV_INDEPENDENT_FINANCE)) [taylor_rl001])
     (ex_target None) = Inr []"
proof -
  let ?c = "ex_case (Some WV_INDEPENDENT_FINANCE)"
  obtain sats all_sats where
    sats: "evaluate_approval_satisfaction ex_expedite ''A1''
      (standing_authorizations_for ?c [taylor_rl001]) (ex_target None) = Inr sats"
    and all: "evaluate_approval_satisfaction ex_expedite ''A1'' [taylor_rl001] (ex_target None) =
      Inr all_sats"
    and roles: "set all_sats \<subseteq> satisfaction_of ''A1'' ex_expedite (ex_target None) ` {taylor_rl001}"
    using evaluate_approval_satisfaction_eq
      [of ex_expedite "''A1''" "[taylor_rl001]" "ex_target None"]
      evaluate_approval_satisfaction_eq [of ex_expedite "''A1''" _ "ex_target None"]
    by fastforce
  have "effective_workflow_version ?c = WV_INDEPENDENT_FINANCE"
    by (simp add: ex_case_def effective_workflow_version_def)
  then have "set sats = {}"
    using independent_case_has_no_standing_finance [OF sats all] roles
    by (auto simp: satisfaction_of_def taylor_rl001_def)
  with sats show ?thesis by simp
qed

end
