(* ===== verification/Analysis_Material.thy ===== *)
theory Analysis_Material
  imports Evidence_Policy Approvals
begin

text \<open>
  The material of an analysis (\<open>data/domain/analysis.py\<close>): what is hashed.  Every
  collection whose order carries no meaning is put in a canonical order, so that two commands
  with the same content have the same material.
\<close>

record analysis_evidence_material =
  aem_evidence_id :: string
  aem_case_id :: string
  aem_kind :: evidence_kind
  aem_authority_scope :: "authority_scope list"
  aem_source_system :: evidence_source_system
  aem_source_id :: string
  aem_source_timestamp :: "instant option"
  aem_effective_at :: "instant option"
  aem_expires_at :: "instant option"
  aem_claim :: string
  aem_citation_present :: bool
  aem_source_metadata_complete :: bool
  aem_runtime_mode :: runtime_mode
  aem_synthetic :: bool
  aem_requirement :: evidence_requirement
  aem_uncertainty_state :: uncertainty_state
  aem_validation :: evidence_item_validation

definition evidence_material ::
    "evidence_item \<Rightarrow> evidence_item_validation \<Rightarrow> analysis_evidence_material" where
  "evidence_material item validation =
     \<lparr>aem_evidence_id = ei_evidence_id item, aem_case_id = ei_case_id item,
      aem_kind = ei_kind item, aem_authority_scope = sorted_set (ei_authority_scope item),
      aem_source_system = ei_source_system item, aem_source_id = ei_source_id item,
      aem_source_timestamp = ei_source_timestamp item, aem_effective_at = ei_effective_at item,
      aem_expires_at = ei_expires_at item, aem_claim = ei_claim item,
      aem_citation_present = (ei_citation_url item \<noteq> None),
      aem_source_metadata_complete =
        (nonblank (ei_source_id item) \<and>
         (case ei_excerpt item of None \<Rightarrow> False | Some e \<Rightarrow> nonblank e)),
      aem_runtime_mode = ei_runtime_mode item, aem_synthetic = ei_synthetic item,
      aem_requirement = ei_requirement item,
      aem_uncertainty_state = ei_uncertainty_state item, aem_validation = validation\<rparr>"

record analysis_conflict_material =
  acm_conflict_id :: string
  acm_case_id :: string
  acm_evidence_ids :: "string list"
  acm_authority_scope :: "authority_scope list"
  acm_description :: string
  acm_feasibility_relevant :: bool

definition conflict_material :: "evidence_conflict \<Rightarrow> analysis_conflict_material" where
  "conflict_material item =
     \<lparr>acm_conflict_id = ec_conflict_id item, acm_case_id = ec_case_id item,
      acm_evidence_ids = sorted_set (ec_evidence_ids item),
      acm_authority_scope = sorted_set (ec_authority_scope item),
      acm_description = ec_description item,
      acm_feasibility_relevant = ec_feasibility_relevant item\<rparr>"

record analysis_conflict_resolution_material =
  acrm_conflict_id :: string
  acrm_governing_evidence_id :: string
  acrm_actor :: actor_provenance
  acrm_why :: string

definition resolution_material ::
    "conflict_resolution \<Rightarrow> analysis_conflict_resolution_material" where
  "resolution_material item =
     \<lparr>acrm_conflict_id = cr_conflict_id item,
      acrm_governing_evidence_id = cr_governing_evidence_id item,
      acrm_actor = (cr_actor item)\<lparr>ap_roles := sorted_set (ap_roles (cr_actor item))\<rparr>,
      acrm_why = cr_why item\<rparr>"

record analysis_authorization_conditions_material =
  aacm_allowed_option_kinds :: "response_option_kind list"
  aacm_maximum_response_cost :: money
  aacm_allowed_corpora :: "corpus_scope list"
  aacm_allowed_template_ids :: "string list"
  aacm_allowed_case_purposes :: "case_purpose list"
  aacm_valid_from :: instant
  aacm_valid_through :: instant
  aacm_forbidden_external_side_effects :: "external_side_effect list"

definition conditions_material ::
    "authorization_conditions \<Rightarrow> analysis_authorization_conditions_material" where
  "conditions_material item =
     \<lparr>aacm_allowed_option_kinds = sorted_set (ac_allowed_option_kinds item),
      aacm_maximum_response_cost = ac_maximum_response_cost item,
      aacm_allowed_corpora = sorted_set (ac_allowed_corpora item),
      aacm_allowed_template_ids = sorted_set (ac_allowed_template_ids item),
      aacm_allowed_case_purposes = sorted_set (ac_allowed_case_purposes item),
      aacm_valid_from = ac_valid_from item, aacm_valid_through = ac_valid_through item,
      aacm_forbidden_external_side_effects =
        sorted_set (ac_forbidden_external_side_effects item)\<rparr>"

record analysis_standing_authorization_material =
  asam_authorization_id :: string
  asam_persona_id :: string
  asam_role :: string
  asam_conditions :: analysis_authorization_conditions_material

definition authorization_material ::
    "standing_authorization \<Rightarrow> analysis_standing_authorization_material" where
  "authorization_material item =
     \<lparr>asam_authorization_id = sa_authorization_id item, asam_persona_id = sa_persona_id item,
      asam_role = sa_role item, asam_conditions = conditions_material (sa_conditions item)\<rparr>"

record analysis_approval_target_material =
  aatm_case_id :: string
  aatm_template_id :: string
  aatm_purpose :: case_purpose
  aatm_runtime_mode :: runtime_mode
  aatm_scenario_effective_time :: instant
  aatm_corpus :: corpus_scope
  aatm_total_response_cost :: money
  aatm_requested_side_effects :: "external_side_effect list"

record analysis_approval_material =
  aam_option_id :: string
  aam_authorization_id :: string
  aam_persona_id :: string
  aam_role :: string
  aam_satisfied :: bool
  aam_target :: analysis_approval_target_material
  aam_authorization_conditions :: analysis_authorization_conditions_material

definition approval_material :: "approval_satisfaction \<Rightarrow> analysis_approval_material" where
  "approval_material item =
     (let t = as_target item; c = at_case t in
      \<lparr>aam_option_id = as_option_id item, aam_authorization_id = as_authorization_id item,
       aam_persona_id = as_persona_id item, aam_role = as_role item,
       aam_satisfied = as_satisfied item,
       aam_target =
         \<lparr>aatm_case_id = ci_case_id c, aatm_template_id = ci_template_id c,
          aatm_purpose = ci_purpose c, aatm_runtime_mode = ci_runtime_mode c,
          aatm_scenario_effective_time = at_scenario_effective_time t,
          aatm_corpus = at_corpus t, aatm_total_response_cost = at_total_response_cost t,
          aatm_requested_side_effects = sorted_set (at_requested_side_effects t)\<rparr>,
       aam_authorization_conditions = conditions_material (as_authorization_conditions item)\<rparr>)"

record analysis_response_option_material =
  arom_option_id :: string
  arom_option_kind :: response_option_kind
  arom_executable :: bool
  arom_active_mitigation :: bool
  arom_predicted :: "predicted_outcome option"
  arom_assumptions :: "string list"
  arom_evidence_ids :: "string list"
  arom_evidence_requirements :: "response_option_evidence_requirement list"
  arom_blocking_codes :: "string list"
  arom_prerequisite_roles :: "string list"
  arom_source_data_lineage :: "string list"
  arom_approval_burden :: int
  arom_execution_risk :: int
  arom_requested_side_effects :: "external_side_effect list"

definition option_material :: "response_option \<Rightarrow> analysis_response_option_material" where
  "option_material item =
     \<lparr>arom_option_id = ro_option_id item, arom_option_kind = ro_option_kind item,
      arom_executable = ro_executable item, arom_active_mitigation = ro_active_mitigation item,
      arom_predicted =
        map_option (\<lambda>p. p\<lparr>pred_protected_customer_order_ids :=
                            sorted_set (pred_protected_customer_order_ids p)\<rparr>)
          (ro_predicted item),
      arom_assumptions = sorted_set (ro_assumptions item),
      arom_evidence_ids = sorted_set (ro_evidence_ids item),
      arom_evidence_requirements =
        sort_key roer_evidence_id (ro_evidence_requirements item),
      arom_blocking_codes = sorted_set (ro_blocking_codes item),
      arom_prerequisite_roles = sorted_set (ro_prerequisite_roles item),
      arom_source_data_lineage = sorted_set (ro_source_data_lineage item),
      arom_approval_burden = ro_approval_burden item,
      arom_execution_risk = ro_execution_risk item,
      arom_requested_side_effects = sorted_set (ro_requested_side_effects item)\<rparr>"

record analysis_material =
  am_case_id :: string
  am_template_id :: string
  am_case_purpose :: case_purpose
  am_runtime_mode :: runtime_mode
  am_corpus :: corpus_scope
  am_scenario_effective_time :: instant
  am_operational_snapshot_json :: string
  am_required_authority_scope :: "authority_scope list"
  am_evidence :: "analysis_evidence_material list"
  am_conflicts :: "analysis_conflict_material list"
  am_conflict_resolutions :: "analysis_conflict_resolution_material list"
  am_evidence_validation :: evidence_validation
  am_response_options :: "analysis_response_option_material list"
  am_standing_authorizations :: "analysis_standing_authorization_material list"
  am_approval_satisfactions :: "analysis_approval_material list"
  am_ranking :: ranking_result
  am_calculation_version :: string
  am_evidence_policy_version :: string
  am_approval_policy_version :: string

datatype retrieval_source_kind = RSK_supplier | RSK_quality

datatype retrieval_protocol = RP_a2a | RP_mcp

record analysis_retrieval_lineage =
  arl_source_kind :: retrieval_source_kind
  arl_context_id :: string
  arl_task_id :: string
  arl_artifact_ids :: "string list"
  arl_source_ids :: "string list"
  arl_protocol :: retrieval_protocol
  arl_request_ids :: "string list"

datatype explanation_status = XS_available | XS_rejected | XS_unavailable

record analysis_explanation =
  ax_status :: explanation_status
  ax_signal_json :: "string option"
  ax_context_json :: "string option"
  ax_decision_json :: "string option"

record analysis_version =
  av_analysis_id :: string
  av_case_id :: string
  av_analysis_started_at :: instant
  av_retrieval_window_ends_at :: instant
  av_created_at :: instant
  av_material_hash :: string
  av_material :: analysis_material
  av_evidence_items :: "evidence_item list"
  av_evidence_validation :: evidence_validation
  av_response_options :: "response_option list"
  av_approval_satisfactions :: "approval_satisfaction list"
  av_ranking :: ranking_result
  av_retrieval_lineage :: "analysis_retrieval_lineage list"
  av_explanation :: analysis_explanation

end
