(* ===== verification/Finance_Revisions.thy ===== *)
theory Finance_Revisions
  imports Finance_Review Analysis_Material "HOL-Library.Sublist"
begin

text \<open>
  The revision log of finance reviews: \<open>services/persistence/finance_reviews.py\<close> over the
  table \<open>finance_review_revisions\<close> of \<open>services/persistence/tables.py\<close>.

  The table is the list of its committed rows in the order of their insertion, with the
  constraints the schema declares: the primary key (review_id, revision) and the unique
  idempotency key.  Rows are only ever inserted.  The analysis table is the map the repository
  reads Analysis Versions from; it is never updated here.  What pydantic does between a review
  and the text of \<open>payload_json\<close> is a parameter: a printer and a parser, of which the
  properties use that the parser inverts the printer.  The validators of the parsed model are
  part of this development.
\<close>

section \<open>Tables and the row format\<close>

record 'p finance_row =
  frw_review_id :: string
  frw_revision :: int
  frw_case_id :: string
  frw_analysis_id :: string
  frw_analysis_material_hash :: string
  frw_option_id :: string
  frw_status :: string
  frw_idempotency_key :: string
  frw_request_fingerprint :: string
  frw_recorded_at :: instant
  frw_payload_json :: 'p

record 'p review_json =
  rj_print :: "finance_review \<Rightarrow> 'p"
  rj_parse :: "'p \<Rightarrow> finance_review option"

record 'p finance_db =
  fdb_analyses :: "string \<Rightarrow> analysis_version option"
  fdb_rows :: "'p finance_row list"

text \<open>\<open>INSERT\<close> under the constraints of the table.\<close>

definition insert_finance_row :: "'p finance_db \<Rightarrow> 'p finance_row \<Rightarrow> 'p finance_db result" where
  "insert_finance_row db row =
     (if 0 < frw_revision row \<and>
         (\<forall>r \<in> set (fdb_rows db).
            (frw_review_id r, frw_revision r) \<noteq> (frw_review_id row, frw_revision row) \<and>
            frw_idempotency_key r \<noteq> frw_idempotency_key row)
      then Inr (db\<lparr>fdb_rows := fdb_rows db @ [row]\<rparr>)
      else Inl IntegrityError)"

text \<open>\<open>.one_or_none()\<close>\<close>

definition one_or_none :: "'a list \<Rightarrow> 'a option result" where
  "one_or_none rows =
     (case rows of [] \<Rightarrow> Inr None | [r] \<Rightarrow> Inr (Some r) | _ \<Rightarrow> Inl MultipleResultsFound)"

lemma one_or_none_Some: "one_or_none xs = Inr (Some x) \<Longrightarrow> xs = [x]"
  by (auto simp: one_or_none_def split: list.splits)

lemma one_or_none_None: "one_or_none xs = Inr None \<longleftrightarrow> xs = []"
  by (auto simp: one_or_none_def split: list.splits)

text \<open>\<open>FinanceReview.model_validate_json\<close>: parsing, then the validators of the model.\<close>

definition canonical_identities :: "finance_review \<Rightarrow> finance_review" where
  "canonical_identities r =
     r\<lparr>fr_submitted_by := canonicalize_roles (fr_submitted_by r),
       fr_reviewed_by := map_option canonicalize_roles (fr_reviewed_by r)\<rparr>"

definition review_of_json :: "'p review_json \<Rightarrow> 'p \<Rightarrow> finance_review result" where
  "review_of_json j p =
     bindR (the_or (ValueError ''invalid JSON'') (rj_parse j p)) (\<lambda>raw.
     bindR (require (wf_finance_proposal (fr_proposal raw)) (ValueError ''proposal'')) (\<lambda>_.
     mk_finance_review (canonical_identities raw)))"

text \<open>A \<open>FinanceReview\<close> instance: what the validators leave unchanged.\<close>

definition wf_finance_review :: "finance_review \<Rightarrow> bool" where
  "wf_finance_review r \<longleftrightarrow>
     wf_finance_proposal (fr_proposal r) \<and> canonical_identities r = r \<and> mk_finance_review r = Inr r"

definition recorded_at :: "finance_review \<Rightarrow> instant" where
  "recorded_at r =
     (case fr_superseded_at r of
        Some t \<Rightarrow> t
      | None \<Rightarrow> (case fr_reviewed_at r of Some t \<Rightarrow> t | None \<Rightarrow> fr_submitted_at r))"

section \<open>Reading\<close>

definition require_bound_analysis :: "'p finance_db \<Rightarrow> finance_review \<Rightarrow> unit result" where
  "require_bound_analysis db review =
     bindR (the_or (PersistenceIntegrityError ''Finance review Analysis Version does not exist'')
              (fdb_analyses db (fp_analysis_id (fr_proposal review)))) (\<lambda>analysis.
     let proposal = fr_proposal review in
     bindR (require (fp_case_id proposal = av_case_id analysis \<and>
                     fp_analysis_material_hash proposal = av_material_hash analysis)
              (PersistenceIntegrityError
                 ''Finance proposal conflicts with immutable Analysis Version'')) (\<lambda>_.
     let material_option = find (\<lambda>item. arom_option_id item = fp_option_id proposal)
           (am_response_options (av_material analysis));
         outer_option = find (\<lambda>item. ro_option_id item = fp_option_id proposal)
           (av_response_options analysis) in
     require (case (material_option, outer_option) of
                (Some m, Some out) \<Rightarrow>
                  (case arom_predicted m of
                     None \<Rightarrow> False
                   | Some p \<Rightarrow> pred_response_cost p = fp_response_cost proposal) \<and>
                  option_material out = m
              | _ \<Rightarrow> False)
       (PersistenceIntegrityError
          ''Finance proposal option or evaluated cost conflicts with Analysis Version'')))"

definition from_row ::
    "'p review_json \<Rightarrow> 'p finance_db \<Rightarrow> 'p finance_row \<Rightarrow> (finance_review \<times> int) result" where
  "from_row j db row =
     bindR (case review_of_json j (frw_payload_json row) of
              Inl e \<Rightarrow> Inl (PersistenceIntegrityError
                             ''persisted Finance Review contains invalid JSON'')
            | Inr review \<Rightarrow> Inr review) (\<lambda>review.
     let revision = frw_revision row in
     bindR (require (0 < revision \<and>
                     fr_review_id review = frw_review_id row \<and>
                     fp_case_id (fr_proposal review) = frw_case_id row \<and>
                     fp_analysis_id (fr_proposal review) = frw_analysis_id row \<and>
                     fp_analysis_material_hash (fr_proposal review) =
                       frw_analysis_material_hash row \<and>
                     fp_option_id (fr_proposal review) = frw_option_id row \<and>
                     finance_review_status_value (fr_status review) = frw_status row \<and>
                     is_sha256_hex (frw_request_fingerprint row) \<and>
                     frw_recorded_at row = recorded_at review)
              (PersistenceIntegrityError
                 ''Finance Review duplicated columns conflict with canonical JSON'')) (\<lambda>_.
     bindR (require_bound_analysis db review) (\<lambda>_.
     Inr (review, revision))))"

text \<open>\<open>ORDER BY revision DESC LIMIT 1\<close>\<close>

definition latest_row :: "'p finance_db \<Rightarrow> string \<Rightarrow> 'p finance_row option" where
  "latest_row db review_id =
     (case sort_key (\<lambda>r. - frw_revision r)
             (filter (\<lambda>r. frw_review_id r = review_id) (fdb_rows db)) of
        [] \<Rightarrow> None
      | r # _ \<Rightarrow> Some r)"

definition get_latest ::
    "'p review_json \<Rightarrow> 'p finance_db \<Rightarrow> string \<Rightarrow> (finance_review \<times> int) result" where
  "get_latest j db review_id =
     bindR (the_or (RecordNotFound ''finance review does not exist'') (latest_row db review_id))
       (from_row j db)"

definition get_revision ::
    "'p review_json \<Rightarrow> 'p finance_db \<Rightarrow> string \<Rightarrow> int \<Rightarrow> finance_review result" where
  "get_revision j db review_id revision =
     bindR (require (0 < revision) (ValueError ''revision must be a positive integer'')) (\<lambda>_.
     bindR (one_or_none (filter (\<lambda>r. frw_review_id r = review_id \<and> frw_revision r = revision)
              (fdb_rows db))) (\<lambda>found.
     bindR (the_or (RecordNotFound ''finance review revision does not exist'') found) (\<lambda>row.
     bindR (from_row j db row) (\<lambda>(review, _). Inr review))))"

definition get_by_idempotency_key ::
    "'p review_json \<Rightarrow> 'p finance_db \<Rightarrow> string \<Rightarrow>
     (finance_review \<times> int \<times> string) option result" where
  "get_by_idempotency_key j db idempotency_key =
     bindR (one_or_none (filter (\<lambda>r. frw_idempotency_key r = idempotency_key) (fdb_rows db)))
       (\<lambda>found.
     case found of
       None \<Rightarrow> Inr None
     | Some row \<Rightarrow>
         bindR (from_row j db row) (\<lambda>(review, revision).
         Inr (Some (review, revision, frw_request_fingerprint row))))"

section \<open>Appending a revision\<close>

text \<open>\<open>except FinanceReviewViolation as error: raise PersistenceIntegrityError(..) from error\<close>\<close>

definition violation_as :: "string \<Rightarrow> 'a result \<Rightarrow> 'a result" where
  "violation_as msg r =
     (case r of Inl (FinanceReviewViolation _) \<Rightarrow> Inl (PersistenceIntegrityError msg) | _ \<Rightarrow> r)"

definition first_revision :: "finance_review \<Rightarrow> int result" where
  "first_revision review =
     bindR (require (fr_status review = FRS_PENDING)
              (PersistenceIntegrityError ''first Finance review revision must be pending'')) (\<lambda>_.
     bindR (violation_as ''first Finance review revision violates submission policy''
              (submit_finance_review (fr_review_id review) (fr_proposal review)
                 (fr_submitted_by review) (Aware (fr_submitted_at review)))) (\<lambda>canonical.
     bindR (require (canonical = review)
              (PersistenceIntegrityError ''first Finance review revision is not canonical'')) (\<lambda>_.
     Inr 1)))"

definition canonical_transition :: "finance_review \<Rightarrow> finance_review \<Rightarrow> finance_review result" where
  "canonical_transition previous review =
     (if fr_status review = FRS_SUPERSEDED then
        bindR (the_or AssertionError (fr_superseded_at review)) (\<lambda>t.
        supersede_finance_review previous (Aware t))
      else
        bindR (the_or AssertionError (fr_reviewed_by review)) (\<lambda>actor.
        bindR (the_or AssertionError (fr_reviewed_at review)) (\<lambda>t.
        resolve_finance_review previous (fr_proposal previous) actor
          (fr_status review = FRS_APPROVED) (fr_reason review) (Aware t))))"

definition next_revision :: "finance_review \<Rightarrow> int \<Rightarrow> finance_review \<Rightarrow> int result" where
  "next_revision previous current_revision review =
     bindR (require (review_allowed (fr_status previous) (fr_status review) \<and>
                     fr_review_id review = fr_review_id previous \<and>
                     fr_proposal review = fr_proposal previous \<and>
                     fr_submitted_by review = fr_submitted_by previous \<and>
                     fr_submitted_at review = fr_submitted_at previous)
              (PersistenceIntegrityError ''invalid Finance review lifecycle transition'')) (\<lambda>_.
     bindR (require (fr_status review \<noteq> FRS_SUPERSEDED \<or>
                     (fr_reviewed_by review, fr_reviewed_at review, fr_reason review) =
                     (fr_reviewed_by previous, fr_reviewed_at previous, fr_reason previous))
              (PersistenceIntegrityError
                 ''Finance supersession must preserve review metadata'')) (\<lambda>_.
     bindR (violation_as ''Finance review revision violates lifecycle policy''
              (canonical_transition previous review)) (\<lambda>canonical.
     bindR (require (canonical = review)
              (PersistenceIntegrityError
                 ''Finance review revision is not a canonical transition'')) (\<lambda>_.
     Inr (current_revision + 1)))))"

text \<open>
  \<open>append\<close> up to its \<open>INSERT\<close>: what it reads decides between the stored result of an earlier
  request and a row to insert.
\<close>

datatype 'p append_plan = Replayed finance_review int | NewRow "'p finance_row"

definition finance_row_of ::
    "'p review_json \<Rightarrow> finance_review \<Rightarrow> int \<Rightarrow> string \<Rightarrow> string \<Rightarrow> 'p finance_row" where
  "finance_row_of j review revision idempotency_key request_fingerprint =
     (let proposal = fr_proposal review in
      \<lparr>frw_review_id = fr_review_id review, frw_revision = revision,
       frw_case_id = fp_case_id proposal, frw_analysis_id = fp_analysis_id proposal,
       frw_analysis_material_hash = fp_analysis_material_hash proposal,
       frw_option_id = fp_option_id proposal,
       frw_status = finance_review_status_value (fr_status review),
       frw_idempotency_key = idempotency_key, frw_request_fingerprint = request_fingerprint,
       frw_recorded_at = recorded_at review, frw_payload_json = rj_print j review\<rparr>)"

definition current_finance_revision ::
    "'p review_json \<Rightarrow> 'p finance_db \<Rightarrow> string \<Rightarrow> (finance_review \<times> int) option result" where
  "current_finance_revision j db review_id =
     (case get_latest j db review_id of
        Inr (previous, revision) \<Rightarrow> Inr (Some (previous, revision))
      | Inl (RecordNotFound _) \<Rightarrow> Inr None
      | Inl e \<Rightarrow> Inl e)"

definition plan_append ::
    "'p review_json \<Rightarrow> 'p finance_db \<Rightarrow> finance_review \<Rightarrow> int option \<Rightarrow> string \<Rightarrow> string \<Rightarrow>
     'p append_plan result" where
  "plan_append j db review expected_revision idempotency_key request_fingerprint =
     bindR (require (case expected_revision of None \<Rightarrow> True | Some n \<Rightarrow> 0 < n)
              (ValueError ''expected_revision must be a positive integer or None'')) (\<lambda>_.
     bindR (require (nonblank idempotency_key)
              (ValueError ''idempotency_key must be nonblank'')) (\<lambda>_.
     bindR (require (is_sha256_hex request_fingerprint)
              (ValueError ''request_fingerprint must be lowercase 64-hex'')) (\<lambda>_.
     bindR (get_by_idempotency_key j db idempotency_key) (\<lambda>replay.
     case replay of
       Some (stored, revision, fingerprint) \<Rightarrow>
         bindR (require (stored = review \<and> fingerprint = request_fingerprint)
                  FinanceReviewIdempotencyConflict) (\<lambda>_.
         Inr (Replayed stored revision))
     | None \<Rightarrow>
         bindR (current_finance_revision j db (fr_review_id review)) (\<lambda>current.
         bindR (require (map_option snd current = expected_revision)
                  FinanceReviewRevisionConflict) (\<lambda>_.
         bindR (case current of
                  None \<Rightarrow> first_revision review
                | Some (previous, current_revision) \<Rightarrow>
                    next_revision previous current_revision review) (\<lambda>revision.
         bindR (require_bound_analysis db review) (\<lambda>_.
         Inr (NewRow (finance_row_of j review revision idempotency_key
                        request_fingerprint))))))))))"

text \<open>\<open>append\<close> in a transaction that sees its own table.\<close>

definition append_revision ::
    "'p review_json \<Rightarrow> 'p finance_db \<Rightarrow> finance_review \<Rightarrow> int option \<Rightarrow> string \<Rightarrow> string \<Rightarrow>
     ('p finance_db \<times> finance_review \<times> int) result" where
  "append_revision j db review expected_revision idempotency_key request_fingerprint =
     bindR (plan_append j db review expected_revision idempotency_key request_fingerprint) (\<lambda>plan.
     case plan of
       Replayed stored revision \<Rightarrow> Inr (db, stored, revision)
     | NewRow row \<Rightarrow>
         bindR (insert_finance_row db row) (\<lambda>db'. Inr (db', review, frw_revision row)))"

text \<open>
  \<open>append_finance_review\<close> among concurrent writers: its transaction reads the table as it
  was (\<open>seen\<close>), its \<open>INSERT\<close> is checked against the committed rows (\<open>current\<close>), and when
  that raises \<open>IntegrityError\<close> a second transaction reads the table again (\<open>recovery\<close>).  The
  result is the committed table after the first transaction and the value or exception of the
  call.
\<close>

definition recover_append ::
    "'p review_json \<Rightarrow> 'p finance_db \<Rightarrow> finance_review \<Rightarrow> int option \<Rightarrow> string \<Rightarrow> string \<Rightarrow>
     (finance_review \<times> int) result" where
  "recover_append j recovery review expected_revision idempotency_key request_fingerprint =
     bindR (get_by_idempotency_key j recovery idempotency_key) (\<lambda>replay.
     case replay of
       Some (stored, revision, fingerprint) \<Rightarrow>
         if fingerprint = request_fingerprint \<and> stored = review then Inr (stored, revision)
         else Inl FinanceReviewIdempotencyConflict
     | None \<Rightarrow>
         bindR (current_finance_revision j recovery (fr_review_id review)) (\<lambda>actual.
         if map_option snd actual \<noteq> expected_revision then Inl FinanceReviewRevisionConflict
         else Inl IntegrityError))"

definition append_finance_review ::
    "'p review_json \<Rightarrow> 'p finance_db \<Rightarrow> 'p finance_db \<Rightarrow> 'p finance_db \<Rightarrow> finance_review \<Rightarrow>
     int option \<Rightarrow> string \<Rightarrow> string \<Rightarrow> 'p finance_db \<times> (finance_review \<times> int) result" where
  "append_finance_review j seen current recovery review expected_revision idempotency_key
       request_fingerprint =
     (case plan_append j seen review expected_revision idempotency_key request_fingerprint of
        Inl e \<Rightarrow> (current, Inl e)
      | Inr (Replayed stored revision) \<Rightarrow> (current, Inr (stored, revision))
      | Inr (NewRow row) \<Rightarrow>
          (case insert_finance_row current row of
             Inr db' \<Rightarrow> (db', Inr (review, frw_revision row))
           | Inl e \<Rightarrow> (current, recover_append j recovery review expected_revision
                                  idempotency_key request_fingerprint)))"

section \<open>The log invariant\<close>

definition rows_of :: "'p finance_db \<Rightarrow> string \<Rightarrow> 'p finance_row list" where
  "rows_of db review_id = filter (\<lambda>r. frw_review_id r = review_id) (fdb_rows db)"

definition json_inverse :: "'p review_json \<Rightarrow> bool" where
  "json_inverse j \<longleftrightarrow> (\<forall>r. wf_finance_review r \<longrightarrow> rj_parse j (rj_print j r) = Some r)"

definition review_in :: "'p review_json \<Rightarrow> 'p finance_row \<Rightarrow> finance_review" where
  "review_in j row = projr (review_of_json j (frw_payload_json row))"

text \<open>The reviews stored under an id, oldest revision first.\<close>

definition review_history :: "'p review_json \<Rightarrow> 'p finance_db \<Rightarrow> string \<Rightarrow> finance_review list" where
  "review_history j db review_id = map (review_in j) (rows_of db review_id)"

definition good_row :: "'p review_json \<Rightarrow> 'p finance_db \<Rightarrow> 'p finance_row \<Rightarrow> bool" where
  "good_row j db row \<longleftrightarrow>
     (\<exists>review. wf_finance_review review \<and> require_bound_analysis db review = Inr () \<and>
        0 < frw_revision row \<and> is_sha256_hex (frw_request_fingerprint row) \<and>
        row = finance_row_of j review (frw_revision row) (frw_idempotency_key row)
                (frw_request_fingerprint row))"

definition submitted_review :: "finance_review \<Rightarrow> bool" where
  "submitted_review r \<longleftrightarrow> (\<exists>rid proposal actor now. submit_finance_review rid proposal actor now = Inr r)"

definition review_chain :: "finance_review list \<Rightarrow> bool" where
  "review_chain rs \<longleftrightarrow> (rs = [] \<or> submitted_review (hd rs)) \<and> successively review_step rs"

definition good_log :: "'p review_json \<Rightarrow> 'p finance_db \<Rightarrow> bool" where
  "good_log j db \<longleftrightarrow>
     distinct (map frw_idempotency_key (fdb_rows db)) \<and>
     (\<forall>row \<in> set (fdb_rows db). good_row j db row) \<and>
     (\<forall>rid. map frw_revision (rows_of db rid) = map int [1..<Suc (length (rows_of db rid))]) \<and>
     (\<forall>rid. review_chain (review_history j db rid))"

text \<open>Other transactions only add rows.\<close>

definition extends_log :: "'p finance_db \<Rightarrow> 'p finance_db \<Rightarrow> bool" where
  "extends_log db db' \<longleftrightarrow>
     fdb_analyses db' = fdb_analyses db \<and> prefix (fdb_rows db) (fdb_rows db')"

subsection \<open>Reading from a good log\<close>

lemma review_of_json_print:
  assumes "json_inverse j" and "wf_finance_review r"
  shows "review_of_json j (rj_print j r) = Inr r"
proof -
  have "rj_parse j (rj_print j r) = Some r" using assms unfolding json_inverse_def by blast
  moreover have "wf_finance_proposal (fr_proposal r)" "canonical_identities r = r"
    "mk_finance_review r = Inr r" using assms(2) unfolding wf_finance_review_def by blast+
  ultimately show ?thesis by (simp add: review_of_json_def require_def)
qed

lemma bound_analysis_cong:
  assumes "fdb_analyses db' = fdb_analyses db"
  shows "require_bound_analysis db' = require_bound_analysis db"
  unfolding require_bound_analysis_def assms by (rule refl)

lemma from_row_cong:
  assumes "fdb_analyses db' = fdb_analyses db"
  shows "from_row j db' = from_row j db"
  unfolding from_row_def bound_analysis_cong [OF assms] by (rule refl)

lemma from_good_row:
  assumes "json_inverse j" and "good_row j db row"
  shows "from_row j db row = Inr (review_in j row, frw_revision row)"
    "wf_finance_review (review_in j row)"
    "fr_review_id (review_in j row) = frw_review_id row"
proof -
  from assms(2) obtain review where review: "wf_finance_review review"
    "require_bound_analysis db review = Inr ()" "0 < frw_revision row"
    "is_sha256_hex (frw_request_fingerprint row)"
    and row: "row = finance_row_of j review (frw_revision row) (frw_idempotency_key row)
                (frw_request_fingerprint row)"
    unfolding good_row_def by blast
  have cols: "frw_payload_json row = rj_print j review" "frw_review_id row = fr_review_id review"
    "frw_case_id row = fp_case_id (fr_proposal review)"
    "frw_analysis_id row = fp_analysis_id (fr_proposal review)"
    "frw_analysis_material_hash row = fp_analysis_material_hash (fr_proposal review)"
    "frw_option_id row = fp_option_id (fr_proposal review)"
    "frw_status row = finance_review_status_value (fr_status review)"
    "frw_recorded_at row = recorded_at review"
    by (subst row, simp add: finance_row_of_def Let_def)+
  have json: "review_of_json j (rj_print j review) = Inr review"
    by (rule review_of_json_print [OF assms(1) review(1)])
  then have r: "review_in j row = review" by (simp add: review_in_def cols)
  show "wf_finance_review (review_in j row)" "fr_review_id (review_in j row) = frw_review_id row"
    using review(1) by (simp_all add: r cols)
  show "from_row j db row = Inr (review_in j row, frw_revision row)"
    using review(2-4) by (simp add: from_row_def cols json r require_def)
qed

lemma one_or_none_filter:
  assumes "distinct (map f xs)"
  shows "one_or_none (filter (\<lambda>x. f x = k) xs) = Inr (find (\<lambda>x. f x = k) xs)"
  using assms
proof (induction xs)
  case (Cons x xs)
  show ?case
  proof (cases "f x = k")
    case True
    with Cons.prems have "filter (\<lambda>x. f x = k) xs = []" by (auto simp: filter_empty_conv image_iff)
    with True show ?thesis by (simp add: one_or_none_def)
  next
    case False
    with Cons show ?thesis by simp
  qed
qed (simp add: one_or_none_def)

lemma good_logD:
  assumes "good_log j db"
  shows "distinct (map frw_idempotency_key (fdb_rows db))"
    "row \<in> set (fdb_rows db) \<Longrightarrow> good_row j db row"
    "map frw_revision (rows_of db rid) = map int [1..<Suc (length (rows_of db rid))]"
    "review_chain (review_history j db rid)"
  using assms unfolding good_log_def by blast+

lemma rows_of_subset: "row \<in> set (rows_of db rid) \<Longrightarrow> row \<in> set (fdb_rows db) \<and> frw_review_id row = rid"
  by (simp add: rows_of_def)

lemma revision_at:
  assumes "good_log j db" and "i < length (rows_of db rid)"
  shows "frw_revision (rows_of db rid ! i) = int (Suc i)"
proof -
  have "frw_revision (rows_of db rid ! i) = map frw_revision (rows_of db rid) ! i"
    using assms(2) by simp
  also have "\<dots> = int (Suc i)" using assms(2) by (simp add: good_logD(3) [OF assms(1), of rid] del: upt_Suc)
  finally show ?thesis .
qed

lemma revisions_distinct: "good_log j db \<Longrightarrow> distinct (map frw_revision (rows_of db rid))"
  using good_logD(3) [of j db rid] by (simp add: distinct_map)

lemma latest_row_good:
  assumes "good_log j db"
  shows "latest_row db rid = (if rows_of db rid = [] then None else Some (last (rows_of db rid)))"
proof -
  let ?rs = "rows_of db rid"
  have d: "distinct (map (\<lambda>r. - frw_revision r) ?rs)"
    using revisions_distinct [OF assms, of rid] by (simp add: distinct_map inj_on_def)
  have "sorted (rev (map (\<lambda>r. - frw_revision r) ?rs))"
    unfolding sorted_rev_iff_nth_mono using revision_at [OF assms, of _ rid] by auto
  then have "sorted (map (\<lambda>r. - frw_revision r) (rev ?rs))" by (simp add: rev_map)
  then have "sort_key (\<lambda>r. - frw_revision r) (rev ?rs) = rev ?rs" by (rule sort_key_sorted_id)
  moreover have "sort_key (\<lambda>r. - frw_revision r) ?rs = sort_key (\<lambda>r. - frw_revision r) (rev ?rs)"
    by (rule sort_key_perm [OF _ d]) simp
  ultimately show ?thesis
    by (cases "?rs" rule: rev_cases) (simp_all add: latest_row_def rows_of_def [symmetric])
qed

lemma get_latest_good:
  assumes "json_inverse j" and "good_log j db"
  shows "get_latest j db rid =
    (if rows_of db rid = [] then Inl (RecordNotFound ''finance review does not exist'')
     else Inr (last (review_history j db rid), int (length (rows_of db rid))))"
proof (cases "rows_of db rid = []")
  case True
  then show ?thesis by (simp add: get_latest_def latest_row_good [OF assms(2)])
next
  case False
  then have "last (rows_of db rid) \<in> set (rows_of db rid)" by simp
  then have "last (rows_of db rid) \<in> set (fdb_rows db)" using rows_of_subset by blast
  then have "from_row j db (last (rows_of db rid)) =
      Inr (review_in j (last (rows_of db rid)), frw_revision (last (rows_of db rid)))"
    using from_good_row(1) [OF assms(1)] good_logD(2) [OF assms(2)] by blast
  moreover have "frw_revision (last (rows_of db rid)) = int (length (rows_of db rid))"
    using False revision_at [OF assms(2), of "length (rows_of db rid) - 1" rid]
    by (simp add: last_conv_nth)
  ultimately show ?thesis using False
    by (simp add: get_latest_def latest_row_good [OF assms(2)] review_history_def last_map)
qed

lemma current_revision_good:
  assumes "json_inverse j" and "good_log j db"
  shows "current_finance_revision j db rid =
    Inr (if rows_of db rid = [] then None
         else Some (last (review_history j db rid), int (length (rows_of db rid))))"
  by (simp add: current_finance_revision_def get_latest_good [OF assms])

lemma get_by_key_good:
  assumes "json_inverse j" and "good_log j db"
  shows "get_by_idempotency_key j db key =
    Inr (map_option (\<lambda>row. (review_in j row, frw_revision row, frw_request_fingerprint row))
           (find (\<lambda>row. frw_idempotency_key row = key) (fdb_rows db)))"
proof (cases "find (\<lambda>row. frw_idempotency_key row = key) (fdb_rows db)")
  case None
  then show ?thesis
    by (simp add: get_by_idempotency_key_def one_or_none_filter [OF good_logD(1) [OF assms(2)]])
next
  case (Some row)
  then have "row \<in> set (fdb_rows db)" using find_Some_key by fast
  then have "from_row j db row = Inr (review_in j row, frw_revision row)"
    using from_good_row(1) [OF assms(1)] good_logD(2) [OF assms(2)] by blast
  with Some show ?thesis
    by (simp add: get_by_idempotency_key_def one_or_none_filter [OF good_logD(1) [OF assms(2)]])
qed

lemma get_revision_good:
  assumes "json_inverse j" and "good_log j db" and "i < length (rows_of db rid)"
  shows "get_revision j db rid (int (Suc i)) = Inr (review_history j db rid ! i)"
proof -
  let ?row = "rows_of db rid ! i"
  have row: "?row \<in> set (rows_of db rid)" using assms(3) by simp
  have "filter (\<lambda>r. frw_review_id r = rid \<and> frw_revision r = int (Suc i)) (fdb_rows db) =
      filter (\<lambda>r. frw_revision r = int (Suc i)) (rows_of db rid)"
    by (simp add: rows_of_def conj_commute)
  moreover have "find (\<lambda>r. frw_revision r = int (Suc i)) (rows_of db rid) = Some ?row"
    using find_distinct [OF revisions_distinct [OF assms(2)] row] revision_at [OF assms(2,3)] by simp
  ultimately have "one_or_none (filter (\<lambda>r. frw_review_id r = rid \<and> frw_revision r = int (Suc i))
      (fdb_rows db)) = Inr (Some ?row)"
    using one_or_none_filter [OF revisions_distinct [OF assms(2), of rid]] by simp
  moreover have "from_row j db ?row = Inr (review_in j ?row, frw_revision ?row)"
    using row rows_of_subset from_good_row(1) [OF assms(1)] good_logD(2) [OF assms(2)] by blast
  ultimately show ?thesis
    using assms(3) by (simp add: get_revision_def require_def review_history_def)
qed

subsection \<open>What an append decides\<close>

lemma violation_as_Inr [result_simps]: "violation_as msg r = Inr x \<longleftrightarrow> r = Inr x"
  by (auto simp: violation_as_def split: sum.splits py_error.splits)

lemma first_revision_Inr:
  assumes "first_revision review = Inr n"
  shows "n = 1 \<and> submitted_review review"
  using assms unfolding first_revision_def submitted_review_def
  by (auto simp only: result_simps sum.inject)

lemma next_revision_Inr:
  assumes "next_revision previous c review = Inr n"
  shows "n = c + 1 \<and> review_step previous review"
proof -
  from assms have n: "n = c + 1" and step: "canonical_transition previous review = Inr review"
    and allowed: "review_allowed (fr_status previous) (fr_status review)"
    unfolding next_revision_def by (auto simp only: result_simps sum.inject)
  from allowed have ne: "review \<noteq> previous" by (cases "fr_status previous") auto
  have "review_step previous review"
  proof (cases "fr_status review = FRS_SUPERSEDED")
    case True
    with step obtain t where "supersede_finance_review previous (Aware t) = Inr review"
      by (auto simp: canonical_transition_def result_simps)
    then show ?thesis using ne by (rule review_step.supersede)
  next
    case False
    with step obtain actor t where "resolve_finance_review previous (fr_proposal previous) actor
        (fr_status review = FRS_APPROVED) (fr_reason review) (Aware t) = Inr review"
      by (auto simp only: canonical_transition_def result_simps if_False)
    then show ?thesis by (rule review_step.resolve)
  qed
  with n show ?thesis by blast
qed

lemma review_chain_snoc:
  assumes "review_chain rs"
    and "if rs = [] then submitted_review r else review_step (last rs) r"
  shows "review_chain (rs @ [r])"
  using assms by (auto simp: review_chain_def successively_append_iff split: if_splits)

definition has_key :: "'p finance_db \<Rightarrow> string \<Rightarrow> bool" where
  "has_key db key \<longleftrightarrow> key \<in> frw_idempotency_key ` set (fdb_rows db)"

lemma find_key_None: "find (\<lambda>row. frw_idempotency_key row = key) (fdb_rows db) = None \<longleftrightarrow> \<not> has_key db key"
  by (auto simp: find_None_iff has_key_def)

definition revision_of_count :: "nat \<Rightarrow> int option" where
  "revision_of_count n = (if n = 0 then None else Some (int n))"

text \<open>The guards on the arguments, and the part of an append behind them, over a good log.\<close>

definition append_arguments :: "int option \<Rightarrow> string \<Rightarrow> string \<Rightarrow> unit result" where
  "append_arguments expected_revision idempotency_key request_fingerprint =
     bindR (require (case expected_revision of None \<Rightarrow> True | Some n \<Rightarrow> 0 < n)
              (ValueError ''expected_revision must be a positive integer or None'')) (\<lambda>_.
     bindR (require (nonblank idempotency_key)
              (ValueError ''idempotency_key must be nonblank'')) (\<lambda>_.
     require (is_sha256_hex request_fingerprint)
       (ValueError ''request_fingerprint must be lowercase 64-hex'')))"

definition revision_after ::
    "'p review_json \<Rightarrow> 'p finance_db \<Rightarrow> finance_review \<Rightarrow> int result" where
  "revision_after j db review =
     (let h = review_history j db (fr_review_id review) in
      if h = [] then first_revision review
      else next_revision (last h) (int (length h)) review)"

lemma plan_append_good:
  assumes "json_inverse j" and "good_log j db"
  shows "plan_append j db review expected key fp =
    bindR (append_arguments expected key fp) (\<lambda>_.
    case find (\<lambda>row. frw_idempotency_key row = key) (fdb_rows db) of
      Some row \<Rightarrow>
        bindR (require (review_in j row = review \<and> frw_request_fingerprint row = fp)
                 FinanceReviewIdempotencyConflict) (\<lambda>_.
        Inr (Replayed (review_in j row) (frw_revision row)))
    | None \<Rightarrow>
        bindR (require (revision_of_count (length (review_history j db (fr_review_id review))) =
                        expected)
                 FinanceReviewRevisionConflict) (\<lambda>_.
        bindR (revision_after j db review) (\<lambda>revision.
        bindR (require_bound_analysis db review) (\<lambda>_.
        Inr (NewRow (finance_row_of j review revision key fp))))))"
  by (simp add: plan_append_def append_arguments_def get_by_key_good [OF assms]
      current_revision_good [OF assms] revision_after_def review_history_def
      revision_of_count_def bindR_def require_def Let_def split: option.splits sum.splits)

lemma revision_after_Inr:
  assumes "good_log j db" and "revision_after j db review = Inr n"
  shows "n = int (Suc (length (rows_of db (fr_review_id review)))) \<and>
    review_chain (review_history j db (fr_review_id review) @ [review])"
proof -
  let ?h = "review_history j db (fr_review_id review)"
  have chain: "review_chain ?h" by (rule good_logD(4) [OF assms(1)])
  have len: "length ?h = length (rows_of db (fr_review_id review))" by (simp add: review_history_def)
  show ?thesis
  proof (cases "?h = []")
    case True
    with assms(2) have "first_revision review = Inr n" by (simp add: revision_after_def)
    from first_revision_Inr [OF this] have "n = 1" "submitted_review review" by blast+
    then show ?thesis using True len review_chain_snoc [OF chain, of review] by simp
  next
    case False
    with assms(2) have "next_revision (last ?h) (int (length ?h)) review = Inr n"
      by (simp add: revision_after_def Let_def)
    from next_revision_Inr [OF this] have "n = int (length ?h) + 1" "review_step (last ?h) review"
      by blast+
    then show ?thesis using False len review_chain_snoc [OF chain, of review] by simp
  qed
qed

lemma plan_new_row:
  assumes "json_inverse j" and "good_log j db"
    and "plan_append j db review expected key fp = Inr (NewRow row)"
  shows "row = finance_row_of j review (int (Suc (length (rows_of db (fr_review_id review))))) key fp"
    "is_sha256_hex fp" "\<not> has_key db key" "require_bound_analysis db review = Inr ()"
    "revision_of_count (length (rows_of db (fr_review_id review))) = expected"
    "review_chain (review_history j db (fr_review_id review) @ [review])"
proof -
  have none: "find (\<lambda>row. frw_idempotency_key row = key) (fdb_rows db) = None"
    using assms(3) plan_append_good [OF assms(1,2)]
    by (auto simp: result_simps split: option.splits)
  then show "\<not> has_key db key" by (simp add: find_key_None)
  from none assms(3) obtain n where
    args: "append_arguments expected key fp = Inr ()"
    and rev: "revision_after j db review = Inr n"
    and rest: "require_bound_analysis db review = Inr ()"
      "revision_of_count (length (review_history j db (fr_review_id review))) = expected"
      "row = finance_row_of j review n key fp"
    using plan_append_good [OF assms(1,2)] by (auto simp: result_simps)
  from args show "is_sha256_hex fp" by (simp add: append_arguments_def result_simps)
  from revision_after_Inr [OF assms(2) rev] rest
  show "row = finance_row_of j review (int (Suc (length (rows_of db (fr_review_id review))))) key fp"
    "review_chain (review_history j db (fr_review_id review) @ [review])"
    "require_bound_analysis db review = Inr ()"
    "revision_of_count (length (rows_of db (fr_review_id review))) = expected"
    by (simp_all add: review_history_def)
qed

subsection \<open>Appends keep the log good\<close>

lemma review_in_row_of:
  "json_inverse j \<Longrightarrow> wf_finance_review r \<Longrightarrow> review_in j (finance_row_of j r n key fp) = r"
  by (simp add: review_in_def finance_row_of_def Let_def review_of_json_print)

lemma row_of_simps [simp]:
  "frw_review_id (finance_row_of j r n key fp) = fr_review_id r"
  "frw_revision (finance_row_of j r n key fp) = n"
  "frw_idempotency_key (finance_row_of j r n key fp) = key"
  "frw_request_fingerprint (finance_row_of j r n key fp) = fp"
  by (simp_all add: finance_row_of_def Let_def)

lemma rows_of_snoc:
  "rows_of (db\<lparr>fdb_rows := fdb_rows db @ [row]\<rparr>) rid =
     rows_of db rid @ (if frw_review_id row = rid then [row] else [])"
  by (simp add: rows_of_def)

lemma good_row_cong:
  "fdb_analyses db' = fdb_analyses db \<Longrightarrow> good_row j db' row = good_row j db row"
  unfolding good_row_def using bound_analysis_cong [of db' db] by presburger

lemma insert_row_Inr_iff:
  "insert_finance_row db row = Inr db' \<longleftrightarrow>
     0 < frw_revision row \<and> \<not> has_key db (frw_idempotency_key row) \<and>
     frw_revision row \<notin> frw_revision ` set (rows_of db (frw_review_id row)) \<and>
     db' = db\<lparr>fdb_rows := fdb_rows db @ [row]\<rparr>"
  by (auto simp: insert_finance_row_def has_key_def rows_of_def image_iff; metis)

lemma insert_row_Inl: "insert_finance_row db row = Inl e \<Longrightarrow> e = IntegrityError"
  by (simp add: insert_finance_row_def split: if_splits)

lemma revision_fresh_iff:
  assumes "good_log j db"
  shows "int (Suc n) \<notin> frw_revision ` set (rows_of db rid) \<longleftrightarrow> length (rows_of db rid) \<le> n"
proof -
  have "frw_revision ` set (rows_of db rid) = set (map int [1..<Suc (length (rows_of db rid))])"
    using arg_cong [OF good_logD(3) [OF assms, of rid], of set] by simp
  also have "\<dots> = int ` {1..length (rows_of db rid)}" by auto
  finally show ?thesis by (auto simp: image_iff simp del: of_nat_Suc)
qed

lemma extends_rows: "extends_log db db' \<Longrightarrow> prefix (rows_of db rid) (rows_of db' rid)"
  by (auto simp: extends_log_def rows_of_def prefix_def)

lemma extends_has_key: "extends_log db db' \<Longrightarrow> has_key db key \<Longrightarrow> has_key db' key"
  by (auto simp: extends_log_def has_key_def prefix_def)

lemma extends_log_refl [simp]: "extends_log db db"
  by (simp add: extends_log_def)

lemma extends_log_trans: "extends_log a b \<Longrightarrow> extends_log b c \<Longrightarrow> extends_log a c"
  by (auto simp: extends_log_def)

lemma extends_log_snoc: "extends_log db (db\<lparr>fdb_rows := fdb_rows db @ rows\<rparr>)"
  by (simp add: extends_log_def)

text \<open>
  A row planned against an earlier state of the log can be inserted exactly when nothing was added
  under its review id and its key is still free; then the plan is the one of the current state.
\<close>

lemma plan_still_current:
  assumes j: "json_inverse j" and good: "good_log j seen" "good_log j current"
    and ext: "extends_log seen current"
    and plan: "plan_append j seen review expected key fp = Inr (NewRow row)"
    and ins: "insert_finance_row current row = Inr db'"
  shows "plan_append j current review expected key fp = Inr (NewRow row)"
proof -
  let ?rid = "fr_review_id review"
  note row = plan_new_row [OF j good(1) plan]
  have free: "\<not> has_key current key"
    and fresh: "int (Suc (length (rows_of seen ?rid))) \<notin> frw_revision ` set (rows_of current ?rid)"
    using ins row(1) by (simp_all add: insert_row_Inr_iff)
  have "length (rows_of current ?rid) \<le> length (rows_of seen ?rid)"
    using fresh revision_fresh_iff [OF good(2)] by blast
  then have same: "rows_of current ?rid = rows_of seen ?rid"
    using extends_rows [OF ext, of ?rid] by (auto simp: prefix_def)
  have "find (\<lambda>row. frw_idempotency_key row = key) (fdb_rows seen) = None"
    "find (\<lambda>row. frw_idempotency_key row = key) (fdb_rows current) = None"
    using row(3) free by (simp_all add: find_key_None)
  moreover have "require_bound_analysis current = require_bound_analysis seen"
    using ext by (intro bound_analysis_cong) (simp add: extends_log_def)
  moreover have "review_history j current ?rid = review_history j seen ?rid"
    by (simp add: review_history_def same)
  ultimately have "plan_append j current review expected key fp = plan_append j seen review expected key fp"
    unfolding plan_append_good [OF j good(1)] plan_append_good [OF j good(2)] revision_after_def
    by simp
  with plan show ?thesis by simp
qed

lemma good_log_snoc:
  assumes j: "json_inverse j" and good: "good_log j db" and wf: "wf_finance_review review"
    and plan: "plan_append j db review expected key fp = Inr (NewRow row)"
  shows "good_log j (db\<lparr>fdb_rows := fdb_rows db @ [row]\<rparr>)"
proof -
  let ?db = "db\<lparr>fdb_rows := fdb_rows db @ [row]\<rparr>" and ?rid = "fr_review_id review"
  note row = plan_new_row [OF j good plan]
  have same: "fdb_analyses ?db = fdb_analyses db" by simp
  have "distinct (map frw_idempotency_key (fdb_rows ?db))"
    using good_logD(1) [OF good] row(1,3) by (auto simp: has_key_def)
  moreover have "good_row j db row"
    unfolding good_row_def using row(1,2,4) wf by (intro exI [of _ review]) simp
  then have "\<forall>r \<in> set (fdb_rows ?db). good_row j ?db r"
    using good_logD(2) [OF good] good_row_cong [OF same] by simp
  moreover have "\<forall>rid. map frw_revision (rows_of ?db rid) =
      map int [1..<Suc (length (rows_of ?db rid))]"
    using good_logD(3) [OF good] row(1) by (simp add: rows_of_snoc del: upt_Suc) simp
  moreover have "review_in j row = review" using row(1) review_in_row_of [OF j wf] by simp
  then have "\<forall>rid. review_chain (review_history j ?db rid)"
    using good_logD(4) [OF good] row(1,6) by (simp add: review_history_def rows_of_snoc)
  ultimately show ?thesis unfolding good_log_def by blast
qed

subsection \<open>Failures of an append\<close>

lemma mk_finance_review_Inl: "mk_finance_review r = Inl e \<Longrightarrow> \<exists>m. e = ValueError m"
  by (auto simp: mk_finance_review_def validate_state_def result_simps Let_def split: if_splits)

lemma require_uuid_Inl: "require_uuid v l = Inl e \<Longrightarrow> \<exists>m. e = FinanceReviewViolation m"
  by (cases "py_uuid_opt v") (auto simp: require_uuid_def)

lemma require_aware_Inl: "require_aware d = Inl e \<Longrightarrow> \<exists>m. e = FinanceReviewViolation m"
  by (cases d) (auto simp: require_aware_def)

lemma require_actor_Inl:
  "require_actor a persona source roles = Inl e \<Longrightarrow> \<exists>m. e = FinanceReviewViolation m"
  by (auto simp: require_actor_def bindR_Inl_iff require_Inl_iff dest: require_uuid_Inl)

definition policy_error :: "py_error \<Rightarrow> bool" where
  "policy_error e \<longleftrightarrow> (\<exists>m. e = ValueError m \<or> e = FinanceReviewViolation m)"

lemma submit_Inl: "submit_finance_review rid p a now = Inl e \<Longrightarrow> policy_error e"
  by (auto simp: submit_finance_review_def require_proposal_submitter_def policy_error_def
      bindR_Inl_iff require_Inl_iff
      dest: require_actor_Inl require_aware_Inl mk_finance_review_Inl)

lemma resolve_Inl: "resolve_finance_review r p a ok reason now = Inl e \<Longrightarrow> policy_error e"
  by (auto simp: resolve_finance_review_def policy_error_def Let_def bindR_Inl_iff require_Inl_iff
      dest: require_actor_Inl require_aware_Inl mk_finance_review_Inl require_uuid_Inl)

lemma supersede_Inl: "supersede_finance_review r now = Inl e \<Longrightarrow> policy_error e"
  by (auto simp: supersede_finance_review_def policy_error_def bindR_Inl_iff require_Inl_iff
      dest: require_aware_Inl mk_finance_review_Inl split: if_splits)

lemma violation_as_Inl: "violation_as m r = Inl IntegrityError \<Longrightarrow> r = Inl IntegrityError"
  by (auto simp: violation_as_def split: sum.splits py_error.splits)

lemma revision_after_Inl: "revision_after j db review \<noteq> Inl IntegrityError"
proof
  assume err: "revision_after j db review = Inl IntegrityError"
  show False
  proof (cases "review_history j db (fr_review_id review) = []")
    case True
    with err have "first_revision review = Inl IntegrityError" by (simp add: revision_after_def)
    then show False
      by (auto simp: first_revision_def bindR_Inl_iff require_Inl_iff policy_error_def
          dest!: violation_as_Inl dest: submit_Inl)
  next
    case False
    with err obtain p n where "next_revision p n review = Inl IntegrityError"
      by (simp add: revision_after_def Let_def)
    then have "canonical_transition p review = Inl IntegrityError"
      by (auto simp: next_revision_def bindR_Inl_iff require_Inl_iff dest!: violation_as_Inl)
    then show False
      by (auto simp: canonical_transition_def bindR_Inl_iff the_or_def policy_error_def
          split: if_splits option.splits dest: resolve_Inl supersede_Inl)
  qed
qed

lemma bound_analysis_Inl: "require_bound_analysis db r \<noteq> Inl IntegrityError"
  by (auto simp: require_bound_analysis_def bindR_Inl_iff require_Inl_iff the_or_def Let_def
      split: option.splits)

lemma plan_no_integrity_error:
  assumes "json_inverse j" and "good_log j db"
  shows "plan_append j db review expected key fp \<noteq> Inl IntegrityError"
  unfolding plan_append_good [OF assms]
  using revision_after_Inl [of j db review] bound_analysis_Inl [of db review]
  by (auto simp: append_arguments_def bindR_Inl_iff require_Inl_iff split: option.splits)

text \<open>
  After a failed insert the recovery finds the key or a later revision, so it answers what an
  append on the log it reads would answer.
\<close>

lemma recovered_append:
  assumes j: "json_inverse j" and good: "good_log j seen" "good_log j current" "good_log j recovery"
    and ext: "extends_log seen current" "extends_log current recovery"
    and plan: "plan_append j seen review expected key fp = Inr (NewRow row)"
    and ins: "insert_finance_row current row = Inl IntegrityError"
  shows "append_revision j recovery review expected key fp =
      map_sum id (Pair recovery) (recover_append j recovery review expected key fp) \<and>
    recover_append j recovery review expected key fp \<noteq> Inl IntegrityError"
proof -
  let ?rid = "fr_review_id review"
  note row = plan_new_row [OF j good(1) plan]
  have args: "append_arguments expected key fp = Inr ()"
    using plan plan_append_good [OF j good(1)] by (auto simp: result_simps)
  have key: "get_by_idempotency_key j recovery key =
      Inr (map_option (\<lambda>row. (review_in j row, frw_revision row, frw_request_fingerprint row))
        (find (\<lambda>row. frw_idempotency_key row = key) (fdb_rows recovery)))"
    by (rule get_by_key_good [OF j good(3)])
  show ?thesis
  proof (cases "find (\<lambda>row. frw_idempotency_key row = key) (fdb_rows recovery)")
    case (Some r)
    then show ?thesis
      by (auto simp: append_revision_def plan_append_good [OF j good(3)] args key
          recover_append_def require_def)
  next
    case None
    then have "\<not> has_key current key"
      using extends_has_key [OF ext(2), of key] find_key_None [of key recovery] by blast
    then have "frw_revision row \<in> frw_revision ` set (rows_of current ?rid)"
      using ins insert_row_Inr_iff [of current row] row(1) by (auto simp: insert_finance_row_def)
    then have "length (rows_of seen ?rid) < length (rows_of current ?rid)"
      using revision_fresh_iff [OF good(2), of "length (rows_of seen ?rid)" ?rid] row(1)
      by (simp del: of_nat_Suc)
    moreover have "length (rows_of current ?rid) \<le> length (rows_of recovery ?rid)"
      by (rule prefix_length_le [OF extends_rows [OF ext(2)]])
    ultimately have "revision_of_count (length (rows_of recovery ?rid)) \<noteq> expected"
      using row(5) by (auto simp: revision_of_count_def split: if_splits)
    then have stale: "revision_of_count (length (review_history j recovery ?rid)) \<noteq> expected"
      "map_option snd (if rows_of recovery ?rid = [] then None
         else Some (last (review_history j recovery ?rid), int (length (rows_of recovery ?rid)))) \<noteq>
       expected"
      by (auto simp: review_history_def revision_of_count_def split: if_splits)
    then show ?thesis using None
      by (simp add: append_revision_def plan_append_good [OF j good(3)] args key
          recover_append_def current_revision_good [OF j good(3)] require_def)
  qed
qed

text \<open>What a successful append leaves in the log.\<close>

lemma append_stores:
  assumes j: "json_inverse j" and good: "good_log j db" and wf: "wf_finance_review review"
    and run: "append_revision j db review expected key fp = Inr (db', stored, n)"
  shows "(\<exists>row \<in> set (fdb_rows db'). frw_idempotency_key row = key \<and>
      frw_request_fingerprint row = fp \<and> review_in j row = review \<and> frw_revision row = n) \<and>
    stored = review \<and> append_arguments expected key fp = Inr ()"
proof -
  from run obtain plan where plan: "plan_append j db review expected key fp = Inr plan"
    by (auto simp: append_revision_def bindR_Inr_iff)
  then have args: "append_arguments expected key fp = Inr ()"
    by (auto simp: plan_append_good [OF j good] result_simps)
  show ?thesis
  proof (cases plan)
    case (Replayed r m)
    then have "stored = r" "n = m" "db' = db" using run plan by (auto simp: append_revision_def)
    moreover from plan Replayed obtain row where
      row: "find (\<lambda>row. frw_idempotency_key row = key) (fdb_rows db) = Some row"
      "review_in j row = review" "frw_request_fingerprint row = fp" "r = review" "m = frw_revision row"
      by (auto simp: plan_append_good [OF j good] result_simps split: option.splits)
    moreover from row(1) have "row \<in> set (fdb_rows db)" "frw_idempotency_key row = key"
      using find_Some_key by fast+
    ultimately show ?thesis using args by blast
  next
    case (NewRow row)
    note new = plan_new_row [OF j good plan [unfolded NewRow]]
    from run plan NewRow have "insert_finance_row db row = Inr db'" "stored = review"
      "n = frw_revision row" by (auto simp: append_revision_def bindR_Inr_iff)
    then have "row \<in> set (fdb_rows db')" "stored = review" "n = frw_revision row"
      by (auto simp: insert_row_Inr_iff)
    moreover have "frw_idempotency_key row = key" "frw_request_fingerprint row = fp"
      "review_in j row = review" using new(1) review_in_row_of [OF j wf] by simp_all
    ultimately show ?thesis using args by blast
  qed
qed

section \<open>Properties\<close>

text \<open>
  The logs any number of concurrent writers can produce: each writer runs
  \<open>append_finance_review\<close> on a review, having read some earlier committed log.
\<close>

inductive finance_log :: "'p review_json \<Rightarrow> 'p finance_db \<Rightarrow> bool" for j where
  empty: "fdb_rows db = [] \<Longrightarrow> finance_log j db"
| append: "finance_log j seen \<Longrightarrow> finance_log j current \<Longrightarrow> extends_log seen current \<Longrightarrow>
     wf_finance_review review \<Longrightarrow>
     append_finance_review j seen current recovery review expected key fp = (db', out) \<Longrightarrow>
     finance_log j db'"

lemma append_cases:
  assumes "append_finance_review j seen current recovery review expected key fp = (db', out)"
  obtains (failed) e where
    "plan_append j seen review expected key fp = Inl e" "db' = current" "out = Inl e"
  | (replayed) stored n where
    "plan_append j seen review expected key fp = Inr (Replayed stored n)" "db' = current"
    "out = Inr (stored, n)"
  | (inserted) row where
    "plan_append j seen review expected key fp = Inr (NewRow row)"
    "insert_finance_row current row = Inr db'" "out = Inr (review, frw_revision row)"
  | (conflict) row where
    "plan_append j seen review expected key fp = Inr (NewRow row)"
    "insert_finance_row current row = Inl IntegrityError" "db' = current"
    "out = recover_append j recovery review expected key fp"
  using assms insert_row_Inl
  by (auto simp: append_finance_review_def split: sum.splits append_plan.splits)

lemma finance_log_good:
  assumes j: "json_inverse j" and "finance_log j db"
  shows "good_log j db"
  using assms(2)
proof (induction rule: finance_log.induct)
  case (empty db)
  then show ?case by (simp add: good_log_def rows_of_def review_history_def review_chain_def)
next
  case (append seen current review recovery expected key fp db' out)
  from append.hyps(5) show ?case
  proof (cases rule: append_cases)
    case (inserted row)
    have "plan_append j current review expected key fp = Inr (NewRow row)"
      by (rule plan_still_current [OF j append.IH append.hyps(3) inserted(1,2)])
    from good_log_snoc [OF j append.IH(2) append.hyps(4) this] inserted(2)
    show ?thesis by (simp add: insert_row_Inr_iff)
  qed (use append.IH(2) in simp_all)
qed

lemma review_chain_reachable:
  assumes "review_chain rs" and "i < length rs"
  shows "reachable_review (rs ! i)"
  using assms(2)
proof (induction i)
  case 0
  then have "rs \<noteq> []" by auto
  with assms(1) have "submitted_review (rs ! 0)" by (simp add: review_chain_def hd_conv_nth)
  then show ?case unfolding submitted_review_def using reachable_review.submit by blast
next
  case (Suc i)
  then have "reachable_review (rs ! i)" "review_step (rs ! i) (rs ! Suc i)"
    using assms(1) by (simp_all add: review_chain_def successively_conv_nth)
  then show ?case by (rule reachable_review.step)
qed

lemma review_chain_length:
  assumes "review_chain rs"
  shows "length rs \<le> 3"
proof (cases rs)
  case (Cons r rest)
  with assms have "submitted_review r" "successively review_step (r # rest)"
    by (simp_all add: review_chain_def)
  then have "fr_status r = FRS_PENDING"
    using submit_finance_review_Inr by (fastforce simp: submitted_review_def)
  moreover have "successively review_allowed (fr_status r # map fr_status rest)"
    using review_chain_allowed [OF \<open>successively review_step (r # rest)\<close>] by simp
  then have "length rest \<le> review_rank (fr_status r)"
    using review_cycle.history_length [of "fr_status r" "map fr_status rest"] by simp
  ultimately show ?thesis using Cons by simp
qed simp

subsection \<open>A log of one submission\<close>

text \<open>
  A concrete log for the witnesses: the pending review of the previous theory against an
  Analysis Version with one option of its cost; the payload of a row is the review itself.
\<close>

definition example_option :: response_option where
  "example_option =
     \<lparr>ro_option_id = ''OPTION'', ro_option_kind = ROK_EXPEDITE, ro_name = ''Expedite'',
      ro_executable = True, ro_active_mitigation = True,
      ro_predicted = Some
        \<lparr>pred_uncovered_part_demand = 0, pred_otif_loss_percentage = 0, pred_revenue_at_risk = 0,
         pred_margin_at_risk = 0, pred_response_cost = 24000,
         pred_protected_customer_order_ids = []\<rparr>,
      ro_assumptions = [], ro_evidence_ids = [], ro_evidence_requirements = [],
      ro_blocking_codes = [],
      ro_prerequisite_roles = [''material_planner'', ''finance_approver'', ''response_approver''],
      ro_source_data_lineage = [],
      ro_approval_burden = 0, ro_execution_risk = 0, ro_requested_side_effects = []\<rparr>"

definition example_validation :: evidence_validation where
  "example_validation =
     \<lparr>evv_policy_version = [], evv_item_results = [], evv_blocking_codes = [],
      evv_global_blocking_codes = []\<rparr>"

definition example_ranking :: ranking_result where
  "example_ranking =
     \<lparr>rr_policy_version = [], rr_eligible_option_ids = [''OPTION''], rr_infeasible_option_ids = [],
      rr_excluded_baseline_ids = [], rr_stages = [], rr_recommended_option_id = Some ''OPTION'',
      rr_no_feasible_mitigation = False\<rparr>"

definition example_material :: analysis_material where
  "example_material =
     \<lparr>am_case_id = ''CASE'', am_template_id = ''RL-001'', am_case_purpose = CP_REHEARSAL,
      am_runtime_mode = RM_LIVE, am_corpus = CPS_DEMO_CORPUS, am_scenario_effective_time = 0,
      am_operational_snapshot_json = [], am_required_authority_scope = [], am_evidence = [],
      am_conflicts = [], am_conflict_resolutions = [],
      am_evidence_validation = example_validation,
      am_response_options = [option_material example_option],
      am_standing_authorizations = [], am_approval_satisfactions = [],
      am_ranking = example_ranking, am_calculation_version = [],
      am_evidence_policy_version = [], am_approval_policy_version = ''independent-finance-v1''\<rparr>"

definition example_analysis :: analysis_version where
  "example_analysis =
     \<lparr>av_analysis_id = ''ANALYSIS'', av_case_id = ''CASE'', av_analysis_started_at = 0,
      av_retrieval_window_ends_at = 0, av_created_at = 0,
      av_material_hash = replicate 64 CHR ''0'', av_material = example_material,
      av_evidence_items = [], av_evidence_validation = example_validation,
      av_response_options = [example_option], av_approval_satisfactions = [],
      av_ranking = example_ranking, av_retrieval_lineage = [],
      av_explanation = \<lparr>ax_status = XS_unavailable, ax_signal_json = None,
        ax_context_json = None, ax_decision_json = None\<rparr>\<rparr>"

definition review_as_text :: "finance_review review_json" where
  "review_as_text = \<lparr>rj_print = (\<lambda>r. r), rj_parse = Some\<rparr>"

definition empty_log :: "finance_review finance_db" where
  "empty_log = \<lparr>fdb_analyses = [''ANALYSIS'' \<mapsto> example_analysis], fdb_rows = []\<rparr>"

definition example_fingerprint :: string where
  "example_fingerprint = replicate 64 CHR ''a''"

definition submitted_log :: "finance_review finance_db" where
  "submitted_log = empty_log\<lparr>fdb_rows :=
     [finance_row_of review_as_text pending_example 1 ''KEY'' example_fingerprint]\<rparr>"

lemma example_json: "json_inverse review_as_text"
  by (simp add: json_inverse_def review_as_text_def)

lemma example_bound: "require_bound_analysis empty_log pending_example = Inr ()"
  by (simp add: require_bound_analysis_def empty_log_def pending_example_def example_proposal_def
      example_analysis_def example_material_def example_option_def option_material_def require_def)

lemma wf_pending_example: "wf_finance_review pending_example"
proof -
  have "canonicalize_roles alex_identity = alex_identity"
    by (simp add: canonicalize_roles_def alex_identity_def sorted_set_def sorted_alex_roles)
  moreover have "exact_cents 24000" "nonblank ''CASE''" "nonblank ''ANALYSIS''" "nonblank ''OPTION''"
    by (simp_all add: exact_cents_def) code_simp+
  moreover have "is_sha256_hex (replicate 64 CHR ''0'')" by code_simp
  ultimately show ?thesis
    by (simp add: wf_finance_review_def wf_finance_proposal_def canonical_identities_def
        pending_example_def example_proposal_def mk_finance_review_Inr_iff example_texts
        normalize_reason_def validate_state_def require_def)
qed

lemma empty_finance_log: "finance_log review_as_text empty_log"
  by (rule finance_log.empty) (simp add: empty_log_def)

lemma submitted_plan:
  "plan_append review_as_text empty_log pending_example None ''KEY'' example_fingerprint =
     Inr (NewRow (finance_row_of review_as_text pending_example 1 ''KEY'' example_fingerprint))"
proof -
  have "first_revision pending_example = Inr 1"
    using submit_example
    by (simp add: first_revision_def violation_as_def require_def pending_example_def)
  moreover have "append_arguments None ''KEY'' example_fingerprint = Inr ()"
    unfolding append_arguments_def example_fingerprint_def by code_simp
  moreover have "find (\<lambda>row. frw_idempotency_key row = ''KEY'') (fdb_rows empty_log) = None"
    "review_history review_as_text empty_log (fr_review_id pending_example) = []"
    by (simp_all add: empty_log_def review_history_def rows_of_def)
  ultimately show ?thesis
    using plan_append_good [OF example_json finance_log_good [OF example_json empty_finance_log]]
    by (simp add: revision_after_def revision_of_count_def example_bound require_def)
qed

lemma submitted_insert:
  "insert_finance_row empty_log
     (finance_row_of review_as_text pending_example 1 ''KEY'' example_fingerprint) = Inr submitted_log"
  by (simp add: insert_finance_row_def submitted_log_def empty_log_def)

lemma submitted_append:
  "append_revision review_as_text empty_log pending_example None ''KEY'' example_fingerprint =
     Inr (submitted_log, pending_example, 1)"
  by (simp add: append_revision_def submitted_plan submitted_insert)

lemma submitted_finance_log: "finance_log review_as_text submitted_log"
proof (rule finance_log.append [OF empty_finance_log empty_finance_log extends_log_refl
      wf_pending_example])
  show "append_finance_review review_as_text empty_log empty_log empty_log pending_example None
      ''KEY'' example_fingerprint = (submitted_log, Inr (pending_example, 1))"
    by (simp add: append_finance_review_def submitted_plan submitted_insert)
qed

lemma extends_example: "extends_log empty_log submitted_log"
  by (simp add: extends_log_def submitted_log_def empty_log_def)

text \<open>
  C29. What the revision table holds, whatever the interleaving of the writers: the revisions of a
  review are numbered 1 to n with n at most 3, the first is a submission and every other the
  result of a policy transition from the one before, each is a reachable review of the policy (so
  the separation of duties holds of all of them), every one of them is read back by its number,
  the latest by \<open>get_latest\<close>, and no two rows share an idempotency key.
\<close>

theorem finance_revision_log_invariant:
  assumes "json_inverse j" and "finance_log j db"
  shows "(\<forall>rid. let h = review_history j db rid in
      length h \<le> 3 \<and> map frw_revision (rows_of db rid) = map int [1..<Suc (length h)] \<and>
      (h \<noteq> [] \<longrightarrow> submitted_review (hd h) \<and> get_latest j db rid = Inr (last h, int (length h))) \<and>
      successively review_step h \<and>
      (\<forall>i < length h. reachable_review (h ! i) \<and> get_revision j db rid (int (Suc i)) = Inr (h ! i))) \<and>
    distinct (map frw_idempotency_key (fdb_rows db))"
proof -
  have good: "good_log j db" by (rule finance_log_good [OF assms])
  have "length (review_history j db rid) \<le> 3 \<and>
      map frw_revision (rows_of db rid) = map int [1..<Suc (length (review_history j db rid))] \<and>
      (review_history j db rid \<noteq> [] \<longrightarrow> submitted_review (hd (review_history j db rid)) \<and>
        get_latest j db rid =
          Inr (last (review_history j db rid), int (length (review_history j db rid)))) \<and>
      successively review_step (review_history j db rid) \<and>
      (\<forall>i < length (review_history j db rid). reachable_review (review_history j db rid ! i) \<and>
        get_revision j db rid (int (Suc i)) = Inr (review_history j db rid ! i))" for rid
  proof -
    let ?h = "review_history j db rid"
    have chain: "review_chain ?h" by (rule good_logD(4) [OF good])
    have len: "length ?h = length (rows_of db rid)" by (simp add: review_history_def)
    have "\<forall>i < length ?h. reachable_review (?h ! i) \<and> get_revision j db rid (int (Suc i)) = Inr (?h ! i)"
      using review_chain_reachable [OF chain] get_revision_good [OF assms(1) good] len by metis
    moreover have "?h \<noteq> [] \<longrightarrow> get_latest j db rid = Inr (last ?h, int (length ?h))"
      using get_latest_good [OF assms(1) good, of rid] len by (auto simp: review_history_def)
    ultimately show ?thesis
      using chain review_chain_length [OF chain] good_logD(3) [OF good, of rid] len
      by (simp only: review_chain_def) blast
  qed
  then show ?thesis using good_logD(1) [OF good] by (simp only: Let_def) blast
qed

theorem finance_revision_log_invariant_witness:
  "get_latest review_as_text submitted_log ''REVIEW'' = Inr (pending_example, 1)"
proof -
  have "review_history review_as_text submitted_log ''REVIEW'' = [pending_example]"
    using review_in_row_of [OF example_json wf_pending_example]
    by (simp add: review_history_def rows_of_def submitted_log_def) (simp add: pending_example_def)
  with finance_revision_log_invariant [OF example_json submitted_finance_log] show ?thesis
    by (auto simp: Let_def dest: spec [of _ "''REVIEW''"])
qed

text \<open>
  C30. Concurrent appends are linearizable.  A writer that read a stale log either commits exactly
  what the append would do on the log it commits to, or changes nothing and answers what the
  append answers on the log it read or on the log its recovery read; the database's own integrity
  error never reaches the caller.
\<close>

theorem finance_append_linearizable:
  assumes j: "json_inverse j"
    and log: "finance_log j seen" "finance_log j current" "finance_log j recovery"
    and ext: "extends_log seen current" "extends_log current recovery"
    and run: "append_finance_review j seen current recovery review expected key fp = (db', out)"
  shows "out \<noteq> Inl IntegrityError \<and>
    (if db' \<noteq> current
     then \<exists>x. out = Inr x \<and> append_revision j current review expected key fp = Inr (db', x)
     else \<exists>s \<in> {seen, recovery}.
       append_revision j s review expected key fp = map_sum id (Pair s) out)"
proof -
  note good = log [THEN finance_log_good [OF j]]
  show ?thesis using run
  proof (cases rule: append_cases)
    case (failed e)
    then have "append_revision j seen review expected key fp = map_sum id (Pair seen) out"
      by (simp add: append_revision_def)
    moreover have "e \<noteq> IntegrityError" using failed(1) plan_no_integrity_error [OF j good(1)] by blast
    ultimately show ?thesis using failed by auto
  next
    case (replayed stored n)
    then have "append_revision j seen review expected key fp = map_sum id (Pair seen) out"
      by (simp add: append_revision_def)
    then show ?thesis using replayed by auto
  next
    case (inserted row)
    have "plan_append j current review expected key fp = Inr (NewRow row)"
      by (rule plan_still_current [OF j good(1,2) ext(1) inserted(1,2)])
    moreover have "db' \<noteq> current"
      using inserted(2) by (auto simp: insert_row_Inr_iff dest: arg_cong [of _ _ fdb_rows])
    ultimately show ?thesis using inserted by (simp add: append_revision_def)
  next
    case (conflict row)
    have "append_revision j recovery review expected key fp = map_sum id (Pair recovery) out \<and>
        out \<noteq> Inl IntegrityError"
      using recovered_append [OF j good ext conflict(1,2)] conflict(4) by simp
    then show ?thesis using conflict(3) by auto
  qed
qed

theorem finance_append_linearizable_witness:
  "snd (append_finance_review review_as_text empty_log submitted_log submitted_log pending_example
     None ''OTHER'' example_fingerprint) \<noteq> Inl IntegrityError"
  using finance_append_linearizable [OF example_json empty_finance_log submitted_finance_log
      submitted_finance_log extends_example extends_log_refl prod.collapse [symmetric]]
  by blast

text \<open>
  C31. Appends are idempotent.  Once an append has returned, the same request on any later state
  of the log changes nothing and returns the same review and revision, and a request that reuses
  the key for another review or another fingerprint is refused as a conflict.
\<close>

theorem finance_append_idempotent:
  assumes j: "json_inverse j" and log: "finance_log j db" "finance_log j db''"
    and wf: "wf_finance_review review"
    and first: "append_revision j db review expected key fp = Inr (db', stored, n)"
    and ext: "extends_log db' db''"
  shows "stored = review \<and>
    append_revision j db'' review expected key fp = Inr (db'', review, n) \<and>
    (\<forall>other fp'. is_sha256_hex fp' \<and> (other \<noteq> review \<or> fp' \<noteq> fp) \<longrightarrow>
       append_revision j db'' other expected key fp' = Inl FinanceReviewIdempotencyConflict)"
proof -
  note good = log [THEN finance_log_good [OF j]]
  from append_stores [OF j good(1) wf first] obtain row where row: "row \<in> set (fdb_rows db')"
    "frw_idempotency_key row = key" "frw_request_fingerprint row = fp" "review_in j row = review"
    "frw_revision row = n" "stored = review" and args: "append_arguments expected key fp = Inr ()"
    by blast
  have "row \<in> set (fdb_rows db'')" using row(1) ext by (auto simp: extends_log_def prefix_def)
  then have found: "find (\<lambda>r. frw_idempotency_key r = key) (fdb_rows db'') = Some row"
    using find_distinct [OF good_logD(1) [OF good(2)]] row(2) by blast
  have args': "append_arguments expected key fp' = Inr ()" if "is_sha256_hex fp'" for fp'
    using args that by (simp add: append_arguments_def result_simps)
  have "append_revision j db'' review expected key fp = Inr (db'', review, n)"
    using row by (simp add: append_revision_def plan_append_good [OF j good(2)] args found require_def)
  moreover have "append_revision j db'' other expected key fp' = Inl FinanceReviewIdempotencyConflict"
    if "is_sha256_hex fp'" "other \<noteq> review \<or> fp' \<noteq> fp" for other fp'
    using row that
    by (auto simp: append_revision_def plan_append_good [OF j good(2)] args' found require_def)
  ultimately show ?thesis using row(6) by blast
qed

theorem finance_append_idempotent_witness:
  "append_revision review_as_text submitted_log pending_example None ''KEY'' example_fingerprint =
     Inr (submitted_log, pending_example, 1)"
  using finance_append_idempotent [OF example_json empty_finance_log submitted_finance_log
      wf_pending_example submitted_append extends_log_refl] by blast

end
