(* ===== verification/Domain_Decisions.thy ===== *)
theory Domain_Decisions
  imports Finance_Revisions
begin

text \<open>
  The Decision of a case and the proposal evidence it rests on: \<open>data/domain/proposals.py\<close>,
  \<open>data/domain/finance_decisions.py\<close> and the Decision part of
  \<open>data/domain/decisions.py\<close>.  The record is the type; the \<open>mk_\<close> function is its validated
  constructor.  Stored and decided times are instants.
\<close>

section \<open>Proposals\<close>

record proposal_token =
  pt_generation :: int
  pt_analysis_id :: "string option"
  pt_analysis_material_hash :: "string option"
  pt_selection_id :: "string option"

definition bounded_id :: "string \<Rightarrow> bool" where
  "bounded_id v \<longleftrightarrow> nonblank v \<and> length v \<le> 128"

definition wf_proposal_token :: "proposal_token \<Rightarrow> bool" where
  "wf_proposal_token t \<longleftrightarrow>
     0 \<le> pt_generation t \<and>
     (case pt_analysis_id t of None \<Rightarrow> True | Some v \<Rightarrow> bounded_id v) \<and>
     (case pt_selection_id t of None \<Rightarrow> True | Some v \<Rightarrow> bounded_id v) \<and>
     (case pt_analysis_material_hash t of None \<Rightarrow> True | Some v \<Rightarrow> is_sha256_hex v) \<and>
     (pt_analysis_id t = None) = (pt_analysis_material_hash t = None) \<and>
     (pt_selection_id t \<noteq> None \<longrightarrow> pt_analysis_id t \<noteq> None)"

record proposal_selection =
  ps_selection_id :: string
  ps_proposal :: finance_proposal
  ps_workflow_version :: workflow_version
  ps_submitted_by :: identity_snapshot
  ps_submitted_at :: instant
  ps_finance_review_id :: "string option"

definition wf_proposal_selection :: "proposal_selection \<Rightarrow> bool" where
  "wf_proposal_selection s \<longleftrightarrow>
     bounded_id (ps_selection_id s) \<and>
     (case ps_finance_review_id s of None \<Rightarrow> True | Some v \<Rightarrow> bounded_id v) \<and>
     ps_workflow_version s = WV_INDEPENDENT_FINANCE \<and>
     (20000 < fp_response_cost (ps_proposal s)) = (ps_finance_review_id s \<noteq> None)"

record selection_receipt =
  sr_selection :: proposal_selection
  sr_expected :: proposal_token
  sr_idempotency_key :: string
  sr_request_fingerprint :: string

definition wf_selection_receipt :: "selection_receipt \<Rightarrow> bool" where
  "wf_selection_receipt r \<longleftrightarrow>
     wf_proposal_selection (sr_selection r) \<and> wf_proposal_token (sr_expected r) \<and>
     nonblank (sr_idempotency_key r) \<and> length (sr_idempotency_key r) \<le> 256 \<and>
     is_sha256_hex (sr_request_fingerprint r)"

record proposal_state =
  pst_token :: proposal_token
  pst_selection :: "proposal_selection option"
  pst_review :: "finance_review option"
  pst_review_revision :: "int option"

definition mk_proposal_state :: "proposal_state \<Rightarrow> proposal_state result" where
  "mk_proposal_state s =
     (case pst_selection s of
        None \<Rightarrow>
          bindR (require (pst_review s = None \<and> pst_review_revision s = None \<and>
                          pt_selection_id (pst_token s) = None)
                   (ValueError ''missing selection cannot have review or pointer'')) (\<lambda>_. Inr s)
      | Some selection \<Rightarrow>
          bindR (require (pt_selection_id (pst_token s) = Some (ps_selection_id selection))
                   (ValueError ''selection pointer mismatch'')) (\<lambda>_.
          case ps_finance_review_id selection of
            None \<Rightarrow>
              bindR (require (pst_review s = None \<and> pst_review_revision s = None)
                       (ValueError ''low-cost selection cannot have review'')) (\<lambda>_. Inr s)
          | Some rid \<Rightarrow>
              bindR (require (case (pst_review s, pst_review_revision s) of
                                (Some r, Some n) \<Rightarrow> fr_review_id r = rid \<and>
                                  fr_proposal r = ps_proposal selection \<and> 0 < n
                              | _ \<Rightarrow> False)
                       (ValueError ''high-cost selection requires matching review''))
                (\<lambda>_. Inr s)))"

section \<open>Evidence of an approved proposal\<close>

record proposal_approval_evidence =
  pae_selection :: proposal_selection
  pae_review :: "finance_review option"
  pae_review_revision :: "int option"

definition require_identity ::
    "identity_snapshot \<Rightarrow> string \<Rightarrow> string \<Rightarrow> string list \<Rightarrow> (nat \<times> nat) result" where
  "require_identity actor persona_id source_id roles =
     bindR (require (is_persona_id actor = persona_id \<and> is_source_id actor = source_id \<and>
                     is_identity_source actor = IS_ENTRA \<and> is_effective_roles actor = roles)
              (ValueError ''Proposal evidence contains an invalid identity shape'')) (\<lambda>_.
     case (py_uuid_opt (is_tenant_id actor), py_uuid_opt (is_object_id actor)) of
       (Some tenant, Some object_id) \<Rightarrow> Inr (tenant, object_id)
     | _ \<Rightarrow> Inl (ValueError ''Proposal evidence identity requires tenant/object UUIDs''))"

definition mk_proposal_approval_evidence ::
    "proposal_approval_evidence \<Rightarrow> proposal_approval_evidence result" where
  "mk_proposal_approval_evidence e =
     (let selection = pae_selection e in
      bindR (require (case pae_review_revision e of None \<Rightarrow> True | Some n \<Rightarrow> 1 < n)
               (ValueError ''review_revision'')) (\<lambda>_.
      bindR (require_identity (ps_submitted_by selection) ''RL-PERSONA-ALEX'' ''RL-ENTRA-ALEX''
               [''material_planner'', ''response_approver''])
        (\<lambda>(submitter_tenant, submitter_object).
      bindR (require ((20000 < fp_response_cost (ps_proposal selection)) = (pae_review e \<noteq> None))
               (ValueError ''Finance review presence conflicts with proposal cost'')) (\<lambda>_.
      case pae_review e of
        None \<Rightarrow>
          bindR (require (pae_review_revision e = None \<and> ps_finance_review_id selection = None)
                   (ValueError ''Low-cost proposal cannot contain Finance review evidence''))
            (\<lambda>_. Inr e)
      | Some review \<Rightarrow>
          bindR (require (pae_review_revision e \<noteq> None \<and> fr_status review = FRS_APPROVED \<and>
                          ps_finance_review_id selection = Some (fr_review_id review) \<and>
                          fr_proposal review = ps_proposal selection \<and>
                          fr_submitted_by review = ps_submitted_by selection \<and>
                          fr_submitted_at review = ps_submitted_at selection \<and>
                          fr_reviewed_at review \<noteq> None)
                   (ValueError ''Proposal requires an exact approved Finance revision'')) (\<lambda>_.
          bindR (the_or (ValueError ''Proposal requires an exact approved Finance revision'')
                   (fr_reviewed_by review)) (\<lambda>reviewer.
          bindR (require_identity reviewer ''RL-PERSONA-TAYLOR'' ''RL-ENTRA-TAYLOR''
                   [''finance_approver'']) (\<lambda>(reviewer_tenant, reviewer_object).
          bindR (require (reviewer_tenant = submitter_tenant)
                   (ValueError ''Finance reviewer must share the submitter tenant'')) (\<lambda>_.
          bindR (require (reviewer_object \<noteq> submitter_object)
                   (ValueError ''Submitter and reviewer must differ'')) (\<lambda>_. Inr e)))))))))"

section \<open>Decisions\<close>

datatype decision_kind = DK_APPROVED | DK_REJECTED

record record_decision_command =
  rdc_case_id :: string
  rdc_analysis_id :: string
  rdc_selected_option_id :: "string option"
  rdc_kind :: decision_kind
  rdc_idempotency_key :: string
  rdc_rejection_reason :: "string option"

definition mk_record_decision_command ::
    "record_decision_command \<Rightarrow> record_decision_command result" where
  "mk_record_decision_command c =
     bindR (require (nonblank (rdc_case_id c) \<and> nonblank (rdc_analysis_id c) \<and>
                     nonblank (rdc_idempotency_key c)) (ValueError ''value must be nonblank'')) (\<lambda>_.
     if rdc_kind c = DK_APPROVED then
       bindR (require (rdc_selected_option_id c \<noteq> None)
                (ValueError ''approval requires selected_option_id'')) (\<lambda>_.
       bindR (require (rdc_rejection_reason c = None)
                (ValueError ''approval cannot include rejection_reason'')) (\<lambda>_. Inr c))
     else
       bindR (require (rdc_selected_option_id c = None)
                (ValueError ''rejection cannot include selected_option_id'')) (\<lambda>_.
       bindR (require (case rdc_rejection_reason c of None \<Rightarrow> False | Some r \<Rightarrow> nonblank r)
                (ValueError ''rejection requires a nonblank rejection_reason'')) (\<lambda>_. Inr c)))"

record case_projection =
  cpj_case :: case_instance
  cpj_current_analysis_id :: "string option"
  cpj_current_analysis_hash :: "string option"
  cpj_current_decision_id :: "string option"
  cpj_display_status :: "string option"

record decision =
  dec_decision_id :: string
  dec_case_id :: string
  dec_analysis_id :: string
  dec_analysis_material_hash :: string
  dec_idempotency_key :: string
  dec_request_fingerprint :: string
  dec_kind :: decision_kind
  dec_selected_option_id :: "string option"
  dec_selected_option :: "response_option option"
  dec_evidence_ids :: "string list"
  dec_assumptions :: "string list"
  dec_constraints :: "string list"
  dec_prerequisite_roles :: "string list"
  dec_comparator_trace :: "ranking_result option"
  dec_calculation_version :: string
  dec_evidence_policy_version :: string
  dec_approval_policy_version :: string
  dec_ranking_policy_version :: string
  dec_runtime_mode :: runtime_mode
  dec_scenario_effective_time :: instant
  dec_approval_satisfactions :: "approval_satisfaction list"
  dec_proposal_approval :: "proposal_approval_evidence option"
  dec_actor :: identity_snapshot
  dec_rejection_reason :: "string option"
  dec_decided_at :: instant

definition independent_decision :: "decision \<Rightarrow> bool" where
  "independent_decision d \<longleftrightarrow>
     dec_approval_policy_version d = workflow_version_value WV_INDEPENDENT_FINANCE"

text \<open>The loop over the satisfactions, with the roles seen before.\<close>

definition satisfaction_consistent ::
    "decision \<Rightarrow> response_option \<Rightarrow> string list \<Rightarrow> approval_satisfaction \<Rightarrow> bool" where
  "satisfaction_consistent d option1 seen_roles s \<longleftrightarrow>
     as_satisfied s \<and> as_analysis_id s = dec_analysis_id d \<and>
     dec_selected_option_id d = Some (as_option_id s) \<and> as_role s \<notin> set seen_roles \<and>
     ci_case_id (at_case (as_target s)) = dec_case_id d \<and>
     ci_runtime_mode (at_case (as_target s)) = dec_runtime_mode d \<and>
     at_scenario_effective_time (as_target s) = dec_scenario_effective_time d \<and>
     at_requested_side_effects (as_target s) = ro_requested_side_effects option1 \<and>
     (case ro_predicted option1 of
        None \<Rightarrow> False
      | Some p \<Rightarrow> at_total_response_cost (as_target s) = pred_response_cost p)"

fun check_satisfactions ::
    "decision \<Rightarrow> response_option \<Rightarrow> string list \<Rightarrow> approval_satisfaction list \<Rightarrow> unit result" where
  "check_satisfactions d option1 seen_roles [] = Inr ()"
| "check_satisfactions d option1 seen_roles (s # ss) =
     bindR (require (satisfaction_consistent d option1 seen_roles s)
              (ValueError ''Decision Approval Satisfaction is inconsistent'')) (\<lambda>_.
     check_satisfactions d option1 (as_role s # seen_roles) ss)"

definition check_proposal_evidence ::
    "decision \<Rightarrow> response_option \<Rightarrow> proposal_approval_evidence \<Rightarrow> unit result" where
  "check_proposal_evidence d option1 evidence =
     (let selection = pae_selection evidence; proposal = ps_proposal selection in
      bindR (require (fp_case_id proposal = dec_case_id d \<and>
                      fp_analysis_id proposal = dec_analysis_id d \<and>
                      fp_analysis_material_hash proposal = dec_analysis_material_hash d \<and>
                      Some (fp_option_id proposal) = dec_selected_option_id d \<and>
                      (case ro_predicted option1 of
                         None \<Rightarrow> False
                       | Some p \<Rightarrow> fp_response_cost proposal = pred_response_cost p) \<and>
                      ps_submitted_at selection \<le> dec_decided_at d)
               (ValueError ''Decision conflicts with proposal evidence'')) (\<lambda>_.
      case (py_uuid_opt (is_tenant_id (dec_actor d)), py_uuid_opt (is_object_id (dec_actor d)),
            py_uuid_opt (is_tenant_id (ps_submitted_by selection)),
            py_uuid_opt (is_object_id (ps_submitted_by selection))) of
        (Some tenant, Some object_id, Some tenant2, Some object2) \<Rightarrow>
          bindR (require ((tenant, object_id) = (tenant2, object2))
                   (ValueError ''Final Alex differs from proposal submitter'')) (\<lambda>_.
          bindR (require (case pae_review evidence of
                            None \<Rightarrow> True
                          | Some review \<Rightarrow> (case fr_reviewed_at review of
                                             None \<Rightarrow> False
                                           | Some t \<Rightarrow> t \<le> dec_decided_at d))
                   (ValueError ''Decision time precedes Finance approval'')) (\<lambda>_.
          require (\<forall>s \<in> set (dec_approval_satisfactions d). as_role s \<noteq> ''finance_approver'')
            (ValueError ''Independent Decision cannot use standing Finance satisfaction'')))
      | _ \<Rightarrow> Inl (ValueError ''Decision requires exact Alex identity'')))"

definition validate_immutable_shape :: "decision \<Rightarrow> unit result" where
  "validate_immutable_shape d =
     (if dec_kind d = DK_REJECTED then
        require (dec_selected_option_id d = None \<and> dec_selected_option d = None \<and>
                 dec_evidence_ids d = [] \<and> dec_assumptions d = [] \<and> dec_constraints d = [] \<and>
                 dec_prerequisite_roles d = [] \<and> dec_comparator_trace d \<noteq> None \<and>
                 dec_approval_satisfactions d = [] \<and> dec_proposal_approval d = None \<and>
                 (case dec_rejection_reason d of None \<Rightarrow> False | Some r \<Rightarrow> nonblank r))
          (ValueError ''rejection Decision cannot contain approval material'')
      else
        bindR (the_or (ValueError ''approved Decision requires a selected option and approvals'')
                 (dec_selected_option d)) (\<lambda>option1.
        bindR (require (dec_selected_option_id d = Some (ro_option_id option1) \<and>
                        dec_comparator_trace d \<noteq> None \<and> dec_rejection_reason d = None \<and>
                        dec_approval_satisfactions d \<noteq> [])
                 (ValueError ''approved Decision requires a selected option and approvals'')) (\<lambda>_.
        bindR (require (dec_evidence_ids d = ro_evidence_ids option1 \<and>
                        dec_assumptions d = ro_assumptions option1 \<and>
                        dec_constraints d = ro_blocking_codes option1 \<and>
                        dec_prerequisite_roles d = ro_prerequisite_roles option1)
                 (ValueError ''Decision option snapshot fields are inconsistent'')) (\<lambda>_.
        bindR (check_satisfactions d option1 [] (dec_approval_satisfactions d)) (\<lambda>_.
        bindR (require (independent_decision d = (dec_proposal_approval d \<noteq> None))
                 (ValueError ''Decision policy conflicts with proposal evidence'')) (\<lambda>_.
        case dec_proposal_approval d of
          None \<Rightarrow> Inr ()
        | Some evidence \<Rightarrow> check_proposal_evidence d option1 evidence))))))"

text \<open>The validated constructor; \<open>decode_proposal_approval\<close> validates the evidence again.\<close>

definition mk_decision :: "decision \<Rightarrow> decision result" where
  "mk_decision d =
     bindR (case dec_proposal_approval d of
              None \<Rightarrow> Inr None
            | Some e \<Rightarrow> bindR (mk_proposal_approval_evidence e) (\<lambda>e'. Inr (Some e'))) (\<lambda>pa.
     let d' = d\<lparr>dec_proposal_approval := pa\<rparr> in
     bindR (validate_immutable_shape d') (\<lambda>_. Inr d'))"

text \<open>\<open>Decision.from_command\<close>, with the fresh id and the time it is given.\<close>

definition decision_from_command ::
    "string \<Rightarrow> record_decision_command \<Rightarrow> identity_snapshot \<Rightarrow> analysis_version \<Rightarrow>
     approval_satisfaction list \<Rightarrow> string \<Rightarrow> instant \<Rightarrow> proposal_approval_evidence option \<Rightarrow>
     decision result" where
  "decision_from_command decision_id command actor analysis satisfactions request_fingerprint
       decided_at proposal_approval =
     (let option1 = find (\<lambda>item. Some (ro_option_id item) = rdc_selected_option_id command)
                      (av_response_options analysis);
          field = (\<lambda>f. case option1 of None \<Rightarrow> [] | Some opt \<Rightarrow> f opt);
          material = av_material analysis in
      mk_decision
        \<lparr>dec_decision_id = decision_id, dec_case_id = rdc_case_id command,
         dec_analysis_id = rdc_analysis_id command,
         dec_analysis_material_hash = av_material_hash analysis,
         dec_idempotency_key = rdc_idempotency_key command,
         dec_request_fingerprint = request_fingerprint, dec_kind = rdc_kind command,
         dec_selected_option_id = rdc_selected_option_id command,
         dec_selected_option = option1,
         dec_evidence_ids = field ro_evidence_ids, dec_assumptions = field ro_assumptions,
         dec_constraints = field ro_blocking_codes,
         dec_prerequisite_roles = field ro_prerequisite_roles,
         dec_comparator_trace = Some (av_ranking analysis),
         dec_calculation_version = am_calculation_version material,
         dec_evidence_policy_version = am_evidence_policy_version material,
         dec_approval_policy_version = am_approval_policy_version material,
         dec_ranking_policy_version = rr_policy_version (av_ranking analysis),
         dec_runtime_mode = am_runtime_mode material,
         dec_scenario_effective_time = am_scenario_effective_time material,
         dec_approval_satisfactions = satisfactions,
         dec_proposal_approval = proposal_approval, dec_actor = actor,
         dec_rejection_reason = rdc_rejection_reason command, dec_decided_at = decided_at\<rparr>)"

section \<open>What a valid Decision says\<close>

lemma require_identity_Inr_iff [result_simps]:
  "require_identity a persona source roles = Inr (tenant, object_id) \<longleftrightarrow>
     is_actor a persona source roles tenant object_id"
  by (auto simp: require_identity_def is_actor_def result_simps split: option.splits)

text \<open>The separation of duties in the evidence of an approval.\<close>

definition good_evidence :: "proposal_approval_evidence \<Rightarrow> bool" where
  "good_evidence e \<longleftrightarrow>
     (\<exists>tenant alex. is_alex (ps_submitted_by (pae_selection e)) tenant alex \<and>
        (case pae_review e of
           None \<Rightarrow> fp_response_cost (ps_proposal (pae_selection e)) \<le> 20000 \<and>
             ps_finance_review_id (pae_selection e) = None
         | Some review \<Rightarrow> 20000 < fp_response_cost (ps_proposal (pae_selection e)) \<and>
             fr_status review = FRS_APPROVED \<and> fr_proposal review = ps_proposal (pae_selection e) \<and>
             fr_submitted_by review = ps_submitted_by (pae_selection e) \<and>
             fr_reviewed_at review \<noteq> None \<and>
             (\<exists>a taylor. fr_reviewed_by review = Some a \<and> is_taylor a tenant taylor \<and>
                taylor \<noteq> alex)))"

lemma mk_evidence_Inr:
  assumes "mk_proposal_approval_evidence e = Inr e'"
  shows "e' = e \<and> good_evidence e"
proof (cases "pae_review e")
  case None
  with assms show ?thesis
    by (auto simp: mk_proposal_approval_evidence_def good_evidence_def result_simps Let_def
        split: prod.splits)
next
  case (Some review)
  with assms obtain tenant alex a taylor where
    "is_alex (ps_submitted_by (pae_selection e)) tenant alex"
    "20000 < fp_response_cost (ps_proposal (pae_selection e))" "fr_status review = FRS_APPROVED"
    "fr_proposal review = ps_proposal (pae_selection e)"
    "fr_submitted_by review = ps_submitted_by (pae_selection e)"
    "fr_reviewed_by review = Some a" "is_taylor a tenant taylor" "taylor \<noteq> alex" "e' = e"
    "fr_reviewed_at review \<noteq> None"
    by (auto simp: mk_proposal_approval_evidence_def result_simps Let_def split: prod.splits)
  with Some show ?thesis unfolding good_evidence_def by auto
qed

lemma mk_decision_Inr:
  assumes "mk_decision d = Inr d'"
  shows "d' = d \<and> validate_immutable_shape d = Inr () \<and>
    (\<forall>e. dec_proposal_approval d = Some e \<longrightarrow> good_evidence e)"
proof (cases "dec_proposal_approval d")
  case None
  then have "d\<lparr>dec_proposal_approval := None\<rparr> = d" by (cases d) simp
  with None assms show ?thesis by (auto simp: mk_decision_def result_simps Let_def)
next
  case (Some e)
  then have eq: "d\<lparr>dec_proposal_approval := Some e\<rparr> = d" by (cases d) simp
  from Some assms have "good_evidence e" "d' = d\<lparr>dec_proposal_approval := Some e\<rparr>"
    "validate_immutable_shape (d\<lparr>dec_proposal_approval := Some e\<rparr>) = Inr ()"
    using mk_evidence_Inr [of e] by (auto simp: mk_decision_def result_simps Let_def)
  then show ?thesis unfolding eq using Some by auto
qed

lemma check_satisfactions_Inr_iff [result_simps]:
  "check_satisfactions d opt roles ss = Inr () \<longleftrightarrow>
     (\<forall>s \<in> set ss. satisfaction_consistent d opt roles s) \<and> distinct (map as_role ss)"
proof (induction ss arbitrary: roles)
  case (Cons s ss)
  have "satisfaction_consistent d opt (as_role s # roles) t \<longleftrightarrow>
      satisfaction_consistent d opt roles t \<and> as_role t \<noteq> as_role s" for t
    by (auto simp: satisfaction_consistent_def)
  then show ?case by (auto simp: Cons.IH result_simps image_iff)
qed simp

lemma approved_shape:
  assumes "validate_immutable_shape d = Inr ()" and "dec_kind d = DK_APPROVED"
  shows "\<exists>opt. dec_selected_option d = Some opt \<and>
    dec_selected_option_id d = Some (ro_option_id opt) \<and> dec_approval_satisfactions d \<noteq> [] \<and>
    dec_constraints d = ro_blocking_codes opt \<and>
    distinct (map as_role (dec_approval_satisfactions d)) \<and>
    (\<forall>s \<in> set (dec_approval_satisfactions d). satisfaction_consistent d opt [] s) \<and>
    independent_decision d = (dec_proposal_approval d \<noteq> None) \<and>
    (\<forall>e. dec_proposal_approval d = Some e \<longrightarrow> check_proposal_evidence d opt e = Inr ())"
  using assms
  by (auto simp: validate_immutable_shape_def result_simps split: option.splits)

lemma check_proposal_evidence_Inr:
  assumes "check_proposal_evidence d opt e = Inr ()"
  shows "fp_case_id (ps_proposal (pae_selection e)) = dec_case_id d \<and>
    fp_analysis_id (ps_proposal (pae_selection e)) = dec_analysis_id d \<and>
    fp_analysis_material_hash (ps_proposal (pae_selection e)) = dec_analysis_material_hash d \<and>
    dec_selected_option_id d = Some (fp_option_id (ps_proposal (pae_selection e))) \<and>
    (\<exists>p. ro_predicted opt = Some p \<and>
       fp_response_cost (ps_proposal (pae_selection e)) = pred_response_cost p) \<and>
    ps_submitted_at (pae_selection e) \<le> dec_decided_at d \<and>
    py_uuid_opt (is_tenant_id (dec_actor d)) =
      py_uuid_opt (is_tenant_id (ps_submitted_by (pae_selection e))) \<and>
    py_uuid_opt (is_object_id (dec_actor d)) =
      py_uuid_opt (is_object_id (ps_submitted_by (pae_selection e))) \<and>
    (\<forall>r. pae_review e = Some r \<longrightarrow> (\<exists>t. fr_reviewed_at r = Some t \<and> t \<le> dec_decided_at d)) \<and>
    (\<forall>s \<in> set (dec_approval_satisfactions d). as_role s \<noteq> ''finance_approver'')"
  using assms
  by (auto simp: check_proposal_evidence_def result_simps Let_def split: option.splits)


lemma approved_shapeI:
  assumes "dec_approval_satisfactions d = sats" and "dec_proposal_approval d = Some e"
    and "dec_selected_option d = Some opt" and "dec_kind d = DK_APPROVED"
    and "dec_selected_option_id d = Some (ro_option_id opt)" and "dec_rejection_reason d = None"
    and "dec_comparator_trace d \<noteq> None"
    and "\<forall>s \<in> set sats. satisfaction_consistent d opt [] s" and "distinct (map as_role sats)"
    and "independent_decision d" and "sats \<noteq> []" and "check_proposal_evidence d opt e = Inr ()"
    and "dec_evidence_ids d = ro_evidence_ids opt \<and> dec_assumptions d = ro_assumptions opt \<and>
      dec_constraints d = ro_blocking_codes opt \<and> dec_prerequisite_roles d = ro_prerequisite_roles opt"
  shows "validate_immutable_shape d = Inr ()"
proof -
  have "check_satisfactions d opt [] sats = Inr ()"
    using assms(8,9) by (simp only: check_satisfactions_Inr_iff)
  with assms show ?thesis by (simp add: validate_immutable_shape_def require_def)
qed

end
