(* ===== verification/Execution_Store.thy ===== *)
theory Execution_Store
  imports Domain_Decisions
begin

text \<open>
  Execution actions with their attempts, status events and drafts: \<open>data/domain/execution.py\<close>
  and the tables behind \<open>SqlAlchemyExecutionRepository\<close> of
  \<open>services/persistence/store.py\<close>.

  A table is the list of its rows in the order of their insertion.  A row has the columns the code
  writes next to its JSON text and, for the text itself, what \<open>model_validate_json\<close> makes of
  it: the model, or None where that raises.  Writing a model stores the model.
\<close>

section \<open>Actions, attempts and events\<close>

datatype execution_action_kind =
    PREPARE_ALPHA_RECOVERY_DRAFT
  | COORDINATE_ALPHA_EXPEDITED_PARTIAL
  | TRANSFER_DALLAS_TO_CHICAGO
  | RESEQUENCE_PRIORITY_PRODUCTION
  | UPDATE_DISRUPTION_STATUS

fun execution_action_kind_value :: "execution_action_kind \<Rightarrow> string" where
  "execution_action_kind_value PREPARE_ALPHA_RECOVERY_DRAFT = ''prepare_alpha_recovery_draft''"
| "execution_action_kind_value COORDINATE_ALPHA_EXPEDITED_PARTIAL =
     ''coordinate_alpha_expedited_partial''"
| "execution_action_kind_value TRANSFER_DALLAS_TO_CHICAGO = ''transfer_dallas_to_chicago''"
| "execution_action_kind_value RESEQUENCE_PRIORITY_PRODUCTION = ''resequence_priority_production''"
| "execution_action_kind_value UPDATE_DISRUPTION_STATUS = ''update_disruption_status''"

text \<open>The declaration order of the enumeration, by which actions are listed.\<close>

definition all_action_kinds :: "execution_action_kind list" where
  "all_action_kinds =
     [PREPARE_ALPHA_RECOVERY_DRAFT, COORDINATE_ALPHA_EXPEDITED_PARTIAL, TRANSFER_DALLAS_TO_CHICAGO,
      RESEQUENCE_PRIORITY_PRODUCTION, UPDATE_DISRUPTION_STATUS]"

fun kind_order :: "execution_action_kind \<Rightarrow> nat" where
  "kind_order PREPARE_ALPHA_RECOVERY_DRAFT = 0"
| "kind_order COORDINATE_ALPHA_EXPEDITED_PARTIAL = 1"
| "kind_order TRANSFER_DALLAS_TO_CHICAGO = 2"
| "kind_order RESEQUENCE_PRIORITY_PRODUCTION = 3"
| "kind_order UPDATE_DISRUPTION_STATUS = 4"

datatype execution_owner_kind = XO_PERSONA | XO_SYSTEM

datatype execution_status = XS_PLANNED | XS_IN_PROGRESS | XS_COMPLETED | XS_FAILED | XS_CANCELLED

fun execution_status_value :: "execution_status \<Rightarrow> string" where
  "execution_status_value XS_PLANNED = ''planned''"
| "execution_status_value XS_IN_PROGRESS = ''in_progress''"
| "execution_status_value XS_COMPLETED = ''completed''"
| "execution_status_value XS_FAILED = ''failed''"
| "execution_status_value XS_CANCELLED = ''cancelled''"

fun allowed_transitions :: "execution_status \<Rightarrow> execution_status set" where
  "allowed_transitions XS_PLANNED = {XS_IN_PROGRESS, XS_CANCELLED}"
| "allowed_transitions XS_IN_PROGRESS = {XS_COMPLETED, XS_FAILED, XS_CANCELLED}"
| "allowed_transitions XS_FAILED = {XS_IN_PROGRESS}"
| "allowed_transitions XS_COMPLETED = {}"
| "allowed_transitions XS_CANCELLED = {}"

definition can_move :: "execution_status \<Rightarrow> execution_status \<Rightarrow> bool" where
  "can_move s t \<longleftrightarrow> t \<in> allowed_transitions s"

interpretation execution_cycle: lifecycle can_move "\<lambda>s. s = XS_COMPLETED \<or> s = XS_CANCELLED"
  by unfold_locales (auto simp: can_move_def)

datatype execution_mode = XM_simulation | XM_communication_preparation

record execution_action =
  ea_action_id :: string
  ea_case_id :: string
  ea_decision_id :: string
  ea_kind :: execution_action_kind
  ea_owner_kind :: execution_owner_kind
  ea_owner_persona_id :: "string option"
  ea_status :: execution_status
  ea_created_at :: instant
  ea_draft_artifact_id :: "string option"
  ea_purpose :: "string option"
  ea_expected_result :: "string option"
  ea_execution_mode :: "execution_mode option"

text \<open>\<open>validate_owner_and_draft\<close>\<close>

definition mk_execution_action :: "execution_action \<Rightarrow> execution_action result" where
  "mk_execution_action a =
     bindR (if ea_kind a = UPDATE_DISRUPTION_STATUS
            then require (ea_owner_kind a = XO_SYSTEM \<and> ea_owner_persona_id a = None)
                   (ValueError ''status-update action must be system-owned'')
            else require (ea_owner_kind a = XO_PERSONA \<and>
                          ea_owner_persona_id a = Some ''RL-PERSONA-ALEX'')
                   (ValueError ''coordinated actions must be owned by Alex'')) (\<lambda>_.
     bindR (require ((ea_kind a = PREPARE_ALPHA_RECOVERY_DRAFT) = (ea_draft_artifact_id a \<noteq> None))
              (ValueError ''only the recovery-request action owns a Draft Artifact'')) (\<lambda>_.
     Inr a))"

record draft_artifact =
  da_artifact_id :: string
  da_action_id :: string
  da_decision_id :: string
  da_artifact_kind :: string
  da_created_at :: instant
  da_subject :: "string option"
  da_body :: "string option"
  da_sent :: bool

record execution_attempt =
  xa_attempt_id :: string
  xa_action_id :: string
  xa_decision_id :: string
  xa_attempt_number :: int
  xa_status :: execution_status
  xa_started_at :: instant
  xa_completed_at :: "instant option"
  xa_error_code :: "string option"

record execution_status_event =
  xe_execution_event_id :: string
  xe_action_id :: string
  xe_decision_id :: string
  xe_sequence_number :: int
  xe_from_status :: "execution_status option"
  xe_to_status :: execution_status
  xe_attempt_id :: "string option"
  xe_error_code :: "string option"
  xe_occurred_at :: instant

section \<open>Tables\<close>

record action_row =
  arow_action_id :: string
  arow_case_id :: string
  arow_decision_id :: string
  arow_action_kind :: string
  arow_status :: string
  arow_created_at :: instant
  arow_payload :: "execution_action option"

record projection_row =
  prow_action_id :: string
  prow_case_id :: string
  prow_decision_id :: string
  prow_status :: string
  prow_current_attempt :: int
  prow_payload :: "execution_action option"

record draft_row =
  drow_artifact_id :: string
  drow_action_id :: string
  drow_decision_id :: string
  drow_artifact_kind :: string
  drow_created_at :: instant
  drow_payload :: "draft_artifact option"

record attempt_row =
  trow_attempt_id :: string
  trow_action_id :: string
  trow_decision_id :: string
  trow_attempt_number :: int
  trow_status :: string
  trow_started_at :: instant
  trow_completed_at :: "instant option"
  trow_payload :: "execution_attempt option"

record event_row =
  vrow_execution_event_id :: string
  vrow_action_id :: string
  vrow_decision_id :: string
  vrow_event_type :: string
  vrow_occurred_at :: instant
  vrow_payload :: "execution_status_event option"

record execution_db =
  edb_actions :: "action_row list"
  edb_projections :: "projection_row list"
  edb_drafts :: "draft_row list"
  edb_attempts :: "attempt_row list"
  edb_events :: "event_row list"

text \<open>The rows the repository writes.\<close>

definition action_row_of :: "execution_action \<Rightarrow> action_row" where
  "action_row_of a =
     \<lparr>arow_action_id = ea_action_id a, arow_case_id = ea_case_id a,
      arow_decision_id = ea_decision_id a,
      arow_action_kind = execution_action_kind_value (ea_kind a),
      arow_status = execution_status_value (ea_status a), arow_created_at = ea_created_at a,
      arow_payload = Some a\<rparr>"

definition projection_row_of :: "execution_action \<Rightarrow> int \<Rightarrow> projection_row" where
  "projection_row_of a n =
     \<lparr>prow_action_id = ea_action_id a, prow_case_id = ea_case_id a,
      prow_decision_id = ea_decision_id a, prow_status = execution_status_value (ea_status a),
      prow_current_attempt = n, prow_payload = Some a\<rparr>"

definition draft_row_of :: "draft_artifact \<Rightarrow> draft_row" where
  "draft_row_of d =
     \<lparr>drow_artifact_id = da_artifact_id d, drow_action_id = da_action_id d,
      drow_decision_id = da_decision_id d, drow_artifact_kind = da_artifact_kind d,
      drow_created_at = da_created_at d, drow_payload = Some d\<rparr>"

definition attempt_row_of :: "execution_attempt \<Rightarrow> attempt_row" where
  "attempt_row_of t =
     \<lparr>trow_attempt_id = xa_attempt_id t, trow_action_id = xa_action_id t,
      trow_decision_id = xa_decision_id t, trow_attempt_number = xa_attempt_number t,
      trow_status = execution_status_value (xa_status t), trow_started_at = xa_started_at t,
      trow_completed_at = xa_completed_at t, trow_payload = Some t\<rparr>"

definition event_row_of :: "execution_status_event \<Rightarrow> event_row" where
  "event_row_of e =
     \<lparr>vrow_execution_event_id = xe_execution_event_id e, vrow_action_id = xe_action_id e,
      vrow_decision_id = xe_decision_id e, vrow_event_type = ''ExecutionStatusChanged'',
      vrow_occurred_at = xe_occurred_at e, vrow_payload = Some e\<rparr>"

text \<open>\<open>INSERT\<close> under a unique key.\<close>

definition insert_unique :: "('r \<Rightarrow> 'k) \<Rightarrow> 'r list \<Rightarrow> 'r \<Rightarrow> 'r list result" where
  "insert_unique key rows row =
     (if key row \<in> key ` set rows then Inl IntegrityError else Inr (rows @ [row]))"

section \<open>The repository\<close>

text \<open>
  What the repository needs of the rest of the database: the Decision of an id, and the currentness
  guard of \<open>services/execution/currentness.py\<close>, which may write to the state of the case.
\<close>

record 'w case_store =
  cst_decision :: "'w \<Rightarrow> string \<Rightarrow> decision result"
  cst_guard :: "'w \<Rightarrow> string \<Rightarrow> ('w \<times> decision) result"

definition json_or_error :: "'a option \<Rightarrow> 'a result" where
  "json_or_error = the_or (PersistenceIntegrityError ''persisted record contains invalid JSON'')"

definition immutable_action :: "execution_db \<Rightarrow> string \<Rightarrow> execution_action result" where
  "immutable_action db action_id =
     bindR (one_or_none (filter (\<lambda>r. arow_action_id r = action_id) (edb_actions db))) (\<lambda>found.
     bindR (the_or (RecordNotFound ''execution action does not exist'') found) (\<lambda>row.
     bindR (json_or_error (arow_payload row)) (\<lambda>action.
     bindR (require (ea_action_id action = arow_action_id row \<and>
                     ea_case_id action = arow_case_id row \<and>
                     ea_decision_id action = arow_decision_id row \<and>
                     execution_action_kind_value (ea_kind action) = arow_action_kind row \<and>
                     execution_status_value (ea_status action) = arow_status row \<and>
                     ea_status action = XS_PLANNED \<and> arow_created_at row = ea_created_at action)
              (PersistenceIntegrityError
                 ''action columns conflict with canonical immutable JSON'')) (\<lambda>_.
     Inr action))))"

definition get_action :: "execution_db \<Rightarrow> string \<Rightarrow> execution_action result" where
  "get_action db action_id =
     bindR (immutable_action db action_id) (\<lambda>immutable.
     bindR (one_or_none (filter (\<lambda>r. prow_action_id r = action_id) (edb_projections db))) (\<lambda>found.
     bindR (the_or (PersistenceIntegrityError ''action projection is missing'') found) (\<lambda>row.
     bindR (json_or_error (prow_payload row)) (\<lambda>projected.
     bindR (require (ea_action_id projected = prow_action_id row \<and>
                     ea_case_id projected = prow_case_id row \<and>
                     ea_decision_id projected = prow_decision_id row \<and>
                     execution_status_value (ea_status projected) = prow_status row \<and>
                     projected\<lparr>ea_status := XS_PLANNED\<rparr> = immutable)
              (PersistenceIntegrityError
                 ''action projection conflicts with its immutable Action'')) (\<lambda>_.
     Inr projected)))))"

definition list_actions :: "execution_db \<Rightarrow> string \<Rightarrow> execution_action list result" where
  "list_actions db decision_id =
     bindR (mapR (get_action db) (map arow_action_id
              (filter (\<lambda>r. arow_decision_id r = decision_id) (edb_actions db)))) (\<lambda>actions.
     Inr (sort_key (\<lambda>a. kind_order (ea_kind a)) actions))"

definition event_from_row :: "event_row \<Rightarrow> execution_status_event result" where
  "event_from_row row =
     bindR (json_or_error (vrow_payload row)) (\<lambda>event.
     bindR (require (xe_execution_event_id event = vrow_execution_event_id row \<and>
                     xe_action_id event = vrow_action_id row \<and>
                     xe_decision_id event = vrow_decision_id row \<and>
                     vrow_event_type row = ''ExecutionStatusChanged'' \<and>
                     vrow_occurred_at row = xe_occurred_at event)
              (PersistenceIntegrityError
                 ''Execution Status Event columns conflict with canonical JSON'')) (\<lambda>_.
     Inr event))"

definition list_status_events :: "execution_db \<Rightarrow> string \<Rightarrow> execution_status_event list result" where
  "list_status_events db action_id =
     bindR (mapR event_from_row (filter (\<lambda>r. vrow_action_id r = action_id) (edb_events db)))
       (\<lambda>events.
     let ordered = sort_key xe_sequence_number events in
     bindR (require (map xe_sequence_number ordered = map int [1..<Suc (length ordered)])
              (PersistenceIntegrityError ''Execution Status Event history has gaps'')) (\<lambda>_.
     Inr ordered))"

definition append_status_event ::
    "execution_db \<Rightarrow> execution_status_event \<Rightarrow> execution_db result" where
  "append_status_event db event =
     bindR (immutable_action db (xe_action_id event)) (\<lambda>action.
     bindR (list_status_events db (xe_action_id event)) (\<lambda>existing.
     bindR (require (xe_decision_id event = ea_decision_id action \<and>
                     xe_sequence_number event = int (length existing) + 1)
              (PersistenceIntegrityError
                 ''Execution Status Event sequence or lineage is inconsistent'')) (\<lambda>_.
     bindR (if existing = []
            then require (xe_from_status event = None \<and> xe_to_status event = XS_PLANNED)
                   (PersistenceIntegrityError
                      ''first Execution Status Event must establish planned state'')
            else require (case xe_from_status event of
                            None \<Rightarrow> False
                          | Some from_status \<Rightarrow>
                              from_status = xe_to_status (last existing) \<and>
                              can_move from_status (xe_to_status event))
                   (PersistenceIntegrityError
                      ''Execution Status Event violates the transition graph'')) (\<lambda>_.
     bindR (insert_unique vrow_execution_event_id (edb_events db) (event_row_of event)) (\<lambda>rows.
     Inr (db\<lparr>edb_events := rows\<rparr>))))))"

definition attempt_from_row :: "attempt_row \<Rightarrow> execution_attempt result" where
  "attempt_from_row row =
     bindR (json_or_error (trow_payload row)) (\<lambda>attempt.
     bindR (require (xa_attempt_id attempt = trow_attempt_id row \<and>
                     xa_action_id attempt = trow_action_id row \<and>
                     xa_decision_id attempt = trow_decision_id row \<and>
                     xa_attempt_number attempt = trow_attempt_number row \<and>
                     execution_status_value (xa_status attempt) = trow_status row \<and>
                     trow_started_at row = xa_started_at attempt \<and>
                     trow_completed_at row = xa_completed_at attempt)
              (PersistenceIntegrityError
                 ''Execution Attempt columns conflict with canonical JSON'')) (\<lambda>_.
     Inr attempt))"

definition get_attempt :: "execution_db \<Rightarrow> string \<Rightarrow> execution_attempt result" where
  "get_attempt db attempt_id =
     bindR (one_or_none (filter (\<lambda>r. trow_attempt_id r = attempt_id) (edb_attempts db))) (\<lambda>found.
     bindR (the_or (RecordNotFound ''Execution Attempt does not exist'') found) attempt_from_row)"

definition list_attempts :: "execution_db \<Rightarrow> string \<Rightarrow> execution_attempt list result" where
  "list_attempts db action_id =
     mapR attempt_from_row
       (sort_key trow_attempt_number (filter (\<lambda>r. trow_action_id r = action_id) (edb_attempts db)))"

definition insert_attempt :: "execution_db \<Rightarrow> execution_attempt \<Rightarrow> execution_db result" where
  "insert_attempt db attempt =
     bindR (get_action db (xa_action_id attempt)) (\<lambda>action.
     bindR (list_attempts db (xa_action_id attempt)) (\<lambda>existing.
     bindR (require (xa_decision_id attempt = ea_decision_id action \<and>
                     xa_attempt_number attempt = int (length existing) + 1 \<and>
                     xa_status attempt = XS_IN_PROGRESS \<and> xa_completed_at attempt = None)
              (PersistenceIntegrityError ''Execution Attempt is inconsistent'')) (\<lambda>_.
     bindR (insert_unique trow_attempt_id (edb_attempts db) (attempt_row_of attempt)) (\<lambda>rows.
     bindR (insert_unique (\<lambda>r. (trow_action_id r, trow_attempt_number r)) (edb_attempts db)
              (attempt_row_of attempt)) (\<lambda>_.
     Inr (db\<lparr>edb_attempts := rows,
             edb_projections := map (\<lambda>r. if prow_action_id r = xa_action_id attempt
               then r\<lparr>prow_current_attempt := xa_attempt_number attempt\<rparr> else r)
               (edb_projections db)\<rparr>))))))"

definition update_attempt :: "execution_db \<Rightarrow> execution_attempt \<Rightarrow> execution_db result" where
  "update_attempt db attempt =
     bindR (get_attempt db (xa_attempt_id attempt)) (\<lambda>previous.
     bindR (require (xa_status previous = XS_IN_PROGRESS \<and>
                     xa_action_id attempt = xa_action_id previous \<and>
                     xa_decision_id attempt = xa_decision_id previous \<and>
                     xa_attempt_number attempt = xa_attempt_number previous \<and>
                     xa_started_at attempt = xa_started_at previous \<and>
                     xa_status attempt \<in> {XS_COMPLETED, XS_FAILED, XS_CANCELLED} \<and>
                     xa_completed_at attempt \<noteq> None)
              (PersistenceIntegrityError
                 ''Execution Attempt update would rewrite immutable attempt history'')) (\<lambda>_.
     Inr (db\<lparr>edb_attempts := map (\<lambda>r. if trow_attempt_id r = xa_attempt_id attempt
             then r\<lparr>trow_status := execution_status_value (xa_status attempt),
                    trow_completed_at := xa_completed_at attempt, trow_payload := Some attempt\<rparr>
             else r) (edb_attempts db)\<rparr>)))"

definition update_action_projection :: "execution_db \<Rightarrow> execution_action \<Rightarrow> execution_db result" where
  "update_action_projection db action =
     bindR (immutable_action db (ea_action_id action)) (\<lambda>immutable.
     bindR (require (action\<lparr>ea_status := XS_PLANNED\<rparr> = immutable)
              (ImmutableRecordConflict
                 ''action projection cannot change immutable Action fields'')) (\<lambda>_.
     bindR (require (length (filter (\<lambda>r. prow_action_id r = ea_action_id action)
                       (edb_projections db)) = 1)
              (RecordNotFound ''action projection does not exist'')) (\<lambda>_.
     Inr (db\<lparr>edb_projections := map (\<lambda>r. if prow_action_id r = ea_action_id action
             then r\<lparr>prow_status := execution_status_value (ea_status action),
                    prow_payload := Some action\<rparr>
             else r) (edb_projections db)\<rparr>))))"

definition initial_event :: "string \<Rightarrow> execution_action \<Rightarrow> execution_status_event" where
  "initial_event event_id action =
     \<lparr>xe_execution_event_id = event_id, xe_action_id = ea_action_id action,
      xe_decision_id = ea_decision_id action, xe_sequence_number = 1, xe_from_status = None,
      xe_to_status = XS_PLANNED, xe_attempt_id = None, xe_error_code = None,
      xe_occurred_at = ea_created_at action\<rparr>"

definition insert_draft :: "execution_db \<Rightarrow> execution_action \<Rightarrow> execution_db result" where
  "insert_draft db action =
     (case ea_draft_artifact_id action of
        None \<Rightarrow> Inr db
      | Some artifact_id \<Rightarrow>
          bindR (insert_unique drow_artifact_id (edb_drafts db)
                   (draft_row_of
                      \<lparr>da_artifact_id = artifact_id, da_action_id = ea_action_id action,
                       da_decision_id = ea_decision_id action,
                       da_artifact_kind = ''alpha_recovery_request'',
                       da_created_at = ea_created_at action, da_subject = None, da_body = None,
                       da_sent = False\<rparr>)) (\<lambda>rows.
          Inr (db\<lparr>edb_drafts := rows\<rparr>)))"

text \<open>The flag of the result says whether the action was inserted; the id is the fresh event id.\<close>

definition insert_action_if_absent ::
    "'w case_store \<Rightarrow> 'w \<Rightarrow> execution_db \<Rightarrow> string \<Rightarrow> execution_action \<Rightarrow>
     (execution_db \<times> bool) result" where
  "insert_action_if_absent cs w db event_id action =
     bindR (require (ea_status action = XS_PLANNED)
              (ValueError ''new execution actions must be planned'')) (\<lambda>_.
     bindR (cst_decision cs w (ea_decision_id action)) (\<lambda>decision.
     bindR (require (dec_kind decision = DK_APPROVED \<and> ea_case_id action = dec_case_id decision)
              (PersistenceIntegrityError
                 ''Execution Action must match an approved Decision'')) (\<lambda>_.
     if ea_action_id action \<in> arow_action_id ` set (edb_actions db) then
       bindR (immutable_action db (ea_action_id action)) (\<lambda>stored.
       bindR (require (stored = action)
                (ImmutableRecordConflict ''execution action ID conflicts'')) (\<lambda>_.
       Inr (db, False)))
     else
       bindR (insert_unique arow_action_id (edb_actions db) (action_row_of action)) (\<lambda>actions.
       bindR (insert_unique prow_action_id (edb_projections db) (projection_row_of action 0))
         (\<lambda>projections.
       bindR (append_status_event
                (db\<lparr>edb_actions := actions, edb_projections := projections\<rparr>)
                (initial_event event_id action)) (\<lambda>db1.
       bindR (insert_draft db1 action) (\<lambda>db2. Inr (db2, True))))))))"

definition get_draft_artifact :: "execution_db \<Rightarrow> string \<Rightarrow> draft_artifact result" where
  "get_draft_artifact db action_id =
     bindR (one_or_none (filter (\<lambda>r. drow_action_id r = action_id) (edb_drafts db))) (\<lambda>found.
     bindR (the_or (RecordNotFound ''Draft Artifact does not exist'') found) (\<lambda>row.
     bindR (json_or_error (drow_payload row)) (\<lambda>artifact.
     bindR (require (da_artifact_id artifact = drow_artifact_id row \<and>
                     da_action_id artifact = drow_action_id row \<and>
                     da_decision_id artifact = drow_decision_id row \<and>
                     da_artifact_kind artifact = drow_artifact_kind row \<and>
                     drow_created_at row = da_created_at artifact \<and> \<not> da_sent artifact)
              (PersistenceIntegrityError
                 ''Draft Artifact columns conflict with canonical unsent JSON'')) (\<lambda>_.
     Inr artifact))))"

definition fill_draft_artifact :: "execution_db \<Rightarrow> draft_artifact \<Rightarrow> execution_db result" where
  "fill_draft_artifact db artifact =
     bindR (get_draft_artifact db (da_action_id artifact)) (\<lambda>previous.
     bindR (require (da_artifact_id previous = da_artifact_id artifact)
              (ImmutableRecordConflict ''Draft Artifact ID cannot be changed'')) (\<lambda>_.
     bindR (require (\<not> da_sent artifact)
              (ImmutableRecordConflict ''Draft Artifact must remain unsent'')) (\<lambda>_.
     if da_subject previous \<noteq> None then
       bindR (require (previous = artifact)
                (ImmutableRecordConflict ''Draft Artifact content is insert-only'')) (\<lambda>_. Inr db)
     else
       bindR (require (da_subject artifact \<noteq> None \<and> da_body artifact \<noteq> None)
                (ValueError ''Draft Artifact content is required'')) (\<lambda>_.
       bindR (require (artifact\<lparr>da_subject := None, da_body := None\<rparr> = previous)
                (ImmutableRecordConflict
                   ''Draft Artifact fill cannot change immutable fields'')) (\<lambda>_.
       Inr (db\<lparr>edb_drafts := map (\<lambda>r. if drow_artifact_id r = da_artifact_id artifact
               then r\<lparr>drow_payload := Some artifact\<rparr> else r) (edb_drafts db)\<rparr>))))))"

end
