(* ===== verification/Execution_Service.thy ===== *)
theory Execution_Service
  imports Execution_Store
begin

text \<open>
  \<open>ExecutionService\<close> of \<open>services/execution/worker.py\<close>: creating an action, starting,
  retrying, completing, failing and cancelling it.

  Every operation runs in one unit of work over the state of the case and the execution tables;
  an exception rolls both back, which is the \<open>Inl\<close> of its result.  The fresh identifiers and
  the readings of the clock are arguments.
\<close>

definition require_transition :: "execution_action \<Rightarrow> execution_status \<Rightarrow> unit result" where
  "require_transition action to_status =
     require (can_move (ea_status action) to_status)
       (IllegalExecutionTransition ''illegal execution transition'')"

definition execution_event ::
    "execution_action \<Rightarrow> execution_status \<Rightarrow> int \<Rightarrow> string option \<Rightarrow> string option \<Rightarrow> instant \<Rightarrow>
     string \<Rightarrow> execution_status_event" where
  "execution_event action to_status sequence_number attempt_id error_code occurred_at event_id =
     \<lparr>xe_execution_event_id = event_id, xe_action_id = ea_action_id action,
      xe_decision_id = ea_decision_id action, xe_sequence_number = sequence_number,
      xe_from_status = Some (ea_status action), xe_to_status = to_status,
      xe_attempt_id = attempt_id, xe_error_code = error_code, xe_occurred_at = occurred_at\<rparr>"

definition create_action ::
    "'w case_store \<Rightarrow> 'w \<times> execution_db \<Rightarrow> string \<Rightarrow> execution_action \<Rightarrow>
     (('w \<times> execution_db) \<times> execution_action) result" where
  "create_action cs state event_id action =
     (case state of (w, db) \<Rightarrow>
       bindR (insert_action_if_absent cs w db event_id action) (\<lambda>(db1, inserted).
       if \<not> inserted then
         bindR (get_action db1 (ea_action_id action)) (\<lambda>stored. Inr ((w, db), stored))
       else
         bindR (cst_guard cs w (ea_decision_id action)) (\<lambda>(w1, _).
         bindR (get_action db1 (ea_action_id action)) (\<lambda>created. Inr ((w1, db1), created)))))"

definition begin_attempt ::
    "'w case_store \<Rightarrow> execution_status \<Rightarrow> 'w \<times> execution_db \<Rightarrow> string \<Rightarrow> string \<Rightarrow> string \<Rightarrow>
     instant \<Rightarrow> instant \<Rightarrow> (('w \<times> execution_db) \<times> execution_attempt) result" where
  "begin_attempt cs required_status state action_id attempt_id event_id started_at occurred_at =
     (case state of (w, db) \<Rightarrow>
       bindR (get_action db action_id) (\<lambda>action.
       bindR (if ea_status action \<noteq> required_status
              then bindR (require_transition action XS_IN_PROGRESS) (\<lambda>_.
                   Inl (IllegalExecutionTransition
                          ''a planned or failed action is required to enter in_progress''))
              else require_transition action XS_IN_PROGRESS) (\<lambda>_.
       bindR (cst_guard cs w (ea_decision_id action)) (\<lambda>(w1, _).
       bindR (list_attempts db action_id) (\<lambda>attempts.
       let attempt = \<lparr>xa_attempt_id = attempt_id, xa_action_id = ea_action_id action,
                      xa_decision_id = ea_decision_id action,
                      xa_attempt_number = int (length attempts) + 1, xa_status = XS_IN_PROGRESS,
                      xa_started_at = started_at, xa_completed_at = None, xa_error_code = None\<rparr> in
       bindR (list_status_events db action_id) (\<lambda>events.
       bindR (insert_attempt db attempt) (\<lambda>db1.
       bindR (update_action_projection db1 (action\<lparr>ea_status := XS_IN_PROGRESS\<rparr>)) (\<lambda>db2.
       bindR (append_status_event db2
                (execution_event action XS_IN_PROGRESS (int (length events) + 1)
                   (Some attempt_id) None occurred_at event_id)) (\<lambda>db3.
       Inr ((w1, db3), attempt))))))))))"

definition start_action ::
    "'w case_store \<Rightarrow> 'w \<times> execution_db \<Rightarrow> string \<Rightarrow> string \<Rightarrow> string \<Rightarrow> instant \<Rightarrow> instant \<Rightarrow>
     (('w \<times> execution_db) \<times> execution_attempt) result" where
  "start_action cs = begin_attempt cs XS_PLANNED"

definition retry_action ::
    "'w case_store \<Rightarrow> 'w \<times> execution_db \<Rightarrow> string \<Rightarrow> string \<Rightarrow> string \<Rightarrow> instant \<Rightarrow> instant \<Rightarrow>
     (('w \<times> execution_db) \<times> execution_attempt) result" where
  "retry_action cs = begin_attempt cs XS_FAILED"

definition finish_attempt ::
    "'w case_store \<Rightarrow> 'w \<times> execution_db \<Rightarrow> string \<Rightarrow> string \<Rightarrow> execution_status \<Rightarrow> string option \<Rightarrow>
     string \<Rightarrow> instant \<Rightarrow> (('w \<times> execution_db) \<times> execution_action) result" where
  "finish_attempt cs state action_id attempt_id to_status error_code event_id now =
     (case state of (w, db) \<Rightarrow>
       bindR (get_action db action_id) (\<lambda>action.
       bindR (require_transition action to_status) (\<lambda>_.
       bindR (get_attempt db attempt_id) (\<lambda>attempt.
       bindR (require (xa_action_id attempt = action_id \<and> xa_status attempt = XS_IN_PROGRESS)
                (IllegalExecutionTransition
                   ''transition requires the in-progress attempt of the action'')) (\<lambda>_.
       bindR (if to_status = XS_COMPLETED
              then bindR (cst_guard cs w (ea_decision_id action)) (\<lambda>(w1, _). Inr w1)
              else Inr w) (\<lambda>w1.
       let finished = attempt\<lparr>xa_status := to_status, xa_completed_at := Some now,
                              xa_error_code := error_code\<rparr>;
           changed = action\<lparr>ea_status := to_status\<rparr> in
       bindR (list_status_events db action_id) (\<lambda>events.
       bindR (update_attempt db finished) (\<lambda>db1.
       bindR (update_action_projection db1 changed) (\<lambda>db2.
       bindR (append_status_event db2
                (execution_event action to_status (int (length events) + 1) (Some attempt_id)
                   error_code now event_id)) (\<lambda>db3.
       Inr ((w1, db3), changed)))))))))))"

definition complete_action ::
    "'w case_store \<Rightarrow> 'w \<times> execution_db \<Rightarrow> string \<Rightarrow> string \<Rightarrow> string \<Rightarrow> instant \<Rightarrow>
     (('w \<times> execution_db) \<times> execution_action) result" where
  "complete_action cs state action_id attempt_id event_id now =
     finish_attempt cs state action_id attempt_id XS_COMPLETED None event_id now"

definition fail_action ::
    "'w case_store \<Rightarrow> 'w \<times> execution_db \<Rightarrow> string \<Rightarrow> string \<Rightarrow> string \<Rightarrow> string \<Rightarrow> instant \<Rightarrow>
     (('w \<times> execution_db) \<times> execution_action) result" where
  "fail_action cs state action_id attempt_id error_code event_id now =
     finish_attempt cs state action_id attempt_id XS_FAILED (Some error_code) event_id now"

text \<open>Cancelling does not consult the currentness guard, and closes the running attempt, if any.\<close>

definition cancel_attempt ::
    "execution_db \<Rightarrow> execution_action \<Rightarrow> string option \<Rightarrow> instant \<Rightarrow>
     (execution_db \<times> string option) result" where
  "cancel_attempt db action attempt_id now =
     (if ea_status action = XS_IN_PROGRESS then
        bindR (list_attempts db (ea_action_id action)) (\<lambda>attempts.
        bindR (if attempts = [] then Inl (IllegalExecutionTransition
                    ''cancellation requires the in-progress attempt of the action'')
               else Inr (last attempts)) (\<lambda>current.
        bindR (require (xa_status current = XS_IN_PROGRESS \<and>
                        (attempt_id \<noteq> None \<longrightarrow> attempt_id = Some (xa_attempt_id current)))
                 (IllegalExecutionTransition
                    ''cancellation requires the in-progress attempt of the action'')) (\<lambda>_.
        bindR (update_attempt db
                 (current\<lparr>xa_status := XS_CANCELLED, xa_completed_at := Some now\<rparr>)) (\<lambda>db1.
        Inr (db1, Some (xa_attempt_id current))))))
      else Inr (db, attempt_id))"

definition cancel_action ::
    "'w \<times> execution_db \<Rightarrow> string \<Rightarrow> string option \<Rightarrow> string \<Rightarrow> instant \<Rightarrow>
     (('w \<times> execution_db) \<times> execution_action) result" where
  "cancel_action state action_id attempt_id event_id now =
     (case state of (w, db) \<Rightarrow>
       bindR (get_action db action_id) (\<lambda>action.
       bindR (require_transition action XS_CANCELLED) (\<lambda>_.
       bindR (cancel_attempt db action attempt_id now) (\<lambda>(db1, attempt).
       let changed = action\<lparr>ea_status := XS_CANCELLED\<rparr> in
       bindR (list_status_events db1 action_id) (\<lambda>events.
       bindR (update_action_projection db1 changed) (\<lambda>db2.
       bindR (append_status_event db2
                (execution_event action XS_CANCELLED (int (length events) + 1) attempt None now
                   event_id)) (\<lambda>db3.
       Inr ((w, db3), changed))))))))"

section \<open>Calls\<close>

text \<open>One call of the service, with the identifiers and times it draws.\<close>

datatype execution_call =
    Create string execution_action
  | Start string string string instant instant
  | Retry string string string instant instant
  | Complete string string string instant
  | Fail string string string string instant
  | Cancel string "string option" string instant

fun run_call ::
    "'w case_store \<Rightarrow> 'w \<times> execution_db \<Rightarrow> execution_call \<Rightarrow> ('w \<times> execution_db) result" where
  "run_call cs state (Create event_id action) =
     bindR (create_action cs state event_id action) (\<lambda>r. Inr (fst r))"
| "run_call cs state (Start action_id attempt_id event_id t u) =
     bindR (start_action cs state action_id attempt_id event_id t u) (\<lambda>r. Inr (fst r))"
| "run_call cs state (Retry action_id attempt_id event_id t u) =
     bindR (retry_action cs state action_id attempt_id event_id t u) (\<lambda>r. Inr (fst r))"
| "run_call cs state (Complete action_id attempt_id event_id t) =
     bindR (complete_action cs state action_id attempt_id event_id t) (\<lambda>r. Inr (fst r))"
| "run_call cs state (Fail action_id attempt_id error_code event_id t) =
     bindR (fail_action cs state action_id attempt_id error_code event_id t) (\<lambda>r. Inr (fst r))"
| "run_call cs state (Cancel action_id attempt_id event_id t) =
     bindR (cancel_action state action_id attempt_id event_id t) (\<lambda>r. Inr (fst r))"

definition empty_execution_db :: execution_db where
  "empty_execution_db =
     \<lparr>edb_actions = [], edb_projections = [], edb_drafts = [], edb_attempts = [], edb_events = []\<rparr>"

text \<open>
  The states the service reaches from empty execution tables.  The rest of the database moves
  freely between its units of work.
\<close>

inductive execution_reachable :: "'w case_store \<Rightarrow> 'w \<times> execution_db \<Rightarrow> bool"
  for cs :: "'w case_store" where
  reach_start: "execution_reachable cs (w, empty_execution_db)"
| reach_world: "execution_reachable cs (w, db) \<Longrightarrow> execution_reachable cs (w', db)"
| reach_call: "execution_reachable cs state \<Longrightarrow> run_call cs state call = Inr state' \<Longrightarrow>
     execution_reachable cs state'"

end
