(* ===== verification/Supplier_Email.thy ===== *)
theory Supplier_Email
  imports Execution_Service
begin

text \<open>
  The reviewed supplier email of a Decision: \<open>data/domain/outbound_mail.py\<close>,
  \<open>SqlAlchemySupplierEmailRepository\<close> of \<open>services/persistence/store.py\<close> and
  \<open>ReviewedEmailService\<close> of \<open>services/execution/mail_service.py\<close>.

  Writers that collide in the database see a \<open>False\<close> instead of an exception; whether one
  does is an argument of the operations (\<open>busy\<close>).  What Microsoft Graph answers is an argument
  as well.
\<close>

section \<open>Records\<close>

datatype send_status = SS_draft | SS_submitting | SS_accepted | SS_sent_confirmed | SS_failed | SS_uncertain

fun send_status_value :: "send_status \<Rightarrow> string" where
  "send_status_value SS_draft = ''draft''"
| "send_status_value SS_submitting = ''submitting''"
| "send_status_value SS_accepted = ''accepted''"
| "send_status_value SS_sent_confirmed = ''sent-confirmed''"
| "send_status_value SS_failed = ''failed''"
| "send_status_value SS_uncertain = ''uncertain''"

lemma send_status_value_inject [simp]: "send_status_value s = send_status_value t \<longleftrightarrow> s = t"
  by (cases s; cases t) simp_all

record email_revision =
  er_email_id :: string
  er_decision_id :: string
  er_action_id :: string
  er_revision :: int
  er_subject :: string
  er_body :: string
  er_from_address :: string
  er_to_address :: string
  er_edited_by :: identity_snapshot
  er_edited_at :: instant
  er_reviewed_by :: "identity_snapshot option"
  er_reviewed_at :: "instant option"

text \<open>\<open>require_email_shape\<close>\<close>

definition email_shape :: "string \<Rightarrow> bool" where
  "email_shape value \<longleftrightarrow>
     (let local = takeWhile (\<lambda>c. c \<noteq> CHR ''@'') value;
          domain = drop (length local + 1) value
      in CHR ''@'' \<in> set value \<and> local \<noteq> [] \<and> domain \<noteq> [] \<and> \<not> list_ex py_isspace value)"

text \<open>\<open>SupplierEmailRevision(...)\<close>\<close>

definition mk_email_revision :: "email_revision \<Rightarrow> email_revision result" where
  "mk_email_revision r =
     bindR (require (0 < er_revision r \<and> int (length (er_subject r)) \<le> 255 \<and>
                     int (length (er_body r)) \<le> 10000 \<and> int (length (er_from_address r)) \<le> 320 \<and>
                     int (length (er_to_address r)) \<le> 320 \<and>
                     list_all nonblank [er_email_id r, er_decision_id r, er_action_id r,
                       er_subject r, er_body r, er_from_address r, er_to_address r] \<and>
                     email_shape (er_from_address r) \<and> email_shape (er_to_address r) \<and>
                     (er_reviewed_by r = None) = (er_reviewed_at r = None))
              (ValueError ''invalid supplier email revision'')) (\<lambda>_.
     Inr (r\<lparr>er_from_address := py_lower (er_from_address r),
            er_to_address := py_lower (er_to_address r)\<rparr>))"

record email_delivery =
  ed_email_id :: string
  ed_decision_id :: string
  ed_reviewed_revision :: "int option"
  ed_send_status :: send_status
  ed_provider_message_id :: "string option"
  ed_internet_message_id :: "string option"
  ed_correlation_id :: "string option"
  ed_status_updated_at :: instant
  ed_failure_code :: "string option"

definition mk_email_delivery :: "email_delivery \<Rightarrow> email_delivery result" where
  "mk_email_delivery d =
     bindR (require (nonblank (ed_email_id d) \<and> nonblank (ed_decision_id d) \<and>
                     (case ed_reviewed_revision d of None \<Rightarrow> True | Some n \<Rightarrow> 0 < n))
              (ValueError ''invalid supplier email delivery'')) (\<lambda>_. Inr d)"

record reviewed_email =
  re_email_id :: string
  re_decision_id :: string
  re_action_id :: string
  re_revision :: int
  re_subject :: string
  re_body :: string
  re_from_address :: string
  re_to_address :: string
  re_reviewed_revision :: "int option"
  re_reviewed_at :: "instant option"
  re_reviewed_by :: "identity_snapshot option"
  re_send_status :: send_status

text \<open>\<open>ReviewedSupplierEmail.from_records\<close>\<close>

definition email_view :: "email_revision \<Rightarrow> email_delivery \<Rightarrow> reviewed_email" where
  "email_view r d =
     (let effective = (ed_reviewed_revision d = Some (er_revision r)) in
      \<lparr>re_email_id = er_email_id r, re_decision_id = er_decision_id r,
       re_action_id = er_action_id r, re_revision = er_revision r, re_subject = er_subject r,
       re_body = er_body r, re_from_address = er_from_address r,
       re_to_address = er_to_address r,
       re_reviewed_revision = (if effective then ed_reviewed_revision d else None),
       re_reviewed_at = (if effective then er_reviewed_at r else None),
       re_reviewed_by = (if effective then er_reviewed_by r else None),
       re_send_status = ed_send_status d\<rparr>)"

section \<open>Tables\<close>

record revision_row =
  rrow_email_id :: string
  rrow_revision :: int
  rrow_decision_id :: string
  rrow_action_id :: string
  rrow_subject :: string
  rrow_body :: string
  rrow_from_address :: string
  rrow_to_address :: string
  rrow_edited_at :: instant
  rrow_reviewed_at :: "instant option"
  rrow_payload :: "email_revision option"

record delivery_row =
  yrow_email_id :: string
  yrow_decision_id :: string
  yrow_reviewed_revision :: "int option"
  yrow_send_status :: string
  yrow_provider_message_id :: "string option"
  yrow_internet_message_id :: "string option"
  yrow_correlation_id :: "string option"
  yrow_status_updated_at :: instant
  yrow_failure_code :: "string option"
  yrow_payload :: "email_delivery option"

record mail_db =
  mdb_deliveries :: "delivery_row list"
  mdb_revisions :: "revision_row list"

definition revision_row_of :: "email_revision \<Rightarrow> revision_row" where
  "revision_row_of r =
     \<lparr>rrow_email_id = er_email_id r, rrow_revision = er_revision r,
      rrow_decision_id = er_decision_id r, rrow_action_id = er_action_id r,
      rrow_subject = er_subject r, rrow_body = er_body r,
      rrow_from_address = er_from_address r, rrow_to_address = er_to_address r,
      rrow_edited_at = er_edited_at r, rrow_reviewed_at = er_reviewed_at r,
      rrow_payload = Some r\<rparr>"

definition delivery_row_of :: "email_delivery \<Rightarrow> delivery_row" where
  "delivery_row_of d =
     \<lparr>yrow_email_id = ed_email_id d, yrow_decision_id = ed_decision_id d,
      yrow_reviewed_revision = ed_reviewed_revision d,
      yrow_send_status = send_status_value (ed_send_status d),
      yrow_provider_message_id = ed_provider_message_id d,
      yrow_internet_message_id = ed_internet_message_id d,
      yrow_correlation_id = ed_correlation_id d,
      yrow_status_updated_at = ed_status_updated_at d, yrow_failure_code = ed_failure_code d,
      yrow_payload = Some d\<rparr>"

text \<open>The columns an \<open>UPDATE\<close> of a delivery writes: all but its two identifiers.\<close>

definition rewrite_delivery :: "email_delivery \<Rightarrow> delivery_row \<Rightarrow> delivery_row" where
  "rewrite_delivery d row =
     (delivery_row_of d)\<lparr>yrow_email_id := yrow_email_id row,
                         yrow_decision_id := yrow_decision_id row\<rparr>"

section \<open>The repository\<close>

definition revision_from_row :: "revision_row \<Rightarrow> email_revision result" where
  "revision_from_row row =
     bindR (the_or (PersistenceIntegrityError
              ''persisted supplier email revision contains invalid JSON'') (rrow_payload row)) (\<lambda>r.
     bindR (require (er_email_id r = rrow_email_id row \<and> er_decision_id r = rrow_decision_id row \<and>
                     er_action_id r = rrow_action_id row \<and> er_revision r = rrow_revision row \<and>
                     er_subject r = rrow_subject row \<and> er_body r = rrow_body row \<and>
                     er_from_address r = rrow_from_address row \<and>
                     er_to_address r = rrow_to_address row \<and> rrow_edited_at row = er_edited_at r \<and>
                     rrow_reviewed_at row = er_reviewed_at r)
              (PersistenceIntegrityError
                 ''supplier email revision columns conflict with canonical JSON'')) (\<lambda>_.
     Inr r))"

definition delivery_from_row :: "delivery_row \<Rightarrow> email_delivery result" where
  "delivery_from_row row =
     bindR (the_or (PersistenceIntegrityError
              ''persisted supplier email delivery contains invalid JSON'') (yrow_payload row)) (\<lambda>d.
     bindR (require (ed_email_id d = yrow_email_id row \<and> ed_decision_id d = yrow_decision_id row \<and>
                     ed_reviewed_revision d = yrow_reviewed_revision row \<and>
                     send_status_value (ed_send_status d) = yrow_send_status row \<and>
                     ed_provider_message_id d = yrow_provider_message_id row \<and>
                     ed_internet_message_id d = yrow_internet_message_id row \<and>
                     ed_correlation_id d = yrow_correlation_id row \<and>
                     ed_failure_code d = yrow_failure_code row \<and>
                     yrow_status_updated_at row = ed_status_updated_at d)
              (PersistenceIntegrityError
                 ''supplier email delivery columns conflict with canonical JSON'')) (\<lambda>_.
     Inr d))"

text \<open>\<open>ORDER BY revision DESC LIMIT 1\<close>\<close>

definition newest_revision :: "revision_row list \<Rightarrow> revision_row option" where
  "newest_revision rows =
     (case sort_key (\<lambda>r. - rrow_revision r) rows of [] \<Rightarrow> None | r # _ \<Rightarrow> Some r)"

definition get_current ::
    "mail_db \<Rightarrow> string \<Rightarrow> (email_revision \<times> email_delivery) option result" where
  "get_current m decision_id =
     bindR (one_or_none (filter (\<lambda>y. yrow_decision_id y = decision_id) (mdb_deliveries m))) (\<lambda>found.
     case found of
       None \<Rightarrow> Inr None
     | Some row \<Rightarrow>
         bindR (delivery_from_row row) (\<lambda>d.
         bindR (the_or (PersistenceIntegrityError
                  ''supplier email delivery has no content revision'')
                 (newest_revision (filter (\<lambda>r. rrow_email_id r = ed_email_id d \<and>
                    rrow_decision_id r = decision_id) (mdb_revisions m)))) (\<lambda>newest.
         bindR (revision_from_row newest) (\<lambda>r.
         bindR (require (er_email_id r = ed_email_id d \<and> er_decision_id r = ed_decision_id d \<and>
                         (case ed_reviewed_revision d of None \<Rightarrow> True | Some n \<Rightarrow> n \<le> er_revision r))
                  (PersistenceIntegrityError
                     ''supplier email delivery conflicts with its revisions'')) (\<lambda>_.
         bindR (require (ed_reviewed_revision d = Some (er_revision r) \<longrightarrow>
                           er_reviewed_by r \<noteq> None \<and> er_reviewed_at r \<noteq> None)
                  (PersistenceIntegrityError
                     ''effective supplier email review is incomplete'')) (\<lambda>_.
         Inr (Some (r, d))))))))"

definition get_email_revision :: "mail_db \<Rightarrow> string \<Rightarrow> int \<Rightarrow> email_revision result" where
  "get_email_revision m email_id revision =
     bindR (one_or_none (filter (\<lambda>r. rrow_email_id r = email_id \<and> rrow_revision r = revision)
              (mdb_revisions m))) (\<lambda>found.
     bindR (the_or (RecordNotFound ''supplier email revision does not exist'') found)
       revision_from_row)"

definition require_action_binding :: "execution_db \<Rightarrow> email_revision \<Rightarrow> unit result" where
  "require_action_binding x r =
     bindR (get_action x (er_action_id r)) (\<lambda>action.
     bindR (require (ea_decision_id action = er_decision_id r \<and>
                     ea_kind action = PREPARE_ALPHA_RECOVERY_DRAFT \<and>
                     ea_draft_artifact_id action \<noteq> None)
              (PersistenceIntegrityError
                 ''supplier email must belong to the draft action of its Decision'')) (\<lambda>_.
     bindR (get_draft_artifact x (ea_action_id action)) (\<lambda>artifact.
     require (da_decision_id artifact = er_decision_id r)
       (PersistenceIntegrityError
          ''supplier email draft artifact conflicts with its Decision''))))"

definition insert_revision :: "mail_db \<Rightarrow> email_revision \<Rightarrow> mail_db result" where
  "insert_revision m r =
     bindR (insert_unique (\<lambda>r. (rrow_email_id r, rrow_revision r)) (mdb_revisions m)
              (revision_row_of r)) (\<lambda>rows.
     Inr (m\<lparr>mdb_revisions := rows\<rparr>))"

definition insert_initial ::
    "execution_db \<Rightarrow> mail_db \<Rightarrow> email_revision \<Rightarrow> email_delivery \<Rightarrow> mail_db result" where
  "insert_initial x m r d =
     bindR (require (er_revision r = 1 \<and> er_reviewed_by r = None)
              (ValueError ''initial supplier email must be unreviewed revision 1'')) (\<lambda>_.
     bindR (require (ed_email_id d = er_email_id r \<and> ed_decision_id d = er_decision_id r \<and>
                     ed_reviewed_revision d = None \<and> ed_send_status d = SS_draft)
              (PersistenceIntegrityError
                 ''initial supplier email delivery conflicts with its revision'')) (\<lambda>_.
     bindR (get_current m (er_decision_id r)) (\<lambda>current.
     bindR (require (current = None)
              (ImmutableRecordConflict
                 ''supplier email already exists for this Decision'')) (\<lambda>_.
     bindR (require_action_binding x r) (\<lambda>_.
     bindR (insert_unique yrow_email_id (mdb_deliveries m) (delivery_row_of d)) (\<lambda>_.
     bindR (insert_unique yrow_decision_id (mdb_deliveries m) (delivery_row_of d)) (\<lambda>rows.
     insert_revision (m\<lparr>mdb_deliveries := rows\<rparr>) r)))))))"

text \<open>
  \<open>_claim_delivery_for_write\<close> rewrites the delivery with its own timestamp, which takes the
  row lock and changes nothing.
\<close>

definition claim_delivery_for_write :: "bool \<Rightarrow> mail_db \<Rightarrow> string \<Rightarrow> bool" where
  "claim_delivery_for_write busy m decision_id \<longleftrightarrow>
     \<not> busy \<and> length (filter (\<lambda>y. yrow_decision_id y = decision_id) (mdb_deliveries m)) = 1"

definition update_delivery :: "mail_db \<Rightarrow> email_delivery \<Rightarrow> mail_db result" where
  "update_delivery m d =
     bindR (require (length (filter (\<lambda>y. yrow_email_id y = ed_email_id d) (mdb_deliveries m)) = 1)
              (RecordNotFound ''supplier email delivery does not exist'')) (\<lambda>_.
     Inr (m\<lparr>mdb_deliveries := map (\<lambda>y. if yrow_email_id y = ed_email_id d
             then rewrite_delivery d y else y) (mdb_deliveries m)\<rparr>))"

definition never_submitted :: "email_delivery \<Rightarrow> bool" where
  "never_submitted d \<longleftrightarrow>
     ed_send_status d = SS_draft \<or>
     ed_send_status d = SS_failed \<and> ed_provider_message_id d = None \<and>
       ed_internet_message_id d = None"

definition back_to_draft :: "email_delivery \<Rightarrow> instant \<Rightarrow> email_delivery" where
  "back_to_draft d now =
     d\<lparr>ed_reviewed_revision := None, ed_send_status := SS_draft, ed_status_updated_at := now,
       ed_provider_message_id := None, ed_internet_message_id := None,
       ed_correlation_id := None, ed_failure_code := None\<rparr>"

text \<open>None is the code's \<open>return False\<close>: the writer lost, and nothing is written.\<close>

definition append_email_revision ::
    "bool \<Rightarrow> execution_db \<Rightarrow> mail_db \<Rightarrow> email_revision \<Rightarrow> int \<Rightarrow> mail_db option result" where
  "append_email_revision busy x m r expected_revision =
     (if \<not> claim_delivery_for_write busy m (er_decision_id r) then Inr None
      else bindR (get_current m (er_decision_id r)) (\<lambda>current.
        case current of
          None \<Rightarrow> Inr None
        | Some (previous, d) \<Rightarrow>
            if er_revision previous \<noteq> expected_revision then Inr None
            else if \<not> never_submitted d then Inr None
            else bindR (require (er_email_id r = er_email_id previous \<and>
                                 er_decision_id r = er_decision_id previous \<and>
                                 er_action_id r = er_action_id previous \<and>
                                 er_from_address r = er_from_address previous \<and>
                                 er_to_address r = er_to_address previous \<and>
                                 er_revision r = expected_revision + 1 \<and> er_reviewed_by r = None)
                          (PersistenceIntegrityError
                             ''new supplier email revision changes immutable binding'')) (\<lambda>_.
                 bindR (require_action_binding x r) (\<lambda>_.
                 case insert_revision m r of
                   Inl e \<Rightarrow> if e = IntegrityError then Inr None else Inl e
                 | Inr m1 \<Rightarrow>
                     bindR (update_delivery m1 (back_to_draft d (er_edited_at r))) (\<lambda>m2.
                     Inr (Some m2))))))"

definition mark_reviewed ::
    "bool \<Rightarrow> mail_db \<Rightarrow> email_revision \<Rightarrow> email_delivery \<Rightarrow> int \<Rightarrow> mail_db option result" where
  "mark_reviewed busy m r d expected_revision =
     (if \<not> claim_delivery_for_write busy m (er_decision_id r) then Inr None
      else bindR (get_current m (er_decision_id r)) (\<lambda>current.
        case current of
          None \<Rightarrow> Inr None
        | Some (previous, previous_delivery) \<Rightarrow>
            if er_revision previous \<noteq> expected_revision then Inr None
            else if er_reviewed_at previous \<noteq> None then
              Inr (if previous = r \<and> previous_delivery = d then Some m else None)
            else
              bindR (require (r\<lparr>er_reviewed_by := None, er_reviewed_at := None\<rparr> = previous \<and>
                              er_reviewed_by r \<noteq> None \<and> er_reviewed_at r \<noteq> None \<and>
                              d = previous_delivery\<lparr>ed_reviewed_revision := Some expected_revision,
                                    ed_status_updated_at := the (er_reviewed_at r)\<rparr>)
                       (PersistenceIntegrityError
                          ''supplier email review changes content or delivery state'')) (\<lambda>_.
              let hit = (\<lambda>row. rrow_email_id row = er_email_id r \<and>
                          rrow_revision row = expected_revision \<and> rrow_reviewed_at row = None) in
              if length (filter hit (mdb_revisions m)) \<noteq> 1 then Inr None
              else bindR (update_delivery
                     (m\<lparr>mdb_revisions := map (\<lambda>row. if hit row
                         then row\<lparr>rrow_reviewed_at := er_reviewed_at r, rrow_payload := Some r\<rparr>
                         else row) (mdb_revisions m)\<rparr>) d) (\<lambda>m1. Inr (Some m1)))))"

definition claim_send :: "bool \<Rightarrow> mail_db \<Rightarrow> email_delivery \<Rightarrow> int \<Rightarrow> mail_db option result" where
  "claim_send busy m d expected_revision =
     bindR (require (ed_reviewed_revision d = Some expected_revision \<and>
                     ed_send_status d = SS_submitting \<and> ed_correlation_id d \<noteq> None \<and>
                     ed_provider_message_id d = None \<and> ed_internet_message_id d = None \<and>
                     ed_failure_code d = None)
              (PersistenceIntegrityError ''supplier email send claim is invalid'')) (\<lambda>_.
     let hit = (\<lambda>y. yrow_email_id y = ed_email_id d \<and> yrow_decision_id y = ed_decision_id d \<and>
                 yrow_reviewed_revision y = Some expected_revision \<and>
                 (yrow_send_status y = ''draft'' \<or>
                  yrow_send_status y = ''failed'' \<and> yrow_provider_message_id y = None \<and>
                    yrow_internet_message_id y = None)) in
     if busy \<or> length (filter hit (mdb_deliveries m)) \<noteq> 1 then Inr None
     else Inr (Some (m\<lparr>mdb_deliveries := map (\<lambda>y. if hit y then rewrite_delivery d y else y)
            (mdb_deliveries m)\<rparr>)))"

definition update_delivery_state ::
    "bool \<Rightarrow> mail_db \<Rightarrow> email_delivery \<Rightarrow> string \<Rightarrow> send_status list \<Rightarrow> mail_db option result" where
  "update_delivery_state busy m d expected_correlation_id expected_statuses =
     bindR (require (ed_correlation_id d = Some expected_correlation_id \<and> expected_statuses \<noteq> [])
              (PersistenceIntegrityError
                 ''supplier email delivery transition is invalid'')) (\<lambda>_.
     let hit = (\<lambda>y. yrow_email_id y = ed_email_id d \<and> yrow_decision_id y = ed_decision_id d \<and>
                 yrow_correlation_id y = Some expected_correlation_id \<and>
                 yrow_send_status y \<in> send_status_value ` set expected_statuses) in
     if busy \<or> length (filter hit (mdb_deliveries m)) \<noteq> 1 then Inr None
     else Inr (Some (m\<lparr>mdb_deliveries := map (\<lambda>y. if hit y then rewrite_delivery d y else y)
            (mdb_deliveries m)\<rparr>)))"

end
