(* ===== verification/Supplier_Email_Service.thy ===== *)
theory Supplier_Email_Service
  imports Supplier_Email
begin

text \<open>
  \<open>ReviewedEmailService\<close> of \<open>services/execution/mail_service.py\<close>: opening, editing,
  reviewing and sending the supplier email of a Decision, and checking on it.

  Sending is two units of work around the call of Microsoft Graph, \<open>send_claim\<close> and
  \<open>email_transition\<close>, so that other calls can run in between.  Graph itself is not under
  \<open>src/\<close>: what the mail client made of its answer, which \<open>Graph_Client\<close> models, is an argument.
\<close>

record 'w mail_env =
  me_cases :: "'w case_store"
  me_projection :: "'w \<Rightarrow> string \<Rightarrow> case_projection result"
  me_from_address :: string
  me_to_address :: string
  me_configured_actor :: identity_snapshot
  me_send_enabled :: bool
  me_uuid5_url :: "string \<Rightarrow> string"

type_synonym 'w mail_state = "'w \<times> execution_db \<times> mail_db"

definition deterministic_email_id :: "'w mail_env \<Rightarrow> string \<Rightarrow> string" where
  "deterministic_email_id env decision_id =
     ''RL-EMAIL-'' @ me_uuid5_url env (decision_id @ '':supplier-email'')"

definition require_email_actor :: "'w mail_env \<Rightarrow> identity_snapshot \<Rightarrow> unit result" where
  "require_email_actor env actor =
     (let expected = me_configured_actor env;
          roles = [''material_planner'', ''response_approver''] in
      require (is_persona_id actor = is_persona_id expected \<and>
               is_persona_id expected = ''RL-PERSONA-ALEX'' \<and>
               is_source_id actor = is_source_id expected \<and>
               is_source_id expected = ''RL-ENTRA-ALEX'' \<and>
               is_identity_source actor = is_identity_source expected \<and>
               is_identity_source expected = IS_ENTRA \<and>
               is_effective_roles actor = is_effective_roles expected \<and>
               is_effective_roles expected = roles \<and>
               (is_tenant_id expected = None \<or> is_tenant_id actor = is_tenant_id expected) \<and>
               (is_object_id expected = None \<or> is_object_id actor = is_object_id expected))
        EmailAuthorizationError)"

definition require_current_projection :: "'w mail_env \<Rightarrow> 'w \<Rightarrow> decision \<Rightarrow> unit result" where
  "require_current_projection env w d =
     bindR (me_projection env w (dec_case_id d)) (\<lambda>p.
     require (cpj_current_decision_id p = Some (dec_decision_id d) \<and>
              cpj_current_analysis_id p = Some (dec_analysis_id d) \<and>
              cpj_current_analysis_hash p = Some (dec_analysis_material_hash d))
       (ExecutionProposalStale ''Execution Decision is no longer current''))"

text \<open>\<open>PersistenceError\<close> and its subclasses.\<close>

fun persistence_error :: "py_error \<Rightarrow> bool" where
  "persistence_error (RecordNotFound _) = True"
| "persistence_error (ImmutableRecordConflict _) = True"
| "persistence_error (PersistenceIntegrityError _) = True"
| "persistence_error _ = False"

definition draft_action :: "execution_db \<Rightarrow> string \<Rightarrow> execution_action result" where
  "draft_action x decision_id =
     bindR (list_actions x decision_id) (\<lambda>all_actions.
     case filter (\<lambda>a. ea_kind a = PREPARE_ALPHA_RECOVERY_DRAFT) all_actions of
       [action] \<Rightarrow>
         bindR (require (ea_draft_artifact_id action \<noteq> None) (EmailStateError
                  ''The supplier email is not available until action planning completes.'')) (\<lambda>_.
         bindR (case get_draft_artifact x (ea_action_id action) of
                  Inl e \<Rightarrow> Inl (if persistence_error e then EmailStateError
                      ''The supplier email does not match its planned action.'' else e)
                | Inr artifact \<Rightarrow> Inr artifact) (\<lambda>artifact.
         bindR (require (ea_decision_id action = decision_id \<and>
                         da_action_id artifact = ea_action_id action \<and>
                         da_decision_id artifact = decision_id \<and>
                         Some (da_artifact_id artifact) = ea_draft_artifact_id action)
                  (EmailStateError
                     ''The supplier email does not match its planned action.'')) (\<lambda>_.
         Inr action)))
     | _ \<Rightarrow> Inl (EmailStateError
              ''The supplier email is not available until action planning completes.''))"

text \<open>
  The em dash of the first line has no code point below 256; its place in Windows-1252 stands for
  it.
\<close>

definition em_dash :: string where
  "em_dash = [CHR 0x97]"

definition newline :: string where
  "newline = [CHR 0x0A]"

definition initial_content ::
    "decision \<Rightarrow> execution_action list \<Rightarrow> (string \<times> string) result" where
  "initial_content d all_actions =
     bindR (the_or (EmailStateError ''The supplier email requires a current approved response.'')
              (dec_selected_option d)) (\<lambda>option1.
     bindR (require (dec_selected_option_id d = Some (ro_option_id option1))
              (EmailStateError
                 ''The supplier email requires a current approved response.'')) (\<lambda>_.
     let coordination = map (\<lambda>a. the (ea_purpose a))
           (filter (\<lambda>a. ea_kind a \<notin> {PREPARE_ALPHA_RECOVERY_DRAFT, UPDATE_DISRUPTION_STATUS} \<and>
                        ea_purpose a \<noteq> None) all_actions) in
     bindR (require (coordination \<noteq> [])
              (EmailStateError ''The supplier email requires a planned approved response.'')) (\<lambda>_.
     let coordination_text = py_join newline (map (\<lambda>purpose. ''- '' @ purpose) coordination) in
     Inr (''RL-001 supplier recovery request'',
          ''Fictional demo '' @ em_dash @ '' this message is not a purchase order or financial '' @
          ''commitment.'' @ newline @ newline @
          ''Case reference: '' @ dec_case_id d @ newline @
          ''Approved demo response: '' @ ro_name option1 @ ''.'' @ newline @ newline @
          ''Planned demo coordination:'' @ newline @ coordination_text @ newline @ newline @
          ''Please confirm the current recovery timing and any remaining '' @
          ''constraints affecting supply.''))))"

definition open_email ::
    "'w mail_env \<Rightarrow> 'w mail_state \<Rightarrow> string \<Rightarrow> instant \<Rightarrow> ('w mail_state \<times> reviewed_email) result" where
  "open_email env state decision_id now =
     (case state of (w, x, m) \<Rightarrow>
       bindR (get_current m decision_id) (\<lambda>current.
       case current of
         Some (r, d) \<Rightarrow> Inr (state, email_view r d)
       | None \<Rightarrow>
           bindR (cst_guard (me_cases env) w decision_id) (\<lambda>(w1, decision).
           bindR (require_current_projection env w1 decision) (\<lambda>_.
           bindR (draft_action x decision_id) (\<lambda>action.
           bindR (list_actions x decision_id) (\<lambda>all_actions.
           bindR (initial_content decision all_actions) (\<lambda>(subject, body).
           let email_id = deterministic_email_id env decision_id in
           bindR (mk_email_revision
                    \<lparr>er_email_id = email_id, er_decision_id = decision_id,
                     er_action_id = ea_action_id action, er_revision = 1, er_subject = subject,
                     er_body = body, er_from_address = me_from_address env,
                     er_to_address = me_to_address env,
                     er_edited_by = me_configured_actor env, er_edited_at = now,
                     er_reviewed_by = None, er_reviewed_at = None\<rparr>) (\<lambda>r.
           bindR (mk_email_delivery
                    \<lparr>ed_email_id = email_id, ed_decision_id = decision_id,
                     ed_reviewed_revision = None, ed_send_status = SS_draft,
                     ed_provider_message_id = None, ed_internet_message_id = None,
                     ed_correlation_id = None, ed_status_updated_at = now,
                     ed_failure_code = None\<rparr>) (\<lambda>d.
           bindR (insert_initial x m r d) (\<lambda>m1.
           Inr ((w1, x, m1), email_view r d)))))))))))"

definition the_won :: "'a option result \<Rightarrow> 'a result" where
  "the_won r = bindR r (the_or EmailRevisionConflict)"

definition save_email ::
    "'w mail_env \<Rightarrow> bool \<Rightarrow> 'w mail_state \<Rightarrow> string \<Rightarrow> int \<Rightarrow> string \<Rightarrow> string \<Rightarrow>
     identity_snapshot \<Rightarrow> instant \<Rightarrow> ('w mail_state \<times> reviewed_email) result" where
  "save_email env busy state decision_id revision subject body actor now =
     (case state of (w, x, m) \<Rightarrow>
       bindR (require_email_actor env actor) (\<lambda>_.
       bindR (cst_guard (me_cases env) w decision_id) (\<lambda>(w1, decision).
       bindR (require_current_projection env w1 decision) (\<lambda>_.
       bindR (draft_action x decision_id) (\<lambda>_.
       bindR (get_current m decision_id) (\<lambda>current.
       bindR (the_or (EmailStateError ''Open the supplier email before editing it.'') current)
         (\<lambda>(previous, d).
       bindR (mk_email_revision
                \<lparr>er_email_id = er_email_id previous, er_decision_id = er_decision_id previous,
                 er_action_id = er_action_id previous, er_revision = revision + 1,
                 er_subject = subject, er_body = body, er_from_address = me_from_address env,
                 er_to_address = me_to_address env, er_edited_by = actor, er_edited_at = now,
                 er_reviewed_by = None, er_reviewed_at = None\<rparr>) (\<lambda>changed.
       bindR (the_won (append_email_revision busy x m changed revision)) (\<lambda>m1.
       Inr ((w1, x, m1), email_view changed (back_to_draft d (er_edited_at changed)))))))))))) "

definition review_email ::
    "'w mail_env \<Rightarrow> bool \<Rightarrow> 'w mail_state \<Rightarrow> string \<Rightarrow> int \<Rightarrow> identity_snapshot \<Rightarrow> instant \<Rightarrow>
     ('w mail_state \<times> reviewed_email) result" where
  "review_email env busy state decision_id revision actor now =
     (case state of (w, x, m) \<Rightarrow>
       bindR (require_email_actor env actor) (\<lambda>_.
       bindR (cst_guard (me_cases env) w decision_id) (\<lambda>(w1, decision).
       bindR (require_current_projection env w1 decision) (\<lambda>_.
       bindR (draft_action x decision_id) (\<lambda>_.
       bindR (get_current m decision_id) (\<lambda>current.
       bindR (the_or (EmailStateError ''Open the supplier email before reviewing it.'') current)
         (\<lambda>(previous, d).
       bindR (require (er_revision previous = revision) EmailRevisionConflict) (\<lambda>_.
       if er_reviewed_by previous \<noteq> None then
         (if er_reviewed_by previous = Some actor \<and> ed_reviewed_revision d = Some revision
          then Inr (state, email_view previous d)
          else Inl (EmailStateError ''This supplier email revision is already reviewed.''))
       else
         let reviewed = previous\<lparr>er_reviewed_by := Some actor, er_reviewed_at := Some now\<rparr>;
             reviewed_delivery = d\<lparr>ed_reviewed_revision := Some revision,
                                   ed_status_updated_at := now\<rparr> in
         bindR (the_won (mark_reviewed busy m reviewed reviewed_delivery revision)) (\<lambda>m1.
         Inr ((w1, x, m1), email_view reviewed reviewed_delivery))))))))))"

text \<open>\<open>_send_records\<close>, with the case state its guard leaves.\<close>

definition send_records ::
    "'w mail_env \<Rightarrow> 'w mail_state \<Rightarrow> string \<Rightarrow> int \<Rightarrow> identity_snapshot \<Rightarrow>
     ('w \<times> email_revision \<times> email_delivery) result" where
  "send_records env state decision_id revision actor =
     (case state of (w, x, m) \<Rightarrow>
       bindR (require_email_actor env actor) (\<lambda>_.
       bindR (cst_guard (me_cases env) w decision_id) (\<lambda>(w1, decision).
       bindR (require_current_projection env w1 decision) (\<lambda>_.
       bindR (draft_action x decision_id) (\<lambda>_.
       bindR (get_current m decision_id) (\<lambda>current.
       bindR (the_or (EmailStateError ''Open the supplier email before sending it.'') current)
         (\<lambda>(content, d).
       bindR (require (er_revision content = revision) EmailRevisionConflict) (\<lambda>_.
       bindR (require (er_reviewed_by content \<noteq> None \<and> er_reviewed_at content \<noteq> None \<and>
                       ed_reviewed_revision d = Some revision)
                (EmailStateError ''Review the current supplier email before sending it.'')) (\<lambda>_.
       Inr (w1, content, d))))))))))"

definition canonical_email :: "mail_db \<Rightarrow> string \<Rightarrow> reviewed_email result" where
  "canonical_email m decision_id =
     bindR (get_current m decision_id) (\<lambda>current.
     bindR (the_or (EmailStateError ''The supplier email is not available.'') current) (\<lambda>(r, d).
     Inr (email_view r d)))"

text \<open>\<open>_transition\<close>: no caller passes a provider id or an internet message id.\<close>

definition email_transition ::
    "bool \<Rightarrow> 'w mail_state \<Rightarrow> string \<Rightarrow> string \<Rightarrow> send_status list \<Rightarrow> send_status \<Rightarrow> string option \<Rightarrow>
     instant \<Rightarrow> ('w mail_state \<times> reviewed_email) result" where
  "email_transition busy state decision_id correlation_id expected_statuses status failure_code now =
     (case state of (w, x, m) \<Rightarrow>
       bindR (get_current m decision_id) (\<lambda>current.
       bindR (the_or (EmailStateError ''The supplier email is not available.'') current) (\<lambda>(r, d).
       if ed_correlation_id d \<noteq> Some correlation_id then Inr (state, email_view r d)
       else
         let changed = d\<lparr>ed_send_status := status, ed_status_updated_at := now,
                         ed_failure_code := failure_code\<rparr> in
         bindR (update_delivery_state busy m changed correlation_id expected_statuses) (\<lambda>won.
         case won of
           None \<Rightarrow> Inr (state, email_view r d)
         | Some m1 \<Rightarrow> Inr ((w, x, m1), email_view r changed)))))"

text \<open>The first half of \<open>send\<close>: either an answer, or a message to hand to Graph.\<close>

datatype send_start = SendAnswer reviewed_email | Submit string email_revision

definition send_claim ::
    "'w mail_env \<Rightarrow> bool \<Rightarrow> 'w mail_state \<Rightarrow> string \<Rightarrow> int \<Rightarrow> identity_snapshot \<Rightarrow> string \<Rightarrow> instant \<Rightarrow>
     ('w mail_state \<times> send_start) result" where
  "send_claim env busy state decision_id revision actor correlation_id now =
     (case state of (w, x, m) \<Rightarrow>
       bindR (require (me_send_enabled env) EmailSendDisabled) (\<lambda>_.
       bindR (send_records env state decision_id revision actor) (\<lambda>(w1, content, d).
       if ed_send_status d \<noteq> SS_draft \<and> ed_send_status d \<noteq> SS_failed
       then Inr (state, SendAnswer (email_view content d))
       else
         let claimed = d\<lparr>ed_send_status := SS_submitting, ed_provider_message_id := None,
                         ed_internet_message_id := None, ed_correlation_id := Some correlation_id,
                         ed_status_updated_at := now, ed_failure_code := None\<rparr> in
         bindR (claim_send busy m claimed revision) (\<lambda>won.
         case won of
           None \<Rightarrow> bindR (canonical_email m decision_id) (\<lambda>view. Inr (state, SendAnswer view))
         | Some m1 \<Rightarrow> Inr ((w1, x, m1), Submit correlation_id content)))))"

text \<open>What \<open>send_message\<close> did: returned, raised a \<open>GraphMailError\<close>, or its uncertain subclass.\<close>

datatype graph_outcome = Graph_returned | Graph_failed string | Graph_uncertain string

fun send_finish ::
    "bool \<Rightarrow> 'w mail_state \<Rightarrow> string \<Rightarrow> string \<Rightarrow> graph_outcome \<Rightarrow> instant \<Rightarrow>
     ('w mail_state \<times> reviewed_email) result" where
  "send_finish busy state decision_id correlation_id Graph_returned now =
     email_transition busy state decision_id correlation_id [SS_submitting] SS_accepted None now"
| "send_finish busy state decision_id correlation_id (Graph_failed code) now =
     email_transition busy state decision_id correlation_id [SS_submitting] SS_failed (Some code) now"
| "send_finish busy state decision_id correlation_id (Graph_uncertain code) now =
     email_transition busy state decision_id correlation_id [SS_submitting] SS_uncertain (Some code) now"

record provider_message =
  pm_provider_message_id :: string
  pm_internet_message_id :: "string option"
  pm_sender_address :: string
  pm_to_addresses :: "string list"
  pm_subject :: string
  pm_body_content_type :: string
  pm_body :: string
  pm_sent_at :: "datetime option"

definition provider_matches :: "provider_message \<Rightarrow> email_revision \<Rightarrow> email_delivery \<Rightarrow> bool" where
  "provider_matches p r d \<longleftrightarrow>
     Some (pm_provider_message_id p) = ed_provider_message_id d \<and>
     (ed_internet_message_id d = None \<or> pm_internet_message_id p = ed_internet_message_id d) \<and>
     pm_sender_address p = er_from_address r \<and> pm_to_addresses p = [er_to_address r] \<and>
     pm_subject p = er_subject r \<and> pm_body_content_type p = ''text'' \<and> pm_body p = er_body r"

text \<open>
  \<open>check_send_status\<close>: \<open>get_message\<close> maps the provider id to a message or None (a
  \<open>GraphMailError\<close>).  The guard's write is rolled back, and the state after the call of Graph
  is \<open>later\<close>.
\<close>

definition check_send_status ::
    "'w mail_env \<Rightarrow> bool \<Rightarrow> 'w mail_state \<Rightarrow> 'w mail_state \<Rightarrow> string \<Rightarrow> identity_snapshot \<Rightarrow>
     (string \<Rightarrow> provider_message option) \<Rightarrow> instant \<Rightarrow> ('w mail_state \<times> reviewed_email) result" where
  "check_send_status env busy state later decision_id actor get_message now =
     (case state of (w, x, m) \<Rightarrow>
       bindR (require (me_send_enabled env) EmailSendDisabled) (\<lambda>_.
       bindR (get_current m decision_id) (\<lambda>current.
       bindR (the_or (EmailStateError ''The supplier email is not available.'') current) (\<lambda>(r, d).
       bindR (send_records env state decision_id (er_revision r) actor) (\<lambda>_.
       if ed_send_status d = SS_sent_confirmed then Inr (later, email_view r d)
       else
         case (ed_provider_message_id d, ed_correlation_id d) of
           (Some provider_id, Some correlation_id) \<Rightarrow>
             if ed_send_status d \<notin> {SS_submitting, SS_accepted, SS_uncertain}
             then Inl (EmailStateError ''Send status is not available to check.'')
             else
               (case get_message provider_id of
                  None \<Rightarrow> bindR (canonical_email (snd (snd later)) decision_id) (\<lambda>v. Inr (later, v))
                | Some p \<Rightarrow>
                    if \<not> provider_matches p r d
                    then email_transition busy later decision_id correlation_id
                           [SS_submitting, SS_accepted, SS_uncertain] SS_uncertain
                           (Some ''graph_message_mismatch'') now
                    else if pm_sent_at p = None
                    then bindR (canonical_email (snd (snd later)) decision_id) (\<lambda>v. Inr (later, v))
                    else email_transition busy later decision_id correlation_id
                           [SS_submitting, SS_accepted, SS_uncertain] SS_sent_confirmed None now)
         | _ \<Rightarrow> Inl (EmailStateError ''Send status is not available to check.''))))))"

end
