(* ===== verification/Execution_Lives.thy ===== *)
theory Execution_Lives
  imports Execution_Service
begin

text \<open>
  What the execution tables say about one action: its life, an action with its status, its
  attempts, its history and its draft.  The repository's reads return the life of the action, each
  operation of \<open>ExecutionService\<close> is one step of it, and the lives of the other actions
  stay as they were.
\<close>

section \<open>Rows of one key\<close>

lemma filter_map_other:
  assumes "\<And>r. k (u r) = k r" and "\<And>r. P r \<Longrightarrow> k r \<noteq> j"
  shows "filter (\<lambda>r. k r = j) (map (\<lambda>r. if P r then u r else r) rs) = filter (\<lambda>r. k r = j) rs"
  using assms by (induction rs) auto

lemma filter_map_key:
  assumes "\<And>r. k (u r) = k r"
  shows "filter (\<lambda>r. k r = j) (map (\<lambda>r. if P r then u r else r) rs) =
    map (\<lambda>r. if P r then u r else r) (filter (\<lambda>r. k r = j) rs)"
  using assms by (induction rs) auto

lemma filter_key_empty: "k ` set rs \<subseteq> A \<Longrightarrow> j \<notin> A \<Longrightarrow> filter (\<lambda>r. k r = j) rs = []"
  by (auto simp: filter_empty_conv)

lemma filter_key_refine:
  assumes "distinct (map k rs)" and "filter (\<lambda>r. f r = j) rs = rows" and "r \<in> set rows"
  shows "filter (\<lambda>x. k x = k r) rs = [r]"
proof -
  have "r \<in> set rs" using assms(2,3) by auto
  with assms(1) show ?thesis
  proof (induction rs)
    case (Cons x rs)
    show ?case
    proof (cases "x = r")
      case True
      with Cons.prems have "\<And>y. y \<in> set rs \<Longrightarrow> k y \<noteq> k r" by (auto simp: image_iff)
      with True show ?thesis by (simp add: filter_empty_conv)
    next
      case False
      with Cons.prems have "k x \<noteq> k r" "r \<in> set rs" by auto
      with Cons show ?thesis by simp
    qed
  qed simp
qed

section \<open>Lives\<close>

record action_life =
  lf_action :: execution_action
  lf_status :: execution_status
  lf_attempts :: "execution_attempt list"
  lf_events :: "execution_status_event list"

definition life_at :: "execution_db \<Rightarrow> string \<Rightarrow> action_life \<Rightarrow> bool" where
  "life_at db i L \<longleftrightarrow>
     ea_action_id (lf_action L) = i \<and> ea_status (lf_action L) = XS_PLANNED \<and>
     filter (\<lambda>r. arow_action_id r = i) (edb_actions db) = [action_row_of (lf_action L)] \<and>
     filter (\<lambda>r. prow_action_id r = i) (edb_projections db) =
       [projection_row_of ((lf_action L)\<lparr>ea_status := lf_status L\<rparr>)
          (int (length (lf_attempts L)))] \<and>
     filter (\<lambda>r. trow_action_id r = i) (edb_attempts db) = map attempt_row_of (lf_attempts L) \<and>
     filter (\<lambda>r. vrow_action_id r = i) (edb_events db) = map event_row_of (lf_events L)"

lemma life_attempt_rows:
  "life_at db i L \<Longrightarrow>
   filter (\<lambda>r. trow_action_id r = i) (edb_attempts db) = map attempt_row_of (lf_attempts L)"
  by (simp add: life_at_def)

text \<open>
  The statuses of the attempts agree with the status of the action: every attempt but the last has
  failed, and the last one has the status of the action.
\<close>

definition attempt_shape :: "execution_status \<Rightarrow> execution_status list \<Rightarrow> bool" where
  "attempt_shape s ss \<longleftrightarrow>
     set (butlast ss) \<subseteq> {XS_FAILED} \<and>
     (if ss = [] then s = XS_PLANNED \<or> s = XS_CANCELLED else last ss = s \<and> s \<noteq> XS_PLANNED)"

definition history_ok :: "execution_action \<Rightarrow> execution_status \<Rightarrow> execution_status_event list \<Rightarrow> bool" where
  "history_ok a s es \<longleftrightarrow>
     es \<noteq> [] \<and> map xe_sequence_number es = map int [1..<Suc (length es)] \<and>
     map xe_from_status es = None # map (Some \<circ> xe_to_status) (butlast es) \<and>
     xe_to_status (hd es) = XS_PLANNED \<and>
     successively can_move (map xe_to_status es) \<and> xe_to_status (last es) = s \<and>
     (\<forall>e \<in> set es. xe_action_id e = ea_action_id a \<and> xe_decision_id e = ea_decision_id a)"

definition attempts_ok :: "execution_action \<Rightarrow> execution_status \<Rightarrow> execution_attempt list \<Rightarrow> bool" where
  "attempts_ok a s ts \<longleftrightarrow>
     map xa_attempt_number ts = map int [1..<Suc (length ts)] \<and>
     attempt_shape s (map xa_status ts) \<and>
     (\<forall>t \<in> set ts. xa_action_id t = ea_action_id a \<and> xa_decision_id t = ea_decision_id a \<and>
        (xa_completed_at t = None \<longleftrightarrow> xa_status t = XS_IN_PROGRESS))"

text \<open>The entries into \<open>IN_PROGRESS\<close> name the attempts, in order.\<close>

definition started_attempts :: "execution_status_event list \<Rightarrow> string option list" where
  "started_attempts es = map xe_attempt_id (filter (\<lambda>e. xe_to_status e = XS_IN_PROGRESS) es)"

definition life_ok :: "action_life \<Rightarrow> bool" where
  "life_ok L \<longleftrightarrow>
     history_ok (lf_action L) (lf_status L) (lf_events L) \<and>
     attempts_ok (lf_action L) (lf_status L) (lf_attempts L) \<and>
     started_attempts (lf_events L) = map (Some \<circ> xa_attempt_id) (lf_attempts L)"

lemma sorted_numbered: "map f xs = map int [1..<Suc (length xs)] \<Longrightarrow> sorted (map f xs)"
  by (simp add: sorted_iff_nth_mono del: upt_Suc)

section \<open>Reading a life\<close>

lemma immutable_action_life:
  "life_at db i L \<Longrightarrow> immutable_action db i = Inr (lf_action L)"
  by (simp add: life_at_def immutable_action_def one_or_none_def json_or_error_def
      action_row_of_def require_def)

lemma immutable_action_none:
  "i \<notin> arow_action_id ` set (edb_actions db) \<Longrightarrow>
   immutable_action db i = Inl (RecordNotFound ''execution action does not exist'')"
  by (subgoal_tac "filter (\<lambda>r. arow_action_id r = i) (edb_actions db) = []")
     (auto simp: immutable_action_def one_or_none_def filter_empty_conv)

lemma get_action_life:
  assumes "life_at db i L"
  shows "get_action db i = Inr ((lf_action L)\<lparr>ea_status := lf_status L\<rparr>)"
proof -
  have "(lf_action L)\<lparr>ea_status := XS_PLANNED\<rparr> = lf_action L"
    using assms by (cases "lf_action L") (simp add: life_at_def)
  with assms show ?thesis
    by (simp add: get_action_def immutable_action_life [OF assms])
       (simp add: life_at_def one_or_none_def json_or_error_def projection_row_of_def require_def)
qed

lemma mapR_event_rows: "mapR event_from_row (map event_row_of es) = Inr es"
  by (induction es) (simp_all add: event_from_row_def event_row_of_def json_or_error_def require_def)

lemma attempt_from_row_of: "attempt_from_row (attempt_row_of t) = Inr t"
  by (simp add: attempt_from_row_def attempt_row_of_def json_or_error_def require_def)

lemma mapR_attempt_rows: "mapR attempt_from_row (map attempt_row_of ts) = Inr ts"
  by (induction ts) (simp_all add: attempt_from_row_of)

lemma list_status_events_history:
  assumes "life_at db i L" and "history_ok a s (lf_events L)"
  shows "list_status_events db i = Inr (lf_events L)"
proof -
  have n: "map xe_sequence_number (lf_events L) = map int [1..<Suc (length (lf_events L))]"
    using assms(2) by (simp add: history_ok_def)
  then have "sort_key xe_sequence_number (lf_events L) = lf_events L"
    by (intro sort_key_sorted_id sorted_numbered)
  with n assms(1) show ?thesis
    by (simp add: list_status_events_def life_at_def mapR_event_rows require_def del: upt_Suc)
qed

lemma list_status_events_life:
  "life_at db i L \<Longrightarrow> life_ok L \<Longrightarrow> list_status_events db i = Inr (lf_events L)"
  unfolding life_ok_def by (blast intro: list_status_events_history)

lemma list_attempts_life:
  assumes "life_at db i L" and "life_ok L"
  shows "list_attempts db i = Inr (lf_attempts L)"
proof -
  have "sorted (map xa_attempt_number (lf_attempts L))"
    using assms(2) by (intro sorted_numbered) (simp add: life_ok_def attempts_ok_def)
  then have "sort_key trow_attempt_number (map attempt_row_of (lf_attempts L)) =
      map attempt_row_of (lf_attempts L)"
    by (intro sort_key_sorted_id) (simp add: attempt_row_of_def comp_def)
  with assms(1) show ?thesis
    by (simp add: list_attempts_def life_at_def mapR_attempt_rows)
qed

lemma get_attempt_life:
  assumes "life_at db i L" and "distinct (map trow_attempt_id (edb_attempts db))"
    and "t \<in> set (lf_attempts L)"
  shows "get_attempt db (xa_attempt_id t) = Inr t"
proof -
  have "filter (\<lambda>r. trow_attempt_id r = trow_attempt_id (attempt_row_of t)) (edb_attempts db) =
      [attempt_row_of t]"
    using assms by (intro filter_key_refine [where f = trow_action_id and j = i
          and rows = "map attempt_row_of (lf_attempts L)"]) (auto simp: life_at_def)
  then have "filter (\<lambda>r. trow_attempt_id r = xa_attempt_id t) (edb_attempts db) =
      [attempt_row_of t]"
    by (simp add: attempt_row_of_def)
  then show ?thesis by (simp add: get_attempt_def one_or_none_def attempt_from_row_of)
qed

section \<open>Writing a life\<close>

text \<open>What a write to the rows of one action leaves alone.\<close>

definition elsewhere :: "string \<Rightarrow> execution_db \<Rightarrow> execution_db \<Rightarrow> bool" where
  "elsewhere i db db' \<longleftrightarrow>
     edb_actions db' = edb_actions db \<and> edb_drafts db' = edb_drafts db \<and>
     (\<forall>j. j \<noteq> i \<longrightarrow>
        filter (\<lambda>r. prow_action_id r = j) (edb_projections db') =
          filter (\<lambda>r. prow_action_id r = j) (edb_projections db) \<and>
        filter (\<lambda>r. trow_action_id r = j) (edb_attempts db') =
          filter (\<lambda>r. trow_action_id r = j) (edb_attempts db) \<and>
        filter (\<lambda>r. vrow_action_id r = j) (edb_events db') =
          filter (\<lambda>r. vrow_action_id r = j) (edb_events db))"

lemma elsewhere_trans: "elsewhere i db db' \<Longrightarrow> elsewhere i db' db'' \<Longrightarrow> elsewhere i db db''"
  by (simp add: elsewhere_def)

lemma elsewhereD:
  assumes "elsewhere i db db'" and "j \<noteq> i"
  shows "filter (\<lambda>r. prow_action_id r = j) (edb_projections db') =
      filter (\<lambda>r. prow_action_id r = j) (edb_projections db)"
    and "filter (\<lambda>r. trow_action_id r = j) (edb_attempts db') =
      filter (\<lambda>r. trow_action_id r = j) (edb_attempts db)"
    and "filter (\<lambda>r. vrow_action_id r = j) (edb_events db') =
      filter (\<lambda>r. vrow_action_id r = j) (edb_events db)"
  using assms by (simp_all add: elsewhere_def)

lemma elsewhere_life: "elsewhere i db db' \<Longrightarrow> j \<noteq> i \<Longrightarrow> life_at db' j L = life_at db j L"
  by (simp add: elsewhere_def life_at_def)

lemma insert_attempt_life:
  assumes "life_at db i L" and "life_ok L"
    and "xa_action_id t = i" and "xa_decision_id t = ea_decision_id (lf_action L)"
    and "xa_attempt_number t = int (length (lf_attempts L)) + 1"
    and "xa_status t = XS_IN_PROGRESS" and "xa_completed_at t = None"
    and "xa_attempt_id t \<notin> trow_attempt_id ` set (edb_attempts db)"
  obtains db' where "insert_attempt db t = Inr db'" and "elsewhere i db db'"
    and "life_at db' i (L\<lparr>lf_attempts := lf_attempts L @ [t]\<rparr>)"
    and "edb_attempts db' = edb_attempts db @ [attempt_row_of t]"
    and "edb_events db' = edb_events db"
proof -
  let ?P = "map (\<lambda>r. if prow_action_id r = i
    then r\<lparr>prow_current_attempt := xa_attempt_number t\<rparr> else r) (edb_projections db)"
  let ?db = "db\<lparr>edb_attempts := edb_attempts db @ [attempt_row_of t], edb_projections := ?P\<rparr>"
  have numbers: "map xa_attempt_number (lf_attempts L) = map int [1..<Suc (length (lf_attempts L))]"
    using assms(2) by (simp add: life_ok_def attempts_ok_def)
  have "xa_attempt_number t \<notin> xa_attempt_number ` set (lf_attempts L)"
    unfolding set_map [symmetric] numbers assms(5) by auto
  then have pair: "(i, xa_attempt_number t) \<notin>
      (\<lambda>r. (trow_action_id r, trow_attempt_number r)) ` set (edb_attempts db)"
  proof (rule contrapos_nn)
    assume "(i, xa_attempt_number t) \<in>
      (\<lambda>r. (trow_action_id r, trow_attempt_number r)) ` set (edb_attempts db)"
    then obtain r where r: "r \<in> set (edb_attempts db)" "trow_action_id r = i"
      "trow_attempt_number r = xa_attempt_number t" by auto
    then have "r \<in> set (filter (\<lambda>r. trow_action_id r = i) (edb_attempts db))" by simp
    then have "r \<in> set (map attempt_row_of (lf_attempts L))"
      unfolding life_attempt_rows [OF assms(1)] .
    then obtain x where x: "x \<in> set (lf_attempts L)" "r = attempt_row_of x" by auto
    with r(3) have "xa_attempt_number t = xa_attempt_number x" by (simp add: attempt_row_of_def)
    with x(1) show "xa_attempt_number t \<in> xa_attempt_number ` set (lf_attempts L)" by simp
  qed
  have ok: "insert_attempt db t = Inr ?db"
    using assms(3-8) pair
    by (simp add: insert_attempt_def get_action_life [OF assms(1)]
        list_attempts_life [OF assms(1,2)] require_def insert_unique_def attempt_row_of_def)
  have other: "filter (\<lambda>r. prow_action_id r = j) ?P = filter (\<lambda>r. prow_action_id r = j) (edb_projections db)"
    if "j \<noteq> i" for j using that by (intro filter_map_other) auto
  have own: "filter (\<lambda>r. prow_action_id r = i) ?P =
      [projection_row_of ((lf_action L)\<lparr>ea_status := lf_status L\<rparr>) (xa_attempt_number t)]"
    using assms(1) by (subst filter_map_key) (simp_all add: life_at_def projection_row_of_def)
  have "life_at ?db i (L\<lparr>lf_attempts := lf_attempts L @ [t]\<rparr>)"
    using assms(1,3,5) own by (simp add: life_at_def attempt_row_of_def add.commute)
  moreover have "elsewhere i db ?db"
    using other assms(3) by (simp add: elsewhere_def attempt_row_of_def)
  ultimately show thesis by (intro that [OF ok]) simp_all
qed

lemma update_action_projection_life:
  assumes "life_at db i L"
  obtains db' where
    "update_action_projection db ((lf_action L)\<lparr>ea_status := s\<rparr>) = Inr db'"
    and "elsewhere i db db'" and "life_at db' i (L\<lparr>lf_status := s\<rparr>)"
    and "edb_attempts db' = edb_attempts db" and "edb_events db' = edb_events db"
proof -
  let ?a = "(lf_action L)\<lparr>ea_status := s\<rparr>"
  let ?P = "map (\<lambda>r. if prow_action_id r = i
    then r\<lparr>prow_status := execution_status_value s, prow_payload := Some ?a\<rparr> else r)
    (edb_projections db)"
  let ?db = "db\<lparr>edb_projections := ?P\<rparr>"
  have i: "ea_action_id (lf_action L) = i" using assms by (simp add: life_at_def)
  have planned: "(lf_action L)\<lparr>ea_status := XS_PLANNED\<rparr> = lf_action L"
    using assms by (cases "lf_action L") (simp add: life_at_def)
  have one: "length (filter (\<lambda>r. prow_action_id r = i) (edb_projections db)) = 1"
    using assms by (simp add: life_at_def)
  have ok: "update_action_projection db ?a = Inr ?db"
    using i planned one
    by (simp add: update_action_projection_def immutable_action_life [OF assms] require_def)
  have other: "filter (\<lambda>r. prow_action_id r = j) ?P = filter (\<lambda>r. prow_action_id r = j) (edb_projections db)"
    if "j \<noteq> i" for j using that by (intro filter_map_other) auto
  have own: "filter (\<lambda>r. prow_action_id r = i) ?P =
      [projection_row_of ?a (int (length (lf_attempts L)))]"
    using assms i by (subst filter_map_key) (simp_all add: life_at_def projection_row_of_def)
  have "life_at ?db i (L\<lparr>lf_status := s\<rparr>)" using assms own by (simp add: life_at_def)
  moreover have "elsewhere i db ?db" using other by (simp add: elsewhere_def)
  ultimately show thesis by (intro that [OF ok]) simp_all
qed

lemma update_attempt_life:
  assumes "life_at db i L" and "distinct (map trow_attempt_id (edb_attempts db))"
    and "lf_attempts L = ts @ [t]" and "xa_status t = XS_IN_PROGRESS" and "xa_action_id t = i"
    and "t' = t\<lparr>xa_status := s, xa_completed_at := Some now, xa_error_code := code\<rparr>"
    and "s \<in> {XS_COMPLETED, XS_FAILED, XS_CANCELLED}"
  obtains db' where "update_attempt db t' = Inr db'" and "elsewhere i db db'"
    and "life_at db' i (L\<lparr>lf_attempts := ts @ [t']\<rparr>)"
    and "map trow_attempt_id (edb_attempts db') = map trow_attempt_id (edb_attempts db)"
    and "edb_events db' = edb_events db"
proof -
  let ?u = "\<lambda>r. r\<lparr>trow_status := execution_status_value s, trow_completed_at := Some now,
    trow_payload := Some t'\<rparr>"
  let ?T = "map (\<lambda>r. if trow_attempt_id r = xa_attempt_id t then ?u r else r) (edb_attempts db)"
  let ?db = "db\<lparr>edb_attempts := ?T\<rparr>"
  have t': "xa_attempt_id t' = xa_attempt_id t" "xa_action_id t' = i"
    "xa_decision_id t' = xa_decision_id t" "xa_attempt_number t' = xa_attempt_number t"
    "xa_status t' = s" "xa_started_at t' = xa_started_at t" "xa_completed_at t' = Some now"
    using assms(5,6) by simp_all
  have "get_attempt db (xa_attempt_id t) = Inr t"
    using assms(3) by (intro get_attempt_life [OF assms(1,2)]) simp
  then have ok: "update_attempt db t' = Inr ?db"
    using assms(4,5,7) by (simp add: update_attempt_def t' require_def)
  have rows: "filter (\<lambda>r. trow_action_id r = i) (edb_attempts db) =
      map attempt_row_of ts @ [attempt_row_of t]"
    using assms(1,3) by (simp add: life_at_def)
  have unique: "trow_action_id r = i \<and> r = attempt_row_of t"
    if "r \<in> set (edb_attempts db)" "trow_attempt_id r = xa_attempt_id t" for r
  proof -
    have "attempt_row_of t \<in> set (filter (\<lambda>r. trow_action_id r = i) (edb_attempts db))"
      unfolding rows by simp
    then have "attempt_row_of t \<in> set (edb_attempts db)" "trow_action_id (attempt_row_of t) = i"
      by auto
    moreover have "trow_attempt_id (attempt_row_of t) = xa_attempt_id t"
      by (simp add: attempt_row_of_def)
    ultimately show ?thesis using assms(2) that by (metis distinct_map inj_onD)
  qed
  have other: "filter (\<lambda>r. trow_action_id r = j) ?T = filter (\<lambda>r. trow_action_id r = j) (edb_attempts db)"
    if "j \<noteq> i" for j
  proof -
    have "filter (\<lambda>r. trow_action_id r = j) ?T =
        map (\<lambda>r. if trow_attempt_id r = xa_attempt_id t then ?u r else r)
          (filter (\<lambda>r. trow_action_id r = j) (edb_attempts db))"
      by (rule filter_map_key) simp
    also have "\<dots> = filter (\<lambda>r. trow_action_id r = j) (edb_attempts db)"
      using that unique by (intro map_idI) auto
    finally show ?thesis .
  qed
  have old: "trow_attempt_id (attempt_row_of y) \<noteq> xa_attempt_id t" if "y \<in> set ts" for y
  proof -
    have "distinct (map trow_attempt_id (filter (\<lambda>r. trow_action_id r = i) (edb_attempts db)))"
      using assms(2) by (rule distinct_map_filter)
    then show ?thesis using that unfolding rows by (auto simp: attempt_row_of_def image_iff)
  qed
  have "filter (\<lambda>r. trow_action_id r = i) ?T =
      map (\<lambda>r. if trow_attempt_id r = xa_attempt_id t then ?u r else r)
        (map attempt_row_of ts @ [attempt_row_of t])"
    unfolding rows [symmetric] by (rule filter_map_key) simp
  also have "\<dots> = map attempt_row_of ts @ [attempt_row_of t']"
    using old assms(5,6) by (simp add: attempt_row_of_def)
  finally have own: "filter (\<lambda>r. trow_action_id r = i) ?T = map attempt_row_of (ts @ [t'])"
    by simp
  have "life_at ?db i (L\<lparr>lf_attempts := ts @ [t']\<rparr>)"
    using assms(1,3) own by (simp add: life_at_def)
  moreover have "elsewhere i db ?db" using other by (simp add: elsewhere_def)
  moreover have "map trow_attempt_id ?T = map trow_attempt_id (edb_attempts db)" by simp
  ultimately show thesis by (intro that [OF ok]) simp_all
qed

lemma append_status_event_life:
  assumes "life_at db i L" and "history_ok a s (lf_events L)"
    and "xe_action_id e = i" and "xe_decision_id e = ea_decision_id (lf_action L)"
    and "xe_sequence_number e = int (length (lf_events L)) + 1"
    and "xe_from_status e = Some s" and "can_move s (xe_to_status e)"
    and "xe_execution_event_id e \<notin> vrow_execution_event_id ` set (edb_events db)"
  obtains db' where "append_status_event db e = Inr db'" and "elsewhere i db db'"
    and "life_at db' i (L\<lparr>lf_events := lf_events L @ [e]\<rparr>)"
    and "edb_attempts db' = edb_attempts db"
    and "edb_events db' = edb_events db @ [event_row_of e]"
proof -
  let ?db = "db\<lparr>edb_events := edb_events db @ [event_row_of e]\<rparr>"
  have "lf_events L \<noteq> []" "xe_to_status (last (lf_events L)) = s"
    using assms(2) by (simp_all add: history_ok_def)
  then have ok: "append_status_event db e = Inr ?db"
    using assms(3-8)
    by (simp add: append_status_event_def immutable_action_life [OF assms(1)]
        list_status_events_history [OF assms(1,2)] require_def insert_unique_def event_row_of_def)
  have "life_at ?db i (L\<lparr>lf_events := lf_events L @ [e]\<rparr>)"
    using assms(1,3) by (simp add: life_at_def event_row_of_def)
  moreover have "elsewhere i db ?db" using assms(3) by (simp add: elsewhere_def event_row_of_def)
  ultimately show thesis by (intro that [OF ok]) simp_all
qed

section \<open>One step of a life\<close>

lemma history_ok_append:
  assumes "history_ok a s es" and "can_move s (xe_to_status e)" and "xe_from_status e = Some s"
    and "xe_sequence_number e = int (length es) + 1"
    and "xe_action_id e = ea_action_id a" and "xe_decision_id e = ea_decision_id a"
  shows "history_ok a (xe_to_status e) (es @ [e])"
proof -
  have h: "es \<noteq> []" "map xe_sequence_number es = map int [1..<Suc (length es)]"
    "map xe_from_status es = None # map (Some \<circ> xe_to_status) (butlast es)"
    "xe_to_status (hd es) = XS_PLANNED" "successively can_move (map xe_to_status es)"
    "xe_to_status (last es) = s"
    "\<forall>e \<in> set es. xe_action_id e = ea_action_id a \<and> xe_decision_id e = ea_decision_id a"
    using assms(1) by (simp_all add: history_ok_def del: upt_Suc)
  have "map (Some \<circ> xe_to_status) es = map (Some \<circ> xe_to_status) (butlast es) @ [Some s]"
    using h(1,6) by (cases es rule: rev_cases) simp_all
  moreover have "successively can_move (map xe_to_status es @ [xe_to_status e])"
    using h(1,5,6) assms(2) by (intro execution_cycle.history_append) (simp_all add: last_map)
  ultimately show ?thesis
    using h assms(3-6) by (simp add: history_ok_def)
qed

lemma attempts_ok_begin:
  assumes "attempts_ok a s ts" and "can_move s XS_IN_PROGRESS"
    and "xa_action_id t = ea_action_id a" and "xa_decision_id t = ea_decision_id a"
    and "xa_attempt_number t = int (length ts) + 1"
    and "xa_status t = XS_IN_PROGRESS" and "xa_completed_at t = None"
  shows "attempts_ok a XS_IN_PROGRESS (ts @ [t])"
proof -
  have "attempt_shape s (map xa_status ts)" using assms(1) by (simp add: attempts_ok_def)
  moreover have "s = XS_PLANNED \<or> s = XS_FAILED"
    using assms(2) by (cases s) (simp_all add: can_move_def)
  ultimately have "set (map xa_status ts) \<subseteq> {XS_FAILED}"
    by (cases ts rule: rev_cases) (auto simp: attempt_shape_def split: if_splits)
  then have "attempt_shape XS_IN_PROGRESS (map xa_status (ts @ [t]))"
    using assms(6) by (simp add: attempt_shape_def)
  with assms show ?thesis by (simp add: attempts_ok_def)
qed

lemma attempts_ok_finish:
  assumes "attempts_ok a XS_IN_PROGRESS (ts @ [t])"
    and "t' = t\<lparr>xa_status := s, xa_completed_at := Some now, xa_error_code := code\<rparr>"
    and "s \<in> {XS_COMPLETED, XS_FAILED, XS_CANCELLED}"
  shows "attempts_ok a s (ts @ [t'])"
  using assms by (auto simp: attempts_ok_def attempt_shape_def)

lemma running_attempt:
  assumes "attempts_ok a XS_IN_PROGRESS ts"
  obtains us t where "ts = us @ [t]" and "xa_status t = XS_IN_PROGRESS"
    and "\<And>u. u \<in> set us \<Longrightarrow> xa_status u = XS_FAILED"
proof -
  have "attempt_shape XS_IN_PROGRESS (map xa_status ts)"
    using assms by (simp add: attempts_ok_def)
  then show thesis
    by (cases ts rule: rev_cases) (auto simp: attempt_shape_def intro!: that)
qed

lemma no_running_attempt:
  assumes "attempts_ok a s ts" and "s \<noteq> XS_IN_PROGRESS" and "t \<in> set ts"
  shows "xa_status t \<noteq> XS_IN_PROGRESS"
proof -
  have "attempt_shape s (map xa_status ts)" using assms(1) by (simp add: attempts_ok_def)
  with assms(2,3) show ?thesis
    by (cases ts rule: rev_cases) (auto simp: attempt_shape_def)
qed

section \<open>The tables as a whole\<close>

definition execution_db_ok :: "execution_db \<Rightarrow> bool" where
  "execution_db_ok db \<longleftrightarrow>
     distinct (map arow_action_id (edb_actions db)) \<and>
     distinct (map trow_attempt_id (edb_attempts db)) \<and>
     distinct (map vrow_execution_event_id (edb_events db)) \<and>
     prow_action_id ` set (edb_projections db) \<subseteq> arow_action_id ` set (edb_actions db) \<and>
     trow_action_id ` set (edb_attempts db) \<subseteq> arow_action_id ` set (edb_actions db) \<and>
     vrow_action_id ` set (edb_events db) \<subseteq> arow_action_id ` set (edb_actions db) \<and>
     (\<forall>i \<in> arow_action_id ` set (edb_actions db). \<exists>L. life_at db i L \<and> life_ok L)"

lemma db_ok_life:
  assumes "execution_db_ok db" and "i \<in> arow_action_id ` set (edb_actions db)"
  obtains L where "life_at db i L" and "life_ok L"
  using assms by (auto simp: execution_db_ok_def)

lemma life_at_known: "life_at db i L \<Longrightarrow> i \<in> arow_action_id ` set (edb_actions db)"
proof -
  assume "life_at db i L"
  then have "filter (\<lambda>r. arow_action_id r = i) (edb_actions db) = [action_row_of (lf_action L)]"
    by (simp add: life_at_def)
  then have "action_row_of (lf_action L) \<in> set (filter (\<lambda>r. arow_action_id r = i) (edb_actions db))"
    by simp
  then show ?thesis by auto
qed

lemma keys_elsewhere:
  assumes "\<And>j. j \<noteq> i \<Longrightarrow> filter (\<lambda>r. k r = j) rs' = filter (\<lambda>r. k r = j) rs"
    and "k ` set rs \<subseteq> A" and "i \<in> A"
  shows "k ` set rs' \<subseteq> A"
proof
  fix j assume "j \<in> k ` set rs'"
  then obtain r where r: "r \<in> set rs'" "k r = j" by auto
  show "j \<in> A"
  proof (cases "j = i")
    case False
    from r have "r \<in> set (filter (\<lambda>r. k r = j) rs')" by simp
    then have "r \<in> set (filter (\<lambda>r. k r = j) rs)" by (simp only: assms(1) [OF False])
    with assms(2) r(2) show ?thesis by auto
  qed (use assms(3) in simp)
qed

lemma db_ok_step:
  assumes "execution_db_ok db" and "elsewhere i db db'" and "life_at db' i L" and "life_ok L"
    and "distinct (map trow_attempt_id (edb_attempts db'))"
    and "distinct (map vrow_execution_event_id (edb_events db'))"
  shows "execution_db_ok db'"
proof -
  have actions: "edb_actions db' = edb_actions db" using assms(2) by (simp add: elsewhere_def)
  have i: "i \<in> arow_action_id ` set (edb_actions db)"
    using life_at_known [OF assms(3)] actions by simp
  have known: "prow_action_id ` set (edb_projections db) \<subseteq> arow_action_id ` set (edb_actions db)"
    "trow_action_id ` set (edb_attempts db) \<subseteq> arow_action_id ` set (edb_actions db)"
    "vrow_action_id ` set (edb_events db) \<subseteq> arow_action_id ` set (edb_actions db)"
    using assms(1) by (simp_all add: execution_db_ok_def)
  have "\<exists>M. life_at db' j M \<and> life_ok M" if "j \<in> arow_action_id ` set (edb_actions db)" for j
  proof (cases "j = i")
    case True
    with assms(3,4) show ?thesis by blast
  next
    case False
    from db_ok_life [OF assms(1) that] obtain M where "life_at db j M" "life_ok M" .
    with elsewhere_life [OF assms(2) False] show ?thesis by blast
  qed
  moreover note keys = keys_elsewhere [OF _ _ i] and frame = elsewhereD [OF assms(2)]
  have "prow_action_id ` set (edb_projections db') \<subseteq> arow_action_id ` set (edb_actions db)"
    by (rule keys [OF frame(1) known(1)])
  moreover have "trow_action_id ` set (edb_attempts db') \<subseteq> arow_action_id ` set (edb_actions db)"
    by (rule keys [OF frame(2) known(2)])
  moreover have "vrow_action_id ` set (edb_events db') \<subseteq> arow_action_id ` set (edb_actions db)"
    by (rule keys [OF frame(3) known(3)])
  ultimately show ?thesis
    using assms(1,5,6) by (simp add: execution_db_ok_def actions)
qed

section \<open>The service on lives\<close>

definition life_begin ::
    "action_life \<Rightarrow> string \<Rightarrow> string \<Rightarrow> instant \<Rightarrow> instant \<Rightarrow> action_life" where
  "life_begin L attempt_id event_id t u =
     L\<lparr>lf_status := XS_IN_PROGRESS,
       lf_attempts := lf_attempts L @
         [\<lparr>xa_attempt_id = attempt_id, xa_action_id = ea_action_id (lf_action L),
           xa_decision_id = ea_decision_id (lf_action L),
           xa_attempt_number = int (length (lf_attempts L)) + 1, xa_status = XS_IN_PROGRESS,
           xa_started_at = t, xa_completed_at = None, xa_error_code = None\<rparr>],
       lf_events := lf_events L @
         [\<lparr>xe_execution_event_id = event_id, xe_action_id = ea_action_id (lf_action L),
           xe_decision_id = ea_decision_id (lf_action L),
           xe_sequence_number = int (length (lf_events L)) + 1,
           xe_from_status = Some (lf_status L), xe_to_status = XS_IN_PROGRESS,
           xe_attempt_id = Some attempt_id, xe_error_code = None, xe_occurred_at = u\<rparr>]\<rparr>"

definition life_close ::
    "action_life \<Rightarrow> execution_status \<Rightarrow> execution_attempt list \<Rightarrow> string option \<Rightarrow> string option \<Rightarrow>
     string \<Rightarrow> instant \<Rightarrow> action_life" where
  "life_close L s ts attempt_id code event_id now =
     L\<lparr>lf_status := s, lf_attempts := ts,
       lf_events := lf_events L @
         [\<lparr>xe_execution_event_id = event_id, xe_action_id = ea_action_id (lf_action L),
           xe_decision_id = ea_decision_id (lf_action L),
           xe_sequence_number = int (length (lf_events L)) + 1,
           xe_from_status = Some (lf_status L), xe_to_status = s,
           xe_attempt_id = attempt_id, xe_error_code = code, xe_occurred_at = now\<rparr>]\<rparr>"

lemma life_ok_begin:
  assumes "life_ok L" and "can_move (lf_status L) XS_IN_PROGRESS"
  shows "life_ok (life_begin L attempt_id event_id t u)"
proof -
  have L: "history_ok (lf_action L) (lf_status L) (lf_events L)"
    "attempts_ok (lf_action L) (lf_status L) (lf_attempts L)"
    "started_attempts (lf_events L) = map (Some \<circ> xa_attempt_id) (lf_attempts L)"
    using assms(1) by (simp_all add: life_ok_def)
  have "history_ok (lf_action L) XS_IN_PROGRESS (lf_events (life_begin L attempt_id event_id t u))"
    using history_ok_append [OF L(1), of "last (lf_events (life_begin L attempt_id event_id t u))"]
      assms(2) by (simp add: life_begin_def)
  moreover have "attempts_ok (lf_action L) XS_IN_PROGRESS
      (lf_attempts (life_begin L attempt_id event_id t u))"
    unfolding life_begin_def using assms(2) by (simp add: attempts_ok_begin [OF L(2)])
  ultimately show ?thesis
    using L(3) by (simp add: life_ok_def) (simp add: life_begin_def started_attempts_def)
qed

lemma life_ok_close:
  assumes "life_ok L" and "can_move (lf_status L) s" and "s \<noteq> XS_IN_PROGRESS"
    and "attempts_ok (lf_action L) s ts"
    and "map xa_attempt_id ts = map xa_attempt_id (lf_attempts L)"
  shows "life_ok (life_close L s ts attempt_id code event_id now)"
proof -
  let ?M = "life_close L s ts attempt_id code event_id now"
  have L: "history_ok (lf_action L) (lf_status L) (lf_events L)"
    "started_attempts (lf_events L) = map Some (map xa_attempt_id ts)"
    using assms(1,5) by (simp_all add: life_ok_def comp_def)
  have "history_ok (lf_action L) s (lf_events ?M)"
    using history_ok_append [OF L(1), of "last (lf_events ?M)"] assms(2) by (simp add: life_close_def)
  then show ?thesis
    using L(2) assms(3,4) by (simp add: life_ok_def) (simp add: life_close_def started_attempts_def)
qed

text \<open>What a successful write tells about the identifiers it was given.\<close>

lemma insert_attempt_Inr:
  "insert_attempt db t = Inr db' \<Longrightarrow>
   xa_attempt_id t \<notin> trow_attempt_id ` set (edb_attempts db) \<and> edb_events db' = edb_events db"
  by (auto simp: insert_attempt_def insert_unique_def attempt_row_of_def result_simps
      split: if_splits)

lemma update_attempt_Inr: "update_attempt db t = Inr db' \<Longrightarrow> edb_events db' = edb_events db"
  by (auto simp: update_attempt_def result_simps)

lemma update_action_projection_Inr:
  "update_action_projection db a = Inr db' \<Longrightarrow> edb_events db' = edb_events db"
  by (auto simp: update_action_projection_def result_simps)

lemma append_status_event_Inr:
  "append_status_event db e = Inr db' \<Longrightarrow>
   xe_execution_event_id e \<notin> vrow_execution_event_id ` set (edb_events db)"
  by (auto simp: append_status_event_def insert_unique_def event_row_of_def result_simps
      split: if_splits)

text \<open>A finished step: the new life of the action, the other lives, the shape of the tables.\<close>

definition life_step :: "string \<Rightarrow> execution_db \<Rightarrow> execution_db \<Rightarrow> action_life \<Rightarrow> bool" where
  "life_step i db db' L \<longleftrightarrow>
     execution_db_ok db' \<and> elsewhere i db db' \<and> life_at db' i L \<and> life_ok L"

lemma begin_attempt_step:
  assumes ok: "execution_db_ok db" and life: "life_at db i L" "life_ok L"
    and status: "lf_status L = s" "can_move s XS_IN_PROGRESS"
    and guard: "cst_guard cs w (ea_decision_id (lf_action L)) = Inr (w', d)"
    and fresh: "attempt_id \<notin> trow_attempt_id ` set (edb_attempts db)"
      "event_id \<notin> vrow_execution_event_id ` set (edb_events db)"
  obtains db' where
    "begin_attempt cs s (w, db) i attempt_id event_id t u =
       Inr ((w', db'), last (lf_attempts (life_begin L attempt_id event_id t u)))"
    and "life_step i db db' (life_begin L attempt_id event_id t u)"
proof -
  define a where "a = lf_action L"
  define att where "att = last (lf_attempts (life_begin L attempt_id event_id t u))"
  define ev where "ev = last (lf_events (life_begin L attempt_id event_id t u))"
  have i: "ea_action_id a = i" using life(1) by (simp add: life_at_def a_def)
  have att: "att = \<lparr>xa_attempt_id = attempt_id, xa_action_id = i,
      xa_decision_id = ea_decision_id a, xa_attempt_number = int (length (lf_attempts L)) + 1,
      xa_status = XS_IN_PROGRESS, xa_started_at = t, xa_completed_at = None, xa_error_code = None\<rparr>"
    using i by (simp add: att_def life_begin_def a_def)
  have ev: "ev = execution_event (a\<lparr>ea_status := s\<rparr>) XS_IN_PROGRESS
      (int (length (lf_events L)) + 1) (Some attempt_id) None u event_id"
    using i status by (simp add: ev_def life_begin_def a_def execution_event_def)
  obtain db1 where db1: "insert_attempt db att = Inr db1" "elsewhere i db db1"
    "life_at db1 i (L\<lparr>lf_attempts := lf_attempts L @ [att]\<rparr>)"
    "edb_attempts db1 = edb_attempts db @ [attempt_row_of att]" "edb_events db1 = edb_events db"
    using insert_attempt_life [OF life, of att] fresh(1) by (auto simp: att a_def)
  obtain db2 where db2: "update_action_projection db1 (a\<lparr>ea_status := XS_IN_PROGRESS\<rparr>) = Inr db2"
    "elsewhere i db1 db2"
    "life_at db2 i (L\<lparr>lf_attempts := lf_attempts L @ [att], lf_status := XS_IN_PROGRESS\<rparr>)"
    "edb_attempts db2 = edb_attempts db1" "edb_events db2 = edb_events db1"
    using update_action_projection_life [OF db1(3), of XS_IN_PROGRESS] by (auto simp: a_def)
  have "history_ok a s (lf_events L)" using life(2) status(1) by (simp add: life_ok_def a_def)
  then obtain db3 where db3: "append_status_event db2 ev = Inr db3" "elsewhere i db2 db3"
    "life_at db3 i (L\<lparr>lf_attempts := lf_attempts L @ [att], lf_status := XS_IN_PROGRESS,
       lf_events := lf_events L @ [ev]\<rparr>)"
    "edb_attempts db3 = edb_attempts db2" "edb_events db3 = edb_events db2 @ [event_row_of ev]"
    using append_status_event_life [OF db2(3), of a s ev] status(2) fresh(2) db1(5) db2(5)
    by (auto simp: ev execution_event_def a_def life_at_def i [unfolded a_def])
  have L': "L\<lparr>lf_attempts := lf_attempts L @ [att], lf_status := XS_IN_PROGRESS,
      lf_events := lf_events L @ [ev]\<rparr> = life_begin L attempt_id event_id t u"
    by (simp add: att_def ev_def life_begin_def)
  have run: "begin_attempt cs s (w, db) i attempt_id event_id t u = Inr ((w', db3), att)"
    using db1(1) db2(1) db3(1) status guard
    by (simp add: begin_attempt_def get_action_life [OF life(1)] list_attempts_life [OF life]
        list_status_events_life [OF life] require_transition_def require_def
        att ev a_def [symmetric] i)
  have "life_ok (life_begin L attempt_id event_id t u)"
    using status by (intro life_ok_begin [OF life(2)]) simp
  moreover have "elsewhere i db db3" using db1(2) db2(2) db3(2) by (blast intro: elsewhere_trans)
  moreover have "distinct (map trow_attempt_id (edb_attempts db3))"
    using ok fresh(1) db1(4) db2(4) db3(4)
    by (simp add: execution_db_ok_def attempt_row_of_def att)
  moreover have "distinct (map vrow_execution_event_id (edb_events db3))"
    using ok fresh(2) db1(5) db2(5) db3(5)
    by (simp add: execution_db_ok_def event_row_of_def ev execution_event_def)
  ultimately have "life_step i db db3 (life_begin L attempt_id event_id t u)"
    using db3(3) db_ok_step [OF ok] unfolding L' life_step_def by blast
  with run show thesis unfolding att_def by (rule that)
qed

lemma begin_attempt_rejects:
  assumes "life_at db i L" and "lf_status L \<noteq> s"
  shows "\<exists>m. begin_attempt cs s (w, db) i attempt_id event_id t u = Inl (IllegalExecutionTransition m)"
  using assms by (auto simp: begin_attempt_def get_action_life require_transition_def require_def)

lemma begin_attempt_Inr:
  assumes "begin_attempt cs s (w, db) i attempt_id event_id t u = Inr ((w', db'), att)"
    and "life_at db i L" and "life_ok L"
  shows "lf_status L = s \<and> can_move s XS_IN_PROGRESS \<and>
    (\<exists>d. cst_guard cs w (ea_decision_id (lf_action L)) = Inr (w', d)) \<and>
    attempt_id \<notin> trow_attempt_id ` set (edb_attempts db) \<and>
    event_id \<notin> vrow_execution_event_id ` set (edb_events db)"
proof -
  have s: "lf_status L = s"
    using begin_attempt_rejects [OF assms(2), of s cs w attempt_id event_id t u] assms(1) by auto
  from assms(1) obtain d att' db1 db2 ev where
    *: "can_move s XS_IN_PROGRESS" "cst_guard cs w (ea_decision_id (lf_action L)) = Inr (w', d)"
    "insert_attempt db att' = Inr db1" "xa_attempt_id att' = attempt_id"
    "update_action_projection db1 ((lf_action L)\<lparr>ea_status := XS_IN_PROGRESS\<rparr>) = Inr db2"
    "append_status_event db2 ev = Inr db'" "xe_execution_event_id ev = event_id"
    by (auto simp: begin_attempt_def get_action_life [OF assms(2)] s require_transition_def
        list_attempts_life [OF assms(2,3)] list_status_events_life [OF assms(2,3)]
        execution_event_def Let_def result_simps)
  from insert_attempt_Inr [OF *(3)] update_action_projection_Inr [OF *(5)]
    append_status_event_Inr [OF *(6)] * s show ?thesis by auto
qed

text \<open>The common end of finishing and cancelling: the projection, then the event.\<close>

lemma close_tail:
  assumes ok: "execution_db_ok db" and life: "life_at db i L" "life_ok L"
    and db1: "elsewhere i db db1" "life_at db1 i (L\<lparr>lf_attempts := ts\<rparr>)"
      "map trow_attempt_id (edb_attempts db1) = map trow_attempt_id (edb_attempts db)"
      "edb_events db1 = edb_events db"
    and shape: "can_move (lf_status L) s" "s \<noteq> XS_IN_PROGRESS" "attempts_ok (lf_action L) s ts"
      "map xa_attempt_id ts = map xa_attempt_id (lf_attempts L)"
    and fresh: "event_id \<notin> vrow_execution_event_id ` set (edb_events db)"
  obtains db2 db3 where
    "update_action_projection db1 ((lf_action L)\<lparr>ea_status := s\<rparr>) = Inr db2"
    and "append_status_event db2 (execution_event ((lf_action L)\<lparr>ea_status := lf_status L\<rparr>) s
           (int (length (lf_events L)) + 1) attempt_id code now event_id) = Inr db3"
    and "life_step i db db3 (life_close L s ts attempt_id code event_id now)"
proof -
  define ev where "ev = execution_event ((lf_action L)\<lparr>ea_status := lf_status L\<rparr>) s
    (int (length (lf_events L)) + 1) attempt_id code now event_id"
  have i: "ea_action_id (lf_action L) = i" using life(1) by (simp add: life_at_def)
  obtain db2 where db2: "update_action_projection db1 ((lf_action L)\<lparr>ea_status := s\<rparr>) = Inr db2"
    "elsewhere i db1 db2" "life_at db2 i (L\<lparr>lf_attempts := ts, lf_status := s\<rparr>)"
    "edb_attempts db2 = edb_attempts db1" "edb_events db2 = edb_events db1"
    using update_action_projection_life [OF db1(2), of s] by auto
  have "history_ok (lf_action L) (lf_status L) (lf_events L)"
    using life(2) by (simp add: life_ok_def)
  then obtain db3 where db3: "append_status_event db2 ev = Inr db3" "elsewhere i db2 db3"
    "life_at db3 i (L\<lparr>lf_attempts := ts, lf_status := s, lf_events := lf_events L @ [ev]\<rparr>)"
    "edb_attempts db3 = edb_attempts db2" "edb_events db3 = edb_events db2 @ [event_row_of ev]"
    using append_status_event_life [OF db2(3), of "lf_action L" "lf_status L" ev]
      shape(1) fresh db1(4) db2(5) i by (auto simp: ev_def execution_event_def)
  have L': "L\<lparr>lf_attempts := ts, lf_status := s, lf_events := lf_events L @ [ev]\<rparr> =
      life_close L s ts attempt_id code event_id now"
    by (simp add: ev_def life_close_def execution_event_def)
  have "life_ok (life_close L s ts attempt_id code event_id now)"
    by (rule life_ok_close [OF life(2) shape])
  moreover have "elsewhere i db db3" using db1(1) db2(2) db3(2) by (blast intro: elsewhere_trans)
  moreover have "distinct (map trow_attempt_id (edb_attempts db3))"
    using ok db1(3) db2(4) db3(4) by (simp add: execution_db_ok_def)
  moreover have "distinct (map vrow_execution_event_id (edb_events db3))"
    using ok fresh db1(4) db2(5) db3(5)
    by (simp add: execution_db_ok_def event_row_of_def ev_def execution_event_def)
  ultimately have "life_step i db db3 (life_close L s ts attempt_id code event_id now)"
    using db3(3) db_ok_step [OF ok] unfolding L' life_step_def by blast
  with db2(1) db3(1) show thesis unfolding ev_def by (rule that)
qed

definition life_finish ::
    "action_life \<Rightarrow> execution_status \<Rightarrow> string option \<Rightarrow> string \<Rightarrow> instant \<Rightarrow> action_life" where
  "life_finish L s code event_id now =
     (let ts = lf_attempts L in
      life_close L s
        (butlast ts @ [(last ts)\<lparr>xa_status := s, xa_completed_at := Some now, xa_error_code := code\<rparr>])
        (Some (xa_attempt_id (last ts))) code event_id now)"

definition life_cancel ::
    "action_life \<Rightarrow> string option \<Rightarrow> string \<Rightarrow> instant \<Rightarrow> action_life" where
  "life_cancel L attempt_id event_id now =
     (let ts = lf_attempts L in
      if lf_status L = XS_IN_PROGRESS
      then life_close L XS_CANCELLED
             (butlast ts @ [(last ts)\<lparr>xa_status := XS_CANCELLED, xa_completed_at := Some now\<rparr>])
             (Some (xa_attempt_id (last ts))) None event_id now
      else life_close L XS_CANCELLED ts attempt_id None event_id now)"

lemma life_running:
  assumes "life_ok L" and "lf_status L = XS_IN_PROGRESS"
  obtains ts t where "lf_attempts L = ts @ [t]" and "xa_status t = XS_IN_PROGRESS"
    and "xa_action_id t = ea_action_id (lf_action L)"
    and "\<And>u. u \<in> set ts \<Longrightarrow> xa_status u = XS_FAILED"
    and "attempts_ok (lf_action L) XS_IN_PROGRESS (ts @ [t])"
proof -
  have ok: "attempts_ok (lf_action L) XS_IN_PROGRESS (lf_attempts L)"
    using assms by (simp add: life_ok_def)
  obtain ts t where *: "lf_attempts L = ts @ [t]"
    "xa_status t = XS_IN_PROGRESS" "\<And>u. u \<in> set ts \<Longrightarrow> xa_status u = XS_FAILED"
    using running_attempt [OF ok] by metis
  moreover have "xa_action_id t = ea_action_id (lf_action L)"
    using ok * by (simp add: attempts_ok_def)
  moreover have "attempts_ok (lf_action L) XS_IN_PROGRESS (ts @ [t])" using ok * by simp
  ultimately show thesis using that by blast
qed

lemma finish_attempt_step:
  assumes ok: "execution_db_ok db" and life: "life_at db i L" "life_ok L"
    and status: "lf_status L = XS_IN_PROGRESS" "s \<in> {XS_COMPLETED, XS_FAILED}"
    and attempt: "attempt_id = xa_attempt_id (last (lf_attempts L))"
    and guard: "s = XS_COMPLETED \<Longrightarrow> cst_guard cs w (ea_decision_id (lf_action L)) = Inr (w', d)"
      "s \<noteq> XS_COMPLETED \<Longrightarrow> w' = w"
    and fresh: "event_id \<notin> vrow_execution_event_id ` set (edb_events db)"
  obtains db' where
    "finish_attempt cs (w, db) i attempt_id s code event_id now =
       Inr ((w', db'), (lf_action L)\<lparr>ea_status := s\<rparr>)"
    and "life_step i db db' (life_finish L s code event_id now)"
proof -
  obtain ts t where ts: "lf_attempts L = ts @ [t]" "xa_status t = XS_IN_PROGRESS"
    "xa_action_id t = ea_action_id (lf_action L)"
    "attempts_ok (lf_action L) XS_IN_PROGRESS (ts @ [t])"
    using life_running [OF life(2) status(1)] by metis
  have i: "ea_action_id (lf_action L) = i" using life(1) by (simp add: life_at_def)
  have ids: "distinct (map trow_attempt_id (edb_attempts db))"
    using ok by (simp add: execution_db_ok_def)
  define t' where "t' = t\<lparr>xa_status := s, xa_completed_at := Some now, xa_error_code := code\<rparr>"
  have t'id: "xa_attempt_id t' = xa_attempt_id t" by (simp add: t'_def)
  obtain db1 where db1: "update_attempt db t' = Inr db1" "elsewhere i db db1"
    "life_at db1 i (L\<lparr>lf_attempts := ts @ [t']\<rparr>)"
    "map trow_attempt_id (edb_attempts db1) = map trow_attempt_id (edb_attempts db)"
    "edb_events db1 = edb_events db"
    using update_attempt_life [OF life(1) ids ts(1,2) _ t'_def] ts(3) i status(2) by auto
  have move: "can_move (lf_status L) s" "s \<noteq> XS_IN_PROGRESS"
    using status by (auto simp: can_move_def)
  have shape: "attempts_ok (lf_action L) s (ts @ [t'])"
    using attempts_ok_finish [OF ts(4) t'_def] status(2) by auto
  have same: "map xa_attempt_id (ts @ [t']) = map xa_attempt_id (lf_attempts L)"
    by (simp add: ts(1) t'id)
  obtain db2 db3 where tail:
    "update_action_projection db1 ((lf_action L)\<lparr>ea_status := s\<rparr>) = Inr db2"
    "append_status_event db2 (execution_event ((lf_action L)\<lparr>ea_status := lf_status L\<rparr>) s
       (int (length (lf_events L)) + 1) (Some attempt_id) code now event_id) = Inr db3"
    "life_step i db db3 (life_close L s (ts @ [t']) (Some attempt_id) code event_id now)"
    using close_tail [OF ok life db1(2-5) move shape same fresh] by metis
  have got: "get_attempt db attempt_id = Inr t"
    using get_attempt_life [OF life(1) ids, of t] ts(1) attempt by simp
  have "finish_attempt cs (w, db) i attempt_id s code event_id now =
      Inr ((w', db3), (lf_action L)\<lparr>ea_status := s\<rparr>)"
    using db1(1) tail(1,2) move(1) got ts(2,3) i guard
    by (cases "s = XS_COMPLETED")
       (simp_all add: finish_attempt_def get_action_life [OF life(1)]
        list_status_events_life [OF life] require_transition_def require_def t'_def Let_def)
  moreover have "life_finish L s code event_id now =
      life_close L s (ts @ [t']) (Some attempt_id) code event_id now"
    by (simp add: life_finish_def ts(1) t'_def attempt)
  ultimately show thesis using tail(3) that by metis
qed

lemma get_attempt_of_life:
  assumes "life_at db i L" and "get_attempt db k = Inr t" and "xa_action_id t = i"
  shows "t \<in> set (lf_attempts L) \<and> xa_attempt_id t = k"
proof -
  have "\<exists>r \<in> set (edb_attempts db). trow_attempt_id r = k \<and> attempt_from_row r = Inr t"
  proof (cases "filter (\<lambda>r. trow_attempt_id r = k) (edb_attempts db)")
    case (Cons r rs)
    with assms(2) have "attempt_from_row r = Inr t"
      by (cases rs) (simp_all add: get_attempt_def one_or_none_def)
    moreover have "r \<in> set (filter (\<lambda>r. trow_attempt_id r = k) (edb_attempts db))"
      by (simp add: Cons)
    ultimately show ?thesis by auto
  qed (use assms(2) in \<open>simp add: get_attempt_def one_or_none_def\<close>)
  then obtain r where r: "r \<in> set (edb_attempts db)" "trow_attempt_id r = k"
    "attempt_from_row r = Inr t" by blast
  then have t: "xa_action_id t = trow_action_id r" "xa_attempt_id t = trow_attempt_id r"
    "trow_payload r = Some t"
    by (auto simp: attempt_from_row_def json_or_error_def result_simps)
  then have "r \<in> set (filter (\<lambda>r. trow_action_id r = i) (edb_attempts db))"
    using r(1) assms(3) by simp
  then have "r \<in> set (map attempt_row_of (lf_attempts L))"
    unfolding life_attempt_rows [OF assms(1)] .
  then obtain u where u: "u \<in> set (lf_attempts L)" "r = attempt_row_of u" by auto
  then have "trow_payload r = Some u" by (simp add: attempt_row_of_def)
  with t(3) have "u = t" by simp
  with u(1) t(2) r(2) show ?thesis by simp
qed

lemma finish_attempt_Inr:
  assumes run: "finish_attempt cs (w, db) i attempt_id s code event_id now = Inr ((w', db'), a)"
    and life: "life_at db i L" "life_ok L" and s: "s \<in> {XS_COMPLETED, XS_FAILED}"
  shows "lf_status L = XS_IN_PROGRESS \<and> attempt_id = xa_attempt_id (last (lf_attempts L)) \<and>
    (s = XS_COMPLETED \<longrightarrow> (\<exists>d. cst_guard cs w (ea_decision_id (lf_action L)) = Inr (w', d))) \<and>
    (s \<noteq> XS_COMPLETED \<longrightarrow> w' = w) \<and>
    event_id \<notin> vrow_execution_event_id ` set (edb_events db)"
proof -
  from run obtain t t' db1 db2 ev where
    *: "can_move (lf_status L) s" "get_attempt db attempt_id = Inr t" "xa_action_id t = i"
    "xa_status t = XS_IN_PROGRESS"
    "(if s = XS_COMPLETED
      then bindR (cst_guard cs w (ea_decision_id (lf_action L))) (\<lambda>(w1, _). Inr w1) else Inr w) = Inr w'"
    "update_attempt db t' = Inr db1"
    "update_action_projection db1 ((lf_action L)\<lparr>ea_status := s\<rparr>) = Inr db2"
    "append_status_event db2 ev = Inr db'" "xe_execution_event_id ev = event_id"
    by (auto simp: finish_attempt_def get_action_life [OF life(1)] require_transition_def
        execution_event_def list_status_events_life [OF life] Let_def bindR_Inr_iff require_Inr_iff
        simp del: split_paired_Ex split del: if_split cong: if_cong)
  have running: "lf_status L = XS_IN_PROGRESS"
    using *(1) s by (cases "lf_status L") (auto simp: can_move_def)
  obtain ts u where u: "lf_attempts L = ts @ [u]"
    "\<And>x. x \<in> set ts \<Longrightarrow> xa_status x = XS_FAILED"
    using life_running [OF life(2) running] by metis
  have "t \<in> set (lf_attempts L)" "xa_attempt_id t = attempt_id"
    using get_attempt_of_life [OF life(1) *(2,3)] by simp_all
  then have "attempt_id = xa_attempt_id (last (lf_attempts L))"
    using u *(4) by fastforce
  moreover have "event_id \<notin> vrow_execution_event_id ` set (edb_events db)"
    using update_attempt_Inr [OF *(6)] update_action_projection_Inr [OF *(7)]
      append_status_event_Inr [OF *(8)] *(9) by simp
  ultimately show ?thesis using running *(5) by (auto simp: result_simps split: if_splits)
qed

lemma cancel_action_step:
  assumes ok: "execution_db_ok db" and life: "life_at db i L" "life_ok L"
    and status: "lf_status L = XS_PLANNED \<or> lf_status L = XS_IN_PROGRESS"
    and attempt: "lf_status L = XS_IN_PROGRESS \<Longrightarrow> attempt_id \<noteq> None \<Longrightarrow>
      attempt_id = Some (xa_attempt_id (last (lf_attempts L)))"
    and fresh: "event_id \<notin> vrow_execution_event_id ` set (edb_events db)"
  obtains db' where
    "cancel_action (w, db) i attempt_id event_id now =
       Inr ((w, db'), (lf_action L)\<lparr>ea_status := XS_CANCELLED\<rparr>)"
    and "life_step i db db' (life_cancel L attempt_id event_id now)"
proof (cases "lf_status L = XS_IN_PROGRESS")
  case True
  obtain ts t where ts: "lf_attempts L = ts @ [t]" "xa_status t = XS_IN_PROGRESS"
    "xa_action_id t = ea_action_id (lf_action L)"
    "attempts_ok (lf_action L) XS_IN_PROGRESS (ts @ [t])"
    using life_running [OF life(2) True] by metis
  have i: "ea_action_id (lf_action L) = i" using life(1) by (simp add: life_at_def)
  have ids: "distinct (map trow_attempt_id (edb_attempts db))"
    using ok by (simp add: execution_db_ok_def)
  define t' where "t' = t\<lparr>xa_status := XS_CANCELLED, xa_completed_at := Some now\<rparr>"
  have t': "t' = t\<lparr>xa_status := XS_CANCELLED, xa_completed_at := Some now,
      xa_error_code := xa_error_code t\<rparr>"
    by (simp add: t'_def)
  obtain db1 where db1: "update_attempt db t' = Inr db1" "elsewhere i db db1"
    "life_at db1 i (L\<lparr>lf_attempts := ts @ [t']\<rparr>)"
    "map trow_attempt_id (edb_attempts db1) = map trow_attempt_id (edb_attempts db)"
    "edb_events db1 = edb_events db"
    using update_attempt_life [OF life(1) ids ts(1,2) _ t'] ts(3) i by auto
  have move: "can_move (lf_status L) XS_CANCELLED" "XS_CANCELLED \<noteq> XS_IN_PROGRESS"
    using True by (auto simp: can_move_def)
  have shape: "attempts_ok (lf_action L) XS_CANCELLED (ts @ [t'])"
    using attempts_ok_finish [OF ts(4) t'] by auto
  have same: "map xa_attempt_id (ts @ [t']) = map xa_attempt_id (lf_attempts L)"
    by (simp add: ts(1) t'_def)
  obtain db2 db3 where tail:
    "update_action_projection db1 ((lf_action L)\<lparr>ea_status := XS_CANCELLED\<rparr>) = Inr db2"
    "append_status_event db2 (execution_event ((lf_action L)\<lparr>ea_status := lf_status L\<rparr>)
       XS_CANCELLED (int (length (lf_events L)) + 1) (Some (xa_attempt_id t)) None now event_id) =
       Inr db3"
    "life_step i db db3
       (life_close L XS_CANCELLED (ts @ [t']) (Some (xa_attempt_id t)) None event_id now)"
    using close_tail [OF ok life db1(2-5) move shape same fresh] by metis
  have events1: "list_status_events db1 i = Inr (lf_events L)"
    using list_status_events_history [OF db1(3), of "lf_action L" "lf_status L"] life(2)
    by (simp add: life_ok_def)
  have "cancel_attempt db ((lf_action L)\<lparr>ea_status := lf_status L\<rparr>) attempt_id now =
      Inr (db1, Some (xa_attempt_id t))"
    using True attempt ts(1,2) db1(1)
    by (simp add: cancel_attempt_def i list_attempts_life [OF life] require_def t'_def)
  then have "cancel_action (w, db) i attempt_id event_id now =
      Inr ((w, db3), (lf_action L)\<lparr>ea_status := XS_CANCELLED\<rparr>)"
    using tail(1,2) move(1)
    by (simp add: cancel_action_def get_action_life [OF life(1)] events1 require_transition_def
        require_def Let_def)
  moreover have "life_cancel L attempt_id event_id now =
      life_close L XS_CANCELLED (ts @ [t']) (Some (xa_attempt_id t)) None event_id now"
    by (simp add: life_cancel_def True ts(1) t'_def)
  ultimately show thesis using tail(3) that by metis
next
  case False
  have move: "can_move (lf_status L) XS_CANCELLED" "XS_CANCELLED \<noteq> XS_IN_PROGRESS"
    using status by (auto simp: can_move_def)
  have "attempts_ok (lf_action L) (lf_status L) (lf_attempts L)"
    using life(2) by (simp add: life_ok_def)
  then have none: "lf_attempts L = []"
    using status False by (auto simp: attempts_ok_def attempt_shape_def split: if_splits)
  have shape: "attempts_ok (lf_action L) XS_CANCELLED (lf_attempts L)"
    by (simp add: none attempts_ok_def attempt_shape_def)
  have start: "elsewhere i db db" "life_at db i (L\<lparr>lf_attempts := lf_attempts L\<rparr>)"
    using life(1) by (simp_all add: elsewhere_def)
  obtain db2 db3 where tail:
    "update_action_projection db ((lf_action L)\<lparr>ea_status := XS_CANCELLED\<rparr>) = Inr db2"
    "append_status_event db2 (execution_event ((lf_action L)\<lparr>ea_status := lf_status L\<rparr>)
       XS_CANCELLED (int (length (lf_events L)) + 1) attempt_id None now event_id) = Inr db3"
    "life_step i db db3 (life_close L XS_CANCELLED (lf_attempts L) attempt_id None event_id now)"
    using close_tail [OF ok life start refl refl move shape refl fresh] by metis
  have "cancel_action (w, db) i attempt_id event_id now =
      Inr ((w, db3), (lf_action L)\<lparr>ea_status := XS_CANCELLED\<rparr>)"
    using tail(1,2) move(1) False
    by (simp add: cancel_action_def get_action_life [OF life(1)] cancel_attempt_def
        list_status_events_life [OF life] require_transition_def require_def Let_def)
  moreover have "life_cancel L attempt_id event_id now =
      life_close L XS_CANCELLED (lf_attempts L) attempt_id None event_id now"
    using False by (simp add: life_cancel_def Let_def)
  ultimately show thesis using tail(3) that by metis
qed

lemma cancel_action_Inr:
  assumes run: "cancel_action (w, db) i attempt_id event_id now = Inr ((w', db'), a)"
    and life: "life_at db i L" "life_ok L"
  shows "w' = w \<and> (lf_status L = XS_PLANNED \<or> lf_status L = XS_IN_PROGRESS) \<and>
    (lf_status L = XS_IN_PROGRESS \<longrightarrow> attempt_id \<noteq> None \<longrightarrow>
       attempt_id = Some (xa_attempt_id (last (lf_attempts L)))) \<and>
    event_id \<notin> vrow_execution_event_id ` set (edb_events db)"
proof -
  have i: "ea_action_id (lf_action L) = i" using life(1) by (simp add: life_at_def)
  from run obtain db1 att db2 ev where
    *: "w' = w" "can_move (lf_status L) XS_CANCELLED"
    "cancel_attempt db ((lf_action L)\<lparr>ea_status := lf_status L\<rparr>) attempt_id now = Inr (db1, att)"
    "update_action_projection db1 ((lf_action L)\<lparr>ea_status := XS_CANCELLED\<rparr>) = Inr db2"
    "append_status_event db2 ev = Inr db'" "xe_execution_event_id ev = event_id"
    by (auto simp: cancel_action_def get_action_life [OF life(1)] require_transition_def
        execution_event_def Let_def bindR_Inr_iff require_Inr_iff)
  have "edb_events db1 = edb_events db \<and> (lf_status L = XS_IN_PROGRESS \<longrightarrow> attempt_id \<noteq> None \<longrightarrow>
       attempt_id = Some (xa_attempt_id (last (lf_attempts L))))"
    using *(3) by (auto simp: cancel_attempt_def i list_attempts_life [OF life] result_simps
        dest!: update_attempt_Inr split: if_splits)
  moreover have "lf_status L = XS_PLANNED \<or> lf_status L = XS_IN_PROGRESS"
    using *(2) by (cases "lf_status L") (simp_all add: can_move_def)
  ultimately show ?thesis
    using *(1,6) update_action_projection_Inr [OF *(4)] append_status_event_Inr [OF *(5)] by simp
qed

section \<open>Creating an action\<close>

lemma life_at_insert:
  assumes "execution_db_ok db" and "ea_action_id a \<notin> arow_action_id ` set (edb_actions db)"
    and "ea_status a = XS_PLANNED"
  shows "life_at (db\<lparr>edb_actions := edb_actions db @ [action_row_of a],
           edb_projections := edb_projections db @ [projection_row_of a 0],
           edb_events := edb_events db @ [event_row_of (initial_event event_id a)]\<rparr>)
         (ea_action_id a)
         \<lparr>lf_action = a, lf_status = XS_PLANNED, lf_attempts = [],
          lf_events = [initial_event event_id a]\<rparr>"
proof -
  have known: "prow_action_id ` set (edb_projections db) \<subseteq> arow_action_id ` set (edb_actions db)"
    "trow_action_id ` set (edb_attempts db) \<subseteq> arow_action_id ` set (edb_actions db)"
    "vrow_action_id ` set (edb_events db) \<subseteq> arow_action_id ` set (edb_actions db)"
    using assms(1) by (simp_all add: execution_db_ok_def)
  note none = filter_key_empty [OF subset_refl assms(2)] filter_key_empty [OF known(1) assms(2)]
    filter_key_empty [OF known(2) assms(2)] filter_key_empty [OF known(3) assms(2)]
  have "a\<lparr>ea_status := XS_PLANNED\<rparr> = a" using assms(3) by (cases a) simp
  with none assms(3) show ?thesis
    by (simp add: life_at_def action_row_of_def projection_row_of_def event_row_of_def
        initial_event_def)
qed

lemma life_ok_initial:
  "life_ok \<lparr>lf_action = a, lf_status = XS_PLANNED, lf_attempts = [],
    lf_events = [initial_event event_id a]\<rparr>"
  by (simp add: life_ok_def history_ok_def attempts_ok_def attempt_shape_def started_attempts_def
      initial_event_def)

lemma insert_draft_tables:
  "insert_draft db a = Inr db' \<Longrightarrow>
   edb_actions db' = edb_actions db \<and> edb_projections db' = edb_projections db \<and>
   edb_attempts db' = edb_attempts db \<and> edb_events db' = edb_events db"
  by (auto simp: insert_draft_def result_simps split: option.splits)

lemma append_first_event:
  assumes "append_status_event db e = Inr db'"
  shows "db' = db\<lparr>edb_events := edb_events db @ [event_row_of e]\<rparr> \<and>
    xe_execution_event_id e \<notin> vrow_execution_event_id ` set (edb_events db)"
  using assms by (auto simp: append_status_event_def insert_unique_def event_row_of_def result_simps
      split: if_splits)

lemma insert_action_if_absent_ok:
  assumes ok: "execution_db_ok db"
    and run: "insert_action_if_absent cs w db event_id a = Inr (db', inserted)"
  shows "execution_db_ok db' \<and> (\<not> inserted \<longrightarrow> db' = db) \<and>
    (\<forall>j L. life_at db j L \<longrightarrow> life_at db' j L)"
proof (cases "ea_action_id a \<in> arow_action_id ` set (edb_actions db)")
  case True
  with run ok show ?thesis by (auto simp: insert_action_if_absent_def result_simps)
next
  case False
  let ?i = "ea_action_id a"
  let ?db1 = "db\<lparr>edb_actions := edb_actions db @ [action_row_of a],
    edb_projections := edb_projections db @ [projection_row_of a 0]\<rparr>"
  let ?db2 = "db\<lparr>edb_actions := edb_actions db @ [action_row_of a],
    edb_projections := edb_projections db @ [projection_row_of a 0],
    edb_events := edb_events db @ [event_row_of (initial_event event_id a)]\<rparr>"
  from False run obtain db2 where planned: "ea_status a = XS_PLANNED"
    and db2: "append_status_event ?db1 (initial_event event_id a) = Inr db2"
    "insert_draft db2 a = Inr db'"
    by (auto simp: insert_action_if_absent_def insert_unique_def result_simps split: if_splits)
  from append_first_event [OF db2(1)] have e: "db2 = ?db2"
    "event_id \<notin> vrow_execution_event_id ` set (edb_events db)"
    by (simp_all add: initial_event_def)
  note tables = insert_draft_tables [OF db2(2), unfolded e(1), simplified]
  have life: "life_at db' ?i \<lparr>lf_action = a, lf_status = XS_PLANNED, lf_attempts = [],
      lf_events = [initial_event event_id a]\<rparr>"
    using life_at_insert [OF ok False planned, of event_id] tables by (simp add: life_at_def)
  have keep: "life_at db' j L" if "life_at db j L" for j L
  proof -
    have "j \<noteq> ?i" using life_at_known [OF that] False by metis
    with that tables show ?thesis
      by (simp add: life_at_def action_row_of_def projection_row_of_def event_row_of_def
          initial_event_def)
  qed
  have "\<exists>L. life_at db' j L \<and> life_ok L"
    if "j \<in> insert ?i (arow_action_id ` set (edb_actions db))" for j
  proof (cases "j = ?i")
    case True
    with life life_ok_initial show ?thesis by blast
  next
    case False
    with that have "j \<in> arow_action_id ` set (edb_actions db)" by simp
    from db_ok_life [OF ok this] obtain L where "life_at db j L" "life_ok L" .
    with keep show ?thesis by blast
  qed
  then have "execution_db_ok db'"
    using ok tables e(2) False
    by (auto simp: execution_db_ok_def action_row_of_def projection_row_of_def event_row_of_def
        initial_event_def)
  moreover have "inserted"
    using False run by (auto simp: insert_action_if_absent_def result_simps)
  ultimately show ?thesis using keep by blast
qed

end
