(* ===== verification/Execution_Invariants.thy ===== *)
theory Execution_Invariants
  imports Execution_Lives "HOL-Library.Sublist"
begin

text \<open>
  The properties of execution: in every state the service reaches, the history and the attempts of
  an action are a legal run that ends in its status (C35), an operation succeeds exactly in the
  statuses the transition table allows (C36), and histories only grow and stop for good in a
  terminal status (C37).
\<close>

section \<open>Calls as steps of a life\<close>

definition life_grows :: "action_life \<Rightarrow> action_life \<Rightarrow> bool" where
  "life_grows L M \<longleftrightarrow>
     lf_action M = lf_action L \<and>
     (M = L \<or> can_move (lf_status L) (lf_status M) \<and> (\<exists>e. lf_events M = lf_events L @ [e]) \<and>
        (\<forall>t \<in> set (lf_attempts L). xa_status t \<noteq> XS_IN_PROGRESS \<longrightarrow> t \<in> set (lf_attempts M)))"

lemma life_grows_refl [simp]: "life_grows L L"
  by (simp add: life_grows_def)

lemma life_grows_begin:
  "can_move (lf_status L) XS_IN_PROGRESS \<Longrightarrow> life_grows L (life_begin L attempt_id event_id t u)"
  by (simp add: life_grows_def life_begin_def)

lemma life_grows_close:
  "can_move (lf_status L) s \<Longrightarrow>
   (\<And>t. t \<in> set (lf_attempts L) \<Longrightarrow> xa_status t \<noteq> XS_IN_PROGRESS \<Longrightarrow> t \<in> set ts) \<Longrightarrow>
   life_grows L (life_close L s ts attempt_id code event_id now)"
  by (simp add: life_grows_def life_close_def)

lemma running_kept:
  assumes "life_ok L" and "lf_status L = XS_IN_PROGRESS"
    and "t \<in> set (lf_attempts L)" and "xa_status t \<noteq> XS_IN_PROGRESS"
  shows "t \<in> set (butlast (lf_attempts L))"
proof -
  obtain ts u where "lf_attempts L = ts @ [u]" "xa_status u = XS_IN_PROGRESS"
    using life_running [OF assms(1,2)] by metis
  with assms(3,4) show ?thesis by auto
qed

lemma life_grows_finish:
  "life_ok L \<Longrightarrow> lf_status L = XS_IN_PROGRESS \<Longrightarrow> s \<in> {XS_COMPLETED, XS_FAILED} \<Longrightarrow>
   life_grows L (life_finish L s code event_id now)"
  unfolding life_finish_def Let_def
  by (rule life_grows_close) (auto simp: can_move_def dest: running_kept)

lemma life_grows_cancel:
  "life_ok L \<Longrightarrow> lf_status L = XS_PLANNED \<or> lf_status L = XS_IN_PROGRESS \<Longrightarrow>
   life_grows L (life_cancel L attempt_id event_id now)"
  unfolding life_cancel_def Let_def
  by (auto intro!: life_grows_close simp: can_move_def dest: running_kept)

text \<open>What a call makes of the lives.\<close>

definition lives_grow :: "execution_db \<Rightarrow> execution_db \<Rightarrow> bool" where
  "lives_grow db db' \<longleftrightarrow>
     execution_db_ok db' \<and>
     (\<forall>i L. life_at db i L \<and> life_ok L \<longrightarrow> (\<exists>M. life_at db' i M \<and> life_ok M \<and> life_grows L M))"

lemma lives_grow_step:
  assumes "life_step i db db' M" and "life_at db i L" and "life_grows L M"
    and unique: "\<And>K. life_at db i K \<Longrightarrow> K = L"
  shows "lives_grow db db'"
  unfolding lives_grow_def
proof (intro conjI allI impI)
  show "execution_db_ok db'" using assms(1) by (simp add: life_step_def)
next
  fix j K assume K: "life_at db j K \<and> life_ok K"
  show "\<exists>M. life_at db' j M \<and> life_ok M \<and> life_grows K M"
  proof (cases "j = i")
    case True
    with K unique have "K = L" by blast
    with True assms(1,3) show ?thesis by (auto simp: life_step_def)
  next
    case False
    with K assms(1) have "life_at db' j K \<and> life_ok K"
      by (auto simp: life_step_def elsewhere_life)
    then show ?thesis by (metis life_grows_refl)
  qed
qed

lemma inj_map_eq: "map f xs = map f ys \<Longrightarrow> (\<And>x y. f x = f y \<Longrightarrow> x = y) \<Longrightarrow> xs = ys"
  by (metis injI inj_map_eq_map)

lemma life_at_unique:
  assumes "life_at db i L" and "life_at db i K"
  shows "K = L"
proof -
  have "lf_action K = lf_action L"
    using immutable_action_life [OF assms(1)] immutable_action_life [OF assms(2)] by simp
  moreover have "lf_status K = lf_status L"
    using get_action_life [OF assms(1)] get_action_life [OF assms(2)]
    by (metis Inr_inject execution_action.select_convs(7) execution_action.surjective
        execution_action.update_convs(7))
  moreover have "map attempt_row_of (lf_attempts K) = map attempt_row_of (lf_attempts L)"
    using assms by (simp add: life_at_def)
  then have "lf_attempts K = lf_attempts L" by (rule inj_map_eq) (simp add: attempt_row_of_def)
  moreover have "map event_row_of (lf_events K) = map event_row_of (lf_events L)"
    using assms by (simp add: life_at_def)
  then have "lf_events K = lf_events L" by (rule inj_map_eq) (simp add: event_row_of_def)
  ultimately show ?thesis by simp
qed

text \<open>An operation on an action that does not exist fails.\<close>

lemma get_action_known:
  assumes "get_action db i = Inr a"
  shows "i \<in> arow_action_id ` set (edb_actions db)"
  using assms immutable_action_none [of i db] by (cases "i \<in> arow_action_id ` set (edb_actions db)")
    (auto simp: get_action_def)

lemma db_ok_get_action:
  assumes "execution_db_ok db" and "get_action db i = Inr a"
  obtains L where "life_at db i L" and "life_ok L" and "a = (lf_action L)\<lparr>ea_status := lf_status L\<rparr>"
    and "lf_status L = ea_status a"
proof -
  from db_ok_life [OF assms(1) get_action_known [OF assms(2)]] obtain L
    where L: "life_at db i L" "life_ok L" .
  with get_action_life [OF L(1)] assms(2) show thesis by (intro that [OF L]) auto
qed

lemma begin_attempt_grows:
  assumes "execution_db_ok db"
    and run: "begin_attempt cs s (w, db) i attempt_id event_id t u = Inr ((w', db'), att)"
  shows "lives_grow db db'"
proof -
  obtain a where "get_action db i = Inr a" using run by (auto simp: begin_attempt_def result_simps)
  from db_ok_get_action [OF assms(1) this] obtain L where L: "life_at db i L" "life_ok L" by metis
  from begin_attempt_Inr [OF run L] obtain d where *: "lf_status L = s" "can_move s XS_IN_PROGRESS"
    "cst_guard cs w (ea_decision_id (lf_action L)) = Inr (w', d)"
    "attempt_id \<notin> trow_attempt_id ` set (edb_attempts db)"
    "event_id \<notin> vrow_execution_event_id ` set (edb_events db)" by blast
  from begin_attempt_step [OF assms(1) L *, of t u] run
  have "life_step i db db' (life_begin L attempt_id event_id t u)" by auto
  moreover have "life_grows L (life_begin L attempt_id event_id t u)"
    using * by (intro life_grows_begin) simp
  ultimately show ?thesis
    using lives_grow_step [OF _ L(1) _ life_at_unique [OF L(1)]] by metis
qed

lemma finish_attempt_grows:
  assumes "execution_db_ok db"
    and run: "finish_attempt cs (w, db) i attempt_id s code event_id now = Inr ((w', db'), a)"
    and s: "s \<in> {XS_COMPLETED, XS_FAILED}"
  shows "lives_grow db db'"
proof -
  obtain b where "get_action db i = Inr b" using run by (auto simp: finish_attempt_def result_simps)
  from db_ok_get_action [OF assms(1) this] obtain L where L: "life_at db i L" "life_ok L" by metis
  from finish_attempt_Inr [OF run L s] obtain d where *: "lf_status L = XS_IN_PROGRESS"
    "attempt_id = xa_attempt_id (last (lf_attempts L))"
    "s = XS_COMPLETED \<Longrightarrow> cst_guard cs w (ea_decision_id (lf_action L)) = Inr (w', d)"
    "s \<noteq> XS_COMPLETED \<Longrightarrow> w' = w"
    "event_id \<notin> vrow_execution_event_id ` set (edb_events db)" by blast
  from finish_attempt_step [OF assms(1) L *(1) s *(2-5), of code now] run
  have "life_step i db db' (life_finish L s code event_id now)" by auto
  moreover have "life_grows L (life_finish L s code event_id now)"
    by (rule life_grows_finish [OF L(2) *(1) s])
  ultimately show ?thesis
    using lives_grow_step [OF _ L(1) _ life_at_unique [OF L(1)]] by metis
qed

lemma cancel_action_grows:
  assumes "execution_db_ok db"
    and run: "cancel_action (w, db) i attempt_id event_id now = Inr ((w', db'), a)"
  shows "lives_grow db db'"
proof -
  obtain b where "get_action db i = Inr b" using run by (auto simp: cancel_action_def result_simps)
  from db_ok_get_action [OF assms(1) this] obtain L where L: "life_at db i L" "life_ok L" by metis
  note c = cancel_action_Inr [OF run L]
  have *: "lf_status L = XS_PLANNED \<or> lf_status L = XS_IN_PROGRESS"
    "lf_status L = XS_IN_PROGRESS \<Longrightarrow> attempt_id \<noteq> None \<Longrightarrow>
       attempt_id = Some (xa_attempt_id (last (lf_attempts L)))"
    "event_id \<notin> vrow_execution_event_id ` set (edb_events db)"
    using c by simp_all
  from cancel_action_step [OF assms(1) L *, of w now] run
  have "life_step i db db' (life_cancel L attempt_id event_id now)" by auto
  moreover have "life_grows L (life_cancel L attempt_id event_id now)"
    by (rule life_grows_cancel [OF L(2) *(1)])
  ultimately show ?thesis
    using lives_grow_step [OF _ L(1) _ life_at_unique [OF L(1)]] by metis
qed

lemma create_action_grows:
  assumes "execution_db_ok db" and "create_action cs (w, db) event_id a = Inr ((w', db'), b)"
  shows "lives_grow db db'"
proof -
  obtain db1 inserted where ins: "insert_action_if_absent cs w db event_id a = Inr (db1, inserted)"
    using assms(2) by (auto simp: create_action_def bindR_Inr_iff)
  with assms(2) have "db' = db1 \<or> db' = db"
    by (auto simp: create_action_def bindR_Inr_iff split: if_splits)
  with insert_action_if_absent_ok [OF assms(1) ins] assms(1) show ?thesis
    by (auto simp: lives_grow_def intro: life_grows_refl)
qed

lemma run_call_grows:
  assumes "execution_db_ok db" and "run_call cs (w, db) call = Inr (w', db')"
  shows "lives_grow db db'"
  using assms(2)
  by (cases call)
     (auto simp: start_action_def retry_action_def complete_action_def fail_action_def result_simps
       intro: begin_attempt_grows [OF assms(1)] finish_attempt_grows [OF assms(1)]
         cancel_action_grows [OF assms(1)] create_action_grows [OF assms(1)])

lemma reachable_ok: "execution_reachable cs state \<Longrightarrow> execution_db_ok (snd state)"
proof (induction rule: execution_reachable.induct)
  case (reach_start w)
  show ?case by (simp add: execution_db_ok_def empty_execution_db_def)
next
  case (reach_world w db w')
  then show ?case by simp
next
  case (reach_call state call state')
  then have "run_call cs (fst state, snd state) call = Inr (fst state', snd state')" by simp
  from run_call_grows [OF reach_call.IH this] show ?case by (simp add: lives_grow_def)
qed

section \<open>When an operation succeeds\<close>

lemma begin_succeeds_iff:
  assumes ok: "execution_db_ok db" and L: "life_at db i L" "life_ok L"
    and a: "a = (lf_action L)\<lparr>ea_status := lf_status L\<rparr>"
    and that: "can_move s XS_IN_PROGRESS"
    and fresh: "attempt_id \<notin> trow_attempt_id ` set (edb_attempts db)"
      "event_id \<notin> vrow_execution_event_id ` set (edb_events db)"
  shows "(\<exists>r. begin_attempt cs s (w, db) i attempt_id event_id t u = Inr r) \<longleftrightarrow>
    ea_status a = s \<and> (\<exists>x. cst_guard cs w (ea_decision_id a) = Inr x)"
proof
  assume "\<exists>r. begin_attempt cs s (w, db) i attempt_id event_id t u = Inr r"
  then obtain w' db' att where
    "begin_attempt cs s (w, db) i attempt_id event_id t u = Inr ((w', db'), att)"
    by (metis prod.collapse)
  from begin_attempt_Inr [OF this L] show "ea_status a = s \<and> (\<exists>x. cst_guard cs w (ea_decision_id a) = Inr x)"
    by (auto simp: a)
next
  assume "ea_status a = s \<and> (\<exists>x. cst_guard cs w (ea_decision_id a) = Inr x)"
  then obtain w' d where "lf_status L = s" "cst_guard cs w (ea_decision_id (lf_action L)) = Inr (w', d)"
    by (auto simp: a)
  from begin_attempt_step [OF ok L this(1) that this(2) fresh, of t u]
  show "\<exists>r. begin_attempt cs s (w, db) i attempt_id event_id t u = Inr r" by metis
qed

lemma finish_succeeds_iff:
  assumes ok: "execution_db_ok db" and L: "life_at db i L" "life_ok L"
    and a: "a = (lf_action L)\<lparr>ea_status := lf_status L\<rparr>"
    and attempts: "attempts = lf_attempts L" and s: "s \<in> {XS_COMPLETED, XS_FAILED}"
    and fresh: "event_id \<notin> vrow_execution_event_id ` set (edb_events db)"
  shows "(\<exists>r. finish_attempt cs (w, db) i k s c event_id t = Inr r) \<longleftrightarrow>
    ea_status a = XS_IN_PROGRESS \<and> k = xa_attempt_id (last attempts) \<and>
    (s = XS_COMPLETED \<longrightarrow> (\<exists>x. cst_guard cs w (ea_decision_id a) = Inr x))"
proof
  assume "\<exists>r. finish_attempt cs (w, db) i k s c event_id t = Inr r"
  then obtain w' db' b where "finish_attempt cs (w, db) i k s c event_id t = Inr ((w', db'), b)"
    by (metis prod.collapse)
  from finish_attempt_Inr [OF this L s] show "ea_status a = XS_IN_PROGRESS \<and>
      k = xa_attempt_id (last attempts) \<and>
      (s = XS_COMPLETED \<longrightarrow> (\<exists>x. cst_guard cs w (ea_decision_id a) = Inr x))"
    by (auto simp: a attempts)
next
  assume r: "ea_status a = XS_IN_PROGRESS \<and> k = xa_attempt_id (last attempts) \<and>
    (s = XS_COMPLETED \<longrightarrow> (\<exists>x. cst_guard cs w (ea_decision_id a) = Inr x))"
  define w' where "w' = (if s = XS_COMPLETED
    then fst (projr (cst_guard cs w (ea_decision_id (lf_action L)))) else w)"
  define d where "d = snd (projr (cst_guard cs w (ea_decision_id (lf_action L))))"
  have guard: "s = XS_COMPLETED \<Longrightarrow> cst_guard cs w (ea_decision_id (lf_action L)) = Inr (w', d)"
    "s \<noteq> XS_COMPLETED \<Longrightarrow> w' = w"
    using r by (auto simp: a w'_def d_def)
  have "lf_status L = XS_IN_PROGRESS" "k = xa_attempt_id (last (lf_attempts L))"
    using r by (auto simp: a attempts)
  from finish_attempt_step [OF ok L this(1) s this(2) guard fresh, of c t]
  show "\<exists>r. finish_attempt cs (w, db) i k s c event_id t = Inr r" by metis
qed

lemma cancel_succeeds_iff:
  assumes ok: "execution_db_ok db" and L: "life_at db i L" "life_ok L"
    and a: "a = (lf_action L)\<lparr>ea_status := lf_status L\<rparr>"
    and attempts: "attempts = lf_attempts L"
    and fresh: "event_id \<notin> vrow_execution_event_id ` set (edb_events db)"
  shows "(\<exists>r. cancel_action (w, db) i choice event_id t = Inr r) \<longleftrightarrow>
    ea_status a = XS_PLANNED \<or> ea_status a = XS_IN_PROGRESS \<and>
      (choice = None \<or> choice = Some (xa_attempt_id (last attempts)))"
proof
  assume "\<exists>r. cancel_action (w, db) i choice event_id t = Inr r"
  then obtain w' db' b where "cancel_action (w, db) i choice event_id t = Inr ((w', db'), b)"
    by (metis prod.collapse)
  from cancel_action_Inr [OF this L] show "ea_status a = XS_PLANNED \<or>
      ea_status a = XS_IN_PROGRESS \<and> (choice = None \<or> choice = Some (xa_attempt_id (last attempts)))"
    by (cases choice) (auto simp: a attempts)
next
  assume "ea_status a = XS_PLANNED \<or> ea_status a = XS_IN_PROGRESS \<and>
    (choice = None \<or> choice = Some (xa_attempt_id (last attempts)))"
  then have "lf_status L = XS_PLANNED \<or> lf_status L = XS_IN_PROGRESS"
    "lf_status L = XS_IN_PROGRESS \<Longrightarrow> choice \<noteq> None \<Longrightarrow>
       choice = Some (xa_attempt_id (last (lf_attempts L)))"
    by (auto simp: a attempts)
  from cancel_action_step [OF ok L this fresh, of w t]
  show "\<exists>r. cancel_action (w, db) i choice event_id t = Inr r" by metis
qed

section \<open>An example\<close>

text \<open>One approved Decision with one action, started and failed, over a guard that always holds.\<close>

definition example_decision :: decision where
  "example_decision =
     \<lparr>dec_decision_id = ''DECISION'', dec_case_id = ''CASE'', dec_analysis_id = ''ANALYSIS'',
      dec_analysis_material_hash = replicate 64 CHR ''0'', dec_idempotency_key = ''KEY'',
      dec_request_fingerprint = example_fingerprint, dec_kind = DK_APPROVED,
      dec_selected_option_id = Some ''OPTION'', dec_selected_option = Some example_option,
      dec_evidence_ids = [], dec_assumptions = [], dec_constraints = [],
      dec_prerequisite_roles = [], dec_comparator_trace = Some example_ranking,
      dec_calculation_version = [], dec_evidence_policy_version = [],
      dec_approval_policy_version = [], dec_ranking_policy_version = [],
      dec_runtime_mode = RM_LIVE, dec_scenario_effective_time = 0,
      dec_approval_satisfactions = [], dec_proposal_approval = None, dec_actor = alex_identity,
      dec_rejection_reason = None, dec_decided_at = 300\<rparr>"

definition steady_case :: "unit case_store" where
  "steady_case =
     \<lparr>cst_decision = (\<lambda>w i. if i = ''DECISION'' then Inr example_decision
                             else Inl (RecordNotFound ''decision does not exist'')),
      cst_guard = (\<lambda>w i. if i = ''DECISION'' then Inr (w, example_decision)
                          else Inl (RecordNotFound ''decision does not exist''))\<rparr>"

definition example_action :: execution_action where
  "example_action =
     \<lparr>ea_action_id = ''ACTION'', ea_case_id = ''CASE'', ea_decision_id = ''DECISION'',
      ea_kind = UPDATE_DISRUPTION_STATUS, ea_owner_kind = XO_SYSTEM, ea_owner_persona_id = None,
      ea_status = XS_PLANNED, ea_created_at = 300, ea_draft_artifact_id = None,
      ea_purpose = None, ea_expected_result = None, ea_execution_mode = Some XM_simulation\<rparr>"

definition created_db :: execution_db where
  "created_db =
     \<lparr>edb_actions = [action_row_of example_action],
      edb_projections = [projection_row_of example_action 0], edb_drafts = [], edb_attempts = [],
      edb_events = [event_row_of (initial_event ''EVENT-1'' example_action)]\<rparr>"

lemma reach_created: "execution_reachable steady_case ((), created_db)"
proof -
  have "run_call steady_case ((), empty_execution_db) (Create ''EVENT-1'' example_action) =
      Inr ((), created_db)"
    by code_simp
  then show ?thesis by (rule reach_call [OF reach_start])
qed

definition started_db :: execution_db where
  "started_db =
     (case start_action steady_case ((), created_db) ''ACTION'' ''ATTEMPT-1'' ''EVENT-2'' 400 401 of
        Inl _ \<Rightarrow> created_db | Inr ((_, db), _) \<Rightarrow> db)"

lemma reach_started: "execution_reachable steady_case ((), started_db)"
proof -
  have "run_call steady_case ((), created_db) (Start ''ACTION'' ''ATTEMPT-1'' ''EVENT-2'' 400 401) =
      Inr ((), started_db)"
    by code_simp
  then show ?thesis by (rule reach_call [OF reach_created])
qed

section \<open>Properties\<close>

text \<open>
  C35. In every state the execution service reaches, through any calls with any identifiers and
  times, the stored history of every action reads back without error and is a legal run: numbered
  from 1 without gaps, it starts with \<open>None \<rightarrow> PLANNED\<close>, every event starts where
  the previous one ended along the transition table, and the last one ends in the status the action
  shows.  Its attempts are numbered from 1, all but the last have failed, the last one has the
  status of the action, they are closed exactly when they no longer run, and they are the ones the
  history says were started, in order.
\<close>
theorem stored_history_is_a_legal_run:
  assumes "execution_reachable cs (w, db)" and "get_action db action_id = Inr a"
  shows "\<exists>events attempts.
    list_status_events db action_id = Inr events \<and> list_attempts db action_id = Inr attempts \<and>
    history_ok a (ea_status a) events \<and> attempts_ok a (ea_status a) attempts \<and>
    started_attempts events = map (Some \<circ> xa_attempt_id) attempts"
proof -
  have ok: "execution_db_ok db" using reachable_ok [OF assms(1)] by simp
  from db_ok_get_action [OF ok assms(2)] obtain L where L: "life_at db action_id L" "life_ok L"
    "a = (lf_action L)\<lparr>ea_status := lf_status L\<rparr>" by metis
  have "history_ok a (ea_status a) (lf_events L) \<and> attempts_ok a (ea_status a) (lf_attempts L) \<and>
      started_attempts (lf_events L) = map (Some \<circ> xa_attempt_id) (lf_attempts L)"
    using L(2) by (simp add: life_ok_def L(3) history_ok_def attempts_ok_def)
  with list_status_events_life [OF L(1,2)] list_attempts_life [OF L(1,2)] show ?thesis by blast
qed

lemma stored_history_is_a_legal_run_witness:
  "\<exists>events attempts.
    list_status_events started_db ''ACTION'' = Inr events \<and>
    list_attempts started_db ''ACTION'' = Inr attempts \<and>
    history_ok (example_action\<lparr>ea_status := XS_IN_PROGRESS\<rparr>) XS_IN_PROGRESS events \<and>
    attempts_ok (example_action\<lparr>ea_status := XS_IN_PROGRESS\<rparr>) XS_IN_PROGRESS attempts \<and>
    started_attempts events = map (Some \<circ> xa_attempt_id) attempts"
proof -
  have "get_action started_db ''ACTION'' = Inr (example_action\<lparr>ea_status := XS_IN_PROGRESS\<rparr>)"
    by code_simp
  from stored_history_is_a_legal_run [OF reach_started this] show ?thesis by simp
qed

text \<open>
  C36. For a stored action of a reachable state and fresh identifiers, an operation succeeds
  exactly where it should: \<open>start\<close> on a planned action and \<open>retry\<close> on a failed one, when
  the currentness guard passes; \<open>complete\<close> and \<open>fail\<close> on a running action with the id
  of its last attempt, \<open>complete\<close> only when the guard passes; \<open>cancel\<close> on a planned
  action, or on a running one with no attempt id or that of its last attempt.  In every other case
  the result is an error.
\<close>
theorem operations_succeed_exactly:
  assumes "execution_reachable cs (w, db)" and "get_action db i = Inr a"
    and "list_attempts db i = Inr attempts"
    and "attempt_id \<notin> trow_attempt_id ` set (edb_attempts db)"
    and "event_id \<notin> vrow_execution_event_id ` set (edb_events db)"
  shows "((\<exists>r. start_action cs (w, db) i attempt_id event_id t u = Inr r) \<longleftrightarrow>
            ea_status a = XS_PLANNED \<and> (\<exists>x. cst_guard cs w (ea_decision_id a) = Inr x)) \<and>
    ((\<exists>r. retry_action cs (w, db) i attempt_id event_id t u = Inr r) \<longleftrightarrow>
            ea_status a = XS_FAILED \<and> (\<exists>x. cst_guard cs w (ea_decision_id a) = Inr x)) \<and>
    ((\<exists>r. complete_action cs (w, db) i k event_id t = Inr r) \<longleftrightarrow>
            ea_status a = XS_IN_PROGRESS \<and> k = xa_attempt_id (last attempts) \<and>
            (\<exists>x. cst_guard cs w (ea_decision_id a) = Inr x)) \<and>
    ((\<exists>r. fail_action cs (w, db) i k code event_id t = Inr r) \<longleftrightarrow>
            ea_status a = XS_IN_PROGRESS \<and> k = xa_attempt_id (last attempts)) \<and>
    ((\<exists>r. cancel_action (w, db) i choice event_id t = Inr r) \<longleftrightarrow>
            ea_status a = XS_PLANNED \<or>
            ea_status a = XS_IN_PROGRESS \<and>
              (choice = None \<or> choice = Some (xa_attempt_id (last attempts))))"
proof -
  have ok: "execution_db_ok db" using reachable_ok [OF assms(1)] by simp
  from db_ok_get_action [OF ok assms(2)] obtain L where L: "life_at db i L" "life_ok L"
    and a: "a = (lf_action L)\<lparr>ea_status := lf_status L\<rparr>" by metis
  have attempts: "attempts = lf_attempts L"
    using list_attempts_life [OF L] assms(3) by simp
  note begins = begin_succeeds_iff [OF ok L a _ assms(4,5), of _ cs w t u]
    and ends = finish_succeeds_iff [OF ok L a attempts _ assms(5), of _ cs w k _ t]
    and cancels = cancel_succeeds_iff [OF ok L a attempts assms(5), of w choice t]
  show ?thesis
    using begins [of XS_PLANNED] begins [of XS_FAILED] ends [of XS_COMPLETED None]
      ends [of XS_FAILED "Some code"] cancels
    by (simp add: start_action_def retry_action_def complete_action_def fail_action_def can_move_def)
qed

lemma operations_succeed_exactly_witness:
  "(\<exists>r. complete_action steady_case ((), started_db) ''ACTION'' ''ATTEMPT-1'' ''EVENT-3'' 500 = Inr r) \<and>
   \<not> (\<exists>r. complete_action steady_case ((), started_db) ''ACTION'' ''ATTEMPT-9'' ''EVENT-3'' 500 = Inr r) \<and>
   \<not> (\<exists>r. retry_action steady_case ((), started_db) ''ACTION'' ''ATTEMPT-2'' ''EVENT-3'' 500 501 = Inr r)"
proof -
  have a: "get_action started_db ''ACTION'' = Inr (example_action\<lparr>ea_status := XS_IN_PROGRESS\<rparr>)"
    by code_simp
  obtain attempts where l: "list_attempts started_db ''ACTION'' = Inr attempts"
    and last: "xa_attempt_id (last attempts) = ''ATTEMPT-1''"
  proof -
    have "case list_attempts started_db ''ACTION'' of Inl _ \<Rightarrow> False
        | Inr ts \<Rightarrow> xa_attempt_id (last ts) = ''ATTEMPT-1''" by code_simp
    then show thesis by (cases "list_attempts started_db ''ACTION''") (auto intro: that)
  qed
  have fresh: "''ATTEMPT-2'' \<notin> trow_attempt_id ` set (edb_attempts started_db)"
    "''EVENT-3'' \<notin> vrow_execution_event_id ` set (edb_events started_db)" by code_simp+
  have guard: "cst_guard steady_case () (ea_decision_id example_action) = Inr ((), example_decision)"
    by (simp add: steady_case_def example_action_def)
  note exact = operations_succeed_exactly [OF reach_started a l fresh]
  show ?thesis
    using exact [of 500 501 "''ATTEMPT-1''"] exact [of 500 501 "''ATTEMPT-9''"] guard
    by (simp add: last)
qed

text \<open>
  C37. A successful call, whatever it is, only appends to the history of an action, at most one
  event along the transition table, and never touches a closed attempt.  An action that is completed
  or cancelled is left as it is by every call: its status, history and attempts stay the same.
\<close>
theorem history_is_append_only:
  assumes "execution_reachable cs (w, db)" and "run_call cs (w, db) call = Inr (w', db')"
    and "get_action db i = Inr a" and "list_status_events db i = Inr events"
    and "list_attempts db i = Inr attempts"
  shows "\<exists>a' events' attempts'.
    get_action db' i = Inr a' \<and> list_status_events db' i = Inr events' \<and>
    list_attempts db' i = Inr attempts' \<and>
    prefix events events' \<and> length events' \<le> length events + 1 \<and>
    (a' = a \<or> can_move (ea_status a) (ea_status a')) \<and>
    (\<forall>t \<in> set attempts. xa_completed_at t \<noteq> None \<longrightarrow> t \<in> set attempts') \<and>
    (ea_status a = XS_COMPLETED \<or> ea_status a = XS_CANCELLED \<longrightarrow>
       a' = a \<and> events' = events \<and> attempts' = attempts)"
proof -
  have ok: "execution_db_ok db" using reachable_ok [OF assms(1)] by simp
  from db_ok_get_action [OF ok assms(3)] obtain L where L: "life_at db i L" "life_ok L"
    and a: "a = (lf_action L)\<lparr>ea_status := lf_status L\<rparr>" by metis
  have reads: "events = lf_events L" "attempts = lf_attempts L"
    using list_status_events_life [OF L] list_attempts_life [OF L] assms(4,5) by simp_all
  from run_call_grows [OF ok assms(2)] L obtain M where
    M: "life_at db' i M" "life_ok M" "life_grows L M" unfolding lives_grow_def by blast
  have kept: "t \<in> set (lf_attempts M)" if "t \<in> set attempts" "xa_completed_at t \<noteq> None" for t
  proof -
    have "xa_status t \<noteq> XS_IN_PROGRESS"
      using L(2) that reads by (auto simp: life_ok_def attempts_ok_def)
    with M(3) that reads show ?thesis by (auto simp: life_grows_def)
  qed
  have stop: "M = L" if "ea_status a = XS_COMPLETED \<or> ea_status a = XS_CANCELLED"
    using M(3) execution_cycle.terminal_stops that by (auto simp: life_grows_def a)
  have grows: "prefix events (lf_events M)" "length (lf_events M) \<le> length events + 1"
    using M(3) reads by (auto simp: life_grows_def)
  have moved: "(lf_action M)\<lparr>ea_status := lf_status M\<rparr> = a \<or>
      can_move (ea_status a) (ea_status ((lf_action M)\<lparr>ea_status := lf_status M\<rparr>))"
    using M(3) by (auto simp: life_grows_def a)
  show ?thesis
    using get_action_life [OF M(1)] list_status_events_life [OF M(1,2)]
      list_attempts_life [OF M(1,2)] grows moved kept stop reads a by blast
qed

lemma history_is_append_only_witness:
  "\<exists>db'. run_call steady_case ((), started_db) (Complete ''ACTION'' ''ATTEMPT-1'' ''EVENT-3'' 500) =
      Inr ((), db') \<and>
    (\<exists>a' events' attempts'.
    get_action db' ''ACTION'' = Inr a' \<and> list_status_events db' ''ACTION'' = Inr events' \<and>
    list_attempts db' ''ACTION'' = Inr attempts' \<and> length events' \<le> 3)"
proof -
  obtain db' where run: "run_call steady_case ((), started_db)
      (Complete ''ACTION'' ''ATTEMPT-1'' ''EVENT-3'' 500) = Inr ((), db')"
  proof -
    have "\<not> isl (run_call steady_case ((), started_db)
      (Complete ''ACTION'' ''ATTEMPT-1'' ''EVENT-3'' 500))" by code_simp
    then show thesis
      by (cases "run_call steady_case ((), started_db)
        (Complete ''ACTION'' ''ATTEMPT-1'' ''EVENT-3'' 500)") (auto intro: that)
  qed
  have a: "get_action started_db ''ACTION'' = Inr (example_action\<lparr>ea_status := XS_IN_PROGRESS\<rparr>)"
    by code_simp
  have "case list_status_events started_db ''ACTION'' of Inl _ \<Rightarrow> False | Inr es \<Rightarrow> length es = 2"
    by code_simp
  then obtain events where e: "list_status_events started_db ''ACTION'' = Inr events"
    "length events = 2" by (auto split: sum.splits)
  have "\<not> isl (list_attempts started_db ''ACTION'')" by code_simp
  then obtain attempts where t: "list_attempts started_db ''ACTION'' = Inr attempts"
    by (cases "list_attempts started_db ''ACTION''") auto
  from history_is_append_only [OF reach_started run a e(1) t] run e(2) show ?thesis by auto
qed

end
