(* ===== verification/Supplier_Email_Safety.thy ===== *)
theory Supplier_Email_Safety
  imports Supplier_Email_Service Execution_Invariants
begin

text \<open>
  The supplier email over time: any number of callers open, edit, review, send and check, their
  units of work interleave, Graph answers late or never.  The log of the messages handed to Graph
  shows that a message follows another one of the same Decision only when Graph refused that one
  (C38).
\<close>

section \<open>Deliveries by Decision\<close>

definition mail_ok :: "mail_db \<Rightarrow> bool" where
  "mail_ok m \<longleftrightarrow>
     distinct (map yrow_email_id (mdb_deliveries m)) \<and>
     distinct (map yrow_decision_id (mdb_deliveries m)) \<and>
     (\<forall>y \<in> set (mdb_deliveries m). \<exists>d. y = delivery_row_of d)"

definition delivery_at :: "mail_db \<Rightarrow> string \<Rightarrow> email_delivery option" where
  "delivery_at m i =
     (case find (\<lambda>y. yrow_decision_id y = i) (mdb_deliveries m) of
        None \<Rightarrow> None | Some y \<Rightarrow> yrow_payload y)"

lemma delivery_row_of_simps [simp]:
  "yrow_email_id (delivery_row_of d) = ed_email_id d"
  "yrow_decision_id (delivery_row_of d) = ed_decision_id d"
  "yrow_send_status (delivery_row_of d) = send_status_value (ed_send_status d)"
  "yrow_correlation_id (delivery_row_of d) = ed_correlation_id d"
  "yrow_payload (delivery_row_of d) = Some d"
  by (simp_all add: delivery_row_of_def)

lemma delivery_row_of_inject: "delivery_row_of d = delivery_row_of e \<longleftrightarrow> d = e"
  by (metis delivery_row_of_simps(5) option.inject)

lemma delivery_from_row_of [simp]: "delivery_from_row (delivery_row_of d) = Inr d"
  by (simp add: delivery_from_row_def delivery_row_of_def require_def)

lemma rewrite_same_ids:
  "ed_email_id d = ed_email_id e \<Longrightarrow> ed_decision_id d = ed_decision_id e \<Longrightarrow>
   rewrite_delivery d (delivery_row_of e) = delivery_row_of d"
  by (simp add: rewrite_delivery_def delivery_row_of_def)

lemma delivery_at_row:
  assumes "mail_ok m"
  shows "delivery_at m i = Some d \<longleftrightarrow>
    delivery_row_of d \<in> set (mdb_deliveries m) \<and> ed_decision_id d = i"
proof
  assume "delivery_at m i = Some d"
  then obtain y where y: "find (\<lambda>y. yrow_decision_id y = i) (mdb_deliveries m) = Some y"
    "yrow_payload y = Some d"
    by (auto simp: delivery_at_def split: option.splits)
  from find_Some_key [OF y(1)] have "y \<in> set (mdb_deliveries m)" "yrow_decision_id y = i" by auto
  moreover from this(1) assms obtain e where "y = delivery_row_of e" by (auto simp: mail_ok_def)
  ultimately show "delivery_row_of d \<in> set (mdb_deliveries m) \<and> ed_decision_id d = i"
    using y(2) by simp
next
  assume row: "delivery_row_of d \<in> set (mdb_deliveries m) \<and> ed_decision_id d = i"
  have "distinct (map yrow_decision_id (mdb_deliveries m))" using assms by (simp add: mail_ok_def)
  from find_distinct [OF this conjunct1 [OF row]] row show "delivery_at m i = Some d"
    by (simp add: delivery_at_def)
qed

lemma delivery_at_none:
  "delivery_at m i = None \<Longrightarrow> mail_ok m \<Longrightarrow> i \<notin> yrow_decision_id ` set (mdb_deliveries m)"
  unfolding mail_ok_def delivery_at_def
  by (force simp: find_None_iff split: option.splits dest: find_Some_key)

lemma get_current_none:
  assumes "mail_ok m" and "get_current m i = Inr None"
  shows "delivery_at m i = None"
proof -
  have d: "distinct (map yrow_decision_id (mdb_deliveries m))" using assms(1) by (simp add: mail_ok_def)
  from assms(2) show ?thesis
    by (auto simp: get_current_def one_or_none_filter [OF d] delivery_at_def result_simps
        split: option.splits)
qed

lemma get_current_some:
  assumes "mail_ok m" and "get_current m i = Inr (Some (r, d))"
  shows "delivery_at m i = Some d \<and> ed_decision_id d = i"
proof -
  have dist: "distinct (map yrow_decision_id (mdb_deliveries m))"
    using assms(1) by (simp add: mail_ok_def)
  from assms(2) obtain y where y: "find (\<lambda>y. yrow_decision_id y = i) (mdb_deliveries m) = Some y"
    "delivery_from_row y = Inr d"
    by (auto simp: get_current_def one_or_none_filter [OF dist] result_simps split: option.splits)
  from find_Some_key [OF y(1)] have *: "y \<in> set (mdb_deliveries m)" "yrow_decision_id y = i" by auto
  moreover from *(1) assms(1) obtain e where "y = delivery_row_of e" by (auto simp: mail_ok_def)
  ultimately have "delivery_row_of d \<in> set (mdb_deliveries m) \<and> ed_decision_id d = i" using y(2) by simp
  then show ?thesis by (simp add: delivery_at_row [OF assms(1)])
qed

text \<open>One row rewritten.\<close>

lemma delivery_update:
  assumes ok: "mail_ok m" and at: "delivery_at m i = Some d"
    and ids: "ed_email_id d' = ed_email_id d" "ed_decision_id d' = ed_decision_id d"
    and hit: "P (delivery_row_of d)" "\<And>y. P y \<Longrightarrow> yrow_email_id y = ed_email_id d"
    and m': "mdb_deliveries m' =
      map (\<lambda>y. if P y then rewrite_delivery d' y else y) (mdb_deliveries m)"
  shows "mail_ok m' \<and> delivery_at m' = (delivery_at m)(i \<mapsto> d')"
proof -
  have row: "delivery_row_of d \<in> set (mdb_deliveries m)" "ed_decision_id d = i"
    using at by (simp_all add: delivery_at_row [OF ok])
  have dist: "distinct (map yrow_email_id (mdb_deliveries m))"
    "distinct (map yrow_decision_id (mdb_deliveries m))"
    using ok by (simp_all add: mail_ok_def)
  have only: "P y \<longleftrightarrow> y = delivery_row_of d" if "y \<in> set (mdb_deliveries m)" for y
    using hit that row(1) dist(1) by (metis delivery_row_of_simps(1) distinct_map inj_onD)
  have rows: "mdb_deliveries m' =
      map (\<lambda>y. if y = delivery_row_of d then delivery_row_of d' else y) (mdb_deliveries m)"
    unfolding m' using only rewrite_same_ids [OF ids] by (intro map_cong) auto
  have keys: "map yrow_email_id (mdb_deliveries m') = map yrow_email_id (mdb_deliveries m)"
    "map yrow_decision_id (mdb_deliveries m') = map yrow_decision_id (mdb_deliveries m)"
    unfolding rows using ids by simp_all
  have "\<exists>e. y = delivery_row_of e" if "y \<in> set (mdb_deliveries m')" for y
    using that ok unfolding rows mail_ok_def by auto
  then have ok': "mail_ok m'" using dist keys by (simp add: mail_ok_def)
  have "delivery_at m' j = ((delivery_at m)(i \<mapsto> d')) j" for j
  proof (cases "j = i")
    case True
    have "delivery_row_of d' \<in> set (mdb_deliveries m')" using row(1) by (auto simp: rows)
    then show ?thesis using True ids row(2) by (simp add: delivery_at_row [OF ok'])
  next
    case False
    have "delivery_at m' j = Some e \<longleftrightarrow> delivery_at m j = Some e" for e
      unfolding delivery_at_row [OF ok'] delivery_at_row [OF ok] using False row ids
      by (auto simp: rows delivery_row_of_inject image_iff)
    then have "delivery_at m' j = delivery_at m j" by (metis not_Some_eq)
    with False show ?thesis by simp
  qed
  then show ?thesis using ok' by (auto simp: fun_eq_iff)
qed

lemma insert_initial_at:
  assumes ok: "mail_ok m" and run: "insert_initial x m r d = Inr m'"
  shows "mail_ok m' \<and> delivery_at m (ed_decision_id d) = None \<and>
    delivery_at m' = (delivery_at m)(ed_decision_id d \<mapsto> d)"
proof -
  from run have new: "get_current m (ed_decision_id d) = Inr None"
    "ed_email_id d \<notin> yrow_email_id ` set (mdb_deliveries m)"
    and m': "mdb_deliveries m' = mdb_deliveries m @ [delivery_row_of d]"
    by (auto simp: insert_initial_def insert_unique_def insert_revision_def result_simps
        split: if_splits)
  have none: "delivery_at m (ed_decision_id d) = None" by (rule get_current_none [OF ok new(1)])
  have ok': "mail_ok m'"
    using ok new(2) delivery_at_none [OF none ok] by (auto simp: mail_ok_def m')
  have "delivery_at m' = (delivery_at m)(ed_decision_id d \<mapsto> d)"
  proof
    fix j
    show "delivery_at m' j = ((delivery_at m)(ed_decision_id d \<mapsto> d)) j"
    proof (cases "j = ed_decision_id d")
      case True
      then show ?thesis using delivery_at_row [OF ok', of j d] by (simp add: m')
    next
      case False
      have "delivery_at m' j = Some e \<longleftrightarrow> delivery_at m j = Some e" for e
        unfolding delivery_at_row [OF ok'] delivery_at_row [OF ok] using False
        by (auto simp: m' delivery_row_of_inject)
      then have "delivery_at m' j = delivery_at m j" by (metis not_Some_eq)
      with False show ?thesis by simp
    qed
  qed
  with ok' none show ?thesis by simp
qed

section \<open>What the operations do to a delivery\<close>

definition delivery_becomes :: "mail_db \<Rightarrow> mail_db \<Rightarrow> string \<Rightarrow> email_delivery \<Rightarrow> bool" where
  "delivery_becomes m m' i d \<longleftrightarrow> mail_ok m' \<and> delivery_at m' = (delivery_at m)(i \<mapsto> d)"

lemma update_delivery_becomes:
  assumes "mail_ok m" and "delivery_at m i = Some d" and "update_delivery m1 d' = Inr m'"
    and "mdb_deliveries m1 = mdb_deliveries m"
    and "ed_email_id d' = ed_email_id d" and "ed_decision_id d' = ed_decision_id d"
  shows "delivery_becomes m m' i d'"
  unfolding delivery_becomes_def
  using assms(3,4)
  by (intro delivery_update [OF assms(1,2,5,6), where P = "\<lambda>y. yrow_email_id y = ed_email_id d'"])
     (auto simp: update_delivery_def result_simps assms(5))

lemma append_email_revision_effect:
  assumes "mail_ok m" and "append_email_revision busy x m r n = Inr (Some m')"
  shows "\<exists>d. delivery_at m (er_decision_id r) = Some d \<and> never_submitted d \<and>
    delivery_becomes m m' (er_decision_id r) (back_to_draft d (er_edited_at r))"
proof -
  have won: "claim_delivery_for_write busy m (er_decision_id r)"
    using assms(2) by (simp add: append_email_revision_def split: if_splits)
  then obtain previous d where cur: "get_current m (er_decision_id r) = Inr (Some (previous, d))"
    using assms(2) by (auto simp: append_email_revision_def bindR_Inr_iff split: option.splits)
  note run = assms(2) [unfolded append_email_revision_def, simplified won cur, simplified]
  have n: "er_revision previous = n" and "never_submitted d"
    using run by (simp_all split: if_splits)
  with run obtain m1 where ins: "insert_revision m r = Inr m1"
    and upd: "update_delivery m1 (back_to_draft d (er_edited_at r)) = Inr m'"
    by (cases "insert_revision m r") (auto simp: bindR_Inr_iff split: if_splits)
  have "mdb_deliveries m1 = mdb_deliveries m"
    using ins by (auto simp: insert_revision_def result_simps)
  from get_current_some [OF assms(1) cur]
    update_delivery_becomes [OF assms(1) _ upd this, of "er_decision_id r" d] \<open>never_submitted d\<close>
  show ?thesis by (auto simp: back_to_draft_def)
qed

lemma mark_reviewed_effect:
  assumes "mail_ok m" and "mark_reviewed busy m r d n = Inr (Some m')"
  shows "m' = m \<or> (\<exists>e k t. delivery_at m (er_decision_id r) = Some e \<and>
    delivery_becomes m m' (er_decision_id r)
      (e\<lparr>ed_reviewed_revision := Some k, ed_status_updated_at := t\<rparr>))"
proof (cases "m' = m")
  case False
  have won: "claim_delivery_for_write busy m (er_decision_id r)"
    using assms(2) by (simp add: mark_reviewed_def split: if_splits)
  then obtain previous e where cur: "get_current m (er_decision_id r) = Inr (Some (previous, e))"
    using assms(2) by (auto simp: mark_reviewed_def bindR_Inr_iff split: option.splits)
  note run = assms(2) [unfolded mark_reviewed_def, simplified won cur, simplified]
  have fresh: "er_revision previous = n" "er_reviewed_at previous = None"
    using run False by (simp_all split: if_splits)
  from run [simplified fresh, simplified] obtain m1 where
    d: "d = e\<lparr>ed_reviewed_revision := Some n, ed_status_updated_at := the (er_reviewed_at r)\<rparr>"
    and upd: "update_delivery m1 d = Inr m'" and m1: "mdb_deliveries m1 = mdb_deliveries m"
    by (auto simp: bindR_Inr_iff require_Inr_iff Let_def split: if_splits)
  from get_current_some [OF assms(1) cur]
    update_delivery_becomes [OF assms(1) _ upd m1, of "er_decision_id r" e] d
  show ?thesis by auto
qed simp

lemma unique_hit:
  assumes "mail_ok m" and "delivery_at m i = Some d"
    and "length (filter hit (mdb_deliveries m)) = 1"
    and own: "\<And>y. hit y \<Longrightarrow> yrow_email_id y = ed_email_id d"
  shows "hit (delivery_row_of d)"
proof -
  have "filter hit (mdb_deliveries m) \<noteq> []" using assms(3) by auto
  then obtain y where y: "y \<in> set (mdb_deliveries m)" "hit y" by (auto simp: filter_empty_conv)
  have "delivery_row_of d \<in> set (mdb_deliveries m)"
    using assms(2) by (simp add: delivery_at_row [OF assms(1)])
  moreover have "distinct (map yrow_email_id (mdb_deliveries m))"
    using assms(1) by (simp add: mail_ok_def)
  ultimately have "y = delivery_row_of d"
    using y own by (metis delivery_row_of_simps(1) distinct_map inj_onD)
  with y(2) show ?thesis by simp
qed

lemma claim_send_effect:
  assumes "mail_ok m" and "delivery_at m i = Some d"
    and "ed_email_id d' = ed_email_id d" and "ed_decision_id d' = ed_decision_id d"
    and run: "claim_send busy m d' n = Inr (Some m')"
  shows "(ed_send_status d = SS_draft \<or> ed_send_status d = SS_failed) \<and> delivery_becomes m m' i d'"
proof -
  define hit :: "delivery_row \<Rightarrow> bool" where "hit = (\<lambda>y. yrow_email_id y = ed_email_id d' \<and> yrow_decision_id y = ed_decision_id d' \<and>
    yrow_reviewed_revision y = Some n \<and>
    (yrow_send_status y = ''draft'' \<or>
     yrow_send_status y = ''failed'' \<and> yrow_provider_message_id y = None \<and>
       yrow_internet_message_id y = None))"
  from run have one: "length (filter hit (mdb_deliveries m)) = 1"
    and m': "mdb_deliveries m' =
      map (\<lambda>y. if hit y then rewrite_delivery d' y else y) (mdb_deliveries m)"
    by (auto simp: claim_send_def hit_def bindR_Inr_iff Let_def split: if_splits)
  have own: "hit z \<Longrightarrow> yrow_email_id z = ed_email_id d" for z
    using assms(3) by (simp add: hit_def)
  have "hit (delivery_row_of d)" by (rule unique_hit [OF assms(1,2) one own])
  moreover from this have "ed_send_status d = SS_draft \<or> ed_send_status d = SS_failed"
    by (cases "ed_send_status d") (auto simp: hit_def)
  ultimately show ?thesis
    using delivery_update [OF assms(1-4) _ own m'] by (simp add: delivery_becomes_def)
qed

lemma update_delivery_state_effect:
  assumes "mail_ok m" and "delivery_at m i = Some d"
    and "ed_email_id d' = ed_email_id d" and "ed_decision_id d' = ed_decision_id d"
    and run: "update_delivery_state busy m d' c statuses = Inr (Some m')"
  shows "ed_correlation_id d = Some c \<and> ed_send_status d \<in> set statuses \<and>
    delivery_becomes m m' i d'"
proof -
  define hit :: "delivery_row \<Rightarrow> bool" where "hit = (\<lambda>y. yrow_email_id y = ed_email_id d' \<and> yrow_decision_id y = ed_decision_id d' \<and>
    yrow_correlation_id y = Some c \<and> yrow_send_status y \<in> send_status_value ` set statuses)"
  from run have one: "length (filter hit (mdb_deliveries m)) = 1"
    and m': "mdb_deliveries m' =
      map (\<lambda>y. if hit y then rewrite_delivery d' y else y) (mdb_deliveries m)"
    by (auto simp: update_delivery_state_def hit_def bindR_Inr_iff Let_def split: if_splits)
  have own: "hit z \<Longrightarrow> yrow_email_id z = ed_email_id d" for z
    using assms(3) by (simp add: hit_def)
  have "hit (delivery_row_of d)" by (rule unique_hit [OF assms(1,2) one own])
  moreover from this have "ed_correlation_id d = Some c \<and> ed_send_status d \<in> set statuses"
    by (auto simp: hit_def)
  ultimately show ?thesis
    using delivery_update [OF assms(1-4) _ own m'] by (simp add: delivery_becomes_def)
qed

section \<open>The system\<close>

text \<open>
  A message handed to Graph: who asked, what was sent, and what came back.  None is a message whose
  answer is still out, or was lost with the process that waited for it.
\<close>

record submission =
  sub_correlation :: string
  sub_decision :: string
  sub_content :: email_revision
  sub_outcome :: "graph_outcome option"

record 'w mail_system =
  msy_state :: "'w mail_state"
  msy_log :: "submission list"

text \<open>
  The runs of the service.  Every step is one unit of work; Execution and the rest of the database
  move in between.  \<open>send\<close> draws a fresh correlation id.  An answer of Graph may come at any
  later time, once; when its transition raises, nothing is written.  A status check reads in one
  unit of work and writes in a later one.
\<close>

inductive mail_reachable :: "'w mail_env \<Rightarrow> 'w mail_system \<Rightarrow> bool"
  for env :: "'w mail_env" where
  mail_start:
    "mail_reachable env
       \<lparr>msy_state = (w, x, \<lparr>mdb_deliveries = [], mdb_revisions = []\<rparr>), msy_log = []\<rparr>"
| mail_others:
    "mail_reachable env \<lparr>msy_state = (w, x, m), msy_log = log1\<rparr> \<Longrightarrow>
     mail_reachable env \<lparr>msy_state = (w', x', m), msy_log = log1\<rparr>"
| mail_open:
    "mail_reachable env \<lparr>msy_state = s, msy_log = log1\<rparr> \<Longrightarrow>
     open_email env s i now = Inr (s', view) \<Longrightarrow>
     mail_reachable env \<lparr>msy_state = s', msy_log = log1\<rparr>"
| mail_save:
    "mail_reachable env \<lparr>msy_state = s, msy_log = log1\<rparr> \<Longrightarrow>
     save_email env busy s i revision subject body actor now = Inr (s', view) \<Longrightarrow>
     mail_reachable env \<lparr>msy_state = s', msy_log = log1\<rparr>"
| mail_review:
    "mail_reachable env \<lparr>msy_state = s, msy_log = log1\<rparr> \<Longrightarrow>
     review_email env busy s i revision actor now = Inr (s', view) \<Longrightarrow>
     mail_reachable env \<lparr>msy_state = s', msy_log = log1\<rparr>"
| mail_send:
    "mail_reachable env \<lparr>msy_state = s, msy_log = log1\<rparr> \<Longrightarrow>
     send_claim env busy s i revision actor c now = Inr (s', Submit c content) \<Longrightarrow>
     c \<notin> sub_correlation ` set log1 \<Longrightarrow>
     mail_reachable env \<lparr>msy_state = s', msy_log = log1 @
       [\<lparr>sub_correlation = c, sub_decision = i, sub_content = content, sub_outcome = None\<rparr>]\<rparr>"
| mail_answer:
    "mail_reachable env \<lparr>msy_state = s, msy_log = pre @ sub # post\<rparr> \<Longrightarrow>
     sub_outcome sub = None \<Longrightarrow>
     send_finish busy s (sub_decision sub) (sub_correlation sub) answer now = result \<Longrightarrow>
     mail_reachable env \<lparr>msy_state = (case result of Inl _ \<Rightarrow> s | Inr (s', _) \<Rightarrow> s'),
       msy_log = pre @ sub\<lparr>sub_outcome := Some answer\<rparr> # post\<rparr>"
| mail_check:
    "mail_reachable env \<lparr>msy_state = s0, msy_log = log0\<rparr> \<Longrightarrow>
     mail_reachable env \<lparr>msy_state = s, msy_log = log1\<rparr> \<Longrightarrow>
     check_send_status env busy s0 s i actor get_message now = Inr (s', view) \<Longrightarrow>
     mail_reachable env \<lparr>msy_state = s', msy_log = log1\<rparr>"

definition refused :: "submission \<Rightarrow> bool" where
  "refused s \<longleftrightarrow> (case sub_outcome s of Some (Graph_failed _) \<Rightarrow> True | _ \<Rightarrow> False)"

text \<open>What the delivery of a Decision says about the messages of that Decision.\<close>

definition delivery_fits :: "email_delivery option \<Rightarrow> submission list \<Rightarrow> bool" where
  "delivery_fits delivery subs \<longleftrightarrow>
     (case delivery of
        None \<Rightarrow> subs = []
      | Some d \<Rightarrow>
          ed_provider_message_id d = None \<and> ed_internet_message_id d = None \<and>
          ed_send_status d \<noteq> SS_sent_confirmed \<and>
          (if ed_send_status d = SS_draft \<or> ed_send_status d = SS_failed then list_all refused subs
           else subs \<noteq> [] \<and> list_all refused (butlast subs) \<and>
             ed_correlation_id d = Some (sub_correlation (last subs)) \<and>
             (ed_send_status d = SS_accepted \<longrightarrow> sub_outcome (last subs) = Some Graph_returned) \<and>
             (ed_send_status d = SS_uncertain \<longrightarrow>
                (\<exists>code. sub_outcome (last subs) = Some (Graph_uncertain code)))))"

definition of_decision :: "string \<Rightarrow> submission list \<Rightarrow> submission list" where
  "of_decision i = filter (\<lambda>s. sub_decision s = i)"

definition mail_inv :: "mail_db \<Rightarrow> submission list \<Rightarrow> bool" where
  "mail_inv m log1 \<longleftrightarrow>
     mail_ok m \<and> distinct (map sub_correlation log1) \<and>
     (\<forall>s \<in> set log1. er_reviewed_by (sub_content s) \<noteq> None) \<and>
     (\<forall>i. delivery_fits (delivery_at m i) (of_decision i log1))"

lemma mail_inv_becomes:
  assumes "mail_inv m log1" and "delivery_becomes m m' i d"
    and "delivery_fits (Some d) (of_decision i log1)"
  shows "mail_inv m' log1"
  using assms by (simp add: mail_inv_def delivery_becomes_def)

lemma open_email_inv:
  assumes inv: "mail_inv (snd (snd s)) log1" and run: "open_email env s i now = Inr (s', view)"
  shows "mail_inv (snd (snd s')) log1"
proof -
  obtain w x m where s: "s = (w, x, m)" by (cases s)
  have ok: "mail_ok m" using inv by (simp add: mail_inv_def s)
  obtain current where cur: "get_current m i = Inr current"
    using run by (auto simp: open_email_def s bindR_Inr_iff)
  show ?thesis
  proof (cases current)
    case (Some p)
    with run cur inv show ?thesis by (cases p) (simp add: open_email_def s)
  next
    case None
    from run [unfolded open_email_def] cur None obtain r d m' w' where
      ins: "insert_initial x m r d = Inr m'" and s': "s' = (w', x, m')"
      and d: "ed_decision_id d = i" "ed_send_status d = SS_draft" "ed_provider_message_id d = None"
        "ed_internet_message_id d = None"
      by (auto simp: s bindR_Inr_iff Let_def mk_email_delivery_def require_Inr_iff)
    from insert_initial_at [OF ok ins] d(1) have at: "delivery_at m i = None"
      and becomes: "delivery_becomes m m' i d" by (simp_all add: delivery_becomes_def)
    have "delivery_fits (delivery_at m i) (of_decision i log1)"
      using inv by (simp add: mail_inv_def s)
    then have "delivery_fits (Some d) (of_decision i log1)" using at d by (simp add: delivery_fits_def)
    from mail_inv_becomes [OF _ becomes this] inv show ?thesis by (simp add: s s')
  qed
qed

lemma fits_at: "mail_inv m log1 \<Longrightarrow> delivery_at m i = Some d \<Longrightarrow> delivery_fits (Some d) (of_decision i log1)"
  unfolding mail_inv_def by metis

lemma fits_draft:
  "delivery_fits (Some d) subs \<Longrightarrow> never_submitted d \<Longrightarrow> delivery_fits (Some (back_to_draft d now)) subs"
  by (auto simp: delivery_fits_def never_submitted_def back_to_draft_def)

lemma fits_review:
  "delivery_fits (Some d) subs \<Longrightarrow>
   delivery_fits (Some (d\<lparr>ed_reviewed_revision := k, ed_status_updated_at := t\<rparr>)) subs"
  by (simp add: delivery_fits_def)

lemma mk_email_revision_Inr:
  "mk_email_revision r = Inr r' \<Longrightarrow>
   er_decision_id r' = er_decision_id r \<and> er_revision r' = er_revision r"
  by (auto simp: mk_email_revision_def result_simps)

lemma the_won_Inr: "the_won r = Inr x \<longleftrightarrow> r = Inr (Some x)"
  by (auto simp: the_won_def result_simps)

lemma one_or_none_in: "one_or_none xs = Inr (Some y) \<Longrightarrow> y \<in> set xs"
  by (cases xs rule: remdups_adj.cases) (simp_all add: one_or_none_def)

lemma get_current_ids:
  assumes "get_current m i = Inr (Some (r, d))"
  shows "er_decision_id r = i \<and> ed_decision_id d = i \<and> er_email_id r = ed_email_id d"
proof -
  from assms obtain y where y: "one_or_none (filter (\<lambda>y. yrow_decision_id y = i) (mdb_deliveries m)) =
      Inr (Some y)" "delivery_from_row y = Inr d"
    and rd: "er_email_id r = ed_email_id d" "er_decision_id r = ed_decision_id d"
    by (auto simp: get_current_def result_simps split: option.splits)
  from one_or_none_in [OF y(1)] have "yrow_decision_id y = i" by simp
  moreover have "ed_decision_id d = yrow_decision_id y"
    using y(2) by (auto simp: delivery_from_row_def result_simps)
  ultimately show ?thesis using rd by simp
qed

lemma save_email_inv:
  assumes inv: "mail_inv (snd (snd s)) log1"
    and run: "save_email env busy s i revision subject body actor now = Inr (s', view)"
  shows "mail_inv (snd (snd s')) log1"
proof -
  obtain w x m where s: "s = (w, x, m)" by (cases s)
  have ok: "mail_ok m" using inv by (simp add: mail_inv_def s)
  from run obtain w' m' previous d changed r where cur: "get_current m i = Inr (Some (previous, d))"
    and mk: "mk_email_revision r = Inr changed" "er_decision_id r = er_decision_id previous"
    and app: "append_email_revision busy x m changed revision = Inr (Some m')"
    and s': "s' = (w', x, m')"
    by (auto simp: save_email_def s bindR_Inr_iff the_or_Inr_iff the_won_Inr)
  have i: "er_decision_id changed = i"
    using mk mk_email_revision_Inr [OF mk(1)] get_current_ids [OF cur] by simp
  from append_email_revision_effect [OF ok app] obtain e where e: "delivery_at m i = Some e"
    "never_submitted e" "delivery_becomes m m' i (back_to_draft e (er_edited_at changed))"
    by (auto simp: i)
  from inv have "mail_inv m log1" by (simp add: s)
  from mail_inv_becomes [OF this e(3) fits_draft [OF fits_at [OF this e(1)] e(2)]]
  show ?thesis by (simp add: s')
qed

lemma review_email_inv:
  assumes inv: "mail_inv (snd (snd s)) log1"
    and run: "review_email env busy s i revision actor now = Inr (s', view)"
  shows "mail_inv (snd (snd s')) log1"
proof -
  obtain w x m where s: "s = (w, x, m)" by (cases s)
  have m: "mail_inv m log1" and ok: "mail_ok m" using inv by (simp_all add: mail_inv_def s)
  from run obtain w1 decision previous d where cur: "get_current m i = Inr (Some (previous, d))"
    and cases_: "s' = s \<or> (\<exists>m'. s' = (w1, x, m') \<and>
      mark_reviewed busy m (previous\<lparr>er_reviewed_by := Some actor, er_reviewed_at := Some now\<rparr>)
        (d\<lparr>ed_reviewed_revision := Some revision, ed_status_updated_at := now\<rparr>) revision =
        Inr (Some m'))"
    by (auto simp: review_email_def s bindR_Inr_iff the_or_Inr_iff the_won_Inr Let_def
        split: if_splits)
  from cases_ show ?thesis
  proof
    assume "s' = s"
    with inv show ?thesis by simp
  next
    assume "\<exists>m'. s' = (w1, x, m') \<and>
      mark_reviewed busy m (previous\<lparr>er_reviewed_by := Some actor, er_reviewed_at := Some now\<rparr>)
        (d\<lparr>ed_reviewed_revision := Some revision, ed_status_updated_at := now\<rparr>) revision =
        Inr (Some m')"
    then obtain m' where s': "s' = (w1, x, m')" and mark: "mark_reviewed busy m
        (previous\<lparr>er_reviewed_by := Some actor, er_reviewed_at := Some now\<rparr>)
        (d\<lparr>ed_reviewed_revision := Some revision, ed_status_updated_at := now\<rparr>) revision =
        Inr (Some m')" by blast
    from mark_reviewed_effect [OF ok mark] get_current_ids [OF cur] consider
        "m' = m"
      | e k t where "delivery_at m i = Some e" "delivery_becomes m m' i
          (e\<lparr>ed_reviewed_revision := Some k, ed_status_updated_at := t\<rparr>)"
      by auto
    then show ?thesis
    proof cases
      case 1
      with m show ?thesis by (simp add: s')
    next
      case 2
      from mail_inv_becomes [OF m 2(2) fits_review [OF fits_at [OF m 2(1)]]]
      show ?thesis by (simp add: s')
    qed
  qed
qed

lemma send_records_Inr:
  assumes "send_records env (w, x, m) i revision actor = Inr (w', r, d)"
  shows "get_current m i = Inr (Some (r, d)) \<and> er_revision r = revision \<and>
    er_reviewed_by r \<noteq> None \<and> ed_reviewed_revision d = Some revision"
  using assms by (auto simp: send_records_def bindR_Inr_iff the_or_Inr_iff require_Inr_iff)

lemma of_decision_append:
  "of_decision j (log1 @ [sub]) = of_decision j log1 @ (if sub_decision sub = j then [sub] else [])"
  by (simp add: of_decision_def)

lemma send_claim_inv:
  assumes inv: "mail_inv (snd (snd s)) log1"
    and run: "send_claim env busy s i revision actor c now = Inr (s', Submit c content)"
    and fresh: "c \<notin> sub_correlation ` set log1"
  shows "mail_inv (snd (snd s')) (log1 @
    [\<lparr>sub_correlation = c, sub_decision = i, sub_content = content, sub_outcome = None\<rparr>])"
proof -
  obtain w x m where s: "s = (w, x, m)" by (cases s)
  have m: "mail_inv m log1" and ok: "mail_ok m" using inv by (simp_all add: mail_inv_def s)
  define sub where "sub = \<lparr>sub_correlation = c, sub_decision = i, sub_content = content,
    sub_outcome = None\<rparr>"
  from run obtain w' d m' where rec: "send_records env (w, x, m) i revision actor = Inr (w', content, d)"
    and claim: "claim_send busy m (d\<lparr>ed_send_status := SS_submitting, ed_provider_message_id := None,
        ed_internet_message_id := None, ed_correlation_id := Some c, ed_status_updated_at := now,
        ed_failure_code := None\<rparr>) revision = Inr (Some m')"
    and s': "s' = (w', x, m')"
    by (auto simp: send_claim_def s bindR_Inr_iff Let_def split: if_splits option.splits)
  note r = send_records_Inr [OF rec]
  from get_current_some [OF ok conjunct1 [OF r]] have at: "delivery_at m i = Some d" by simp
  define d' where "d' = d\<lparr>ed_send_status := SS_submitting, ed_provider_message_id := None,
    ed_internet_message_id := None, ed_correlation_id := Some c, ed_status_updated_at := now,
    ed_failure_code := None\<rparr>"
  have d': "ed_email_id d' = ed_email_id d" "ed_decision_id d' = ed_decision_id d"
    by (simp_all add: d'_def)
  from claim_send_effect [OF ok at d' claim [folded d'_def]]
  have was: "ed_send_status d = SS_draft \<or> ed_send_status d = SS_failed"
    and becomes: "delivery_becomes m m' i d'" by simp_all
  have all: "list_all refused (of_decision i log1)"
    using fits_at [OF m at] was by (auto simp: delivery_fits_def split: if_splits)
  have "delivery_fits (delivery_at m' j) (of_decision j (log1 @ [sub]))" for j
  proof (cases "j = i")
    case True
    then show ?thesis using becomes all
      by (simp add: delivery_becomes_def of_decision_append delivery_fits_def d'_def sub_def)
  next
    case False
    then show ?thesis using becomes m
      by (simp add: delivery_becomes_def of_decision_append sub_def mail_inv_def)
  qed
  moreover have "mail_ok m'" using becomes by (simp add: delivery_becomes_def)
  ultimately have "mail_inv m' (log1 @ [sub])"
    using m fresh r by (auto simp: mail_inv_def sub_def)
  then show ?thesis by (simp add: s' sub_def)
qed

text \<open>A message without an answer is the last one of its Decision, and the delivery waits for it.\<close>

lemma unanswered_last:
  assumes inv: "mail_inv m (pre @ sub # post)" and "sub_outcome sub = None"
  obtains d where "delivery_at m (sub_decision sub) = Some d"
    and "ed_send_status d = SS_submitting" and "ed_correlation_id d = Some (sub_correlation sub)"
    and "ed_provider_message_id d = None" and "ed_internet_message_id d = None"
    and "list_all refused (of_decision (sub_decision sub) pre)"
    and "of_decision (sub_decision sub) post = []"
proof -
  let ?i = "sub_decision sub"
  have subs: "of_decision ?i (pre @ sub # post) = of_decision ?i pre @ sub # of_decision ?i post"
    by (simp add: of_decision_def)
  have fits: "delivery_fits (delivery_at m ?i) (of_decision ?i pre @ sub # of_decision ?i post)"
    using inv subs by (metis mail_inv_def)
  then obtain d where at: "delivery_at m ?i = Some d" by (auto simp: delivery_fits_def split: option.splits)
  have no: "\<not> refused sub" using assms(2) by (simp add: refused_def)
  with fits at have st: "ed_send_status d \<noteq> SS_draft" "ed_send_status d \<noteq> SS_failed"
    by (auto simp: delivery_fits_def)
  have last: "of_decision ?i post = []"
  proof (rule ccontr)
    assume "of_decision ?i post \<noteq> []"
    then have "sub \<in> set (butlast (of_decision ?i pre @ sub # of_decision ?i post))"
      by (simp add: butlast_append)
    with fits at st no show False by (auto simp: delivery_fits_def list_all_iff)
  qed
  with fits at st have all: "list_all refused (of_decision ?i pre)"
    and c: "ed_correlation_id d = Some (sub_correlation sub)"
    and "ed_send_status d \<noteq> SS_accepted" "ed_send_status d \<noteq> SS_uncertain"
      "ed_send_status d \<noteq> SS_sent_confirmed"
    and ids: "ed_provider_message_id d = None" "ed_internet_message_id d = None"
    using assms(2) by (auto simp: delivery_fits_def)
  with st have "ed_send_status d = SS_submitting" by (cases "ed_send_status d") simp_all
  from that [OF at this c ids all last] show thesis .
qed

lemma email_transition_effect:
  assumes ok: "mail_ok m" and at: "delivery_at m i = Some d"
    and run: "email_transition busy (w, x, m) i c expected status code now = Inr (s', view)"
  shows "s' = (w, x, m) \<or> (\<exists>m'. s' = (w, x, m') \<and> ed_correlation_id d = Some c \<and>
    ed_send_status d \<in> set expected \<and>
    delivery_becomes m m' i (d\<lparr>ed_send_status := status, ed_status_updated_at := now,
      ed_failure_code := code\<rparr>))"
proof -
  define d' where "d' = d\<lparr>ed_send_status := status, ed_status_updated_at := now,
    ed_failure_code := code\<rparr>"
  from run obtain r e where cur: "get_current m i = Inr (Some (r, e))"
    by (auto simp: email_transition_def bindR_Inr_iff the_or_Inr_iff)
  from get_current_some [OF ok cur] at have "e = d" by simp
  with run cur consider "s' = (w, x, m)"
    | m' where "s' = (w, x, m')" "update_delivery_state busy m d' c expected = Inr (Some m')"
    by (auto simp: email_transition_def bindR_Inr_iff Let_def d'_def split: if_splits option.splits)
  then show ?thesis
  proof cases
    case 2
    have ids: "ed_email_id d' = ed_email_id d" "ed_decision_id d' = ed_decision_id d"
      by (simp_all add: d'_def)
    from update_delivery_state_effect [OF ok at ids 2(2)] 2(1) show ?thesis by (simp add: d'_def)
  qed simp
qed

lemma of_decision_answer:
  "of_decision j (pre @ sub\<lparr>sub_outcome := a\<rparr> # post) =
    (if sub_decision sub = j
     then of_decision j pre @ sub\<lparr>sub_outcome := a\<rparr> # of_decision j post
     else of_decision j (pre @ sub # post))"
  by (simp add: of_decision_def)

lemma answer_inv:
  assumes inv: "mail_inv (snd (snd s)) (pre @ sub # post)" and none: "sub_outcome sub = None"
    and run: "send_finish busy s (sub_decision sub) (sub_correlation sub) answer now = result"
  shows "mail_inv (snd (snd (case result of Inl _ \<Rightarrow> s | Inr (s', _) \<Rightarrow> s')))
    (pre @ sub\<lparr>sub_outcome := Some answer\<rparr> # post)"
proof -
  obtain w x m where s: "s = (w, x, m)" by (cases s)
  let ?i = "sub_decision sub"
  let ?log = "pre @ sub\<lparr>sub_outcome := Some answer\<rparr> # post"
  have m: "mail_inv m (pre @ sub # post)" and ok: "mail_ok m" using inv by (simp_all add: mail_inv_def s)
  obtain d where d: "delivery_at m ?i = Some d" "ed_send_status d = SS_submitting"
    "ed_correlation_id d = Some (sub_correlation sub)"
    "ed_provider_message_id d = None" "ed_internet_message_id d = None"
    "list_all refused (of_decision ?i pre)" "of_decision ?i post = []"
    using unanswered_last [OF m none] by metis
  have log: "of_decision ?i ?log = of_decision ?i pre @ [sub\<lparr>sub_outcome := Some answer\<rparr>]"
    by (simp add: of_decision_answer d(7))
  have keep: "mail_inv m' ?log"
    if "mail_ok m'" "delivery_fits (delivery_at m' ?i) (of_decision ?i ?log)"
      "\<And>j. j \<noteq> ?i \<Longrightarrow> delivery_at m' j = delivery_at m j" for m'
  proof -
    have "delivery_fits (delivery_at m' j) (of_decision j ?log)" for j
      using that m by (cases "j = ?i") (auto simp: mail_inv_def of_decision_answer)
    with that(1) m show ?thesis by (auto simp: mail_inv_def)
  qed
  have same: "mail_inv m ?log"
    using d by (intro keep [OF ok]) (simp_all add: log delivery_fits_def)
  have after: "mail_inv (snd (snd s')) ?log"
    if t: "email_transition busy (w, x, m) ?i (sub_correlation sub) [SS_submitting] status code now =
        Inr (s', view)"
      and fits: "delivery_fits (Some (d\<lparr>ed_send_status := status, ed_status_updated_at := now,
        ed_failure_code := code\<rparr>)) (of_decision ?i ?log)" for status code s' view
    using email_transition_effect [OF ok d(1) t]
  proof (elim disjE exE conjE)
    assume "s' = (w, x, m)"
    with same show ?thesis by simp
  next
    fix m' assume "s' = (w, x, m')"
      "delivery_becomes m m' ?i (d\<lparr>ed_send_status := status, ed_status_updated_at := now,
        ed_failure_code := code\<rparr>)"
    with fits show ?thesis by (auto simp: delivery_becomes_def intro!: keep)
  qed
  show ?thesis
  proof (cases result)
    case (Inl e)
    with same show ?thesis by (simp add: s)
  next
    case (Inr p)
    obtain s' view where p: "p = (s', view)" by (cases p)
    note facts = delivery_fits_def refused_def d(3-6)
    have "mail_inv (snd (snd s')) ?log"
    proof (cases answer)
      case Graph_returned
      with run Inr p have t: "email_transition busy (w, x, m) ?i (sub_correlation sub)
          [SS_submitting] SS_accepted None now = Inr (s', view)" by (simp add: s)
      show ?thesis by (rule after [OF t]) (simp add: facts log [unfolded Graph_returned] Graph_returned)
    next
      case (Graph_failed code)
      with run Inr p have t: "email_transition busy (w, x, m) ?i (sub_correlation sub)
          [SS_submitting] SS_failed (Some code) now = Inr (s', view)" by (simp add: s)
      show ?thesis by (rule after [OF t]) (simp add: facts log [unfolded Graph_failed] Graph_failed)
    next
      case (Graph_uncertain code)
      with run Inr p have t: "email_transition busy (w, x, m) ?i (sub_correlation sub)
          [SS_submitting] SS_uncertain (Some code) now = Inr (s', view)" by (simp add: s)
      show ?thesis by (rule after [OF t]) (simp add: facts log [unfolded Graph_uncertain] Graph_uncertain)
    qed
    with Inr p show ?thesis by simp
  qed
qed

text \<open>A status check never gets past its guard: no delivery ever has a provider id.\<close>

lemma check_needs_provider_id:
  assumes inv: "mail_inv (snd (snd s0)) log0"
  shows "check_send_status env busy s0 s i actor get_message now \<noteq> Inr (s', view)"
proof
  assume run: "check_send_status env busy s0 s i actor get_message now = Inr (s', view)"
  obtain w x m where s: "s0 = (w, x, m)" by (cases s0)
  have m: "mail_inv m log0" and ok: "mail_ok m" using inv by (simp_all add: mail_inv_def s)
  from run obtain r d where cur: "get_current m i = Inr (Some (r, d))"
    by (auto simp: check_send_status_def s bindR_Inr_iff the_or_Inr_iff)
  from get_current_some [OF ok cur] have "delivery_at m i = Some d" by simp
  from fits_at [OF m this] have "ed_provider_message_id d = None" "ed_send_status d \<noteq> SS_sent_confirmed"
    by (simp_all add: delivery_fits_def)
  with run cur show False
    by (auto simp: check_send_status_def s bindR_Inr_iff)
qed

lemma mail_reachable_inv: "mail_reachable env sys \<Longrightarrow> mail_inv (snd (snd (msy_state sys))) (msy_log sys)"
proof (induction rule: mail_reachable.induct)
  case (mail_start w x)
  show ?case by (simp add: mail_inv_def mail_ok_def delivery_at_def delivery_fits_def of_decision_def)
next
  case (mail_others w x m log1 w' x')
  then show ?case by simp
next
  case (mail_open s log1 i now s' view)
  then show ?case using open_email_inv [of s log1] by simp
next
  case (mail_save s log1 busy i revision subject body actor now s' view)
  then show ?case using save_email_inv [of s log1] by simp
next
  case (mail_review s log1 busy i revision actor now s' view)
  then show ?case using review_email_inv [of s log1] by simp
next
  case (mail_send s log1 busy i revision actor c now s' content)
  then show ?case using send_claim_inv [of s log1] by simp
next
  case (mail_answer s pre sub post busy answer now result)
  then show ?case using answer_inv [of s pre sub post busy answer now result] by simp
next
  case (mail_check s0 log0 s log1 busy i actor get_message now s' view)
  then show ?case using check_needs_provider_id [of s0 log0] by simp
qed

section \<open>Properties\<close>

text \<open>The earlier of two elements a filter keeps is not its last one.\<close>

lemma earlier_in_butlast:
  assumes "a < b" and "b < length xs" and "P (xs ! a)" and "P (xs ! b)"
  shows "xs ! a \<in> set (butlast (filter P xs))"
proof -
  have "filter P (drop b xs) \<noteq> []"
    using assms(2,4) by (auto simp: filter_empty_conv Cons_nth_drop_Suc [symmetric])
  then have "butlast (filter P xs) = filter P (take b xs) @ butlast (filter P (drop b xs))"
    by (metis append_take_drop_id butlast_append filter_append)
  moreover have "xs ! a \<in> set (take b xs)"
    using assms(1,2) by (metis in_set_conv_nth length_take min.strict_order_iff nth_take
        order_less_trans min_less_iff_conj)
  ultimately show ?thesis using assms(3) by simp
qed

text \<open>
  C38. The supplier email of a Decision is sent at most once.  However the calls interleave and
  whatever Graph answers, when: a message of a Decision follows an earlier message of the same
  Decision in the log of what was handed to Graph only when Graph refused the earlier one, never
  when it took it, when the outcome is uncertain, or while it is still out; and every message handed
  to Graph is a reviewed revision.  The runs are those in which no presenter retention deletes a
  Decision, with its deliveries.
\<close>
theorem supplier_email_is_sent_at_most_once:
  assumes "mail_reachable env sys"
  shows "(\<forall>a b. a < b \<and> b < length (msy_log sys) \<and>
            sub_decision (msy_log sys ! a) = sub_decision (msy_log sys ! b) \<longrightarrow>
            (\<exists>code. sub_outcome (msy_log sys ! a) = Some (Graph_failed code))) \<and>
    (\<forall>s \<in> set (msy_log sys). er_reviewed_by (sub_content s) \<noteq> None)"
proof -
  let ?log = "msy_log sys" and ?m = "snd (snd (msy_state sys))"
  have inv: "mail_inv ?m ?log" by (rule mail_reachable_inv [OF assms])
  have "\<exists>code. sub_outcome (?log ! a) = Some (Graph_failed code)"
    if ab: "a < b" "b < length ?log" "sub_decision (?log ! a) = sub_decision (?log ! b)" for a b
  proof -
    let ?i = "sub_decision (?log ! b)"
    have "delivery_fits (delivery_at ?m ?i) (of_decision ?i ?log)"
      using inv by (simp add: mail_inv_def)
    moreover have early: "?log ! a \<in> set (butlast (of_decision ?i ?log))"
      using ab unfolding of_decision_def by (intro earlier_in_butlast) simp_all
    ultimately have "refused (?log ! a)"
      using in_set_butlastD [OF early]
      by (auto simp: delivery_fits_def list_all_iff split: option.splits if_splits)
    then show ?thesis by (auto simp: refused_def split: option.splits graph_outcome.splits)
  qed
  then show ?thesis using inv unfolding mail_inv_def by blast
qed

text \<open>
  No delivery of a run is ever \<open>sent-confirmed\<close>, though the code has a status for it: \<open>send\<close> stores no
  provider id with an accepted message, and a status check needs one.
\<close>

lemma never_sent_confirmed:
  assumes "mail_reachable env sys" and "delivery_at (snd (snd (msy_state sys))) i = Some d"
  shows "ed_send_status d \<noteq> SS_sent_confirmed \<and> ed_provider_message_id d = None"
  using fits_at [OF mail_reachable_inv [OF assms(1)] assms(2)] by (simp add: delivery_fits_def)

text \<open>A run: opened, reviewed, sent, refused by Graph, sent again.\<close>

definition draft_example :: execution_action where
  "draft_example =
     \<lparr>ea_action_id = ''DRAFT-ACTION'', ea_case_id = ''CASE'', ea_decision_id = ''DECISION'',
      ea_kind = PREPARE_ALPHA_RECOVERY_DRAFT, ea_owner_kind = XO_PERSONA,
      ea_owner_persona_id = Some ''RL-PERSONA-ALEX'', ea_status = XS_PLANNED,
      ea_created_at = 300, ea_draft_artifact_id = Some ''ARTIFACT'', ea_purpose = Some ''draft'',
      ea_expected_result = None, ea_execution_mode = Some XM_communication_preparation\<rparr>"

definition transfer_example :: execution_action where
  "transfer_example =
     draft_example\<lparr>ea_action_id := ''TRANSFER-ACTION'', ea_kind := TRANSFER_DALLAS_TO_CHICAGO,
       ea_draft_artifact_id := None, ea_purpose := Some ''transfer''\<rparr>"

definition planned_example_db :: execution_db where
  "planned_example_db =
     \<lparr>edb_actions = [action_row_of draft_example, action_row_of transfer_example],
      edb_projections = [projection_row_of draft_example 0, projection_row_of transfer_example 0],
      edb_drafts = [draft_row_of \<lparr>da_artifact_id = ''ARTIFACT'', da_action_id = ''DRAFT-ACTION'',
        da_decision_id = ''DECISION'', da_artifact_kind = ''alpha_recovery_request'',
        da_created_at = 300, da_subject = None, da_body = None, da_sent = False\<rparr>],
      edb_attempts = [], edb_events = []\<rparr>"

definition example_mail_env :: "unit mail_env" where
  "example_mail_env =
     \<lparr>me_cases = steady_case,
      me_projection = (\<lambda>w i. Inr \<lparr>cpj_case =
          \<lparr>ci_case_id = ''CASE'', ci_template_id = ''RL-001'', ci_purpose = CP_REHEARSAL,
           ci_runtime_mode = RM_LIVE, ci_scenario_effective_time = 0,
           ci_scenario_timezone = ''America/Chicago'', ci_status = CS_AWAITING_DECISION,
           ci_workflow_version = Some WV_INDEPENDENT_FINANCE, ci_supplier_email = None,
           ci_presenter_run_id = None\<rparr>,
        cpj_current_analysis_id = Some ''ANALYSIS'',
        cpj_current_analysis_hash = Some (replicate 64 CHR ''0''),
        cpj_current_decision_id = Some ''DECISION'', cpj_display_status = None\<rparr>),
      me_from_address = ''Alex@example.com'', me_to_address = ''alpha@example.com'',
      me_configured_actor = alex_identity, me_send_enabled = True, me_uuid5_url = id\<rparr>"

definition no_mail :: "unit mail_state" where
  "no_mail = ((), planned_example_db, \<lparr>mdb_deliveries = [], mdb_revisions = []\<rparr>)"

definition the_submitted :: "string \<Rightarrow> send_start \<Rightarrow> email_revision result" where
  "the_submitted c start =
     (case start of
        Submit c' r \<Rightarrow> if c' = c then Inr r else Inl AssertionError
      | SendAnswer _ \<Rightarrow> Inl AssertionError)"

lemma the_submitted_Inr: "the_submitted c start = Inr r \<longleftrightarrow> start = Submit c r"
  by (auto simp: the_submitted_def split: send_start.splits)

definition example_run :: "(unit mail_state \<times> email_revision \<times> email_revision) result" where
  "example_run =
     bindR (open_email example_mail_env no_mail ''DECISION'' 500) (\<lambda>(s1, _).
     bindR (review_email example_mail_env False s1 ''DECISION'' 1 alex_identity 600) (\<lambda>(s2, _).
     bindR (send_claim example_mail_env False s2 ''DECISION'' 1 alex_identity ''C1'' 700) (\<lambda>(s3, sent1).
     bindR (send_finish False s3 ''DECISION'' ''C1'' (Graph_failed ''graph_send_failed'') 701) (\<lambda>(s4, _).
     bindR (send_claim example_mail_env False s4 ''DECISION'' 1 alex_identity ''C2'' 800) (\<lambda>(s5, sent2).
     bindR (the_submitted ''C1'' sent1) (\<lambda>r1.
     bindR (the_submitted ''C2'' sent2) (\<lambda>r2. Inr (s5, r1, r2))))))))"

lemma not_isl_iff: "\<not> isl r \<longleftrightarrow> (\<exists>x. r = Inr x)"
  by (cases r) auto

lemma example_run_reachable:
  "\<exists>s5 r1 r2. mail_reachable example_mail_env
    \<lparr>msy_state = s5, msy_log =
      [\<lparr>sub_correlation = ''C1'', sub_decision = ''DECISION'', sub_content = r1,
        sub_outcome = Some (Graph_failed ''graph_send_failed'')\<rparr>,
       \<lparr>sub_correlation = ''C2'', sub_decision = ''DECISION'', sub_content = r2,
        sub_outcome = None\<rparr>]\<rparr>"
proof -
  have "\<not> isl example_run" by code_simp
  then obtain s1 v1 s2 v2 s3 r1 s4 v4 s5 r2 where
    run: "open_email example_mail_env no_mail ''DECISION'' 500 = Inr (s1, v1)"
    "review_email example_mail_env False s1 ''DECISION'' 1 alex_identity 600 = Inr (s2, v2)"
    "send_claim example_mail_env False s2 ''DECISION'' 1 alex_identity ''C1'' 700 =
       Inr (s3, Submit ''C1'' r1)"
    "send_finish False s3 ''DECISION'' ''C1'' (Graph_failed ''graph_send_failed'') 701 = Inr (s4, v4)"
    "send_claim example_mail_env False s4 ''DECISION'' 1 alex_identity ''C2'' 800 =
       Inr (s5, Submit ''C2'' r2)"
    unfolding not_isl_iff example_run_def
    by (auto simp: bindR_Inr_iff the_submitted_Inr simp del: send_finish.simps split_paired_Ex)
  have "mail_reachable example_mail_env \<lparr>msy_state = no_mail, msy_log = []\<rparr>"
    unfolding no_mail_def by (rule mail_start)
  from mail_review [OF mail_open [OF this run(1)] run(2)]
  have "mail_reachable example_mail_env \<lparr>msy_state = s2, msy_log = []\<rparr>" .
  from mail_send [OF this run(3)]
  have "mail_reachable example_mail_env \<lparr>msy_state = s3, msy_log = []
    @ \<lparr>sub_correlation = ''C1'', sub_decision = ''DECISION'', sub_content = r1, sub_outcome = None\<rparr> # []\<rparr>"
    by simp
  from mail_answer [OF this, of False "Graph_failed ''graph_send_failed''" 701] run(4)
  have "mail_reachable example_mail_env \<lparr>msy_state = s4, msy_log = [\<lparr>sub_correlation = ''C1'',
    sub_decision = ''DECISION'', sub_content = r1,
    sub_outcome = Some (Graph_failed ''graph_send_failed'')\<rparr>]\<rparr>" by simp
  from mail_send [OF this run(5)] show ?thesis
    by (intro exI [of _ s5] exI [of _ r1] exI [of _ r2]) simp
qed

lemma supplier_email_is_sent_at_most_once_witness:
  "\<exists>sys. mail_reachable example_mail_env sys \<and> length (msy_log sys) = 2 \<and>
    sub_outcome (msy_log sys ! 1) = None \<and>
    (\<exists>code. sub_outcome (msy_log sys ! 0) = Some (Graph_failed code))"
proof -
  obtain sys where sys: "mail_reachable example_mail_env sys" "length (msy_log sys) = 2"
    "sub_decision (msy_log sys ! 0) = sub_decision (msy_log sys ! 1)"
    "sub_outcome (msy_log sys ! 1) = None"
  proof -
    obtain s5 r1 r2 where r: "mail_reachable example_mail_env
      \<lparr>msy_state = s5, msy_log =
        [\<lparr>sub_correlation = ''C1'', sub_decision = ''DECISION'', sub_content = r1,
          sub_outcome = Some (Graph_failed ''graph_send_failed'')\<rparr>,
         \<lparr>sub_correlation = ''C2'', sub_decision = ''DECISION'', sub_content = r2,
          sub_outcome = None\<rparr>]\<rparr>"
      using example_run_reachable by blast
    show thesis by (rule that [OF r]) simp_all
  qed
  have "\<exists>code. sub_outcome (msy_log sys ! 0) = Some (Graph_failed code)"
    using conjunct1 [OF supplier_email_is_sent_at_most_once [OF sys(1)], rule_format, of 0 1] sys(2,3)
    by simp
  with sys show ?thesis by blast
qed

end
