(* ===== verification/Planner.thy ===== *)
theory Planner
  imports Execution_Store
begin

text \<open>
  The planner of \<open>services/execution/planner.py\<close>: which actions a response option needs, and
  the actions of an approved Decision with their display texts.

  The name-based identifier \<open>uuid5(NAMESPACE_URL, _)\<close> and the JSON parser of the stored
  snapshot are parameters.
\<close>

section \<open>Formatting\<close>

text \<open>Decimal digits of a nonnegative integer, \<open>str\<close> of an integer and \<open>f"{n:,}"\<close>.\<close>

definition digit_char :: "int \<Rightarrow> char" where
  "digit_char d = char_of (48 + d)"

function decimal_digits :: "int \<Rightarrow> string" where
  "decimal_digits n =
     (if n < 10 then [digit_char n] else decimal_digits (n div 10) @ [digit_char (n mod 10)])"
  by pat_completeness auto
termination by (relation "measure nat") auto

declare decimal_digits.simps [simp del]

definition py_str_int :: "int \<Rightarrow> string" where
  "py_str_int n = (if n < 0 then CHR ''-'' # decimal_digits (- n) else decimal_digits n)"

fun group_reversed :: "string \<Rightarrow> string" where
  "group_reversed (a # b # c # d # cs) = a # b # c # CHR '','' # group_reversed (d # cs)"
| "group_reversed cs = cs"

definition py_thousands :: "int \<Rightarrow> string" where
  "py_thousands n =
     (let ds = rev (group_reversed (rev (decimal_digits \<bar>n\<bar>))) in
      if n < 0 then CHR ''-'' # ds else ds)"

text \<open>\<open>f"{d:.2f}"\<close> of a \<open>Decimal\<close>: rounded half to even.\<close>

definition round_half_even :: "rat \<Rightarrow> int" where
  "round_half_even q =
     (let f = \<lfloor>q\<rfloor>; r = q - of_int f in
      if r < 1 / 2 then f else if 1 / 2 < r then f + 1 else if even f then f else f + 1)"

definition py_fixed2 :: "rat \<Rightarrow> string" where
  "py_fixed2 q =
     (let c = round_half_even (\<bar>q\<bar> * 100);
          ds = decimal_digits (c div 100) @ ''.'' @
               [digit_char ((c mod 100) div 10), digit_char (c mod 10)] in
      if q < 0 then CHR ''-'' # ds else ds)"

text \<open>The year, month and day of an ordinal, as \<open>date.fromordinal\<close> computes them.\<close>

definition is_leap :: "int \<Rightarrow> bool" where
  "is_leap y \<longleftrightarrow> y mod 4 = 0 \<and> (y mod 100 \<noteq> 0 \<or> y mod 400 = 0)"

definition month_lengths :: "bool \<Rightarrow> int list" where
  "month_lengths leap = [31, if leap then 29 else 28, 31, 30, 31, 30, 31, 31, 30, 31, 30, 31]"

fun month_and_day :: "int \<Rightarrow> int list \<Rightarrow> int \<Rightarrow> int \<times> int" where
  "month_and_day m [] n = (m, n + 1)"
| "month_and_day m [_] n = (m, n + 1)"
| "month_and_day m (len # lens) n =
     (if n < len then (m, n + 1) else month_and_day (m + 1) lens (n - len))"

definition ymd_of_ordinal :: "date \<Rightarrow> int \<times> int \<times> int" where
  "ymd_of_ordinal ordinal =
     (let n = ordinal - 1;
          n400 = n div 146097; a = n mod 146097;
          n100 = a div 36524; b = a mod 36524;
          n4 = b div 1461; c = b mod 1461;
          n1 = c div 365; d = c mod 365;
          year = n400 * 400 + 1 + n100 * 100 + n4 * 4 + n1 in
      if n1 = 4 \<or> n100 = 4 then (year - 1, 12, 31)
      else (year, month_and_day 1 (month_lengths (is_leap year)) d))"

definition month_name :: "int \<Rightarrow> string" where
  "month_name m =
     [''January'', ''February'', ''March'', ''April'', ''May'', ''June'', ''July'', ''August'',
      ''September'', ''October'', ''November'', ''December''] ! nat (m - 1)"

definition date_label :: "date \<Rightarrow> string" where
  "date_label value =
     (case ymd_of_ordinal value of (y, m, d) \<Rightarrow>
        month_name m @ '' '' @ py_str_int d @ '', '' @ py_str_int y)"

text \<open>\<open>str.removeprefix\<close>, \<open>str.replace('-', ' ')\<close> and, on ASCII, \<open>str.title\<close>.\<close>

definition remove_prefix :: "string \<Rightarrow> string \<Rightarrow> string" where
  "remove_prefix pre s = (if take (length pre) s = pre then drop (length pre) s else s)"

definition ascii_upper :: "char \<Rightarrow> bool" where
  "ascii_upper c \<longleftrightarrow> (let n = (of_char c :: int) in 65 \<le> n \<and> n \<le> 90)"

definition ascii_lower :: "char \<Rightarrow> bool" where
  "ascii_lower c \<longleftrightarrow> (let n = (of_char c :: int) in 97 \<le> n \<and> n \<le> 122)"

fun title_from :: "bool \<Rightarrow> string \<Rightarrow> string" where
  "title_from _ [] = []"
| "title_from inside (c # cs) =
     (if ascii_upper c then (if inside then char_of ((of_char c :: int) + 32) else c) # title_from True cs
      else if ascii_lower c then
        (if inside then c else char_of ((of_char c :: int) - 32)) # title_from True cs
      else c # title_from False cs)"

definition py_title :: "string \<Rightarrow> string" where
  "py_title = title_from False"

definition entity_label :: "string \<Rightarrow> string \<Rightarrow> string" where
  "entity_label identifier pre =
     (let value = remove_prefix pre identifier in
      if value = ''CHI'' then ''Chicago''
      else if value = ''DAL'' then ''Dallas''
      else py_title (map (\<lambda>c. if c = CHR ''-'' then CHR '' '' else c) value))"

section \<open>Actions of an option\<close>

fun ACTION_KINDS_BY_OPTION :: "response_option_kind \<Rightarrow> execution_action_kind list option" where
  "ACTION_KINDS_BY_OPTION ROK_EXPEDITE =
     Some [PREPARE_ALPHA_RECOVERY_DRAFT, COORDINATE_ALPHA_EXPEDITED_PARTIAL,
           UPDATE_DISRUPTION_STATUS]"
| "ACTION_KINDS_BY_OPTION ROK_TRANSFER =
     Some [PREPARE_ALPHA_RECOVERY_DRAFT, TRANSFER_DALLAS_TO_CHICAGO, UPDATE_DISRUPTION_STATUS]"
| "ACTION_KINDS_BY_OPTION ROK_RESEQUENCE =
     Some [PREPARE_ALPHA_RECOVERY_DRAFT, RESEQUENCE_PRIORITY_PRODUCTION, UPDATE_DISRUPTION_STATUS]"
| "ACTION_KINDS_BY_OPTION ROK_COMBINED = Some all_action_kinds"
| "ACTION_KINDS_BY_OPTION _ = None"

definition action_kinds_for :: "response_option_kind \<Rightarrow> execution_action_kind list result" where
  "action_kinds_for option_kind =
     the_or (ValueError ''Decision does not identify a current executable option'')
       (ACTION_KINDS_BY_OPTION option_kind)"

record planner_env =
  ple_uuid5_url :: "string \<Rightarrow> string"
  ple_parse_snapshot :: "string \<Rightarrow> operational_snapshot option"

definition deterministic_action_id :: "planner_env \<Rightarrow> string \<Rightarrow> string \<Rightarrow> string" where
  "deterministic_action_id env decision_id kind =
     ''RL-ACTION-'' @ ple_uuid5_url env (decision_id @ '':'' @ kind)"

definition deterministic_draft_artifact_id :: "planner_env \<Rightarrow> string \<Rightarrow> string" where
  "deterministic_draft_artifact_id env decision_id =
     ''RL-DRAFT-'' @ ple_uuid5_url env (decision_id @ '':alpha_recovery_request'')"

section \<open>Display texts\<close>

text \<open>The customer orders a resequencing protects: the option's own, or those of top priority.\<close>

definition top_priority_orders :: "operational_snapshot \<Rightarrow> string list" where
  "top_priority_orders snapshot =
     (let priorities = List.map_filter
            (\<lambda>p. if pro_customer_order_id p = None then None else pro_customer_priority p)
            (os_production_orders snapshot) in
      if priorities = [] then []
      else List.map_filter
             (\<lambda>p. if pro_customer_priority p = Some (Min (set priorities))
                  then pro_customer_order_id p else None)
             (os_production_orders snapshot))"

definition protected_ids :: "decision \<Rightarrow> operational_snapshot \<Rightarrow> string list" where
  "protected_ids d snapshot =
     (let ids = (case dec_selected_option d of
                   None \<Rightarrow> []
                 | Some opt \<Rightarrow> (case ro_predicted opt of
                                 None \<Rightarrow> []
                               | Some p \<Rightarrow> pred_protected_customer_order_ids p)) in
      if ids = [] then top_priority_orders snapshot else ids)"

definition resequence_display ::
    "decision \<Rightarrow> operational_snapshot \<Rightarrow> (string \<times> string \<times> execution_mode) result" where
  "resequence_display d snapshot =
     (let ids = protected_ids d snapshot;
          orders = filter (\<lambda>co1. co_customer_order_line_id co1 \<in> set ids)
                     (os_customer_orders snapshot) in
      bindR (require (length orders = length ids)
               (ValueError ''approved option names an unknown protected customer order'')) (\<lambda>_.
      Inr (''Resequence priority production to protect customer order(s) '' @
             py_join '', '' (map co_customer_order_line_id orders) @ ''.'',
           ''Production is simulated as prioritized for '' @
             py_join ''; '' (map (\<lambda>co1. co_customer_order_line_id co1 @ '' at '' @
               entity_label (co_plant_id co1) ''RL-PLANT-'' @ '' due '' @
               date_label (co_due_date co1)) orders) @ ''.'',
           XM_simulation)))"

fun action_display ::
    "decision \<Rightarrow> operational_snapshot \<Rightarrow> execution_action_kind \<Rightarrow>
     (string \<times> string \<times> execution_mode) result" where
  "action_display d snapshot PREPARE_ALPHA_RECOVERY_DRAFT =
     Inr (''Prepare supplier communication to '' @
            entity_label (di_supplier_id (os_disruption snapshot)) ''RL-SUP-'' @
            '' about disruption '' @ di_disruption_id (os_disruption snapshot) @ '' for '' @
            di_part_id (os_disruption snapshot) @ ''.'',
          ''An unsent supplier recovery-request draft is ready for Alex'' @ [CHR 0x27] @
            ''s review.'',
          XM_communication_preparation)"
| "action_display d snapshot COORDINATE_ALPHA_EXPEDITED_PARTIAL =
     bindR (the_or (ValueError ''approved Analysis snapshot lacks Alpha expedite details'')
              (os_alpha_expedite snapshot)) (\<lambda>expedite.
     let supplier = entity_label (di_supplier_id (os_disruption snapshot)) ''RL-SUP-'';
         plant = entity_label (di_plant_id (os_disruption snapshot)) ''RL-PLANT-'' in
     Inr (''Coordinate '' @ py_thousands (sro_quantity expedite) @ '' expedited units from '' @
            supplier @ '' to '' @ plant @ '' by '' @ date_label (sro_due_date expedite) @ '' at $'' @
            py_fixed2 (sro_incremental_cost_per_unit expedite) @ '' per unit.'',
          py_thousands (sro_quantity expedite) @ '' units are simulated as arriving at '' @ plant @
            '' on '' @ date_label (sro_due_date expedite) @ ''.'',
          XM_simulation))"
| "action_display d snapshot TRANSFER_DALLAS_TO_CHICAGO =
     (let transfer = os_transfer snapshot;
          source = entity_label (it_source_plant_id transfer) ''RL-PLANT-'';
          destination = entity_label (it_destination_plant_id transfer) ''RL-PLANT-'' in
      Inr (''Coordinate a '' @ py_thousands (it_quantity transfer) @ ''-unit transfer from '' @
             source @ '' to '' @ destination @ '', arriving '' @
             date_label (it_arrival_date transfer) @ '' at $'' @
             py_fixed2 (it_incremental_cost_per_unit transfer) @ '' per unit.'',
           py_thousands (it_quantity transfer) @ '' units are simulated as available in '' @
             destination @ '' on '' @ date_label (it_arrival_date transfer) @ ''.'',
           XM_simulation))"
| "action_display d snapshot RESEQUENCE_PRIORITY_PRODUCTION = resequence_display d snapshot"
| "action_display d snapshot UPDATE_DISRUPTION_STATUS =
     Inr (''Update disruption '' @ di_disruption_id (os_disruption snapshot) @ '' status for '' @
            di_part_id (os_disruption snapshot) @ '' at '' @
            entity_label (di_plant_id (os_disruption snapshot)) ''RL-PLANT-'' @ ''.'',
          ''The system status reflects the approved mitigation coordination.'',
          XM_simulation)"

section \<open>Planning\<close>

definition build_action ::
    "planner_env \<Rightarrow> decision \<Rightarrow> operational_snapshot \<Rightarrow> execution_action_kind \<Rightarrow>
     execution_action result" where
  "build_action env d snapshot kind =
     bindR (action_display d snapshot kind) (\<lambda>(purpose, expected_result, mode).
     let system_owned = kind = UPDATE_DISRUPTION_STATUS;
         owns_draft = kind = PREPARE_ALPHA_RECOVERY_DRAFT in
     mk_execution_action
       \<lparr>ea_action_id =
          deterministic_action_id env (dec_decision_id d) (execution_action_kind_value kind),
        ea_case_id = dec_case_id d, ea_decision_id = dec_decision_id d, ea_kind = kind,
        ea_owner_kind = if system_owned then XO_SYSTEM else XO_PERSONA,
        ea_owner_persona_id = if system_owned then None else Some ''RL-PERSONA-ALEX'',
        ea_status = XS_PLANNED, ea_created_at = dec_decided_at d,
        ea_draft_artifact_id =
          if owns_draft then Some (deterministic_draft_artifact_id env (dec_decision_id d)) else None,
        ea_purpose = Some purpose, ea_expected_result = Some expected_result,
        ea_execution_mode = Some mode\<rparr>)"

definition plan_actions ::
    "planner_env \<Rightarrow> decision \<Rightarrow> analysis_version \<Rightarrow> execution_action list result" where
  "plan_actions env d analysis =
     bindR (require (dec_kind d = DK_APPROVED)
              (ValueError ''actions require an approved Decision'')) (\<lambda>_.
     bindR (the_or (ValueError ''Decision does not identify a current executable option'')
              (dec_selected_option d)) (\<lambda>opt.
     bindR (require (dec_analysis_id d = av_analysis_id analysis \<and>
                     dec_analysis_material_hash d = av_material_hash analysis \<and>
                     dec_selected_option_id d = Some (ro_option_id opt) \<and> ro_executable opt)
              (ValueError ''Decision does not identify a current executable option'')) (\<lambda>_.
     bindR (the_or (ValueError ''invalid operational snapshot JSON'')
              (ple_parse_snapshot env
                 (am_operational_snapshot_json (av_material analysis)))) (\<lambda>snapshot.
     bindR (action_kinds_for (ro_option_kind opt)) (\<lambda>kinds.
     mapR (build_action env d snapshot) kinds)))))"

end
