(* ===== verification/Playback.thy ===== *)
theory Playback
  imports Planner Execution_Service
begin

text \<open>
  Simulated playback of an approved Decision: the playback and observation part of
  \<open>data/domain/execution.py\<close> and of \<open>SqlAlchemyExecutionRepository\<close>
  (\<open>services/persistence/store.py\<close>), and \<open>PlaybackService\<close> of
  \<open>services/execution/playback.py\<close>.

  A service call is a sequence of units of work.  Each unit either commits its new state or leaves
  the state as it was; the call goes on with what the units before it committed.
\<close>

section \<open>Playbacks and observations\<close>

datatype playback_status = PBS_IN_PROGRESS | PBS_COMPLETED | PBS_FAILED

fun playback_status_value :: "playback_status \<Rightarrow> string" where
  "playback_status_value PBS_IN_PROGRESS = ''in_progress''"
| "playback_status_value PBS_COMPLETED = ''completed''"
| "playback_status_value PBS_FAILED = ''failed''"

record playback =
  pb_playback_id :: string
  pb_case_id :: string
  pb_decision_id :: string
  pb_actor :: identity_snapshot
  pb_status :: playback_status
  pb_started_at :: instant
  pb_completed_at :: "instant option"
  pb_failed_at :: "instant option"
  pb_error_code :: "string option"

text \<open>\<open>validate_status_time\<close>\<close>

definition mk_playback :: "playback \<Rightarrow> playback result" where
  "mk_playback b =
     bindR (require
       (case pb_status b of
          PBS_COMPLETED \<Rightarrow> pb_completed_at b \<noteq> None \<and> pb_failed_at b = None \<and> pb_error_code b = None
        | PBS_FAILED \<Rightarrow> pb_completed_at b = None \<and> pb_failed_at b \<noteq> None \<and>
            pb_error_code b = Some ''PLAYBACK_EXECUTION_FAILED''
        | PBS_IN_PROGRESS \<Rightarrow>
            pb_completed_at b = None \<and> pb_failed_at b = None \<and> pb_error_code b = None)
       (ValueError ''playback terminal fields conflict with status'')) (\<lambda>_. Inr b)"

datatype observation_kind = OK_ACTUAL | OK_SIMULATED

fun observation_kind_value :: "observation_kind \<Rightarrow> string" where
  "observation_kind_value OK_ACTUAL = ''actual''"
| "observation_kind_value OK_SIMULATED = ''simulated''"

record outcome_observation =
  ob_observation_id :: string
  ob_case_id :: string
  ob_decision_id :: string
  ob_playback_id :: "string option"
  ob_action_id :: "string option"
  ob_metric :: string
  ob_observed_value :: string
  ob_unit :: string
  ob_predicted_value :: string
  ob_scenario_effective_time :: instant
  ob_scenario_timezone :: string
  ob_recorded_at :: instant
  ob_source_reference :: string
  ob_kind :: observation_kind
  ob_synthetic :: bool

text \<open>The literal type of the time zone and \<open>validate_provenance\<close>.\<close>

definition mk_outcome_observation :: "outcome_observation \<Rightarrow> outcome_observation result" where
  "mk_outcome_observation x =
     bindR (require (ob_scenario_timezone x = ''America/Chicago'')
              (ValueError ''scenario_timezone'')) (\<lambda>_.
     bindR (require (\<not> (ob_kind x = OK_ACTUAL \<and> ob_synthetic x))
              (ValueError ''actual observation cannot be synthetic'')) (\<lambda>_.
     bindR (require (\<not> (ob_kind x = OK_SIMULATED \<and> \<not> ob_synthetic x))
              (ValueError ''simulated observation must be synthetic'')) (\<lambda>_.
     bindR (require (ob_playback_id x = None \<or> ob_kind x = OK_SIMULATED \<and> ob_synthetic x)
              (ValueError ''playback observations must be simulated and synthetic'')) (\<lambda>_.
     Inr x))))"

section \<open>Tables\<close>

record playback_row =
  kbrow_playback_id :: string
  kbrow_case_id :: string
  kbrow_decision_id :: string
  kbrow_status :: string
  kbrow_started_at :: instant
  kbrow_completed_at :: "instant option"
  kbrow_failed_at :: "instant option"
  kbrow_error_code :: "string option"
  kbrow_payload :: "playback option"

record observation_row =
  obrow_observation_id :: string
  obrow_case_id :: string
  obrow_decision_id :: string
  obrow_playback_id :: "string option"
  obrow_action_id :: "string option"
  obrow_metric :: string
  obrow_observed_value :: string
  obrow_unit :: string
  obrow_predicted_value :: string
  obrow_scenario_effective_time :: instant
  obrow_scenario_timezone :: string
  obrow_recorded_at :: instant
  obrow_source_reference :: string
  obrow_kind :: string
  obrow_synthetic :: bool
  obrow_payload :: "outcome_observation option"

record playback_db =
  pdb_playbacks :: "playback_row list"
  pdb_observations :: "observation_row list"

definition playback_row_of :: "playback \<Rightarrow> playback_row" where
  "playback_row_of b =
     \<lparr>kbrow_playback_id = pb_playback_id b, kbrow_case_id = pb_case_id b,
      kbrow_decision_id = pb_decision_id b, kbrow_status = playback_status_value (pb_status b),
      kbrow_started_at = pb_started_at b, kbrow_completed_at = pb_completed_at b,
      kbrow_failed_at = pb_failed_at b, kbrow_error_code = pb_error_code b,
      kbrow_payload = Some b\<rparr>"

definition observation_row_of :: "outcome_observation \<Rightarrow> observation_row" where
  "observation_row_of x =
     \<lparr>obrow_observation_id = ob_observation_id x, obrow_case_id = ob_case_id x,
      obrow_decision_id = ob_decision_id x, obrow_playback_id = ob_playback_id x,
      obrow_action_id = ob_action_id x, obrow_metric = ob_metric x,
      obrow_observed_value = ob_observed_value x, obrow_unit = ob_unit x,
      obrow_predicted_value = ob_predicted_value x,
      obrow_scenario_effective_time = ob_scenario_effective_time x,
      obrow_scenario_timezone = ob_scenario_timezone x, obrow_recorded_at = ob_recorded_at x,
      obrow_source_reference = ob_source_reference x,
      obrow_kind = observation_kind_value (ob_kind x), obrow_synthetic = ob_synthetic x,
      obrow_payload = Some x\<rparr>"

section \<open>The repository\<close>

definition playback_from_row :: "playback_row \<Rightarrow> playback result" where
  "playback_from_row row =
     bindR (json_or_error (kbrow_payload row)) (\<lambda>b.
     bindR (require (pb_playback_id b = kbrow_playback_id row \<and> pb_case_id b = kbrow_case_id row \<and>
                     pb_decision_id b = kbrow_decision_id row \<and>
                     playback_status_value (pb_status b) = kbrow_status row \<and>
                     kbrow_started_at row = pb_started_at b \<and>
                     kbrow_completed_at row = pb_completed_at b \<and>
                     kbrow_failed_at row = pb_failed_at b \<and> pb_error_code b = kbrow_error_code row)
              (PersistenceIntegrityError ''Playback columns conflict with canonical JSON'')) (\<lambda>_.
     Inr b))"

definition get_playback :: "playback_db \<Rightarrow> string \<Rightarrow> playback result" where
  "get_playback p playback_id =
     bindR (one_or_none (filter (\<lambda>r. kbrow_playback_id r = playback_id) (pdb_playbacks p))) (\<lambda>found.
     bindR (the_or (RecordNotFound ''Playback does not exist'') found) playback_from_row)"

definition get_playback_for_decision :: "playback_db \<Rightarrow> string \<Rightarrow> playback option result" where
  "get_playback_for_decision p decision_id =
     bindR (one_or_none (filter (\<lambda>r. kbrow_decision_id r = decision_id) (pdb_playbacks p))) (\<lambda>found.
     case found of
       None \<Rightarrow> Inr None
     | Some row \<Rightarrow> bindR (playback_from_row row) (\<lambda>b. Inr (Some b)))"

definition insert_playback_if_absent ::
    "'w case_store \<Rightarrow> 'w \<Rightarrow> playback_db \<Rightarrow> playback \<Rightarrow> (playback_db \<times> bool) result" where
  "insert_playback_if_absent cs w p b =
     bindR (require (pb_status b = PBS_IN_PROGRESS \<and> pb_completed_at b = None)
              (ValueError ''new Playback must be in progress'')) (\<lambda>_.
     bindR (cst_decision cs w (pb_decision_id b)) (\<lambda>d.
     bindR (require (dec_kind d = DK_APPROVED \<and> dec_case_id d = pb_case_id b \<and> dec_actor d = pb_actor b)
              (PersistenceIntegrityError
                 ''Playback must retain its approved Decision and actor lineage'')) (\<lambda>_.
     bindR (get_playback_for_decision p (pb_decision_id b)) (\<lambda>existing.
     case existing of
       Some e \<Rightarrow>
         bindR (require (pb_playback_id e = pb_playback_id b)
                  (ImmutableRecordConflict ''Decision already has a different Playback'')) (\<lambda>_.
         Inr (p, False))
     | None \<Rightarrow>
         bindR (insert_unique kbrow_playback_id (pdb_playbacks p) (playback_row_of b)) (\<lambda>rows.
         let p1 = p\<lparr>pdb_playbacks := rows\<rparr> in
         bindR (get_playback_for_decision p1 (pb_decision_id b)) (\<lambda>canonical.
         bindR (the_or (PersistenceIntegrityError
                          ''Playback insert did not persist a canonical record'') canonical) (\<lambda>c.
         bindR (require (pb_playback_id c = pb_playback_id b)
                  (ImmutableRecordConflict ''Decision already has a different Playback'')) (\<lambda>_.
         Inr (p1, True)))))))))"

definition update_playback :: "playback_db \<Rightarrow> playback \<Rightarrow> playback_db result" where
  "update_playback p b =
     bindR (get_playback p (pb_playback_id b)) (\<lambda>previous.
     bindR (require (pb_status previous = PBS_IN_PROGRESS \<and>
                     pb_status b \<in> {PBS_COMPLETED, PBS_FAILED} \<and>
                     b\<lparr>pb_status := PBS_IN_PROGRESS, pb_completed_at := None, pb_failed_at := None,
                       pb_error_code := None\<rparr> = previous)
              (ImmutableRecordConflict ''Playback update may only record one terminal result'')) (\<lambda>_.
     let hit = (\<lambda>r. kbrow_playback_id r = pb_playback_id b \<and> kbrow_status r = ''in_progress'') in
     bindR (require (length (filter hit (pdb_playbacks p)) = 1)
              (ImmutableRecordConflict ''Playback already has a terminal result'')) (\<lambda>_.
     Inr (p\<lparr>pdb_playbacks := map (\<lambda>r. if hit r
             then r\<lparr>kbrow_status := playback_status_value (pb_status b),
                    kbrow_completed_at := pb_completed_at b, kbrow_failed_at := pb_failed_at b,
                    kbrow_error_code := pb_error_code b, kbrow_payload := Some b\<rparr>
             else r) (pdb_playbacks p)\<rparr>))))"

definition observation_from_row :: "observation_row \<Rightarrow> outcome_observation result" where
  "observation_from_row row =
     bindR (json_or_error (obrow_payload row)) (\<lambda>x.
     bindR (require (row = (observation_row_of x)\<lparr>obrow_payload := obrow_payload row\<rparr>)
              (PersistenceIntegrityError
                 ''Outcome Observation columns conflict with canonical JSON'')) (\<lambda>_. Inr x))"

text \<open>What playback needs of the rest of the program.\<close>

record 'w playback_env =
  pbe_cases :: "'w case_store"
  pbe_stored_case :: "'w \<Rightarrow> string \<Rightarrow> case_instance result"
  pbe_get_case :: "'w \<Rightarrow> string \<Rightarrow> case_instance result"
  pbe_uuid5_url :: "string \<Rightarrow> string"
  pbe_decimal_str :: "money \<Rightarrow> string"

definition insert_observation ::
    "'w playback_env \<Rightarrow> 'w \<Rightarrow> execution_db \<Rightarrow> playback_db \<Rightarrow> outcome_observation \<Rightarrow>
     playback_db result" where
  "insert_observation env w x p ob1 =
     bindR (cst_decision (pbe_cases env) w (ob_decision_id ob1)) (\<lambda>d.
     bindR (pbe_stored_case env w (dec_case_id d)) (\<lambda>c.
     bindR (require (ob_case_id ob1 = dec_case_id d \<and>
                     ob_scenario_effective_time ob1 = dec_scenario_effective_time d \<and>
                     ob_scenario_timezone ob1 = ci_scenario_timezone c)
              (PersistenceIntegrityError
                 ''Outcome Observation conflicts with its Decision or Case lineage'')) (\<lambda>_.
     bindR (case ob_playback_id ob1 of
              None \<Rightarrow> Inr ()
            | Some playback_id \<Rightarrow>
                bindR (get_playback p playback_id) (\<lambda>b.
                require (pb_decision_id b = ob_decision_id ob1 \<and> ob_kind ob1 = OK_SIMULATED \<and>
                         ob_synthetic ob1)
                  (PersistenceIntegrityError
                     ''Playback observation provenance must remain simulated''))) (\<lambda>_.
     bindR (case ob_action_id ob1 of
              None \<Rightarrow> Inr ()
            | Some action_id \<Rightarrow>
                bindR (get_action x action_id) (\<lambda>a.
                require (ea_decision_id a = ob_decision_id ob1)
                  (PersistenceIntegrityError
                     ''Outcome Observation action lineage is inconsistent''))) (\<lambda>_.
     bindR (require (ob_observation_id ob1 \<notin> obrow_observation_id ` set (pdb_observations p))
              (ImmutableRecordConflict ''Outcome Observation is append-only'')) (\<lambda>_.
     Inr (p\<lparr>pdb_observations := pdb_observations p @ [observation_row_of ob1]\<rparr>)))))))"

definition list_observations :: "playback_db \<Rightarrow> string \<Rightarrow> outcome_observation list result" where
  "list_observations p decision_id =
     mapR observation_from_row
       (sort_key obrow_recorded_at (sort_key obrow_observation_id
          (filter (\<lambda>r. obrow_decision_id r = decision_id) (pdb_observations p))))"

section \<open>Steps, predictions and the draft\<close>

record playback_step =
  pst_offset_seconds :: int
  pst_action_kind :: string

definition playback_steps :: "execution_action list \<Rightarrow> playback_step list" where
  "playback_steps actions =
     map (\<lambda>(i, a). \<lparr>pst_offset_seconds = int i * 2,
                    pst_action_kind = execution_action_kind_value (ea_kind a)\<rparr>)
       (enumerate 0 actions)"

text \<open>\<open>ExecutionActionKind(value)\<close>\<close>

definition action_kind_of_value :: "string \<Rightarrow> execution_action_kind result" where
  "action_kind_of_value s =
     the_or (ValueError s) (find (\<lambda>k. execution_action_kind_value k = s) all_action_kinds)"

definition predicted_observations ::
    "'w playback_env \<Rightarrow> decision \<Rightarrow> (string \<times> string \<times> string) list result" where
  "predicted_observations env d =
     bindR (the_or AssertionError (dec_selected_option d)) (\<lambda>opt.
     bindR (the_or AssertionError (ro_predicted opt)) (\<lambda>q.
     Inr [(''uncovered_part_demand'', py_str_int (pred_uncovered_part_demand q), ''units''),
          (''response_cost'', pbe_decimal_str env (pred_response_cost q), ''USD''),
          (''revenue_at_risk'', pbe_decimal_str env (pred_revenue_at_risk q), ''USD''),
          (''margin_at_risk'', pbe_decimal_str env (pred_margin_at_risk q), ''USD''),
          (''otif_loss_percentage'', py_str_int (pred_otif_loss_percentage q), ''percent'')]))"

definition draft_subject :: string where
  "draft_subject = ''RL-001 supplier communication draft''"

text \<open>
  The dash after \<open>DEMO\<close>, the one character of the program's texts above code point 255, is
  written as its three UTF-8 bytes.
\<close>

definition draft_body :: "decision \<Rightarrow> string result" where
  "draft_body d =
     bindR (the_or AssertionError (dec_selected_option d)) (\<lambda>opt.
     let response =
           (if ro_option_kind opt = ROK_TRANSFER then
              ''The approved Dallas transfer response uses internal coordination. '' @
              ''No supplier order was placed.''
            else ''The approved response is: '' @ ro_name opt @
              ''. This simulation did not order or send a supplier shipment.'');
         nl = [CHR 0x0A] in
     Inr (''FICTIONAL DEMO '' @ [CHR 0xE2, CHR 0x80, CHR 0x94] @
          '' supplier communication draft for Alex'' @ [CHR 0x27] @ ''s review.'' @ nl @
          ''Case reference: '' @ dec_case_id d @ nl @
          ''Selected response: '' @ ro_name opt @ nl @ nl @
          response @ nl @
          ''Please confirm the remaining recovery timing for disruption RL-001.'' @ nl @ nl @
          ''Not sent.'' @ nl))"

definition deterministic_id :: "'w playback_env \<Rightarrow> string \<Rightarrow> string \<Rightarrow> string \<Rightarrow> string" where
  "deterministic_id env pre decision_id material =
     pre @ ''-'' @ pbe_uuid5_url env (decision_id @ '':'' @ material)"

section \<open>Units of work\<close>

type_synonym 'w playback_state = "'w \<times> execution_db \<times> playback_db"

text \<open>A unit commits or rolls back; the next unit runs only after success.\<close>

definition in_unit :: "('s \<Rightarrow> ('s \<times> 'a) result) \<Rightarrow> 's \<Rightarrow> 's \<times> 'a result" where
  "in_unit f s = (case f s of Inl e \<Rightarrow> (s, Inl e) | Inr (s1, y) \<Rightarrow> (s1, Inr y))"

definition and_then :: "'s \<times> 'a result \<Rightarrow> ('a \<Rightarrow> 's \<Rightarrow> 's \<times> 'b result) \<Rightarrow> 's \<times> 'b result" where
  "and_then r f = (case r of (s, Inl e) \<Rightarrow> (s, Inl e) | (s, Inr y) \<Rightarrow> f y s)"

lemma and_then_simps [simp]:
  "and_then (s, Inl e) f = (s, Inl e)"
  "and_then (s, Inr y) f = f y s"
  by (simp_all add: and_then_def)

lemma in_unit_simps:
  "f s = Inr (s1, y) \<Longrightarrow> in_unit f s = (s1, Inr y)"
  "f s = Inl e \<Longrightarrow> in_unit f s = (s, Inl e)"
  by (simp_all add: in_unit_def)

text \<open>A unit of \<open>ExecutionService\<close>, which leaves the playback tables alone.\<close>

definition execution_unit ::
    "('w \<times> execution_db \<Rightarrow> (('w \<times> execution_db) \<times> 'a) result) \<Rightarrow>
     'w playback_state \<Rightarrow> ('w playback_state \<times> 'a) result" where
  "execution_unit f state =
     (case state of (w, x, p) \<Rightarrow>
       bindR (f (w, x)) (\<lambda>((w1, x1), y). Inr ((w1, x1, p), y)))"

definition authorize_playback :: "identity_snapshot \<Rightarrow> unit result" where
  "authorize_playback actor =
     require (is_persona_id actor = ''RL-PERSONA-ALEX'' \<and> is_identity_source actor = IS_ENTRA \<and>
              is_source_id actor = ''RL-ENTRA-ALEX'' \<and>
              {''material_planner'', ''response_approver''} \<subseteq> set (is_effective_roles actor))
       (PlaybackAuthorizationError
          ''Playback requires the server-owned authorized Alex identity'')"

definition expected_kinds_of :: "decision \<Rightarrow> execution_action_kind list result" where
  "expected_kinds_of d =
     bindR (the_or (PlaybackStateError ''Playback requires a selected Decision option'')
              (dec_selected_option d)) (\<lambda>opt. action_kinds_for (ro_option_kind opt))"

text \<open>The first unit of \<open>start\<close>: an existing playback, or None after the insert.\<close>

definition start_unit ::
    "'w playback_env \<Rightarrow> string \<Rightarrow> identity_snapshot \<Rightarrow> instant \<Rightarrow> 'w playback_state \<Rightarrow>
     ('w playback_state \<times> playback option) result" where
  "start_unit env decision_id actor now state =
     (case state of (w, x, p) \<Rightarrow>
       bindR (cst_decision (pbe_cases env) w decision_id) (\<lambda>d.
       bindR (require (dec_kind d = DK_APPROVED)
                (PlaybackStateError ''Playback requires an approved Decision'')) (\<lambda>_.
       bindR (require (dec_actor d = actor)
                (PlaybackAuthorizationError
                   ''Playback actor must match the approved Decision actor'')) (\<lambda>_.
       bindR (get_playback_for_decision p decision_id) (\<lambda>existing.
       case existing of
         Some b \<Rightarrow> Inr (state, Some b)
       | None \<Rightarrow>
           bindR (list_actions x decision_id) (\<lambda>actions.
           bindR (expected_kinds_of d) (\<lambda>expected_kinds.
           bindR (require (map ea_kind actions = expected_kinds)
                    (PlaybackStateError
                       ''Playback requires the exact planned Decision actions'')) (\<lambda>_.
           bindR (mk_playback
             \<lparr>pb_playback_id = deterministic_id env ''RL-PLAYBACK'' decision_id ''simulated-playback'',
              pb_case_id = dec_case_id d, pb_decision_id = dec_decision_id d, pb_actor = actor,
              pb_status = PBS_IN_PROGRESS, pb_started_at = now, pb_completed_at = None,
              pb_failed_at = None, pb_error_code = None\<rparr>) (\<lambda>b.
           bindR (insert_playback_if_absent (pbe_cases env) w p b) (\<lambda>(p1, inserted).
           if inserted then
             bindR (cst_guard (pbe_cases env) w (dec_decision_id d)) (\<lambda>(w1, _).
             Inr ((w1, x, p1), None))
           else Inr (state, None)))))))))))"

definition canonical_unit ::
    "'w playback_env \<Rightarrow> string \<Rightarrow> 'w playback_state \<Rightarrow> ('w playback_state \<times> playback) result" where
  "canonical_unit env decision_id state =
     (case state of (w, x, p) \<Rightarrow>
       bindR (get_playback_for_decision p decision_id) (\<lambda>canonical.
       case canonical of
         None \<Rightarrow> Inl (PlaybackStateError
                   ''Playback insert did not retain its canonical Decision linkage'')
       | Some c \<Rightarrow>
           bindR (require (pb_playback_id c =
                     deterministic_id env ''RL-PLAYBACK'' decision_id ''simulated-playback'')
                    (PlaybackStateError
                       ''Playback insert did not retain its canonical Decision linkage'')) (\<lambda>_.
           Inr (state, c))))"

definition start_playback ::
    "'w playback_env \<Rightarrow> string \<Rightarrow> identity_snapshot \<Rightarrow> instant \<Rightarrow> 'w playback_state \<Rightarrow>
     'w playback_state \<times> playback result" where
  "start_playback env decision_id actor now state =
     (case authorize_playback actor of
        Inl e \<Rightarrow> (state, Inl e)
      | Inr _ \<Rightarrow>
          and_then (in_unit (start_unit env decision_id actor now) state) (\<lambda>existing s1.
          case existing of
            Some b \<Rightarrow> (s1, Inr b)
          | None \<Rightarrow> in_unit (canonical_unit env decision_id) s1))"

section \<open>Running a playback\<close>

text \<open>What one step of the run draws: whether shutdown stops it, fresh ids and clock readings.\<close>

record step_draw =
  sd_stopped :: bool
  sd_attempt_id :: string
  sd_start_event :: string
  sd_started_at :: instant
  sd_start_occurred_at :: instant
  sd_complete_event :: string
  sd_completed_at :: instant

definition fill_unit ::
    "'w playback_env \<Rightarrow> string \<Rightarrow> 'w playback_state \<Rightarrow> ('w playback_state \<times> unit) result" where
  "fill_unit env action_id state =
     (case state of (w, x, p) \<Rightarrow>
       bindR (get_draft_artifact x action_id) (\<lambda>shell.
       bindR (cst_decision (pbe_cases env) w (da_decision_id shell)) (\<lambda>d.
       bindR (draft_body d) (\<lambda>body.
       let filled = shell\<lparr>da_subject := Some draft_subject, da_body := Some body\<rparr> in
       if da_subject shell \<noteq> None then
         bindR (fill_draft_artifact x filled) (\<lambda>_. Inr (state, ()))
       else
         bindR (cst_guard (pbe_cases env) w (da_decision_id shell)) (\<lambda>(w1, _).
         bindR (fill_draft_artifact x filled) (\<lambda>x1. Inr ((w1, x1, p), ())))))))"

definition read_unit ::
    "string \<Rightarrow> 'w playback_state \<Rightarrow>
     ('w playback_state \<times> execution_action \<times> execution_attempt list) result" where
  "read_unit action_id state =
     (case state of (w, x, p) \<Rightarrow>
       bindR (get_action x action_id) (\<lambda>a.
       bindR (list_attempts x (ea_action_id a)) (\<lambda>attempts. Inr (state, a, attempts))))"

definition running_attempt_of ::
    "'w playback_env \<Rightarrow> step_draw \<Rightarrow> execution_action \<Rightarrow> execution_attempt list \<Rightarrow>
     'w playback_state \<Rightarrow> 'w playback_state \<times> execution_attempt result" where
  "running_attempt_of env draw a attempts s =
     (if ea_status a = XS_PLANNED then
        in_unit (execution_unit (\<lambda>t. start_action (pbe_cases env) t (ea_action_id a)
          (sd_attempt_id draw) (sd_start_event draw) (sd_started_at draw)
          (sd_start_occurred_at draw))) s
      else if ea_status a = XS_IN_PROGRESS \<and> attempts \<noteq> [] then (s, Inr (last attempts))
      else (s, Inl (PlaybackStateError ''Playback action cannot advance'')))"

definition complete_playback_action ::
    "'w playback_env \<Rightarrow> execution_action \<Rightarrow> step_draw \<Rightarrow> 'w playback_state \<Rightarrow>
     'w playback_state \<times> unit result" where
  "complete_playback_action env expected draw state =
     and_then (in_unit (read_unit (ea_action_id expected)) state) (\<lambda>(a, attempts) s1.
     if ea_status a = XS_COMPLETED then (s1, Inr ())
     else
       and_then (running_attempt_of env draw a attempts s1) (\<lambda>attempt s2.
       and_then (if ea_kind a = PREPARE_ALPHA_RECOVERY_DRAFT
                 then in_unit (fill_unit env (ea_action_id a)) s2 else (s2, Inr ())) (\<lambda>_ s3.
       and_then (in_unit (execution_unit (\<lambda>t. complete_action (pbe_cases env) t (ea_action_id a)
                   (xa_attempt_id attempt) (sd_complete_event draw) (sd_completed_at draw))) s3)
         (\<lambda>_ s4. (s4, Inr ())))))"

text \<open>The loop over the steps; \<open>by_kind\<close> keeps the last action of a kind.\<close>

fun run_steps ::
    "'w playback_env \<Rightarrow> execution_action list \<Rightarrow> playback_step list \<Rightarrow> (nat \<Rightarrow> step_draw) \<Rightarrow> nat \<Rightarrow>
     'w playback_state \<Rightarrow> 'w playback_state \<times> unit result" where
  "run_steps env actions [] draws k s = (s, Inr ())"
| "run_steps env actions (step # steps) draws k s =
     (if sd_stopped (draws k) then (s, Inl PlaybackInterrupted)
      else
        and_then (s, bindR (action_kind_of_value (pst_action_kind step)) (\<lambda>kind.
                       the_or KeyError (dict_by ea_kind actions kind))) (\<lambda>a s1.
        and_then (complete_playback_action env a (draws k) s1) (\<lambda>_ s2.
        run_steps env actions steps draws (Suc k) s2)))"

definition simulated_observation ::
    "'w playback_env \<Rightarrow> decision \<Rightarrow> case_instance \<Rightarrow> string \<Rightarrow> string \<Rightarrow> instant \<Rightarrow>
     string \<times> string \<times> string \<Rightarrow> outcome_observation" where
  "simulated_observation env d c playback_id action_id observed_at entry =
     (case entry of (metric, predicted, unit1) \<Rightarrow>
       \<lparr>ob_observation_id = deterministic_id env ''RL-OBSERVATION'' (dec_decision_id d) metric,
        ob_case_id = dec_case_id d, ob_decision_id = dec_decision_id d,
        ob_playback_id = Some playback_id, ob_action_id = Some action_id, ob_metric = metric,
        ob_observed_value = predicted, ob_unit = unit1, ob_predicted_value = predicted,
        ob_scenario_effective_time = dec_scenario_effective_time d,
        ob_scenario_timezone = ci_scenario_timezone c, ob_recorded_at = observed_at,
        ob_source_reference = ''Simulated: RL-001:'' @ metric, ob_kind = OK_SIMULATED,
        ob_synthetic = True\<rparr>)"

fun insert_observations ::
    "'w playback_env \<Rightarrow> 'w \<Rightarrow> execution_db \<Rightarrow> outcome_observation list \<Rightarrow> playback_db \<Rightarrow>
     playback_db result" where
  "insert_observations env w x [] p = Inr p"
| "insert_observations env w x (ob1 # obs) p =
     bindR (mk_outcome_observation ob1) (\<lambda>valid.
     bindR (insert_observation env w x p valid) (\<lambda>p1. insert_observations env w x obs p1))"

definition completion_unit ::
    "'w playback_env \<Rightarrow> playback \<Rightarrow> execution_action list \<Rightarrow> instant \<Rightarrow> 'w playback_state \<Rightarrow>
     ('w playback_state \<times> playback) result" where
  "completion_unit env b actions observed_at state =
     (case state of (w, x, p) \<Rightarrow>
       bindR (get_playback p (pb_playback_id b)) (\<lambda>current.
       bindR (require (b\<lparr>pb_status := pb_status current, pb_completed_at := pb_completed_at current,
                         pb_failed_at := pb_failed_at current,
                         pb_error_code := pb_error_code current\<rparr> = current)
                (PlaybackStateError ''Playback identity differs from canonical record'')) (\<lambda>_.
       if pb_status current \<noteq> PBS_IN_PROGRESS then Inr (state, current)
       else
         bindR (list_actions x (pb_decision_id current)) (\<lambda>canonical_actions.
         bindR (cst_decision (pbe_cases env) w (pb_decision_id current)) (\<lambda>d0.
         bindR (expected_kinds_of d0) (\<lambda>expected_kinds.
         bindR (require (map ea_kind canonical_actions = expected_kinds \<and>
                         card (ea_action_id ` set canonical_actions) = length expected_kinds \<and>
                         (\<forall>a \<in> set canonical_actions. ea_status a = XS_COMPLETED) \<and>
                         map (ea_status_update (\<lambda>_. XS_PLANNED)) actions =
                           map (ea_status_update (\<lambda>_. XS_PLANNED)) canonical_actions)
                  (PlaybackStateError
                     ''Playback requires the exact completed Decision action set'')) (\<lambda>_.
         bindR (cst_guard (pbe_cases env) w (pb_decision_id current)) (\<lambda>(w1, d).
         bindR (pbe_get_case env w1 (pb_case_id current)) (\<lambda>c.
         bindR (predicted_observations env d) (\<lambda>entries.
         bindR (the_or KeyError (map_option ea_action_id
                  (dict_by ea_kind canonical_actions UPDATE_DISRUPTION_STATUS))) (\<lambda>status_id.
         bindR (insert_observations env w1 x
                  (map (simulated_observation env d c (pb_playback_id current) status_id observed_at)
                     entries) p) (\<lambda>p1.
         let completed = current\<lparr>pb_status := PBS_COMPLETED, pb_completed_at := Some observed_at\<rparr> in
         bindR (update_playback p1 completed) (\<lambda>p2.
         Inr ((w1, x, p2), completed))))))))))))))"

definition run_to_completion ::
    "'w playback_env \<Rightarrow> string \<Rightarrow> (nat \<Rightarrow> step_draw) \<Rightarrow> instant \<Rightarrow> 'w playback_state \<Rightarrow>
     'w playback_state \<times> playback result" where
  "run_to_completion env playback_id draws observed_at state =
     and_then (in_unit (\<lambda>(w, x, p).
         bindR (get_playback p playback_id) (\<lambda>b.
         if pb_status b \<noteq> PBS_IN_PROGRESS then Inr ((w, x, p), b, [])
         else bindR (list_actions x (pb_decision_id b)) (\<lambda>actions. Inr ((w, x, p), b, actions))))
       state) (\<lambda>(b, actions) s1.
     if pb_status b \<noteq> PBS_IN_PROGRESS then (s1, Inr b)
     else
       and_then (run_steps env actions (playback_steps actions) draws 0 s1) (\<lambda>_ s2.
       in_unit (completion_unit env b actions observed_at) s2))"

definition record_failure ::
    "string \<Rightarrow> instant \<Rightarrow> 'w playback_state \<Rightarrow> ('w playback_state \<times> playback) result" where
  "record_failure playback_id now state =
     (case state of (w, x, p) \<Rightarrow>
       bindR (get_playback p playback_id) (\<lambda>current.
       if pb_status current \<noteq> PBS_IN_PROGRESS then Inr (state, current)
       else
         let failed = current\<lparr>pb_status := PBS_FAILED, pb_failed_at := Some now,
                              pb_error_code := Some ''PLAYBACK_EXECUTION_FAILED''\<rparr> in
         bindR (update_playback p failed) (\<lambda>p1. Inr ((w, x, p1), failed))))"

fun first_draft ::
    "execution_db \<Rightarrow> execution_action list \<Rightarrow> string \<Rightarrow> draft_artifact result" where
  "first_draft x [] artifact_kind =
     Inl (PlaybackStateError ''Draft Artifact does not exist for Decision'')"
| "first_draft x (a # actions) artifact_kind =
     (if ea_draft_artifact_id a = None then first_draft x actions artifact_kind
      else bindR (get_draft_artifact x (ea_action_id a)) (\<lambda>artifact.
        if da_artifact_kind artifact = artifact_kind then Inr artifact
        else first_draft x actions artifact_kind))"

definition playback_draft :: "execution_db \<Rightarrow> string \<Rightarrow> string \<Rightarrow> draft_artifact result" where
  "playback_draft x decision_id artifact_kind =
     bindR (list_actions x decision_id) (\<lambda>actions. first_draft x actions artifact_kind)"

end
