(* ===== verification/Playback_Liveness.thy ===== *)
theory Playback_Liveness
  imports Playback Execution_Invariants
begin

text \<open>
  Playback over all interleavings of its units of work with those of the execution service: the
  states it reaches, what they keep, and the completion of a run.
\<close>

section \<open>Lists of actions\<close>






section \<open>What playback relies on\<close>



section \<open>Drafts\<close>

definition draft_shell :: "execution_action \<Rightarrow> string \<Rightarrow> draft_artifact" where
  "draft_shell a artifact_id =
     \<lparr>da_artifact_id = artifact_id, da_action_id = ea_action_id a,
      da_decision_id = ea_decision_id a, da_artifact_kind = ''alpha_recovery_request'',
      da_created_at = ea_created_at a, da_subject = None, da_body = None, da_sent = False\<rparr>"

definition filled_draft :: "execution_action \<Rightarrow> string \<Rightarrow> string \<Rightarrow> draft_artifact" where
  "filled_draft a artifact_id body =
     (draft_shell a artifact_id)\<lparr>da_subject := Some draft_subject, da_body := Some body\<rparr>"




lemma life_at_drafts [simp]: "life_at (x\<lparr>edb_drafts := ds\<rparr>) i L = life_at x i L"
  by (simp add: life_at_def)

lemma db_ok_drafts [simp]: "execution_db_ok (x\<lparr>edb_drafts := ds\<rparr>) = execution_db_ok x"
  by (simp add: execution_db_ok_def)





lemma draft_actions [simp]:
  "da_action_id (draft_shell a k) = ea_action_id a"
  "da_decision_id (draft_shell a k) = ea_decision_id a"
  "da_artifact_id (draft_shell a k) = k" "\<not> da_sent (draft_shell a k)"
  "da_subject (draft_shell a k) = None" "da_body (draft_shell a k) = None"
  "da_action_id (filled_draft a k b) = ea_action_id a"
  "da_decision_id (filled_draft a k b) = ea_decision_id a"
  "da_artifact_id (filled_draft a k b) = k" "\<not> da_sent (filled_draft a k b)"
  "da_subject (filled_draft a k b) = Some draft_subject" "da_body (filled_draft a k b) = Some b"
  by (simp_all add: draft_shell_def filled_draft_def)

lemma filled_draft_status [simp]: "filled_draft (a\<lparr>ea_status := s\<rparr>) k b = filled_draft a k b"
  by (simp add: filled_draft_def draft_shell_def)






section \<open>One action\<close>

definition attempt_ids :: "execution_db \<Rightarrow> string set" where
  "attempt_ids x = trow_attempt_id ` set (edb_attempts x)"

definition event_ids :: "execution_db \<Rightarrow> string set" where
  "event_ids x = vrow_execution_event_id ` set (edb_events x)"

lemma ids_drafts [simp]:
  "attempt_ids (x\<lparr>edb_drafts := ds\<rparr>) = attempt_ids x"
  "event_ids (x\<lparr>edb_drafts := ds\<rparr>) = event_ids x"
  by (simp_all add: attempt_ids_def event_ids_def)




















section \<open>The order of completion\<close>















section \<open>All steps\<close>






lemma action_kind_of_value_inverse [simp]:
  "action_kind_of_value (execution_action_kind_value k) = Inr k"
  by (cases k) (simp_all add: action_kind_of_value_def all_action_kinds_def)





section \<open>The playback tables\<close>
















lemma get_playback_observations [simp]:
  "get_playback (p\<lparr>pdb_observations := os\<rparr>) i = get_playback p i"
  by (simp add: get_playback_def)





section \<open>What the tables keep\<close>

























text \<open>The units of the playback service.\<close>

lemma distinct_map_replace:
  assumes "\<And>c. c \<in> set bs \<Longrightarrow> k (f c) = k c"
  shows "map k (map f bs) = map k bs"
  using assms by simp








lemma update_playback_Inr:
  assumes "update_playback p b' = Inr p'"
  obtains b where "get_playback p (pb_playback_id b') = Inr b" and "pb_status b = PBS_IN_PROGRESS"
    and "pb_status b' \<in> {PBS_COMPLETED, PBS_FAILED}"
    and "b'\<lparr>pb_status := PBS_IN_PROGRESS, pb_completed_at := None, pb_failed_at := None,
      pb_error_code := None\<rparr> = b"
proof -
  obtain b where b: "get_playback p (pb_playback_id b') = Inr b"
    using assms by (auto simp: update_playback_def result_simps)
  with assms that [OF b] show thesis
    by (simp add: update_playback_def bindR_Inr_iff require_Inr_iff)
qed









section \<open>Reachable states\<close>



lemma get_action_drafts [simp]: "get_action (x\<lparr>edb_drafts := ds\<rparr>) i = get_action x i"
  by (simp add: get_action_def immutable_action_def)



section \<open>Observations of a Decision\<close>



section \<open>Planned actions\<close>






section \<open>Completion\<close>






section \<open>An example\<close>



















section \<open>Properties\<close>





end
