(* ===== verification/Ranking.thy ===== *)
theory Ranking
  imports Domain_Analysis Interfaces
begin

text \<open>
  The ranking policy (\<open>services/analysis/ranking.py\<close>): feasibility first, then the
  frozen list of comparators, each keeping the options within its threshold of the best value,
  until one option is left.  A reference form without the early exit is proved equal.
\<close>

section \<open>Model\<close>

definition RANKING_POLICY_VERSION :: string where
  "RANKING_POLICY_VERSION = ''thresholded-lexicographic-v1''"

text \<open>The attribute a comparator reads.\<close>

datatype comparator_name =
  CN_uncovered_part_demand | CN_otif_loss_percentage | CN_revenue_at_risk | CN_margin_at_risk |
  CN_response_cost | CN_approval_burden | CN_execution_risk | CN_option_id

fun comparator_name_value :: "comparator_name \<Rightarrow> string" where
  "comparator_name_value CN_uncovered_part_demand = ''uncovered_part_demand''"
| "comparator_name_value CN_otif_loss_percentage = ''otif_loss_percentage''"
| "comparator_name_value CN_revenue_at_risk = ''revenue_at_risk''"
| "comparator_name_value CN_margin_at_risk = ''margin_at_risk''"
| "comparator_name_value CN_response_cost = ''response_cost''"
| "comparator_name_value CN_approval_burden = ''approval_burden''"
| "comparator_name_value CN_execution_risk = ''execution_risk''"
| "comparator_name_value CN_option_id = ''option_id''"

record comparator =
  cp_name :: comparator_name
  cp_threshold :: rat
  cp_lower_is_better :: bool

definition lower_is_better :: "comparator_name \<Rightarrow> rat \<Rightarrow> comparator" where
  "lower_is_better n t = \<lparr>cp_name = n, cp_threshold = t, cp_lower_is_better = True\<rparr>"

definition COMPARATORS :: "comparator list" where
  "COMPARATORS =
     [lower_is_better CN_uncovered_part_demand 500,
      lower_is_better CN_otif_loss_percentage 10,
      lower_is_better CN_revenue_at_risk 50000,
      lower_is_better CN_margin_at_risk 25000,
      lower_is_better CN_response_cost 10000,
      lower_is_better CN_approval_burden 0,
      lower_is_better CN_execution_risk 0,
      lower_is_better CN_option_id 0]"

text \<open>\<open>Decimal(getattr(predicted, name))\<close>\<close>

definition predicted_attribute :: "comparator_name \<Rightarrow> predicted_outcome \<Rightarrow> rat" where
  "predicted_attribute n p =
     (case n of
        CN_uncovered_part_demand \<Rightarrow> of_int (pred_uncovered_part_demand p)
      | CN_otif_loss_percentage \<Rightarrow> of_int (pred_otif_loss_percentage p)
      | CN_revenue_at_risk \<Rightarrow> pred_revenue_at_risk p
      | CN_margin_at_risk \<Rightarrow> pred_margin_at_risk p
      | CN_response_cost \<Rightarrow> pred_response_cost p
      | _ \<Rightarrow> 0)"

definition numeric_value :: "response_option \<Rightarrow> comparator \<Rightarrow> rat result" where
  "numeric_value opt c =
     (if cp_name c = CN_approval_burden then Inr (of_int (ro_approval_burden opt))
      else if cp_name c = CN_execution_risk then Inr (of_int (ro_execution_risk opt))
      else case ro_predicted opt of
             None \<Rightarrow> Inl (ValueError (''Response option '' @ ro_option_id opt @
                                    '' has no predicted outcome''))
           | Some p \<Rightarrow> Inr (predicted_attribute (cp_name c) p))"

text \<open>\<open>min(xs, key=key)\<close>: the first element with the least key.\<close>

fun min_by :: "('a \<Rightarrow> 'k::linorder) \<Rightarrow> 'a \<Rightarrow> 'a list \<Rightarrow> 'a" where
  "min_by key x [] = x"
| "min_by key x (y # ys) = min_by key (if key y < key x then y else x) ys"

definition rank_stage ::
    "comparator \<Rightarrow> response_option list \<Rightarrow> (ranking_stage \<times> response_option list) result" where
  "rank_stage c remaining =
     bindR
       (if cp_name c = CN_option_id
        then Inr (map (\<lambda>opt. \<lparr>cv_option_id = ro_option_id opt,
                             cv_value = CV_str (ro_option_id opt)\<rparr>) remaining,
                  [min_by ro_option_id (hd remaining) (tl remaining)])
        else bindR (mapR (\<lambda>opt. bindR (numeric_value opt c) (\<lambda>v. Inr (opt, v))) remaining)
               (\<lambda>numeric_values.
                 let best = Min (set (map snd numeric_values)) in
                 Inr (map (\<lambda>(opt, v). \<lparr>cv_option_id = ro_option_id opt, cv_value = CV_Decimal v\<rparr>)
                        numeric_values,
                      map fst (filter (\<lambda>(opt, v). v \<le> best + cp_threshold c) numeric_values))))
       (\<lambda>(vals, retained).
         let input_ids = map ro_option_id remaining; retained_ids = map ro_option_id retained in
         Inr (\<lparr>rs_comparator = comparator_name_value (cp_name c), rs_threshold = cp_threshold c,
               rs_lower_is_better = cp_lower_is_better c, rs_input_option_ids = input_ids,
               rs_values = vals, rs_retained_option_ids = retained_ids,
               rs_eliminated_option_ids =
                 filter (\<lambda>i. i \<notin> set retained_ids) input_ids\<rparr>, retained))"

fun rank_stages ::
    "comparator list \<Rightarrow> response_option list \<Rightarrow>
     (ranking_stage list \<times> response_option list) result" where
  "rank_stages [] remaining = Inr ([], remaining)"
| "rank_stages (c # cs) remaining =
     bindR (rank_stage c remaining) (\<lambda>(stage, retained).
       if length retained = 1 then Inr ([stage], retained)
       else bindR (rank_stages cs retained) (\<lambda>(stages, final). Inr (stage # stages, final)))"

definition eligible_option :: "response_option \<Rightarrow> bool" where
  "eligible_option opt \<longleftrightarrow> ro_active_mitigation opt \<and> ro_executable opt \<and>
     ro_predicted opt \<noteq> None \<and> ro_blocking_codes opt = []"

definition infeasible_option :: "response_option \<Rightarrow> bool" where
  "infeasible_option opt \<longleftrightarrow> ro_active_mitigation opt \<and>
     (\<not> ro_executable opt \<or> ro_predicted opt = None \<or> ro_blocking_codes opt \<noteq> [])"

definition rank_options :: "response_option list \<Rightarrow> ranking_result result" where
  "rank_options options =
     bindR (require (distinct (map ro_option_id options))
              (ValueError ''duplicate response option stable ID'')) (\<lambda>_.
       let excluded_baselines =
             sort (map ro_option_id (filter (\<lambda>opt. \<not> ro_active_mitigation opt) options));
           infeasible = sort (map ro_option_id (filter infeasible_option options));
           remaining = sort_key ro_option_id (filter eligible_option options);
           eligible_ids = map ro_option_id remaining
       in
       if remaining = [] then
         Inr \<lparr>rr_policy_version = RANKING_POLICY_VERSION, rr_eligible_option_ids = [],
              rr_infeasible_option_ids = infeasible,
              rr_excluded_baseline_ids = excluded_baselines, rr_stages = [],
              rr_recommended_option_id = None, rr_no_feasible_mitigation = True\<rparr>
       else
         bindR (rank_stages COMPARATORS remaining) (\<lambda>(stages, final).
         Inr \<lparr>rr_policy_version = RANKING_POLICY_VERSION, rr_eligible_option_ids = eligible_ids,
              rr_infeasible_option_ids = infeasible,
              rr_excluded_baseline_ids = excluded_baselines, rr_stages = stages,
              rr_recommended_option_id = Some (ro_option_id (hd final)),
              rr_no_feasible_mitigation = False\<rparr>))"

section \<open>Reference form of the stages\<close>

text \<open>The value a comparator reads of an option that has a prediction.\<close>

definition option_value :: "comparator \<Rightarrow> response_option \<Rightarrow> rat" where
  "option_value c opt =
     (case numeric_value opt c of Inl e \<Rightarrow> 0 | Inr v \<Rightarrow> v)"

definition within_threshold :: "comparator \<Rightarrow> response_option list \<Rightarrow> response_option \<Rightarrow> bool" where
  "within_threshold c opts opt \<longleftrightarrow>
     (\<forall>o2 \<in> set opts. option_value c opt \<le> option_value c o2 + cp_threshold c)"

definition keep_close :: "comparator \<Rightarrow> response_option list \<Rightarrow> response_option list" where
  "keep_close c opts = filter (within_threshold c opts) opts"

lemma min_by_in: "min_by key x ys \<in> set (x # ys)"
  by (induction key x ys rule: min_by.induct) auto

lemma min_by_le: "\<forall>y \<in> set (x # ys). key (min_by key x ys) \<le> key y"
proof (induction key x ys rule: min_by.induct)
  case (2 key x y ys)
  then show ?case by (auto split: if_splits intro: order_trans less_imp_le)
qed simp

lemma numeric_value_total:
  "ro_predicted opt \<noteq> None \<Longrightarrow> numeric_value opt c = Inr (option_value c opt)"
  by (auto simp: numeric_value_def option_value_def)

lemma within_threshold_Min:
  assumes "opts \<noteq> []"
  shows "within_threshold c opts opt \<longleftrightarrow>
    option_value c opt \<le> Min (option_value c ` set opts) + cp_threshold c"
proof -
  have "Min (option_value c ` set opts) \<in> option_value c ` set opts"
    using assms by (intro Min_in) auto
  moreover have "Min (option_value c ` set opts) \<le> option_value c o2" if "o2 \<in> set opts" for o2
    using that by simp
  ultimately show ?thesis unfolding within_threshold_def by fastforce
qed

lemma rank_stage_numeric:
  assumes "cp_name c \<noteq> CN_option_id" and "opts \<noteq> []"
    and "\<forall>opt \<in> set opts. ro_predicted opt \<noteq> None"
  shows "\<exists>stage. rank_stage c opts = Inr (stage, keep_close c opts) \<and>
    rs_input_option_ids stage = map ro_option_id opts \<and>
    rs_retained_option_ids stage = map ro_option_id (keep_close c opts) \<and>
    rs_eliminated_option_ids stage =
      filter (\<lambda>i. i \<notin> set (map ro_option_id (keep_close c opts))) (map ro_option_id opts)"
proof -
  have vals: "mapR (\<lambda>opt. bindR (numeric_value opt c) (\<lambda>v. Inr (opt, v))) opts =
      Inr (map (\<lambda>opt. (opt, option_value c opt)) opts)"
    using assms(3) by (intro mapR_total) (simp add: numeric_value_total)
  have kept: "map fst (filter (\<lambda>(opt, v). v \<le> Min (set (map snd (map (\<lambda>opt. (opt, option_value c opt)) opts)))
      + cp_threshold c) (map (\<lambda>opt. (opt, option_value c opt)) opts)) = keep_close c opts"
  proof -
    have "keep_close c opts = filter (\<lambda>opt. option_value c opt \<le>
        Min (option_value c ` set opts) + cp_threshold c) opts"
      unfolding keep_close_def
      by (intro filter_cong refl) (rule within_threshold_Min [OF assms(2)])
    then show ?thesis by (simp add: filter_map comp_def image_image)
  qed
  show ?thesis
    unfolding rank_stage_def if_not_P [OF assms(1)] vals bindR_simps Let_def kept prod.case
    by simp
qed

lemma rank_stage_id:
  assumes "cp_name c = CN_option_id"
  shows "\<exists>stage. rank_stage c opts =
      Inr (stage, [min_by ro_option_id (hd opts) (tl opts)]) \<and>
    rs_input_option_ids stage = map ro_option_id opts \<and>
    rs_retained_option_ids stage = [ro_option_id (min_by ro_option_id (hd opts) (tl opts))] \<and>
    rs_eliminated_option_ids stage =
      filter (\<lambda>i. i \<notin> {ro_option_id (min_by ro_option_id (hd opts) (tl opts))})
        (map ro_option_id opts)"
  using assms by (simp add: rank_stage_def Let_def)

text \<open>What survives a list of comparators, with no early exit.\<close>

fun survivors :: "comparator list \<Rightarrow> response_option list \<Rightarrow> response_option list" where
  "survivors [] opts = opts"
| "survivors (c # cs) opts =
     survivors cs
       (if cp_name c = CN_option_id then [min_by ro_option_id (hd opts) (tl opts)]
        else keep_close c opts)"

text \<open>The trace: every stage starts where the one before it stopped and loses what it says.\<close>

fun stage_chain :: "string list \<Rightarrow> ranking_stage list \<Rightarrow> string list \<Rightarrow> bool" where
  "stage_chain ids [] final \<longleftrightarrow> final = ids"
| "stage_chain ids (st # sts) final \<longleftrightarrow>
     rs_input_option_ids st = ids \<and> rs_retained_option_ids st \<noteq> [] \<and>
     set (rs_retained_option_ids st) \<subseteq> set ids \<and>
     rs_eliminated_option_ids st = filter (\<lambda>i. i \<notin> set (rs_retained_option_ids st)) ids \<and>
     stage_chain (rs_retained_option_ids st) sts final"

lemma keep_close_facts:
  assumes "opts \<noteq> []" and "0 \<le> cp_threshold c"
  shows "keep_close c opts \<noteq> []" "set (keep_close c opts) \<subseteq> set opts"
proof -
  have "Min (option_value c ` set opts) \<in> option_value c ` set opts"
    using assms(1) by (intro Min_in) auto
  then obtain opt where "opt \<in> set opts" "option_value c opt = Min (option_value c ` set opts)"
    by auto
  then have "within_threshold c opts opt"
    using within_threshold_Min [OF assms(1)] assms(2) by simp
  with \<open>opt \<in> set opts\<close> show "keep_close c opts \<noteq> []"
    by (auto simp: keep_close_def filter_empty_conv)
qed (simp add: keep_close_def)

lemma survivors_singleton:
  "\<forall>c \<in> set cs. 0 \<le> cp_threshold c \<Longrightarrow> survivors cs [opt] = [opt]"
  by (induction cs) (auto simp: keep_close_def within_threshold_def)

definition stage_result :: "comparator \<Rightarrow> response_option list \<Rightarrow> response_option list" where
  "stage_result c opts =
     (if cp_name c = CN_option_id then [min_by ro_option_id (hd opts) (tl opts)]
      else keep_close c opts)"

lemma stage_result_facts:
  assumes "opts \<noteq> []" and "0 \<le> cp_threshold c"
  shows "stage_result c opts \<noteq> []" "set (stage_result c opts) \<subseteq> set opts"
  using keep_close_facts [OF assms] min_by_in [of ro_option_id "hd opts" "tl opts"] assms(1)
  by (auto simp: stage_result_def)

lemma rank_stage_result:
  assumes "opts \<noteq> []" and "\<forall>opt \<in> set opts. ro_predicted opt \<noteq> None"
  shows "\<exists>stage. rank_stage c opts = Inr (stage, stage_result c opts) \<and>
    rs_input_option_ids stage = map ro_option_id opts \<and>
    rs_retained_option_ids stage = map ro_option_id (stage_result c opts) \<and>
    rs_eliminated_option_ids stage =
      filter (\<lambda>i. i \<notin> set (map ro_option_id (stage_result c opts))) (map ro_option_id opts)"
  using rank_stage_numeric [OF _ assms, of c] rank_stage_id [of c opts]
  by (cases "cp_name c = CN_option_id") (simp_all add: stage_result_def)

lemma rank_stages_survivors:
  assumes "opts \<noteq> []" and "\<forall>opt \<in> set opts. ro_predicted opt \<noteq> None"
    and "\<forall>c \<in> set cs. 0 \<le> cp_threshold c"
  shows "\<exists>stages. rank_stages cs opts = Inr (stages, survivors cs opts) \<and>
    stage_chain (map ro_option_id opts) stages (map ro_option_id (survivors cs opts)) \<and>
    length stages \<le> length cs"
  using assms
proof (induction cs arbitrary: opts)
  case (Cons c cs)
  obtain stage where stage: "rank_stage c opts = Inr (stage, stage_result c opts)"
    "rs_input_option_ids stage = map ro_option_id opts"
    "rs_retained_option_ids stage = map ro_option_id (stage_result c opts)"
    "rs_eliminated_option_ids stage =
      filter (\<lambda>i. i \<notin> set (map ro_option_id (stage_result c opts))) (map ro_option_id opts)"
    using rank_stage_result [OF Cons.prems(1,2), of c] by blast
  have surv: "survivors (c # cs) opts = survivors cs (stage_result c opts)"
    by (simp add: stage_result_def)
  have facts: "stage_result c opts \<noteq> []" "set (stage_result c opts) \<subseteq> set opts"
    using stage_result_facts [OF Cons.prems(1)] Cons.prems(3) by simp_all
  then have chain: "stage_chain (map ro_option_id opts) (stage # sts) fin \<longleftrightarrow>
      stage_chain (map ro_option_id (stage_result c opts)) sts fin" for sts fin
    using stage by auto
  show ?case
  proof (cases "length (stage_result c opts) = 1")
    case True
    then obtain opt where opt: "stage_result c opts = [opt]"
      by (auto simp: length_Suc_conv)
    have "survivors cs [opt] = [opt]" using Cons.prems(3) by (intro survivors_singleton) simp
    then show ?thesis
      using stage(1) chain [of "[]"] opt by (intro exI [of _ "[stage]"]) (simp add: surv del: survivors.simps)
  next
    case False
    have "\<forall>opt \<in> set (stage_result c opts). ro_predicted opt \<noteq> None"
      using facts(2) Cons.prems(2) by blast
    moreover have "\<forall>c \<in> set cs. 0 \<le> cp_threshold c" using Cons.prems(3) by simp
    ultimately obtain stages where
      "rank_stages cs (stage_result c opts) = Inr (stages, survivors cs (stage_result c opts))"
      "stage_chain (map ro_option_id (stage_result c opts)) stages
         (map ro_option_id (survivors cs (stage_result c opts)))"
      "length stages \<le> length cs"
      using Cons.IH [OF facts(1)] by blast
    then show ?thesis
      using stage(1) False chain [of stages]
      by (intro exI [of _ "stage # stages"]) (simp add: surv del: survivors.simps stage_chain.simps)
  qed
qed simp

lemma survivors_facts:
  assumes "opts \<noteq> []" and "\<forall>c \<in> set cs. 0 \<le> cp_threshold c"
  shows "survivors cs opts \<noteq> [] \<and> set (survivors cs opts) \<subseteq> set opts"
  using assms
proof (induction cs arbitrary: opts)
  case (Cons c cs)
  have surv: "survivors (c # cs) opts = survivors cs (stage_result c opts)"
    by (simp add: stage_result_def)
  have facts: "stage_result c opts \<noteq> []" "set (stage_result c opts) \<subseteq> set opts"
    using stage_result_facts [OF Cons.prems(1)] Cons.prems(2) by simp_all
  have "\<forall>c \<in> set cs. 0 \<le> cp_threshold c" using Cons.prems(2) by simp
  from Cons.IH [OF facts(1) this] facts(2) show ?case unfolding surv by blast
qed simp

lemma survivors_append: "survivors (cs @ ds) opts = survivors ds (survivors cs opts)"
  by (induction cs opts rule: survivors.induct) simp_all

definition numeric_comparators :: "comparator list" where
  "numeric_comparators = butlast COMPARATORS"

lemma comparators_split:
  "COMPARATORS = numeric_comparators @ [lower_is_better CN_option_id 0]"
  by (simp add: numeric_comparators_def COMPARATORS_def)

lemma length_COMPARATORS: "length COMPARATORS = 8"
  by (simp add: COMPARATORS_def)

lemma comparators_thresholds: "\<forall>c \<in> set COMPARATORS. 0 \<le> cp_threshold c"
  by (simp add: COMPARATORS_def lower_is_better_def)

text \<open>The same on sets: one selection per comparator.\<close>

fun close_set :: "comparator list \<Rightarrow> response_option set \<Rightarrow> response_option set" where
  "close_set [] S = S"
| "close_set (c # cs) S =
     close_set cs {x \<in> S. \<forall>y \<in> S. option_value c x \<le> option_value c y + cp_threshold c}"

lemma set_survivors:
  "\<forall>c \<in> set cs. cp_name c \<noteq> CN_option_id \<Longrightarrow> set (survivors cs opts) = close_set cs (set opts)"
proof (induction cs arbitrary: opts)
  case (Cons c cs)
  have "set (keep_close c opts) =
      {x \<in> set opts. \<forall>y \<in> set opts. option_value c x \<le> option_value c y + cp_threshold c}"
    by (auto simp: keep_close_def within_threshold_def)
  with Cons show ?case by simp
qed simp

lemma close_set_subset: "close_set cs S \<subseteq> S"
  by (induction cs S rule: close_set.induct) auto

lemma min_by_Min: "key (min_by key x ys) = Min (key ` set (x # ys))"
  using min_by_in [of key x ys] min_by_le [of x ys key]
  by (intro Min_eqI [symmetric]) auto

section \<open>The ranking\<close>

definition ranked :: "response_option list \<Rightarrow> response_option list" where
  "ranked opts = sort_key ro_option_id (filter eligible_option opts)"

lemma set_ranked [simp]: "set (ranked opts) = {opt \<in> set opts. eligible_option opt}"
  by (auto simp: ranked_def)

lemma ranked_predicted: "\<forall>opt \<in> set (ranked opts). ro_predicted opt \<noteq> None"
  by (auto simp: eligible_option_def)

lemma ranked_Nil_iff: "ranked opts = [] \<longleftrightarrow> (\<forall>opt \<in> set opts. \<not> eligible_option opt)"
  by (auto simp flip: set_empty)

lemma rank_options_cases:
  assumes "distinct (map ro_option_id opts)"
  shows "\<exists>r stages. rank_options opts = Inr r \<and>
    rr_eligible_option_ids r = map ro_option_id (ranked opts) \<and>
    rr_infeasible_option_ids r = sort (map ro_option_id (filter infeasible_option opts)) \<and>
    rr_excluded_baseline_ids r =
      sort (map ro_option_id (filter (\<lambda>opt. \<not> ro_active_mitigation opt) opts)) \<and>
    rr_stages r = stages \<and> length stages \<le> 8 \<and>
    rr_no_feasible_mitigation r = (ranked opts = []) \<and>
    (if ranked opts = [] then stages = [] \<and> rr_recommended_option_id r = None
     else rr_recommended_option_id r =
         Some (Min (ro_option_id ` close_set numeric_comparators (set (ranked opts)))) \<and>
       stage_chain (map ro_option_id (ranked opts)) stages
         [Min (ro_option_id ` close_set numeric_comparators (set (ranked opts)))])"
proof (cases "ranked opts = []")
  case True
  with assms show ?thesis by (simp add: rank_options_def ranked_def require_def Let_def)
next
  case False
  obtain stages where st:
    "rank_stages COMPARATORS (ranked opts) = Inr (stages, survivors COMPARATORS (ranked opts))"
    "stage_chain (map ro_option_id (ranked opts)) stages
       (map ro_option_id (survivors COMPARATORS (ranked opts)))"
    "length stages \<le> 8"
    using rank_stages_survivors [OF False ranked_predicted comparators_thresholds]
    unfolding length_COMPARATORS by blast
  let ?S = "survivors numeric_comparators (ranked opts)"
  have num: "\<forall>c \<in> set numeric_comparators. cp_name c \<noteq> CN_option_id"
    "\<forall>c \<in> set numeric_comparators. 0 \<le> cp_threshold c"
    by (simp_all add: numeric_comparators_def COMPARATORS_def lower_is_better_def)
  have ne: "?S \<noteq> []" using survivors_facts [OF False num(2)] by blast
  then have hd_tl: "set (hd ?S # tl ?S) = close_set numeric_comparators (set (ranked opts))"
    unfolding set_survivors [OF num(1), symmetric] by simp
  have last: "survivors COMPARATORS (ranked opts) = [min_by ro_option_id (hd ?S) (tl ?S)]"
    unfolding comparators_split survivors_append by (simp add: lower_is_better_def)
  have id: "ro_option_id (min_by ro_option_id (hd ?S) (tl ?S)) =
      Min (ro_option_id ` close_set numeric_comparators (set (ranked opts)))"
    unfolding min_by_Min hd_tl ..
  have "rank_options opts = Inr \<lparr>rr_policy_version = RANKING_POLICY_VERSION,
      rr_eligible_option_ids = map ro_option_id (ranked opts),
      rr_infeasible_option_ids = sort (map ro_option_id (filter infeasible_option opts)),
      rr_excluded_baseline_ids =
        sort (map ro_option_id (filter (\<lambda>opt. \<not> ro_active_mitigation opt) opts)),
      rr_stages = stages,
      rr_recommended_option_id =
        Some (Min (ro_option_id ` close_set numeric_comparators (set (ranked opts)))),
      rr_no_feasible_mitigation = False\<rparr>"
    using assms False st(1) last id
    by (simp add: rank_options_def require_def Let_def flip: ranked_def)
  then show ?thesis using False st(2,3) last id by simp
qed

lemma rank_options_accepts: "(\<exists>r. rank_options opts = Inr r) \<longleftrightarrow> distinct (map ro_option_id opts)"
  using rank_options_cases [of opts] by (auto simp: rank_options_def require_def)

lemma close_set_nonempty:
  assumes "ranked opts \<noteq> []"
  shows "close_set numeric_comparators (set (ranked opts)) \<noteq> {}"
proof -
  have num: "\<forall>c \<in> set numeric_comparators. cp_name c \<noteq> CN_option_id"
    "\<forall>c \<in> set numeric_comparators. 0 \<le> cp_threshold c"
    by (simp_all add: numeric_comparators_def COMPARATORS_def lower_is_better_def)
  show ?thesis
    using survivors_facts [OF assms num(2)] unfolding set_survivors [OF num(1), symmetric]
    by simp
qed

lemma recommended_survives:
  assumes "rank_options opts = Inr r" and "rr_recommended_option_id r = Some i"
  shows "\<exists>opt \<in> close_set numeric_comparators (set (ranked opts)). ro_option_id opt = i"
proof -
  have d: "distinct (map ro_option_id opts)" using assms(1) rank_options_accepts by blast
  then have ne: "ranked opts \<noteq> []"
    and i: "i = Min (ro_option_id ` close_set numeric_comparators (set (ranked opts)))"
    using rank_options_cases [OF d] assms by (auto split: if_splits)
  have "finite (close_set numeric_comparators (set (ranked opts)))"
    using close_set_subset finite_subset by blast
  then have "i \<in> ro_option_id ` close_set numeric_comparators (set (ranked opts))"
    unfolding i using close_set_nonempty [OF ne] by (intro Min_in) auto
  then show ?thesis by auto
qed

lemma rank_options_perm:
  assumes "mset opts = mset opts'"
  shows "rank_options opts = rank_options opts'"
proof (cases "distinct (map ro_option_id opts)")
  case True
  have d': "distinct (map ro_option_id opts')" using True distinct_map_mset [OF assms] by blast
  have filt: "mset (filter P opts) = mset (filter P opts')" for P
    using assms by (simp add: mset_filter)
  have srt: "sort (map ro_option_id (filter P opts)) = sort (map ro_option_id (filter P opts'))" for P
    by (metis filt mset_map mset_sort properties_for_sort sorted_sort)
  have rnk: "sort_key ro_option_id (filter eligible_option opts) =
      sort_key ro_option_id (filter eligible_option opts')"
    using filt True by (intro sort_key_perm) (simp_all add: distinct_map_filter)
  show ?thesis using True d' unfolding rank_options_def srt rnk by (simp add: require_def)
next
  case False
  then have "\<not> distinct (map ro_option_id opts')" using distinct_map_mset [OF assms] by blast
  with False show ?thesis by (simp add: rank_options_def require_def)
qed

interpretation ranking: recommender rank_options ro_option_id eligible_option
  rr_recommended_option_id
proof unfold_locales
  fix opts r i
  assume r: "rank_options opts = Inr r" and "rr_recommended_option_id r = Some i"
  from recommended_survives [OF this]
  show "\<exists>opt \<in> set opts. ro_option_id opt = i \<and> eligible_option opt"
    using close_set_subset by fastforce
next
  fix opts r opt
  assume r: "rank_options opts = Inr r" and "opt \<in> set opts" "eligible_option opt"
  moreover have "distinct (map ro_option_id opts)" using r rank_options_accepts by blast
  ultimately show "rr_recommended_option_id r \<noteq> None"
    using rank_options_cases [of opts] ranked_Nil_iff [of opts] by (auto split: if_splits)
qed (fact rank_options_accepts, fact rank_options_perm)

section \<open>An example\<close>

definition ex_option :: "string \<Rightarrow> bool \<Rightarrow> (int \<times> int \<times> money) option \<Rightarrow> response_option" where
  "ex_option oid active outcome =
     \<lparr>ro_option_id = oid, ro_option_kind = ROK_TRANSFER, ro_name = oid, ro_executable = active,
      ro_active_mitigation = active,
      ro_predicted =
        map_option (\<lambda>(uncovered, otif, cost).
          \<lparr>pred_uncovered_part_demand = uncovered, pred_otif_loss_percentage = otif,
           pred_revenue_at_risk = 0, pred_margin_at_risk = 0, pred_response_cost = cost,
           pred_protected_customer_order_ids = []\<rparr>) outcome,
      ro_assumptions = [], ro_evidence_ids = [], ro_evidence_requirements = [],
      ro_blocking_codes = [], ro_prerequisite_roles = [], ro_source_data_lineage = [],
      ro_approval_burden = 1, ro_execution_risk = 1, ro_requested_side_effects = []\<rparr>"

definition ex_options :: "response_option list" where
  "ex_options =
     [ex_option ''TRANSFER'' True (Some (2600, 50, 2250)),
      ex_option ''BASELINE'' False (Some (6800, 100, 0)),
      ex_option ''COMBINED'' True (Some (2300, 45, 24750)),
      ex_option ''BETA'' True None]"

definition ex_ranking :: ranking_result where
  "ex_ranking =
     (case rank_options ex_options of Inr r \<Rightarrow> r
      | Inl e \<Rightarrow> \<lparr>rr_policy_version = [], rr_eligible_option_ids = [],
                 rr_infeasible_option_ids = [], rr_excluded_baseline_ids = [], rr_stages = [],
                 rr_recommended_option_id = None, rr_no_feasible_mitigation = True\<rparr>)"

lemma ex_distinct_options: "distinct (map ro_option_id ex_options)"
  by (simp add: ex_options_def ex_option_def)

lemma ex_ranking_eq: "rank_options ex_options = Inr ex_ranking"
proof -
  obtain r where "rank_options ex_options = Inr r"
    using rank_options_accepts ex_distinct_options by blast
  then show ?thesis by (simp add: ex_ranking_def)
qed

lemma ex_recommended: "rr_recommended_option_id ex_ranking = Some ''TRANSFER''"
  by code_simp

section \<open>Properties\<close>

text \<open>
  C15. The ranking accepts a list of options exactly when their ids are distinct, and refuses it with
  a \<open>ValueError\<close> otherwise.  When it accepts, every option is reported once, as eligible, infeasible or excluded baseline; an option is recommended
  exactly when some option is eligible, and the recommended id belongs to an active, executable
  option with a prediction and no blocking code.
\<close>

theorem ranking_partition_and_soundness:
  "if distinct (map ro_option_id opts) then
     \<exists>r. rank_options opts = Inr r \<and>
       mset (rr_eligible_option_ids r) + mset (rr_infeasible_option_ids r) +
         mset (rr_excluded_baseline_ids r) = mset (map ro_option_id opts) \<and>
       (rr_no_feasible_mitigation r \<longleftrightarrow> rr_recommended_option_id r = None) \<and>
       (rr_recommended_option_id r = None \<longleftrightarrow> (\<forall>opt \<in> set opts. \<not> eligible_option opt)) \<and>
       (\<forall>i. rr_recommended_option_id r = Some i \<longrightarrow>
          i \<in> set (rr_eligible_option_ids r) \<and>
          (\<exists>opt \<in> set opts. ro_option_id opt = i \<and> ro_active_mitigation opt \<and> ro_executable opt \<and>
             ro_predicted opt \<noteq> None \<and> ro_blocking_codes opt = []))
   else rank_options opts = Inl (ValueError ''duplicate response option stable ID'')"
proof (cases "distinct (map ro_option_id opts)")
  case False
  then show ?thesis by (simp add: rank_options_def require_def)
next
  case True
  obtain r where r: "rank_options opts = Inr r"
    and ids: "rr_eligible_option_ids r = map ro_option_id (ranked opts)"
      "rr_infeasible_option_ids r = sort (map ro_option_id (filter infeasible_option opts))"
      "rr_excluded_baseline_ids r =
        sort (map ro_option_id (filter (\<lambda>opt. \<not> ro_active_mitigation opt) opts))"
    and none: "rr_no_feasible_mitigation r = (ranked opts = [])"
      "ranked opts = [] \<longleftrightarrow> rr_recommended_option_id r = None"
    using rank_options_cases [OF True] by (auto split: if_splits)
  have "mset (filter eligible_option opts) + mset (filter infeasible_option opts) +
      mset (filter (\<lambda>opt. \<not> ro_active_mitigation opt) opts) = mset opts"
    by (induction opts) (auto simp: eligible_option_def infeasible_option_def)
  then have "image_mset ro_option_id (mset (filter eligible_option opts)) +
      image_mset ro_option_id (mset (filter infeasible_option opts)) +
      image_mset ro_option_id (mset (filter (\<lambda>opt. \<not> ro_active_mitigation opt) opts)) =
      image_mset ro_option_id (mset opts)"
    by (metis image_mset_union)
  then have part: "mset (rr_eligible_option_ids r) + mset (rr_infeasible_option_ids r) +
      mset (rr_excluded_baseline_ids r) = mset (map ro_option_id opts)"
    unfolding ids ranked_def by simp
  have pick: "\<exists>opt \<in> set opts. ro_option_id opt = i \<and> eligible_option opt"
    if "rr_recommended_option_id r = Some i" for i
    using ranking.picks_eligible [OF r that] .
  have "(rr_recommended_option_id r = None \<longleftrightarrow> (\<forall>opt \<in> set opts. \<not> eligible_option opt)) \<and>
      (\<forall>i. rr_recommended_option_id r = Some i \<longrightarrow>
         i \<in> set (rr_eligible_option_ids r) \<and>
         (\<exists>opt \<in> set opts. ro_option_id opt = i \<and> ro_active_mitigation opt \<and> ro_executable opt \<and>
            ro_predicted opt \<noteq> None \<and> ro_blocking_codes opt = []))"
    using ranking.pick_none_iff [OF r] pick ids(1) by (fastforce simp: eligible_option_def)
  then show ?thesis using True r part none by auto
qed

theorem ranking_partition_and_soundness_witness:
  "\<exists>r. rank_options ex_options = Inr r \<and> rr_recommended_option_id r = Some ''TRANSFER'' \<and>
     ''TRANSFER'' \<in> set (rr_eligible_option_ids r)"
  using ranking_partition_and_soundness [of ex_options] ex_distinct_options ex_ranking_eq ex_recommended
  by auto

text \<open>
  The trace is a proof of the recommendation: at most eight stages, the first one starts
  from the eligible options, each stage starts from what the one before it kept, keeps a nonempty
  part and reports the rest as eliminated, and the last one leaves exactly the recommended
  option.
\<close>

theorem ranking_trace_chain:
  assumes "rank_options opts = Inr r" and "rr_recommended_option_id r = Some i"
  shows "stage_chain (rr_eligible_option_ids r) (rr_stages r) [i] \<and> length (rr_stages r) \<le> 8"
proof -
  have "distinct (map ro_option_id opts)" using assms(1) rank_options_accepts by blast
  from rank_options_cases [OF this] show ?thesis using assms by (auto split: if_splits)
qed

theorem ranking_trace_chain_witness:
  "stage_chain (rr_eligible_option_ids ex_ranking) (rr_stages ex_ranking) [''TRANSFER'']"
  using ranking_trace_chain [OF ex_ranking_eq ex_recommended] by blast

text \<open>
  The ranking does not depend on the order in which the options are listed: the whole
  result, trace included, is the same for every permutation.
\<close>

theorem ranking_order_independent:
  assumes "mset opts = mset opts'"
  shows "rank_options opts = rank_options opts'"
  by (rule ranking.canonical [OF assms])

theorem ranking_order_independent_witness: "rank_options (rev ex_options) = Inr ex_ranking"
  using ranking_order_independent [of "rev ex_options" ex_options] ex_ranking_eq by simp

text \<open>
  C18. The staged ranking with its early exit computes the thresholded lexicographic policy: the
  recommended id is the least one among the eligible options that survive all seven numeric
  comparators, and so it is within 500 units of the least uncovered demand of any eligible
  option.
\<close>

theorem ranking_is_thresholded_lexicographic:
  assumes "rank_options opts = Inr r" and "rr_recommended_option_id r = Some i"
  shows "i = Min (ro_option_id `
      close_set numeric_comparators {opt \<in> set opts. eligible_option opt}) \<and>
    (\<exists>opt p. opt \<in> set opts \<and> ro_option_id opt = i \<and> ro_predicted opt = Some p \<and>
       (\<forall>o2 \<in> set opts. \<forall>p2. eligible_option o2 \<and> ro_predicted o2 = Some p2 \<longrightarrow>
          pred_uncovered_part_demand p \<le> pred_uncovered_part_demand p2 + 500))"
proof
  have "distinct (map ro_option_id opts)" using assms(1) rank_options_accepts by blast
  from rank_options_cases [OF this]
  show "i = Min (ro_option_id `
      close_set numeric_comparators {opt \<in> set opts. eligible_option opt})"
    using assms by (auto split: if_splits)
  obtain opt where opt: "opt \<in> close_set numeric_comparators (set (ranked opts))"
    and i: "ro_option_id opt = i"
    using recommended_survives [OF assms] by blast
  let ?c = "lower_is_better CN_uncovered_part_demand 500"
  have nc: "numeric_comparators = ?c # tl numeric_comparators"
    by (simp add: numeric_comparators_def COMPARATORS_def)
  have "opt \<in> {x \<in> set (ranked opts). \<forall>y \<in> set (ranked opts).
      option_value ?c x \<le> option_value ?c y + cp_threshold ?c}"
    using opt close_set_subset by (subst (asm) nc) auto
  then have elig: "opt \<in> set opts" "eligible_option opt"
    and close: "\<And>y. y \<in> set opts \<Longrightarrow> eligible_option y \<Longrightarrow>
      option_value ?c opt \<le> option_value ?c y + 500"
    by (auto simp: lower_is_better_def)
  obtain p where p: "ro_predicted opt = Some p" using elig(2) by (auto simp: eligible_option_def)
  have val: "option_value ?c x = of_int (pred_uncovered_part_demand q)"
    if "ro_predicted x = Some q" for x q
    using that by (simp add: option_value_def numeric_value_def predicted_attribute_def
        lower_is_better_def)
  have "pred_uncovered_part_demand p \<le> pred_uncovered_part_demand p2 + 500"
    if "o2 \<in> set opts" "eligible_option o2" "ro_predicted o2 = Some p2" for o2 p2
  proof -
    have "(of_int (pred_uncovered_part_demand p) :: rat) \<le>
        of_int (pred_uncovered_part_demand p2 + 500)"
      using close [OF that(1,2)] val [OF p] val [OF that(3)] by simp
    then show ?thesis by (simp only: of_int_le_iff)
  qed
  then show "\<exists>opt p. opt \<in> set opts \<and> ro_option_id opt = i \<and> ro_predicted opt = Some p \<and>
      (\<forall>o2 \<in> set opts. \<forall>p2. eligible_option o2 \<and> ro_predicted o2 = Some p2 \<longrightarrow>
         pred_uncovered_part_demand p \<le> pred_uncovered_part_demand p2 + 500)"
    using elig(1) i p by blast
qed

theorem ranking_is_thresholded_lexicographic_witness:
  "''TRANSFER'' = Min (ro_option_id `
     close_set numeric_comparators {opt \<in> set ex_options. eligible_option opt})"
  using ranking_is_thresholded_lexicographic [OF ex_ranking_eq ex_recommended] by blast

end
