(* ===== verification/Analysis_Service.thy ===== *)
theory Analysis_Service
  imports Options Ranking Analysis_Material
begin

text \<open>
  The analysis pipeline (\<open>services/analysis/service.py\<close>): provenance and duplicate checks,
  evidence feasibility, approval satisfactions, quality feasibility, ranking, and the immutable
  version with its material hash.  The JSON text of a snapshot (\<open>json\<close>) and the hash of the
  material (\<open>hash\<close>) are parameters: pydantic's serialiser produces both texts.
\<close>

section \<open>Model\<close>

record analyze_case_command =
  cmd_analysis_id :: string
  cmd_case :: case_instance
  cmd_corpus :: corpus_scope
  cmd_operational_snapshot :: operational_snapshot
  cmd_evidence_items :: "evidence_item list"
  cmd_standing_authorizations :: "standing_authorization list"
  cmd_analysis_started_at :: instant
  cmd_created_at :: instant
  cmd_calculation_version :: string
  cmd_conflicts :: "evidence_conflict list"
  cmd_conflict_resolutions :: "conflict_resolution list"
  cmd_required_authority_scope :: "authority_scope list"
  cmd_evidence_policy_version :: string
  cmd_approval_policy_version :: "string option"

definition reject_duplicate_ids :: "('a \<Rightarrow> string) \<Rightarrow> string \<Rightarrow> 'a list \<Rightarrow> unit result" where
  "reject_duplicate_ids key label items =
     require (distinct (map key items)) (ValueError (''duplicate '' @ label @ '' stable ID''))"

definition validate_provenance ::
    "case_instance \<Rightarrow> operational_snapshot \<Rightarrow> evidence_item list \<Rightarrow> evidence_conflict list \<Rightarrow>
     unit result" where
  "validate_provenance c snapshot items conflicts =
     bindR (require (os_case_id snapshot = ci_case_id c \<and>
                     os_runtime_mode snapshot = ci_runtime_mode c \<and>
                     os_scenario_effective_time snapshot = ci_scenario_effective_time c)
              (PolicyViolation ''Operational snapshot provenance does not match the case.'')) (\<lambda>_.
     bindR (require (\<forall>item \<in> set items. ei_case_id item = ci_case_id c \<and>
                       ei_runtime_mode item = ci_runtime_mode c)
              (PolicyViolation ''Evidence provenance does not match the case.'')) (\<lambda>_.
     bindR (require (\<forall>conflict \<in> set conflicts. ec_case_id conflict = ci_case_id c)
              (PolicyViolation ''Conflict provenance does not match the case.'')) (\<lambda>_.
     require (\<forall>conflict \<in> set conflicts.
                set (ec_evidence_ids conflict) \<subseteq> ei_evidence_id ` set items)
       (PolicyViolation ''Conflict evidence provenance is outside the case bundle.''))))"

definition canonical_operational_snapshot ::
    "(operational_snapshot \<Rightarrow> string) \<Rightarrow> operational_snapshot \<Rightarrow> string result" where
  "canonical_operational_snapshot json s =
     bindR (require (distinct (map ip_inventory_id (os_inventory_positions s)))
              (ValueError ''duplicate operational inventory_positions stable ID'')) (\<lambda>_.
     bindR (require (distinct (map pro_production_order_id (os_production_orders s)))
              (ValueError ''duplicate operational production_orders stable ID'')) (\<lambda>_.
     bindR (require (distinct (map co_customer_order_line_id (os_customer_orders s)))
              (ValueError ''duplicate operational customer_orders stable ID'')) (\<lambda>_.
     Inr (json (s\<lparr>os_inventory_positions := sort_key ip_inventory_id (os_inventory_positions s),
                  os_production_orders :=
                    sort_key pro_production_order_id (os_production_orders s),
                  os_customer_orders :=
                    sort_key co_customer_order_line_id (os_customer_orders s)\<rparr>)))))"

text \<open>The codes one evidence requirement of an option adds.\<close>

definition requirement_codes ::
    "(string \<Rightarrow> evidence_item_validation option) \<Rightarrow> response_option_evidence_requirement \<Rightarrow>
     string list" where
  "requirement_codes validation_by_id req =
     (case validation_by_id (roer_evidence_id req) of
        None \<Rightarrow> [evidence_blocking_code_value EBC_REQUIRED_EVIDENCE_MISSING]
      | Some v \<Rightarrow>
          let item_codes = map evidence_blocking_code_value (ev_blocking_codes v) in
          item_codes @
          (if ev_uncertainty_state v = US_CONFLICTED
           then [evidence_blocking_code_value EBC_EVIDENCE_CONFLICT_UNRESOLVED] else []) @
          (if set (roer_authority_scope req) \<subseteq> set (ev_validated_authority_scope v)
           then [] else [evidence_blocking_code_value EBC_AUTHORITY_SCOPE_MISMATCH]) @
          (if \<not> ev_authoritative v \<and> item_codes = [] \<and> ev_uncertainty_state v \<noteq> US_CONFLICTED
           then [evidence_blocking_code_value EBC_REQUIRED_EVIDENCE_NOT_AUTHORITATIVE] else []))"

definition evidence_adjusted ::
    "evidence_validation \<Rightarrow> response_option \<Rightarrow> response_option" where
  "evidence_adjusted validation opt =
     (let validation_by_id = dict_by ev_evidence_id (evv_item_results validation);
          global_codes =
            map evidence_blocking_code_value (evv_global_blocking_codes validation);
          evidence_codes =
            (if ro_active_mitigation opt then global_codes else []) @
            concat (map (requirement_codes validation_by_id) (ro_evidence_requirements opt));
          blocking_codes = dict_fromkeys (ro_blocking_codes opt @ evidence_codes)
      in opt\<lparr>ro_executable := ro_executable opt \<and> blocking_codes = [],
             ro_blocking_codes := blocking_codes\<rparr>)"

definition apply_evidence_feasibility ::
    "evidence_validation \<Rightarrow> response_option list \<Rightarrow> response_option list" where
  "apply_evidence_feasibility validation = map (evidence_adjusted validation)"

definition evaluate_approval_satisfactions ::
    "response_option list \<Rightarrow> string \<Rightarrow> case_instance \<Rightarrow> corpus_scope \<Rightarrow>
     standing_authorization list \<Rightarrow> approval_satisfaction list result" where
  "evaluate_approval_satisfactions options analysis_id c corpus auths =
     bindR (mapR (\<lambda>opt.
              bindR (mk_approval_target c corpus (ci_scenario_effective_time c)
                       (case ro_predicted opt of None \<Rightarrow> 0 | Some p \<Rightarrow> pred_response_cost p)
                       (ro_requested_side_effects opt)) (\<lambda>target.
              evaluate_approval_satisfaction opt analysis_id auths target)) options)
       (\<lambda>sats. Inr (concat sats))"

definition quality_adjusted :: "string set \<Rightarrow> response_option \<Rightarrow> response_option" where
  "quality_adjusted satisfied opt =
     (if ro_executable opt \<and> QUALITY_APPROVER \<in> set (ro_prerequisite_roles opt) \<and>
         ro_option_id opt \<notin> satisfied
      then opt\<lparr>ro_executable := False,
               ro_blocking_codes :=
                 dict_fromkeys (ro_blocking_codes opt @ [''QUALITY_APPROVAL_UNSATISFIED''])\<rparr>
      else opt)"

definition satisfied_quality_option_ids :: "approval_satisfaction list \<Rightarrow> string set" where
  "satisfied_quality_option_ids sats =
     set (map as_option_id (filter (\<lambda>s. as_role s = QUALITY_APPROVER \<and> as_satisfied s) sats))"

definition apply_quality_approval_feasibility ::
    "approval_satisfaction list \<Rightarrow> response_option list \<Rightarrow> response_option list" where
  "apply_quality_approval_feasibility sats =
     map (quality_adjusted (satisfied_quality_option_ids sats))"

definition satisfaction_key ::
    "approval_satisfaction \<Rightarrow> string \<times> string \<times> string \<times> string" where
  "satisfaction_key s =
     (as_option_id s, as_role s, as_persona_id s, as_authorization_id s)"

definition evidence_context_of :: "analyze_case_command \<Rightarrow> evidence_context" where
  "evidence_context_of cmd =
     \<lparr>ctx_analysis_id = cmd_analysis_id cmd, ctx_runtime_mode = ci_runtime_mode (cmd_case cmd),
      ctx_scenario_effective_time = ci_scenario_effective_time (cmd_case cmd),
      ctx_analysis_started_at = cmd_analysis_started_at cmd,
      ctx_analysis_recorded_at = cmd_created_at cmd\<rparr>"

text \<open>
  The keyword arguments of \<open>create_analysis_version\<close> are those of the command, with the
  response options beside them.
\<close>

definition create_analysis_version ::
    "(operational_snapshot \<Rightarrow> string) \<Rightarrow> (analysis_material \<Rightarrow> string) \<Rightarrow>
     analyze_case_command \<Rightarrow> response_option list \<Rightarrow> analysis_version result" where
  "create_analysis_version json hash cmd response_options =
     (let c = cmd_case cmd; effective_approval_policy = approval_policy_for c in
      bindR (require (cmd_evidence_policy_version cmd = EVIDENCE_POLICY_VERSION)
               (PolicyViolation ''Evidence policy version does not match the evaluator.'')) (\<lambda>_.
      bindR (require (case cmd_approval_policy_version cmd of
                        None \<Rightarrow> True | Some p \<Rightarrow> p = effective_approval_policy)
               (PolicyViolation ''Approval policy version does not match the evaluator.'')) (\<lambda>_.
      bindR (require (cmd_analysis_started_at cmd \<le> cmd_created_at cmd)
               (PolicyViolation ''Analysis creation cannot precede analysis start.'')) (\<lambda>_.
      bindR (reject_duplicate_ids ei_evidence_id ''evidence'' (cmd_evidence_items cmd)) (\<lambda>_.
      bindR (reject_duplicate_ids ro_option_id ''response option'' response_options) (\<lambda>_.
      bindR (reject_duplicate_ids ec_conflict_id ''conflict'' (cmd_conflicts cmd)) (\<lambda>_.
      bindR (reject_duplicate_ids cr_conflict_id ''conflict resolution''
               (cmd_conflict_resolutions cmd)) (\<lambda>_.
      bindR (reject_duplicate_ids sa_authorization_id ''standing authorization''
               (cmd_standing_authorizations cmd)) (\<lambda>_.
      bindR (validate_provenance c (cmd_operational_snapshot cmd) (cmd_evidence_items cmd)
               (cmd_conflicts cmd)) (\<lambda>_.
      let canonical_evidence = sort_key ei_evidence_id (cmd_evidence_items cmd);
          canonical_options = sort_key ro_option_id response_options;
          canonical_conflicts = sort_key ec_conflict_id (cmd_conflicts cmd);
          canonical_resolutions = sort_key cr_conflict_id (cmd_conflict_resolutions cmd);
          canonical_authorizations =
            sort_key sa_authorization_id
              (standing_authorizations_for c (cmd_standing_authorizations cmd));
          required_scope = sorted_set (cmd_required_authority_scope cmd)
      in
      bindR (validate_required_evidence (evidence_context_of cmd) canonical_evidence
               required_scope canonical_conflicts canonical_resolutions) (\<lambda>validation.
      let evidence_adjusted_options = apply_evidence_feasibility validation canonical_options in
      bindR (evaluate_approval_satisfactions evidence_adjusted_options (cmd_analysis_id cmd) c
               (cmd_corpus cmd) canonical_authorizations) (\<lambda>satisfactions.
      let final_options =
            apply_quality_approval_feasibility satisfactions evidence_adjusted_options in
      bindR (rank_options final_options) (\<lambda>ranking.
      bindR (canonical_operational_snapshot json (cmd_operational_snapshot cmd)) (\<lambda>snapshot_json.
      bindR (mapR (\<lambda>item. bindR (the_or KeyError
                 (dict_by ev_evidence_id (evv_item_results validation) (ei_evidence_id item)))
                 (\<lambda>v. Inr (evidence_material item v))) canonical_evidence) (\<lambda>evidence.
      let material =
            \<lparr>am_case_id = ci_case_id c, am_template_id = ci_template_id c,
             am_case_purpose = ci_purpose c, am_runtime_mode = ci_runtime_mode c,
             am_corpus = cmd_corpus cmd,
             am_scenario_effective_time = ci_scenario_effective_time c,
             am_operational_snapshot_json = snapshot_json,
             am_required_authority_scope = required_scope, am_evidence = evidence,
             am_conflicts = map conflict_material canonical_conflicts,
             am_conflict_resolutions = map resolution_material canonical_resolutions,
             am_evidence_validation = validation,
             am_response_options = map option_material final_options,
             am_standing_authorizations =
               map authorization_material canonical_authorizations,
             am_approval_satisfactions =
               map approval_material (sort_key satisfaction_key satisfactions),
             am_ranking = ranking, am_calculation_version = cmd_calculation_version cmd,
             am_evidence_policy_version = EVIDENCE_POLICY_VERSION,
             am_approval_policy_version = effective_approval_policy\<rparr>
      in Inr
        \<lparr>av_analysis_id = cmd_analysis_id cmd, av_case_id = ci_case_id c,
         av_analysis_started_at = cmd_analysis_started_at cmd,
         av_retrieval_window_ends_at =
           min (cmd_analysis_started_at cmd + EVIDENCE_RETRIEVAL_WINDOW) (cmd_created_at cmd),
         av_created_at = cmd_created_at cmd, av_material_hash = hash material,
         av_material = material, av_evidence_items = canonical_evidence,
         av_evidence_validation = validation, av_response_options = final_options,
         av_approval_satisfactions = satisfactions, av_ranking = ranking,
         av_retrieval_lineage = [],
         av_explanation =
           \<lparr>ax_status = XS_unavailable, ax_signal_json = None, ax_context_json = None,
            ax_decision_json = None\<rparr>\<rparr>)))))))))))))))"

definition analyze_case ::
    "(operational_snapshot \<Rightarrow> string) \<Rightarrow> (analysis_material \<Rightarrow> string) \<Rightarrow>
     analyze_case_command \<Rightarrow> analysis_version result" where
  "analyze_case json hash cmd =
     bindR (evaluate_response_options (cmd_operational_snapshot cmd)) (\<lambda>options.
       create_analysis_version json hash cmd options)"

section \<open>What the filters leave eligible\<close>

lemma evidence_adjusted_sel [simp]:
  "ro_option_id (evidence_adjusted v opt) = ro_option_id opt"
  "ro_option_kind (evidence_adjusted v opt) = ro_option_kind opt"
  "ro_active_mitigation (evidence_adjusted v opt) = ro_active_mitigation opt"
  "ro_predicted (evidence_adjusted v opt) = ro_predicted opt"
  "ro_prerequisite_roles (evidence_adjusted v opt) = ro_prerequisite_roles opt"
  "ro_requested_side_effects (evidence_adjusted v opt) = ro_requested_side_effects opt"
  by (simp_all add: evidence_adjusted_def Let_def)

lemma quality_adjusted_sel [simp]:
  "ro_option_id (quality_adjusted S opt) = ro_option_id opt"
  "ro_option_kind (quality_adjusted S opt) = ro_option_kind opt"
  "ro_active_mitigation (quality_adjusted S opt) = ro_active_mitigation opt"
  "ro_predicted (quality_adjusted S opt) = ro_predicted opt"
  by (simp_all add: quality_adjusted_def)

lemma requirement_codes_Nil_iff:
  "requirement_codes V req = [] \<longleftrightarrow>
     (\<exists>v. V (roer_evidence_id req) = Some v \<and> ev_blocking_codes v = [] \<and>
        ev_uncertainty_state v \<noteq> US_CONFLICTED \<and> ev_authoritative v \<and>
        set (roer_authority_scope req) \<subseteq> set (ev_validated_authority_scope v))"
  by (cases "V (roer_evidence_id req)") (auto simp: requirement_codes_def Let_def)

lemma evidence_adjusted_eligible:
  "eligible_option (evidence_adjusted v opt) \<longleftrightarrow>
     eligible_option opt \<and> evv_global_blocking_codes v = [] \<and>
     (\<forall>req \<in> set (ro_evidence_requirements opt).
        requirement_codes (dict_by ev_evidence_id (evv_item_results v)) req = [])"
  by (auto simp: eligible_option_def evidence_adjusted_def Let_def)

lemma quality_adjusted_eligible:
  "eligible_option (quality_adjusted S opt) \<longleftrightarrow>
     eligible_option opt \<and>
     (QUALITY_APPROVER \<in> set (ro_prerequisite_roles opt) \<longrightarrow> ro_option_id opt \<in> S)"
  by (auto simp: eligible_option_def quality_adjusted_def)

text \<open>Approval satisfactions of a list of options: what an option id in the quality set means.\<close>

definition case_target ::
    "analyze_case_command \<Rightarrow> response_option \<Rightarrow> approval_target" where
  "case_target cmd opt =
     \<lparr>at_case = cmd_case cmd, at_corpus = cmd_corpus cmd,
      at_scenario_effective_time = ci_scenario_effective_time (cmd_case cmd),
      at_total_response_cost =
        (case ro_predicted opt of None \<Rightarrow> 0 | Some p \<Rightarrow> pred_response_cost p),
      at_requested_side_effects = ro_requested_side_effects opt\<rparr>"

lemma satisfies_evidence_adjusted [simp]:
  "satisfies (evidence_adjusted v opt) t auth \<longleftrightarrow> satisfies opt t auth"
  unfolding satisfies_def permits_def evidence_adjusted_sel ..

lemma case_target_evidence_adjusted [simp]:
  "case_target cmd (evidence_adjusted v opt) = case_target cmd opt"
  by (simp add: case_target_def)

lemma evaluate_approval_satisfactions_set:
  assumes "evaluate_approval_satisfactions opts aid (cmd_case cmd) (cmd_corpus cmd) auths = Inr sats"
  shows "set sats = {satisfaction_of aid opt (case_target cmd opt) auth | opt auth.
    opt \<in> set opts \<and> auth \<in> set auths \<and> satisfies opt (case_target cmd opt) auth}"
proof -
  let ?one = "\<lambda>opt. bindR (mk_approval_target (cmd_case cmd) (cmd_corpus cmd)
      (ci_scenario_effective_time (cmd_case cmd))
      (case ro_predicted opt of None \<Rightarrow> 0 | Some p \<Rightarrow> pred_response_cost p)
      (ro_requested_side_effects opt)) (\<lambda>target.
      evaluate_approval_satisfaction opt aid auths target)"
  obtain xss where xss: "mapR ?one opts = Inr xss" and sats: "sats = concat xss"
    using assms by (auto simp: evaluate_approval_satisfactions_def bindR_Inr_iff)
  have "set xs = satisfaction_of aid opt (case_target cmd opt) `
      {auth \<in> set auths. satisfies opt (case_target cmd opt) auth}" if "?one opt = Inr xs" for opt xs
  proof -
    have "evaluate_approval_satisfaction opt aid auths (case_target cmd opt) = Inr xs"
      using that by (auto simp: bindR_Inr_iff mk_approval_target_def case_target_def split: if_splits)
    then show ?thesis
      using evaluate_approval_satisfaction_eq [of opt aid auths "case_target cmd opt"] by auto
  qed
  then have "list_all2 (\<lambda>opt xs. set xs = satisfaction_of aid opt (case_target cmd opt) `
      {auth \<in> set auths. satisfies opt (case_target cmd opt) auth}) opts xss"
    using xss unfolding mapR_Inr_iff by (rule list_all2_mono [rotated]) blast
  then have "map set xss = map (\<lambda>opt. satisfaction_of aid opt (case_target cmd opt) `
      {auth \<in> set auths. satisfies opt (case_target cmd opt) auth}) opts"
    by (auto simp: list_all2_conv_all_nth intro!: nth_equalityI)
  from arg_cong [OF this, of set]
  have "set ` set xss = (\<lambda>opt. satisfaction_of aid opt (case_target cmd opt) `
      {auth \<in> set auths. satisfies opt (case_target cmd opt) auth}) ` set opts"
    by (simp only: list.set_map)
  moreover have "set sats = \<Union> (set ` set xss)" by (simp add: sats)
  ultimately have "set sats = (\<Union>opt \<in> set opts. satisfaction_of aid opt (case_target cmd opt) `
      {auth \<in> set auths. satisfies opt (case_target cmd opt) auth})" by simp
  then show ?thesis by blast
qed

lemma satisfaction_of_sel [simp]:
  "as_option_id (satisfaction_of aid opt t auth) = ro_option_id opt"
  "as_role (satisfaction_of aid opt t auth) = sa_role auth"
  "as_satisfied (satisfaction_of aid opt t auth)"
  by (simp_all add: satisfaction_of_def)

lemma satisfied_quality_ids:
  assumes "evaluate_approval_satisfactions opts aid (cmd_case cmd) (cmd_corpus cmd) auths = Inr sats"
  shows "satisfied_quality_option_ids sats = {ro_option_id opt | opt auth.
    opt \<in> set opts \<and> auth \<in> set auths \<and> sa_role auth = QUALITY_APPROVER \<and>
    satisfies opt (case_target cmd opt) auth}"
proof -
  have "satisfied_quality_option_ids sats =
      {as_option_id s | s. s \<in> set sats \<and> as_role s = QUALITY_APPROVER \<and> as_satisfied s}"
    by (auto simp: satisfied_quality_option_ids_def)
  also have "\<dots> = {ro_option_id opt | opt auth. opt \<in> set opts \<and> auth \<in> set auths \<and>
      sa_role auth = QUALITY_APPROVER \<and> satisfies opt (case_target cmd opt) auth}"
    unfolding evaluate_approval_satisfactions_set [OF assms]
    by (intro set_eqI iffI; clarsimp) (metis satisfaction_of_sel)+
  finally show ?thesis .
qed

lemma satisfied_quality_id_iff:
  assumes "evaluate_approval_satisfactions opts aid (cmd_case cmd) (cmd_corpus cmd) auths = Inr sats"
  shows "i \<in> satisfied_quality_option_ids sats \<longleftrightarrow>
    (\<exists>opt \<in> set opts. ro_option_id opt = i \<and> (\<exists>auth. auth \<in> set auths \<and>
       sa_role auth = QUALITY_APPROVER \<and> satisfies opt (case_target cmd opt) auth))"
  unfolding satisfied_quality_ids [OF assms] by blast

section \<open>The steps of a successful analysis\<close>

definition analysis_checks :: "analyze_case_command \<Rightarrow> response_option list \<Rightarrow> bool" where
  "analysis_checks cmd opts \<longleftrightarrow>
     cmd_evidence_policy_version cmd = EVIDENCE_POLICY_VERSION \<and>
     (\<forall>p. cmd_approval_policy_version cmd = Some p \<longrightarrow> p = approval_policy_for (cmd_case cmd)) \<and>
     cmd_analysis_started_at cmd \<le> cmd_created_at cmd \<and>
     distinct (map ei_evidence_id (cmd_evidence_items cmd)) \<and>
     distinct (map ro_option_id opts) \<and>
     distinct (map ec_conflict_id (cmd_conflicts cmd)) \<and>
     distinct (map cr_conflict_id (cmd_conflict_resolutions cmd)) \<and>
     distinct (map sa_authorization_id (cmd_standing_authorizations cmd)) \<and>
     validate_provenance (cmd_case cmd) (cmd_operational_snapshot cmd) (cmd_evidence_items cmd)
       (cmd_conflicts cmd) = Inr ()"

lemma create_analysis_version_parts:
  assumes "create_analysis_version json hash cmd opts = Inr v"
  shows "analysis_checks cmd opts"
    and "validate_required_evidence (evidence_context_of cmd)
        (sort_key ei_evidence_id (cmd_evidence_items cmd))
        (sorted_set (cmd_required_authority_scope cmd))
        (sort_key ec_conflict_id (cmd_conflicts cmd))
        (sort_key cr_conflict_id (cmd_conflict_resolutions cmd)) = Inr (av_evidence_validation v)"
    and "evaluate_approval_satisfactions
        (map (evidence_adjusted (av_evidence_validation v)) (sort_key ro_option_id opts))
        (cmd_analysis_id cmd) (cmd_case cmd) (cmd_corpus cmd)
        (sort_key sa_authorization_id
          (standing_authorizations_for (cmd_case cmd) (cmd_standing_authorizations cmd))) =
      Inr (av_approval_satisfactions v)"
    and "av_response_options v =
      map (\<lambda>opt. quality_adjusted (satisfied_quality_option_ids (av_approval_satisfactions v))
            (evidence_adjusted (av_evidence_validation v) opt)) (sort_key ro_option_id opts)"
    and "rank_options (av_response_options v) = Inr (av_ranking v)"
    and "av_case_id v = ci_case_id (cmd_case cmd)" and "av_analysis_id v = cmd_analysis_id cmd"
    and "av_created_at v = cmd_created_at cmd"
    and "av_retrieval_window_ends_at v =
      min (cmd_analysis_started_at cmd + EVIDENCE_RETRIEVAL_WINDOW) (cmd_created_at cmd)"
    and "av_evidence_items v = sort_key ei_evidence_id (cmd_evidence_items cmd)"
    and "av_material_hash v = hash (av_material v)"
proof -
  note run = assms [unfolded create_analysis_version_def Let_def bindR_Inr_iff require_Inr_iff
    reject_duplicate_ids_def apply_evidence_feasibility_def apply_quality_approval_feasibility_def
    map_map comp_def sum.inject]
  have policy: "(case cmd_approval_policy_version cmd of None \<Rightarrow> True
      | Some p \<Rightarrow> p = approval_policy_for (cmd_case cmd)) \<longleftrightarrow>
      (\<forall>p. cmd_approval_policy_version cmd = Some p \<longrightarrow> p = approval_policy_for (cmd_case cmd))"
    by (cases "cmd_approval_policy_version cmd") auto
  show "analysis_checks cmd opts"
    using run unfolding policy by (elim exE conjE) (simp (no_asm_simp) add: analysis_checks_def)
  show "validate_required_evidence (evidence_context_of cmd)
        (sort_key ei_evidence_id (cmd_evidence_items cmd))
        (sorted_set (cmd_required_authority_scope cmd))
        (sort_key ec_conflict_id (cmd_conflicts cmd))
        (sort_key cr_conflict_id (cmd_conflict_resolutions cmd)) = Inr (av_evidence_validation v)"
    using run by (elim exE conjE) (hypsubst, simp (no_asm_simp))
  show "evaluate_approval_satisfactions
        (map (evidence_adjusted (av_evidence_validation v)) (sort_key ro_option_id opts))
        (cmd_analysis_id cmd) (cmd_case cmd) (cmd_corpus cmd)
        (sort_key sa_authorization_id
          (standing_authorizations_for (cmd_case cmd) (cmd_standing_authorizations cmd))) =
      Inr (av_approval_satisfactions v)"
    using run by (elim exE conjE) (hypsubst, simp (no_asm_simp))
  show "av_response_options v =
      map (\<lambda>opt. quality_adjusted (satisfied_quality_option_ids (av_approval_satisfactions v))
            (evidence_adjusted (av_evidence_validation v) opt)) (sort_key ro_option_id opts)"
    using run by (elim exE conjE) (hypsubst, simp (no_asm_simp))
  show "rank_options (av_response_options v) = Inr (av_ranking v)"
    using run by (elim exE conjE) (hypsubst, simp (no_asm_simp))
  show "av_case_id v = ci_case_id (cmd_case cmd)" "av_analysis_id v = cmd_analysis_id cmd"
    "av_created_at v = cmd_created_at cmd"
    "av_retrieval_window_ends_at v =
      min (cmd_analysis_started_at cmd + EVIDENCE_RETRIEVAL_WINDOW) (cmd_created_at cmd)"
    "av_evidence_items v = sort_key ei_evidence_id (cmd_evidence_items cmd)"
    "av_material_hash v = hash (av_material v)"
    using run by (elim exE conjE, hypsubst, simp (no_asm_simp))+
qed

text \<open>Conversely, when every step succeeds the version exists.\<close>

lemma create_analysis_version_intro:
  assumes checks: "analysis_checks cmd opts"
    and val: "validate_required_evidence (evidence_context_of cmd)
        (sort_key ei_evidence_id (cmd_evidence_items cmd))
        (sorted_set (cmd_required_authority_scope cmd))
        (sort_key ec_conflict_id (cmd_conflicts cmd))
        (sort_key cr_conflict_id (cmd_conflict_resolutions cmd)) = Inr validation"
    and sats: "evaluate_approval_satisfactions
        (map (evidence_adjusted validation) (sort_key ro_option_id opts))
        (cmd_analysis_id cmd) (cmd_case cmd) (cmd_corpus cmd)
        (sort_key sa_authorization_id
          (standing_authorizations_for (cmd_case cmd) (cmd_standing_authorizations cmd))) = Inr sats"
    and rank: "rank_options (apply_quality_approval_feasibility sats
        (map (evidence_adjusted validation) (sort_key ro_option_id opts))) = Inr ranking"
    and json: "canonical_operational_snapshot json (cmd_operational_snapshot cmd) = Inr text"
  shows "\<exists>v. create_analysis_version json hash cmd opts = Inr v \<and> av_ranking v = ranking \<and>
    av_approval_satisfactions v = sats"
proof -
  have "distinct (map ec_conflict_id (sort_key ec_conflict_id (cmd_conflicts cmd)))"
    using checks by (simp add: analysis_checks_def)
  note items = validate_items [OF val this]
  have "\<exists>r. dict_by ev_evidence_id (evv_item_results validation) (ei_evidence_id item) = Some r"
    if "item \<in> set (sort_key ei_evidence_id (cmd_evidence_items cmd))" for item
  proof -
    have "item \<in> set (sort_key ei_evidence_id (sort_key ei_evidence_id (cmd_evidence_items cmd)))"
      using that by simp
    from list_all2_set1 [OF items this] obtain r where
      "r \<in> set (evv_item_results validation)" "ev_evidence_id r = ei_evidence_id item"
      using item_validation_Inr(1) by blast
    then have "ei_evidence_id item \<in> ev_evidence_id ` set (evv_item_results validation)"
      by (metis image_eqI)
    then show ?thesis by (metis dict_by_None not_None_eq)
  qed
  then have "mapR (\<lambda>item. bindR (the_or KeyError
        (dict_by ev_evidence_id (evv_item_results validation) (ei_evidence_id item)))
        (\<lambda>v. Inr (evidence_material item v))) (sort_key ei_evidence_id (cmd_evidence_items cmd)) =
      Inr (map (\<lambda>item. evidence_material item (the (dict_by ev_evidence_id
        (evv_item_results validation) (ei_evidence_id item))))
        (sort_key ei_evidence_id (cmd_evidence_items cmd)))"
    by (intro mapR_total) force
  moreover have "case cmd_approval_policy_version cmd of None \<Rightarrow> True
      | Some p \<Rightarrow> p = approval_policy_for (cmd_case cmd)"
    using checks by (auto simp: analysis_checks_def split: option.splits)
  ultimately show ?thesis
    using checks val sats rank json
    unfolding create_analysis_version_def Let_def reject_duplicate_ids_def
      apply_evidence_feasibility_def analysis_checks_def require_def
    by (elim conjE) (simp (no_asm_simp))
qed

section \<open>Supported options\<close>

definition conflicted_ids :: "analyze_case_command \<Rightarrow> string list" where
  "conflicted_ids cmd =
     concat (map ec_evidence_ids
       (open_conflicts (sort_key ec_conflict_id (cmd_conflicts cmd))
          (sort_key cr_conflict_id (cmd_conflict_resolutions cmd))))"

definition trusted_evidence :: "analyze_case_command \<Rightarrow> evidence_item list" where
  "trusted_evidence cmd =
     filter (trusted (evidence_context_of cmd) (conflicted_ids cmd)) (cmd_evidence_items cmd)"

text \<open>The contract of a recommendable option, read off the command.\<close>

definition supported :: "analyze_case_command \<Rightarrow> response_option \<Rightarrow> bool" where
  "supported cmd opt \<longleftrightarrow>
     ro_active_mitigation opt \<and> ro_executable opt \<and> ro_predicted opt \<noteq> None \<and>
     ro_blocking_codes opt = [] \<and>
     (\<forall>scope \<in> set (cmd_required_authority_scope cmd).
        \<exists>item \<in> set (trusted_evidence cmd). scope \<in> set (ei_authority_scope item)) \<and>
     (\<forall>req \<in> set (ro_evidence_requirements opt).
        \<exists>item \<in> set (trusted_evidence cmd). ei_evidence_id item = roer_evidence_id req \<and>
          set (roer_authority_scope req) \<subseteq> set (ei_authority_scope item)) \<and>
     (QUALITY_APPROVER \<in> set (ro_prerequisite_roles opt) \<longrightarrow>
        (\<exists>auth \<in> set (cmd_standing_authorizations cmd). sa_role auth = QUALITY_APPROVER \<and>
           sa_persona_id auth = ''RL-PERSONA-JORDAN'' \<and> permits auth opt (case_target cmd opt)))"

lemma standing_quality:
  "auth \<in> set (standing_authorizations_for c auths) \<and> sa_role auth = QUALITY_APPROVER \<longleftrightarrow>
     auth \<in> set auths \<and> sa_role auth = QUALITY_APPROVER"
  by (auto simp: standing_authorizations_for_def)

lemma requirement_supported:
  assumes res: "list_all2 (\<lambda>item r. item_validation ctx cs item = Inr r)
      (sort_key ei_evidence_id items) results"
    and dist: "distinct (map ei_evidence_id items)"
  shows "requirement_codes (dict_by ev_evidence_id results) req = [] \<longleftrightarrow>
    (\<exists>item \<in> set items. trusted ctx cs item \<and> ei_evidence_id item = roer_evidence_id req \<and>
       set (roer_authority_scope req) \<subseteq> set (ei_authority_scope item))"
proof -
  have ids: "map ev_evidence_id results = map ei_evidence_id (sort_key ei_evidence_id items)"
    using res item_validation_Inr(1)
    by (intro nth_equalityI) (auto simp: list_all2_conv_all_nth)
  have dres: "distinct (map ev_evidence_id results)"
    unfolding ids using dist by simp
  show ?thesis
  proof
    assume "requirement_codes (dict_by ev_evidence_id results) req = []"
    then obtain r where r: "r \<in> set results" "ev_evidence_id r = roer_evidence_id req"
      "ev_authoritative r" "set (roer_authority_scope req) \<subseteq> set (ev_validated_authority_scope r)"
      unfolding requirement_codes_Nil_iff using dict_by_Some by metis
    obtain item where item: "item \<in> set items" "item_validation ctx cs item = Inr r"
      using list_all2_set2 [OF res r(1)] by auto
    have "trusted ctx cs item" using item_validation_Inr(4) [OF item(2)] r(3) by simp
    moreover have "set (ev_validated_authority_scope r) = set (ei_authority_scope item)"
      using item_validation_Inr(3) [OF item(2)] trusted_scope calculation by (simp add: trusted_def)
    ultimately show "\<exists>item \<in> set items. trusted ctx cs item \<and>
        ei_evidence_id item = roer_evidence_id req \<and>
        set (roer_authority_scope req) \<subseteq> set (ei_authority_scope item)"
      using item r item_validation_Inr(1) [OF item(2)] by auto
  next
    assume "\<exists>item \<in> set items. trusted ctx cs item \<and>
        ei_evidence_id item = roer_evidence_id req \<and>
        set (roer_authority_scope req) \<subseteq> set (ei_authority_scope item)"
    then obtain item where item: "item \<in> set items" "trusted ctx cs item"
      "ei_evidence_id item = roer_evidence_id req"
      "set (roer_authority_scope req) \<subseteq> set (ei_authority_scope item)" by blast
    obtain r where r: "r \<in> set results" "item_validation ctx cs item = Inr r"
      using list_all2_set1 [OF res, of item] item(1) by auto
    note V = item_validation_Inr [OF r(2)]
    have "dict_by ev_evidence_id results (roer_evidence_id req) = Some r"
      using dict_by_distinct [OF dres r(1)] V(1) item(3) by simp
    moreover have "ev_blocking_codes r = []"
      using V(6) item(2) by (auto simp: trusted_def sound_item_def)
    moreover have "ev_uncertainty_state r \<noteq> US_CONFLICTED"
      using V(5) item(2) by (simp add: trusted_def)
    moreover have "set (ev_validated_authority_scope r) = set (ei_authority_scope item)"
      using V(3) trusted_scope item(2) by (simp add: trusted_def)
    ultimately show "requirement_codes (dict_by ev_evidence_id results) req = []"
      unfolding requirement_codes_Nil_iff using V(4) item(2,4) by simp
  qed
qed

text \<open>An option is ranked exactly when the command supports it.\<close>

lemma adjusted_eligible_iff:
  assumes "create_analysis_version json hash cmd opts = Inr v" and "opt \<in> set opts"
  shows "eligible_option (quality_adjusted (satisfied_quality_option_ids (av_approval_satisfactions v))
      (evidence_adjusted (av_evidence_validation v) opt)) \<longleftrightarrow> supported cmd opt"
proof -
  note parts = create_analysis_version_parts [OF assms(1)]
  have dist: "distinct (map ei_evidence_id (cmd_evidence_items cmd))"
    "distinct (map ro_option_id opts)"
    and dconf: "distinct (map ec_conflict_id (sort_key ec_conflict_id (cmd_conflicts cmd)))"
    using parts(1) by (simp_all add: analysis_checks_def)
  have res: "list_all2 (\<lambda>item r.
      item_validation (evidence_context_of cmd) (conflicted_ids cmd) item = Inr r)
      (sort_key ei_evidence_id (sort_key ei_evidence_id (cmd_evidence_items cmd)))
      (evv_item_results (av_evidence_validation v))"
    unfolding conflicted_ids_def by (rule validate_items [OF parts(2) dconf])
  note req = requirement_supported [OF res]
  have scopes: "evv_global_blocking_codes (av_evidence_validation v) = [] \<longleftrightarrow>
      (\<forall>scope \<in> set (cmd_required_authority_scope cmd).
        \<exists>item \<in> set (trusted_evidence cmd). scope \<in> set (ei_authority_scope item))"
    unfolding validate_parts(4) [OF parts(2) dconf] authoritative_scopes [OF res]
    by (auto simp: trusted_evidence_def)
  have quality: "ro_option_id opt \<in> satisfied_quality_option_ids (av_approval_satisfactions v) \<longleftrightarrow>
      (\<exists>auth \<in> set (cmd_standing_authorizations cmd). sa_role auth = QUALITY_APPROVER \<and>
         satisfies opt (case_target cmd opt) auth)"
  proof -
    have same: "opt' = opt" if "opt' \<in> set opts" "ro_option_id opt' = ro_option_id opt" for opt'
      using dist(2) assms(2) that by (metis distinct_map inj_onD)
    have "ro_option_id opt \<in> satisfied_quality_option_ids (av_approval_satisfactions v) \<longleftrightarrow>
        (\<exists>opt' \<in> set opts. ro_option_id opt' = ro_option_id opt \<and>
          (\<exists>auth. auth \<in> set (standing_authorizations_for (cmd_case cmd)
             (cmd_standing_authorizations cmd)) \<and> sa_role auth = QUALITY_APPROVER \<and>
             satisfies opt' (case_target cmd opt') auth))"
      unfolding satisfied_quality_id_iff [OF parts(3)] by simp
    also have "\<dots> \<longleftrightarrow> (\<exists>auth. auth \<in> set (standing_authorizations_for (cmd_case cmd)
             (cmd_standing_authorizations cmd)) \<and> sa_role auth = QUALITY_APPROVER \<and>
             satisfies opt (case_target cmd opt) auth)"
      using same assms(2) by blast
    finally show ?thesis using standing_quality by blast
  qed
  have sat: "QUALITY_APPROVER \<in> set (ro_prerequisite_roles opt) \<Longrightarrow>
      sa_role auth = QUALITY_APPROVER \<and> satisfies opt t auth \<longleftrightarrow>
      sa_role auth = QUALITY_APPROVER \<and> sa_persona_id auth = ''RL-PERSONA-JORDAN'' \<and>
      permits auth opt t" for auth t
    by (auto simp: satisfies_def)
  have dsort: "distinct (map ei_evidence_id (sort_key ei_evidence_id (cmd_evidence_items cmd)))"
    using dist(1) by simp
  have ev: "(\<forall>req \<in> set (ro_evidence_requirements opt). requirement_codes
        (dict_by ev_evidence_id (evv_item_results (av_evidence_validation v))) req = []) \<longleftrightarrow>
      (\<forall>req \<in> set (ro_evidence_requirements opt).
        \<exists>item \<in> set (trusted_evidence cmd). ei_evidence_id item = roer_evidence_id req \<and>
          set (roer_authority_scope req) \<subseteq> set (ei_authority_scope item))"
    unfolding req [OF dsort] trusted_evidence_def by auto
  show ?thesis
    unfolding quality_adjusted_eligible evidence_adjusted_eligible scopes ev
      evidence_adjusted_sel quality
    unfolding supported_def eligible_option_def using sat by blast
qed

lemma analysis_eligible_ids:
  assumes "create_analysis_version json hash cmd opts = Inr v"
  shows "{ro_option_id opt | opt. opt \<in> set (av_response_options v) \<and> eligible_option opt} =
    {ro_option_id opt | opt. opt \<in> set opts \<and> supported cmd opt}"
proof -
  define F where "F = (\<lambda>opt. quality_adjusted
      (satisfied_quality_option_ids (av_approval_satisfactions v))
      (evidence_adjusted (av_evidence_validation v) opt))"
  have opts: "set (av_response_options v) = F ` set opts"
    unfolding create_analysis_version_parts(4) [OF assms] F_def by simp
  have id: "ro_option_id (F opt) = ro_option_id opt" for opt by (simp add: F_def)
  have elig: "eligible_option (F opt) \<longleftrightarrow> supported cmd opt" if "opt \<in> set opts" for opt
    unfolding F_def by (rule adjusted_eligible_iff [OF assms that])
  have "{ro_option_id opt | opt. opt \<in> F ` set opts \<and> eligible_option opt} =
      {ro_option_id (F opt) | opt. opt \<in> set opts \<and> eligible_option (F opt)}" by blast
  also have "\<dots> = {ro_option_id opt | opt. opt \<in> set opts \<and> supported cmd opt}"
    unfolding id using elig by blast
  finally show ?thesis unfolding opts .
qed

lemma create_analysis_version_perm:
  assumes items: "mset (cmd_evidence_items cmd') = mset (cmd_evidence_items cmd)"
    and opts: "mset opts' = mset opts"
    and confs: "mset (cmd_conflicts cmd') = mset (cmd_conflicts cmd)"
    and ress: "mset (cmd_conflict_resolutions cmd') = mset (cmd_conflict_resolutions cmd)"
    and auths: "mset (cmd_standing_authorizations cmd') = mset (cmd_standing_authorizations cmd)"
    and scope: "set (cmd_required_authority_scope cmd') = set (cmd_required_authority_scope cmd)"
    and rest: "cmd' = cmd\<lparr>cmd_evidence_items := cmd_evidence_items cmd',
      cmd_conflicts := cmd_conflicts cmd',
      cmd_conflict_resolutions := cmd_conflict_resolutions cmd',
      cmd_standing_authorizations := cmd_standing_authorizations cmd',
      cmd_required_authority_scope := cmd_required_authority_scope cmd'\<rparr>"
    and ok: "analysis_checks cmd opts"
  shows "create_analysis_version json hash cmd' opts' = create_analysis_version json hash cmd opts"
proof -
  have dist: "distinct (map ei_evidence_id (cmd_evidence_items cmd'))"
    "distinct (map ro_option_id opts')" "distinct (map ec_conflict_id (cmd_conflicts cmd'))"
    "distinct (map cr_conflict_id (cmd_conflict_resolutions cmd'))"
    "distinct (map sa_authorization_id (cmd_standing_authorizations cmd'))"
    using ok
    unfolding analysis_checks_def distinct_map_mset [OF items] distinct_map_mset [OF opts]
      distinct_map_mset [OF confs] distinct_map_mset [OF ress] distinct_map_mset [OF auths]
    by blast+
  have filt: "mset (standing_authorizations_for c (cmd_standing_authorizations cmd')) =
      mset (standing_authorizations_for c (cmd_standing_authorizations cmd))" for c
    using auths by (simp add: standing_authorizations_for_def mset_filter)
  have dauth: "distinct (map sa_authorization_id
      (standing_authorizations_for c (cmd_standing_authorizations cmd')))" for c
    using dist(5) by (simp add: standing_authorizations_for_def distinct_map_filter)
  have fields: "cmd_analysis_id cmd' = cmd_analysis_id cmd" "cmd_case cmd' = cmd_case cmd"
    "cmd_corpus cmd' = cmd_corpus cmd"
    "cmd_operational_snapshot cmd' = cmd_operational_snapshot cmd"
    "cmd_analysis_started_at cmd' = cmd_analysis_started_at cmd"
    "cmd_created_at cmd' = cmd_created_at cmd"
    "cmd_calculation_version cmd' = cmd_calculation_version cmd"
    "cmd_evidence_policy_version cmd' = cmd_evidence_policy_version cmd"
    "cmd_approval_policy_version cmd' = cmd_approval_policy_version cmd"
    by (subst rest, simp)+
  have ctx: "evidence_context_of cmd' = evidence_context_of cmd"
    by (simp add: evidence_context_of_def fields)
  have prov: "validate_provenance c s (cmd_evidence_items cmd') (cmd_conflicts cmd') =
      validate_provenance c s (cmd_evidence_items cmd) (cmd_conflicts cmd)" for c s
    unfolding validate_provenance_def mset_eq_setD [OF items] mset_eq_setD [OF confs] ..
  have scope': "sorted_set (cmd_required_authority_scope cmd') =
      sorted_set (cmd_required_authority_scope cmd)"
    using scope by (simp add: sorted_set_eq_iff)
  show ?thesis
    unfolding create_analysis_version_def reject_duplicate_ids_def fields ctx prov scope'
      sort_key_perm [OF items dist(1)] sort_key_perm [OF opts dist(2)]
      sort_key_perm [OF confs dist(3)] sort_key_perm [OF ress dist(4)]
      sort_key_perm [OF filt dauth] distinct_map_mset [OF items] distinct_map_mset [OF opts]
      distinct_map_mset [OF confs] distinct_map_mset [OF ress] distinct_map_mset [OF auths] ..
qed

section \<open>RL-001\<close>

definition rl001_command :: analyze_case_command where
  "rl001_command =
     (let s = rl001_snapshot ''RL-CASE-1'' RM_FALLBACK; started = SCENARIO_EFFECTIVE_TIME in
      \<lparr>cmd_analysis_id = ''RL-ANALYSIS-1'', cmd_case = ex_case None,
       cmd_corpus = CPS_DEMO_CORPUS, cmd_operational_snapshot = s,
       cmd_evidence_items = build_rl001_evidence s ''RL-ANALYSIS-1'' (started + minutes 1),
       cmd_standing_authorizations = [taylor_rl001], cmd_analysis_started_at = started,
       cmd_created_at = started + minutes 2, cmd_calculation_version = ''exposure-v1'',
       cmd_conflicts = [], cmd_conflict_resolutions = [],
       cmd_required_authority_scope = [AS_OPERATIONAL_QUANTITY, AS_OPERATIONAL_DATE],
       cmd_evidence_policy_version = EVIDENCE_POLICY_VERSION,
       cmd_approval_policy_version = None\<rparr>)"

text \<open>The run, step by step.\<close>

definition rl001_options :: "response_option list" where
  "rl001_options =
     (case evaluate_response_options (cmd_operational_snapshot rl001_command) of
        Inr opts \<Rightarrow> opts | Inl e \<Rightarrow> [])"

definition rl001_validation :: evidence_validation where
  "rl001_validation =
     (case validate_required_evidence (evidence_context_of rl001_command)
             (sort_key ei_evidence_id (cmd_evidence_items rl001_command))
             (sorted_set (cmd_required_authority_scope rl001_command)) [] [] of
        Inr v \<Rightarrow> v
      | Inl e \<Rightarrow> \<lparr>evv_policy_version = [], evv_item_results = [], evv_blocking_codes = [],
                 evv_global_blocking_codes = []\<rparr>)"

definition rl001_adjusted :: "response_option list" where
  "rl001_adjusted = map (evidence_adjusted rl001_validation) (sort_key ro_option_id rl001_options)"

definition rl001_satisfactions :: "approval_satisfaction list" where
  "rl001_satisfactions =
     (case evaluate_approval_satisfactions rl001_adjusted ''RL-ANALYSIS-1'' (ex_case None)
             CPS_DEMO_CORPUS [taylor_rl001] of Inr v \<Rightarrow> v | Inl e \<Rightarrow> [])"

definition rl001_ranking :: ranking_result where
  "rl001_ranking =
     (case rank_options (apply_quality_approval_feasibility rl001_satisfactions rl001_adjusted) of
        Inr r \<Rightarrow> r
      | Inl e \<Rightarrow> \<lparr>rr_policy_version = [], rr_eligible_option_ids = [],
                 rr_infeasible_option_ids = [], rr_excluded_baseline_ids = [], rr_stages = [],
                 rr_recommended_option_id = None, rr_no_feasible_mitigation = True\<rparr>)"

lemma isl_case: "\<not> isl r \<Longrightarrow> r = Inr (case r of Inr v \<Rightarrow> v | Inl e \<Rightarrow> d)"
  by (cases r) simp_all

lemma rl001_steps:
  "evaluate_response_options (cmd_operational_snapshot rl001_command) = Inr rl001_options"
  "validate_required_evidence (evidence_context_of rl001_command)
     (sort_key ei_evidence_id (cmd_evidence_items rl001_command))
     (sorted_set (cmd_required_authority_scope rl001_command)) [] [] = Inr rl001_validation"
  "evaluate_approval_satisfactions rl001_adjusted ''RL-ANALYSIS-1'' (ex_case None)
     CPS_DEMO_CORPUS [taylor_rl001] = Inr rl001_satisfactions"
  "rank_options (apply_quality_approval_feasibility rl001_satisfactions rl001_adjusted) =
     Inr rl001_ranking"
  unfolding rl001_options_def rl001_validation_def rl001_satisfactions_def rl001_ranking_def
  by (rule isl_case, code_simp)+

lemma rl001_results:
  "rr_recommended_option_id rl001_ranking = Some ''RL-OPTION-COMBINED''"
  "rr_eligible_option_ids rl001_ranking =
     [''RL-OPTION-COMBINED'', ''RL-OPTION-EXPEDITE'', ''RL-OPTION-RESEQUENCE'',
      ''RL-OPTION-TRANSFER'']"
  "rr_infeasible_option_ids rl001_ranking = [''RL-OPTION-BETA'']"
  "map as_option_id rl001_satisfactions = [''RL-OPTION-COMBINED'', ''RL-OPTION-EXPEDITE'']"
  by code_simp+

lemma rl001_checks: "analysis_checks rl001_command rl001_options"
proof -
  have "distinct (map ro_option_id rl001_options)"
    using evaluated_option_ids [OF rl001_steps(1)] by simp
  moreover have "distinct (map ei_evidence_id (cmd_evidence_items rl001_command))"
    "validate_provenance (cmd_case rl001_command) (cmd_operational_snapshot rl001_command)
       (cmd_evidence_items rl001_command) (cmd_conflicts rl001_command) = Inr ()"
    by code_simp+
  ultimately show ?thesis
    by (simp add: analysis_checks_def) (simp add: rl001_command_def Let_def minutes_def
        microseconds_per_second_def)
qed

lemma rl001_version:
  "\<exists>v. create_analysis_version (\<lambda>_. []) hash rl001_command rl001_options = Inr v \<and>
     av_ranking v = rl001_ranking \<and> av_approval_satisfactions v = rl001_satisfactions"
proof (rule create_analysis_version_intro [OF rl001_checks])
  have fields: "cmd_conflicts rl001_command = []" "cmd_conflict_resolutions rl001_command = []"
    "cmd_analysis_id rl001_command = ''RL-ANALYSIS-1''" "cmd_case rl001_command = ex_case None"
    "cmd_corpus rl001_command = CPS_DEMO_CORPUS"
    "cmd_standing_authorizations rl001_command = [taylor_rl001]"
    by (simp_all add: rl001_command_def Let_def)
  have auths: "sort_key sa_authorization_id (standing_authorizations_for (ex_case None) [taylor_rl001]) =
      [taylor_rl001]"
    by (simp add: standing_authorizations_for_def ex_case_def effective_workflow_version_def)
  show "validate_required_evidence (evidence_context_of rl001_command)
      (sort_key ei_evidence_id (cmd_evidence_items rl001_command))
      (sorted_set (cmd_required_authority_scope rl001_command))
      (sort_key ec_conflict_id (cmd_conflicts rl001_command))
      (sort_key cr_conflict_id (cmd_conflict_resolutions rl001_command)) = Inr rl001_validation"
    using rl001_steps(2) by (simp add: fields)
  show "evaluate_approval_satisfactions
      (map (evidence_adjusted rl001_validation) (sort_key ro_option_id rl001_options))
      (cmd_analysis_id rl001_command) (cmd_case rl001_command) (cmd_corpus rl001_command)
      (sort_key sa_authorization_id (standing_authorizations_for (cmd_case rl001_command)
         (cmd_standing_authorizations rl001_command))) = Inr rl001_satisfactions"
    using rl001_steps(3) by (simp only: fields auths rl001_adjusted_def)
  show "rank_options (apply_quality_approval_feasibility rl001_satisfactions
      (map (evidence_adjusted rl001_validation) (sort_key ro_option_id rl001_options))) =
    Inr rl001_ranking"
    using rl001_steps(4) by (simp only: rl001_adjusted_def)
  show "canonical_operational_snapshot (\<lambda>_. []) (cmd_operational_snapshot rl001_command) = Inr []"
    by code_simp
qed

section \<open>Properties\<close>

text \<open>
  C24. What a version recommends is supported by its command, and nothing supported is left out:
  the ranked options are exactly the active, executable and predicted ones whose evidence
  requirements and the required scopes are met by trusted evidence of the bundle and, where
  Quality has to approve, by a standing authorization of Jordan that permits the target; there is
  a recommendation exactly when such an option exists.
\<close>

theorem analysis_recommends_supported_options:
  assumes "create_analysis_version json hash cmd opts = Inr v"
  shows "set (rr_eligible_option_ids (av_ranking v)) =
      {ro_option_id opt | opt. opt \<in> set opts \<and> supported cmd opt} \<and>
    (rr_recommended_option_id (av_ranking v) = None \<longleftrightarrow> (\<forall>opt \<in> set opts. \<not> supported cmd opt)) \<and>
    (\<forall>i. rr_recommended_option_id (av_ranking v) = Some i \<longrightarrow>
       (\<exists>opt \<in> set opts. ro_option_id opt = i \<and> supported cmd opt))"
proof -
  note rank = create_analysis_version_parts(5) [OF assms]
  have d: "distinct (map ro_option_id (av_response_options v))"
    using rank rank_options_accepts by blast
  have ids: "set (rr_eligible_option_ids (av_ranking v)) =
      {ro_option_id opt | opt. opt \<in> set (av_response_options v) \<and> eligible_option opt}"
    using rank_options_cases [OF d] rank by auto
  have mem: "(\<exists>opt \<in> set (av_response_options v). ro_option_id opt = i \<and> eligible_option opt) \<longleftrightarrow>
      (\<exists>opt \<in> set opts. ro_option_id opt = i \<and> supported cmd opt)" for i
  proof -
    have "i \<in> {ro_option_id opt | opt. opt \<in> set (av_response_options v) \<and> eligible_option opt} \<longleftrightarrow>
        i \<in> {ro_option_id opt | opt. opt \<in> set opts \<and> supported cmd opt}"
      unfolding analysis_eligible_ids [OF assms] ..
    then show ?thesis unfolding mem_Collect_eq by metis
  qed
  have pick: "\<exists>opt \<in> set opts. ro_option_id opt = i \<and> supported cmd opt"
    if "rr_recommended_option_id (av_ranking v) = Some i" for i
    using ranking.picks_eligible [OF rank that] mem by blast
  have none: "rr_recommended_option_id (av_ranking v) = None \<longleftrightarrow>
      (\<forall>opt \<in> set opts. \<not> supported cmd opt)"
    using ranking.pick_none_iff [OF rank] mem by metis
  show ?thesis using ids analysis_eligible_ids [OF assms] pick none by blast
qed

theorem analysis_recommends_supported_options_witness:
  "\<exists>opt \<in> set rl001_options. ro_option_id opt = ''RL-OPTION-COMBINED'' \<and>
     supported rl001_command opt"
proof -
  obtain v where v: "create_analysis_version (\<lambda>_. []) (\<lambda>_. []) rl001_command rl001_options = Inr v"
    and "av_ranking v = rl001_ranking"
    using rl001_version by blast
  then show ?thesis
    using analysis_recommends_supported_options [OF v] rl001_results(1) by simp
qed

text \<open>
  C25. A version is canonical: listing the evidence, options, conflicts, resolutions and
  authorizations in another order, or the required scopes with another order or multiplicity,
  gives the same version, material and hash.
\<close>

theorem analysis_version_canonical:
  assumes "create_analysis_version json hash cmd opts = Inr v"
    and "mset items = mset (cmd_evidence_items cmd)" and "mset opts' = mset opts"
    and "mset conflicts = mset (cmd_conflicts cmd)"
    and "mset resolutions = mset (cmd_conflict_resolutions cmd)"
    and "mset auths = mset (cmd_standing_authorizations cmd)"
    and "set scopes = set (cmd_required_authority_scope cmd)"
  shows "create_analysis_version json hash
    (cmd\<lparr>cmd_evidence_items := items, cmd_conflicts := conflicts,
       cmd_conflict_resolutions := resolutions, cmd_standing_authorizations := auths,
       cmd_required_authority_scope := scopes\<rparr>) opts' = Inr v"
proof -
  have "analysis_checks cmd opts" by (rule create_analysis_version_parts(1) [OF assms(1)])
  then show ?thesis
    unfolding assms(1) [symmetric] using assms(2-7)
    by (intro create_analysis_version_perm) simp_all
qed

theorem analysis_version_canonical_witness:
  "\<exists>v. create_analysis_version (\<lambda>_. []) (\<lambda>_. [])
     (rl001_command\<lparr>cmd_evidence_items := rev (cmd_evidence_items rl001_command),
        cmd_conflicts := [], cmd_conflict_resolutions := [],
        cmd_standing_authorizations := [taylor_rl001],
        cmd_required_authority_scope := [AS_OPERATIONAL_DATE, AS_OPERATIONAL_QUANTITY]\<rparr>)
     (rev rl001_options) = Inr v \<and> av_ranking v = rl001_ranking"
proof -
  obtain v where v: "create_analysis_version (\<lambda>_. []) (\<lambda>_. []) rl001_command rl001_options = Inr v"
    "av_ranking v = rl001_ranking"
    using rl001_version by blast
  have fields: "cmd_conflicts rl001_command = []" "cmd_conflict_resolutions rl001_command = []"
    "cmd_standing_authorizations rl001_command = [taylor_rl001]"
    "set (cmd_required_authority_scope rl001_command) =
      {AS_OPERATIONAL_QUANTITY, AS_OPERATIONAL_DATE}"
    by (simp_all add: rl001_command_def Let_def)
  have "create_analysis_version (\<lambda>_. []) (\<lambda>_. [])
     (rl001_command\<lparr>cmd_evidence_items := rev (cmd_evidence_items rl001_command),
        cmd_conflicts := [], cmd_conflict_resolutions := [],
        cmd_standing_authorizations := [taylor_rl001],
        cmd_required_authority_scope := [AS_OPERATIONAL_DATE, AS_OPERATIONAL_QUANTITY]\<rparr>)
     (rev rl001_options) = Inr v"
    by (rule analysis_version_canonical [OF v(1)]) (auto simp: fields)
  with v(2) show ?thesis by blast
qed

text \<open>
  RL-001 end to end: analysing the canonical command of the demo case in fallback mode, with
  Taylor's standing authorization, succeeds and recommends the combined response; Beta is
  infeasible, the baseline excluded, and Taylor's authorization satisfies the finance prerequisite
  of the combined and the expedite option.
\<close>

theorem rl001_analysis_recommends_combined:
  "\<exists>v. analyze_case (\<lambda>_. []) hash rl001_command = Inr v \<and>
     rr_recommended_option_id (av_ranking v) = Some ''RL-OPTION-COMBINED'' \<and>
     rr_eligible_option_ids (av_ranking v) =
       [''RL-OPTION-COMBINED'', ''RL-OPTION-EXPEDITE'', ''RL-OPTION-RESEQUENCE'',
        ''RL-OPTION-TRANSFER''] \<and>
     rr_infeasible_option_ids (av_ranking v) = [''RL-OPTION-BETA''] \<and>
     map as_option_id (av_approval_satisfactions v) =
       [''RL-OPTION-COMBINED'', ''RL-OPTION-EXPEDITE'']"
proof -
  obtain v where v: "create_analysis_version (\<lambda>_. []) hash rl001_command rl001_options = Inr v"
    and parts: "av_ranking v = rl001_ranking" "av_approval_satisfactions v = rl001_satisfactions"
    using rl001_version by blast
  have "analyze_case (\<lambda>_. []) hash rl001_command = Inr v"
    unfolding analyze_case_def rl001_steps(1) bindR_simps by (rule v)
  then show ?thesis using parts rl001_results by metis
qed

end
