(* ===== verification/Decision_Policy.thy ===== *)
theory Decision_Policy
  imports Domain_Decisions
begin

text \<open>
  Who may record which Decision: \<open>DecisionPolicy\<close> of \<open>services/decisions/service.py\<close>.
  The legacy workflow takes the finance approval from a standing authorization, the independent
  one from the evidence of the current proposal.  A \<open>DecisionPolicyViolation\<close> carries its code
  and its message.
\<close>

section \<open>Policy\<close>

definition default_code :: string where
  "default_code = ''DECISION_POLICY_VIOLATION''"

definition DECISION_ROLE_PERSONAS :: "string \<Rightarrow> string option" where
  "DECISION_ROLE_PERSONAS =
     [''finance_approver'' \<mapsto> ''RL-PERSONA-TAYLOR'', ''quality_approver'' \<mapsto> ''RL-PERSONA-JORDAN'']"

definition authorize_actor :: "record_decision_command \<Rightarrow> identity_snapshot \<Rightarrow> unit result" where
  "authorize_actor command actor =
     bindR (require (is_persona_id actor = ''RL-PERSONA-ALEX'' \<and>
                     is_identity_source actor = IS_ENTRA \<and> is_source_id actor = ''RL-ENTRA-ALEX'')
              (DecisionPolicyViolation ''ROLE_REQUIRED''
                 ''Decision requires the server-owned Alex identity'')) (\<lambda>_.
     bindR (require (''response_approver'' \<in> set (is_effective_roles actor))
              (DecisionPolicyViolation ''ROLE_REQUIRED''
                 ''Decision requires the response_approver role'')) (\<lambda>_.
     require (rdc_kind command = DK_APPROVED \<longrightarrow>
              ''material_planner'' \<in> set (is_effective_roles actor))
       (DecisionPolicyViolation ''ROLE_REQUIRED''
          ''Approval requires the material_planner role'')))"

definition require_current_analysis ::
    "record_decision_command \<Rightarrow> case_instance \<Rightarrow> case_projection \<Rightarrow> analysis_version \<Rightarrow>
     unit result" where
  "require_current_analysis command c projection analysis =
     bindR (require (av_analysis_id analysis = rdc_analysis_id command)
              (DecisionPolicyViolation ''STALE_ANALYSIS''
                 ''Decision analysis_id is inconsistent'')) (\<lambda>_.
     bindR (require (av_case_id analysis = rdc_case_id command \<and>
                     ci_case_id c = rdc_case_id command)
              (DecisionPolicyViolation ''STALE_ANALYSIS''
                 ''Decision case and analysis are inconsistent'')) (\<lambda>_.
     bindR (require (cpj_current_analysis_id projection = Some (av_analysis_id analysis) \<and>
                     cpj_current_analysis_hash projection = Some (av_material_hash analysis))
              (DecisionPolicyViolation ''STALE_ANALYSIS''
                 ''Decision must use the current analysis and material hash'')) (\<lambda>_.
     let m = av_material analysis in
     require (am_case_id m = ci_case_id c \<and> am_template_id m = ci_template_id c \<and>
              am_case_purpose m = ci_purpose c \<and> am_runtime_mode m = ci_runtime_mode c \<and>
              am_scenario_effective_time m = ci_scenario_effective_time c)
       (DecisionPolicyViolation ''STALE_ANALYSIS''
          ''Current analysis provenance does not match the Case Instance''))))"

definition selected_option ::
    "record_decision_command \<Rightarrow> analysis_version \<Rightarrow> response_option result" where
  "selected_option command analysis =
     bindR (the_or (DecisionPolicyViolation ''OPTION_NOT_IN_ANALYSIS''
                      ''Selected option is not part of the current analysis'')
              (find (\<lambda>item. Some (ro_option_id item) = rdc_selected_option_id command)
                 (av_response_options analysis))) (\<lambda>option1.
     let material_option = find (\<lambda>item. arom_option_id item = ro_option_id option1)
           (am_response_options (av_material analysis)) in
     bindR (require (material_option = Some (option_material option1))
              (DecisionPolicyViolation default_code
                 ''Selected option snapshot conflicts with immutable analysis material'')) (\<lambda>_.
     bindR (require (ro_executable option1 \<and> ro_predicted option1 \<noteq> None \<and>
                     ro_blocking_codes option1 = [])
              (DecisionPolicyViolation ''OPTION_NOT_EXECUTABLE''
                 ''Selected option is not executable'')) (\<lambda>_.
     bindR (require (ro_option_id option1 \<in> set (rr_eligible_option_ids (av_ranking analysis)))
              (DecisionPolicyViolation default_code
                 ''Selected option is absent from the ranking eligibility trace'')) (\<lambda>_.
     bindR (require (set (ro_evidence_ids option1) \<subseteq>
                       set (map ei_evidence_id (av_evidence_items analysis)) \<inter>
                       set (map aem_evidence_id (am_evidence (av_material analysis))))
              (DecisionPolicyViolation default_code
                 ''Selected option evidence lineage is incomplete'')) (\<lambda>_. Inr option1)))))"

definition target_matches_current_state ::
    "case_instance \<Rightarrow> analysis_version \<Rightarrow> response_option \<Rightarrow> approval_satisfaction \<Rightarrow> bool" where
  "target_matches_current_state c analysis option1 s \<longleftrightarrow>
     (let target = as_target s; target_case = at_case target in
      case ro_predicted option1 of
        None \<Rightarrow> False
      | Some predicted \<Rightarrow>
          ci_case_id target_case = ci_case_id c \<and> ci_template_id target_case = ci_template_id c \<and>
          ci_purpose target_case = ci_purpose c \<and>
          ci_runtime_mode target_case = ci_runtime_mode c \<and>
          ci_scenario_effective_time target_case = ci_scenario_effective_time c \<and>
          at_corpus target = am_corpus (av_material analysis) \<and>
          at_scenario_effective_time target = ci_scenario_effective_time c \<and>
          at_total_response_cost target = pred_response_cost predicted \<and>
          at_requested_side_effects target = ro_requested_side_effects option1)"

definition authorization_of :: "approval_satisfaction \<Rightarrow> standing_authorization" where
  "authorization_of s =
     \<lparr>sa_authorization_id = as_authorization_id s, sa_persona_id = as_persona_id s,
      sa_role = as_role s, sa_conditions = as_authorization_conditions s\<rparr>"

definition valid_satisfactions ::
    "case_instance \<Rightarrow> analysis_version \<Rightarrow> response_option \<Rightarrow> approval_satisfaction list \<Rightarrow> string \<Rightarrow>
     approval_satisfaction list" where
  "valid_satisfactions c analysis option1 option_satisfactions role =
     (let expected_persona = DECISION_ROLE_PERSONAS role;
          candidates = filter (\<lambda>item. as_role item = role \<and> as_satisfied item \<and>
            (case expected_persona of None \<Rightarrow> True | Some p \<Rightarrow> as_persona_id item = p))
            option_satisfactions
      in filter (\<lambda>item. target_matches_current_state c analysis option1 item \<and>
           permits (authorization_of item) option1 (as_target item)) candidates)"

definition revalidate_existing_satisfactions ::
    "case_instance \<Rightarrow> analysis_version \<Rightarrow> response_option \<Rightarrow> string list \<Rightarrow>
     approval_satisfaction list result" where
  "revalidate_existing_satisfactions c analysis option1 excluded_roles =
     (let option_satisfactions = filter (\<lambda>item. as_option_id item = ro_option_id option1 \<and>
            as_role item \<notin> set excluded_roles) (av_approval_satisfactions analysis) in
      bindR (require (\<forall>item \<in> set option_satisfactions. as_satisfied item)
               (DecisionPolicyViolation default_code
                  ''Selected option contains an unsatisfied approval prerequisite'')) (\<lambda>_.
      mapR (\<lambda>role.
          case valid_satisfactions c analysis option1 option_satisfactions role of
            [item] \<Rightarrow> Inr item
          | _ \<Rightarrow> Inl (DecisionPolicyViolation default_code
                   (''Selected option requires a current '' @ role @ '' satisfaction'')))
        (sorted_set (filter (\<lambda>r. r \<noteq> ''material_planner'' \<and> r \<noteq> ''response_approver'' \<and>
            r \<notin> set excluded_roles) (ro_prerequisite_roles option1)))))"

definition alex_authorization ::
    "identity_snapshot \<Rightarrow> case_instance \<Rightarrow> analysis_version \<Rightarrow> response_option \<Rightarrow> predicted_outcome \<Rightarrow>
     standing_authorization" where
  "alex_authorization actor c analysis option1 predicted =
     \<lparr>sa_authorization_id = ''RL-AUTH-ALEX-MATERIAL-DECISION'',
      sa_persona_id = is_persona_id actor, sa_role = ''material_planner'',
      sa_conditions =
        \<lparr>ac_allowed_option_kinds = [ro_option_kind option1],
         ac_maximum_response_cost = pred_response_cost predicted,
         ac_allowed_corpora = [am_corpus (av_material analysis)],
         ac_allowed_template_ids = [ci_template_id c],
         ac_allowed_case_purposes = [ci_purpose c],
         ac_valid_from = ci_scenario_effective_time c,
         ac_valid_through = ci_scenario_effective_time c,
         ac_forbidden_external_side_effects = []\<rparr>\<rparr>"

definition alex_material_planner_satisfaction ::
    "identity_snapshot \<Rightarrow> case_instance \<Rightarrow> analysis_version \<Rightarrow> response_option \<Rightarrow>
     approval_satisfaction result" where
  "alex_material_planner_satisfaction actor c analysis option1 =
     bindR (the_or AssertionError (ro_predicted option1)) (\<lambda>predicted.
     bindR (require (0 \<le> pred_response_cost predicted) (ValueError ''maximum_response_cost'')) (\<lambda>_.
     bindR (mk_approval_target c (am_corpus (av_material analysis)) (ci_scenario_effective_time c)
              (pred_response_cost predicted) (ro_requested_side_effects option1)) (\<lambda>target.
     satisfaction_from_authorization (av_analysis_id analysis) option1
       (alex_authorization actor c analysis option1 predicted) target)))"

definition authorize_and_materialize ::
    "record_decision_command \<Rightarrow> identity_snapshot \<Rightarrow> case_instance \<Rightarrow> case_projection \<Rightarrow>
     analysis_version \<Rightarrow> approval_satisfaction list result" where
  "authorize_and_materialize command actor c projection analysis =
     bindR (authorize_actor command actor) (\<lambda>_.
     bindR (require_current_analysis command c projection analysis) (\<lambda>_.
     if rdc_kind command = DK_REJECTED then Inr []
     else
       bindR (selected_option command analysis) (\<lambda>option1.
       bindR (revalidate_existing_satisfactions c analysis option1 []) (\<lambda>existing.
       bindR (alex_material_planner_satisfaction actor c analysis option1) (\<lambda>material.
       Inr (sort_key as_role (existing @ [material])))))))"

definition authorize_independent_and_materialize ::
    "record_decision_command \<Rightarrow> identity_snapshot \<Rightarrow> case_instance \<Rightarrow> case_projection \<Rightarrow>
     analysis_version \<Rightarrow> proposal_approval_evidence option \<Rightarrow> approval_satisfaction list result" where
  "authorize_independent_and_materialize command actor c projection analysis proposal_approval =
     bindR (authorize_actor command actor) (\<lambda>_.
     bindR (require_current_analysis command c projection analysis) (\<lambda>_.
     if rdc_kind command = DK_REJECTED then
       bindR (require (proposal_approval = None)
                (DecisionPolicyViolation default_code
                   ''Rejection cannot contain proposal evidence'')) (\<lambda>_. Inr [])
     else
       bindR (the_or (DecisionPolicyViolation default_code ''Approval requires proposal evidence'')
                proposal_approval) (\<lambda>evidence.
       bindR (selected_option command analysis) (\<lambda>option1.
       bindR (require (fp_option_id (ps_proposal (pae_selection evidence)) = ro_option_id option1)
                (DecisionPolicyViolation default_code
                   ''Option differs from current proposal'')) (\<lambda>_.
       bindR (revalidate_existing_satisfactions c analysis option1 [''finance_approver''])
         (\<lambda>existing.
       bindR (alex_material_planner_satisfaction actor c analysis option1) (\<lambda>material.
       Inr (sort_key as_role (existing @ [material])))))))))"

section \<open>What the policy materialises\<close>

lemma selected_option_Inr:
  assumes "selected_option command analysis = Inr opt"
  shows "opt \<in> set (av_response_options analysis) \<and>
    rdc_selected_option_id command = Some (ro_option_id opt) \<and>
    find (\<lambda>item. Some (ro_option_id item) = rdc_selected_option_id command)
      (av_response_options analysis) = Some opt \<and>
    ro_executable opt \<and> ro_predicted opt \<noteq> None \<and> ro_blocking_codes opt = [] \<and>
    ro_option_id opt \<in> set (rr_eligible_option_ids (av_ranking analysis))"
proof -
  from assms have found: "find (\<lambda>item. Some (ro_option_id item) = rdc_selected_option_id command)
      (av_response_options analysis) = Some opt"
    and "ro_executable opt" "ro_predicted opt \<noteq> None" "ro_blocking_codes opt = []"
    "ro_option_id opt \<in> set (rr_eligible_option_ids (av_ranking analysis))"
    by (auto simp: selected_option_def result_simps Let_def)
  with find_Some_key [OF found] show ?thesis by simp
qed

lemma list_all2_map_eq: "list_all2 (\<lambda>x y. f y = x) xs ys \<Longrightarrow> map f ys = xs"
  by (induction rule: list_all2_induct) simp_all

lemma revalidate_Inr:
  assumes "revalidate_existing_satisfactions c analysis opt excl = Inr existing"
  shows "map as_role existing = sorted_set (filter (\<lambda>r. r \<noteq> ''material_planner'' \<and>
      r \<noteq> ''response_approver'' \<and> r \<notin> set excl) (ro_prerequisite_roles opt))"
    and "s \<in> set existing \<Longrightarrow> s \<in> set (av_approval_satisfactions analysis) \<and> as_satisfied s \<and>
      as_option_id s = ro_option_id opt \<and> target_matches_current_state c analysis opt s \<and>
      permits (authorization_of s) opt (as_target s) \<and>
      (as_role s = ''finance_approver'' \<longrightarrow> as_persona_id s = ''RL-PERSONA-TAYLOR'') \<and>
      (as_role s = ''quality_approver'' \<longrightarrow> as_persona_id s = ''RL-PERSONA-JORDAN'')"
proof -
  let ?sats = "filter (\<lambda>item. as_option_id item = ro_option_id opt \<and> as_role item \<notin> set excl)
    (av_approval_satisfactions analysis)"
  let ?roles = "sorted_set (filter (\<lambda>r. r \<noteq> ''material_planner'' \<and> r \<noteq> ''response_approver'' \<and>
      r \<notin> set excl) (ro_prerequisite_roles opt))"
  have each: "list_all2 (\<lambda>role s. valid_satisfactions c analysis opt ?sats role = [s]) ?roles existing"
    using assms
    by (auto simp: revalidate_existing_satisfactions_def result_simps Let_def
        split: list.splits elim!: list_all2_mono)
  have valid: "as_role s = role \<and> s \<in> set (av_approval_satisfactions analysis) \<and> as_satisfied s \<and>
      as_option_id s = ro_option_id opt \<and> target_matches_current_state c analysis opt s \<and>
      permits (authorization_of s) opt (as_target s) \<and>
      (as_role s = ''finance_approver'' \<longrightarrow> as_persona_id s = ''RL-PERSONA-TAYLOR'') \<and>
      (as_role s = ''quality_approver'' \<longrightarrow> as_persona_id s = ''RL-PERSONA-JORDAN'')"
    if "valid_satisfactions c analysis opt ?sats role = [s]" for role s
  proof -
    have "s \<in> set (valid_satisfactions c analysis opt ?sats role)" using that by simp
    then show ?thesis by (auto simp: valid_satisfactions_def DECISION_ROLE_PERSONAS_def Let_def)
  qed
  have "list_all2 (\<lambda>role s. as_role s = role) ?roles existing"
    using each by (rule list_all2_mono) (use valid in blast)
  then show "map as_role existing = ?roles" by (rule list_all2_map_eq)
  assume "s \<in> set existing"
  then obtain i where "i < length existing" "existing ! i = s" by (auto simp: in_set_conv_nth)
  with each have "valid_satisfactions c analysis opt ?sats (?roles ! i) = [s]"
    by (auto simp: list_all2_conv_all_nth)
  from valid [OF this] show "s \<in> set (av_approval_satisfactions analysis) \<and> as_satisfied s \<and>
      as_option_id s = ro_option_id opt \<and> target_matches_current_state c analysis opt s \<and>
      permits (authorization_of s) opt (as_target s) \<and>
      (as_role s = ''finance_approver'' \<longrightarrow> as_persona_id s = ''RL-PERSONA-TAYLOR'') \<and>
      (as_role s = ''quality_approver'' \<longrightarrow> as_persona_id s = ''RL-PERSONA-JORDAN'')" by blast
qed

lemma alex_satisfaction_Inr:
  assumes "alex_material_planner_satisfaction actor c analysis opt = Inr m"
  shows "as_role m = ''material_planner'' \<and> as_satisfied m \<and> as_option_id m = ro_option_id opt \<and>
    as_analysis_id m = av_analysis_id analysis \<and> target_matches_current_state c analysis opt m \<and>
    permits (authorization_of m) opt (as_target m) \<and> as_persona_id m = is_persona_id actor"
  using assms
  by (auto simp: alex_material_planner_satisfaction_def satisfaction_from_authorization_def
      mk_approval_target_def alex_authorization_def target_matches_current_state_def
      authorization_of_def result_simps split: if_splits)

lemma materialized_satisfactions:
  assumes "revalidate_existing_satisfactions c analysis opt excl = Inr existing"
    and "alex_material_planner_satisfaction actor c analysis opt = Inr m"
    and "''material_planner'' \<notin> set excl"
  defines "sats \<equiv> sort_key as_role (existing @ [m])"
  shows "set (map as_role sats) = insert ''material_planner''
      (set (ro_prerequisite_roles opt) - {''material_planner'', ''response_approver''} - set excl)"
    and "distinct (map as_role sats)"
    and "\<forall>s \<in> set sats. as_satisfied s \<and> as_option_id s = ro_option_id opt \<and>
      target_matches_current_state c analysis opt s \<and>
      permits (authorization_of s) opt (as_target s) \<and>
      (as_role s = ''finance_approver'' \<longrightarrow> as_persona_id s = ''RL-PERSONA-TAYLOR'') \<and>
      (as_role s = ''quality_approver'' \<longrightarrow> as_persona_id s = ''RL-PERSONA-JORDAN'') \<and>
      (s \<in> set (av_approval_satisfactions analysis) \<or> as_analysis_id s = av_analysis_id analysis)"
proof -
  note roles = revalidate_Inr(1) [OF assms(1)] and each = revalidate_Inr(2) [OF assms(1)]
    and m = alex_satisfaction_Inr [OF assms(2)]
  have "set (map as_role existing) =
      set (ro_prerequisite_roles opt) - {''material_planner'', ''response_approver''} - set excl"
    unfolding roles by auto
  then show "set (map as_role sats) = insert ''material_planner''
      (set (ro_prerequisite_roles opt) - {''material_planner'', ''response_approver''} - set excl)"
    using m by (auto simp: sats_def)
  have "distinct (map as_role existing)" "''material_planner'' \<notin> set (map as_role existing)"
    unfolding roles by auto
  then have "distinct (map as_role (existing @ [m]))" using m by simp
  then show "distinct (map as_role sats)" unfolding sats_def by simp
  show "\<forall>s \<in> set sats. as_satisfied s \<and> as_option_id s = ro_option_id opt \<and>
      target_matches_current_state c analysis opt s \<and>
      permits (authorization_of s) opt (as_target s) \<and>
      (as_role s = ''finance_approver'' \<longrightarrow> as_persona_id s = ''RL-PERSONA-TAYLOR'') \<and>
      (as_role s = ''quality_approver'' \<longrightarrow> as_persona_id s = ''RL-PERSONA-JORDAN'') \<and>
      (s \<in> set (av_approval_satisfactions analysis) \<or> as_analysis_id s = av_analysis_id analysis)"
    using each m by (auto simp: sats_def)
qed

section \<open>A finalised proposal\<close>

text \<open>The proposal of the earlier witnesses, approved by Taylor and decided by Alex.\<close>

definition approved_example :: finance_review where
  "approved_example =
     pending_example\<lparr>fr_status := FRS_APPROVED, fr_reviewed_by := Some taylor_identity,
       fr_reviewed_at := Some 200\<rparr>"

definition example_selection :: proposal_selection where
  "example_selection =
     \<lparr>ps_selection_id = ''SELECTION'', ps_proposal = example_proposal,
      ps_workflow_version = WV_INDEPENDENT_FINANCE, ps_submitted_by = alex_identity,
      ps_submitted_at = 100, ps_finance_review_id = Some ''REVIEW''\<rparr>"

definition example_evidence :: proposal_approval_evidence where
  "example_evidence =
     \<lparr>pae_selection = example_selection, pae_review = Some approved_example,
      pae_review_revision = Some 2\<rparr>"

definition example_case :: case_instance where
  "example_case =
     \<lparr>ci_case_id = ''CASE'', ci_template_id = ''RL-001'', ci_purpose = CP_REHEARSAL,
      ci_runtime_mode = RM_LIVE, ci_scenario_effective_time = 0,
      ci_scenario_timezone = ''America/Chicago'', ci_status = CS_AWAITING_DECISION,
      ci_workflow_version = Some WV_INDEPENDENT_FINANCE, ci_supplier_email = None,
      ci_presenter_run_id = None\<rparr>"

definition example_projection :: case_projection where
  "example_projection =
     \<lparr>cpj_case = example_case, cpj_current_analysis_id = Some ''ANALYSIS'',
      cpj_current_analysis_hash = Some (replicate 64 CHR ''0''), cpj_current_decision_id = None,
      cpj_display_status = None\<rparr>"

definition example_command :: record_decision_command where
  "example_command =
     \<lparr>rdc_case_id = ''CASE'', rdc_analysis_id = ''ANALYSIS'',
      rdc_selected_option_id = Some ''OPTION'', rdc_kind = DK_APPROVED,
      rdc_idempotency_key = ''finance-finalize:KEY'', rdc_rejection_reason = None\<rparr>"

definition alex_satisfaction_example :: approval_satisfaction where
  "alex_satisfaction_example =
     \<lparr>as_analysis_id = ''ANALYSIS'', as_option_id = ''OPTION'',
      as_authorization_id = ''RL-AUTH-ALEX-MATERIAL-DECISION'',
      as_persona_id = ''RL-PERSONA-ALEX'', as_role = ''material_planner'', as_satisfied = True,
      as_target = \<lparr>at_case = example_case, at_corpus = CPS_DEMO_CORPUS,
        at_scenario_effective_time = 0, at_total_response_cost = 24000,
        at_requested_side_effects = []\<rparr>,
      as_authorization_conditions =
        \<lparr>ac_allowed_option_kinds = [ROK_EXPEDITE], ac_maximum_response_cost = 24000,
         ac_allowed_corpora = [CPS_DEMO_CORPUS], ac_allowed_template_ids = [''RL-001''],
         ac_allowed_case_purposes = [CP_REHEARSAL], ac_valid_from = 0, ac_valid_through = 0,
         ac_forbidden_external_side_effects = []\<rparr>\<rparr>"

lemma authorize_example:
  "authorize_actor example_command alex_identity = Inr ()"
  "require_current_analysis example_command example_case example_projection example_analysis = Inr ()"
  "selected_option example_command example_analysis = Inr example_option"
  by (simp_all add: authorize_actor_def require_current_analysis_def selected_option_def
      example_command_def alex_identity_def example_case_def example_projection_def
      example_analysis_def example_material_def example_option_def example_ranking_def
      option_material_def require_def)

lemma alex_satisfaction_example_eq:
  "alex_material_planner_satisfaction alex_identity example_case example_analysis example_option =
     Inr alex_satisfaction_example"
  by (simp add: alex_material_planner_satisfaction_def alex_satisfaction_example_def
      satisfaction_from_authorization_def mk_approval_target_def alex_authorization_def permits_def
      example_case_def example_analysis_def example_material_def example_option_def
      alex_identity_def require_def)

lemma revalidate_example:
  "revalidate_existing_satisfactions example_case example_analysis example_option
     [''finance_approver''] = Inr []"
proof -
  have "filter (\<lambda>r. r \<noteq> ''material_planner'' \<and> r \<noteq> ''response_approver'' \<and>
      r \<notin> set [''finance_approver'']) (ro_prerequisite_roles example_option) = []"
    by (simp add: example_option_def)
  then show ?thesis
    unfolding revalidate_existing_satisfactions_def
    by (simp add: example_analysis_def require_def sorted_set_def)
qed

lemma policy_example:
  "authorize_independent_and_materialize example_command alex_identity example_case
     example_projection example_analysis (Some example_evidence) = Inr [alex_satisfaction_example]"
proof -
  have "rdc_kind example_command \<noteq> DK_REJECTED"
    "fp_option_id (ps_proposal (pae_selection example_evidence)) = ro_option_id example_option"
    by (simp_all add: example_command_def example_evidence_def example_selection_def
        example_proposal_def example_option_def)
  then show ?thesis
    by (simp add: authorize_independent_and_materialize_def authorize_example revalidate_example
        alex_satisfaction_example_eq require_def)
qed

lemma evidence_example: "mk_proposal_approval_evidence example_evidence = Inr example_evidence"
proof -
  have "require_identity alex_identity ''RL-PERSONA-ALEX'' ''RL-ENTRA-ALEX''
      [''material_planner'', ''response_approver''] = Inr (1, 2)"
    "require_identity taylor_identity ''RL-PERSONA-TAYLOR'' ''RL-ENTRA-TAYLOR''
      [''finance_approver''] = Inr (1, 3)"
    using alex_example taylor_example by (simp_all only: require_identity_Inr_iff)
  then show ?thesis
    by (simp add: mk_proposal_approval_evidence_def example_evidence_def example_selection_def
        example_proposal_def approved_example_def pending_example_def require_def)
qed

text \<open>The same option under a standing authorization of Taylor.\<close>

definition taylor_satisfaction_example :: approval_satisfaction where
  "taylor_satisfaction_example =
     alex_satisfaction_example\<lparr>as_authorization_id := ''RL-AUTH-TAYLOR-FINANCE-1'',
       as_persona_id := ''RL-PERSONA-TAYLOR'', as_role := ''finance_approver''\<rparr>"

definition legacy_analysis :: analysis_version where
  "legacy_analysis =
     example_analysis\<lparr>av_approval_satisfactions := [taylor_satisfaction_example]\<rparr>"

lemma legacy_policy_example:
  "authorize_and_materialize example_command alex_identity example_case example_projection
     legacy_analysis = Inr [taylor_satisfaction_example, alex_satisfaction_example]"
proof -
  have "require_current_analysis example_command example_case example_projection legacy_analysis = Inr ()"
    "selected_option example_command legacy_analysis = Inr example_option"
    using authorize_example(2,3)
    by (simp_all add: legacy_analysis_def require_current_analysis_def selected_option_def)
  moreover have "alex_material_planner_satisfaction alex_identity example_case legacy_analysis
      example_option = Inr alex_satisfaction_example"
    using alex_satisfaction_example_eq
    by (simp add: legacy_analysis_def alex_material_planner_satisfaction_def alex_authorization_def)
  moreover have "valid_satisfactions example_case legacy_analysis example_option
      [taylor_satisfaction_example] ''finance_approver'' = [taylor_satisfaction_example]"
    by (simp add: valid_satisfactions_def DECISION_ROLE_PERSONAS_def taylor_satisfaction_example_def
        alex_satisfaction_example_def target_matches_current_state_def authorization_of_def
        permits_def legacy_analysis_def example_analysis_def example_material_def example_case_def
        example_option_def)
  then have "revalidate_existing_satisfactions example_case legacy_analysis example_option [] =
      Inr [taylor_satisfaction_example]"
    by (simp add: revalidate_existing_satisfactions_def legacy_analysis_def example_option_def
        taylor_satisfaction_example_def alex_satisfaction_example_def require_def sorted_set_def)
  moreover have "sort_key as_role ([taylor_satisfaction_example] @ [alex_satisfaction_example]) =
      [taylor_satisfaction_example, alex_satisfaction_example]"
    by (simp add: taylor_satisfaction_example_def alex_satisfaction_example_def)
  moreover have "rdc_kind example_command \<noteq> DK_REJECTED" by (simp add: example_command_def)
  ultimately show ?thesis
    using authorize_example(1) by (simp add: authorize_and_materialize_def)
qed

section \<open>Accepted finalisations\<close>

lemma finalization_recorded:
  assumes "authorize_independent_and_materialize command actor c projection analysis (Some e) = Inr sats"
    and "mk_record_decision_command command = Inr command" and "rdc_kind command = DK_APPROVED"
    and "mk_proposal_approval_evidence e = Inr e"
    and "am_approval_policy_version (av_material analysis) = approval_policy_for c"
    and "effective_workflow_version c = WV_INDEPENDENT_FINANCE"
    and "\<forall>s \<in> set (av_approval_satisfactions analysis). as_analysis_id s = av_analysis_id analysis"
    and "ps_proposal (pae_selection e) =
      \<lparr>fp_case_id = rdc_case_id command, fp_analysis_id = rdc_analysis_id command,
       fp_analysis_material_hash = av_material_hash analysis, fp_option_id = oid,
       fp_response_cost = cost\<rparr>"
    and "\<forall>opt \<in> set (av_response_options analysis). ro_option_id opt = oid \<longrightarrow>
      map_option pred_response_cost (ro_predicted opt) = Some cost"
    and "is_tenant_id actor = is_tenant_id (ps_submitted_by (pae_selection e))"
    and "is_object_id actor = is_object_id (ps_submitted_by (pae_selection e))"
    and "ps_submitted_at (pae_selection e) \<le> decided_at"
    and "\<forall>r t. pae_review e = Some r \<and> fr_reviewed_at r = Some t \<longrightarrow> t \<le> decided_at"
  shows "\<exists>d. decision_from_command decision_id command actor analysis sats fingerprint decided_at
      (Some e) = Inr d \<and> dec_approval_satisfactions d = sats \<and> dec_proposal_approval d = Some e \<and>
    (\<exists>opt \<in> set (av_response_options analysis). dec_selected_option d = Some opt) \<and>
    dec_kind d = DK_APPROVED \<and> independent_decision d"
proof -
  from assms(1,3) obtain opt existing m where
    cur: "require_current_analysis command c projection analysis = Inr ()"
    and sel: "selected_option command analysis = Inr opt"
    and oid: "fp_option_id (ps_proposal (pae_selection e)) = ro_option_id opt"
    and re: "revalidate_existing_satisfactions c analysis opt [''finance_approver''] = Inr existing"
    and m: "alex_material_planner_satisfaction actor c analysis opt = Inr m"
    and sats: "sats = sort_key as_role (existing @ [m])"
    by (auto simp: authorize_independent_and_materialize_def result_simps)
  note opt = selected_option_Inr [OF sel]
  have "''material_planner'' \<notin> set [''finance_approver'']" by simp
  note mat = materialized_satisfactions [OF re m this, folded sats]
  from cur have current: "av_analysis_id analysis = rdc_analysis_id command"
    "ci_case_id c = rdc_case_id command" "am_runtime_mode (av_material analysis) = ci_runtime_mode c"
    "am_scenario_effective_time (av_material analysis) = ci_scenario_effective_time c"
    by (auto simp: require_current_analysis_def result_simps Let_def)
  have "ro_option_id opt = oid" using oid assms(8) by simp
  then obtain p where p: "ro_predicted opt = Some p" "pred_response_cost p = cost"
    using opt assms(9) by auto
  have reason: "rdc_rejection_reason command = None"
    using assms(2,3) by (auto simp: mk_record_decision_command_def result_simps)
  define d where "d = \<lparr>dec_decision_id = decision_id, dec_case_id = rdc_case_id command,
         dec_analysis_id = rdc_analysis_id command,
         dec_analysis_material_hash = av_material_hash analysis,
         dec_idempotency_key = rdc_idempotency_key command,
         dec_request_fingerprint = fingerprint, dec_kind = rdc_kind command,
         dec_selected_option_id = rdc_selected_option_id command,
         dec_selected_option = Some opt,
         dec_evidence_ids = ro_evidence_ids opt, dec_assumptions = ro_assumptions opt,
         dec_constraints = ro_blocking_codes opt,
         dec_prerequisite_roles = ro_prerequisite_roles opt,
         dec_comparator_trace = Some (av_ranking analysis),
         dec_calculation_version = am_calculation_version (av_material analysis),
         dec_evidence_policy_version = am_evidence_policy_version (av_material analysis),
         dec_approval_policy_version = am_approval_policy_version (av_material analysis),
         dec_ranking_policy_version = rr_policy_version (av_ranking analysis),
         dec_runtime_mode = am_runtime_mode (av_material analysis),
         dec_scenario_effective_time = am_scenario_effective_time (av_material analysis),
         dec_approval_satisfactions = sats,
         dec_proposal_approval = Some e, dec_actor = actor,
         dec_rejection_reason = rdc_rejection_reason command, dec_decided_at = decided_at\<rparr>"
  have ind: "independent_decision d"
    using assms(5,6) by (simp add: d_def independent_decision_def approval_policy_for_def)
  have consistent: "\<forall>s \<in> set sats. satisfaction_consistent d opt [] s"
    using mat(3) assms(7) opt current p
    by (auto simp: d_def satisfaction_consistent_def target_matches_current_state_def Let_def)
  have no_finance: "\<forall>s \<in> set sats. as_role s \<noteq> ''finance_approver''"
  proof
    fix s assume "s \<in> set sats"
    then have "as_role s \<in> set (map as_role sats)" by simp
    then show "as_role s \<noteq> ''finance_approver''" unfolding mat(1) by force
  qed
  have "sats \<noteq> []" using sats by (metis Nil_is_append_conv length_0_conv length_sort not_Cons_self2)
  have evidence: "check_proposal_evidence d opt e = Inr ()"
  proof -
    have good: "good_evidence e" using mk_evidence_Inr [OF assms(4)] by blast
    then have review: "pae_review e = Some r \<Longrightarrow> fr_reviewed_at r \<noteq> None" for r
      by (auto simp: good_evidence_def)
    from good obtain tenant alex where
      alex: "is_alex (ps_submitted_by (pae_selection e)) tenant alex"
      unfolding good_evidence_def by blast
    then have "py_uuid_opt (is_tenant_id (ps_submitted_by (pae_selection e))) = Some tenant"
      "py_uuid_opt (is_object_id (ps_submitted_by (pae_selection e))) = Some alex"
      by (simp_all add: is_actor_def)
    moreover have "case pae_review e of None \<Rightarrow> True
        | Some r \<Rightarrow> (case fr_reviewed_at r of None \<Rightarrow> False | Some t \<Rightarrow> t \<le> decided_at)"
      using assms(13) review by (auto split: option.splits)
    moreover have "rdc_selected_option_id command = Some oid" using opt \<open>ro_option_id opt = oid\<close> by simp
    ultimately show ?thesis
      using assms(8,10,11,12) current(1) p no_finance
      by (auto simp: d_def check_proposal_evidence_def require_def split: option.splits)
  qed
  have "validate_immutable_shape d = Inr ()"
  proof (rule approved_shapeI [OF _ _ _ _ _ _ _ consistent mat(2) ind _ evidence])
    show "dec_approval_satisfactions d = sats" "dec_proposal_approval d = Some e"
      "dec_selected_option d = Some opt" "dec_kind d = DK_APPROVED"
      "dec_selected_option_id d = Some (ro_option_id opt)" "dec_rejection_reason d = None"
      "dec_comparator_trace d \<noteq> None" "sats \<noteq> []"
      "dec_evidence_ids d = ro_evidence_ids opt \<and> dec_assumptions d = ro_assumptions opt \<and>
       dec_constraints d = ro_blocking_codes opt \<and> dec_prerequisite_roles d = ro_prerequisite_roles opt"
      using opt assms(3) reason \<open>sats \<noteq> []\<close> by (simp_all add: d_def)
  qed
  then have "mk_decision d = Inr d" using assms(4) by (simp add: mk_decision_def d_def)
  moreover have "decision_from_command decision_id command actor analysis sats fingerprint decided_at
      (Some e) = mk_decision d"
  proof -
    have "find (\<lambda>item. Some (ro_option_id item) = rdc_selected_option_id command)
        (av_response_options analysis) = Some opt" using opt by blast
    then show ?thesis unfolding decision_from_command_def d_def Let_def by (simp only: option.case)
  qed
  ultimately show ?thesis using ind assms(3) by (intro exI [of _ d]) (use opt in \<open>simp add: d_def\<close>)
qed

lemma example_facts:
  "mk_record_decision_command example_command = Inr example_command"
  "rdc_kind example_command = DK_APPROVED"
  "am_approval_policy_version (av_material example_analysis) = approval_policy_for example_case"
  "effective_workflow_version example_case = WV_INDEPENDENT_FINANCE"
  "\<forall>s \<in> set (av_approval_satisfactions example_analysis).
     as_analysis_id s = av_analysis_id example_analysis"
  "ps_proposal (pae_selection example_evidence) =
     \<lparr>fp_case_id = rdc_case_id example_command, fp_analysis_id = rdc_analysis_id example_command,
      fp_analysis_material_hash = av_material_hash example_analysis, fp_option_id = ''OPTION'',
      fp_response_cost = 24000\<rparr>"
  "\<forall>opt \<in> set (av_response_options example_analysis). ro_option_id opt = ''OPTION'' \<longrightarrow>
     map_option pred_response_cost (ro_predicted opt) = Some 24000"
  "is_tenant_id alex_identity = is_tenant_id (ps_submitted_by (pae_selection example_evidence))"
  "is_object_id alex_identity = is_object_id (ps_submitted_by (pae_selection example_evidence))"
  "ps_submitted_at (pae_selection example_evidence) \<le> 300"
  "\<forall>r t. pae_review example_evidence = Some r \<and> fr_reviewed_at r = Some t \<longrightarrow> t \<le> 300"
proof -
  show "mk_record_decision_command example_command = Inr example_command"
    unfolding mk_record_decision_command_def example_command_def by code_simp
qed (simp_all add: example_command_def example_analysis_def example_material_def example_case_def
      approval_policy_for_def effective_workflow_version_def example_evidence_def
      example_selection_def example_proposal_def example_option_def alex_identity_def
      approved_example_def pending_example_def)

lemma decision_example:
  "\<exists>d. decision_from_command ''RL-DECISION-1'' example_command alex_identity example_analysis
      [alex_satisfaction_example] (replicate 64 CHR ''f'') 300 (Some example_evidence) = Inr d \<and>
    dec_selected_option d = Some example_option \<and> dec_kind d = DK_APPROVED \<and>
    independent_decision d"
proof -
  have "\<exists>d. decision_from_command ''RL-DECISION-1'' example_command alex_identity example_analysis
      [alex_satisfaction_example] (replicate 64 CHR ''f'') 300 (Some example_evidence) = Inr d \<and>
      dec_approval_satisfactions d = [alex_satisfaction_example] \<and>
      dec_proposal_approval d = Some example_evidence \<and>
      (\<exists>opt \<in> set (av_response_options example_analysis). dec_selected_option d = Some opt) \<and>
      dec_kind d = DK_APPROVED \<and> independent_decision d"
    by (rule finalization_recorded [OF policy_example _ _ evidence_example,
          where oid = "''OPTION''" and cost = 24000]) (rule example_facts)+
  then show ?thesis by (auto simp: example_analysis_def)
qed

section \<open>Properties\<close>

text \<open>
  C32. An approved Decision of the independent workflow rests on the current kind of approval: its
  evidence binds the case, the analysis and its hash, the selected option and its predicted cost;
  the deciding actor is the submitter of the proposal; no satisfaction speaks for Finance; and
  when the cost exceeds 20000 there is a review of this very proposal approved by Taylor, in the
  submitter's tenant and with another object id, before the Decision was made.
\<close>

theorem independent_decision_is_finance_approved:
  assumes "mk_decision d = Inr d'" and "dec_kind d' = DK_APPROVED" and "independent_decision d'"
  shows "\<exists>opt p e tenant alex. dec_selected_option d' = Some opt \<and> ro_predicted opt = Some p \<and>
    dec_proposal_approval d' = Some e \<and>
    ps_proposal (pae_selection e) =
      \<lparr>fp_case_id = dec_case_id d', fp_analysis_id = dec_analysis_id d',
       fp_analysis_material_hash = dec_analysis_material_hash d',
       fp_option_id = ro_option_id opt, fp_response_cost = pred_response_cost p\<rparr> \<and>
    is_alex (ps_submitted_by (pae_selection e)) tenant alex \<and>
    py_uuid_opt (is_tenant_id (dec_actor d')) = Some tenant \<and>
    py_uuid_opt (is_object_id (dec_actor d')) = Some alex \<and>
    (\<forall>s \<in> set (dec_approval_satisfactions d'). as_role s \<noteq> ''finance_approver'') \<and>
    (if 20000 < pred_response_cost p
     then \<exists>review a taylor t. pae_review e = Some review \<and> fr_status review = FRS_APPROVED \<and>
       fr_proposal review = ps_proposal (pae_selection e) \<and> fr_reviewed_by review = Some a \<and>
       is_taylor a tenant taylor \<and> taylor \<noteq> alex \<and> fr_reviewed_at review = Some t \<and>
       t \<le> dec_decided_at d'
     else pae_review e = None)"
proof -
  from mk_decision_Inr [OF assms(1)] have d: "d' = d" and shape: "validate_immutable_shape d' = Inr ()"
    and good: "\<forall>e. dec_proposal_approval d' = Some e \<longrightarrow> good_evidence e" by simp_all
  from approved_shape [OF shape assms(2)] assms(3) obtain opt e where opt:
    "dec_selected_option d' = Some opt" "dec_selected_option_id d' = Some (ro_option_id opt)"
    and e: "dec_proposal_approval d' = Some e" and check: "check_proposal_evidence d' opt e = Inr ()"
    by auto
  note c = check_proposal_evidence_Inr [OF check]
  from c obtain p where p: "ro_predicted opt = Some p"
    "fp_response_cost (ps_proposal (pae_selection e)) = pred_response_cost p" by blast
  have proposal: "ps_proposal (pae_selection e) =
      \<lparr>fp_case_id = dec_case_id d', fp_analysis_id = dec_analysis_id d',
       fp_analysis_material_hash = dec_analysis_material_hash d',
       fp_option_id = ro_option_id opt, fp_response_cost = pred_response_cost p\<rparr>"
    using c opt(2) p(2) by (cases "ps_proposal (pae_selection e)") simp
  from good e obtain tenant alex where alex: "is_alex (ps_submitted_by (pae_selection e)) tenant alex"
    and review: "case pae_review e of
           None \<Rightarrow> fp_response_cost (ps_proposal (pae_selection e)) \<le> 20000 \<and>
             ps_finance_review_id (pae_selection e) = None
         | Some review \<Rightarrow> 20000 < fp_response_cost (ps_proposal (pae_selection e)) \<and>
             fr_status review = FRS_APPROVED \<and> fr_proposal review = ps_proposal (pae_selection e) \<and>
             fr_submitted_by review = ps_submitted_by (pae_selection e) \<and>
             fr_reviewed_at review \<noteq> None \<and>
             (\<exists>a taylor. fr_reviewed_by review = Some a \<and> is_taylor a tenant taylor \<and>
                taylor \<noteq> alex)"
    unfolding good_evidence_def by blast
  have actor: "py_uuid_opt (is_tenant_id (dec_actor d')) = Some tenant"
    "py_uuid_opt (is_object_id (dec_actor d')) = Some alex"
    using c alex by (simp_all add: is_actor_def)
  have "if 20000 < pred_response_cost p
     then \<exists>review a taylor t. pae_review e = Some review \<and> fr_status review = FRS_APPROVED \<and>
       fr_proposal review = ps_proposal (pae_selection e) \<and> fr_reviewed_by review = Some a \<and>
       is_taylor a tenant taylor \<and> taylor \<noteq> alex \<and> fr_reviewed_at review = Some t \<and>
       t \<le> dec_decided_at d'
     else pae_review e = None"
    using review c p(2) by (cases "pae_review e") auto
  with opt p(1) e proposal alex actor c show ?thesis by blast
qed

theorem independent_decision_is_finance_approved_witness:
  "\<exists>d e review. decision_from_command ''RL-DECISION-1'' example_command alex_identity
      example_analysis [alex_satisfaction_example] (replicate 64 CHR ''f'') 300
      (Some example_evidence) = Inr d \<and>
    dec_proposal_approval d = Some e \<and> pae_review e = Some review \<and>
    fr_status review = FRS_APPROVED"
proof -
  from decision_example obtain d where d: "decision_from_command ''RL-DECISION-1'' example_command
      alex_identity example_analysis [alex_satisfaction_example] (replicate 64 CHR ''f'') 300
      (Some example_evidence) = Inr d" "dec_selected_option d = Some example_option"
    "dec_kind d = DK_APPROVED" "independent_decision d" by blast
  from d(1) obtain d0 where "mk_decision d0 = Inr d" unfolding decision_from_command_def Let_def by blast
  from independent_decision_is_finance_approved [OF this d(3,4)] d(1,2) show ?thesis
    by (auto simp: example_option_def)
qed

text \<open>
  C33. What a legacy approval rests on: Alex in both roles, the current analysis of the case, an
  option that is executable, predicted, unblocked and eligible in the ranking, and exactly one
  satisfaction for the material planner and for every other prerequisite role but the final
  approver, each matching the current case and cost and permitted by its own authorization, with
  Finance spoken for by Taylor and Quality by Jordan.
\<close>

theorem legacy_approval_is_authorized:
  assumes "authorize_and_materialize command actor c projection analysis = Inr sats"
    and "rdc_kind command = DK_APPROVED"
  shows "\<exists>opt p. opt \<in> set (av_response_options analysis) \<and>
    rdc_selected_option_id command = Some (ro_option_id opt) \<and>
    ro_executable opt \<and> ro_predicted opt = Some p \<and> ro_blocking_codes opt = [] \<and>
    ro_option_id opt \<in> set (rr_eligible_option_ids (av_ranking analysis)) \<and>
    is_persona_id actor = ''RL-PERSONA-ALEX'' \<and> is_source_id actor = ''RL-ENTRA-ALEX'' \<and>
    {''material_planner'', ''response_approver''} \<subseteq> set (is_effective_roles actor) \<and>
    cpj_current_analysis_id projection = Some (av_analysis_id analysis) \<and>
    cpj_current_analysis_hash projection = Some (av_material_hash analysis) \<and>
    distinct (map as_role sats) \<and>
    set (map as_role sats) =
      insert ''material_planner'' (set (ro_prerequisite_roles opt) - {''response_approver''}) \<and>
    (\<forall>s \<in> set sats. permits (authorization_of s) opt (as_target s) \<and>
       at_total_response_cost (as_target s) = pred_response_cost p \<and>
       ci_case_id (at_case (as_target s)) = ci_case_id c \<and>
       (as_role s = ''finance_approver'' \<longrightarrow> as_persona_id s = ''RL-PERSONA-TAYLOR'') \<and>
       (as_role s = ''quality_approver'' \<longrightarrow> as_persona_id s = ''RL-PERSONA-JORDAN''))"
proof -
  from assms obtain opt existing m where
    auth: "authorize_actor command actor = Inr ()"
    and cur: "require_current_analysis command c projection analysis = Inr ()"
    and sel: "selected_option command analysis = Inr opt"
    and re: "revalidate_existing_satisfactions c analysis opt [] = Inr existing"
    and m: "alex_material_planner_satisfaction actor c analysis opt = Inr m"
    and sats: "sats = sort_key as_role (existing @ [m])"
    by (auto simp: authorize_and_materialize_def result_simps)
  note opt = selected_option_Inr [OF sel]
  have "''material_planner'' \<notin> set ([] :: string list)" by simp
  note mat = materialized_satisfactions [OF re m this, folded sats]
  from opt obtain p where p: "ro_predicted opt = Some p" by blast
  have "set (map as_role sats) =
      insert ''material_planner'' (set (ro_prerequisite_roles opt) - {''response_approver''})"
    using mat(1) by auto
  moreover have "\<forall>s \<in> set sats. permits (authorization_of s) opt (as_target s) \<and>
       at_total_response_cost (as_target s) = pred_response_cost p \<and>
       ci_case_id (at_case (as_target s)) = ci_case_id c \<and>
       (as_role s = ''finance_approver'' \<longrightarrow> as_persona_id s = ''RL-PERSONA-TAYLOR'') \<and>
       (as_role s = ''quality_approver'' \<longrightarrow> as_persona_id s = ''RL-PERSONA-JORDAN'')"
  proof
    fix s assume "s \<in> set sats"
    with mat(3) have "target_matches_current_state c analysis opt s"
      "permits (authorization_of s) opt (as_target s)"
      "as_role s = ''finance_approver'' \<longrightarrow> as_persona_id s = ''RL-PERSONA-TAYLOR''"
      "as_role s = ''quality_approver'' \<longrightarrow> as_persona_id s = ''RL-PERSONA-JORDAN''" by blast+
    with p show "permits (authorization_of s) opt (as_target s) \<and>
       at_total_response_cost (as_target s) = pred_response_cost p \<and>
       ci_case_id (at_case (as_target s)) = ci_case_id c \<and>
       (as_role s = ''finance_approver'' \<longrightarrow> as_persona_id s = ''RL-PERSONA-TAYLOR'') \<and>
       (as_role s = ''quality_approver'' \<longrightarrow> as_persona_id s = ''RL-PERSONA-JORDAN'')"
      by (simp add: target_matches_current_state_def Let_def)
  qed
  moreover have "is_persona_id actor = ''RL-PERSONA-ALEX''" "is_source_id actor = ''RL-ENTRA-ALEX''"
    "{''material_planner'', ''response_approver''} \<subseteq> set (is_effective_roles actor)"
    using auth assms(2) by (auto simp: authorize_actor_def result_simps)
  moreover have "cpj_current_analysis_id projection = Some (av_analysis_id analysis)"
    "cpj_current_analysis_hash projection = Some (av_material_hash analysis)"
    using cur by (auto simp: require_current_analysis_def result_simps Let_def)
  moreover have "opt \<in> set (av_response_options analysis)"
    "rdc_selected_option_id command = Some (ro_option_id opt)" "ro_executable opt"
    "ro_blocking_codes opt = []" "ro_option_id opt \<in> set (rr_eligible_option_ids (av_ranking analysis))"
    using opt by blast+
  ultimately show ?thesis using p mat(2)
    by (intro exI [of _ opt] exI [of _ p] conjI)
qed

theorem legacy_approval_is_authorized_witness:
  "set (map as_role [taylor_satisfaction_example, alex_satisfaction_example]) =
     {''material_planner'', ''finance_approver''}"
  using legacy_approval_is_authorized [OF legacy_policy_example]
  by (auto simp: example_command_def legacy_analysis_def example_analysis_def example_option_def)

text \<open>
  A finalisation that the policy accepts is never refused by the Decision itself: with the
  evidence of a proposal for the selected option at its predicted cost, submitted by the same
  Alex and not decided before it was submitted or reviewed, the immutable Decision is built, and
  it carries the materialised satisfactions and the evidence unchanged.
\<close>

theorem accepted_finalization_is_recorded:
  assumes "authorize_independent_and_materialize command actor c projection analysis (Some e) = Inr sats"
    and "mk_record_decision_command command = Inr command" and "rdc_kind command = DK_APPROVED"
    and "mk_proposal_approval_evidence e = Inr e"
    and "am_approval_policy_version (av_material analysis) = approval_policy_for c"
    and "effective_workflow_version c = WV_INDEPENDENT_FINANCE"
    and "\<forall>s \<in> set (av_approval_satisfactions analysis). as_analysis_id s = av_analysis_id analysis"
    and "ps_proposal (pae_selection e) =
      \<lparr>fp_case_id = rdc_case_id command, fp_analysis_id = rdc_analysis_id command,
       fp_analysis_material_hash = av_material_hash analysis, fp_option_id = oid,
       fp_response_cost = cost\<rparr>"
    and "\<forall>opt \<in> set (av_response_options analysis). ro_option_id opt = oid \<longrightarrow>
      map_option pred_response_cost (ro_predicted opt) = Some cost"
    and "is_tenant_id actor = is_tenant_id (ps_submitted_by (pae_selection e))"
    and "is_object_id actor = is_object_id (ps_submitted_by (pae_selection e))"
    and "ps_submitted_at (pae_selection e) \<le> decided_at"
    and "\<forall>r t. pae_review e = Some r \<and> fr_reviewed_at r = Some t \<longrightarrow> t \<le> decided_at"
  shows "\<exists>d. decision_from_command decision_id command actor analysis sats fingerprint decided_at
      (Some e) = Inr d \<and> dec_approval_satisfactions d = sats \<and> dec_proposal_approval d = Some e \<and>
    dec_kind d = DK_APPROVED \<and> independent_decision d"
  using finalization_recorded [OF assms] by blast

theorem accepted_finalization_is_recorded_witness:
  "\<exists>d. decision_from_command ''RL-DECISION-1'' example_command alex_identity example_analysis
      [alex_satisfaction_example] (replicate 64 CHR ''f'') 300 (Some example_evidence) = Inr d \<and>
    independent_decision d"
  using accepted_finalization_is_recorded [OF policy_example example_facts(1,2) evidence_example
      example_facts(3-11), of "''RL-DECISION-1''" "replicate 64 CHR ''f''"]
  by blast

end
