(* ===== verification/Case_Store.thy ===== *)
theory Case_Store
  imports Analysis_Service Decision_Policy Execution_Store
begin

text \<open>
  The tables of a Case and what reads them: \<open>SqlAlchemyStore\<close> and \<open>SqlAlchemyCaseRepository\<close> of
  \<open>services/persistence/store.py\<close> over \<open>services/persistence/tables.py\<close>.

  Every table is the list of its rows.  A JSON column holds the value it decodes to, or None when
  it does not decode.  The runtime mode of the store, the JSON text of a snapshot, the hash of an
  analysis and the JSON of a review are the parameters of the store.
\<close>

section \<open>Tables\<close>

fun case_status_value :: "case_status \<Rightarrow> string" where
  "case_status_value CS_OPEN = ''open''"
| "case_status_value CS_ANALYZING = ''analyzing''"
| "case_status_value CS_AWAITING_DECISION = ''awaiting_decision''"
| "case_status_value CS_DECISION_REJECTED = ''decision_rejected''"
| "case_status_value CS_ACTION_PLANNING = ''action_planning''"
| "case_status_value CS_EXECUTING = ''executing''"
| "case_status_value CS_MONITORING = ''monitoring''"
| "case_status_value CS_REANALYSIS_REQUIRED = ''reanalysis_required''"
| "case_status_value CS_CLOSED = ''closed''"

record case_row =
  crow_case_id :: string
  crow_template_id :: string
  crow_purpose :: string
  crow_runtime_mode :: string
  crow_status :: string
  crow_scenario_effective_time :: instant
  crow_payload :: "case_instance option"

record snapshot_row =
  srow_case_id :: string
  srow_runtime_mode :: string
  srow_scenario_effective_time :: instant
  srow_analysis_horizon_start :: instant
  srow_analysis_horizon_end :: date
  srow_payload :: "operational_snapshot option"

record case_projection_row =
  jrow_case_id :: string
  jrow_purpose :: string
  jrow_runtime_mode :: string
  jrow_status :: string
  jrow_scenario_effective_time :: instant
  jrow_current_analysis_id :: "string option"
  jrow_current_analysis_hash :: "string option"
  jrow_proposal_generation :: int
  jrow_current_selection_id :: "string option"
  jrow_current_decision_id :: "string option"
  jrow_payload :: "case_instance option"

record analysis_row =
  nrow_analysis_id :: string
  nrow_case_id :: string
  nrow_material_hash :: string
  nrow_runtime_mode :: string
  nrow_analysis_started_at :: instant
  nrow_retrieval_window_ends_at :: instant
  nrow_created_at :: instant
  nrow_payload :: "analysis_version option"

record evidence_row =
  irow_evidence_id :: string
  irow_analysis_id :: string
  irow_case_id :: string
  irow_kind :: evidence_kind
  irow_runtime_mode :: string
  irow_source_system :: evidence_source_system
  irow_source_timestamp :: "instant option"
  irow_retrieved_at :: "instant option"
  irow_effective_at :: "instant option"
  irow_expires_at :: "instant option"
  irow_payload :: "evidence_item option"

record satisfaction_row =
  frow_analysis_id :: string
  frow_decision_id :: "string option"
  frow_option_id :: string
  frow_authorization_id :: string
  frow_persona_id :: string
  frow_role :: string
  frow_satisfied :: bool
  frow_payload :: "approval_satisfaction option"

record claim_row =
  grow_case_id :: string
  grow_material_version :: string
  grow_claim_id :: string
  grow_claimed_at :: instant
  grow_claim_expires_at :: instant

record selection_row =
  qrow_selection_id :: string
  qrow_case_id :: string
  qrow_analysis_id :: string
  qrow_analysis_material_hash :: string
  qrow_workflow_version :: string
  qrow_finance_review_id :: "string option"
  qrow_finance_review_revision :: "int option"
  qrow_expected_generation :: int
  qrow_expected_selection_id :: "string option"
  qrow_idempotency_key :: string
  qrow_request_fingerprint :: string
  qrow_submitted_at :: instant
  qrow_payload :: "selection_receipt option"

record decision_row =
  lrow_decision_id :: string
  lrow_case_id :: string
  lrow_analysis_id :: string
  lrow_idempotency_key :: string
  lrow_kind :: string
  lrow_runtime_mode :: string
  lrow_decided_at :: instant
  lrow_payload :: "decision option"

datatype outbox_claim_status = OCS_PENDING | OCS_CLAIMED | OCS_PROCESSED

fun outbox_claim_status_value :: "outbox_claim_status \<Rightarrow> string" where
  "outbox_claim_status_value OCS_PENDING = ''pending''"
| "outbox_claim_status_value OCS_CLAIMED = ''claimed''"
| "outbox_claim_status_value OCS_PROCESSED = ''processed''"

record action_planning_requested =
  apr_event_id :: string
  apr_decision_id :: string
  apr_case_id :: string
  apr_analysis_id :: string
  apr_event_type :: string
  apr_created_at :: instant
  apr_available_at :: instant
  apr_claim_status :: outbox_claim_status

record outbox_row =
  orow_event_id :: string
  orow_decision_id :: string
  orow_event_type :: string
  orow_created_at :: instant
  orow_available_at :: instant
  orow_claim_status :: string
  orow_claimed_by :: "string option"
  orow_claimed_at :: "instant option"
  orow_claim_expires_at :: "instant option"
  orow_processed_at :: "instant option"
  orow_attempt_count :: int
  orow_last_error :: "string option"
  orow_payload :: "action_planning_requested option"

record 'p case_db =
  cdb_cases :: "case_row list"
  cdb_snapshots :: "snapshot_row list"
  cdb_projections :: "case_projection_row list"
  cdb_analyses :: "analysis_row list"
  cdb_evidence :: "evidence_row list"
  cdb_satisfactions :: "satisfaction_row list"
  cdb_claims :: "claim_row list"
  cdb_selections :: "selection_row list"
  cdb_decisions :: "decision_row list"
  cdb_reviews :: "'p finance_row list"
  cdb_outbox :: "outbox_row list"

text \<open>The material hashed into the fingerprint of a supersession.\<close>

record supersede_material =
  sm_operation :: string
  sm_subject_id :: string
  sm_prior_review_id :: string
  sm_prior_revision :: "int option"
  sm_superseded_at :: instant

record 'p store_env =
  se_runtime_mode :: runtime_mode
  se_snapshot_json :: "operational_snapshot \<Rightarrow> string"
  se_material_hash :: "analysis_material \<Rightarrow> string"
  se_review_json :: "'p review_json"
  se_supersede_sha256 :: "supersede_material \<Rightarrow> string"

section \<open>Reading one Case\<close>

text \<open>A loop whose body may raise.\<close>

definition for_each :: "('a \<Rightarrow> unit result) \<Rightarrow> 'a list \<Rightarrow> unit result" where
  "for_each f xs = bindR (mapR f xs) (\<lambda>_. Inr ())"

lemma for_each_Inr_iff [result_simps]: "for_each f xs = Inr u \<longleftrightarrow> (\<forall>x \<in> set xs. f x = Inr ())"
proof -
  have "(\<exists>ys. list_all2 (\<lambda>x y. f x = Inr y) xs ys) \<longleftrightarrow> (\<forall>x \<in> set xs. f x = Inr ())"
  proof
    assume "\<exists>ys. list_all2 (\<lambda>x y. f x = Inr y) xs ys"
    then show "\<forall>x \<in> set xs. f x = Inr ()" by (auto simp: list_all2_conv_all_nth in_set_conv_nth)
  next
    assume "\<forall>x \<in> set xs. f x = Inr ()"
    then have "list_all2 (\<lambda>x y. f x = Inr y) xs (map (\<lambda>_. ()) xs)"
      by (auto simp: list_all2_conv_all_nth)
    then show "\<exists>ys. list_all2 (\<lambda>x y. f x = Inr y) xs ys" by blast
  qed
  then show ?thesis by (auto simp: for_each_def result_simps)
qed

definition require_configured_mode :: "'p store_env \<Rightarrow> runtime_mode \<Rightarrow> unit result" where
  "require_configured_mode env m =
     require (m = se_runtime_mode env) (RuntimeModeConflict ''store is configured for another mode'')"

definition stored_case :: "'p case_db \<Rightarrow> string \<Rightarrow> case_instance result" where
  "stored_case db case_id =
     bindR (one_or_none (filter (\<lambda>r. crow_case_id r = case_id) (cdb_cases db))) (\<lambda>found.
     bindR (the_or (RecordNotFound ''case does not exist'') found) (\<lambda>row.
     bindR (json_or_error (crow_payload row)) (\<lambda>c.
     bindR (require (ci_case_id c = crow_case_id row \<and> ci_template_id c = crow_template_id row \<and>
                     case_purpose_value (ci_purpose c) = crow_purpose row \<and>
                     runtime_mode_value (ci_runtime_mode c) = crow_runtime_mode row \<and>
                     case_status_value (ci_status c) = crow_status row \<and>
                     crow_scenario_effective_time row = ci_scenario_effective_time c)
              (PersistenceIntegrityError
                 ''immutable case columns conflict with canonical Case Instance JSON'')) (\<lambda>_.
     Inr c))))"

definition stored_snapshot :: "'p case_db \<Rightarrow> string \<Rightarrow> operational_snapshot result" where
  "stored_snapshot db case_id =
     bindR (one_or_none (filter (\<lambda>r. srow_case_id r = case_id) (cdb_snapshots db))) (\<lambda>found.
     bindR (the_or (PersistenceIntegrityError ''persisted Operational Snapshot is missing'') found)
       (\<lambda>row.
     bindR (json_or_error (srow_payload row)) (\<lambda>s.
     bindR (require (os_case_id s = srow_case_id row \<and>
                     runtime_mode_value (os_runtime_mode s) = srow_runtime_mode row \<and>
                     srow_scenario_effective_time row = os_scenario_effective_time s \<and>
                     srow_analysis_horizon_start row = os_analysis_horizon_start s \<and>
                     os_analysis_horizon_end s = srow_analysis_horizon_end row)
              (PersistenceIntegrityError
                 ''persisted Operational Snapshot columns conflict with canonical JSON'')) (\<lambda>_.
     Inr s))))"

definition require_case_runtime ::
    "'p store_env \<Rightarrow> 'p case_db \<Rightarrow> string \<Rightarrow> runtime_mode \<Rightarrow> case_instance result" where
  "require_case_runtime env db case_id m =
     bindR (require_configured_mode env m) (\<lambda>_.
     bindR (stored_case db case_id) (\<lambda>c.
     bindR (require (ci_runtime_mode c = m) (RuntimeModeConflict ''case runtime mode'')) (\<lambda>_.
     Inr c)))"

definition require_matching_runtime :: "runtime_mode \<Rightarrow> runtime_mode \<Rightarrow> unit result" where
  "require_matching_runtime m expected =
     require (m = expected) (RuntimeModeConflict ''runtime_mode must match Analysis Version'')"

section \<open>Analysis Versions\<close>

definition require_satisfaction_provenance ::
    "analysis_version \<Rightarrow> case_instance \<Rightarrow> runtime_mode \<Rightarrow> approval_satisfaction \<Rightarrow> unit result" where
  "require_satisfaction_provenance a c m item =
     (let target_case = at_case (as_target item) in
      bindR (require (effective_workflow_version target_case = effective_workflow_version c)
               (PersistenceIntegrityError
                  ''Approval Satisfaction case policy must match its immutable Case Instance''))
        (\<lambda>_.
      bindR (require (as_analysis_id item = av_analysis_id a)
               (ValueError ''Approval Satisfaction analysis_id must match Analysis Version'')) (\<lambda>_.
      bindR (require (ci_case_id target_case = av_case_id a)
               (ValueError ''Approval Satisfaction case_id must match Analysis Version'')) (\<lambda>_.
      require_matching_runtime (ci_runtime_mode target_case) m))))"

definition require_material_provenance ::
    "analysis_version \<Rightarrow> case_instance \<Rightarrow> runtime_mode \<Rightarrow> unit result" where
  "require_material_provenance a c m =
     bindR (for_each (\<lambda>e.
        bindR (require (ei_case_id e = av_case_id a)
                 (ValueError ''Evidence Item case_id must match Analysis Version'')) (\<lambda>_.
        bindR (require (ei_retrieved_for_analysis_id e = av_analysis_id a)
                 (ValueError ''Evidence Item retrieval provenance must match Analysis Version''))
          (\<lambda>_.
        require_matching_runtime (ei_runtime_mode e) m))) (av_evidence_items a)) (\<lambda>_.
     bindR (for_each (\<lambda>e.
        bindR (require (aem_case_id e = av_case_id a)
                 (ValueError
                    ''analysis material Evidence Item case_id must match Analysis Version'')) (\<lambda>_.
        require_matching_runtime (aem_runtime_mode e) m)) (am_evidence (av_material a))) (\<lambda>_.
     bindR (for_each (\<lambda>k.
        require (acm_case_id k = av_case_id a)
          (ValueError ''analysis material conflict case_id must match Analysis Version''))
        (am_conflicts (av_material a))) (\<lambda>_.
     bindR (for_each (\<lambda>s.
        bindR (require (aatm_case_id (aam_target s) = av_case_id a)
                 (ValueError
                    ''analysis material Approval Satisfaction case_id must match Analysis Version''))
          (\<lambda>_.
        require_matching_runtime (aatm_runtime_mode (aam_target s)) m))
        (am_approval_satisfactions (av_material a))) (\<lambda>_.
     for_each (require_satisfaction_provenance a c m) (av_approval_satisfactions a)))))"

definition require_analysis_provenance ::
    "'p store_env \<Rightarrow> 'p case_db \<Rightarrow> analysis_version \<Rightarrow> unit result" where
  "require_analysis_provenance env db a =
     (let material = av_material a; m = am_runtime_mode material in
      bindR (require (av_material_hash a = se_material_hash env material)
               (PersistenceIntegrityError
                  ''Analysis Version material_hash does not match canonical material'')) (\<lambda>_.
      bindR (require_case_runtime env db (av_case_id a) m) (\<lambda>c.
      bindR (stored_snapshot db (av_case_id a)) (\<lambda>snapshot.
      bindR (require (am_approval_policy_version material = approval_policy_for c)
               (PersistenceIntegrityError
                  ''Analysis approval policy must match its immutable Case Instance'')) (\<lambda>_.
      bindR (require (\<not> (effective_workflow_version c = WV_INDEPENDENT_FINANCE \<and>
                 ((\<exists>x \<in> set (am_standing_authorizations material).
                     asam_role x = ''finance_approver'') \<or>
                  (\<exists>x \<in> set (am_approval_satisfactions material). aam_role x = ''finance_approver'') \<or>
                  (\<exists>x \<in> set (av_approval_satisfactions a). as_role x = ''finance_approver''))))
               (PersistenceIntegrityError
                  ''Independent Finance approval policy cannot contain Finance standing evidence''))
        (\<lambda>_.
      bindR (require (am_case_id material = av_case_id a)
               (ValueError ''analysis material case_id must match Analysis Version'')) (\<lambda>_.
      bindR (require (am_template_id material = ci_template_id c \<and>
                      am_case_purpose material = ci_purpose c \<and>
                      am_scenario_effective_time material = ci_scenario_effective_time c)
               (ValueError
                  ''Analysis Version provenance must match its immutable Case Instance'')) (\<lambda>_.
      bindR (canonical_operational_snapshot (se_snapshot_json env) snapshot) (\<lambda>text.
      bindR (require (am_operational_snapshot_json material = text)
               (PersistenceIntegrityError ''Analysis Version Operational Snapshot differs'')) (\<lambda>_.
      require_material_provenance a c m))))))))))"

definition analysis_row_of :: "analysis_version \<Rightarrow> analysis_row" where
  "analysis_row_of a =
     \<lparr>nrow_analysis_id = av_analysis_id a, nrow_case_id = av_case_id a,
      nrow_material_hash = av_material_hash a,
      nrow_runtime_mode = runtime_mode_value (am_runtime_mode (av_material a)),
      nrow_analysis_started_at = av_analysis_started_at a,
      nrow_retrieval_window_ends_at = av_retrieval_window_ends_at a,
      nrow_created_at = av_created_at a, nrow_payload = Some a\<rparr>"

definition require_analysis_row_integrity :: "analysis_row \<Rightarrow> analysis_version \<Rightarrow> unit result" where
  "require_analysis_row_integrity row a =
     require (av_analysis_id a = nrow_analysis_id row \<and> av_case_id a = nrow_case_id row \<and>
              av_material_hash a = nrow_material_hash row \<and>
              runtime_mode_value (am_runtime_mode (av_material a)) = nrow_runtime_mode row \<and>
              nrow_analysis_started_at row = av_analysis_started_at a \<and>
              nrow_retrieval_window_ends_at row = av_retrieval_window_ends_at a \<and>
              nrow_created_at row = av_created_at a)
       (PersistenceIntegrityError
          ''analysis columns conflict with canonical Analysis Version JSON'')"

text \<open>\<open>except (RuntimeModeConflict, ValueError) as error: raise PersistenceIntegrityError\<close>\<close>

definition provenance_as_integrity :: "'a result \<Rightarrow> 'a result" where
  "provenance_as_integrity r =
     (case r of
        Inl (RuntimeModeConflict _) \<Rightarrow>
          Inl (PersistenceIntegrityError ''persisted Analysis Version provenance is inconsistent'')
      | Inl (ValueError _) \<Rightarrow>
          Inl (PersistenceIntegrityError ''persisted Analysis Version provenance is inconsistent'')
      | _ \<Rightarrow> r)"

definition get_analysis ::
    "'p store_env \<Rightarrow> 'p case_db \<Rightarrow> string \<Rightarrow> analysis_version result" where
  "get_analysis env db analysis_id =
     bindR (one_or_none (filter (\<lambda>r. nrow_analysis_id r = analysis_id) (cdb_analyses db))) (\<lambda>found.
     bindR (the_or (RecordNotFound ''analysis does not exist'') found) (\<lambda>row.
     bindR (json_or_error (nrow_payload row)) (\<lambda>a.
     bindR (require_analysis_row_integrity row a) (\<lambda>_.
     bindR (provenance_as_integrity (require_analysis_provenance env db a)) (\<lambda>_.
     Inr a)))))"

section \<open>The projection of a Case\<close>

definition require_case_projection_integrity ::
    "case_projection_row \<Rightarrow> case_instance \<Rightarrow> case_instance \<Rightarrow> unit result" where
  "require_case_projection_integrity row c stored =
     require (ci_case_id c = jrow_case_id row \<and>
              case_purpose_value (ci_purpose c) = jrow_purpose row \<and>
              runtime_mode_value (ci_runtime_mode c) = jrow_runtime_mode row \<and>
              case_status_value (ci_status c) = jrow_status row \<and>
              jrow_scenario_effective_time row = ci_scenario_effective_time c \<and>
              ci_template_id c = ci_template_id stored \<and> ci_purpose c = ci_purpose stored \<and>
              ci_runtime_mode c = ci_runtime_mode stored \<and>
              ci_scenario_effective_time c = ci_scenario_effective_time stored \<and>
              ci_scenario_timezone c = ci_scenario_timezone stored \<and>
              ci_supplier_email c = ci_supplier_email stored \<and>
              ci_presenter_run_id c = ci_presenter_run_id stored \<and>
              effective_workflow_version c = effective_workflow_version stored)
       (PersistenceIntegrityError
          ''case projection conflicts with immutable Case Instance provenance'')"

definition projection_at :: "'p case_db \<Rightarrow> string \<Rightarrow> case_projection_row option result" where
  "projection_at db case_id =
     one_or_none (filter (\<lambda>r. jrow_case_id r = case_id) (cdb_projections db))"

text \<open>\<open>connection.scalar\<close>: the first row's value, or None; a stored NULL is None too.\<close>

definition planning_error :: "'p case_db \<Rightarrow> string \<Rightarrow> string option" where
  "planning_error db decision_id =
     (case filter (\<lambda>r. orow_decision_id r = decision_id \<and>
                       orow_event_type r = ''ActionPlanningRequested'' \<and>
                       orow_processed_at r = None) (cdb_outbox db) of
        [] \<Rightarrow> None
      | r # _ \<Rightarrow> orow_last_error r)"

text \<open>
  The dash of the display text, above code point 255, is written as its three UTF-8 bytes.
\<close>

definition planning_failed_text :: string where
  "planning_failed_text =
     ''Approved '' @ [CHR 0xE2, CHR 0x80, CHR 0x94] @ '' action planning failed''"

definition get_projection :: "'p store_env \<Rightarrow> 'p case_db \<Rightarrow> string \<Rightarrow> case_projection result" where
  "get_projection env db case_id =
     bindR (projection_at db case_id) (\<lambda>found.
     bindR (the_or (RecordNotFound ''case does not exist'') found) (\<lambda>row.
     bindR (json_or_error (jrow_payload row)) (\<lambda>c.
     bindR (stored_case db case_id) (\<lambda>stored.
     bindR (require_case_projection_integrity row c stored) (\<lambda>_.
     bindR (require_configured_mode env (ci_runtime_mode c)) (\<lambda>_.
     Inr \<lparr>cpj_case = c, cpj_current_analysis_id = jrow_current_analysis_id row,
          cpj_current_analysis_hash = jrow_current_analysis_hash row,
          cpj_current_decision_id = jrow_current_decision_id row,
          cpj_display_status =
            (case jrow_current_decision_id row of
               None \<Rightarrow> None
             | Some decision_id \<Rightarrow>
                 if ci_status c = CS_ACTION_PLANNING \<and> planning_error db decision_id \<noteq> None
                 then Some planning_failed_text else None)\<rparr>))))))"

definition set_projection ::
    "string \<Rightarrow> (case_projection_row \<Rightarrow> case_projection_row) \<Rightarrow> 'p case_db \<Rightarrow> 'p case_db" where
  "set_projection case_id f db =
     db\<lparr>cdb_projections := map (\<lambda>r. if jrow_case_id r = case_id then f r else r) (cdb_projections db)\<rparr>"

text \<open>\<open>UPDATE case_projection .. WHERE case_id\<close>, which has to change one row.\<close>

definition update_projection_row ::
    "string \<Rightarrow> (case_projection_row \<Rightarrow> case_projection_row) \<Rightarrow> 'p case_db \<Rightarrow> 'p case_db result" where
  "update_projection_row case_id f db =
     bindR (require (length (filter (\<lambda>r. jrow_case_id r = case_id) (cdb_projections db)) = 1)
              (RecordNotFound ''case projection does not exist'')) (\<lambda>_.
     Inr (set_projection case_id f db))"

definition set_decision_projection ::
    "'p store_env \<Rightarrow> string \<Rightarrow> string \<Rightarrow> case_status \<Rightarrow> 'p case_db \<Rightarrow> 'p case_db result" where
  "set_decision_projection env case_id decision_id status db =
     bindR (get_projection env db case_id) (\<lambda>projection.
     bindR (case_model_copy (\<lambda>c. c\<lparr>ci_status := status\<rparr>) (cpj_case projection)) (\<lambda>changed.
     update_projection_row case_id
       (\<lambda>r. r\<lparr>jrow_status := case_status_value status, jrow_current_decision_id := Some decision_id,
              jrow_payload := Some changed\<rparr>) db))"

definition set_current_decision ::
    "'p store_env \<Rightarrow> string \<Rightarrow> string \<Rightarrow> 'p case_db \<Rightarrow> 'p case_db result" where
  "set_current_decision env case_id decision_id =
     set_decision_projection env case_id decision_id CS_ACTION_PLANNING"

definition mark_rejected ::
    "'p store_env \<Rightarrow> string \<Rightarrow> string \<Rightarrow> 'p case_db \<Rightarrow> 'p case_db result" where
  "mark_rejected env case_id decision_id =
     set_decision_projection env case_id decision_id CS_DECISION_REJECTED"

definition set_case_status ::
    "'p store_env \<Rightarrow> string \<Rightarrow> case_status \<Rightarrow> 'p case_db \<Rightarrow> 'p case_db result" where
  "set_case_status env case_id status db =
     bindR (get_projection env db case_id) (\<lambda>projection.
     bindR (case_model_copy (\<lambda>c. c\<lparr>ci_status := status\<rparr>) (cpj_case projection)) (\<lambda>changed.
     update_projection_row case_id
       (\<lambda>r. r\<lparr>jrow_status := case_status_value status, jrow_payload := Some changed\<rparr>) db))"

definition mark_action_planning_complete ::
    "'p store_env \<Rightarrow> string \<Rightarrow> 'p case_db \<Rightarrow> 'p case_db result" where
  "mark_action_planning_complete env case_id = set_case_status env case_id CS_EXECUTING"

definition mark_action_planning_failed ::
    "'p store_env \<Rightarrow> string \<Rightarrow> 'p case_db \<Rightarrow> 'p case_db result" where
  "mark_action_planning_failed env case_id = set_case_status env case_id CS_ACTION_PLANNING"

section \<open>Writing Cases\<close>

definition validate_new_case ::
    "'p store_env \<Rightarrow> case_instance \<Rightarrow> operational_snapshot \<Rightarrow> unit result" where
  "validate_new_case env c s =
     bindR (require_configured_mode env (ci_runtime_mode c)) (\<lambda>_.
     bindR (require (os_case_id s = ci_case_id c)
              (ValueError ''operational snapshot case_id must match Case Instance'')) (\<lambda>_.
     bindR (require (os_runtime_mode s = ci_runtime_mode c)
              (RuntimeModeConflict
                 ''operational snapshot runtime_mode must match Case Instance'')) (\<lambda>_.
     require (os_scenario_effective_time s = ci_scenario_effective_time c)
       (ValueError
          ''operational snapshot Scenario Effective Time must match Case Instance''))))"

definition case_row_of :: "case_instance \<Rightarrow> case_row" where
  "case_row_of c =
     \<lparr>crow_case_id = ci_case_id c, crow_template_id = ci_template_id c,
      crow_purpose = case_purpose_value (ci_purpose c),
      crow_runtime_mode = runtime_mode_value (ci_runtime_mode c),
      crow_status = case_status_value (ci_status c),
      crow_scenario_effective_time = ci_scenario_effective_time c, crow_payload = Some c\<rparr>"

definition snapshot_row_of :: "operational_snapshot \<Rightarrow> snapshot_row" where
  "snapshot_row_of s =
     \<lparr>srow_case_id = os_case_id s, srow_runtime_mode = runtime_mode_value (os_runtime_mode s),
      srow_scenario_effective_time = os_scenario_effective_time s,
      srow_analysis_horizon_start = os_analysis_horizon_start s,
      srow_analysis_horizon_end = os_analysis_horizon_end s, srow_payload = Some s\<rparr>"

definition case_projection_row_of :: "case_instance \<Rightarrow> case_projection_row" where
  "case_projection_row_of c =
     \<lparr>jrow_case_id = ci_case_id c, jrow_purpose = case_purpose_value (ci_purpose c),
      jrow_runtime_mode = runtime_mode_value (ci_runtime_mode c),
      jrow_status = case_status_value (ci_status c),
      jrow_scenario_effective_time = ci_scenario_effective_time c,
      jrow_current_analysis_id = None, jrow_current_analysis_hash = None,
      jrow_proposal_generation = 0, jrow_current_selection_id = None,
      jrow_current_decision_id = None, jrow_payload = Some c\<rparr>"

text \<open>\<open>except IntegrityError as error: raise ..\<close>\<close>

definition integrity_as :: "py_error \<Rightarrow> 'a result \<Rightarrow> 'a result" where
  "integrity_as e r = (case r of Inl IntegrityError \<Rightarrow> Inl e | _ \<Rightarrow> r)"

definition insert_case ::
    "case_instance \<Rightarrow> operational_snapshot \<Rightarrow> 'p case_db \<Rightarrow> 'p case_db result" where
  "insert_case c s db =
     bindR (insert_unique crow_case_id (cdb_cases db) (case_row_of c)) (\<lambda>cs.
     bindR (insert_unique srow_case_id (cdb_snapshots db) (snapshot_row_of s)) (\<lambda>ss.
     bindR (insert_unique jrow_case_id (cdb_projections db) (case_projection_row_of c)) (\<lambda>js.
     Inr (db\<lparr>cdb_cases := cs, cdb_snapshots := ss, cdb_projections := js\<rparr>))))"

definition create_case ::
    "'p store_env \<Rightarrow> case_instance \<Rightarrow> operational_snapshot \<Rightarrow> 'p case_db \<Rightarrow> 'p case_db result" where
  "create_case env c s db =
     bindR (validate_new_case env c s) (\<lambda>_.
     integrity_as (ImmutableRecordConflict ''case already exists'') (insert_case c s db))"

definition save_case_projection ::
    "'p store_env \<Rightarrow> case_instance \<Rightarrow> 'p case_db \<Rightarrow> 'p case_db result" where
  "save_case_projection env c db =
     bindR (require_case_runtime env db (ci_case_id c) (ci_runtime_mode c)) (\<lambda>stored.
     bindR (require (effective_workflow_version c = effective_workflow_version stored)
              (PersistenceIntegrityError
                 ''case projection conflicts with immutable Case Instance policy'')) (\<lambda>_.
     bindR (require (ci_template_id c = ci_template_id stored \<and> ci_purpose c = ci_purpose stored \<and>
                     ci_scenario_effective_time c = ci_scenario_effective_time stored \<and>
                     ci_scenario_timezone c = ci_scenario_timezone stored \<and>
                     ci_supplier_email c = ci_supplier_email stored \<and>
                     ci_presenter_run_id c = ci_presenter_run_id stored)
              (ImmutableRecordConflict ''case projection cannot change immutable provenance''))
       (\<lambda>_.
     update_projection_row (ci_case_id c)
       (\<lambda>r. r\<lparr>jrow_purpose := case_purpose_value (ci_purpose c),
              jrow_runtime_mode := runtime_mode_value (ci_runtime_mode c),
              jrow_status := case_status_value (ci_status c),
              jrow_scenario_effective_time := ci_scenario_effective_time c,
              jrow_payload := Some c\<rparr>) db)))"

text \<open>\<open>list_cases\<close>: every projection is checked, those of another mode or purpose are left out.\<close>

definition list_cases ::
    "'p store_env \<Rightarrow> 'p case_db \<Rightarrow> case_purpose option \<Rightarrow> case_instance list result" where
  "list_cases env db purpose =
     bindR (mapR (\<lambda>row.
        bindR (json_or_error (jrow_payload row)) (\<lambda>c.
        bindR (stored_case db (ci_case_id c)) (\<lambda>stored.
        bindR (require_case_projection_integrity row c stored) (\<lambda>_. Inr c))))
        (sort_key jrow_case_id (cdb_projections db))) (\<lambda>cs.
     Inr (filter (\<lambda>c. ci_runtime_mode c = se_runtime_mode env \<and>
                      (case purpose of None \<Rightarrow> True | Some p \<Rightarrow> ci_purpose c = p)) cs))"

definition get_operational_snapshot ::
    "'p store_env \<Rightarrow> 'p case_db \<Rightarrow> string \<Rightarrow> operational_snapshot result" where
  "get_operational_snapshot env db case_id =
     bindR (stored_case db case_id) (\<lambda>c.
     bindR (require_configured_mode env (ci_runtime_mode c)) (\<lambda>_.
     bindR (stored_snapshot db case_id) (\<lambda>s.
     bindR (require (os_runtime_mode s = ci_runtime_mode c)
              (RuntimeModeConflict ''Operational Snapshot runtime does not match Case Instance''))
       (\<lambda>_. Inr s))))"

end
