(* ===== verification/Proposal_Store.thy ===== *)
theory Proposal_Store
  imports Case_Store
begin

text \<open>
  The proposal of a Case: \<open>SqlAlchemyProposalRepository\<close> of \<open>services/persistence/proposals.py\<close>.
  The projection of the Case carries the token of its current proposal: a generation, the current
  analysis and the current selection.  Every change of the proposal compares the whole token and
  raises the generation.
\<close>

section \<open>The token\<close>

definition token_of_row :: "case_projection_row \<Rightarrow> proposal_token" where
  "token_of_row row =
     \<lparr>pt_generation = jrow_proposal_generation row,
      pt_analysis_id = jrow_current_analysis_id row,
      pt_analysis_material_hash = jrow_current_analysis_hash row,
      pt_selection_id = jrow_current_selection_id row\<rparr>"

text \<open>\<open>ProposalToken(..)\<close>, validated.\<close>

definition mk_proposal_token :: "proposal_token \<Rightarrow> proposal_token result" where
  "mk_proposal_token t =
     bindR (require (wf_proposal_token t) (ValueError ''ProposalToken'')) (\<lambda>_. Inr t)"

definition proposal_token_of :: "'p case_db \<Rightarrow> string \<Rightarrow> proposal_token result" where
  "proposal_token_of db case_id =
     bindR (projection_at db case_id) (\<lambda>found.
     bindR (the_or (RecordNotFound ''case does not exist'') found) (\<lambda>row.
     mk_proposal_token (token_of_row row)))"

text \<open>
  \<open>_cas_projection\<close>: an update of the row whose token is the expected one.  The values are given
  as a function on rows.
\<close>

definition cas_projection ::
    "string \<Rightarrow> proposal_token \<Rightarrow> (case_projection_row \<Rightarrow> case_projection_row) \<Rightarrow> 'p case_db \<Rightarrow>
     'p case_db result" where
  "cas_projection case_id expected values db =
     (let hit = (\<lambda>r. jrow_case_id r = case_id \<and> token_of_row r = expected) in
      bindR (require (length (filter hit (cdb_projections db)) = 1)
               (StaleProposal ''Case analysis or proposal changed'')) (\<lambda>_.
      Inr (db\<lparr>cdb_projections := map (\<lambda>r. if hit r
              then (values r)\<lparr>jrow_proposal_generation := pt_generation expected + 1\<rparr>
              else r) (cdb_projections db)\<rparr>)))"

section \<open>Finance reviews of the same database\<close>

text \<open>
  The revision log reads Analysis Versions through the Case repository.  An analysis that does not
  read back is no analysis for it: a \<open>PersistenceIntegrityError\<close> either way.
\<close>

definition finance_view :: "'p store_env \<Rightarrow> 'p case_db \<Rightarrow> 'p finance_db" where
  "finance_view env db =
     \<lparr>fdb_analyses = (\<lambda>i. case get_analysis env db i of Inl _ \<Rightarrow> None | Inr a \<Rightarrow> Some a),
      fdb_rows = cdb_reviews db\<rparr>"

definition append_review ::
    "'p store_env \<Rightarrow> finance_review \<Rightarrow> int option \<Rightarrow> string \<Rightarrow> string \<Rightarrow> 'p case_db \<Rightarrow>
     ('p case_db \<times> finance_review \<times> int) result" where
  "append_review env review expected_revision idempotency_key request_fingerprint db =
     bindR (append_revision (se_review_json env) (finance_view env db) review expected_revision
              idempotency_key request_fingerprint) (\<lambda>(fdb, stored, revision).
     Inr (db\<lparr>cdb_reviews := fdb_rows fdb\<rparr>, stored, revision))"

section \<open>Selections\<close>

definition require_executable_option :: "analysis_version \<Rightarrow> finance_proposal \<Rightarrow> unit result" where
  "require_executable_option a proposal =
     (let material = find (\<lambda>x. arom_option_id x = fp_option_id proposal)
            (am_response_options (av_material a));
          outer1 = find (\<lambda>x. ro_option_id x = fp_option_id proposal) (av_response_options a) in
      require (case (material, outer1) of
                 (Some m, Some opt) \<Rightarrow>
                   (case arom_predicted m of
                      None \<Rightarrow> False
                    | Some p \<Rightarrow> pred_response_cost p = fp_response_cost proposal) \<and>
                   option_material opt = m \<and> ro_executable opt \<and> ro_active_mitigation opt \<and>
                   ro_predicted opt \<noteq> None \<and> ro_blocking_codes opt = []
               | _ \<Rightarrow> False)
        (PersistenceIntegrityError ''proposal option is not an executable active mitigation''))"

definition require_pending_review ::
    "'p store_env \<Rightarrow> 'p case_db \<Rightarrow> proposal_selection \<Rightarrow> unit result" where
  "require_pending_review env db selection =
     (case ps_finance_review_id selection of
        None \<Rightarrow> Inr ()
      | Some review_id \<Rightarrow>
          bindR (get_revision (se_review_json env) (finance_view env db) review_id 1) (\<lambda>review.
          require (fr_status review = FRS_PENDING \<and> fr_proposal review = ps_proposal selection \<and>
                   fr_submitted_by review = ps_submitted_by selection \<and>
                   fr_submitted_at review = ps_submitted_at selection)
            (PersistenceIntegrityError
               ''proposal selection conflicts with pending Finance review'')))"

definition require_independent_case :: "'p case_db \<Rightarrow> string \<Rightarrow> unit result" where
  "require_independent_case db case_id =
     bindR (stored_case db case_id) (\<lambda>c.
     require (effective_workflow_version c = WV_INDEPENDENT_FINANCE)
       (PersistenceIntegrityError ''Case does not use independent Finance workflow''))"

definition validate_binding ::
    "'p store_env \<Rightarrow> 'p case_db \<Rightarrow> selection_receipt \<Rightarrow> unit result" where
  "validate_binding env db receipt =
     (let selection = sr_selection receipt; proposal = ps_proposal selection in
      bindR (require_independent_case db (fp_case_id proposal)) (\<lambda>_.
      bindR (violation_as ''proposal submitter violates Finance policy''
               (require_proposal_submitter (ps_submitted_by selection))) (\<lambda>_.
      bindR (get_analysis env db (fp_analysis_id proposal)) (\<lambda>a.
      bindR (require (av_case_id a = fp_case_id proposal \<and>
                      av_material_hash a = fp_analysis_material_hash proposal)
               (PersistenceIntegrityError ''proposal conflicts with immutable Analysis Version''))
        (\<lambda>_.
      bindR (require_executable_option a proposal) (\<lambda>_.
      require_pending_review env db selection))))))"

definition selection_row_of :: "selection_receipt \<Rightarrow> selection_row" where
  "selection_row_of receipt =
     (let selection = sr_selection receipt; proposal = ps_proposal selection;
          expected = sr_expected receipt in
      \<lparr>qrow_selection_id = ps_selection_id selection, qrow_case_id = fp_case_id proposal,
       qrow_analysis_id = fp_analysis_id proposal,
       qrow_analysis_material_hash = fp_analysis_material_hash proposal,
       qrow_workflow_version = workflow_version_value (ps_workflow_version selection),
       qrow_finance_review_id = ps_finance_review_id selection,
       qrow_finance_review_revision =
         (if ps_finance_review_id selection = None then None else Some 1),
       qrow_expected_generation = pt_generation expected,
       qrow_expected_selection_id = pt_selection_id expected,
       qrow_idempotency_key = sr_idempotency_key receipt,
       qrow_request_fingerprint = sr_request_fingerprint receipt,
       qrow_submitted_at = ps_submitted_at selection, qrow_payload = Some receipt\<rparr>)"

definition decode_selection ::
    "'p store_env \<Rightarrow> 'p case_db \<Rightarrow> selection_row \<Rightarrow> selection_receipt result" where
  "decode_selection env db row =
     bindR (json_or_error (qrow_payload row)) (\<lambda>receipt.
     let selection = sr_selection receipt; expected = sr_expected receipt;
         proposal = ps_proposal selection in
     bindR (require (ps_selection_id selection = qrow_selection_id row \<and>
                     fp_case_id proposal = qrow_case_id row \<and>
                     fp_analysis_id proposal = qrow_analysis_id row \<and>
                     fp_analysis_material_hash proposal = qrow_analysis_material_hash row \<and>
                     workflow_version_value (ps_workflow_version selection) =
                       qrow_workflow_version row \<and>
                     ps_finance_review_id selection = qrow_finance_review_id row \<and>
                     qrow_finance_review_revision row =
                       (if ps_finance_review_id selection = None then None else Some 1) \<and>
                     pt_generation expected = qrow_expected_generation row \<and>
                     pt_selection_id expected = qrow_expected_selection_id row \<and>
                     pt_analysis_id expected = Some (fp_analysis_id proposal) \<and>
                     pt_analysis_material_hash expected =
                       Some (fp_analysis_material_hash proposal) \<and>
                     sr_idempotency_key receipt = qrow_idempotency_key row \<and>
                     sr_request_fingerprint receipt = qrow_request_fingerprint row \<and>
                     is_sha256_hex (qrow_request_fingerprint row) \<and>
                     qrow_submitted_at row = ps_submitted_at selection)
              (PersistenceIntegrityError
                 ''proposal selection duplicated columns conflict with canonical JSON'')) (\<lambda>_.
     bindR (validate_binding env db receipt) (\<lambda>_. Inr receipt)))"

definition get_selection ::
    "'p store_env \<Rightarrow> 'p case_db \<Rightarrow> string \<Rightarrow> proposal_selection result" where
  "get_selection env db selection_id =
     bindR (one_or_none (filter (\<lambda>r. qrow_selection_id r = selection_id) (cdb_selections db)))
       (\<lambda>found.
     bindR (the_or (RecordNotFound ''proposal selection does not exist'') found) (\<lambda>row.
     bindR (decode_selection env db row) (\<lambda>receipt. Inr (sr_selection receipt))))"

definition get_selection_for_review ::
    "'p store_env \<Rightarrow> 'p case_db \<Rightarrow> string \<Rightarrow> proposal_selection result" where
  "get_selection_for_review env db review_id =
     bindR (one_or_none (filter (\<lambda>r. qrow_finance_review_id r = Some review_id)
              (cdb_selections db))) (\<lambda>found.
     bindR (the_or (RecordNotFound ''Finance review does not exist'') found) (\<lambda>row.
     get_selection env db (qrow_selection_id row)))"

definition get_selection_by_key ::
    "'p store_env \<Rightarrow> 'p case_db \<Rightarrow> string \<Rightarrow> selection_receipt option result" where
  "get_selection_by_key env db key =
     bindR (one_or_none (filter (\<lambda>r. qrow_idempotency_key r = key) (cdb_selections db))) (\<lambda>found.
     case found of
       None \<Rightarrow> Inr None
     | Some row \<Rightarrow> bindR (decode_selection env db row) (\<lambda>receipt. Inr (Some receipt)))"

text \<open>
  \<open>list_pending_case_ids\<close>: the Cases whose current selection has a review with a pending latest
  revision, by submission time.
\<close>

definition list_pending_case_ids :: "'p store_env \<Rightarrow> 'p case_db \<Rightarrow> string list" where
  "list_pending_case_ids env db =
     map snd (sort_key fst (sort_key snd
       (concat (map (\<lambda>j. concat (map (\<lambda>q.
          case qrow_finance_review_id q of
            None \<Rightarrow> []
          | Some review_id \<Rightarrow>
              (case latest_row (finance_view env db) review_id of
                 None \<Rightarrow> []
               | Some r \<Rightarrow> if frw_status r = ''pending''
                           then [(qrow_submitted_at q, jrow_case_id j)] else []))
          (filter (\<lambda>q. jrow_current_selection_id j = Some (qrow_selection_id q))
             (cdb_selections db)))) (cdb_projections db)))))"

definition get_state :: "'p store_env \<Rightarrow> 'p case_db \<Rightarrow> string \<Rightarrow> proposal_state result" where
  "get_state env db case_id =
     bindR (get_projection env db case_id) (\<lambda>_.
     bindR (proposal_token_of db case_id) (\<lambda>token.
     bindR (case pt_selection_id token of
              None \<Rightarrow> Inr None
            | Some i \<Rightarrow> bindR (get_selection env db i) (\<lambda>s. Inr (Some s))) (\<lambda>selection.
     bindR (require (case selection of
                       None \<Rightarrow> True
                     | Some s \<Rightarrow> fp_case_id (ps_proposal s) = case_id \<and>
                         Some (fp_analysis_id (ps_proposal s)) = pt_analysis_id token \<and>
                         Some (fp_analysis_material_hash (ps_proposal s)) =
                           pt_analysis_material_hash token)
              (PersistenceIntegrityError
                 ''current selection pointer conflicts with Case proposal token'')) (\<lambda>_.
     bindR (case selection of
              None \<Rightarrow> Inr (None, None)
            | Some s \<Rightarrow>
                (case ps_finance_review_id s of
                   None \<Rightarrow> Inr (None, None)
                 | Some review_id \<Rightarrow>
                     bindR (get_latest (se_review_json env) (finance_view env db) review_id)
                       (\<lambda>(review, revision). Inr (Some review, Some revision))))
       (\<lambda>(review, revision).
     bindR (proposal_token_of db case_id) (\<lambda>again.
     bindR (require (again = token) (StaleProposal ''Case analysis or proposal changed'')) (\<lambda>_.
     mk_proposal_state
       \<lparr>pst_token = token, pst_selection = selection, pst_review = review,
        pst_review_revision = revision\<rparr>)))))))"

section \<open>Superseding the review of a proposal that is replaced\<close>

definition supersede_state ::
    "'p store_env \<Rightarrow> proposal_state \<Rightarrow> instant \<Rightarrow> string \<Rightarrow> string \<Rightarrow> 'p case_db \<Rightarrow>
     'p case_db result" where
  "supersede_state env state now subject_id operation db =
     (case pst_review state of
        None \<Rightarrow> Inr db
      | Some review \<Rightarrow>
          bindR (require (fr_status review \<noteq> FRS_SUPERSEDED)
                   (PersistenceIntegrityError ''current proposal points to a superseded review''))
            (\<lambda>_.
          bindR (supersede_finance_review review (Aware now)) (\<lambda>superseded.
          bindR (append_review env superseded (pst_review_revision state)
                   (operation @ '':'' @ subject_id)
                   (se_supersede_sha256 env
                      \<lparr>sm_operation = operation, sm_subject_id = subject_id,
                       sm_prior_review_id = fr_review_id review,
                       sm_prior_revision = pst_review_revision state, sm_superseded_at = now\<rparr>) db)
            (\<lambda>(db', _). Inr db'))))"

section \<open>Publishing, guarding, withdrawing\<close>

definition insert_selection :: "selection_receipt \<Rightarrow> 'p case_db \<Rightarrow> 'p case_db result" where
  "insert_selection receipt db =
     (let row = selection_row_of receipt in
      if (\<forall>r \<in> set (cdb_selections db).
            qrow_selection_id r \<noteq> qrow_selection_id row \<and>
            qrow_idempotency_key r \<noteq> qrow_idempotency_key row \<and>
            (qrow_finance_review_id row = None \<or>
             qrow_finance_review_id r \<noteq> qrow_finance_review_id row)) \<and>
         qrow_workflow_version row = ''independent-finance-v1'' \<and> 0 \<le> qrow_expected_generation row
      then Inr (db\<lparr>cdb_selections := cdb_selections db @ [row]\<rparr>) else Inl IntegrityError)"

definition publish ::
    "'p store_env \<Rightarrow> selection_receipt \<Rightarrow> 'p case_db \<Rightarrow> ('p case_db \<times> proposal_selection) result" where
  "publish env receipt db =
     (let selection = sr_selection receipt; proposal = ps_proposal selection;
          expected = sr_expected receipt in
      bindR (get_selection_by_key env db (sr_idempotency_key receipt)) (\<lambda>replay.
      case replay of
        Some earlier \<Rightarrow>
          if earlier = receipt then Inr (db, sr_selection earlier) else Inl SelectionIdempotencyConflict
      | None \<Rightarrow>
          bindR (get_state env db (fp_case_id proposal)) (\<lambda>state.
          bindR (require (pst_token state = expected)
                   (StaleProposal ''Case analysis or proposal changed'')) (\<lambda>_.
          bindR (require (pt_analysis_id expected = Some (fp_analysis_id proposal) \<and>
                          pt_analysis_material_hash expected =
                            Some (fp_analysis_material_hash proposal))
                   (PersistenceIntegrityError
                      ''selected proposal must bind the current Analysis Version'')) (\<lambda>_.
          bindR (validate_binding env db receipt) (\<lambda>_.
          bindR (case ps_finance_review_id selection of
                   None \<Rightarrow> Inr ()
                 | Some review_id \<Rightarrow>
                     bindR (get_latest (se_review_json env) (finance_view env db) review_id)
                       (\<lambda>(latest, revision).
                     require (fr_status latest = FRS_PENDING \<and> revision = 1)
                       (PersistenceIntegrityError
                          ''new proposal requires a current revision-1 pending Finance review'')))
            (\<lambda>_.
          bindR (insert_selection receipt db) (\<lambda>db1.
          bindR (cas_projection (fp_case_id proposal) expected
                   (\<lambda>r. r\<lparr>jrow_current_selection_id := Some (ps_selection_id selection)\<rparr>) db1)
            (\<lambda>db2.
          bindR (supersede_state env state (ps_submitted_at selection) (ps_selection_id selection)
                   ''selection-supersede'' db2) (\<lambda>db3.
          Inr (db3, selection)))))))))))"

definition guard_current ::
    "'p store_env \<Rightarrow> string \<Rightarrow> proposal_token \<Rightarrow> 'p case_db \<Rightarrow> ('p case_db \<times> proposal_token) result" where
  "guard_current env case_id expected db =
     bindR (require_independent_case db case_id) (\<lambda>_.
     bindR (get_state env db case_id) (\<lambda>state.
     bindR (require (pst_token state = expected)
              (StaleProposal ''Case analysis or proposal changed'')) (\<lambda>_.
     bindR (cas_projection case_id expected
              (\<lambda>r. r\<lparr>jrow_current_selection_id := pt_selection_id expected\<rparr>) db) (\<lambda>db1.
     Inr (db1, expected\<lparr>pt_generation := pt_generation expected + 1\<rparr>)))))"

definition withdraw_current ::
    "'p store_env \<Rightarrow> string \<Rightarrow> proposal_token \<Rightarrow> instant \<Rightarrow> string \<Rightarrow> 'p case_db \<Rightarrow>
     ('p case_db \<times> proposal_token) result" where
  "withdraw_current env case_id expected now operation_id db =
     bindR (require_independent_case db case_id) (\<lambda>_.
     bindR (require (nonblank operation_id)
              (ValueError ''Withdrawal operation_id must be nonblank'')) (\<lambda>_.
     bindR (get_state env db case_id) (\<lambda>state.
     bindR (require (pst_token state = expected)
              (StaleProposal ''Case analysis or proposal changed'')) (\<lambda>_.
     bindR (require (case pst_selection state of
                       None \<Rightarrow> True | Some s \<Rightarrow> ps_submitted_at s \<le> now)
              (ValueError ''Withdrawal cannot precede proposal submission'')) (\<lambda>_.
     bindR (cas_projection case_id expected (\<lambda>r. r\<lparr>jrow_current_selection_id := None\<rparr>) db) (\<lambda>db1.
     bindR (case pst_review state of
              None \<Rightarrow> Inr db1
            | Some review \<Rightarrow>
                bindR (supersede_finance_review review (Aware now)) (\<lambda>superseded.
                bindR (append_review env superseded (pst_review_revision state)
                         (''decision-withdraw:'' @ operation_id)
                         (se_supersede_sha256 env
                            \<lparr>sm_operation = ''decision-withdraw'', sm_subject_id = operation_id,
                             sm_prior_review_id = fr_review_id review,
                             sm_prior_revision = pst_review_revision state,
                             sm_superseded_at = now\<rparr>) db1) (\<lambda>(db2, _). Inr db2))) (\<lambda>db3.
     Inr (db3, expected\<lparr>pt_generation := pt_generation expected + 1, pt_selection_id := None\<rparr>))))))))"

section \<open>Saving an analysis\<close>

text \<open>The unique constraint does not compare rows with a NULL \<open>decision_id\<close>.\<close>

definition satisfaction_row_of :: "string option \<Rightarrow> approval_satisfaction \<Rightarrow> satisfaction_row" where
  "satisfaction_row_of decision_id s =
     \<lparr>frow_analysis_id = as_analysis_id s, frow_decision_id = decision_id,
      frow_option_id = as_option_id s, frow_authorization_id = as_authorization_id s,
      frow_persona_id = as_persona_id s, frow_role = as_role s, frow_satisfied = as_satisfied s,
      frow_payload = Some s\<rparr>"

definition insert_satisfaction_rows ::
    "satisfaction_row list \<Rightarrow> 'p case_db \<Rightarrow> 'p case_db result" where
  "insert_satisfaction_rows rows db =
     (let key = (\<lambda>r. (frow_analysis_id r, frow_decision_id r, frow_option_id r,
                       frow_authorization_id r, frow_persona_id r, frow_role r));
          all_rows = cdb_satisfactions db @ rows in
      if distinct (map key (filter (\<lambda>r. frow_decision_id r \<noteq> None) all_rows))
      then Inr (db\<lparr>cdb_satisfactions := all_rows\<rparr>) else Inl IntegrityError)"

definition evidence_row_of :: "string \<Rightarrow> evidence_item \<Rightarrow> evidence_row" where
  "evidence_row_of analysis_id e =
     \<lparr>irow_evidence_id = ei_evidence_id e, irow_analysis_id = analysis_id,
      irow_case_id = ei_case_id e, irow_kind = ei_kind e,
      irow_runtime_mode = runtime_mode_value (ei_runtime_mode e),
      irow_source_system = ei_source_system e, irow_source_timestamp = ei_source_timestamp e,
      irow_retrieved_at = ei_retrieved_at e, irow_effective_at = ei_effective_at e,
      irow_expires_at = ei_expires_at e, irow_payload = Some e\<rparr>"

definition insert_evidence_rows :: "evidence_row list \<Rightarrow> 'p case_db \<Rightarrow> 'p case_db result" where
  "insert_evidence_rows rows db =
     (let all_rows = cdb_evidence db @ rows in
      if distinct (map (\<lambda>r. (irow_evidence_id r, irow_analysis_id r)) all_rows)
      then Inr (db\<lparr>cdb_evidence := all_rows\<rparr>) else Inl IntegrityError)"

text \<open>The status and payload the projection gets: that of a Case to be analyzed again wins.\<close>

definition projected_values ::
    "analysis_version \<Rightarrow> case_instance \<Rightarrow> case_instance option \<Rightarrow> case_projection_row \<Rightarrow>
     (case_projection_row \<Rightarrow> case_projection_row) result" where
  "projected_values a stored projected projection =
     bindR (case projected of
              None \<Rightarrow> Inr None
            | Some c \<Rightarrow>
                bindR (require_case_projection_integrity
                         (projection\<lparr>jrow_status := case_status_value (ci_status c),
                                     jrow_payload := Some c\<rparr>) c stored) (\<lambda>_.
                Inr (Some c))) (\<lambda>chosen.
     bindR (if jrow_current_decision_id projection \<noteq> None \<and>
               jrow_current_analysis_hash projection \<noteq> None \<and>
               (jrow_current_analysis_hash projection \<noteq> Some (av_material_hash a) \<or>
                effective_workflow_version stored = WV_INDEPENDENT_FINANCE)
            then bindR (json_or_error (jrow_payload projection)) (\<lambda>c.
                 bindR (case_model_copy (\<lambda>c. c\<lparr>ci_status := CS_REANALYSIS_REQUIRED\<rparr>) c) (\<lambda>changed.
                 Inr (Some changed)))
            else Inr chosen) (\<lambda>final.
     Inr (\<lambda>r. (case final of
                 None \<Rightarrow> r
               | Some c \<Rightarrow> r\<lparr>jrow_status := case_status_value (ci_status c), jrow_payload := Some c\<rparr>)
              \<lparr>jrow_current_analysis_id := Some (av_analysis_id a),
               jrow_current_analysis_hash := Some (av_material_hash a)\<rparr>)))"

definition save_analysis_connection ::
    "'p store_env \<Rightarrow> analysis_version \<Rightarrow> case_instance option \<Rightarrow> instant \<Rightarrow> 'p case_db \<Rightarrow>
     'p case_db result" where
  "save_analysis_connection env a projected now db =
     bindR (require_analysis_provenance env db a) (\<lambda>_.
     bindR (stored_case db (av_case_id a)) (\<lambda>stored.
     bindR (if effective_workflow_version stored = WV_INDEPENDENT_FINANCE
            then bindR (get_state env db (av_case_id a)) (\<lambda>s. Inr (Some s))
            else Inr None) (\<lambda>proposal_state.
     bindR (insert_unique nrow_analysis_id (cdb_analyses db) (analysis_row_of a)) (\<lambda>rows.
     bindR (insert_evidence_rows (map (evidence_row_of (av_analysis_id a)) (av_evidence_items a))
              (db\<lparr>cdb_analyses := rows\<rparr>)) (\<lambda>db1.
     bindR (insert_satisfaction_rows
              (map (\<lambda>s. (satisfaction_row_of None s)\<lparr>frow_analysis_id := av_analysis_id a\<rparr>)
                 (av_approval_satisfactions a)) db1) (\<lambda>db2.
     bindR (projection_at db2 (av_case_id a)) (\<lambda>found.
     bindR (the_or (RecordNotFound ''case projection does not exist'') found) (\<lambda>projection.
     bindR (projected_values a stored projected projection) (\<lambda>values.
     case proposal_state of
       None \<Rightarrow> update_projection_row (av_case_id a) values db2
     | Some state \<Rightarrow>
         bindR (cas_projection (av_case_id a) (pst_token state)
                  (\<lambda>r. (values r)\<lparr>jrow_current_selection_id := None\<rparr>) db2) (\<lambda>db3.
         supersede_state env state now (av_analysis_id a) ''analysis-supersede'' db3))))))))))"

definition save_analysis ::
    "'p store_env \<Rightarrow> analysis_version \<Rightarrow> case_instance option \<Rightarrow> instant \<Rightarrow> 'p case_db \<Rightarrow>
     'p case_db result" where
  "save_analysis env a projected now db =
     integrity_as (ImmutableRecordConflict ''analysis or nested immutable record already exists'')
       (save_analysis_connection env a projected now db)"

section \<open>Claims on the material of an analysis\<close>

text \<open>
  \<open>try_claim_analysis\<close>: a free claim is inserted, an expired one is taken over.  The claim id is
  unique across the table; the version is already hashed.
\<close>

definition default_claim_lease :: int where
  "default_claim_lease = minutes 5"

definition try_claim_analysis ::
    "'p store_env \<Rightarrow> string \<Rightarrow> string \<Rightarrow> string \<Rightarrow> instant \<Rightarrow> int \<Rightarrow> 'p case_db \<Rightarrow>
     ('p case_db \<times> bool) result" where
  "try_claim_analysis env case_id version claim_id claimed_at lease db =
     bindR (require_case_runtime env db case_id (se_runtime_mode env)) (\<lambda>_.
     let row = \<lparr>grow_case_id = case_id, grow_material_version = version, grow_claim_id = claim_id,
                grow_claimed_at = claimed_at, grow_claim_expires_at = claimed_at + lease\<rparr> in
     if \<forall>r \<in> set (cdb_claims db).
          (grow_case_id r, grow_material_version r) \<noteq> (case_id, version) \<and> grow_claim_id r \<noteq> claim_id
     then Inr (db\<lparr>cdb_claims := cdb_claims db @ [row]\<rparr>, True)
     else
       let hit = (\<lambda>r. grow_case_id r = case_id \<and> grow_material_version r = version \<and>
                      grow_claim_expires_at r < claimed_at);
           rows = map (\<lambda>r. if hit r
                    then r\<lparr>grow_claim_id := claim_id, grow_claimed_at := claimed_at,
                           grow_claim_expires_at := claimed_at + lease\<rparr>
                    else r) (cdb_claims db) in
       if distinct (map grow_claim_id rows)
       then Inr (db\<lparr>cdb_claims := rows\<rparr>, length (filter hit (cdb_claims db)) = 1)
       else Inl IntegrityError)"

definition release_analysis_claim :: "string \<Rightarrow> string \<Rightarrow> string \<Rightarrow> 'p case_db \<Rightarrow> 'p case_db" where
  "release_analysis_claim case_id version claim_id db =
     db\<lparr>cdb_claims := filter (\<lambda>r. \<not> (grow_case_id r = case_id \<and> grow_material_version r = version \<and>
       grow_claim_id r = claim_id)) (cdb_claims db)\<rparr>"

definition complete_analysis_claim ::
    "'p store_env \<Rightarrow> analysis_version \<Rightarrow> case_instance \<Rightarrow> string \<Rightarrow> string \<Rightarrow> instant \<Rightarrow> instant \<Rightarrow>
     'p case_db \<Rightarrow> ('p case_db \<times> analysis_version) result" where
  "complete_analysis_claim env a projected version claim_id completed_at now db =
     integrity_as (AnalysisClaimBusy ''analysis completion lost its claim race'')
       (bindR (one_or_none (filter (\<lambda>r. grow_case_id r = av_case_id a \<and>
                 grow_material_version r = version) (cdb_claims db))) (\<lambda>found.
        bindR (require (case found of
                          None \<Rightarrow> False
                        | Some r \<Rightarrow> grow_claim_id r = claim_id \<and>
                            completed_at \<le> grow_claim_expires_at r)
                 (AnalysisClaimBusy ''analysis material claim is expired or owned elsewhere'')) (\<lambda>_.
        bindR (save_analysis_connection env a (Some projected) now db) (\<lambda>db1.
        let mine = (\<lambda>r. grow_case_id r = av_case_id a \<and> grow_material_version r = version \<and>
                        grow_claim_id r = claim_id) in
        bindR (require (length (filter mine (cdb_claims db1)) = 1)
                 (AnalysisClaimBusy ''analysis material claim changed'')) (\<lambda>_.
        Inr (db1\<lparr>cdb_claims := filter (\<lambda>r. \<not> mine r) (cdb_claims db1)\<rparr>, a))))))"

end
