(* ===== verification/Decision_Store.thy ===== *)
theory Decision_Store
  imports Proposal_Store
begin

text \<open>
  Decisions and their planning events: \<open>SqlAlchemyDecisionRepository\<close> and the outbox part of
  \<open>SqlAlchemyExecutionRepository\<close> (\<open>services/persistence/store.py\<close>), and the currentness guard of
  \<open>services/execution/currentness.py\<close>.  A Decision is read back only when it still agrees with
  its analysis, its proposal, its satisfactions and its one planning event.
\<close>

section \<open>Satisfactions\<close>

definition satisfaction_from_row :: "satisfaction_row \<Rightarrow> approval_satisfaction result" where
  "satisfaction_from_row row =
     bindR (json_or_error (frow_payload row)) (\<lambda>item.
     bindR (require (as_analysis_id item = frow_analysis_id row \<and>
                     as_option_id item = frow_option_id row \<and>
                     as_authorization_id item = frow_authorization_id row \<and>
                     as_persona_id item = frow_persona_id row \<and> as_role item = frow_role row \<and>
                     as_satisfied item = frow_satisfied row)
              (PersistenceIntegrityError
                 ''approval satisfaction columns conflict with canonical JSON'')) (\<lambda>_.
     Inr item))"

definition list_approval_satisfactions ::
    "'p case_db \<Rightarrow> string \<Rightarrow> approval_satisfaction list result" where
  "list_approval_satisfactions db decision_id =
     mapR satisfaction_from_row
       (sort_key frow_role (sort_key frow_persona_id
          (filter (\<lambda>r. frow_decision_id r = Some decision_id) (cdb_satisfactions db))))"

text \<open>\<open>sorted(.., key=lambda item: (item.role, item.persona_id, item.authorization_id))\<close>\<close>

definition sort_satisfactions :: "approval_satisfaction list \<Rightarrow> approval_satisfaction list" where
  "sort_satisfactions xs = sort_key as_role (sort_key as_persona_id (sort_key as_authorization_id xs))"

definition require_bound_satisfactions :: "'p case_db \<Rightarrow> decision \<Rightarrow> unit result" where
  "require_bound_satisfactions db d =
     bindR (list_approval_satisfactions db (dec_decision_id d)) (\<lambda>rows.
     require (sort_satisfactions rows = sort_satisfactions (dec_approval_satisfactions d))
       (PersistenceIntegrityError
          ''Decision Approval Satisfaction rows conflict with canonical JSON''))"

definition material_planner_satisfaction_ok ::
    "approval_satisfaction \<Rightarrow> decision \<Rightarrow> analysis_version \<Rightarrow> response_option \<Rightarrow> bool" where
  "material_planner_satisfaction_ok s d a opt =
     (let conditions = as_authorization_conditions s; target = as_target s; actor = dec_actor d;
          material = av_material a in
      case ro_predicted opt of
        None \<Rightarrow> False
      | Some predicted \<Rightarrow>
          is_persona_id actor = ''RL-PERSONA-ALEX'' \<and> is_source_id actor = ''RL-ENTRA-ALEX'' \<and>
          is_identity_source actor = IS_ENTRA \<and>
          ''material_planner'' \<in> set (is_effective_roles actor) \<and>
          ''response_approver'' \<in> set (is_effective_roles actor) \<and>
          as_role s = ''material_planner'' \<and> as_persona_id s = is_persona_id actor \<and>
          as_authorization_id s = ''RL-AUTH-ALEX-MATERIAL-DECISION'' \<and>
          as_analysis_id s = dec_analysis_id d \<and>
          Some (as_option_id s) = dec_selected_option_id d \<and> as_satisfied s \<and>
          ci_case_id (at_case target) = dec_case_id d \<and>
          ci_template_id (at_case target) = am_template_id material \<and>
          ci_purpose (at_case target) = am_case_purpose material \<and>
          ci_runtime_mode (at_case target) = dec_runtime_mode d \<and>
          at_scenario_effective_time target = dec_scenario_effective_time d \<and>
          at_corpus target = am_corpus material \<and>
          at_total_response_cost target = pred_response_cost predicted \<and>
          at_requested_side_effects target = ro_requested_side_effects opt \<and>
          ac_allowed_option_kinds conditions = [ro_option_kind opt] \<and>
          ac_maximum_response_cost conditions = pred_response_cost predicted \<and>
          ac_allowed_corpora conditions = [am_corpus material] \<and>
          ac_allowed_template_ids conditions = [am_template_id material] \<and>
          ac_allowed_case_purposes conditions = [am_case_purpose material] \<and>
          ac_valid_from conditions = dec_scenario_effective_time d \<and>
          ac_valid_through conditions = dec_scenario_effective_time d \<and>
          ac_forbidden_external_side_effects conditions = [])"

definition expected_persona :: "string \<Rightarrow> string option" where
  "expected_persona =
     [''finance_approver'' \<mapsto> ''RL-PERSONA-TAYLOR'', ''quality_approver'' \<mapsto> ''RL-PERSONA-JORDAN'']"

definition required_decision_roles :: "decision \<Rightarrow> response_option \<Rightarrow> string set" where
  "required_decision_roles d opt =
     (set (ro_prerequisite_roles opt) - {''response_approver''}) -
     (if independent_decision d then {''finance_approver''} else {})"

text \<open>The loop over the required roles raises the same exception for every one that fails.\<close>

definition require_derived_satisfactions ::
    "decision \<Rightarrow> analysis_version \<Rightarrow> response_option \<Rightarrow> unit result" where
  "require_derived_satisfactions d a opt =
     (let actual_by_role = dict_by as_role (dec_approval_satisfactions d);
          required_roles = required_decision_roles d opt in
      bindR (require (as_role ` set (dec_approval_satisfactions d) = required_roles)
               (PersistenceIntegrityError
                  ''Decision required satisfaction roles conflict with Analysis Version'')) (\<lambda>_.
      require (\<forall>role \<in> required_roles.
           case actual_by_role role of
             None \<Rightarrow> False
           | Some actual \<Rightarrow>
               if role = ''material_planner'' then material_planner_satisfaction_ok actual d a opt
               else (case filter (\<lambda>s. as_option_id s = ro_option_id opt \<and> as_role s = role)
                            (av_approval_satisfactions a) of
                       [expected] \<Rightarrow> actual = expected \<and>
                         (case expected_persona role of
                            None \<Rightarrow> True | Some p \<Rightarrow> as_persona_id expected = p)
                     | _ \<Rightarrow> False))
        (PersistenceIntegrityError
           ''Decision required satisfaction conflicts with Analysis Version'')))"

section \<open>The lineage of a Decision\<close>

text \<open>\<open>except RecordNotFound as error: raise PersistenceIntegrityError\<close>\<close>

definition absent_as_integrity :: "string \<Rightarrow> 'a result \<Rightarrow> 'a result" where
  "absent_as_integrity msg r =
     (case r of Inl (RecordNotFound _) \<Rightarrow> Inl (PersistenceIntegrityError msg) | _ \<Rightarrow> r)"

definition require_proposal_lineage ::
    "'p store_env \<Rightarrow> 'p case_db \<Rightarrow> decision \<Rightarrow> unit result" where
  "require_proposal_lineage env db d =
     (if dec_kind d = DK_REJECTED then
        require (dec_proposal_approval d = None)
          (PersistenceIntegrityError ''Rejected Decision has proposal evidence'')
      else
        bindR (require (independent_decision d = (dec_proposal_approval d \<noteq> None))
                 (PersistenceIntegrityError ''Decision proposal evidence conflicts with policy''))
          (\<lambda>_.
        case dec_proposal_approval d of
          None \<Rightarrow> Inr ()
        | Some evidence \<Rightarrow>
            bindR (absent_as_integrity ''Decision proposal selection is absent from journal''
                     (get_selection env db (ps_selection_id (pae_selection evidence)))) (\<lambda>selection.
            bindR (require (selection = pae_selection evidence)
                     (PersistenceIntegrityError
                        ''Decision selection snapshot differs from journal'')) (\<lambda>_.
            case pae_review evidence of
              None \<Rightarrow>
                require (pae_review_revision evidence = None)
                  (PersistenceIntegrityError ''Low-cost evidence has review revision'')
            | Some review \<Rightarrow>
                bindR (the_or (PersistenceIntegrityError ''Finance evidence lacks revision'')
                         (pae_review_revision evidence)) (\<lambda>revision.
                bindR (absent_as_integrity ''Decision Finance revision is absent from journal''
                         (get_revision (se_review_json env) (finance_view env db)
                            (fr_review_id review) revision)) (\<lambda>stored.
                require (stored = review)
                  (PersistenceIntegrityError
                     ''Decision Finance snapshot differs from revision'')))))))"

definition require_analysis_lineage ::
    "'p store_env \<Rightarrow> 'p case_db \<Rightarrow> decision \<Rightarrow> unit result" where
  "require_analysis_lineage env db d =
     bindR (get_analysis env db (dec_analysis_id d)) (\<lambda>a.
     let material = av_material a in
     bindR (require (av_case_id a = dec_case_id d \<and>
                     av_material_hash a = dec_analysis_material_hash d \<and>
                     am_runtime_mode material = dec_runtime_mode d \<and>
                     am_scenario_effective_time material = dec_scenario_effective_time d \<and>
                     am_calculation_version material = dec_calculation_version d \<and>
                     am_evidence_policy_version material = dec_evidence_policy_version d \<and>
                     am_approval_policy_version material = dec_approval_policy_version d \<and>
                     rr_policy_version (av_ranking a) = dec_ranking_policy_version d)
              (PersistenceIntegrityError
                 ''Decision analysis lineage conflicts with its immutable Analysis Version''))
       (\<lambda>_.
     bindR (require (Some (av_ranking a) = dec_comparator_trace d)
              (PersistenceIntegrityError
                 ''Decision comparator trace conflicts with its immutable Analysis Version'')) (\<lambda>_.
     bindR (require_proposal_lineage env db d) (\<lambda>_.
     if dec_kind d = DK_REJECTED then Inr ()
     else
       bindR (the_or (PersistenceIntegrityError
                ''Decision selected option conflicts with its immutable Analysis Version'')
                (find (\<lambda>x. Some (ro_option_id x) = dec_selected_option_id d)
                   (av_response_options a))) (\<lambda>opt.
       bindR (require (Some opt = dec_selected_option d \<and> ro_evidence_ids opt = dec_evidence_ids d \<and>
                       ro_assumptions opt = dec_assumptions d \<and>
                       ro_blocking_codes opt = dec_constraints d \<and>
                       ro_prerequisite_roles opt = dec_prerequisite_roles d)
                (PersistenceIntegrityError
                   ''Decision selected option conflicts with its immutable Analysis Version''))
         (\<lambda>_.
       require_derived_satisfactions d a opt))))))"

definition require_outbox_cardinality :: "'p case_db \<Rightarrow> decision \<Rightarrow> unit result" where
  "require_outbox_cardinality db d =
     (let event_types = map orow_event_type
            (sort_key orow_event_id
               (filter (\<lambda>r. orow_decision_id r = dec_decision_id d) (cdb_outbox db))) in
      if dec_kind d = DK_APPROVED then
        require (event_types = [''ActionPlanningRequested''])
          (PersistenceIntegrityError
             ''approved Decision requires exactly one ActionPlanningRequested event'')
      else
        require (event_types = [])
          (PersistenceIntegrityError ''rejected Decision cannot have outbox events''))"

section \<open>Reading and writing Decisions\<close>

fun decision_kind_value :: "decision_kind \<Rightarrow> string" where
  "decision_kind_value DK_APPROVED = ''approved''"
| "decision_kind_value DK_REJECTED = ''rejected''"

definition decision_row_of :: "decision \<Rightarrow> decision_row" where
  "decision_row_of d =
     \<lparr>lrow_decision_id = dec_decision_id d, lrow_case_id = dec_case_id d,
      lrow_analysis_id = dec_analysis_id d, lrow_idempotency_key = dec_idempotency_key d,
      lrow_kind = decision_kind_value (dec_kind d),
      lrow_runtime_mode = runtime_mode_value (dec_runtime_mode d),
      lrow_decided_at = dec_decided_at d, lrow_payload = Some d\<rparr>"

definition decision_from_row ::
    "'p store_env \<Rightarrow> 'p case_db \<Rightarrow> bool \<Rightarrow> decision_row \<Rightarrow> decision result" where
  "decision_from_row env db validate_outbox_cardinality row =
     bindR (json_or_error (lrow_payload row)) (\<lambda>d.
     bindR (require (row = (decision_row_of d)\<lparr>lrow_payload := lrow_payload row\<rparr>)
              (PersistenceIntegrityError
                 ''decision columns conflict with canonical Decision JSON'')) (\<lambda>_.
     bindR (require_configured_mode env (dec_runtime_mode d)) (\<lambda>_.
     bindR (require_analysis_lineage env db d) (\<lambda>_.
     bindR (require_bound_satisfactions db d) (\<lambda>_.
     bindR (if validate_outbox_cardinality then require_outbox_cardinality db d else Inr ()) (\<lambda>_.
     Inr d))))))"

definition decision_row_at :: "'p case_db \<Rightarrow> string \<Rightarrow> decision_row result" where
  "decision_row_at db decision_id =
     bindR (one_or_none (filter (\<lambda>r. lrow_decision_id r = decision_id) (cdb_decisions db))) (\<lambda>found.
     the_or (RecordNotFound ''decision does not exist'') found)"

definition get_decision :: "'p store_env \<Rightarrow> 'p case_db \<Rightarrow> string \<Rightarrow> decision result" where
  "get_decision env db decision_id =
     bindR (decision_row_at db decision_id) (decision_from_row env db True)"

definition get_for_outbox_insert :: "'p store_env \<Rightarrow> 'p case_db \<Rightarrow> string \<Rightarrow> decision result" where
  "get_for_outbox_insert env db decision_id =
     bindR (decision_row_at db decision_id) (decision_from_row env db False)"

definition get_decision_by_key ::
    "'p store_env \<Rightarrow> 'p case_db \<Rightarrow> string \<Rightarrow> decision option result" where
  "get_decision_by_key env db key =
     bindR (one_or_none (filter (\<lambda>r. lrow_idempotency_key r = key) (cdb_decisions db))) (\<lambda>found.
     case found of
       None \<Rightarrow> Inr None
     | Some row \<Rightarrow> bindR (decision_from_row env db True row) (\<lambda>d. Inr (Some d)))"

definition list_decisions_for_case ::
    "'p store_env \<Rightarrow> 'p case_db \<Rightarrow> string \<Rightarrow> decision list result" where
  "list_decisions_for_case env db case_id =
     mapR (decision_from_row env db True)
       (sort_key lrow_decided_at (sort_key lrow_decision_id
          (filter (\<lambda>r. lrow_case_id r = case_id) (cdb_decisions db))))"

definition insert_decision ::
    "'p store_env \<Rightarrow> decision \<Rightarrow> 'p case_db \<Rightarrow> 'p case_db result" where
  "insert_decision env d db =
     bindR (require_configured_mode env (dec_runtime_mode d)) (\<lambda>_.
     bindR (stored_case db (dec_case_id d)) (\<lambda>c.
     bindR (require (ci_runtime_mode c = dec_runtime_mode d)
              (RuntimeModeConflict
                 ''Decision runtime_mode must match its immutable Case Instance'')) (\<lambda>_.
     bindR (require_analysis_lineage env db d) (\<lambda>_.
     bindR (require (dec_idempotency_key d \<notin> lrow_idempotency_key ` set (cdb_decisions db))
              IntegrityError) (\<lambda>_.
     bindR (insert_unique lrow_decision_id (cdb_decisions db) (decision_row_of d)) (\<lambda>rows.
     Inr (db\<lparr>cdb_decisions := rows\<rparr>)))))))"

definition insert_satisfactions ::
    "string \<Rightarrow> approval_satisfaction list \<Rightarrow> 'p case_db \<Rightarrow> 'p case_db result" where
  "insert_satisfactions decision_id satisfactions db =
     bindR (decision_row_at db decision_id) (\<lambda>row.
     bindR (json_or_error (lrow_payload row)) (\<lambda>d.
     if satisfactions = [] then Inr db
     else
       bindR (for_each (\<lambda>s. require (as_analysis_id s = dec_analysis_id d \<and>
                                   Some (as_option_id s) = dec_selected_option_id d)
                (PersistenceIntegrityError
                   ''Decision Approval Satisfaction provenance is inconsistent'')) satisfactions)
         (\<lambda>_.
       insert_satisfaction_rows (map (satisfaction_row_of (Some decision_id)) satisfactions) db)))"

section \<open>The outbox\<close>

definition STALE_ERROR :: string where
  "STALE_ERROR = ''EXECUTION_PROPOSAL_STALE''"

text \<open>\<open>ActionPlanningRequested.for_decision\<close>, with the fresh event id.\<close>

definition planning_requested_for :: "string \<Rightarrow> decision \<Rightarrow> action_planning_requested" where
  "planning_requested_for event_id d =
     \<lparr>apr_event_id = event_id, apr_decision_id = dec_decision_id d, apr_case_id = dec_case_id d,
      apr_analysis_id = dec_analysis_id d, apr_event_type = ''ActionPlanningRequested'',
      apr_created_at = dec_decided_at d, apr_available_at = dec_decided_at d,
      apr_claim_status = OCS_PENDING\<rparr>"

definition outbox_row_of :: "action_planning_requested \<Rightarrow> outbox_row" where
  "outbox_row_of e =
     \<lparr>orow_event_id = apr_event_id e, orow_decision_id = apr_decision_id e,
      orow_event_type = apr_event_type e, orow_created_at = apr_created_at e,
      orow_available_at = apr_available_at e,
      orow_claim_status = outbox_claim_status_value (apr_claim_status e),
      orow_claimed_by = None, orow_claimed_at = None, orow_claim_expires_at = None,
      orow_processed_at = None, orow_attempt_count = 0, orow_last_error = None,
      orow_payload = Some e\<rparr>"

definition require_event_of_decision :: "action_planning_requested \<Rightarrow> decision \<Rightarrow> unit result" where
  "require_event_of_decision e d =
     bindR (require (apr_case_id e = dec_case_id d)
              (PersistenceIntegrityError ''outbox case_id conflicts with its Decision'')) (\<lambda>_.
     bindR (require (apr_analysis_id e = dec_analysis_id d)
              (PersistenceIntegrityError ''outbox analysis_id conflicts with its Decision'')) (\<lambda>_.
     require (apr_event_type e = ''ActionPlanningRequested'')
       (PersistenceIntegrityError ''outbox event_type is invalid'')))"

definition insert_outbox ::
    "'p store_env \<Rightarrow> action_planning_requested \<Rightarrow> 'p case_db \<Rightarrow> 'p case_db result" where
  "insert_outbox env e db =
     bindR (get_for_outbox_insert env db (apr_decision_id e)) (\<lambda>d.
     bindR (require (dec_kind d = DK_APPROVED)
              (PersistenceIntegrityError ''outbox event requires an approved Decision'')) (\<lambda>_.
     bindR (require_event_of_decision e d) (\<lambda>_.
     bindR (require ((apr_decision_id e, apr_event_type e) \<notin>
                     (\<lambda>r. (orow_decision_id r, orow_event_type r)) ` set (cdb_outbox db))
              IntegrityError) (\<lambda>_.
     bindR (insert_unique orow_event_id (cdb_outbox db) (outbox_row_of e)) (\<lambda>rows.
     Inr (db\<lparr>cdb_outbox := rows\<rparr>))))))"

definition event_of_row :: "outbox_row \<Rightarrow> action_planning_requested result" where
  "event_of_row row =
     bindR (json_or_error (orow_payload row)) (\<lambda>e.
     bindR (require (apr_event_id e = orow_event_id row \<and> apr_decision_id e = orow_decision_id row \<and>
                     apr_event_type e = orow_event_type row)
              (PersistenceIntegrityError
                 ''outbox columns conflict with canonical event JSON'')) (\<lambda>_.
     Inr e))"

definition list_outbox ::
    "'p store_env \<Rightarrow> 'p case_db \<Rightarrow> string \<Rightarrow> action_planning_requested list result" where
  "list_outbox env db decision_id =
     bindR (get_decision env db decision_id) (\<lambda>d.
     bindR (mapR (\<lambda>row.
        bindR (event_of_row row) (\<lambda>e.
        bindR (require (orow_created_at row = apr_created_at e \<and>
                        orow_available_at row = apr_available_at e)
                 (PersistenceIntegrityError
                    ''outbox columns conflict with canonical event JSON'')) (\<lambda>_.
        bindR (require_event_of_decision e d) (\<lambda>_.
        bindR (require (dec_kind d = DK_APPROVED)
                 (PersistenceIntegrityError ''outbox event requires an approved Decision'')) (\<lambda>_.
        Inr e)))))
        (sort_key orow_created_at (sort_key orow_event_id
           (filter (\<lambda>r. orow_decision_id r = decision_id) (cdb_outbox db))))) (\<lambda>events.
     bindR (require (dec_kind d = DK_APPROVED \<longrightarrow> length events = 1)
              (PersistenceIntegrityError
                 ''approved Decision requires exactly one ActionPlanningRequested event'')) (\<lambda>_.
     bindR (require (dec_kind d = DK_REJECTED \<longrightarrow> events = [])
              (PersistenceIntegrityError ''rejected Decision cannot have outbox events'')) (\<lambda>_.
     Inr events))))"

record outbox_claim =
  ocl_event_id :: string
  ocl_decision_id :: string
  ocl_case_id :: string
  ocl_analysis_id :: string
  ocl_event_type :: string

record outbox_processing_state =
  ops_event_id :: string
  ops_claim_status :: string
  ops_processed_at :: "instant option"
  ops_attempt_count :: int
  ops_last_error :: "string option"

text \<open>The filters of \<open>_claim_outbox\<close>.\<close>

definition claimable ::
    "instant \<Rightarrow> string \<Rightarrow> string option \<Rightarrow> bool \<Rightarrow> outbox_row \<Rightarrow> bool" where
  "claimable now event_type decision_id include_failed r \<longleftrightarrow>
     orow_event_type r = event_type \<and> orow_available_at r \<le> now \<and> orow_processed_at r = None \<and>
     (orow_claim_status r = ''pending'' \<or>
      orow_claim_status r = ''claimed'' \<and>
        (case orow_claim_expires_at r of None \<Rightarrow> False | Some t \<Rightarrow> t < now)) \<and>
     orow_last_error r \<noteq> Some STALE_ERROR \<and>
     (case decision_id of None \<Rightarrow> True | Some i \<Rightarrow> orow_decision_id r = i) \<and>
     (include_failed \<or> orow_last_error r = None)"

text \<open>The join of the events with their Decision and their Case.\<close>

definition joined_candidates ::
    "'p case_db \<Rightarrow> (outbox_row \<Rightarrow> bool) \<Rightarrow> (outbox_row \<times> decision_row \<times> case_row) list" where
  "joined_candidates db p =
     concat (map (\<lambda>o1. concat (map (\<lambda>l. map (\<lambda>c. (o1, l, c))
         (filter (\<lambda>c. crow_case_id c = lrow_case_id l) (cdb_cases db)))
       (filter (\<lambda>l. lrow_decision_id l = orow_decision_id o1) (cdb_decisions db))))
     (sort_key orow_available_at (sort_key orow_event_id (filter p (cdb_outbox db)))))"

text \<open>The first candidate of an accepted workflow; a Case that does not decode ends the search.\<close>

fun first_candidate ::
    "workflow_version list option \<Rightarrow> (outbox_row \<times> decision_row \<times> case_row) list \<Rightarrow>
     (outbox_row \<times> decision_row) option result" where
  "first_candidate versions [] = Inr None"
| "first_candidate versions ((o1, l, c) # rest) =
     (case versions of
        None \<Rightarrow> Inr (Some (o1, l))
      | Some vs \<Rightarrow>
          bindR (json_or_error (crow_payload c)) (\<lambda>case1.
          if effective_workflow_version case1 \<in> set vs then Inr (Some (o1, l))
          else first_candidate versions rest))"

definition claim_outbox ::
    "workflow_version list option \<Rightarrow> string \<Rightarrow> string option \<Rightarrow> bool \<Rightarrow> instant \<Rightarrow> 'p case_db \<Rightarrow>
     ('p case_db \<times> outbox_claim option) result" where
  "claim_outbox versions event_type decision_id include_failed now db =
     bindR (require (event_type = ''ActionPlanningRequested'')
              (ValueError ''unsupported outbox event type'')) (\<lambda>_.
     let filters = claimable now event_type decision_id include_failed in
     bindR (first_candidate versions (joined_candidates db filters)) (\<lambda>candidate.
     case candidate of
       None \<Rightarrow> Inr (db, None)
     | Some (o1, l) \<Rightarrow>
         let hit = (\<lambda>r. orow_event_id r = orow_event_id o1 \<and> filters r) in
         bindR (one_or_none (filter hit (cdb_outbox db))) (\<lambda>row.
         case row of
           None \<Rightarrow> Inr (db, None)
         | Some _ \<Rightarrow>
             Inr (db\<lparr>cdb_outbox := map (\<lambda>r. if hit r
                     then r\<lparr>orow_claim_status := ''claimed'',
                            orow_claimed_by := Some ''RL-EXECUTION-PLANNER'',
                            orow_claimed_at := Some now,
                            orow_claim_expires_at := Some (now + minutes 5)\<rparr>
                     else r) (cdb_outbox db)\<rparr>,
                  Some \<lparr>ocl_event_id = orow_event_id o1, ocl_decision_id = orow_decision_id o1,
                        ocl_case_id = lrow_case_id l, ocl_analysis_id = lrow_analysis_id l,
                        ocl_event_type = orow_event_type o1\<rparr>))))"

definition validate_claimed_outbox ::
    "outbox_claim \<Rightarrow> 'p case_db \<Rightarrow> action_planning_requested result" where
  "validate_claimed_outbox claim db =
     bindR (one_or_none (filter (\<lambda>r. orow_event_id r = ocl_event_id claim) (cdb_outbox db))) (\<lambda>found.
     bindR (the_or (RecordNotFound ''claimed outbox event does not exist'') found) (\<lambda>row.
     bindR (event_of_row row) (\<lambda>e.
     bindR (require (orow_claim_status row = ''claimed'' \<and> orow_processed_at row = None \<and>
                     apr_event_id e = ocl_event_id claim \<and>
                     apr_decision_id e = ocl_decision_id claim \<and>
                     apr_case_id e = ocl_case_id claim \<and> apr_analysis_id e = ocl_analysis_id claim \<and>
                     apr_event_type e = ocl_event_type claim \<and>
                     orow_created_at row = apr_created_at e \<and>
                     orow_available_at row = apr_available_at e)
              (PersistenceIntegrityError
                 ''claimed outbox event conflicts with its canonical payload'')) (\<lambda>_.
     Inr e))))"

text \<open>\<open>UPDATE outbox_events .. WHERE\<close>, with the number of rows it changed.\<close>

definition update_outbox ::
    "(outbox_row \<Rightarrow> bool) \<Rightarrow> (outbox_row \<Rightarrow> outbox_row) \<Rightarrow> 'p case_db \<Rightarrow> 'p case_db \<times> nat" where
  "update_outbox p f db =
     (db\<lparr>cdb_outbox := map (\<lambda>r. if p r then f r else r) (cdb_outbox db)\<rparr>,
      length (filter p (cdb_outbox db)))"

definition mark_outbox_processed :: "string \<Rightarrow> instant \<Rightarrow> 'p case_db \<Rightarrow> 'p case_db result" where
  "mark_outbox_processed event_id now db =
     (case update_outbox
        (\<lambda>r. orow_event_id r = event_id \<and> orow_claim_status r = ''claimed'' \<and>
             orow_processed_at r = None)
        (\<lambda>r. r\<lparr>orow_claim_status := ''processed'', orow_processed_at := Some now,
               orow_claim_expires_at := None, orow_last_error := None\<rparr>) db of
        (db', n) \<Rightarrow>
          bindR (require (n = 1) (RecordNotFound ''claimed outbox event does not exist'')) (\<lambda>_.
          Inr db'))"

definition failed_values :: "string \<Rightarrow> outbox_row \<Rightarrow> outbox_row" where
  "failed_values error_code r =
     r\<lparr>orow_claim_status := ''pending'', orow_claimed_by := None, orow_claimed_at := None,
       orow_claim_expires_at := None, orow_attempt_count := orow_attempt_count r + 1,
       orow_last_error := Some error_code\<rparr>"

definition record_outbox_failure :: "string \<Rightarrow> string \<Rightarrow> 'p case_db \<Rightarrow> 'p case_db result" where
  "record_outbox_failure event_id error_code db =
     (case update_outbox
        (\<lambda>r. orow_event_id r = event_id \<and> orow_processed_at r = None \<and>
             orow_last_error r \<noteq> Some STALE_ERROR)
        (failed_values error_code) db of
        (db', n) \<Rightarrow>
          bindR (require (n = 1) (RecordNotFound ''outbox event does not exist'')) (\<lambda>_. Inr db'))"

definition record_outbox_failure_if_current ::
    "string \<Rightarrow> outbox_processing_state \<Rightarrow> string \<Rightarrow> instant \<Rightarrow> 'p case_db \<Rightarrow>
     ('p case_db \<times> bool) result" where
  "record_outbox_failure_if_current event_id expected error_code now db =
     bindR (require (ops_event_id expected = event_id \<and> nonblank error_code)
              (ValueError ''event identity and nonblank error code are required'')) (\<lambda>_.
     if ops_processed_at expected \<noteq> None \<or> ops_last_error expected = Some STALE_ERROR
     then Inr (db, False)
     else
       (case update_outbox
          (\<lambda>r. orow_event_id r = event_id \<and> orow_processed_at r = None \<and>
               orow_claim_status r = ops_claim_status expected \<and>
               orow_attempt_count r = ops_attempt_count expected \<and>
               orow_last_error r = ops_last_error expected \<and>
               (orow_claim_status r = ''pending'' \<or>
                orow_claim_status r = ''claimed'' \<and>
                  (case orow_claim_expires_at r of None \<Rightarrow> False | Some t \<Rightarrow> t < now)) \<and>
               orow_last_error r \<noteq> Some STALE_ERROR)
          (failed_values error_code) db of
          (db', n) \<Rightarrow> Inr (db', n = 1)))"

definition get_outbox_state :: "string \<Rightarrow> 'p case_db \<Rightarrow> outbox_processing_state result" where
  "get_outbox_state event_id db =
     bindR (one_or_none (filter (\<lambda>r. orow_event_id r = event_id) (cdb_outbox db))) (\<lambda>found.
     bindR (the_or (RecordNotFound ''outbox event does not exist'') found) (\<lambda>row.
     bindR (require (orow_claim_status row \<in> {''pending'', ''claimed'', ''processed''})
              (ValueError ''OutboxClaimStatus'')) (\<lambda>_.
     Inr \<lparr>ops_event_id = orow_event_id row, ops_claim_status = orow_claim_status row,
          ops_processed_at = orow_processed_at row, ops_attempt_count = orow_attempt_count row,
          ops_last_error = orow_last_error row\<rparr>)))"

section \<open>Currentness\<close>

definition stale_as_execution_stale :: "string \<Rightarrow> 'a result \<Rightarrow> 'a result" where
  "stale_as_execution_stale msg r =
     (case r of Inl (StaleProposal _) \<Rightarrow> Inl (ExecutionProposalStale msg) | _ \<Rightarrow> r)"

definition proposal_current ::
    "decision \<Rightarrow> proposal_approval_evidence \<Rightarrow> proposal_state \<Rightarrow> case_projection \<Rightarrow> bool" where
  "proposal_current d evidence state projection \<longleftrightarrow>
     cpj_current_decision_id projection = Some (dec_decision_id d) \<and>
     cpj_current_analysis_id projection = Some (dec_analysis_id d) \<and>
     cpj_current_analysis_hash projection = Some (dec_analysis_material_hash d) \<and>
     pt_analysis_id (pst_token state) = Some (dec_analysis_id d) \<and>
     pt_analysis_material_hash (pst_token state) = Some (dec_analysis_material_hash d) \<and>
     pt_selection_id (pst_token state) = Some (ps_selection_id (pae_selection evidence)) \<and>
     pst_selection state = Some (pae_selection evidence) \<and>
     pst_review state = pae_review evidence \<and>
     pst_review_revision state = pae_review_revision evidence \<and>
     (case pst_review state of None \<Rightarrow> True | Some r \<Rightarrow> fr_status r = FRS_APPROVED)"

definition check_execution_current ::
    "'p store_env \<Rightarrow> 'p case_db \<Rightarrow> string \<Rightarrow> (decision \<times> proposal_token option) result" where
  "check_execution_current env db decision_id =
     bindR (get_decision env db decision_id) (\<lambda>d.
     bindR (require (dec_kind d = DK_APPROVED)
              (ExecutionProposalStale ''Execution requires an approved Decision'')) (\<lambda>_.
     if \<not> independent_decision d then Inr (d, None)
     else
       bindR (the_or (PersistenceIntegrityError ''Independent Decision lacks proposal evidence'')
                (dec_proposal_approval d)) (\<lambda>evidence.
       stale_as_execution_stale ''Execution approval changed while reading''
         (bindR (get_state env db (dec_case_id d)) (\<lambda>state.
          bindR (get_projection env db (dec_case_id d)) (\<lambda>projection.
          bindR (require (proposal_current d evidence state projection)
                   (ExecutionProposalStale ''Decision proposal approval is no longer current'')) (\<lambda>_.
          bindR (get_state env db (dec_case_id d)) (\<lambda>again.
          bindR (require (pst_token again = pst_token state)
                   (ExecutionProposalStale ''Execution approval changed while reading'')) (\<lambda>_.
          Inr (d, Some (pst_token state)))))))))))"

definition guard_execution_current ::
    "'p store_env \<Rightarrow> 'p case_db \<Rightarrow> string \<Rightarrow> ('p case_db \<times> decision) result" where
  "guard_execution_current env db decision_id =
     bindR (check_execution_current env db decision_id) (\<lambda>(d, token).
     case token of
       None \<Rightarrow> Inr (db, d)
     | Some t \<Rightarrow>
         bindR (stale_as_execution_stale ''Execution lost a current-proposal race''
                  (guard_current env (dec_case_id d) t db)) (\<lambda>(db', _).
         Inr (db', d)))"

text \<open>What the execution services need of this database.\<close>

definition database_cases :: "'p store_env \<Rightarrow> 'p case_db case_store" where
  "database_cases env =
     \<lparr>cst_decision = get_decision env, cst_guard = guard_execution_current env\<rparr>"

end
