(* ===== verification/Finance_Service.thy ===== *)
theory Finance_Service
  imports Decision_Store
begin

text \<open>
  The commands of Finance and the Decision: \<open>services/finance/contracts.py\<close>, \<open>identity.py\<close>,
  \<open>service.py\<close>, \<open>decisions.py\<close> and \<open>DecisionService\<close> of \<open>services/decisions/service.py\<close>.

  A command runs one unit of work.  When that unit loses a race, a second unit reads the database
  again and finds out whether the same command was committed by somebody else.  Fresh identifiers
  and the clock are arguments; the SHA-256 fingerprints of the commands are parameters.
\<close>

section \<open>Identities\<close>

record finance_actors =
  bfa_tenant_id :: nat
  bfa_alex_object_id :: nat
  bfa_taylor_object_id :: nat

definition mk_finance_actors :: "finance_actors \<Rightarrow> finance_actors result" where
  "mk_finance_actors b =
     bindR (require (bfa_alex_object_id b \<noteq> bfa_taylor_object_id b)
              (ValueError ''Alex and Taylor must be different people'')) (\<lambda>_. Inr b)"

definition require_bound_actor :: "finance_actors \<Rightarrow> bool \<Rightarrow> identity_snapshot \<Rightarrow> unit result" where
  "require_bound_actor b taylor actor =
     (let name = (if taylor then ''TAYLOR'' else ''ALEX'');
          roles = (if taylor then [''finance_approver'']
                   else [''material_planner'', ''response_approver'']) in
      case (py_uuid_opt (is_tenant_id actor), py_uuid_opt (is_object_id actor)) of
        (Some tenant, Some object_id) \<Rightarrow>
          require (tenant = bfa_tenant_id b \<and>
                   object_id = (if taylor then bfa_taylor_object_id b else bfa_alex_object_id b) \<and>
                   is_identity_source actor = IS_ENTRA \<and>
                   is_persona_id actor = ''RL-PERSONA-'' @ name \<and>
                   is_source_id actor = ''RL-ENTRA-'' @ name \<and> is_effective_roles actor = roles)
            FinancePermissionDenied
      | _ \<Rightarrow> Inl FinancePermissionDenied)"

definition require_alex :: "finance_actors \<Rightarrow> identity_snapshot \<Rightarrow> unit result" where
  "require_alex b = require_bound_actor b False"

definition require_taylor :: "finance_actors \<Rightarrow> identity_snapshot \<Rightarrow> unit result" where
  "require_taylor b = require_bound_actor b True"

text \<open>The identity a fingerprint covers; a UUID is its integer.\<close>

record authority_material =
  aum_tenant_id :: nat
  aum_object_id :: nat
  aum_identity_source :: identity_source
  aum_persona_id :: string
  aum_source_id :: string
  aum_effective_roles :: "string list"

definition authority_material_of :: "identity_snapshot \<Rightarrow> authority_material result" where
  "authority_material_of actor =
     bindR (the_or (ValueError ''badly formed hexadecimal UUID string'')
              (py_uuid_opt (is_tenant_id actor))) (\<lambda>tenant.
     bindR (the_or (ValueError ''badly formed hexadecimal UUID string'')
              (py_uuid_opt (is_object_id actor))) (\<lambda>object_id.
     Inr \<lparr>aum_tenant_id = tenant, aum_object_id = object_id,
          aum_identity_source = is_identity_source actor, aum_persona_id = is_persona_id actor,
          aum_source_id = is_source_id actor, aum_effective_roles = is_effective_roles actor\<rparr>))"

section \<open>Commands\<close>

definition command_id :: "nat \<Rightarrow> string \<Rightarrow> bool" where
  "command_id n s \<longleftrightarrow> nonblank s \<and> length s \<le> n"

record submit_proposal_command =
  spc_case_id :: string
  spc_option_id :: string
  spc_expected :: proposal_token
  spc_idempotency_key :: string

definition mk_submit_command :: "submit_proposal_command \<Rightarrow> submit_proposal_command result" where
  "mk_submit_command c =
     bindR (require (command_id 128 (spc_case_id c) \<and> command_id 128 (spc_option_id c) \<and>
                     command_id 200 (spc_idempotency_key c) \<and> wf_proposal_token (spc_expected c))
              (ValueError ''value must be nonblank'')) (\<lambda>_.
     bindR (require (pt_analysis_id (spc_expected c) \<noteq> None \<and>
                     pt_analysis_material_hash (spc_expected c) \<noteq> None)
              (ValueError ''submission requires an analyzed case'')) (\<lambda>_. Inr c))"

record resolve_finance_command =
  rfc_review_id :: string
  rfc_expected :: proposal_token
  rfc_expected_review_revision :: int
  rfc_approved :: bool
  rfc_reason :: "string option"
  rfc_idempotency_key :: string

text \<open>\<open>(value.strip() or None) if value is not None else None\<close>\<close>

definition strip_or_none :: "string option \<Rightarrow> string option" where
  "strip_or_none v =
     (case v of None \<Rightarrow> None | Some s \<Rightarrow> if nonblank s then Some (py_strip s) else None)"

definition mk_resolve_command :: "resolve_finance_command \<Rightarrow> resolve_finance_command result" where
  "mk_resolve_command c0 =
     bindR (require (command_id 128 (rfc_review_id c0) \<and> command_id 200 (rfc_idempotency_key c0) \<and>
                     0 < rfc_expected_review_revision c0 \<and> wf_proposal_token (rfc_expected c0) \<and>
                     (case rfc_reason c0 of None \<Rightarrow> True | Some s \<Rightarrow> length s \<le> 4000))
              (ValueError ''value must be nonblank'')) (\<lambda>_.
     let c = c0\<lparr>rfc_reason := strip_or_none (rfc_reason c0)\<rparr> in
     bindR (require (rfc_approved c \<or> rfc_reason c \<noteq> None)
              (ValueError ''rejection requires a nonblank reason'')) (\<lambda>_.
     bindR (require (pt_selection_id (rfc_expected c) \<noteq> None \<and>
                     pt_analysis_id (rfc_expected c) \<noteq> None)
              (ValueError ''resolution requires a current proposal selection'')) (\<lambda>_. Inr c)))"

record finalize_proposal_command =
  fpc_case_id :: string
  fpc_expected :: proposal_token
  fpc_kind :: decision_kind
  fpc_idempotency_key :: string
  fpc_rejection_reason :: "string option"

definition mk_finalize_command :: "finalize_proposal_command \<Rightarrow> finalize_proposal_command result" where
  "mk_finalize_command c0 =
     bindR (require (command_id 128 (fpc_case_id c0) \<and> command_id 200 (fpc_idempotency_key c0) \<and>
                     wf_proposal_token (fpc_expected c0) \<and>
                     (case fpc_rejection_reason c0 of None \<Rightarrow> True | Some s \<Rightarrow> length s \<le> 4000))
              (ValueError ''value must be nonblank'')) (\<lambda>_.
     let c = c0\<lparr>fpc_rejection_reason := strip_or_none (fpc_rejection_reason c0)\<rparr> in
     bindR (require (pt_analysis_id (fpc_expected c) \<noteq> None \<and>
                     pt_analysis_material_hash (fpc_expected c) \<noteq> None)
              (ValueError ''finalization requires a current analysis'')) (\<lambda>_.
     if fpc_kind c = DK_APPROVED then
       bindR (require (pt_selection_id (fpc_expected c) \<noteq> None)
                (ValueError ''approval requires a current proposal selection'')) (\<lambda>_.
       bindR (require (fpc_rejection_reason c = None)
                (ValueError ''approval cannot include rejection_reason'')) (\<lambda>_. Inr c))
     else
       bindR (require (fpc_rejection_reason c \<noteq> None)
                (ValueError ''rejection requires a nonblank rejection_reason'')) (\<lambda>_. Inr c)))"

record submission_result =
  sbr_selection :: proposal_selection
  sbr_review :: "finance_review option"
  sbr_review_revision :: "int option"

record resolution_result =
  rsr_review :: finance_review
  rsr_review_revision :: int

record finance_review_detail =
  frd_selection :: proposal_selection
  frd_review :: finance_review
  frd_review_revision :: int
  frd_analysis :: analysis_version
  frd_option :: response_option
  frd_is_current :: bool
  frd_current_token :: proposal_token

record 'p service_env =
  sve_store :: "'p store_env"
  sve_actors :: finance_actors
  sve_submit_sha256 :: "submit_proposal_command \<Rightarrow> authority_material \<Rightarrow> string"
  sve_resolve_sha256 :: "resolve_finance_command \<Rightarrow> authority_material \<Rightarrow> string"
  sve_finalize_sha256 :: "finalize_proposal_command \<Rightarrow> authority_material \<Rightarrow> string"
  sve_record_sha256 :: "record_decision_command \<Rightarrow> identity_snapshot \<Rightarrow> string"

definition service_now :: "py_error \<Rightarrow> datetime \<Rightarrow> instant result" where
  "service_now e clock = (case clock of Aware t \<Rightarrow> Inr t | Naive _ \<Rightarrow> Inl e)"

definition naive_clock :: py_error where
  "naive_clock = FinanceRequestInvalid ''Server clock must be timezone-aware''"

text \<open>\<open>_CONTENTION\<close>\<close>

fun contention :: "py_error \<Rightarrow> bool" where
  "contention IntegrityError = True"
| "contention (StaleProposal _) = True"
| "contention SelectionIdempotencyConflict = True"
| "contention FinanceReviewIdempotencyConflict = True"
| "contention FinanceReviewRevisionConflict = True"
| "contention _ = False"

text \<open>
  A command: its unit of work on the database as it is; when the unit loses a race, recovery on the
  database as it is then.  An error of recovery replaces the first one, a recovery without a
  result re-raises it.
\<close>

definition run_command ::
    "(py_error \<Rightarrow> bool) \<Rightarrow> ('p case_db \<Rightarrow> ('p case_db \<times> 'r) result) \<Rightarrow>
     ('p case_db \<Rightarrow> 'r option result) \<Rightarrow> 'p case_db \<Rightarrow> 'p case_db \<Rightarrow> 'p case_db \<times> 'r result" where
  "run_command lost unit1 recover db later =
     (case unit1 db of
        Inr (db', r) \<Rightarrow> (db', Inr r)
      | Inl e \<Rightarrow>
          (db, if \<not> lost e then Inl e
               else case recover later of
                      Inl e' \<Rightarrow> Inl e' | Inr (Some r) \<Rightarrow> Inr r | Inr None \<Rightarrow> Inl e))"

section \<open>Reading proposals\<close>

definition finance_status ::
    "'p service_env \<Rightarrow> string \<Rightarrow> identity_snapshot \<Rightarrow> 'p case_db \<Rightarrow> proposal_state result" where
  "finance_status sv case_id actor db =
     (let env = sve_store sv in
      bindR (require_alex (sve_actors sv) actor) (\<lambda>_.
      bindR (get_state env db case_id) (\<lambda>state.
      bindR (get_projection env db case_id) (\<lambda>projection.
      bindR (require (effective_workflow_version (cpj_case projection) = WV_INDEPENDENT_FINANCE)
               (FinanceRequestInvalid ''Independent Finance workflow is required'')) (\<lambda>_.
      bindR (case pst_selection state of
               None \<Rightarrow> Inr () | Some s \<Rightarrow> require_alex (sve_actors sv) (ps_submitted_by s)) (\<lambda>_.
      Inr state))))))"

definition review_detail ::
    "'p service_env \<Rightarrow> string \<Rightarrow> 'p case_db \<Rightarrow> finance_review_detail result" where
  "review_detail sv review_id db =
     (let env = sve_store sv; actors = sve_actors sv in
      bindR (get_selection_for_review env db review_id) (\<lambda>selection.
      let proposal = ps_proposal selection in
      bindR (require_alex actors (ps_submitted_by selection)) (\<lambda>_.
      bindR (get_state env db (fp_case_id proposal)) (\<lambda>state.
      bindR (get_latest (se_review_json env) (finance_view env db) review_id) (\<lambda>(review, revision).
      bindR (require_alex actors (fr_submitted_by review)) (\<lambda>_.
      bindR (case fr_reviewed_by review of None \<Rightarrow> Inr () | Some t \<Rightarrow> require_taylor actors t) (\<lambda>_.
      bindR (require (fr_proposal review = proposal \<and>
                      ps_finance_review_id selection = Some review_id)
               (PersistenceIntegrityError
                  ''Historical review and selection binding differ'')) (\<lambda>_.
      bindR (get_analysis env db (fp_analysis_id proposal)) (\<lambda>a.
      bindR (the_or (PersistenceIntegrityError ''Historical review material differs from analysis'')
               (find (\<lambda>x. ro_option_id x = fp_option_id proposal) (av_response_options a))) (\<lambda>opt.
      bindR (require (av_material_hash a = fp_analysis_material_hash proposal \<and>
                      (case ro_predicted opt of
                         None \<Rightarrow> False
                       | Some p \<Rightarrow> pred_response_cost p = fp_response_cost proposal))
               (PersistenceIntegrityError ''Historical review material differs from analysis''))
        (\<lambda>_.
      bindR (get_state env db (fp_case_id proposal)) (\<lambda>again.
      bindR (require (pst_token again = pst_token state)
               (StaleProposal ''Review state changed while reading'')) (\<lambda>_.
      Inr \<lparr>frd_selection = selection, frd_review = review, frd_review_revision = revision,
           frd_analysis = a, frd_option = opt,
           frd_is_current =
             (pt_selection_id (pst_token state) = Some (ps_selection_id selection)),
           frd_current_token = pst_token state\<rparr>)))))))))))))"

definition finance_detail ::
    "'p service_env \<Rightarrow> string \<Rightarrow> identity_snapshot \<Rightarrow> 'p case_db \<Rightarrow> finance_review_detail result" where
  "finance_detail sv review_id actor db =
     bindR (require_taylor (sve_actors sv) actor) (\<lambda>_. review_detail sv review_id db)"

text \<open>One Case of \<open>list_pending\<close>: its detail, or None when it is passed over.\<close>

definition pending_detail ::
    "'p service_env \<Rightarrow> 'p case_db \<Rightarrow> string \<Rightarrow> finance_review_detail option result" where
  "pending_detail sv db case_id =
     bindR (get_state (sve_store sv) db case_id) (\<lambda>state.
     case (pst_selection state, pst_review state) of
       (Some selection, Some review) \<Rightarrow>
         if fr_status review \<noteq> FRS_PENDING then Inr None
         else
           (case require_alex (sve_actors sv) (ps_submitted_by selection) of
              Inl _ \<Rightarrow> Inr None
            | Inr _ \<Rightarrow>
                bindR (review_detail sv (fr_review_id review) db) (\<lambda>detail.
                Inr (if frd_is_current detail \<and> fr_status (frd_review detail) = FRS_PENDING
                     then Some detail else None)))
     | _ \<Rightarrow> Inr None)"

definition list_pending ::
    "'p service_env \<Rightarrow> identity_snapshot \<Rightarrow> 'p case_db \<Rightarrow> finance_review_detail list result" where
  "list_pending sv actor db =
     bindR (require_taylor (sve_actors sv) actor) (\<lambda>_.
     bindR (mapR (pending_detail sv db) (list_pending_case_ids (sve_store sv) db)) (\<lambda>details.
     Inr (List.map_filter (\<lambda>d. d) details)))"

section \<open>Submitting a proposal\<close>

definition submission_result_of ::
    "'p store_env \<Rightarrow> 'p case_db \<Rightarrow> proposal_selection \<Rightarrow> submission_result result" where
  "submission_result_of env db selection =
     bindR (case ps_finance_review_id selection of
              None \<Rightarrow> Inr None
            | Some i \<Rightarrow> bindR (get_revision (se_review_json env) (finance_view env db) i 1)
                          (\<lambda>r. Inr (Some r))) (\<lambda>pending.
     Inr \<lparr>sbr_selection = selection, sbr_review = pending,
          sbr_review_revision = (if pending = None then None else Some 1)\<rparr>)"

definition submission_replay ::
    "'p service_env \<Rightarrow> string \<Rightarrow> string \<Rightarrow> 'p case_db \<Rightarrow> submission_result option result" where
  "submission_replay sv key fingerprint db =
     bindR (get_selection_by_key (sve_store sv) db key) (\<lambda>stored.
     case stored of
       None \<Rightarrow> Inr None
     | Some receipt \<Rightarrow>
         bindR (require (sr_request_fingerprint receipt = fingerprint)
                  (FinanceCommandConflict ''Key was already used for another submission'')) (\<lambda>_.
         bindR (require_alex (sve_actors sv) (ps_submitted_by (sr_selection receipt))) (\<lambda>_.
         bindR (submission_result_of (sve_store sv) db (sr_selection receipt)) (\<lambda>r.
         Inr (Some r)))))"

definition require_submittable :: "analysis_version \<Rightarrow> string \<Rightarrow> response_option result" where
  "require_submittable a option_id =
     (let e = FinanceRequestInvalid ''Selected response is not executable mitigation'' in
      bindR (the_or e (find (\<lambda>x. ro_option_id x = option_id) (av_response_options a))) (\<lambda>opt.
      bindR (the_or e (find (\<lambda>x. arom_option_id x = option_id)
               (am_response_options (av_material a)))) (\<lambda>m.
      bindR (require (option_material opt = m \<and> ro_executable opt \<and> ro_active_mitigation opt \<and>
                      ro_predicted opt \<noteq> None \<and> ro_blocking_codes opt = []) e) (\<lambda>_.
      Inr opt))))"

text \<open>The ids of a submission are fresh; a review is asked for above the threshold.\<close>

definition submit_unit ::
    "'p service_env \<Rightarrow> submit_proposal_command \<Rightarrow> identity_snapshot \<Rightarrow> string \<Rightarrow> string \<Rightarrow>
     datetime \<Rightarrow> string \<Rightarrow> string \<Rightarrow> 'p case_db \<Rightarrow> ('p case_db \<times> submission_result) result" where
  "submit_unit sv command actor key fingerprint clock uuid1 uuid2 db =
     (let env = sve_store sv; actors = sve_actors sv; expected = spc_expected command in
      bindR (submission_replay sv key fingerprint db) (\<lambda>replay.
      case replay of
        Some r \<Rightarrow> Inr (db, r)
      | None \<Rightarrow>
          bindR (get_state env db (spc_case_id command)) (\<lambda>state.
          bindR (require (pst_token state = expected)
                   (StaleProposal ''Case analysis or proposal changed'')) (\<lambda>_.
          bindR (get_projection env db (spc_case_id command)) (\<lambda>projection.
          let c = cpj_case projection in
          bindR (require (effective_workflow_version c = WV_INDEPENDENT_FINANCE)
                   (FinanceRequestInvalid ''Independent Finance workflow is required'')) (\<lambda>_.
          bindR (the_or (FinanceRequestInvalid ''Submission requires an analyzed case'')
                   (pt_analysis_id expected)) (\<lambda>analysis_id.
          bindR (get_analysis env db analysis_id) (\<lambda>a.
          bindR (require (av_case_id a = ci_case_id c \<and>
                          Some (av_material_hash a) = pt_analysis_material_hash expected)
                   (StaleProposal ''Analysis binding changed'')) (\<lambda>_.
          bindR (require_submittable a (spc_option_id command)) (\<lambda>opt.
          bindR (case pst_selection state of
                   None \<Rightarrow> Inr () | Some s \<Rightarrow> require_alex actors (ps_submitted_by s)) (\<lambda>_.
          bindR (service_now naive_clock clock) (\<lambda>now.
          bindR (the_or AssertionError (ro_predicted opt)) (\<lambda>predicted.
          let proposal =
                \<lparr>fp_case_id = ci_case_id c, fp_analysis_id = av_analysis_id a,
                 fp_analysis_material_hash = av_material_hash a, fp_option_id = ro_option_id opt,
                 fp_response_cost = pred_response_cost predicted\<rparr>;
              selection_id = ''RL-SELECTION-'' @ uuid1;
              review_id = (if requires_finance_approval (fp_response_cost proposal)
                           then Some (''RL-FINANCE-'' @ uuid2) else None);
              selection =
                \<lparr>ps_selection_id = selection_id, ps_proposal = proposal,
                 ps_workflow_version = effective_workflow_version c, ps_submitted_by = actor,
                 ps_submitted_at = now, ps_finance_review_id = review_id\<rparr> in
          bindR (require (wf_finance_proposal proposal) (ValueError ''FinanceProposal'')) (\<lambda>_.
          bindR (require (wf_proposal_selection selection) (ValueError ''ProposalSelection'')) (\<lambda>_.
          bindR (case review_id of
                   None \<Rightarrow> Inr db
                 | Some i \<Rightarrow>
                     bindR (submit_finance_review i proposal actor (Aware now)) (\<lambda>pending.
                     bindR (append_review env pending None (''finance-pending:'' @ selection_id)
                              fingerprint db) (\<lambda>(db', _). Inr db'))) (\<lambda>db1.
          let receipt = \<lparr>sr_selection = selection, sr_expected = expected,
                         sr_idempotency_key = key, sr_request_fingerprint = fingerprint\<rparr> in
          bindR (require (wf_selection_receipt receipt) (ValueError ''SelectionReceipt'')) (\<lambda>_.
          bindR (publish env receipt db1) (\<lambda>(db2, published).
          bindR (submission_result_of env db2 published) (\<lambda>r.
          Inr (db2, r))))))))))))))))))))"

definition submit_recover ::
    "'p service_env \<Rightarrow> submit_proposal_command \<Rightarrow> string \<Rightarrow> string \<Rightarrow> 'p case_db \<Rightarrow>
     submission_result option result" where
  "submit_recover sv command key fingerprint db =
     bindR (submission_replay sv key fingerprint db) (\<lambda>replay.
     case replay of
       Some r \<Rightarrow> Inr (Some r)
     | None \<Rightarrow>
         bindR (get_state (sve_store sv) db (spc_case_id command)) (\<lambda>state.
         bindR (require (pst_token state = spc_expected command)
                  (FinanceCommandConflict ''Submission lost a current-proposal race'')) (\<lambda>_.
         Inr None)))"

definition submit_proposal ::
    "'p service_env \<Rightarrow> submit_proposal_command \<Rightarrow> identity_snapshot \<Rightarrow> datetime \<Rightarrow> string \<Rightarrow>
     string \<Rightarrow> 'p case_db \<Rightarrow> 'p case_db \<Rightarrow> 'p case_db \<times> submission_result result" where
  "submit_proposal sv command actor clock uuid1 uuid2 db later =
     (case bindR (require_alex (sve_actors sv) actor) (\<lambda>_. authority_material_of actor) of
        Inl e \<Rightarrow> (db, Inl e)
      | Inr authority \<Rightarrow>
          let key = ''finance-submit:'' @ spc_idempotency_key command;
              fingerprint = sve_submit_sha256 sv command authority in
          run_command contention
            (submit_unit sv command actor key fingerprint clock uuid1 uuid2)
            (submit_recover sv command key fingerprint) db later)"

section \<open>Resolving a review\<close>

definition resolution_replay ::
    "'p service_env \<Rightarrow> string \<Rightarrow> string \<Rightarrow> 'p case_db \<Rightarrow> resolution_result option result" where
  "resolution_replay sv key fingerprint db =
     bindR (get_by_idempotency_key (se_review_json (sve_store sv)) (finance_view (sve_store sv) db) key)
       (\<lambda>stored.
     case stored of
       None \<Rightarrow> Inr None
     | Some (review, revision, original) \<Rightarrow>
         bindR (require (original = fingerprint)
                  (FinanceCommandConflict ''Key was already used for another review command'')) (\<lambda>_.
         bindR (require_alex (sve_actors sv) (fr_submitted_by review)) (\<lambda>_.
         bindR (the_or (PersistenceIntegrityError ''Resolution receipt lacks reviewer'')
                  (fr_reviewed_by review)) (\<lambda>reviewer.
         bindR (require_taylor (sve_actors sv) reviewer) (\<lambda>_.
         Inr (Some \<lparr>rsr_review = review, rsr_review_revision = revision\<rparr>))))))"

definition resolve_unit ::
    "'p service_env \<Rightarrow> resolve_finance_command \<Rightarrow> identity_snapshot \<Rightarrow> string \<Rightarrow> string \<Rightarrow>
     datetime \<Rightarrow> 'p case_db \<Rightarrow> ('p case_db \<times> resolution_result) result" where
  "resolve_unit sv command actor key fingerprint clock db =
     (let env = sve_store sv in
      bindR (resolution_replay sv key fingerprint db) (\<lambda>replay.
      case replay of
        Some r \<Rightarrow> Inr (db, r)
      | None \<Rightarrow>
          bindR (get_latest (se_review_json env) (finance_view env db) (rfc_review_id command))
            (\<lambda>(review, revision).
          bindR (require_alex (sve_actors sv) (fr_submitted_by review)) (\<lambda>_.
          bindR (get_state env db (fp_case_id (fr_proposal review))) (\<lambda>state.
          bindR (the_or (StaleProposal ''Review is no longer the expected current request'')
                   (pst_selection state)) (\<lambda>selection.
          bindR (require (pst_token state = rfc_expected command \<and>
                          pst_review state = Some review \<and>
                          fr_review_id review = rfc_review_id command \<and>
                          pst_review_revision state = Some revision \<and>
                          revision = rfc_expected_review_revision command)
                   (StaleProposal ''Review is no longer the expected current request'')) (\<lambda>_.
          bindR (service_now naive_clock clock) (\<lambda>now.
          bindR (resolve_finance_review review (ps_proposal selection) actor
                   (rfc_approved command) (rfc_reason command) (Aware now)) (\<lambda>resolved.
          bindR (guard_current env (fp_case_id (fr_proposal review)) (rfc_expected command) db)
            (\<lambda>(db1, _).
          bindR (append_review env resolved (Some (rfc_expected_review_revision command)) key
                   fingerprint db1) (\<lambda>(db2, stored, number).
          Inr (db2, \<lparr>rsr_review = stored, rsr_review_revision = number\<rparr>))))))))))))"

definition resolve_recover ::
    "'p service_env \<Rightarrow> resolve_finance_command \<Rightarrow> string \<Rightarrow> string \<Rightarrow> 'p case_db \<Rightarrow>
     resolution_result option result" where
  "resolve_recover sv command key fingerprint db =
     (let env = sve_store sv in
      bindR (resolution_replay sv key fingerprint db) (\<lambda>replay.
      case replay of
        Some r \<Rightarrow> Inr (Some r)
      | None \<Rightarrow>
          bindR (get_latest (se_review_json env) (finance_view env db) (rfc_review_id command))
            (\<lambda>(review, revision).
          bindR (get_state env db (fp_case_id (fr_proposal review))) (\<lambda>state.
          bindR (require (pst_token state = rfc_expected command \<and>
                          revision = rfc_expected_review_revision command)
                   (FinanceCommandConflict ''Review lost a current-proposal race'')) (\<lambda>_.
          Inr None)))))"

definition resolve_review ::
    "'p service_env \<Rightarrow> resolve_finance_command \<Rightarrow> identity_snapshot \<Rightarrow> datetime \<Rightarrow>
     'p case_db \<Rightarrow> 'p case_db \<Rightarrow> 'p case_db \<times> resolution_result result" where
  "resolve_review sv command actor clock db later =
     (case bindR (require_taylor (sve_actors sv) actor) (\<lambda>_. authority_material_of actor) of
        Inl e \<Rightarrow> (db, Inl e)
      | Inr authority \<Rightarrow>
          let key = ''finance-resolve:'' @ rfc_idempotency_key command;
              fingerprint = sve_resolve_sha256 sv command authority in
          run_command contention (resolve_unit sv command actor key fingerprint clock)
            (resolve_recover sv command key fingerprint) db later)"

section \<open>Finalizing a proposal\<close>

definition already_approved ::
    "'p store_env \<Rightarrow> 'p case_db \<Rightarrow> string \<Rightarrow> string \<Rightarrow> bool result" where
  "already_approved env db case_id selection_id =
     bindR (list_decisions_for_case env db case_id) (\<lambda>ds.
     Inr (\<exists>d \<in> set ds. dec_kind d = DK_APPROVED \<and>
            (case dec_proposal_approval d of
               None \<Rightarrow> False | Some e \<Rightarrow> ps_selection_id (pae_selection e) = selection_id)))"

definition existing_finalization ::
    "finance_actors \<Rightarrow> decision \<Rightarrow> string \<Rightarrow> decision result" where
  "existing_finalization actors d fingerprint =
     bindR (require (dec_request_fingerprint d = fingerprint)
              (FinanceFinalizationConflict ''Key was used for another finalization'')) (\<lambda>_.
     bindR (require_alex actors (dec_actor d)) (\<lambda>_.
     bindR (case dec_proposal_approval d of
              None \<Rightarrow> Inr ()
            | Some e \<Rightarrow> require_alex actors (ps_submitted_by (pae_selection e))) (\<lambda>_.
     Inr d)))"

definition approval_evidence_of ::
    "finance_actors \<Rightarrow> proposal_state \<Rightarrow> proposal_approval_evidence result" where
  "approval_evidence_of actors state =
     bindR (the_or (FinanceFinalizationInvalid ''Approval requires current selection'')
              (pst_selection state)) (\<lambda>selection.
     bindR (require_alex actors (ps_submitted_by selection)) (\<lambda>_.
     if requires_finance_approval (fp_response_cost (ps_proposal selection)) then
       (let e = FinanceFinalizationInvalid ''Current proposal lacks Finance approval'' in
        bindR (the_or e (pst_review state)) (\<lambda>review.
        bindR (require (pst_review_revision state \<noteq> None \<and> fr_status review = FRS_APPROVED) e) (\<lambda>_.
        bindR (the_or e (fr_reviewed_by review)) (\<lambda>reviewer.
        bindR (require_taylor actors reviewer) (\<lambda>_.
        mk_proposal_approval_evidence
          \<lparr>pae_selection = selection, pae_review = Some review,
           pae_review_revision = pst_review_revision state\<rparr>)))))
     else
       mk_proposal_approval_evidence
         \<lparr>pae_selection = selection, pae_review = None, pae_review_revision = None\<rparr>))"

text \<open>What an approval is based on: its evidence; a rejection asks that nothing runs yet.\<close>

definition finalization_evidence ::
    "'p service_env \<Rightarrow> finalize_proposal_command \<Rightarrow> proposal_state \<Rightarrow> 'p case_db \<Rightarrow>
     proposal_approval_evidence option result" where
  "finalization_evidence sv command state db =
     (if fpc_kind command = DK_APPROVED then
        bindR (approval_evidence_of (sve_actors sv) state) (\<lambda>e.
        bindR (already_approved (sve_store sv) db (fpc_case_id command)
                 (ps_selection_id (pae_selection e))) (\<lambda>again.
        bindR (require (\<not> again)
                 (FinanceFinalizationConflict
                    ''Current proposal selection was already finalized'')) (\<lambda>_.
        Inr (Some e))))
      else
        (case pst_selection state of
           None \<Rightarrow> Inr None
         | Some s \<Rightarrow>
             bindR (already_approved (sve_store sv) db (fpc_case_id command) (ps_selection_id s))
               (\<lambda>again.
             bindR (require (\<not> again)
                      (FinanceFinalizationConflict
                         ''Finalized selection belongs to active execution'')) (\<lambda>_.
             Inr None))))"

text \<open>The common end of both services: the Decision, its event, the projection.\<close>

definition commit_decision ::
    "'p store_env \<Rightarrow> decision \<Rightarrow> approval_satisfaction list \<Rightarrow> string \<Rightarrow> 'p case_db \<Rightarrow>
     'p case_db result" where
  "commit_decision env d satisfactions event_uuid db =
     bindR (insert_decision env d db) (\<lambda>db1.
     bindR (insert_satisfactions (dec_decision_id d) satisfactions db1) (\<lambda>db2.
     if dec_kind d = DK_APPROVED then
       bindR (insert_outbox env (planning_requested_for (''RL-OUTBOX-'' @ event_uuid) d) db2) (\<lambda>db3.
       set_current_decision env (dec_case_id d) (dec_decision_id d) db3)
     else mark_rejected env (dec_case_id d) (dec_decision_id d) db2))"

definition finalize_unit ::
    "'p service_env \<Rightarrow> finalize_proposal_command \<Rightarrow> identity_snapshot \<Rightarrow> string \<Rightarrow> string \<Rightarrow>
     datetime \<Rightarrow> string \<Rightarrow> string \<Rightarrow> 'p case_db \<Rightarrow> ('p case_db \<times> decision) result" where
  "finalize_unit sv command actor key fingerprint clock decision_uuid event_uuid db =
     (let env = sve_store sv; actors = sve_actors sv; expected = fpc_expected command;
          case_id = fpc_case_id command in
      bindR (get_decision_by_key env db key) (\<lambda>existing.
      case existing of
        Some d \<Rightarrow> bindR (existing_finalization actors d fingerprint) (\<lambda>r. Inr (db, r))
      | None \<Rightarrow>
          bindR (get_state env db case_id) (\<lambda>state.
          bindR (require (pst_token state = expected)
                   (StaleProposal ''Case analysis or proposal changed'')) (\<lambda>_.
          bindR (case pst_selection state of
                   None \<Rightarrow> Inr () | Some s \<Rightarrow> require_alex actors (ps_submitted_by s)) (\<lambda>_.
          bindR (get_projection env db case_id) (\<lambda>projection.
          let c = cpj_case projection in
          bindR (require (effective_workflow_version c = WV_INDEPENDENT_FINANCE)
                   (FinanceFinalizationInvalid ''Independent Finance workflow is required'')) (\<lambda>_.
          bindR (the_or (FinanceFinalizationInvalid ''Current analysis is required'')
                   (pt_analysis_id expected)) (\<lambda>analysis_id.
          bindR (get_analysis env db analysis_id) (\<lambda>a.
          bindR (require (av_case_id a = case_id \<and>
                          Some (av_material_hash a) = pt_analysis_material_hash expected)
                   (StaleProposal ''Analysis binding changed'')) (\<lambda>_.
          bindR (finalization_evidence sv command state db) (\<lambda>evidence.
          bindR (mk_record_decision_command
                   \<lparr>rdc_case_id = case_id, rdc_analysis_id = av_analysis_id a,
                    rdc_selected_option_id =
                      map_option (\<lambda>e. fp_option_id (ps_proposal (pae_selection e))) evidence,
                    rdc_kind = fpc_kind command, rdc_idempotency_key = key,
                    rdc_rejection_reason = fpc_rejection_reason command\<rparr>) (\<lambda>record1.
          bindR (authorize_independent_and_materialize record1 actor c projection a evidence)
            (\<lambda>satisfactions.
          bindR (service_now
                   (FinanceFinalizationInvalid ''Server clock must be timezone-aware'') clock)
            (\<lambda>decided_at.
          bindR (decision_from_command (''RL-DECISION-'' @ decision_uuid) record1 actor a
                   satisfactions fingerprint decided_at evidence) (\<lambda>d.
          bindR (if fpc_kind command = DK_APPROVED then guard_current env case_id expected db
                 else withdraw_current env case_id expected decided_at (dec_decision_id d) db)
            (\<lambda>(db1, _).
          bindR (commit_decision env d satisfactions event_uuid db1) (\<lambda>db2.
          Inr (db2, d))))))))))))))))))"

definition finalize_recover ::
    "'p service_env \<Rightarrow> finalize_proposal_command \<Rightarrow> string \<Rightarrow> string \<Rightarrow> 'p case_db \<Rightarrow>
     decision option result" where
  "finalize_recover sv command key fingerprint db =
     (let env = sve_store sv in
      bindR (get_decision_by_key env db key) (\<lambda>existing.
      case existing of
        Some d \<Rightarrow> bindR (existing_finalization (sve_actors sv) d fingerprint) (\<lambda>r. Inr (Some r))
      | None \<Rightarrow>
          bindR (get_state env db (fpc_case_id command)) (\<lambda>state.
          bindR (require (pst_token state = fpc_expected command)
                   (FinanceFinalizationConflict ''Finalization lost a current-state race'')) (\<lambda>_.
          Inr None))))"

text \<open>\<open>FINALIZATION_CONTENTION\<close> leaves the conflict of selections out.\<close>

definition finalization_contention :: "py_error \<Rightarrow> bool" where
  "finalization_contention e \<longleftrightarrow> contention e \<and> e \<noteq> SelectionIdempotencyConflict"

definition finalize_proposal ::
    "'p service_env \<Rightarrow> finalize_proposal_command \<Rightarrow> identity_snapshot \<Rightarrow> datetime \<Rightarrow> string \<Rightarrow>
     string \<Rightarrow> 'p case_db \<Rightarrow> 'p case_db \<Rightarrow> 'p case_db \<times> decision result" where
  "finalize_proposal sv command actor clock decision_uuid event_uuid db later =
     (case bindR (require_alex (sve_actors sv) actor) (\<lambda>_. authority_material_of actor) of
        Inl e \<Rightarrow> (db, Inl e)
      | Inr authority \<Rightarrow>
          let key = ''finance-finalize:'' @ fpc_idempotency_key command;
              fingerprint = sve_finalize_sha256 sv command authority in
          run_command finalization_contention
            (finalize_unit sv command actor key fingerprint clock decision_uuid event_uuid)
            (finalize_recover sv command key fingerprint) db later)"

section \<open>Decisions of the legacy workflow\<close>

definition independent_required :: py_error where
  "independent_required =
     DecisionPolicyViolation ''INDEPENDENT_FINANCE_REQUIRED''
       ''INDEPENDENT_FINANCE_REQUIRED: use FinanceDecisionService''"

definition existing_decision :: "decision \<Rightarrow> string \<Rightarrow> decision result" where
  "existing_decision d fingerprint =
     bindR (require (\<not> independent_decision d) independent_required) (\<lambda>_.
     bindR (require (dec_request_fingerprint d = fingerprint) IdempotencyKeyConflict) (\<lambda>_.
     Inr d))"

definition record_unit ::
    "'p service_env \<Rightarrow> record_decision_command \<Rightarrow> identity_snapshot \<Rightarrow> string \<Rightarrow> instant \<Rightarrow>
     string \<Rightarrow> string \<Rightarrow> 'p case_db \<Rightarrow> ('p case_db \<times> decision) result" where
  "record_unit sv command actor fingerprint now decision_uuid event_uuid db =
     (let env = sve_store sv in
      bindR (get_decision_by_key env db (rdc_idempotency_key command)) (\<lambda>existing.
      case existing of
        Some d \<Rightarrow> bindR (existing_decision d fingerprint) (\<lambda>r. Inr (db, r))
      | None \<Rightarrow>
          bindR (get_projection env db (rdc_case_id command)) (\<lambda>projection.
          let c = cpj_case projection in
          bindR (require (effective_workflow_version c \<noteq> WV_INDEPENDENT_FINANCE)
                   independent_required) (\<lambda>_.
          bindR (get_analysis env db (rdc_analysis_id command)) (\<lambda>a.
          bindR (authorize_and_materialize command actor c projection a) (\<lambda>satisfactions.
          bindR (decision_from_command (''RL-DECISION-'' @ decision_uuid) command actor a
                   satisfactions fingerprint now None) (\<lambda>d.
          bindR (commit_decision env d satisfactions event_uuid db) (\<lambda>db1.
          Inr (db1, d)))))))))"

text \<open>\<open>_load_idempotent_result\<close> after an \<open>IntegrityError\<close>; without a result the error is another.\<close>

definition record_decision ::
    "'p service_env \<Rightarrow> record_decision_command \<Rightarrow> identity_snapshot \<Rightarrow> instant \<Rightarrow> string \<Rightarrow>
     string \<Rightarrow> 'p case_db \<Rightarrow> 'p case_db \<Rightarrow> 'p case_db \<times> decision result" where
  "record_decision sv command actor now decision_uuid event_uuid db later =
     (let fingerprint = sve_record_sha256 sv command actor in
      run_command (\<lambda>e. e = IntegrityError)
        (record_unit sv command actor fingerprint now decision_uuid event_uuid)
        (\<lambda>db. bindR (get_decision_by_key (sve_store sv) db (rdc_idempotency_key command)) (\<lambda>existing.
           case existing of
             None \<Rightarrow> Inl (ImmutableRecordConflict
                      ''Decision transaction violated immutable persistence constraints'')
           | Some d \<Rightarrow> bindR (existing_decision d fingerprint) (\<lambda>r. Inr (Some r)))) db later)"

end
