(* ===== verification/Planning_Worker.thy ===== *)
theory Planning_Worker
  imports Finance_Service Planner Execution_Service
begin

text \<open>
  \<open>ActionPlanningWorker\<close> of \<open>services/execution/worker.py\<close>: it claims the planning event of a
  Decision, plans and stores the actions and marks the event processed, all in one unit of work;
  when that fails, a second unit records the failure.  The loops over events are those of
  \<open>apps/api/app/runtime.py\<close> and \<open>apps/api/app/dependencies.py\<close>.
\<close>

section \<open>Error codes\<close>

text \<open>\<open>type(error).__name__\<close>\<close>

fun class_name :: "py_error \<Rightarrow> string" where
  "class_name (ValueError _) = ''ValueError''"
| "class_name TypeError = ''TypeError''"
| "class_name ZeroDivisionError = ''ZeroDivisionError''"
| "class_name KeyError = ''KeyError''"
| "class_name AssertionError = ''AssertionError''"
| "class_name (PolicyViolation _) = ''PolicyViolation''"
| "class_name (FinanceReviewViolation _) = ''FinanceReviewViolation''"
| "class_name (InboundEmailError _) = ''InboundEmailError''"
| "class_name FinancePermissionDenied = ''FinancePermissionDenied''"
| "class_name (DecisionPolicyViolation _ _) = ''DecisionPolicyViolation''"
| "class_name (IllegalExecutionTransition _) = ''IllegalExecutionTransition''"
| "class_name (ExecutionProposalStale _) = ''ExecutionProposalStale''"
| "class_name (PersistenceIntegrityError _) = ''PersistenceIntegrityError''"
| "class_name (RecordNotFound _) = ''RecordNotFound''"
| "class_name (ImmutableRecordConflict _) = ''ImmutableRecordConflict''"
| "class_name FinanceReviewIdempotencyConflict = ''FinanceReviewIdempotencyConflict''"
| "class_name FinanceReviewRevisionConflict = ''FinanceReviewRevisionConflict''"
| "class_name (StaleProposal _) = ''StaleProposal''"
| "class_name IntegrityError = ''IntegrityError''"
| "class_name MultipleResultsFound = ''MultipleResultsFound''"
| "class_name (FinanceFinalizationConflict _) = ''FinanceFinalizationConflict''"
| "class_name (FinanceFinalizationInvalid _) = ''FinanceFinalizationInvalid''"
| "class_name EmailAuthorizationError = ''EmailAuthorizationError''"
| "class_name EmailRevisionConflict = ''EmailRevisionConflict''"
| "class_name (EmailStateError _) = ''EmailStateError''"
| "class_name EmailSendDisabled = ''EmailSendDisabled''"
| "class_name (PlaybackAuthorizationError _) = ''PlaybackAuthorizationError''"
| "class_name (PlaybackStateError _) = ''PlaybackStateError''"
| "class_name SelectionIdempotencyConflict = ''SelectionIdempotencyConflict''"
| "class_name PlaybackInterrupted = ''PlaybackInterrupted''"
| "class_name (RuntimeModeConflict _) = ''RuntimeModeConflict''"
| "class_name (AnalysisClaimBusy _) = ''AnalysisClaimBusy''"
| "class_name (FinanceCommandConflict _) = ''FinanceCommandConflict''"
| "class_name (FinanceRequestInvalid _) = ''FinanceRequestInvalid''"
| "class_name IdempotencyKeyConflict = ''IdempotencyKeyConflict''"
| "class_name PresenterRetentionPlanChanged = ''PresenterRetentionPlanChanged''"
| "class_name (WorkIQProtocolError _) = ''WorkIQProtocolError''"
| "class_name (WorkIQResponseLimitError _) = ''WorkIQResponseLimitError''"
| "class_name (AuthenticationError _) = ''AuthenticationError''"
| "class_name (AuthorizationError _) = ''AuthorizationError''"
| "class_name (GraphAuthenticationError _) = ''GraphAuthenticationError''"
| "class_name (GraphMailError _) = ''GraphMailError''"
| "class_name (GraphMailSubmissionUncertain _) = ''GraphMailSubmissionUncertain''"
| "class_name (CapabilityDiagnosticError _ _) = ''_CapabilityDiagnosticError''"
| "class_name HttpDecodingError = ''DecodingError''"
| "class_name (WorkIQSourceError _ _) = ''WorkIQSourceError''"
| "class_name (LiveSourceUnavailable _) = ''LiveSourceUnavailable''"
| "class_name (RuntimeError _) = ''RuntimeError''"

text \<open>\<open>re.sub(r"(?<!^)(?=[A-Z])", "_", name).upper()\<close>\<close>

definition upper_char :: "char \<Rightarrow> char" where
  "upper_char c = (if ascii_lower c then char_of ((of_char c :: int) - 32) else c)"

definition error_code :: "py_error \<Rightarrow> string" where
  "error_code e =
     (case class_name e of
        [] \<Rightarrow> []
      | c # cs \<Rightarrow>
          map upper_char (c # concat (map (\<lambda>c. if ascii_upper c then [CHR ''_'', c] else [c]) cs)))"

section \<open>Processing one event\<close>

type_synonym 'p worker_state = "'p case_db \<times> execution_db"

record worker_env =
  wke_planner :: planner_env
  wke_versions :: "workflow_version list option"

text \<open>
  Which events a call looks at: any pending one, only those without a failure, or that of one
  Decision.
\<close>

datatype event_choice = NextEvent | NextUnattempted | EventOf string

definition claim_for ::
    "worker_env \<Rightarrow> event_choice \<Rightarrow> instant \<Rightarrow> 'p case_db \<Rightarrow> ('p case_db \<times> outbox_claim option) result" where
  "claim_for wk choice now db =
     (let event_type = ''ActionPlanningRequested'' in
      case choice of
        EventOf i \<Rightarrow> claim_outbox (wke_versions wk) event_type (Some i) True now db
      | NextUnattempted \<Rightarrow> claim_outbox (wke_versions wk) event_type None False now db
      | NextEvent \<Rightarrow> claim_outbox (wke_versions wk) event_type None True now db)"

text \<open>The loop over the planned actions; every new action takes the next fresh event id.\<close>

fun insert_planned ::
    "'p store_env \<Rightarrow> 'p case_db \<Rightarrow> (nat \<Rightarrow> string) \<Rightarrow> nat \<Rightarrow> execution_action list \<Rightarrow> execution_db \<Rightarrow>
     execution_db result" where
  "insert_planned env db ids k [] x = Inr x"
| "insert_planned env db ids k (a # actions) x =
     bindR (insert_action_if_absent (database_cases env) db x (ids k) a) (\<lambda>(x', _).
     insert_planned env db ids (Suc k) actions x')"

text \<open>The body of the unit of work after the claim.\<close>

definition plan_claimed ::
    "'p store_env \<Rightarrow> worker_env \<Rightarrow> outbox_claim \<Rightarrow> (nat \<Rightarrow> string) \<Rightarrow> instant \<Rightarrow> 'p worker_state \<Rightarrow>
     'p worker_state result" where
  "plan_claimed env wk claim ids now state =
     (case state of (db, x) \<Rightarrow>
       bindR (validate_claimed_outbox claim db) (\<lambda>_.
       bindR (guard_execution_current env db (ocl_decision_id claim)) (\<lambda>(db1, d).
       bindR (get_analysis env db1 (dec_analysis_id d)) (\<lambda>a.
       bindR (plan_actions (wke_planner wk) d a) (\<lambda>planned.
       bindR (insert_planned env db1 ids 0 planned x) (\<lambda>x1.
       bindR (mark_outbox_processed (ocl_event_id claim) now db1) (\<lambda>db2.
       bindR (mark_action_planning_complete env (dec_case_id d) db2) (\<lambda>db3.
       Inr (db3, x1)))))))))"

section \<open>Recording a failure\<close>

definition event_only_failure ::
    "outbox_claim \<Rightarrow> string \<Rightarrow> instant \<Rightarrow> 'p case_db \<Rightarrow> ('p case_db \<times> bool) result" where
  "event_only_failure claim code now db =
     bindR (get_outbox_state (ocl_event_id claim) db) (\<lambda>expected.
     record_outbox_failure_if_current (ocl_event_id claim) expected code now db)"

text \<open>The unit that records the failure; the flag says that the workflow is known to be independent.\<close>

definition failure_unit ::
    "'p store_env \<Rightarrow> outbox_claim \<Rightarrow> py_error \<Rightarrow> instant \<Rightarrow> 'p case_db \<Rightarrow>
     bool \<times> ('p case_db \<times> bool) result" where
  "failure_unit env claim error now db =
     (case get_projection env db (ocl_case_id claim) of
        Inl e \<Rightarrow> (False, Inl e)
      | Inr projection \<Rightarrow>
          if effective_workflow_version (cpj_case projection) \<noteq> WV_INDEPENDENT_FINANCE then
            (False,
             bindR (record_outbox_failure (ocl_event_id claim) (error_code error) db) (\<lambda>db1.
             bindR (mark_action_planning_failed env (ocl_case_id claim) db1) (\<lambda>db2.
             Inr (db2, True))))
          else
            (True,
             bindR (get_outbox_state (ocl_event_id claim) db) (\<lambda>expected.
             if ops_processed_at expected \<noteq> None \<or> ops_last_error expected = Some STALE_ERROR
             then Inr (db, False)
             else
               bindR (guard_execution_current env db (ocl_decision_id claim)) (\<lambda>(db1, d).
               bindR (record_outbox_failure_if_current (ocl_event_id claim) expected
                        (error_code error) now db1) (\<lambda>(db2, changed).
               if \<not> changed then Inr (db, False)
               else
                 bindR (mark_action_planning_failed env (dec_case_id d) db2) (\<lambda>db3.
                 Inr (db3, True)))))))"

definition recover_failure ::
    "'p store_env \<Rightarrow> outbox_claim \<Rightarrow> py_error \<Rightarrow> instant \<Rightarrow> 'p case_db \<Rightarrow> 'p case_db \<times> bool result" where
  "recover_failure env claim error now db =
     (let event_only = (\<lambda>code result.
            case event_only_failure claim code now db of
              Inl e \<Rightarrow> (db, Inl e) | Inr (db', _) \<Rightarrow> (db', result)) in
      case error of
        ExecutionProposalStale _ \<Rightarrow> event_only STALE_ERROR (Inr False)
      | _ \<Rightarrow>
          (case failure_unit env claim error now db of
             (_, Inr (db', r)) \<Rightarrow> (db', Inr r)
           | (known, Inl e) \<Rightarrow>
               (case e of
                  ExecutionProposalStale _ \<Rightarrow> event_only STALE_ERROR (Inr False)
                | _ \<Rightarrow> if known then event_only (error_code error) (Inl e) else (db, Inl e))))"

text \<open>
  \<open>_process_outbox\<close>: true when an event was planned or its failure recorded, so that the caller
  goes on with the next one.  The claim is rolled back with the unit that fails.
\<close>

definition process_outbox ::
    "'p store_env \<Rightarrow> worker_env \<Rightarrow> event_choice \<Rightarrow> (nat \<Rightarrow> string) \<Rightarrow> instant \<Rightarrow> 'p worker_state \<Rightarrow>
     'p worker_state \<times> bool result" where
  "process_outbox env wk choice ids now state =
     (case state of (db, x) \<Rightarrow>
       case claim_for wk choice now db of
         Inl e \<Rightarrow> (state, Inl e)
       | Inr (_, None) \<Rightarrow> (state, Inr False)
       | Inr (db1, Some claim) \<Rightarrow>
           (case plan_claimed env wk claim ids now (db1, x) of
              Inr (db2, x2) \<Rightarrow> ((db2, x2), Inr True)
            | Inl e \<Rightarrow>
                (case recover_failure env claim e now db of (db', r) \<Rightarrow> ((db', x), r))))"

section \<open>Loops over events\<close>

text \<open>
  \<open>while process_next_unattempted_outbox(): pass\<close> and \<open>while process_next_outbox(): pass\<close>, with
  what the \<open>k\<close>-th round draws.  None stands for a loop that does not end.
\<close>

partial_function (option) process_while ::
    "'p store_env \<Rightarrow> worker_env \<Rightarrow> event_choice \<Rightarrow> (nat \<Rightarrow> nat \<Rightarrow> string) \<Rightarrow> (nat \<Rightarrow> instant) \<Rightarrow> nat \<Rightarrow>
     'p worker_state \<Rightarrow> ('p worker_state \<times> unit result) option" where
  "process_while env wk choice ids clock k state =
     (case process_outbox env wk choice (ids k) (clock k) state of
        (state', Inl e) \<Rightarrow> Some (state', Inl e)
      | (state', Inr again) \<Rightarrow>
          if again then process_while env wk choice ids clock (Suc k) state'
          else Some (state', Inr ()))"

definition advance_planning ::
    "'p store_env \<Rightarrow> worker_env \<Rightarrow> (nat \<Rightarrow> nat \<Rightarrow> string) \<Rightarrow> (nat \<Rightarrow> instant) \<Rightarrow> 'p worker_state \<Rightarrow>
     ('p worker_state \<times> unit result) option" where
  "advance_planning env wk ids clock = process_while env wk NextUnattempted ids clock 0"

definition run_worker_until_idle ::
    "'p store_env \<Rightarrow> worker_env \<Rightarrow> (nat \<Rightarrow> nat \<Rightarrow> string) \<Rightarrow> (nat \<Rightarrow> instant) \<Rightarrow> 'p worker_state \<Rightarrow>
     ('p worker_state \<times> unit result) option" where
  "run_worker_until_idle env wk ids clock = process_while env wk NextEvent ids clock 0"

end
