(* ===== verification/Database_History.thy ===== *)
theory Database_History
  imports Planning_Worker
begin

text \<open>
  How the tables change over time: every committed unit of work, whoever runs it, only appends to
  the tables of records, keeps the order of the projections and only raises generations; a Decision
  and its planning event are added together.
\<close>

section \<open>Growing tables\<close>

definition list_grows :: "('a \<Rightarrow> 'a \<Rightarrow> bool) \<Rightarrow> 'a list \<Rightarrow> 'a list \<Rightarrow> bool" where
  "list_grows R xs ys \<longleftrightarrow> (\<exists>zs rest. ys = zs @ rest \<and> list_all2 R xs zs)"

lemma list_grows_refl [simp]: "(\<And>x. R x x) \<Longrightarrow> list_grows R xs xs"
  unfolding list_grows_def by (intro exI [of _ xs] exI [of _ "[]"]) (simp add: list.rel_refl)

lemma list_grows_trans:
  assumes "list_grows R xs ys" and "list_grows R ys zs" and "\<And>x y z. R x y \<Longrightarrow> R y z \<Longrightarrow> R x z"
  shows "list_grows R xs zs"
proof -
  obtain ys1 m1 where 1: "ys = ys1 @ m1" "list_all2 R xs ys1" using assms(1) by (auto simp: list_grows_def)
  obtain zs1 m2 where 2: "zs = zs1 @ m2" "list_all2 R ys zs1" using assms(2) by (auto simp: list_grows_def)
  from 1(1) 2(2) obtain za zb where 3: "zs1 = za @ zb" "list_all2 R ys1 za"
    by (auto simp: list_all2_append1)
  have "list_all2 R xs za" by (rule list_all2_trans [OF assms(3) 1(2) 3(2)])
  with 2(1) 3(1) show ?thesis unfolding list_grows_def by (intro exI [of _ za] exI [of _ "zb @ m2"]) simp
qed

lemma list_grows_append: "(\<And>x. R x x) \<Longrightarrow> list_grows R xs (xs @ rest)"
  unfolding list_grows_def by (intro exI [of _ xs] exI [of _ rest]) (simp add: list.rel_refl)

lemma list_grows_map: "(\<And>x. x \<in> set xs \<Longrightarrow> R x (f x)) \<Longrightarrow> list_grows R xs (map f xs)"
  unfolding list_grows_def
  by (intro exI [of _ "map f xs"] exI [of _ "[]"]) (simp add: list_all2_map2 list.rel_refl_strong)

lemma list_growsD: "list_grows R xs ys \<Longrightarrow> x \<in> set xs \<Longrightarrow> \<exists>y \<in> set ys. R x y"
  unfolding list_grows_def by (auto simp: list_all2_conv_all_nth in_set_conv_nth) (meson UnI1 nth_mem)

definition projection_grows :: "case_projection_row \<Rightarrow> case_projection_row \<Rightarrow> bool" where
  "projection_grows r r' \<longleftrightarrow> jrow_case_id r' = jrow_case_id r \<and>
     jrow_proposal_generation r \<le> jrow_proposal_generation r'"

lemma projection_grows_refl [simp]: "projection_grows r r"
  by (simp add: projection_grows_def)

lemma projection_grows_trans: "projection_grows a b \<Longrightarrow> projection_grows b c \<Longrightarrow> projection_grows a c"
  by (simp add: projection_grows_def)

definition tables_grow :: "'p case_db \<Rightarrow> 'p case_db \<Rightarrow> bool" where
  "tables_grow a b \<longleftrightarrow>
     prefix (cdb_cases a) (cdb_cases b) \<and> prefix (cdb_snapshots a) (cdb_snapshots b) \<and>
     list_grows projection_grows (cdb_projections a) (cdb_projections b) \<and>
     prefix (cdb_analyses a) (cdb_analyses b) \<and> prefix (cdb_evidence a) (cdb_evidence b) \<and>
     prefix (cdb_satisfactions a) (cdb_satisfactions b) \<and>
     prefix (cdb_selections a) (cdb_selections b) \<and> prefix (cdb_decisions a) (cdb_decisions b) \<and>
     prefix (cdb_reviews a) (cdb_reviews b)"

lemma tables_grow_refl [simp]: "tables_grow a a"
  by (simp add: tables_grow_def)

lemma tables_grow_trans: "tables_grow a b \<Longrightarrow> tables_grow b c \<Longrightarrow> tables_grow a c"
  unfolding tables_grow_def
  by (elim conjE, intro conjI; (rule prefix_order.trans, assumption+ |
    rule list_grows_trans, assumption+, rule projection_grows_trans))

text \<open>Most operations leave the Decisions and the planning events alone.\<close>

abbreviation kept :: "'p case_db \<Rightarrow> 'p case_db \<Rightarrow> bool" where
  "kept db db' \<equiv> cdb_outbox db' = cdb_outbox db \<and> cdb_decisions db' = cdb_decisions db"

section \<open>Each operation\<close>

lemma set_projection_grows:
  assumes "\<And>r. jrow_case_id (f r) = jrow_case_id r \<and> jrow_proposal_generation (f r) = jrow_proposal_generation r"
  shows "tables_grow db (set_projection i f db)"
  unfolding tables_grow_def set_projection_def using assms
  by (auto intro!: list_grows_map simp: projection_grows_def)

lemma set_projection_kept [simp]:
  "cdb_outbox (set_projection i f db) = cdb_outbox db"
  "cdb_decisions (set_projection i f db) = cdb_decisions db"
  by (simp_all add: set_projection_def)

lemma update_projection_row_Inr:
  "update_projection_row i f db = Inr db' \<Longrightarrow> db' = set_projection i f db"
  by (auto simp: update_projection_row_def result_simps)

lemma set_decision_projection_grows:
  "set_decision_projection env i d s db = Inr db' \<Longrightarrow> tables_grow db db' \<and> kept db db'"
  by (auto simp: set_decision_projection_def elim!: bindR_InrE dest!: update_projection_row_Inr
      intro!: set_projection_grows)

lemma set_case_status_grows:
  "set_case_status env i s db = Inr db' \<Longrightarrow> tables_grow db db' \<and> kept db db'"
  by (auto simp: set_case_status_def elim!: bindR_InrE dest!: update_projection_row_Inr
      intro!: set_projection_grows)

lemma save_case_projection_grows:
  "save_case_projection env c db = Inr db' \<Longrightarrow> tables_grow db db' \<and> kept db db'"
  by (auto simp: save_case_projection_def elim!: bindR_InrE dest!: update_projection_row_Inr
      intro!: set_projection_grows)

lemma insert_unique_Inr: "insert_unique k rows r = Inr rows' \<Longrightarrow> rows' = rows @ [r] \<and> k r \<notin> k ` set rows"
  by (auto simp: insert_unique_def split: if_splits)

lemma integrity_as_Inr [result_simps]: "integrity_as e r = Inr x \<longleftrightarrow> r = Inr x"
  by (auto simp: integrity_as_def split: sum.splits py_error.splits)

lemma create_case_grows:
  "create_case env c s db = Inr db' \<Longrightarrow> tables_grow db db' \<and> kept db db'"
  by (auto simp: create_case_def insert_case_def result_simps tables_grow_def list_grows_append
      dest!: insert_unique_Inr)

lemma cas_projection_grows:
  assumes "cas_projection i t f db = Inr db'"
    and "\<And>r. jrow_case_id (f r) = jrow_case_id r"
  shows "tables_grow db db'" and "kept db db'"
  using assms
  by (auto simp: cas_projection_def result_simps Let_def tables_grow_def projection_grows_def
      token_of_row_def intro!: list_grows_map)

lemma append_review_grows:
  "append_review env r n k fp db = Inr (db', x) \<Longrightarrow> tables_grow db db' \<and> kept db db'"
  by (auto simp: append_review_def append_revision_def insert_finance_row_def finance_view_def
      tables_grow_def elim!: bindR_InrE split: append_plan.splits if_splits prod.splits)

lemma supersede_state_grows:
  "supersede_state env s now i op db = Inr db' \<Longrightarrow> tables_grow db db' \<and> kept db db'"
  by (auto simp: supersede_state_def elim!: bindR_InrE dest: append_review_grows split: option.splits prod.splits)

lemma cas_selection_grows:
  "cas_projection i t (jrow_current_selection_id_update (\<lambda>_. v)) db = Inr db' \<Longrightarrow>
   tables_grow db db' \<and> kept db db'"
  using cas_projection_grows [of i t "jrow_current_selection_id_update (\<lambda>_. v)" db db'] by simp

lemma insert_selection_grows:
  "insert_selection r db = Inr db' \<Longrightarrow> tables_grow db db' \<and> kept db db'"
  by (auto simp: insert_selection_def tables_grow_def Let_def split: if_splits)

lemma publish_grows:
  assumes "publish env r db = Inr (db', s)"
  shows "tables_grow db db' \<and> kept db db'"
proof (cases "get_selection_by_key env db (sr_idempotency_key r)")
  case (Inl e)
  with assms show ?thesis by (simp add: publish_def)
next
  case (Inr replay)
  with assms show ?thesis
    by (cases replay)
      (auto simp: publish_def Let_def elim!: bindR_InrE split: if_splits prod.splits
        dest!: insert_selection_grows cas_selection_grows supersede_state_grows
        intro: tables_grow_trans)
qed

lemma guard_current_grows:
  assumes "guard_current env i t db = Inr (db', t')"
  shows "tables_grow db db' \<and> kept db db'"
proof -
  from assms have "cas_projection i t (\<lambda>r. r\<lparr>jrow_current_selection_id := pt_selection_id t\<rparr>) db = Inr db'"
    by (auto simp: guard_current_def elim!: bindR_InrE)
  from cas_projection_grows [OF this] show ?thesis by simp
qed

lemma withdraw_current_grows:
  "withdraw_current env i t now op db = Inr (db', t') \<Longrightarrow>
   tables_grow db db' \<and> kept db db'"
  by (auto simp: withdraw_current_def elim!: bindR_InrE split: option.splits prod.splits
      dest!: cas_selection_grows append_review_grows intro: tables_grow_trans)


lemma projected_values_keeps:
  "projected_values a c p row = Inr f \<Longrightarrow>
   jrow_case_id (f r) = jrow_case_id r \<and> jrow_proposal_generation (f r) = jrow_proposal_generation r"
  by (auto simp: projected_values_def elim!: bindR_InrE split: option.splits if_splits)

lemma insert_evidence_rows_grows:
  "insert_evidence_rows rows db = Inr db' \<Longrightarrow> tables_grow db db' \<and> kept db db'"
  by (auto simp: insert_evidence_rows_def tables_grow_def Let_def split: if_splits)

lemma insert_satisfaction_rows_grows:
  "insert_satisfaction_rows rows db = Inr db' \<Longrightarrow> tables_grow db db' \<and> kept db db'"
  by (auto simp: insert_satisfaction_rows_def tables_grow_def Let_def split: if_splits)

lemma update_projection_row_grows:
  assumes "update_projection_row i f db = Inr db'"
    and "\<And>r. jrow_case_id (f r) = jrow_case_id r \<and> jrow_proposal_generation (f r) = jrow_proposal_generation r"
  shows "tables_grow db db' \<and> kept db db'"
  using update_projection_row_Inr [OF assms(1)] set_projection_grows [OF assms(2), of db i]
  by (simp add: set_projection_def)

lemma save_analysis_connection_grows:
  assumes "save_analysis_connection env a p now db = Inr db'"
  shows "tables_grow db db' \<and> kept db db'"
proof -
  from assms obtain c st rows db1 db2 row f where
    rows: "insert_unique nrow_analysis_id (cdb_analyses db) (analysis_row_of a) = Inr rows"
    and db1: "insert_evidence_rows (map (evidence_row_of (av_analysis_id a)) (av_evidence_items a))
      (db\<lparr>cdb_analyses := rows\<rparr>) = Inr db1"
    and db2: "insert_satisfaction_rows
      (map (\<lambda>s. (satisfaction_row_of None s)\<lparr>frow_analysis_id := av_analysis_id a\<rparr>)
        (av_approval_satisfactions a)) db1 = Inr db2"
    and f: "projected_values a c p row = Inr f"
    and db': "(case st of
       None \<Rightarrow> update_projection_row (av_case_id a) f db2
     | Some state \<Rightarrow>
         bindR (cas_projection (av_case_id a) (pst_token state)
                  (\<lambda>r. (f r)\<lparr>jrow_current_selection_id := None\<rparr>) db2) (\<lambda>db3.
         supersede_state env state now (av_analysis_id a) ''analysis-supersede'' db3)) = Inr db'"
    unfolding save_analysis_connection_def by (elim bindR_InrE) (rule that; assumption)
  have "tables_grow db (db\<lparr>cdb_analyses := rows\<rparr>)"
    using insert_unique_Inr [OF rows] by (simp add: tables_grow_def)
  moreover have "tables_grow (db\<lparr>cdb_analyses := rows\<rparr>) db1 \<and> kept db db1"
    using insert_evidence_rows_grows [OF db1] by simp
  moreover have "tables_grow db1 db2 \<and> kept db1 db2"
    by (rule insert_satisfaction_rows_grows [OF db2])
  moreover have "tables_grow db2 db' \<and> kept db2 db'"
  proof (cases st)
    case None
    with db' have "update_projection_row (av_case_id a) f db2 = Inr db'" by simp
    then show ?thesis by (rule update_projection_row_grows) (rule projected_values_keeps [OF f])
  next
    case (Some state)
    with db' obtain db3 where
      3: "cas_projection (av_case_id a) (pst_token state)
        (\<lambda>r. (f r)\<lparr>jrow_current_selection_id := None\<rparr>) db2 = Inr db3"
      and 4: "supersede_state env state now (av_analysis_id a) ''analysis-supersede'' db3 = Inr db'"
      by (auto elim!: bindR_InrE)
    have "tables_grow db2 db3" "kept db2 db3"
      using cas_projection_grows [OF 3] projected_values_keeps [OF f] by simp_all
    with supersede_state_grows [OF 4] show ?thesis by (auto intro: tables_grow_trans)
  qed
  ultimately show ?thesis by (auto intro: tables_grow_trans)
qed

lemma save_analysis_grows:
  "save_analysis env a p now db = Inr db' \<Longrightarrow> tables_grow db db' \<and> kept db db'"
  by (simp add: save_analysis_def result_simps save_analysis_connection_grows)

lemma claims_grow [simp]:
  "tables_grow (db\<lparr>cdb_claims := cs\<rparr>) db' = tables_grow db db'"
  "tables_grow db (db'\<lparr>cdb_claims := cs\<rparr>) = tables_grow db db'"
  by (simp_all add: tables_grow_def)

lemma try_claim_grows:
  "try_claim_analysis env i v k t l db = Inr (db', b) \<Longrightarrow>
   tables_grow db db' \<and> kept db db'"
  by (auto simp: try_claim_analysis_def Let_def elim!: bindR_InrE split: if_splits)

lemma release_claim_grows:
  "tables_grow db (release_analysis_claim i v k db) \<and>
   kept db (release_analysis_claim i v k db)"
  by (simp add: release_analysis_claim_def)

lemma complete_claim_grows:
  "complete_analysis_claim env a c v k t now db = Inr (db', b) \<Longrightarrow>
   tables_grow db db' \<and> kept db db'"
  by (auto simp: complete_analysis_claim_def result_simps Let_def elim!: bindR_InrE
      dest!: save_analysis_connection_grows)

lemma insert_decision_grows:
  "insert_decision env d db = Inr db' \<Longrightarrow> tables_grow db db' \<and> cdb_outbox db' = cdb_outbox db \<and>
   cdb_decisions db' = cdb_decisions db @ [decision_row_of d] \<and>
   dec_decision_id d \<notin> lrow_decision_id ` set (cdb_decisions db)"
  by (auto simp: insert_decision_def decision_row_of_def tables_grow_def elim!: bindR_InrE dest!: insert_unique_Inr)

lemma insert_satisfactions_grows:
  "insert_satisfactions i ss db = Inr db' \<Longrightarrow> tables_grow db db' \<and> kept db db'"
  by (auto simp: insert_satisfactions_def elim!: bindR_InrE split: if_splits
      dest!: insert_satisfaction_rows_grows)

lemma insert_outbox_grows:
  assumes "insert_outbox env e db = Inr db'"
  shows "tables_grow db db' \<and> cdb_outbox db' = cdb_outbox db @ [outbox_row_of e] \<and>
    cdb_decisions db' = cdb_decisions db \<and>
    apr_event_id e \<notin> orow_event_id ` set (cdb_outbox db) \<and>
    (apr_decision_id e, apr_event_type e) \<notin>
      (\<lambda>r. (orow_decision_id r, orow_event_type r)) ` set (cdb_outbox db)"
  using assms
  by (auto simp: insert_outbox_def tables_grow_def result_simps outbox_row_of_def dest!: insert_unique_Inr)

lemma guard_execution_grows:
  assumes "guard_execution_current env db i = Inr (db', d)"
  shows "tables_grow db db' \<and> kept db db'"
proof -
  from assms have "db' = db \<or> (\<exists>t t'. guard_current env (dec_case_id d) t db = Inr (db', t'))"
    by (auto simp: guard_execution_current_def stale_as_execution_stale_def elim!: bindR_InrE
        split: option.splits sum.splits py_error.splits)
  then show ?thesis by (auto dest: guard_current_grows)
qed

section \<open>Commands\<close>

text \<open>A committed Decision adds its pending planning event when it approves.\<close>

definition new_decision :: "'p case_db \<Rightarrow> 'p case_db \<Rightarrow> bool" where
  "new_decision db db' \<longleftrightarrow> kept db db' \<or>
     (\<exists>d. cdb_decisions db' = cdb_decisions db @ [decision_row_of d] \<and>
        dec_decision_id d \<notin> lrow_decision_id ` set (cdb_decisions db) \<and>
        (if dec_kind d = DK_APPROVED
         then \<exists>e. cdb_outbox db' = cdb_outbox db @ [outbox_row_of e] \<and>
                apr_claim_status e = OCS_PENDING \<and> apr_decision_id e = dec_decision_id d \<and>
                apr_event_id e \<notin> orow_event_id ` set (cdb_outbox db)
         else cdb_outbox db' = cdb_outbox db))"

lemma new_decision_refl [simp]: "new_decision db db"
  by (simp add: new_decision_def)

lemma new_decision_kept: "new_decision db1 db2 \<Longrightarrow> kept db db1 \<Longrightarrow> new_decision db db2"
  by (elim conjE) (simp only: new_decision_def)

lemma commit_decision_grows:
  assumes "commit_decision env d ss u db = Inr db'"
  shows "tables_grow db db' \<and> new_decision db db'"
proof -
  from assms obtain db1 db2 where
    1: "insert_decision env d db = Inr db1" and 2: "insert_satisfactions (dec_decision_id d) ss db1 = Inr db2"
    and 3: "(if dec_kind d = DK_APPROVED then
       bindR (insert_outbox env (planning_requested_for (''RL-OUTBOX-'' @ u) d) db2) (\<lambda>db3.
       set_current_decision env (dec_case_id d) (dec_decision_id d) db3)
     else mark_rejected env (dec_case_id d) (dec_decision_id d) db2) = Inr db'"
    unfolding commit_decision_def by (elim bindR_InrE)
  have 12: "tables_grow db db2" "cdb_outbox db2 = cdb_outbox db"
    "cdb_decisions db2 = cdb_decisions db @ [decision_row_of d]"
    "dec_decision_id d \<notin> lrow_decision_id ` set (cdb_decisions db)"
    using insert_decision_grows [OF 1] insert_satisfactions_grows [OF 2] by (auto intro: tables_grow_trans)
  show ?thesis
  proof (cases "dec_kind d = DK_APPROVED")
    case True
    let ?e = "planning_requested_for (''RL-OUTBOX-'' @ u) d"
    from True 3 obtain db3 where 4: "insert_outbox env ?e db2 = Inr db3"
      and 5: "set_decision_projection env (dec_case_id d) (dec_decision_id d) CS_ACTION_PLANNING db3 = Inr db'"
      by (auto simp: set_current_decision_def elim!: bindR_InrE)
    have "apr_claim_status ?e = OCS_PENDING" "apr_decision_id ?e = dec_decision_id d"
      by (simp_all add: planning_requested_for_def)
    with insert_outbox_grows [OF 4] set_decision_projection_grows [OF 5] 12 True show ?thesis
      unfolding new_decision_def by (intro conjI disjI2 exI [of _ d]) (auto intro: tables_grow_trans)
  next
    case False
    with 3 have "set_decision_projection env (dec_case_id d) (dec_decision_id d) CS_DECISION_REJECTED db2 = Inr db'"
      by (simp add: mark_rejected_def)
    from set_decision_projection_grows [OF this] 12 False show ?thesis
      unfolding new_decision_def by (intro conjI disjI2 exI [of _ d]) (auto intro: tables_grow_trans)
  qed
qed

lemma submit_unit_grows:
  assumes "submit_unit sv c actor k fp t u v db = Inr (db', r)"
  shows "tables_grow db db' \<and> kept db db'"
proof (cases "submission_replay sv k fp db")
  case (Inl e)
  with assms show ?thesis by (simp add: submit_unit_def)
next
  case (Inr replay)
  show ?thesis
  proof (cases replay)
    case None
    from assms Inr None show ?thesis
      by (auto simp: submit_unit_def Let_def elim!: bindR_InrE split: if_splits prod.splits
          dest!: append_review_grows publish_grows intro: tables_grow_trans)
  next
    case (Some res)
    with assms Inr show ?thesis by (simp add: submit_unit_def)
  qed
qed

lemma resolve_unit_grows:
  assumes "resolve_unit sv c actor k fp t db = Inr (db', r)"
  shows "tables_grow db db' \<and> kept db db'"
  using assms
  by (auto simp: resolve_unit_def Let_def elim!: bindR_InrE split: option.splits prod.splits
      dest!: append_review_grows guard_current_grows intro: tables_grow_trans)

lemma finalize_unit_grows:
  assumes "finalize_unit sv c actor k fp t u v db = Inr (db', d)"
  shows "tables_grow db db' \<and> new_decision db db'"
proof (cases "get_decision_by_key (sve_store sv) db k")
  case (Inl e)
  with assms show ?thesis by (simp add: finalize_unit_def)
next
  case (Inr existing)
  show ?thesis
  proof (cases existing)
    case None
    from assms Inr None obtain d ss db1 now tok where
      "guard_current (sve_store sv) (fpc_case_id c) (fpc_expected c) db = Inr (db1, tok) \<or>
       withdraw_current (sve_store sv) (fpc_case_id c) (fpc_expected c) now (dec_decision_id d) db = Inr (db1, tok)"
      and "commit_decision (sve_store sv) d ss v db1 = Inr db'"
      by (auto simp: finalize_unit_def Let_def elim!: bindR_InrE split: if_splits prod.splits) blast+
    then show ?thesis
      by (auto dest!: guard_current_grows withdraw_current_grows commit_decision_grows
          intro: tables_grow_trans new_decision_kept)
  next
    case (Some d0)
    with assms Inr show ?thesis by (auto simp: finalize_unit_def elim!: bindR_InrE)
  qed
qed

lemma record_unit_grows:
  assumes "record_unit sv c actor fp now u v db = Inr (db', d)"
  shows "tables_grow db db' \<and> new_decision db db'"
  using assms
  by (auto simp: record_unit_def Let_def elim!: bindR_InrE split: option.splits
      dest!: commit_decision_grows)

lemma run_command_state:
  assumes "run_command lost f g db later = (db', r)"
  shows "db' = db \<or> (\<exists>x. f db = Inr (db', x) \<and> r = Inr x)"
  using assms by (auto simp: run_command_def split: sum.splits if_splits)

lemma submit_proposal_grows:
  assumes "submit_proposal sv c actor t u v db later = (db', r)"
  shows "tables_grow db db' \<and> kept db db'"
  using assms
  by (auto simp: submit_proposal_def Let_def split: sum.splits
      dest!: run_command_state submit_unit_grows)

lemma resolve_review_grows:
  assumes "resolve_review sv c actor t db later = (db', r)"
  shows "tables_grow db db' \<and> kept db db'"
  using assms
  by (auto simp: resolve_review_def Let_def split: sum.splits
      dest!: run_command_state resolve_unit_grows)

lemma finalize_proposal_grows:
  assumes "finalize_proposal sv c actor t u v db later = (db', r)"
  shows "tables_grow db db' \<and> new_decision db db'"
  using assms
  by (auto simp: finalize_proposal_def Let_def split: sum.splits
      dest!: run_command_state finalize_unit_grows)

lemma record_decision_grows:
  assumes "record_decision sv c actor now u v db later = (db', r)"
  shows "tables_grow db db' \<and> new_decision db db'"
  using assms
  by (auto simp: record_decision_def Let_def dest!: run_command_state record_unit_grows)

end
