(* ===== verification/Journey.thy ===== *)
theory Journey
  imports Planning_Worker
begin

text \<open>
  Two concrete journeys through the back end, from empty tables, that the witnesses run on.  In the
  first a Case of the legacy workflow is created and analysed, Alex records an approval and the
  worker plans its actions.  In the second a Case of the independent workflow is created and
  analysed and Alex rejects; the same token does not reject again.
\<close>

definition journey_store :: "finance_review store_env" where
  "journey_store =
     \<lparr>se_runtime_mode = RM_LIVE, se_snapshot_json = (\<lambda>_. []),
      se_material_hash = (\<lambda>_. replicate 64 CHR ''0''), se_review_json = review_as_text,
      se_supersede_sha256 = (\<lambda>_. replicate 64 CHR ''d'')\<rparr>"

definition journey_service :: "finance_review service_env" where
  "journey_service =
     \<lparr>sve_store = journey_store,
      sve_actors = \<lparr>bfa_tenant_id = 1, bfa_alex_object_id = 2, bfa_taylor_object_id = 3\<rparr>,
      sve_submit_sha256 = (\<lambda>_ _. replicate 64 CHR ''1''),
      sve_resolve_sha256 = (\<lambda>_ _. replicate 64 CHR ''2''),
      sve_finalize_sha256 = (\<lambda>_ _. replicate 64 CHR ''3''),
      sve_record_sha256 = (\<lambda>_ _. replicate 64 CHR ''4'')\<rparr>"

definition journey_worker :: worker_env where
  "journey_worker =
     \<lparr>wke_planner = \<lparr>ple_uuid5_url = (\<lambda>s. s),
        ple_parse_snapshot = (\<lambda>_. Some (rl001_snapshot ''CASE'' RM_LIVE))\<rparr>,
      wke_versions = None\<rparr>"

definition journey_snapshot :: operational_snapshot where
  "journey_snapshot = (rl001_snapshot ''CASE'' RM_LIVE)\<lparr>os_scenario_effective_time := 0\<rparr>"

definition journey_ids :: "nat \<Rightarrow> string" where
  "journey_ids k = ''X'' @ replicate k CHR ''I''"

definition empty_case_db :: "'p case_db" where
  "empty_case_db =
     \<lparr>cdb_cases = [], cdb_snapshots = [], cdb_projections = [], cdb_analyses = [],
      cdb_evidence = [], cdb_satisfactions = [], cdb_claims = [], cdb_selections = [],
      cdb_decisions = [], cdb_reviews = [], cdb_outbox = []\<rparr>"

section \<open>A legacy approval and its plan\<close>

definition legacy_case :: case_instance where
  "legacy_case = example_case\<lparr>ci_workflow_version := None\<rparr>"

definition legacy_option :: response_option where
  "legacy_option =
     example_option\<lparr>ro_prerequisite_roles := [''material_planner'', ''response_approver'']\<rparr>"

definition legacy_version :: analysis_version where
  "legacy_version =
     example_analysis\<lparr>av_response_options := [legacy_option],
       av_material := example_material\<lparr>am_response_options := [option_material legacy_option],
         am_approval_policy_version := approval_policy_for legacy_case\<rparr>\<rparr>"

definition legacy_command :: record_decision_command where
  "legacy_command = example_command\<lparr>rdc_idempotency_key := ''KEY''\<rparr>"

definition planned_facts ::
    "finance_review case_db \<Rightarrow> finance_review case_db \<Rightarrow> execution_db \<Rightarrow> bool" where
  "planned_facts db db' x' \<longleftrightarrow>
     map (\<lambda>r. (orow_event_id r, orow_processed_at r)) (cdb_outbox db) = [(''RL-OUTBOX-E'', None)] \<and>
     map (\<lambda>r. (orow_event_id r, orow_processed_at r)) (cdb_outbox db') = [(''RL-OUTBOX-E'', Some 400)] \<and>
     length (edb_actions x') = 3"

definition legacy_run :: bool where
  "legacy_run =
     (case create_case journey_store legacy_case journey_snapshot empty_case_db of
        Inl _ \<Rightarrow> False
      | Inr db1 \<Rightarrow>
     (case save_analysis journey_store legacy_version None 50 db1 of
        Inl _ \<Rightarrow> False
      | Inr db2 \<Rightarrow>
     (case record_decision journey_service legacy_command alex_identity 300 ''D'' ''E'' db2 db2 of
        (db3, r3) \<Rightarrow>
     (case process_outbox journey_store journey_worker NextUnattempted journey_ids 400
             (db3, empty_execution_db) of ((db4, x4), r4) \<Rightarrow>
        r4 = Inr True \<and> planned_facts db3 db4 x4))))"

lemma legacy_runs: legacy_run
  by code_simp

lemma legacy_journey:
  "\<exists>db1 db2 db3 r3 db4 x4.
     create_case journey_store legacy_case journey_snapshot empty_case_db = Inr db1 \<and>
     save_analysis journey_store legacy_version None 50 db1 = Inr db2 \<and>
     record_decision journey_service legacy_command alex_identity 300 ''D'' ''E'' db2 db2 = (db3, r3) \<and>
     process_outbox journey_store journey_worker NextUnattempted journey_ids 400
       (db3, empty_execution_db) = ((db4, x4), Inr True) \<and>
     planned_facts db3 db4 x4"
  using legacy_runs unfolding legacy_run_def
  by (auto split: sum.splits prod.splits)

section \<open>A rejection\<close>

definition rejection_token :: proposal_token where
  "rejection_token =
     \<lparr>pt_generation = 1, pt_analysis_id = Some ''ANALYSIS'',
      pt_analysis_material_hash = Some (replicate 64 CHR ''0''), pt_selection_id = None\<rparr>"

definition rejection_command :: "string \<Rightarrow> finalize_proposal_command" where
  "rejection_command key =
     \<lparr>fpc_case_id = ''CASE'', fpc_expected = rejection_token, fpc_kind = DK_REJECTED,
      fpc_idempotency_key = key, fpc_rejection_reason = Some ''no''\<rparr>"

definition rejection_run :: bool where
  "rejection_run =
     (case create_case journey_store example_case journey_snapshot empty_case_db of
        Inl _ \<Rightarrow> False
      | Inr db1 \<Rightarrow>
     (case save_analysis journey_store example_analysis None 50 db1 of
        Inl _ \<Rightarrow> False
      | Inr db2 \<Rightarrow>
     (case finalize_proposal journey_service (rejection_command ''K'') alex_identity (Aware 300)
             ''D'' ''E'' db2 db2 of (db3, r3) \<Rightarrow>
        map lrow_decision_id (cdb_decisions db2) \<noteq> map lrow_decision_id (cdb_decisions db3))))"

lemma rejection_runs: rejection_run
  by code_simp

lemma rejection_journey:
  "\<exists>db1 db2 db3 r3.
     create_case journey_store example_case journey_snapshot empty_case_db = Inr db1 \<and>
     save_analysis journey_store example_analysis None 50 db1 = Inr db2 \<and>
     finalize_proposal journey_service (rejection_command ''K'') alex_identity (Aware 300)
       ''D'' ''E'' db2 db2 = (db3, r3) \<and> db3 \<noteq> db2"
  using rejection_runs unfolding rejection_run_def
  by (auto split: sum.splits prod.splits)

end
