(* ===== verification/Planning_History.thy ===== *)
theory Planning_History
  imports Database_History Journey Execution_Invariants
begin

text \<open>
  The life of a planning event: what every committed unit of work does to the events, how the
  steps of the whole back end compose, and why draining the events ends.
\<close>

section \<open>Planning events\<close>

text \<open>An event is closed for good when it is processed or its Decision went stale.\<close>

definition event_closed :: "outbox_row \<Rightarrow> bool" where
  "event_closed r \<longleftrightarrow> orow_processed_at r \<noteq> None \<or> orow_last_error r = Some STALE_ERROR"

definition event_grows :: "outbox_row \<Rightarrow> outbox_row \<Rightarrow> bool" where
  "event_grows r r' \<longleftrightarrow>
     orow_event_id r' = orow_event_id r \<and> orow_decision_id r' = orow_decision_id r \<and>
     orow_event_type r' = orow_event_type r \<and> orow_payload r' = orow_payload r \<and>
     orow_created_at r' = orow_created_at r \<and> orow_available_at r' = orow_available_at r \<and>
     orow_attempt_count r \<le> orow_attempt_count r' \<and> (event_closed r \<longrightarrow> r' = r)"

lemma event_grows_refl [simp]: "event_grows r r"
  by (simp add: event_grows_def)

lemma event_grows_trans: "event_grows a b \<Longrightarrow> event_grows b c \<Longrightarrow> event_grows a c"
  by (auto simp: event_grows_def)

text \<open>
  No committed event is claimed: the claim is taken and given up in one unit of work.
\<close>

definition event_settled :: "outbox_row \<Rightarrow> bool" where
  "event_settled r \<longleftrightarrow>
     orow_claim_status r = ''pending'' \<and> orow_processed_at r = None \<or>
     orow_claim_status r = ''processed'' \<and> orow_processed_at r \<noteq> None"

definition events_ok :: "outbox_row list \<Rightarrow> bool" where
  "events_ok rows \<longleftrightarrow> distinct (map orow_event_id rows) \<and> (\<forall>r \<in> set rows. event_settled r)"

lemma new_decision_ok:
  assumes "events_ok (cdb_outbox db)" and "new_decision db db'"
  shows "events_ok (cdb_outbox db') \<and> list_grows event_grows (cdb_outbox db) (cdb_outbox db')"
  using assms unfolding new_decision_def
  by (auto simp: events_ok_def event_settled_def outbox_row_of_def split: if_splits
      intro!: list_grows_append)

lemma map_if_ids:
  "(\<And>r. orow_event_id (f r) = orow_event_id r) \<Longrightarrow>
   map orow_event_id (map (\<lambda>r. if p r then f r else r) xs) = map orow_event_id xs"
  by auto

lemma events_ok_map:
  assumes "events_ok xs" and "\<And>r. orow_event_id (f r) = orow_event_id r"
    and "\<And>r. r \<in> set xs \<Longrightarrow> event_settled r \<Longrightarrow> p r \<Longrightarrow> event_settled (f r) \<and> event_grows r (f r)"
  shows "events_ok (map (\<lambda>r. if p r then f r else r) xs) \<and>
    list_grows event_grows xs (map (\<lambda>r. if p r then f r else r) xs)"
  using assms map_if_ids [of f p xs] unfolding events_ok_def
  by (auto simp del: map_map intro!: list_grows_map)

lemma failed_values_ok:
  assumes "event_settled r" and "orow_processed_at r = None" and "orow_last_error r \<noteq> Some STALE_ERROR"
  shows "event_settled (failed_values code r) \<and> event_grows r (failed_values code r)"
  using assms by (auto simp: event_settled_def failed_values_def event_grows_def event_closed_def)

lemma failed_values_id [simp]: "orow_event_id (failed_values code r) = orow_event_id r"
  by (simp add: failed_values_def)

lemma outbox_tables_grow [simp]:
  "tables_grow (db\<lparr>cdb_outbox := rows\<rparr>) db' = tables_grow db db'"
  "tables_grow db (db'\<lparr>cdb_outbox := rows\<rparr>) = tables_grow db db'"
  by (simp_all add: tables_grow_def)

text \<open>What one call changes, given the events were in order.\<close>

definition events_move :: "'p case_db \<Rightarrow> 'p case_db \<Rightarrow> bool" where
  "events_move db db' \<longleftrightarrow> tables_grow db db' \<and>
     (events_ok (cdb_outbox db) \<longrightarrow>
        events_ok (cdb_outbox db') \<and> list_grows event_grows (cdb_outbox db) (cdb_outbox db'))"

lemma events_move_refl [simp]: "events_move db db"
  by (simp add: events_move_def)

lemma events_move_trans: "events_move a b \<Longrightarrow> events_move b c \<Longrightarrow> events_move a c"
  unfolding events_move_def
  by (auto intro: tables_grow_trans list_grows_trans [OF _ _ event_grows_trans])

definition worker_moves :: "'p case_db \<Rightarrow> 'p case_db \<Rightarrow> bool" where
  "worker_moves db db' \<longleftrightarrow> events_move db db' \<and> cdb_decisions db' = cdb_decisions db \<and>
     map orow_decision_id (cdb_outbox db') = map orow_decision_id (cdb_outbox db)"

lemma worker_moves_refl [simp]: "worker_moves db db"
  by (simp add: worker_moves_def)

lemma worker_moves_trans: "worker_moves a b \<Longrightarrow> worker_moves b c \<Longrightarrow> worker_moves a c"
  unfolding worker_moves_def by (auto intro: events_move_trans)

lemma same_events_move: "tables_grow db db' \<and> kept db db' \<Longrightarrow> worker_moves db db'"
  by (simp add: worker_moves_def events_move_def)

lemma new_events_move:
  "tables_grow db db' \<and> new_decision db db' \<Longrightarrow> events_move db db'"
  using new_decision_ok by (auto simp: events_move_def)

text \<open>Recording a failure never processes an event.\<close>

definition failure_moves :: "'p case_db \<Rightarrow> 'p case_db \<Rightarrow> bool" where
  "failure_moves db db' \<longleftrightarrow> worker_moves db db' \<and>
     map (\<lambda>r. (orow_event_id r, orow_processed_at r)) (cdb_outbox db') =
       map (\<lambda>r. (orow_event_id r, orow_processed_at r)) (cdb_outbox db)"

lemma failure_moves_refl [simp]: "failure_moves db db"
  by (simp add: failure_moves_def)

lemma failure_moves_trans: "failure_moves a b \<Longrightarrow> failure_moves b c \<Longrightarrow> failure_moves a c"
  unfolding failure_moves_def by (auto intro: worker_moves_trans)

lemma same_events_failure: "tables_grow db db' \<and> kept db db' \<Longrightarrow> failure_moves db db'"
  by (simp add: failure_moves_def same_events_move)

lemma failed_events_move:
  assumes "\<And>r. p r \<Longrightarrow> orow_processed_at r = None \<and> orow_last_error r \<noteq> Some STALE_ERROR"
  shows "failure_moves db (db\<lparr>cdb_outbox := map (\<lambda>r. if p r then failed_values code r else r) (cdb_outbox db)\<rparr>)"
proof -
  have "events_ok (map (\<lambda>r. if p r then failed_values code r else r) (cdb_outbox db)) \<and>
      list_grows event_grows (cdb_outbox db) (map (\<lambda>r. if p r then failed_values code r else r) (cdb_outbox db))"
    if "events_ok (cdb_outbox db)"
    by (rule events_ok_map [OF that]) (use failed_values_ok assms in auto)
  then show ?thesis by (simp add: failure_moves_def worker_moves_def events_move_def failed_values_def)
qed

lemma record_failure_moves:
  assumes "record_outbox_failure i code db = Inr db'"
  shows "failure_moves db db'"
proof -
  from assms have "db' = db\<lparr>cdb_outbox := map (\<lambda>r. if orow_event_id r = i \<and> orow_processed_at r = None \<and>
      orow_last_error r \<noteq> Some STALE_ERROR then failed_values code r else r) (cdb_outbox db)\<rparr>"
    by (simp add: record_outbox_failure_def update_outbox_def result_simps)
  then show ?thesis by (simp only:) (rule failed_events_move, blast)
qed

text \<open>The row is as the caller read it, and open for another attempt.\<close>

definition as_expected :: "string \<Rightarrow> outbox_processing_state \<Rightarrow> instant \<Rightarrow> outbox_row \<Rightarrow> bool" where
  "as_expected i st now r \<longleftrightarrow>
     orow_event_id r = i \<and> orow_processed_at r = None \<and>
     orow_claim_status r = ops_claim_status st \<and> orow_attempt_count r = ops_attempt_count st \<and>
     orow_last_error r = ops_last_error st \<and>
     (orow_claim_status r = ''pending'' \<or>
      orow_claim_status r = ''claimed'' \<and>
        (case orow_claim_expires_at r of None \<Rightarrow> False | Some t \<Rightarrow> t < now)) \<and>
     orow_last_error r \<noteq> Some STALE_ERROR"

lemma as_expectedD:
  "as_expected i st now r \<Longrightarrow> orow_event_id r = i \<and> orow_processed_at r = None \<and>
   orow_last_error r \<noteq> Some STALE_ERROR"
  unfolding as_expected_def by blast

lemma record_failure_if_current_Inr:
  assumes "record_outbox_failure_if_current i st code now db = Inr (db', b)"
  shows "db' = db \<and> \<not> b \<or>
    db' = db\<lparr>cdb_outbox := map (\<lambda>r. if as_expected i st now r then failed_values code r else r) (cdb_outbox db)\<rparr> \<and>
    b = (length (filter (as_expected i st now) (cdb_outbox db)) = 1)"
  using assms unfolding as_expected_def [abs_def]
  by (auto simp: record_outbox_failure_if_current_def update_outbox_def result_simps split: if_splits)

lemma record_failure_if_current_moves:
  assumes "record_outbox_failure_if_current i st code now db = Inr (db', b)"
  shows "failure_moves db db'"
proof -
  have "failure_moves db
      (db\<lparr>cdb_outbox := map (\<lambda>r. if as_expected i st now r then failed_values code r else r) (cdb_outbox db)\<rparr>)"
    by (rule failed_events_move) (blast dest: as_expectedD)
  with record_failure_if_current_Inr [OF assms] show ?thesis by auto
qed

lemma failure_unit_moves:
  assumes "failure_unit env claim e now db = (k, Inr (db', b))"
  shows "failure_moves db db'"
proof (cases "get_projection env db (ocl_case_id claim)")
  case (Inl x)
  with assms show ?thesis by (simp add: failure_unit_def)
next
  case (Inr projection)
  note run = assms [unfolded failure_unit_def Inr, simplified sum.case]
  show ?thesis
  proof (cases "effective_workflow_version (cpj_case projection) = WV_INDEPENDENT_FINANCE")
    case False
    with run obtain db1 where "record_outbox_failure (ocl_event_id claim) (error_code e) db = Inr db1"
      and "set_case_status env (ocl_case_id claim) CS_ACTION_PLANNING db1 = Inr db'"
      by (auto simp: mark_action_planning_failed_def elim!: bindR_InrE)
    then show ?thesis
      using record_failure_moves same_events_failure [OF set_case_status_grows] failure_moves_trans by blast
  next
    case True
    with run obtain st where unit1: "(if ops_processed_at st \<noteq> None \<or> ops_last_error st = Some STALE_ERROR
       then Inr (db, False)
       else
         bindR (guard_execution_current env db (ocl_decision_id claim)) (\<lambda>(db1, d).
         bindR (record_outbox_failure_if_current (ocl_event_id claim) st
                  (error_code e) now db1) (\<lambda>(db2, changed).
         if \<not> changed then Inr (db, False)
         else
           bindR (mark_action_planning_failed env (dec_case_id d) db2) (\<lambda>db3.
           Inr (db3, True))))) = Inr (db', b)"
      by (auto elim!: bindR_InrE)
    show ?thesis
    proof (cases "db' = db")
      case False
      with unit1 obtain db1 d db2 where
        "guard_execution_current env db (ocl_decision_id claim) = Inr (db1, d)"
        "record_outbox_failure_if_current (ocl_event_id claim) st (error_code e) now db1 = Inr (db2, True)"
        "set_case_status env (dec_case_id d) CS_ACTION_PLANNING db2 = Inr db'"
        by (auto simp: mark_action_planning_failed_def elim!: bindR_InrE split: if_splits)
      then show ?thesis
        using same_events_failure [OF guard_execution_grows] record_failure_if_current_moves
          same_events_failure [OF set_case_status_grows] failure_moves_trans by meson
    qed simp
  qed
qed

lemma event_only_failure_moves:
  "event_only_failure claim code now db = Inr (db', b) \<Longrightarrow> failure_moves db db'"
  by (auto simp: event_only_failure_def elim!: bindR_InrE dest: record_failure_if_current_moves)

text \<open>A stale proposal is the one error that the recovery tells apart.\<close>

fun is_stale :: "py_error \<Rightarrow> bool" where
  "is_stale (ExecutionProposalStale _) = True"
| "is_stale _ = False"

lemma stale_case [simp]:
  "(case e of ExecutionProposalStale _ \<Rightarrow> x | _ \<Rightarrow> y) = (if is_stale e then x else y)"
  by (cases e) simp_all

lemma recover_failure_moves:
  assumes "recover_failure env claim e now db = (db', r)"
  shows "failure_moves db db'"
proof -
  have only: "failure_moves db db'" if "(case event_only_failure claim code now db of
      Inl e \<Rightarrow> (db, Inl e) | Inr (d', _) \<Rightarrow> (d', res)) = (db', r)" for code res
    using that by (auto split: sum.splits dest: event_only_failure_moves)
  obtain known u where u: "failure_unit env claim e now db = (known, u)"
    by (cases "failure_unit env claim e now db")
  note run = assms [unfolded recover_failure_def Let_def u, simplified]
  show ?thesis
  proof (cases "is_stale e")
    case True
    with run show ?thesis by (intro only) simp
  next
    case False
    show ?thesis
    proof (cases u)
      case (Inr p)
      with run u False failure_unit_moves [of env claim e now db known] show ?thesis by (cases p) simp
    next
      case (Inl inner)
      show ?thesis
      proof (cases "is_stale inner")
        case True
        with run False Inl show ?thesis by (intro only) simp
      next
        case fresh: False
        with run False Inl show ?thesis by (cases known) (auto intro: only)
      qed
    qed
  qed
qed

section \<open>Claiming and processing\<close>

text \<open>What becomes of an event that is claimed and processed in one unit of work.\<close>

definition processed_row :: "instant \<Rightarrow> outbox_row \<Rightarrow> outbox_row" where
  "processed_row now r =
     r\<lparr>orow_claim_status := ''processed'', orow_claimed_by := Some ''RL-EXECUTION-PLANNER'',
       orow_claimed_at := Some now, orow_claim_expires_at := None, orow_processed_at := Some now,
       orow_last_error := None\<rparr>"

definition claimed_row :: "instant \<Rightarrow> outbox_row \<Rightarrow> outbox_row" where
  "claimed_row now r =
     r\<lparr>orow_claim_status := ''claimed'', orow_claimed_by := Some ''RL-EXECUTION-PLANNER'',
       orow_claimed_at := Some now, orow_claim_expires_at := Some (now + minutes 5)\<rparr>"

definition hit :: "(outbox_row \<Rightarrow> bool) \<Rightarrow> string \<Rightarrow> outbox_row \<Rightarrow> bool" where
  "hit p i r \<longleftrightarrow> orow_event_id r = i \<and> p r"

lemma claim_outbox_eq:
  "claim_outbox vs ty di inc now db =
     bindR (require (ty = ''ActionPlanningRequested'') (ValueError ''unsupported outbox event type''))
       (\<lambda>_. bindR (first_candidate vs (joined_candidates db (claimable now ty di inc))) (\<lambda>cand.
     case cand of
       None \<Rightarrow> Inr (db, None)
     | Some (o1, l) \<Rightarrow>
         bindR (one_or_none (filter (hit (claimable now ty di inc) (orow_event_id o1)) (cdb_outbox db)))
           (\<lambda>row.
         case row of
           None \<Rightarrow> Inr (db, None)
         | Some _ \<Rightarrow>
             Inr (db\<lparr>cdb_outbox := map (\<lambda>r. if hit (claimable now ty di inc) (orow_event_id o1) r
                    then claimed_row now r else r) (cdb_outbox db)\<rparr>,
                  Some \<lparr>ocl_event_id = orow_event_id o1, ocl_decision_id = orow_decision_id o1,
                        ocl_case_id = lrow_case_id l, ocl_analysis_id = lrow_analysis_id l,
                        ocl_event_type = orow_event_type o1\<rparr>))))"
  unfolding claim_outbox_def Let_def hit_def claimed_row_def by (rule refl)

lemma claim_outbox_Inr:
  assumes "claim_outbox vs ty di inc now db = Inr (db1, Some claim)"
  shows "db1 = db\<lparr>cdb_outbox := map (\<lambda>r. if hit (claimable now ty di inc) (ocl_event_id claim) r
      then claimed_row now r else r) (cdb_outbox db)\<rparr>"
    and "\<exists>r. filter (hit (claimable now ty di inc) (ocl_event_id claim)) (cdb_outbox db) = [r]"
  using assms
  by (auto simp: claim_outbox_eq one_or_none_def elim!: bindR_InrE
      split: option.splits prod.splits list.splits)

lemma claim_for_Inr:
  assumes "claim_for wk choice now db = Inr (db1, Some claim)"
  shows "\<exists>p. db1 = db\<lparr>cdb_outbox := map (\<lambda>r. if hit p (ocl_event_id claim) r
      then claimed_row now r else r) (cdb_outbox db)\<rparr> \<and>
    (\<exists>r. filter (hit p (ocl_event_id claim)) (cdb_outbox db) = [r]) \<and>
    (\<forall>r. p r \<longrightarrow> \<not> event_closed r \<and> (choice = NextUnattempted \<longrightarrow> orow_last_error r = None))"
proof -
  obtain di inc where eq: "claim_for wk choice now db =
      claim_outbox (wke_versions wk) ''ActionPlanningRequested'' di inc now db"
    and inc: "choice = NextUnattempted \<longrightarrow> \<not> inc"
    by (cases choice) (auto simp: claim_for_def Let_def)
  let ?p = "claimable now ''ActionPlanningRequested'' di inc"
  have "\<not> event_closed r \<and> (choice = NextUnattempted \<longrightarrow> orow_last_error r = None)" if "?p r" for r
    using that inc by (auto simp: claimable_def event_closed_def)
  with claim_outbox_Inr [OF assms [unfolded eq]] show ?thesis by (intro exI [of _ ?p]) blast
qed

definition marked_row :: "instant \<Rightarrow> outbox_row \<Rightarrow> outbox_row" where
  "marked_row now r =
     r\<lparr>orow_claim_status := ''processed'', orow_processed_at := Some now,
       orow_claim_expires_at := None, orow_last_error := None\<rparr>"

definition claimed_event :: "string \<Rightarrow> outbox_row \<Rightarrow> bool" where
  "claimed_event i r \<longleftrightarrow>
     orow_event_id r = i \<and> orow_claim_status r = ''claimed'' \<and> orow_processed_at r = None"

lemma mark_processed_Inr:
  assumes "mark_outbox_processed i now db = Inr db'"
  shows "db' = db\<lparr>cdb_outbox := map (\<lambda>r. if claimed_event i r
      then marked_row now r else r) (cdb_outbox db)\<rparr>"
    and "length (filter (claimed_event i) (cdb_outbox db)) = 1"
  using assms unfolding claimed_event_def [abs_def] marked_row_def
  by (simp_all add: mark_outbox_processed_def update_outbox_def result_simps)

lemma outbox_update_kept [simp]:
  "cdb_decisions (db\<lparr>cdb_outbox := rows\<rparr>) = cdb_decisions db"
  by simp

text \<open>A successful plan: what it read, what it stored and what became of the claimed event.\<close>

lemma plan_claimed_Inr:
  assumes "plan_claimed env wk claim ids now (db1, x) = Inr (db2, x2)"
  obtains ev d a planned db1' where
    "validate_claimed_outbox claim db1 = Inr ev"
    and "guard_execution_current env db1 (ocl_decision_id claim) = Inr (db1', d)"
    and "get_analysis env db1' (dec_analysis_id d) = Inr a"
    and "plan_actions (wke_planner wk) d a = Inr planned"
    and "insert_planned env db1' ids 0 planned x = Inr x2"
    and "tables_grow db1 db2" and "cdb_decisions db2 = cdb_decisions db1"
    and "cdb_outbox db2 = map (\<lambda>r. if claimed_event (ocl_event_id claim) r
      then marked_row now r else r) (cdb_outbox db1)"
    and "length (filter (claimed_event (ocl_event_id claim)) (cdb_outbox db1)) = 1"
proof -
  from assms obtain ev d a planned db1' db3 where
    0: "validate_claimed_outbox claim db1 = Inr ev"
    and 1: "guard_execution_current env db1 (ocl_decision_id claim) = Inr (db1', d)"
    and 2: "get_analysis env db1' (dec_analysis_id d) = Inr a"
      "plan_actions (wke_planner wk) d a = Inr planned"
      "insert_planned env db1' ids 0 planned x = Inr x2"
    and 3: "mark_outbox_processed (ocl_event_id claim) now db1' = Inr db3"
    and 4: "set_case_status env (dec_case_id d) CS_EXECUTING db3 = Inr db2"
    by (auto simp: plan_claimed_def mark_action_planning_complete_def elim!: bindR_InrE)
  note g = guard_execution_grows [OF 1] set_case_status_grows [OF 4]
  note m = mark_processed_Inr [OF 3]
  have "tables_grow db1' db3" unfolding m(1) by simp
  with g have "tables_grow db1 db2" by (auto intro: tables_grow_trans)
  moreover have "cdb_decisions db2 = cdb_decisions db1"
    using g m(1) by simp
  ultimately show ?thesis using that [OF 0 1 2] g m by simp
qed

lemma claim_then_process:
  assumes "\<And>r. p r \<Longrightarrow> \<not> event_closed r"
  shows "map (\<lambda>r. if claimed_event i r
      then marked_row now r else r)
      (map (\<lambda>r. if hit p i r then claimed_row now r else r) rows) =
    map (\<lambda>r. if hit p i r then processed_row now r
      else if claimed_event i r
      then marked_row now r else r) rows"
  using assms
  by (auto simp: hit_def claimed_event_def claimed_row_def marked_row_def processed_row_def event_closed_def)

lemma processed_rows_ok:
  assumes ok: "events_ok rows" and p: "\<And>r. p r \<Longrightarrow> \<not> event_closed r"
    and rows': "rows' = map (\<lambda>r. if hit p i r then processed_row now r
      else if claimed_event i r then marked_row now r else r) rows"
  shows "events_ok rows' \<and> list_grows event_grows rows rows'"
proof -
  have "rows' = map (\<lambda>r. if hit p i r then processed_row now r else r) rows"
    using ok by (auto simp: rows' events_ok_def event_settled_def claimed_event_def)
  moreover have "events_ok (map (\<lambda>r. if hit p i r then processed_row now r else r) rows) \<and>
      list_grows event_grows rows (map (\<lambda>r. if hit p i r then processed_row now r else r) rows)"
    by (rule events_ok_map [OF ok])
      (use p in \<open>auto simp: hit_def processed_row_def event_settled_def event_grows_def\<close>)
  ultimately show ?thesis by simp
qed

text \<open>A round that plans an event: both units together.\<close>

lemma claim_and_plan:
  assumes "claim_for wk choice now db = Inr (db1, Some claim)"
    and "plan_claimed env wk claim ids now (db1, x) = Inr (db2, x2)"
  shows "worker_moves db db2"
proof -
  from claim_for_Inr [OF assms(1)] obtain p where
    db1: "db1 = db\<lparr>cdb_outbox := map (\<lambda>r. if hit p (ocl_event_id claim) r
      then claimed_row now r else r) (cdb_outbox db)\<rparr>"
    and p: "\<And>r. p r \<Longrightarrow> \<not> event_closed r" by blast
  from plan_claimed_Inr [OF assms(2)] have
    2: "tables_grow db1 db2" "cdb_decisions db2 = cdb_decisions db1"
    "cdb_outbox db2 = map (\<lambda>r. if claimed_event (ocl_event_id claim) r
      then marked_row now r else r) (cdb_outbox db1)"
    by blast+
  have rows: "cdb_outbox db1 =
      map (\<lambda>r. if hit p (ocl_event_id claim) r then claimed_row now r else r) (cdb_outbox db)"
    by (simp add: db1)
  from 2(1,2) have "tables_grow db db2" "cdb_decisions db2 = cdb_decisions db"
    by (simp_all add: db1)
  moreover have "cdb_outbox db2 = map (\<lambda>r. if hit p (ocl_event_id claim) r then processed_row now r
      else if claimed_event (ocl_event_id claim) r then marked_row now r else r) (cdb_outbox db)"
    unfolding 2(3) rows by (rule claim_then_process [OF p])
  moreover from this have "map orow_decision_id (cdb_outbox db2) = map orow_decision_id (cdb_outbox db)"
    by (simp add: processed_row_def marked_row_def)
  ultimately show ?thesis
    using processed_rows_ok [OF _ p] by (simp add: worker_moves_def events_move_def)
qed

lemma process_outbox_moves:
  assumes "process_outbox env wk choice ids now (db, x) = ((db', x'), r)"
  shows "worker_moves db db'"
proof (cases "claim_for wk choice now db")
  case (Inl e)
  with assms show ?thesis by (simp add: process_outbox_def)
next
  case (Inr claimed)
  obtain db1 found where claimed: "claimed = (db1, found)" by (cases claimed)
  show ?thesis
  proof (cases found)
    case None
    with assms Inr claimed show ?thesis by (simp add: process_outbox_def)
  next
    case (Some claim)
    note run = assms [unfolded process_outbox_def, simplified, unfolded Inr claimed Some, simplified]
    note c = Inr [unfolded claimed Some]
    show ?thesis
    proof (cases "plan_claimed env wk claim ids now (db1, x)")
      case (Inl e)
      with run show ?thesis
        by (auto split: prod.splits dest: recover_failure_moves simp: failure_moves_def)
    next
      case (Inr planned)
      with run claim_and_plan [OF c] show ?thesis by (cases planned) simp
    qed
  qed
qed

section \<open>Steps of the back end\<close>

text \<open>
  What the services of Cases, Finance, Decisions, planning and execution commit to the case tables
  and the execution tables: the repository of Cases (creating, projecting and analysing one), the
  Finance service and the Decision service, the planning worker and the execution service, in any
  order and with any arguments.  A command that fails leaves the state as it was; one whose recovery
  reads a later state draws it freely.  Presenter retention, which deletes rows, playback and the
  supplier email are the other steps of \<open>backend_step\<close> (\<open>Backend_Runs\<close>).
\<close>

inductive database_step ::
    "'p service_env \<Rightarrow> worker_env \<Rightarrow> 'p worker_state \<Rightarrow> 'p worker_state \<Rightarrow> bool"
  for sv :: "'p service_env" and wk :: worker_env where
  step_create: "create_case (sve_store sv) c snapshot db = Inr db' \<Longrightarrow>
     database_step sv wk (db, x) (db', x)"
| step_project: "save_case_projection (sve_store sv) c db = Inr db' \<Longrightarrow>
     database_step sv wk (db, x) (db', x)"
| step_analysis: "save_analysis (sve_store sv) a p now db = Inr db' \<Longrightarrow>
     database_step sv wk (db, x) (db', x)"
| step_claim: "try_claim_analysis (sve_store sv) i v k t l db = Inr (db', b) \<Longrightarrow>
     database_step sv wk (db, x) (db', x)"
| step_release: "database_step sv wk (db, x) (release_analysis_claim i v k db, x)"
| step_complete: "complete_analysis_claim (sve_store sv) a p v k t now db = Inr (db', b) \<Longrightarrow>
     database_step sv wk (db, x) (db', x)"
| step_submit: "submit_proposal sv sc actor clock u1 u2 db later = (db', rs) \<Longrightarrow>
     database_step sv wk (db, x) (db', x)"
| step_resolve: "resolve_review sv rc actor clock db later = (db', rr) \<Longrightarrow>
     database_step sv wk (db, x) (db', x)"
| step_finalize: "finalize_proposal sv fc actor clock u1 u2 db later = (db', rd) \<Longrightarrow>
     database_step sv wk (db, x) (db', x)"
| step_record: "record_decision sv dc actor now u1 u2 db later = (db', rd) \<Longrightarrow>
     database_step sv wk (db, x) (db', x)"
| step_plan: "process_outbox (sve_store sv) wk choice ids now (db, x) = ((db', x'), rb) \<Longrightarrow>
     database_step sv wk (db, x) (db', x')"
| step_execute: "run_call (database_cases (sve_store sv)) (db, x) call = Inr (db', x') \<Longrightarrow>
     database_step sv wk (db, x) (db', x')"

definition database_reachable :: "'p service_env \<Rightarrow> worker_env \<Rightarrow> 'p worker_state \<Rightarrow> bool" where
  "database_reachable sv wk = (database_step sv wk)\<^sup>*\<^sup>* (empty_case_db, empty_execution_db)"

text \<open>The execution service touches the case tables through the currentness guard only.\<close>

lemma run_call_case_tables:
  assumes "run_call cs (w, x) call = Inr (w', x')"
  shows "w' = w \<or> (\<exists>i d. cst_guard cs w i = Inr (w', d))"
  using assms
  by (cases call)
    (auto simp: create_action_def start_action_def retry_action_def begin_attempt_def
      complete_action_def fail_action_def finish_attempt_def cancel_action_def Let_def
      elim!: bindR_InrE split: if_splits prod.splits)

lemma run_call_tables_grow:
  assumes "run_call (database_cases env) (db, x) call = Inr (db', x')"
  shows "tables_grow db db' \<and> kept db db'"
  using run_call_case_tables [OF assms] by (auto simp: database_cases_def dest: guard_execution_grows)

text \<open>What every step does.\<close>

lemma kept_new_decision:
  "cdb_outbox db' = cdb_outbox db \<Longrightarrow> cdb_decisions db' = cdb_decisions db \<Longrightarrow> new_decision db db'"
  by (simp add: new_decision_def)

lemma database_step_moves:
  assumes "database_step sv wk (db, x) (db', x')"
  shows "tables_grow db db' \<and> new_decision db db' \<or> worker_moves db db'"
  using assms
proof cases
  case (step_plan choice ids now rb)
  then show ?thesis using process_outbox_moves by blast
qed (auto simp: release_claim_grows intro: kept_new_decision
      dest!: create_case_grows save_case_projection_grows save_analysis_grows try_claim_grows
      complete_claim_grows submit_proposal_grows resolve_review_grows finalize_proposal_grows
      record_decision_grows run_call_tables_grow)

lemma database_step_events:
  "database_step sv wk s s' \<Longrightarrow> events_move (fst s) (fst s')"
  using database_step_moves [of sv wk "fst s" "snd s" "fst s'" "snd s'"] new_events_move
  by (auto simp: worker_moves_def)

lemma database_steps_events:
  "(database_step sv wk)\<^sup>*\<^sup>* s s' \<Longrightarrow> events_move (fst s) (fst s')"
  by (induction rule: rtranclp_induct) (auto intro: events_move_trans database_step_events)

lemma database_reachable_events:
  "database_reachable sv wk s \<Longrightarrow> events_ok (cdb_outbox (fst s))"
  using database_steps_events [of sv wk "(empty_case_db, empty_execution_db)" s]
  by (simp add: database_reachable_def events_move_def empty_case_db_def events_ok_def)

text \<open>The transactional outbox: the events are those of the approving Decisions, in their order.\<close>

definition outbox_of_decisions :: "'p case_db \<Rightarrow> bool" where
  "outbox_of_decisions db \<longleftrightarrow>
     distinct (map lrow_decision_id (cdb_decisions db)) \<and>
     map orow_decision_id (cdb_outbox db) =
       map lrow_decision_id (filter (\<lambda>l. lrow_kind l = ''approved'') (cdb_decisions db))"

lemma approved_kind_value: "decision_kind_value k = ''approved'' \<longleftrightarrow> k = DK_APPROVED"
  by (cases k) simp_all

lemma moved_outbox:
  assumes "new_decision db db' \<or> worker_moves db db'" and "outbox_of_decisions db"
  shows "outbox_of_decisions db'"
  using assms
  by (auto simp: outbox_of_decisions_def worker_moves_def new_decision_def decision_row_of_def
      outbox_row_of_def approved_kind_value split: if_splits)

section \<open>Planned actions are stored\<close>

lemma immutable_action_row_of:
  "ea_status a = XS_PLANNED \<Longrightarrow> filter (\<lambda>r. arow_action_id r = ea_action_id a) (edb_actions x) = [action_row_of a] \<Longrightarrow>
   immutable_action x (ea_action_id a) = Inr a"
  by (simp add: immutable_action_def one_or_none_def json_or_error_def action_row_of_def require_def
      bindR_def)

lemma insert_action_if_absent_stores:
  assumes "insert_action_if_absent cs w x event_id a = Inr (x', inserted)"
  shows "immutable_action x' (ea_action_id a) = Inr a \<and>
    (\<forall>i v. immutable_action x i = Inr v \<longrightarrow> immutable_action x' i = Inr v)"
proof (cases "ea_action_id a \<in> arow_action_id ` set (edb_actions x)")
  case True
  with assms show ?thesis by (auto simp: insert_action_if_absent_def result_simps)
next
  case False
  with assms obtain x1 where planned: "ea_status a = XS_PLANNED"
    and 1: "append_status_event (x\<lparr>edb_actions := edb_actions x @ [action_row_of a],
      edb_projections := edb_projections x @ [projection_row_of a 0]\<rparr>) (initial_event event_id a) = Inr x1"
    and 2: "insert_draft x1 a = Inr x'"
    by (auto simp: insert_action_if_absent_def insert_unique_def result_simps split: if_splits)
  have rows: "edb_actions x' = edb_actions x @ [action_row_of a]"
    using append_first_event [OF 1] insert_draft_tables [OF 2] by simp
  have id: "arow_action_id (action_row_of a) = ea_action_id a" by (simp add: action_row_of_def)
  have new: "filter (\<lambda>r. arow_action_id r = ea_action_id a) (edb_actions x) = []"
    using filter_key_empty [OF subset_refl False] .
  have "immutable_action x' (ea_action_id a) = Inr a"
    using rows id new by (intro immutable_action_row_of [OF planned]) simp
  moreover have "immutable_action x' i = Inr v" if "immutable_action x i = Inr v" for i v
  proof -
    from that have "filter (\<lambda>r. arow_action_id r = i) (edb_actions x) \<noteq> []"
      by (auto simp: immutable_action_def one_or_none_def result_simps)
    with new have "i \<noteq> ea_action_id a" by auto
    then have "filter (\<lambda>r. arow_action_id r = i) (edb_actions x') =
        filter (\<lambda>r. arow_action_id r = i) (edb_actions x)"
      by (simp add: rows id)
    with that show ?thesis by (simp add: immutable_action_def)
  qed
  ultimately show ?thesis by blast
qed

lemma insert_planned_stores:
  assumes "insert_planned env db ids k actions x = Inr x'"
  shows "(\<forall>a \<in> set actions. immutable_action x' (ea_action_id a) = Inr a) \<and>
    (\<forall>i v. immutable_action x i = Inr v \<longrightarrow> immutable_action x' i = Inr v)"
  using assms
proof (induction actions arbitrary: k x)
  case Nil
  then show ?case by simp
next
  case (Cons a actions)
  from Cons.prems obtain x1 b where 1: "insert_action_if_absent (database_cases env) db x (ids k) a = Inr (x1, b)"
    and 2: "insert_planned env db ids (Suc k) actions x1 = Inr x'"
    by (auto elim!: bindR_InrE)
  from insert_action_if_absent_stores [OF 1] Cons.IH [OF 2] show ?case by auto
qed

section \<open>Draining the events ends\<close>

definition unattempted :: "outbox_row \<Rightarrow> bool" where
  "unattempted r \<longleftrightarrow> orow_processed_at r = None \<and> orow_last_error r = None"

definition attempts_left :: "'p case_db \<Rightarrow> nat" where
  "attempts_left db = length (filter unattempted (cdb_outbox db))"

lemma fewer_unattempted:
  assumes "r \<in> set rows" and "unattempted r" and "\<not> unattempted (g r)"
    and "\<And>r. unattempted (g r) \<Longrightarrow> unattempted r"
  shows "length (filter unattempted (map g rows)) < length (filter unattempted rows)"
  using assms(1)
proof (induction rows)
  case (Cons q rows)
  have le: "length (filter unattempted (map g rows)) \<le> length (filter unattempted rows)" for rows
    by (induction rows) (auto dest: assms(4))
  show ?case
  proof (cases "q = r")
    case True
    then show ?thesis using le [of rows] assms(2,3) by simp
  next
    case False
    with Cons show ?thesis using assms(4) [of q] by auto
  qed
qed simp

lemma planned_decreases:
  assumes "claim_for wk NextUnattempted now db = Inr (db1, Some claim)"
    and "plan_claimed env wk claim ids now (db1, x) = Inr (db2, x2)"
  shows "attempts_left db2 < attempts_left db"
proof -
  let ?i = "ocl_event_id claim"
  from claim_for_Inr [OF assms(1)] obtain p r where
    db1: "db1 = db\<lparr>cdb_outbox := map (\<lambda>r. if hit p ?i r then claimed_row now r else r) (cdb_outbox db)\<rparr>"
    and p: "\<And>r. p r \<Longrightarrow> \<not> event_closed r" "\<And>r. p r \<Longrightarrow> orow_last_error r = None"
    and r: "filter (hit p ?i) (cdb_outbox db) = [r]" by blast
  from r have "r \<in> set (filter (hit p ?i) (cdb_outbox db))" by simp
  then have r_in: "r \<in> set (cdb_outbox db)" "hit p ?i r" by auto
  have "cdb_outbox db2 = map (\<lambda>r. if claimed_event ?i r then marked_row now r else r) (cdb_outbox db1)"
    using plan_claimed_Inr [OF assms(2)] by blast
  then have rows: "cdb_outbox db2 = map (\<lambda>r. if hit p ?i r then processed_row now r
      else if claimed_event ?i r then marked_row now r else r) (cdb_outbox db)"
    using claim_then_process [OF p(1)] by (simp add: db1)
  show ?thesis unfolding attempts_left_def rows
    by (rule fewer_unattempted [OF r_in(1)])
      (use r_in p in \<open>auto simp: unattempted_def hit_def event_closed_def processed_row_def marked_row_def
        split: if_splits\<close>)
qed

lemma failed_values_attempted [simp]: "\<not> unattempted (failed_values code r)"
  by (simp add: unattempted_def failed_values_def)

lemma failed_decreases:
  assumes "r \<in> set (cdb_outbox db)" and "unattempted r" and "p r"
  shows "length (filter unattempted (map (\<lambda>r. if p r then failed_values code r else r) (cdb_outbox db)))
    < attempts_left db"
  unfolding attempts_left_def
  by (rule fewer_unattempted [OF assms(1,2)]) (use assms(3) in \<open>auto split: if_splits\<close>)

lemma failure_unit_decreases:
  assumes "failure_unit env claim e now db = (k, Inr (db', True))"
    and "r \<in> set (cdb_outbox db)" and "unattempted r" and "orow_event_id r = ocl_event_id claim"
  shows "attempts_left db' < attempts_left db"
proof (cases "get_projection env db (ocl_case_id claim)")
  case (Inl x)
  with assms(1) show ?thesis by (simp add: failure_unit_def)
next
  case (Inr projection)
  note run = assms(1) [unfolded failure_unit_def Inr, simplified sum.case]
  let ?i = "ocl_event_id claim"
  show ?thesis
  proof (cases "effective_workflow_version (cpj_case projection) = WV_INDEPENDENT_FINANCE")
    case False
    with run obtain db1 where 1: "record_outbox_failure ?i (error_code e) db = Inr db1"
      and 2: "set_case_status env (ocl_case_id claim) CS_ACTION_PLANNING db1 = Inr db'"
      by (auto simp: mark_action_planning_failed_def elim!: bindR_InrE)
    have "cdb_outbox db' = map (\<lambda>r. if orow_event_id r = ?i \<and> orow_processed_at r = None \<and>
        orow_last_error r \<noteq> Some STALE_ERROR then failed_values (error_code e) r else r) (cdb_outbox db)"
      using 1 set_case_status_grows [OF 2]
      by (auto simp: record_outbox_failure_def update_outbox_def result_simps)
    then show ?thesis using assms(2-4)
      by (simp only: attempts_left_def [of db']) (rule failed_decreases, auto simp: unattempted_def)
  next
    case True
    with run obtain st where st: "get_outbox_state ?i db = Inr st" and
      unit1: "(if ops_processed_at st \<noteq> None \<or> ops_last_error st = Some STALE_ERROR
       then Inr (db, False)
       else
         bindR (guard_execution_current env db (ocl_decision_id claim)) (\<lambda>(db1, d).
         bindR (record_outbox_failure_if_current ?i st (error_code e) now db1) (\<lambda>(db2, changed).
         if \<not> changed then Inr (db, False)
         else
           bindR (mark_action_planning_failed env (dec_case_id d) db2) (\<lambda>db3.
           Inr (db3, True))))) = Inr (db', True)"
      by (auto elim!: bindR_InrE)
    from unit1 obtain db1 d db2 where
      1: "guard_execution_current env db (ocl_decision_id claim) = Inr (db1, d)" and
      2: "record_outbox_failure_if_current ?i st (error_code e) now db1 = Inr (db2, True)" and
      3: "set_case_status env (dec_case_id d) CS_ACTION_PLANNING db2 = Inr db'"
      by (auto simp: mark_action_planning_failed_def elim!: bindR_InrE split: if_splits)
    from st obtain row where row: "filter (\<lambda>r. orow_event_id r = ?i) (cdb_outbox db) = [row]"
      by (auto simp: get_outbox_state_def one_or_none_def elim!: bindR_InrE split: list.splits)
    have same: "q = r" if "q \<in> set (cdb_outbox db)" "orow_event_id q = ?i" for q
    proof -
      have "q \<in> set (filter (\<lambda>r. orow_event_id r = ?i) (cdb_outbox db))"
        "r \<in> set (filter (\<lambda>r. orow_event_id r = ?i) (cdb_outbox db))"
        using that assms(2,4) by simp_all
      then show ?thesis unfolding row by simp
    qed
    let ?p = "as_expected ?i st now"
    from record_failure_if_current_Inr [OF 2] have
      db2: "db2 = db1\<lparr>cdb_outbox := map (\<lambda>r. if ?p r then failed_values (error_code e) r else r) (cdb_outbox db1)\<rparr>"
      and n: "length (filter ?p (cdb_outbox db1)) = 1" by auto
    have outbox: "cdb_outbox db1 = cdb_outbox db" using guard_execution_grows [OF 1] by simp
    from n have "filter ?p (cdb_outbox db1) \<noteq> []" by auto
    then obtain q where "q \<in> set (cdb_outbox db1)" "?p q" by (auto simp: filter_empty_conv)
    with same [of q] outbox as_expectedD [of ?i st now q] have "?p r" by simp
    moreover have "cdb_outbox db' = map (\<lambda>r. if ?p r then failed_values (error_code e) r else r) (cdb_outbox db)"
      using set_case_status_grows [OF 3] by (simp add: db2 outbox)
    ultimately show ?thesis using assms(2,3)
      by (simp only: attempts_left_def [of db']) (rule failed_decreases)
  qed
qed

lemma recover_failure_decreases:
  assumes "recover_failure env claim e now db = (db', Inr True)"
    and "r \<in> set (cdb_outbox db)" and "unattempted r" and "orow_event_id r = ocl_event_id claim"
  shows "attempts_left db' < attempts_left db"
proof -
  obtain known u where u: "failure_unit env claim e now db = (known, u)"
    by (cases "failure_unit env claim e now db")
  note run = assms(1) [unfolded recover_failure_def Let_def u, simplified]
  from run have "u = Inr (db', True)"
    by (auto split: sum.splits if_splits)
  with failure_unit_decreases [OF _ assms(2-4)] u show ?thesis by blast
qed

lemma process_outbox_decreases:
  assumes "process_outbox env wk NextUnattempted ids now (db, x) = ((db', x'), Inr True)"
  shows "attempts_left db' < attempts_left db"
proof -
  from assms obtain db1 claim where c: "claim_for wk NextUnattempted now db = Inr (db1, Some claim)"
    by (auto simp: process_outbox_def split: sum.splits prod.splits option.splits)
  note run = assms [unfolded process_outbox_def, simplified, unfolded c, simplified]
  show ?thesis
  proof (cases "plan_claimed env wk claim ids now (db1, x)")
    case (Inr planned)
    with run planned_decreases [OF c] show ?thesis by (cases planned) simp
  next
    case (Inl e)
    with run have rec: "recover_failure env claim e now db = (db', Inr True)"
      by (simp split: prod.splits)
    from claim_for_Inr [OF c] obtain p r where
      "filter (hit p (ocl_event_id claim)) (cdb_outbox db) = [r]"
      and p: "\<And>r. p r \<Longrightarrow> \<not> event_closed r \<and> orow_last_error r = None" by blast
    then have "r \<in> set (filter (hit p (ocl_event_id claim)) (cdb_outbox db))" by simp
    then have "r \<in> set (cdb_outbox db)" "orow_event_id r = ocl_event_id claim" "unattempted r"
      using p [of r] by (auto simp: hit_def unattempted_def event_closed_def)
    then show ?thesis using recover_failure_decreases [OF rec] by blast
  qed
qed

lemma process_while_ends:
  "attempts_left (fst s) < n \<Longrightarrow> process_while env wk NextUnattempted ids clock k s \<noteq> None"
proof (induction n arbitrary: k s)
  case (Suc n)
  obtain db x db' x' r where s: "s = (db, x)"
    and run: "process_outbox env wk NextUnattempted (ids k) (clock k) (db, x) = ((db', x'), r)"
    by (metis surj_pair)
  show ?case
  proof (cases "r = Inr True")
    case True
    with process_outbox_decreases run have "attempts_left db' < attempts_left db" by blast
    with Suc.prems s have "process_while env wk NextUnattempted ids clock (Suc k) (db', x') \<noteq> None"
      by (intro Suc.IH) simp
    with s run True show ?thesis by (subst process_while.simps) simp
  next
    case False
    with s run show ?thesis by (subst process_while.simps) (auto split: sum.splits)
  qed
qed simp

section \<open>What a processed event leaves behind\<close>

lemma get_decision_Inr:
  assumes "get_decision env db i = Inr d"
  shows "decision_row_of d \<in> set (cdb_decisions db) \<and> dec_decision_id d = i"
proof -
  from assms obtain row where row: "filter (\<lambda>r. lrow_decision_id r = i) (cdb_decisions db) = [row]"
    and "lrow_payload row = Some d" and "row = (decision_row_of d)\<lparr>lrow_payload := lrow_payload row\<rparr>"
    by (auto simp: get_decision_def decision_row_at_def decision_from_row_def json_or_error_def
        one_or_none_def result_simps split: list.splits option.splits)
  then have "row = decision_row_of d" by (simp add: decision_row_of_def)
  moreover have "row \<in> set (filter (\<lambda>r. lrow_decision_id r = i) (cdb_decisions db))"
    unfolding row by simp
  ultimately show ?thesis by (auto simp: decision_row_of_def)
qed

lemma get_analysis_Inr:
  assumes "get_analysis env db i = Inr a"
  shows "analysis_row_of a \<in> set (cdb_analyses db) \<and> av_analysis_id a = i"
proof -
  from assms obtain row where row: "filter (\<lambda>r. nrow_analysis_id r = i) (cdb_analyses db) = [row]"
    and "nrow_payload row = Some a" and "require_analysis_row_integrity row a = Inr ()"
    by (auto simp: get_analysis_def json_or_error_def one_or_none_def result_simps
        split: list.splits option.splits)
  then have "row = analysis_row_of a"
    by (cases row) (simp add: analysis_row_of_def require_analysis_row_integrity_def result_simps)
  moreover have "row \<in> set (filter (\<lambda>r. nrow_analysis_id r = i) (cdb_analyses db))"
    unfolding row by simp
  ultimately show ?thesis by (auto simp: analysis_row_of_def)
qed

lemma stale_as_execution_stale_Inr [simp]: "stale_as_execution_stale m r = Inr v \<longleftrightarrow> r = Inr v"
  by (cases r) (auto simp: stale_as_execution_stale_def split: py_error.splits)

lemma check_execution_Inr:
  assumes "check_execution_current env db i = Inr (d, t)"
  shows "get_decision env db i = Inr d \<and> dec_kind d = DK_APPROVED"
  using assms unfolding check_execution_current_def
  by (elim bindR_InrE) (auto simp: require_Inr_iff elim!: bindR_InrE split: if_splits)

lemma cas_projection_analyses:
  "cas_projection i t f db = Inr db' \<Longrightarrow> cdb_analyses db' = cdb_analyses db"
  by (auto simp: cas_projection_def Let_def result_simps split: if_splits)

lemma guard_execution_Inr:
  assumes "guard_execution_current env db i = Inr (db', d)"
  shows "get_decision env db i = Inr d \<and> dec_kind d = DK_APPROVED \<and> cdb_analyses db' = cdb_analyses db"
proof -
  from assms obtain t where check: "check_execution_current env db i = Inr (d, t)"
    by (auto simp: guard_execution_current_def elim!: bindR_InrE split: option.splits)
  from assms have "db' = db \<or> (\<exists>u v. guard_current env (dec_case_id d) u db = Inr (db', v))"
    by (auto simp: guard_execution_current_def elim!: bindR_InrE split: option.splits)
  then have "cdb_analyses db' = cdb_analyses db"
    by (auto simp: guard_current_def elim!: bindR_InrE dest: cas_projection_analyses)
  with check_execution_Inr [OF check] show ?thesis by blast
qed

end
