(* ===== verification/Proposal_Tokens.thy ===== *)
theory Proposal_Tokens
  imports Planning_History
begin

text \<open>
  Optimistic concurrency on proposals: every command of Finance names the token it was decided on,
  and a token lets at most one command through.
\<close>

section \<open>Commands\<close>

datatype finance_command =
    SubmitProposal submit_proposal_command string string
  | ResolveReview resolve_finance_command
  | FinalizeProposal finalize_proposal_command string string

fun expected_token :: "finance_command \<Rightarrow> proposal_token" where
  "expected_token (SubmitProposal c _ _) = spc_expected c"
| "expected_token (ResolveReview c) = rfc_expected c"
| "expected_token (FinalizeProposal c _ _) = fpc_expected c"

text \<open>The database a command leaves behind, whether it succeeds, replays or fails.\<close>

fun after_command ::
    "'p service_env \<Rightarrow> finance_command \<Rightarrow> identity_snapshot \<Rightarrow> datetime \<Rightarrow> 'p case_db \<Rightarrow>
     'p case_db \<Rightarrow> 'p case_db" where
  "after_command sv (SubmitProposal c u v) actor clock later db =
     fst (submit_proposal sv c actor clock u v db later)"
| "after_command sv (ResolveReview c) actor clock later db =
     fst (resolve_review sv c actor clock db later)"
| "after_command sv (FinalizeProposal c u v) actor clock later db =
     fst (finalize_proposal sv c actor clock u v db later)"

section \<open>What a token names\<close>

text \<open>The row of the Case carries the token; its analysis belongs to the Case.\<close>

definition carries :: "'p case_db \<Rightarrow> string \<Rightarrow> proposal_token \<Rightarrow> bool" where
  "carries db i t \<longleftrightarrow>
     (\<exists>r. filter (\<lambda>r. jrow_case_id r = i) (cdb_projections db) = [r] \<and> token_of_row r = t)"

definition bound_to :: "'p case_db \<Rightarrow> string \<Rightarrow> proposal_token \<Rightarrow> bool" where
  "bound_to db i t \<longleftrightarrow>
     (\<exists>aid row. pt_analysis_id t = Some aid \<and>
        filter (\<lambda>r. nrow_analysis_id r = aid) (cdb_analyses db) = [row] \<and> nrow_case_id row = i)"

definition past_token :: "'p case_db \<Rightarrow> string \<Rightarrow> proposal_token \<Rightarrow> bool" where
  "past_token db i t \<longleftrightarrow>
     (\<exists>r \<in> set (cdb_projections db). jrow_case_id r = i \<and> pt_generation t < jrow_proposal_generation r)"

lemma past_token_grows: "past_token db i t \<Longrightarrow> tables_grow db db' \<Longrightarrow> past_token db' i t"
  unfolding past_token_def tables_grow_def
  by (fastforce dest: list_growsD simp: projection_grows_def)

lemma past_not_carried: "past_token db i t \<Longrightarrow> \<not> carries db i t"
proof
  assume past: "past_token db i t" and "carries db i t"
  then obtain q r where q: "filter (\<lambda>r. jrow_case_id r = i) (cdb_projections db) = [q]"
    "token_of_row q = t" and r: "r \<in> set (cdb_projections db)" "jrow_case_id r = i"
    "pt_generation t < jrow_proposal_generation r"
    by (auto simp: carries_def past_token_def)
  from r(1,2) have "r \<in> set (filter (\<lambda>r. jrow_case_id r = i) (cdb_projections db))" by simp
  then have "r \<in> set [q]" by (simp only: q(1))
  then have "r = q" by simp
  with q(2) r(3) show False by (auto simp: token_of_row_def)
qed

lemma bound_to_same:
  assumes "bound_to db i t" and "tables_grow db db'" and "bound_to db' j t"
  shows "i = j"
proof -
  from assms(1,3) obtain aid row row' where aid: "pt_analysis_id t = Some aid"
    and 1: "filter (\<lambda>r. nrow_analysis_id r = aid) (cdb_analyses db) = [row]" "nrow_case_id row = i"
    and 2: "filter (\<lambda>r. nrow_analysis_id r = aid) (cdb_analyses db') = [row']" "nrow_case_id row' = j"
    by (auto simp: bound_to_def)
  from assms(2) obtain rest where "cdb_analyses db' = cdb_analyses db @ rest"
    by (auto simp: tables_grow_def prefix_def)
  with 1 2 show ?thesis by simp
qed

lemma mk_proposal_state_Inr: "mk_proposal_state s = Inr s' \<Longrightarrow> s' = s"
  by (auto simp: mk_proposal_state_def result_simps split: option.splits)

lemma get_state_Inr:
  assumes "get_state env db i = Inr st"
  shows "proposal_token_of db i = Inr (pst_token st)"
    and "(case pt_selection_id (pst_token st) of
            None \<Rightarrow> Inr None
          | Some i \<Rightarrow> bindR (get_selection env db i) (\<lambda>s. Inr (Some s))) = Inr (pst_selection st)"
    and "case pst_selection st of
            None \<Rightarrow> True
          | Some s \<Rightarrow> fp_case_id (ps_proposal s) = i \<and>
              Some (fp_analysis_id (ps_proposal s)) = pt_analysis_id (pst_token st) \<and>
              Some (fp_analysis_material_hash (ps_proposal s)) = pt_analysis_material_hash (pst_token st)"
  using assms unfolding get_state_def
  by (auto elim!: bindR_InrE dest!: mk_proposal_state_Inr simp: require_Inr_iff split: prod.splits)
    (auto split: option.splits)

lemma get_state_carries:
  assumes "get_state env db i = Inr st"
  shows "carries db i (pst_token st)"
  using get_state_Inr(1) [OF assms]
  by (auto simp: proposal_token_of_def mk_proposal_token_def projection_at_def carries_def result_simps
      elim!: bindR_InrE dest!: one_or_none_Some)

lemma get_analysis_bound:
  assumes "get_analysis env db aid = Inr a" and "pt_analysis_id t = Some aid"
  shows "bound_to db (av_case_id a) t"
  using assms
  by (auto simp: get_analysis_def require_analysis_row_integrity_def bound_to_def result_simps
      elim!: bindR_InrE dest!: one_or_none_Some)

lemma get_state_bound:
  assumes "get_state env db i = Inr st" and "pst_selection st = Some s"
  shows "bound_to db i (pst_token st)"
proof -
  from get_state_Inr(2,3) [OF assms(1)] assms(2) obtain sid where sel: "get_selection env db sid = Inr s"
    and s: "fp_case_id (ps_proposal s) = i"
    "pt_analysis_id (pst_token st) = Some (fp_analysis_id (ps_proposal s))"
    by (auto simp: bindR_Inr_iff split: option.splits)
  from sel obtain a where "get_analysis env db (fp_analysis_id (ps_proposal s)) = Inr a"
    and "av_case_id a = fp_case_id (ps_proposal s)"
    by (auto simp: get_selection_def decode_selection_def validate_binding_def Let_def result_simps
        elim!: bindR_InrE)
  with get_analysis_bound [OF this(1) s(2)] s(1) show ?thesis by simp
qed

section \<open>Commits consume the token\<close>

lemma cas_consumes:
  assumes "cas_projection i t f db = Inr db'" and "\<And>r. jrow_case_id (f r) = jrow_case_id r"
  shows "past_token db' i t"
proof -
  let ?hit = "\<lambda>r. jrow_case_id r = i \<and> token_of_row r = t"
  from assms(1) have n: "length (filter ?hit (cdb_projections db)) = 1"
    and db': "cdb_projections db' = map (\<lambda>r. if ?hit r
      then (f r)\<lparr>jrow_proposal_generation := pt_generation t + 1\<rparr> else r) (cdb_projections db)"
    by (auto simp: cas_projection_def Let_def result_simps)
  from n have "filter ?hit (cdb_projections db) \<noteq> []" by auto
  then obtain r where "r \<in> set (cdb_projections db)" "?hit r" by (auto simp: filter_empty_conv)
  then have "(f r)\<lparr>jrow_proposal_generation := pt_generation t + 1\<rparr> \<in> set (cdb_projections db')"
    unfolding db' by (auto intro!: image_eqI [of _ _ r])
  moreover have "jrow_case_id ((f r)\<lparr>jrow_proposal_generation := pt_generation t + 1\<rparr>) = i"
    using assms(2) [of r] \<open>?hit r\<close> by simp
  ultimately show ?thesis unfolding past_token_def by (intro bexI) simp_all
qed

lemma get_selection_by_key_None:
  "get_selection_by_key env db k = Inr None \<longleftrightarrow> filter (\<lambda>r. qrow_idempotency_key r = k) (cdb_selections db) = []"
  by (auto simp: get_selection_by_key_def result_simps one_or_none_None split: option.splits)

lemma publish_consumes:
  assumes "publish env receipt db = Inr (db', s)" and "get_selection_by_key env db (sr_idempotency_key receipt) = Inr None"
  shows "past_token db' (fp_case_id (ps_proposal (sr_selection receipt))) (sr_expected receipt)"
proof -
  let ?i = "fp_case_id (ps_proposal (sr_selection receipt))" and ?t = "sr_expected receipt"
  from assms obtain st db1 db2 where
    cas: "cas_projection ?i ?t
      (\<lambda>r. r\<lparr>jrow_current_selection_id := Some (ps_selection_id (sr_selection receipt))\<rparr>) db1 = Inr db2"
    and sup: "supersede_state env st (ps_submitted_at (sr_selection receipt))
      (ps_selection_id (sr_selection receipt)) ''selection-supersede'' db2 = Inr db'"
    by (auto simp: publish_def Let_def elim!: bindR_InrE)
  have "past_token db2 ?i ?t" by (rule cas_consumes [OF cas]) simp
  then show ?thesis using supersede_state_grows [OF sup] past_token_grows by blast
qed

lemma guard_consumes: "guard_current env i t db = Inr (db', t') \<Longrightarrow> past_token db' i t"
  by (auto simp: guard_current_def elim!: bindR_InrE dest!: cas_consumes)

lemma withdraw_consumes:
  assumes "withdraw_current env i t now op db = Inr (db', t')"
  shows "past_token db' i t"
proof -
  from assms obtain db1 where
    cas: "cas_projection i t (\<lambda>r. r\<lparr>jrow_current_selection_id := None\<rparr>) db = Inr db1"
    and "tables_grow db1 db'"
    by (auto simp: withdraw_current_def elim!: bindR_InrE split: option.splits prod.splits
        dest!: append_review_grows)
  have "past_token db1 i t" by (rule cas_consumes [OF cas]) simp
  with \<open>tables_grow db1 db'\<close> show ?thesis by (blast intro: past_token_grows)
qed

section \<open>Units of work\<close>

text \<open>A unit that commits found the token on the Case and left it in the past.\<close>

definition consumes :: "'p case_db \<Rightarrow> 'p case_db \<Rightarrow> proposal_token \<Rightarrow> bool" where
  "consumes db db' t \<longleftrightarrow> db' = db \<or> (\<exists>i. carries db i t \<and> bound_to db i t \<and> past_token db' i t)"

lemma consumesI:
  "carries db i t \<Longrightarrow> bound_to db i t \<Longrightarrow> past_token db1 i t \<Longrightarrow> tables_grow db1 db' \<Longrightarrow> consumes db db' t"
  unfolding consumes_def by (blast intro: past_token_grows)

lemma submission_replay_None:
  "submission_replay sv k fp db = Inr None \<Longrightarrow> get_selection_by_key (sve_store sv) db k = Inr None"
  by (auto simp: submission_replay_def elim!: bindR_InrE split: option.splits)

lemma append_review_selections:
  "append_review env r n k fp db = Inr (db', x) \<Longrightarrow> cdb_selections db' = cdb_selections db"
  by (auto simp: append_review_def elim!: bindR_InrE split: prod.splits)

text \<open>What a submission that is not a replay has checked and done.\<close>

lemma submit_unit_Inr:
  assumes "submit_unit sv c actor k fp clock u v db = Inr (db', r)"
    and "submission_replay sv k fp db = Inr None"
  obtains st projection aid a selection db1 published where
    "get_state (sve_store sv) db (spc_case_id c) = Inr st" "pst_token st = spc_expected c"
    "get_projection (sve_store sv) db (spc_case_id c) = Inr projection"
    "pt_analysis_id (spc_expected c) = Some aid" "get_analysis (sve_store sv) db aid = Inr a"
    "av_case_id a = ci_case_id (cpj_case projection)"
    "fp_case_id (ps_proposal selection) = ci_case_id (cpj_case projection)"
    "cdb_selections db1 = cdb_selections db"
    "publish (sve_store sv) \<lparr>sr_selection = selection, sr_expected = spc_expected c,
       sr_idempotency_key = k, sr_request_fingerprint = fp\<rparr> db1 = Inr (db', published)"
proof -
  from assms obtain st projection aid a proposal selection review_id now db1 e1 e2 e3 p key u1 u2 where
    1: "get_state (sve_store sv) db (spc_case_id c) = Inr st"
      "require (pst_token st = spc_expected c) e1 = Inr u1"
      "get_projection (sve_store sv) db (spc_case_id c) = Inr projection"
      "the_or e2 (pt_analysis_id (spc_expected c)) = Inr aid" "get_analysis (sve_store sv) db aid = Inr a"
      "require (av_case_id a = ci_case_id (cpj_case projection) \<and>
         Some (av_material_hash a) = pt_analysis_material_hash (spc_expected c)) e3 = Inr u2"
    and review: "(case review_id of
         None \<Rightarrow> Inr db
       | Some i \<Rightarrow>
           bindR (submit_finance_review i proposal actor (Aware now)) (\<lambda>pending.
           bindR (append_review (sve_store sv) pending None
                    key fp db) (\<lambda>(db', _). Inr db'))) = Inr db1"
    and pub: "publish (sve_store sv) \<lparr>sr_selection = selection, sr_expected = spc_expected c,
       sr_idempotency_key = k, sr_request_fingerprint = fp\<rparr> db1 = Inr p"
      "(case p of (db2, published) \<Rightarrow>
          bindR (submission_result_of (sve_store sv) db2 published) (\<lambda>r. Inr (db2, r))) = Inr (db', r)"
    and selection: "fp_case_id (ps_proposal selection) = ci_case_id (cpj_case projection)"
    unfolding submit_unit_def Let_def assms(2) bindR_simps option.case
    by (elim bindR_InrE) (rule that, assumption+, simp (no_asm))
  from review have "cdb_selections db1 = cdb_selections db"
    by (cases review_id) (auto elim!: bindR_InrE dest: append_review_selections)
  moreover from pub(2) obtain published where "p = (db', published)"
    by (cases p) (auto elim!: bindR_InrE)
  ultimately show ?thesis
    using that 1 selection pub(1) by (auto simp: require_Inr_iff the_or_Inr_iff)
qed

lemma submit_unit_consumes:
  assumes "submit_unit sv c actor k fp clock u v db = Inr (db', r)"
  shows "consumes db db' (spc_expected c)"
proof (cases "submission_replay sv k fp db")
  case (Inl e)
  with assms show ?thesis by (simp add: submit_unit_def)
next
  case (Inr replay)
  show ?thesis
  proof (cases replay)
    case (Some res)
    with assms Inr show ?thesis by (simp add: submit_unit_def consumes_def)
  next
    case None
    let ?env = "sve_store sv"
    from submit_unit_Inr [OF assms Inr [unfolded None]] obtain st projection aid a selection db1 published where
      st: "get_state ?env db (spc_case_id c) = Inr st" "pst_token st = spc_expected c"
      and p: "get_projection ?env db (spc_case_id c) = Inr projection"
      and a: "pt_analysis_id (spc_expected c) = Some aid" "get_analysis ?env db aid = Inr a"
        "av_case_id a = ci_case_id (cpj_case projection)"
      and i: "fp_case_id (ps_proposal selection) = ci_case_id (cpj_case projection)"
      and same: "cdb_selections db1 = cdb_selections db"
      and pub: "publish ?env \<lparr>sr_selection = selection, sr_expected = spc_expected c,
          sr_idempotency_key = k, sr_request_fingerprint = fp\<rparr> db1 = Inr (db', published)" .
    have "get_selection_by_key ?env db1 k = Inr None"
      using submission_replay_None [OF Inr [unfolded None]] same by (simp add: get_selection_by_key_None)
    with publish_consumes [OF pub] i
    have "past_token db' (ci_case_id (cpj_case projection)) (spc_expected c)" by simp
    moreover have "spc_case_id c = ci_case_id (cpj_case projection)"
      using p by (auto simp: get_projection_def projection_at_def require_case_projection_integrity_def
          result_simps elim!: bindR_InrE dest!: one_or_none_Some filter_one)
    ultimately show ?thesis
      using get_state_carries [OF st(1)] st(2) get_analysis_bound [OF a(2,1)] a(3)
      by (auto intro!: consumesI)
  qed
qed

lemma resolve_unit_consumes:
  assumes "resolve_unit sv c actor k fp clock db = Inr (db', r)"
  shows "consumes db db' (rfc_expected c)"
proof (cases "resolution_replay sv k fp db")
  case (Inl e)
  with assms show ?thesis by (simp add: resolve_unit_def Let_def)
next
  case (Inr replay)
  let ?env = "sve_store sv" and ?t = "rfc_expected c"
  show ?thesis
  proof (cases replay)
    case (Some res)
    with assms Inr show ?thesis by (simp add: resolve_unit_def Let_def consumes_def)
  next
    case None
    from assms Inr None obtain i st s db1 t' where
      st: "get_state ?env db i = Inr st" "pst_token st = ?t" "pst_selection st = Some s"
      and guard: "guard_current ?env i ?t db = Inr (db1, t')" and "tables_grow db1 db'"
      by (auto simp: resolve_unit_def Let_def result_simps elim!: bindR_InrE split: prod.splits
          dest: append_review_grows)
    with guard_consumes [OF guard] get_state_carries [OF st(1)] get_state_bound [OF st(1,3)]
    show ?thesis by (auto intro!: consumesI)
  qed
qed

lemma finalize_unit_consumes:
  assumes "finalize_unit sv c actor k fp clock u v db = Inr (db', d)"
  shows "consumes db db' (fpc_expected c)"
proof (cases "get_decision_by_key (sve_store sv) db k")
  case (Inl e)
  with assms show ?thesis by (simp add: finalize_unit_def Let_def)
next
  case (Inr existing)
  let ?env = "sve_store sv" and ?t = "fpc_expected c" and ?i = "fpc_case_id c"
  show ?thesis
  proof (cases existing)
    case (Some d0)
    with assms Inr show ?thesis by (auto simp: finalize_unit_def Let_def consumes_def elim!: bindR_InrE)
  next
    case None
    from assms Inr None obtain st aid a now d ss db1 t' where
      st: "get_state ?env db ?i = Inr st" "pst_token st = ?t"
      and a: "get_analysis ?env db aid = Inr a" "pt_analysis_id ?t = Some aid" "av_case_id a = ?i"
      and past: "guard_current ?env ?i ?t db = Inr (db1, t') \<or>
        withdraw_current ?env ?i ?t now (dec_decision_id d) db = Inr (db1, t')"
      and rest: "commit_decision ?env d ss v db1 = Inr db'"
      by (auto simp: finalize_unit_def Let_def result_simps elim!: bindR_InrE split: if_splits prod.splits)
        blast+
    from past have "past_token db1 ?i ?t" using guard_consumes withdraw_consumes by blast
    moreover have "tables_grow db1 db'" using commit_decision_grows [OF rest] by simp
    ultimately show ?thesis
      using get_state_carries [OF st(1)] st(2) get_analysis_bound [OF a(1,2)] a(3)
      by (auto intro!: consumesI)
  qed
qed

lemma consumes_refl [simp]: "consumes db db t"
  by (simp add: consumes_def)

lemma after_command_consumes:
  "consumes db (after_command sv c actor clock later db) (expected_token c)"
proof (cases c)
  case (SubmitProposal x u v)
  obtain db' r where run: "submit_proposal sv x actor clock u v db later = (db', r)" by fastforce
  then have "consumes db db' (spc_expected x)"
    by (auto simp: submit_proposal_def Let_def split: sum.splits
        dest!: run_command_state dest: submit_unit_consumes)
  with run SubmitProposal show ?thesis by simp
next
  case (ResolveReview x)
  obtain db' r where run: "resolve_review sv x actor clock db later = (db', r)" by fastforce
  then have "consumes db db' (rfc_expected x)"
    by (auto simp: resolve_review_def Let_def split: sum.splits
        dest!: run_command_state dest: resolve_unit_consumes)
  with run ResolveReview show ?thesis by simp
next
  case (FinalizeProposal x u v)
  obtain db' r where run: "finalize_proposal sv x actor clock u v db later = (db', r)" by fastforce
  then have "consumes db db' (fpc_expected x)"
    by (auto simp: finalize_proposal_def Let_def split: sum.splits
        dest!: run_command_state dest: finalize_unit_consumes)
  with run FinalizeProposal show ?thesis by simp
qed

lemma database_steps_grow: "(database_step sv wk)\<^sup>*\<^sup>* s s' \<Longrightarrow> tables_grow (fst s) (fst s')"
  using database_steps_events [of sv wk s s'] by (simp add: events_move_def)

lemma after_command_grows: "tables_grow db (after_command sv c actor clock later db)"
proof (cases c)
  case (SubmitProposal x u v)
  then show ?thesis using submit_proposal_grows [of sv x actor clock u v db later] by (metis after_command.simps(1) prod.collapse)
next
  case (ResolveReview x)
  then show ?thesis using resolve_review_grows [of sv x actor clock db later] by (metis after_command.simps(2) prod.collapse)
next
  case (FinalizeProposal x u v)
  then show ?thesis using finalize_proposal_grows [of sv x actor clock u v db later] by (metis after_command.simps(3) prod.collapse)
qed

section \<open>Property\<close>

text \<open>
  C4. A proposal token is used at most once.  Once a command of Finance (submitting, resolving or
  finalising, of any Case) has changed the database on the strength of a token, then whatever
  happens afterwards, no command that names the same token changes the database again: it fails or
  replays what was committed.
\<close>

theorem proposal_token_used_once:
  assumes "after_command sv c1 actor1 clock1 later1 db1 \<noteq> db1"
    and "(database_step sv wk)\<^sup>*\<^sup>* (after_command sv c1 actor1 clock1 later1 db1, x1) (db2, x2)"
    and "expected_token c2 = expected_token c1"
  shows "after_command sv c2 actor2 clock2 later2 db2 = db2"
proof (rule ccontr)
  let ?t = "expected_token c1" and ?db = "after_command sv c1 actor1 clock1 later1 db1"
  assume "after_command sv c2 actor2 clock2 later2 db2 \<noteq> db2"
  with after_command_consumes [of db2 sv c2 actor2 clock2 later2] assms(3)
  obtain j where j: "carries db2 j ?t" "bound_to db2 j ?t" by (auto simp: consumes_def)
  from after_command_consumes [of db1 sv c1 actor1 clock1 later1] assms(1)
  obtain i where i: "bound_to db1 i ?t" "past_token ?db i ?t" by (auto simp: consumes_def)
  have "tables_grow ?db db2" using database_steps_grow [OF assms(2)] by simp
  moreover have "tables_grow db1 ?db" by (rule after_command_grows)
  ultimately have "tables_grow db1 db2" and "past_token db2 i ?t"
    using i(2) by (blast intro: tables_grow_trans past_token_grows)+
  moreover from this(1) have "i = j" by (rule bound_to_same [OF i(1) _ j(2)])
  ultimately show False using past_not_carried j(1) by blast
qed

theorem proposal_token_used_once_witness:
  "\<exists>db1 db3. after_command journey_service
       (FinalizeProposal (rejection_command ''K'') ''D'' ''E'') alex_identity (Aware 300) db1 db1 = db3 \<and>
     db3 \<noteq> db1 \<and>
     after_command journey_service (FinalizeProposal (rejection_command ''L'') ''F'' ''G'')
       alex_identity (Aware 301) db3 db3 = db3"
proof -
  obtain db1 db2 r where "finalize_proposal journey_service (rejection_command ''K'') alex_identity
      (Aware 300) ''D'' ''E'' db1 db1 = (db2, r)" "db2 \<noteq> db1"
    using rejection_journey by blast
  then have changed: "after_command journey_service (FinalizeProposal (rejection_command ''K'') ''D'' ''E'')
      alex_identity (Aware 300) db1 db1 = db2" and "db2 \<noteq> db1" by simp_all
  then have first: "after_command journey_service (FinalizeProposal (rejection_command ''K'') ''D'' ''E'')
      alex_identity (Aware 300) db1 db1 \<noteq> db1" by simp
  have steps: "(database_step journey_service journey_worker)\<^sup>*\<^sup>*
      (after_command journey_service (FinalizeProposal (rejection_command ''K'') ''D'' ''E'')
        alex_identity (Aware 300) db1 db1, empty_execution_db) (db2, empty_execution_db)"
    by (simp only: changed rtranclp.rtrancl_refl)
  have "after_command journey_service (FinalizeProposal (rejection_command ''L'') ''F'' ''G'')
      alex_identity (Aware 301) db2 db2 = db2"
    by (rule proposal_token_used_once [OF first steps]) (simp add: rejection_command_def)
  with changed \<open>db2 \<noteq> db1\<close> show ?thesis by blast
qed

end
