(* ===== verification/Planning_Properties.thy ===== *)
theory Planning_Properties
  imports Planning_History
begin

text \<open>
  The properties of planning: a processed event has its actions stored, and draining the events
  ends.  What becomes of the events in the runs of the whole back end is in \<open>Backend_Runs\<close>.
\<close>

section \<open>The claimed event\<close>

lemma first_candidate_in:
  "first_candidate vs cs = Inr (Some (o1, l)) \<Longrightarrow> \<exists>c. (o1, l, c) \<in> set cs"
proof (induction cs)
  case (Cons p rest)
  obtain x l1 c where p: "p = (x, l1, c)" by (cases p)
  from Cons.prems have "(o1, l) = (x, l1) \<or> first_candidate vs rest = Inr (Some (o1, l))"
    by (auto simp: p elim!: bindR_InrE split: option.splits if_splits)
  with Cons.IH show ?case by (auto simp: p)
qed simp

lemma claim_for_names:
  assumes "claim_for wk choice now db = Inr (db1, Some claim)"
  shows "\<exists>r \<in> set (cdb_outbox db). orow_event_id r = ocl_event_id claim \<and>
    orow_decision_id r = ocl_decision_id claim"
proof -
  have "\<exists>r \<in> set (cdb_outbox db). orow_event_id r = ocl_event_id claim \<and>
      orow_decision_id r = ocl_decision_id claim"
    if "claim_outbox vs ty di inc now db = Inr (db1, Some claim)" for vs ty di inc
    using that
    by (fastforce simp: claim_outbox_eq joined_candidates_def elim!: bindR_InrE
        split: option.splits prod.splits dest!: first_candidate_in)
  with assms show ?thesis by (auto simp: claim_for_def Let_def split: event_choice.splits)
qed

lemma same_event:
  assumes "events_ok rows" and "r \<in> set rows" and "q \<in> set rows" and "orow_event_id r = orow_event_id q"
  shows "r = q"
  using assms by (auto simp: events_ok_def distinct_map dest: inj_onD)

text \<open>An event that a round processes was the one the round claimed, and its plan succeeded.\<close>

lemma newly_processed:
  assumes ok: "events_ok (cdb_outbox db)"
    and run: "process_outbox env wk choice ids now (db, x) = ((db', x'), r)"
    and e: "e \<in> set (cdb_outbox db)" "orow_processed_at e = None"
    and e': "e' \<in> set (cdb_outbox db')" "orow_event_id e' = orow_event_id e" "orow_processed_at e' \<noteq> None"
  obtains claim db1 where "claim_for wk choice now db = Inr (db1, Some claim)"
    and "plan_claimed env wk claim ids now (db1, x) = Inr (db', x')"
    and "ocl_event_id claim = orow_event_id e" and "r = Inr True"
proof -
  have unmoved: False
    if "map (\<lambda>r. (orow_event_id r, orow_processed_at r)) (cdb_outbox db') =
      map (\<lambda>r. (orow_event_id r, orow_processed_at r)) (cdb_outbox db)"
  proof -
    from e'(1) have "(orow_event_id e', orow_processed_at e') \<in>
        (\<lambda>r. (orow_event_id r, orow_processed_at r)) ` set (cdb_outbox db')" by (rule imageI)
    then have "(orow_event_id e', orow_processed_at e') \<in>
        (\<lambda>r. (orow_event_id r, orow_processed_at r)) ` set (cdb_outbox db)"
      using arg_cong [OF that, of set] by simp
    with e'(2) obtain q where "q \<in> set (cdb_outbox db)" "orow_event_id q = orow_event_id e"
      "orow_processed_at q = orow_processed_at e'" by auto
    then have "q = e" using same_event [OF ok _ e(1)] by blast
    with \<open>orow_processed_at q = orow_processed_at e'\<close> e(2) e'(3) show False by simp
  qed
  then have "db' \<noteq> db" by blast
  with run obtain db1 claim where c: "claim_for wk choice now db = Inr (db1, Some claim)"
    by (auto simp: process_outbox_def split: sum.splits prod.splits option.splits)
  note run' = run [unfolded process_outbox_def, simplified, unfolded c, simplified]
  show ?thesis
  proof (cases "plan_claimed env wk claim ids now (db1, x)")
    case (Inl err)
    with run' have "failure_moves db db'" by (auto split: prod.splits dest: recover_failure_moves)
    with unmoved show ?thesis by (simp add: failure_moves_def)
  next
    case (Inr planned)
    with run' have p: "plan_claimed env wk claim ids now (db1, x) = Inr (db', x')" and r: "r = Inr True"
      by (cases planned; simp)+
    from claim_for_Inr [OF c] obtain p where
      db1: "db1 = db\<lparr>cdb_outbox := map (\<lambda>r. if hit p (ocl_event_id claim) r
        then claimed_row now r else r) (cdb_outbox db)\<rparr>"
      and closed: "\<And>r. p r \<Longrightarrow> \<not> event_closed r" by blast
    have "cdb_outbox db' = map (\<lambda>r. if claimed_event (ocl_event_id claim) r
        then marked_row now r else r) (cdb_outbox db1)"
      using plan_claimed_Inr [OF p] by blast
    then have rows: "cdb_outbox db' = map (\<lambda>r. if hit p (ocl_event_id claim) r then processed_row now r
        else if claimed_event (ocl_event_id claim) r then marked_row now r else r) (cdb_outbox db)"
      using claim_then_process [OF closed] by (simp add: db1)
    with e'(1) obtain q where q: "q \<in> set (cdb_outbox db)"
      and e'_def: "e' = (if hit p (ocl_event_id claim) q then processed_row now q
        else if claimed_event (ocl_event_id claim) q then marked_row now q else q)" by auto
    have "orow_event_id q = orow_event_id e"
      using e'(2) by (simp add: e'_def processed_row_def marked_row_def split: if_splits)
    then have "q = e" by (rule same_event [OF ok q e(1)])
    with e'_def e(2) e'(3) have "ocl_event_id claim = orow_event_id e"
      by (auto simp: hit_def claimed_event_def split: if_splits)
    with that [OF c p] r show ?thesis by blast
  qed
qed

section \<open>Properties\<close>

text \<open>
  C12. A planning event is processed only together with its plan.  When a round of the worker turns
  an unprocessed event into a processed one, the event's Decision is stored, approves and has its
  Analysis Version stored, the planner produced actions from the two, and every one of them reads
  back unchanged from the action table.
\<close>

theorem planned_actions_are_stored:
  assumes "database_reachable sv wk (db, x)"
    and "process_outbox (sve_store sv) wk choice ids now (db, x) = ((db', x'), r)"
    and "e \<in> set (cdb_outbox db)" and "orow_processed_at e = None"
    and "e' \<in> set (cdb_outbox db')" and "orow_event_id e' = orow_event_id e"
    and "orow_processed_at e' \<noteq> None"
  shows "r = Inr True \<and>
    (\<exists>d a planned.
      decision_row_of d \<in> set (cdb_decisions db) \<and> dec_decision_id d = orow_decision_id e \<and>
      dec_kind d = DK_APPROVED \<and>
      analysis_row_of a \<in> set (cdb_analyses db) \<and> av_analysis_id a = dec_analysis_id d \<and>
      plan_actions (wke_planner wk) d a = Inr planned \<and>
      (\<forall>p \<in> set planned. immutable_action x' (ea_action_id p) = Inr p))"
proof -
  have ok: "events_ok (cdb_outbox db)" using database_reachable_events [OF assms(1)] by simp
  obtain claim db1 where c: "claim_for wk choice now db = Inr (db1, Some claim)"
    and p: "plan_claimed (sve_store sv) wk claim ids now (db1, x) = Inr (db', x')"
    and id: "ocl_event_id claim = orow_event_id e" and r: "r = Inr True"
    by (rule newly_processed [OF ok assms(2-7)])
  have decision: "ocl_decision_id claim = orow_decision_id e"
  proof -
    from claim_for_names [OF c] obtain q where q: "q \<in> set (cdb_outbox db)"
      "orow_event_id q = ocl_event_id claim" "orow_decision_id q = ocl_decision_id claim" by blast
    have "q = e" by (rule same_event [OF ok q(1) assms(3)]) (simp only: q(2) id)
    with q(3) show ?thesis by simp
  qed
  have tables: "cdb_decisions db1 = cdb_decisions db" "cdb_analyses db1 = cdb_analyses db"
    using claim_for_Inr [OF c] by auto
  obtain ev d a planned db1' where
    "validate_claimed_outbox claim db1 = Inr ev" and
    1: "guard_execution_current (sve_store sv) db1 (ocl_decision_id claim) = Inr (db1', d)"
    and 2: "get_analysis (sve_store sv) db1' (dec_analysis_id d) = Inr a"
    and 3: "plan_actions (wke_planner wk) d a = Inr planned"
    and 4: "insert_planned (sve_store sv) db1' ids 0 planned x = Inr x'"
    by (rule plan_claimed_Inr [OF p]) (rule that, assumption+)
  note g = guard_execution_Inr [OF 1]
  from g have d: "get_decision (sve_store sv) db1 (ocl_decision_id claim) = Inr d" by blast
  have "decision_row_of d \<in> set (cdb_decisions db) \<and> dec_decision_id d = orow_decision_id e"
    using get_decision_Inr [OF d] unfolding decision tables .
  moreover have "analysis_row_of a \<in> set (cdb_analyses db) \<and> av_analysis_id a = dec_analysis_id d"
  proof -
    have "cdb_analyses db1' = cdb_analyses db" using g tables(2) by (elim conjE) (rule trans)
    then show ?thesis using get_analysis_Inr [OF 2] by (elim conjE) (intro conjI, erule subst)
  qed
  moreover have "\<forall>p \<in> set planned. immutable_action x' (ea_action_id p) = Inr p"
    using insert_planned_stores [OF 4] by blast
  ultimately show ?thesis using g 3
    by (intro conjI exI [of _ d] exI [of _ a] exI [of _ planned] r) (elim conjE, assumption)+
qed

text \<open>
  C13. Draining ends.  The loop of the runtime that plans unattempted events until there is none
  returns from every state and whatever the rounds draw, because every round that goes on leaves
  fewer events without an attempt.
\<close>

theorem advance_planning_ends:
  "advance_planning env wk ids clock s \<noteq> None"
  unfolding advance_planning_def by (rule process_while_ends [OF lessI])

section \<open>Witnesses\<close>

lemma legacy_reachable:
  "\<exists>db3 db4 x4. database_reachable journey_service journey_worker (db3, empty_execution_db) \<and>
     process_outbox journey_store journey_worker NextUnattempted journey_ids 400
       (db3, empty_execution_db) = ((db4, x4), Inr True) \<and> planned_facts db3 db4 x4"
proof -
  obtain db1 db2 db3 r3 db4 x4 where
    1: "create_case journey_store legacy_case journey_snapshot empty_case_db = Inr db1" and
    2: "save_analysis journey_store legacy_version None 50 db1 = Inr db2" and
    3: "record_decision journey_service legacy_command alex_identity 300 ''D'' ''E'' db2 db2 = (db3, r3)" and
    4: "process_outbox journey_store journey_worker NextUnattempted journey_ids 400
       (db3, empty_execution_db) = ((db4, x4), Inr True)" "planned_facts db3 db4 x4"
    using legacy_journey by blast
  have store: "sve_store journey_service = journey_store" by (simp add: journey_service_def)
  let ?step = "database_step journey_service journey_worker"
  have "?step (empty_case_db, empty_execution_db) (db1, empty_execution_db)"
    using 1 by (intro step_create) (simp add: store)
  moreover have "?step (db1, empty_execution_db) (db2, empty_execution_db)"
    using 2 by (intro step_analysis) (simp add: store)
  moreover have "?step (db2, empty_execution_db) (db3, empty_execution_db)"
    by (rule step_record [OF 3])
  ultimately have "database_reachable journey_service journey_worker (db3, empty_execution_db)"
    unfolding database_reachable_def by (meson rtranclp.rtrancl_into_rtrancl rtranclp.rtrancl_refl)
  with 4 show ?thesis by blast
qed

theorem planned_actions_are_stored_witness:
  "\<exists>db x' e d a planned.
     database_reachable journey_service journey_worker (db, empty_execution_db) \<and>
     e \<in> set (cdb_outbox db) \<and> orow_processed_at e = None \<and>
     decision_row_of d \<in> set (cdb_decisions db) \<and> dec_decision_id d = orow_decision_id e \<and>
     plan_actions (wke_planner journey_worker) d a = Inr planned \<and>
     (\<forall>p \<in> set planned. immutable_action x' (ea_action_id p) = Inr p)"
proof -
  obtain db3 db4 x4 where
    1: "database_reachable journey_service journey_worker (db3, empty_execution_db)" and
    "process_outbox journey_store journey_worker NextUnattempted journey_ids 400
       (db3, empty_execution_db) = ((db4, x4), Inr True)" and 3: "planned_facts db3 db4 x4"
    using legacy_reachable by blast
  then have 2: "process_outbox (sve_store journey_service) journey_worker NextUnattempted journey_ids 400
       (db3, empty_execution_db) = ((db4, x4), Inr True)" by (simp add: journey_service_def)
  from 3 obtain e e' where "cdb_outbox db3 = [e]" "cdb_outbox db4 = [e']"
    "orow_event_id e' = orow_event_id e" "orow_processed_at e = None" "orow_processed_at e' \<noteq> None"
    by (auto simp: planned_facts_def map_eq_Cons_conv)
  then obtain d a planned where
    "e \<in> set (cdb_outbox db3)" "orow_processed_at e = None"
    "decision_row_of d \<in> set (cdb_decisions db3)" "dec_decision_id d = orow_decision_id e"
    "plan_actions (wke_planner journey_worker) d a = Inr planned"
    "\<forall>p \<in> set planned. immutable_action x4 (ea_action_id p) = Inr p"
    using planned_actions_are_stored [OF 1 2, of e e'] by auto
  with 1 show ?thesis
    by (intro exI [of _ db3] exI [of _ x4] exI [of _ e] exI [of _ d] exI [of _ a]
        exI [of _ planned] conjI)
qed

end
