(* ===== verification/Json_Values.thy ===== *)
theory Json_Values
  imports Prelude
begin

text \<open>
  The values \<open>json.loads\<close> returns, for the modules that read untrusted documents: answers of agents,
  claims of tokens, responses of Microsoft Graph.  A dictionary is the list of its items, their
  keys distinct.  Numbers are finite: \<open>NaN\<close> and \<open>Infinity\<close>, which are not JSON, are left out.
\<close>

datatype json =
    JNull
  | JBool bool
  | JNumber rat
  | JString string
  | JList "json list"
  | JDict "(string \<times> json) list"

type_synonym json_dict = "(string \<times> json) list"

text \<open>\<open>mapping.get(key)\<close>\<close>

definition json_get :: "json_dict \<Rightarrow> string \<Rightarrow> json" where
  "json_get d k = (case map_of d k of None \<Rightarrow> JNull | Some v \<Rightarrow> v)"

text \<open>The checks \<open>isinstance(value, Mapping)\<close> and \<open>isinstance(value, list)\<close>.\<close>

fun as_dict :: "py_error \<Rightarrow> json \<Rightarrow> json_dict result" where
  "as_dict e (JDict d) = Inr d"
| "as_dict e _ = Inl e"

fun as_bounded_list :: "py_error \<Rightarrow> nat \<Rightarrow> json \<Rightarrow> json list result" where
  "as_bounded_list e n (JList xs) = (if length xs > n then Inl e else Inr xs)"
| "as_bounded_list e n _ = Inl e"

fun as_list :: "py_error \<Rightarrow> json \<Rightarrow> json list result" where
  "as_list e (JList xs) = Inr xs"
| "as_list e _ = Inl e"

end
