(* ===== verification/WorkIQ_Evidence.thy ===== *)
theory WorkIQ_Evidence
  imports Evidence_Policy Planner Json_Values
begin

text \<open>
  \<open>integrations/workiq/normalizer.py\<close>: the answer of the Work IQ agent, an untrusted JSON document,
  becomes evidence items.  A fact counts as an authoritative source statement only when its
  citation points to a trusted host and names the expected source and scope; everything else is
  kept as context.

  The document is a value of \<open>Json_Values\<close>.  \<open>datetime.fromisoformat\<close> is a
  parameter (what it returns, or None when it raises); nothing depends on which texts it reads.
  The log line that is written when normalising fails is left out: it never changes the outcome.
\<close>

section \<open>Texts, times and addresses\<close>

definition MAX_FACTS :: nat where "MAX_FACTS = 128"
definition MAX_TEXT_CHARS :: int where "MAX_TEXT_CHARS = 32768"
definition MAX_URL_CHARS :: int where "MAX_URL_CHARS = 4096"

text \<open>\<open>_bounded_string\<close>, with a value required or not.\<close>

definition required_string :: "string \<Rightarrow> json \<Rightarrow> string result" where
  "required_string label v =
     (let malformed = Inl (WorkIQProtocolError (''Work IQ '' @ label @ '' is malformed'')) in
      case v of
        JString s \<Rightarrow>
          if int (length s) > MAX_TEXT_CHARS
          then Inl (WorkIQResponseLimitError (''Work IQ '' @ label @ '' exceeds size limit''))
          else if \<not> nonblank s then malformed
          else Inr (py_strip s)
      | _ \<Rightarrow> malformed)"

definition optional_string :: "string \<Rightarrow> json \<Rightarrow> string option result" where
  "optional_string label v =
     (if v = JNull then Inr None
      else bindR (required_string label v) (\<lambda>s. Inr (Some s)))"

definition json_timestamp :: "(string \<Rightarrow> datetime option) \<Rightarrow> json \<Rightarrow> instant option" where
  "json_timestamp fromiso v =
     (case v of
        JString s \<Rightarrow> (case fromiso s of Some (Aware t) \<Rightarrow> Some t | _ \<Rightarrow> None)
      | _ \<Rightarrow> None)"

text \<open>\<open>str.rstrip(".")\<close>\<close>

definition rstrip_dots :: "string \<Rightarrow> string" where
  "rstrip_dots s = rev (dropWhile (\<lambda>c. c = CHR ''.'') (rev s))"

text \<open>
  The parts of \<open>urlsplit(value)\<close> the code reads; the path ends at a query or a fragment, the query
  at a fragment.
\<close>

record url_parts =
  up_scheme :: string
  up_netloc :: string
  up_path :: string
  up_query :: string

definition urlsplit :: "string \<Rightarrow> url_parts result" where
  "urlsplit s =
     bindR (urlparse s) (\<lambda>(scheme, netloc).
     let url = snd (url_scheme_split (url_clean s));
         rest = (if take 2 url = ''//'' then drop (2 + length netloc) url else url) in
     Inr \<lparr>up_scheme = scheme, up_netloc = netloc,
          up_path = takeWhile (\<lambda>c. c \<notin> set ''?#'') rest,
          up_query = snd (snd (partition_at (CHR ''?'') (takeWhile (\<lambda>c. c \<noteq> CHR ''#'') rest)))\<rparr>)"

text \<open>\<open>_hostinfo\<close>: the host and the text of the port, if there is one.\<close>

definition host_and_port :: "string \<Rightarrow> string \<times> string" where
  "host_and_port netloc =
     (let hostinfo = after_last (CHR ''@'') netloc in
      case partition_at (CHR ''['') hostinfo of
        (_, open_br, bracketed) \<Rightarrow>
          if open_br
          then (case partition_at (CHR '']'') bracketed of
                  (host, _, rest) \<Rightarrow> (host, snd (snd (partition_at (CHR '':'') rest))))
          else (case partition_at (CHR '':'') hostinfo of (host, _, port) \<Rightarrow> (host, port)))"

text \<open>\<open>parsed.hostname or ""\<close>; a zone after a percent sign keeps its case.\<close>

definition url_hostname :: "url_parts \<Rightarrow> string" where
  "url_hostname u =
     (case partition_at (CHR ''%'') (fst (host_and_port (up_netloc u))) of
        (host, percent, zone) \<Rightarrow> py_lower host @ (if percent then CHR ''%'' # zone else []))"

text \<open>\<open>parsed.port\<close>, which raises on anything but a number up to 65535.\<close>

definition url_port :: "url_parts \<Rightarrow> nat option result" where
  "url_port u =
     (let port = snd (host_and_port (up_netloc u)) in
      if port = [] then Inr None
      else if \<not> list_all is_digit port
      then Inl (ValueError ''Port could not be cast to integer value'')
      else if decimal_value port > 65535 then Inl (ValueError ''Port out of range 0-65535'')
      else Inr (Some (decimal_value port)))"

definition ALLOWED_EXACT_HOSTS :: "string list" where
  "ALLOWED_EXACT_HOSTS =
     [''teams.microsoft.com'', ''outlook.office.com'', ''outlook.office365.com'']"

text \<open>\<open>_trusted_url\<close>; a user name in the address shows as an at sign in the network location.\<close>

definition trusted_url :: "string \<Rightarrow> json \<Rightarrow> string option" where
  "trusted_url sharepoint_host v =
     (case v of
        JString s \<Rightarrow>
          if int (length s) > MAX_URL_CHARS then None
          else
            (case bindR (urlsplit s) (\<lambda>u. bindR (url_port u) (\<lambda>port. Inr (u, port))) of
               Inl _ \<Rightarrow> None
             | Inr (u, port) \<Rightarrow>
                 let host = rstrip_dots (py_lower (url_hostname u)) in
                 if up_scheme u = ''https'' \<and> py_lower (url_hostname u) = host \<and>
                    (host \<in> set ALLOWED_EXACT_HOSTS \<or> host = sharepoint_host) \<and>
                    up_path u \<noteq> [] \<and> CHR ''@'' \<notin> set (up_netloc u) \<and>
                    port \<in> {None, Some 443}
                 then Some s else None)
      | _ \<Rightarrow> None)"

text \<open>The tenant's SharePoint host, cleaned and checked.\<close>

definition sharepoint_suffix :: string where
  "sharepoint_suffix = ''.sharepoint.com''"

definition tenant_host :: "string \<Rightarrow> string result" where
  "tenant_host h =
     (let host = rstrip_dots (py_lower (py_strip h)) in
      bindR (require (sharepoint_suffix = drop (length host - length sharepoint_suffix) host \<and>
                      host \<noteq> ''sharepoint.com'' \<and> CHR ''/'' \<notin> set host \<and> CHR '':'' \<notin> set host)
               (ValueError ''tenant SharePoint host is invalid'')) (\<lambda>_.
      Inr host))"

section \<open>One item\<close>

text \<open>What the items of one answer share.\<close>

record workiq_request =
  wq_case_id :: string
  wq_analysis_id :: string
  wq_retrieved_at :: instant
  wq_expected_source_id :: string
  wq_expected_scope :: authority_scope
  wq_sharepoint_host :: string
  wq_iso :: "string \<Rightarrow> datetime option"

definition fact_citation :: "json_dict \<Rightarrow> json_dict option" where
  "fact_citation entry =
     (case json_get entry ''citation'' of
        JDict d \<Rightarrow> Some d
      | _ \<Rightarrow>
          (case json_get entry ''citations'' of
             JList [JDict d] \<Rightarrow> Some d
           | _ \<Rightarrow> None))"

definition ALLOWED_SCOPES :: "(string \<times> authority_scope) list" where
  "ALLOWED_SCOPES =
     [(''supplier_statement'', AS_SUPPLIER_STATEMENT),
      (''collaboration_statement'', AS_COLLABORATION_STATEMENT)]"

definition fact_scope :: "json_dict \<Rightarrow> authority_scope option" where
  "fact_scope entry =
     (case json_get entry ''authorityScope'' of
        JString s \<Rightarrow> map_of ALLOWED_SCOPES s
      | _ \<Rightarrow> None)"

text \<open>
  \<open>source_kind in {"microsoft365", "tenant"}\<close>: looking up a list or a dictionary in a set raises.
\<close>

definition trusted_source_kind :: "json \<Rightarrow> bool result" where
  "trusted_source_kind v =
     (case v of
        JList _ \<Rightarrow> Inl TypeError
      | JDict _ \<Rightarrow> Inl TypeError
      | JString s \<Rightarrow> Inr (s = ''microsoft365'' \<or> s = ''tenant'')
      | _ \<Rightarrow> Inr False)"

text \<open>The values of a missing citation are missing.\<close>

definition citation_get :: "json_dict option \<Rightarrow> string \<Rightarrow> json" where
  "citation_get c k = (case c of None \<Rightarrow> JNull | Some d \<Rightarrow> json_get d k)"

definition fact_item ::
    "workiq_request \<Rightarrow> string \<Rightarrow> nat \<Rightarrow> nat \<Rightarrow> json_dict \<Rightarrow> evidence_item result" where
  "fact_item q artifact_id part_index fact_index entry =
     bindR (required_string ''fact claim'' (json_get entry ''claim'')) (\<lambda>claim.
     bindR (optional_string ''fact ID'' (json_get entry ''factId'')) (\<lambda>fact_id.
     let citation = fact_citation entry;
         citation_url = trusted_url (wq_sharepoint_host q) (citation_get citation ''url'') in
     bindR (optional_string ''citation source ID'' (citation_get citation ''sourceId'')) (\<lambda>source_id.
     bindR (optional_string ''citation excerpt'' (citation_get citation ''excerpt'')) (\<lambda>excerpt.
     let source_timestamp = json_timestamp (wq_iso q) (json_get entry ''sourceTimestamp'');
         scope = fact_scope entry in
     bindR (if citation_url \<noteq> None \<and> source_id \<noteq> None \<and> excerpt \<noteq> None \<and>
               source_timestamp \<noteq> None \<and> source_id = Some (wq_expected_source_id q) \<and>
               scope = Some (wq_expected_scope q)
            then trusted_source_kind (citation_get citation ''sourceType'') else Inr False)
       (\<lambda>trusted.
     Inr \<lparr>ei_evidence_id =
            (case fact_id of
               Some i \<Rightarrow> i
             | None \<Rightarrow> artifact_id @ '':part:'' @ py_str_int (int part_index) @ '':fact:'' @
                 py_str_int (int fact_index)),
          ei_case_id = wq_case_id q,
          ei_kind = (if trusted then EK_SOURCE_STATEMENT else EK_CONTEXTUAL_EVIDENCE),
          ei_authority_scope = (if trusted then (case scope of None \<Rightarrow> [] | Some s \<Rightarrow> [s]) else []),
          ei_source_system = ESS_WORK_IQ,
          ei_source_id = (case source_id of None \<Rightarrow> artifact_id | Some s \<Rightarrow> s),
          ei_source_timestamp = source_timestamp,
          ei_retrieved_at = Some (wq_retrieved_at q),
          ei_retrieved_for_analysis_id = wq_analysis_id q,
          ei_retrieval_health = RH_HEALTHY,
          ei_effective_at = json_timestamp (wq_iso q) (json_get entry ''effectiveAt''),
          ei_expires_at = json_timestamp (wq_iso q) (json_get entry ''expiresAt''),
          ei_claim = claim,
          ei_excerpt = (if trusted then excerpt else None),
          ei_citation_url = (if trusted then citation_url else None),
          ei_runtime_mode = RM_LIVE, ei_synthetic = False,
          ei_requirement = (if trusted then ER_REQUIRED_AUTHORITATIVE else ER_CONTEXTUAL),
          ei_uncertainty_state = (if trusted then US_CERTAIN else US_UNCERTAIN),
          ei_citation_classification = None, ei_navigable_citation_url = None,
          ei_citation_trusted_host = None\<rparr>)))))"

definition contextual_text_item :: "workiq_request \<Rightarrow> string \<Rightarrow> nat \<Rightarrow> string \<Rightarrow> evidence_item" where
  "contextual_text_item q artifact_id part_index text1 =
     \<lparr>ei_evidence_id = artifact_id @ '':text:'' @ py_str_int (int part_index),
      ei_case_id = wq_case_id q, ei_kind = EK_CONTEXTUAL_EVIDENCE, ei_authority_scope = [],
      ei_source_system = ESS_WORK_IQ, ei_source_id = artifact_id, ei_source_timestamp = None,
      ei_retrieved_at = Some (wq_retrieved_at q), ei_retrieved_for_analysis_id = wq_analysis_id q,
      ei_retrieval_health = RH_HEALTHY, ei_effective_at = None, ei_expires_at = None,
      ei_claim = text1, ei_excerpt = None, ei_citation_url = None,
      ei_runtime_mode = RM_LIVE, ei_synthetic = False, ei_requirement = ER_CONTEXTUAL,
      ei_uncertainty_state = US_UNCERTAIN,
      ei_citation_classification = None, ei_navigable_citation_url = None,
      ei_citation_trusted_host = None\<rparr>"

section \<open>The whole answer\<close>

text \<open>
  The local variables of the loops; sets are lists, and the list of source ids is that of the keys
  of \<open>citation_sources\<close>, in the order they were added.
\<close>

record workiq_state =
  ws_items :: "evidence_item list"
  ws_artifact_ids :: "string list"
  ws_explicit_fact_ids :: "string list"
  ws_evidence_ids :: "string list"
  ws_citation_sources :: "(string \<times> string) list"

definition empty_workiq_state :: workiq_state where
  "empty_workiq_state =
     \<lparr>ws_items = [], ws_artifact_ids = [], ws_explicit_fact_ids = [], ws_evidence_ids = [],
      ws_citation_sources = []\<rparr>"

definition add_item :: "evidence_item \<Rightarrow> workiq_state \<Rightarrow> workiq_state result" where
  "add_item item st =
     bindR (require (ei_evidence_id item \<notin> set (ws_evidence_ids st))
              (WorkIQProtocolError ''duplicate Work IQ evidence ID'')) (\<lambda>_.
     Inr (st\<lparr>ws_evidence_ids := ws_evidence_ids st @ [ei_evidence_id item],
             ws_items := ws_items st @ [item]\<rparr>))"

definition note_fact_id :: "string option \<Rightarrow> workiq_state \<Rightarrow> workiq_state result" where
  "note_fact_id fact_id st =
     (case fact_id of
        None \<Rightarrow> Inr st
      | Some i \<Rightarrow>
          bindR (require (i \<notin> set (ws_explicit_fact_ids st))
                   (WorkIQProtocolError ''duplicate Work IQ fact ID'')) (\<lambda>_.
          Inr (st\<lparr>ws_explicit_fact_ids := ws_explicit_fact_ids st @ [i]\<rparr>)))"

definition note_citation :: "json_dict option \<Rightarrow> workiq_state \<Rightarrow> workiq_state result" where
  "note_citation citation st =
     (case citation of
        None \<Rightarrow> Inr st
      | Some c \<Rightarrow>
          bindR (optional_string ''citation source ID'' (json_get c ''sourceId'')) (\<lambda>source_id.
          case (source_id, json_get c ''url'') of
            (Some i, JString url) \<Rightarrow>
              (case map_of (ws_citation_sources st) i of
                 None \<Rightarrow> Inr (st\<lparr>ws_citation_sources := ws_citation_sources st @ [(i, url)]\<rparr>)
               | Some prior \<Rightarrow>
                   bindR (require (prior = url)
                            (WorkIQProtocolError ''ambiguous duplicate Work IQ source ID'')) (\<lambda>_.
                   Inr st))
          | _ \<Rightarrow> Inr st))"

fun normalize_facts ::
    "workiq_request \<Rightarrow> string \<Rightarrow> nat \<Rightarrow> nat \<Rightarrow> json list \<Rightarrow> workiq_state \<Rightarrow> workiq_state result" where
  "normalize_facts q artifact_id part_index k [] st = Inr st"
| "normalize_facts q artifact_id part_index k (v # facts) st =
     bindR (as_dict (WorkIQProtocolError ''Work IQ fact is malformed'') v) (\<lambda>entry.
     bindR (optional_string ''fact ID'' (json_get entry ''factId'')) (\<lambda>fact_id.
     bindR (note_fact_id fact_id st) (\<lambda>st1.
     bindR (note_citation (fact_citation entry) st1) (\<lambda>st2.
     bindR (fact_item q artifact_id part_index k entry) (\<lambda>item.
     bindR (add_item item st2) (\<lambda>st3.
     normalize_facts q artifact_id part_index (Suc k) facts st3))))))"

definition normalize_text ::
    "workiq_request \<Rightarrow> string \<Rightarrow> nat \<Rightarrow> json \<Rightarrow> workiq_state \<Rightarrow> workiq_state result" where
  "normalize_text q artifact_id part_index v st =
     (if v = JNull then Inr st
      else
        bindR (required_string ''artifact text'' v) (\<lambda>text1.
        add_item (contextual_text_item q artifact_id part_index text1) st))"

definition normalize_data ::
    "workiq_request \<Rightarrow> string \<Rightarrow> nat \<Rightarrow> json \<Rightarrow> workiq_state \<Rightarrow> workiq_state result" where
  "normalize_data q artifact_id part_index v st =
     (if v = JNull then Inr st
      else
        bindR (as_dict (WorkIQProtocolError ''Work IQ artifact data is malformed'') v) (\<lambda>d.
        bindR (as_list (WorkIQProtocolError ''Work IQ facts are malformed'') (json_get d ''facts''))
          (\<lambda>facts.
        bindR (require (length (ws_items st) + length facts \<le> MAX_FACTS)
                 (WorkIQResponseLimitError ''Work IQ fact count exceeds limit'')) (\<lambda>_.
        normalize_facts q artifact_id part_index 0 facts st))))"

fun normalize_parts ::
    "workiq_request \<Rightarrow> string \<Rightarrow> nat \<Rightarrow> json list \<Rightarrow> workiq_state \<Rightarrow> workiq_state result" where
  "normalize_parts q artifact_id k [] st = Inr st"
| "normalize_parts q artifact_id k (v # parts) st =
     bindR (as_dict (WorkIQProtocolError ''Work IQ artifact part is malformed'') v) (\<lambda>part.
     bindR (normalize_text q artifact_id k (json_get part ''text'') st) (\<lambda>st1.
     bindR (normalize_data q artifact_id k (json_get part ''data'') st1) (\<lambda>st2.
     normalize_parts q artifact_id (Suc k) parts st2)))"

fun normalize_artifacts :: "workiq_request \<Rightarrow> json list \<Rightarrow> workiq_state \<Rightarrow> workiq_state result" where
  "normalize_artifacts q [] st = Inr st"
| "normalize_artifacts q (v # artifacts) st =
     bindR (as_dict (WorkIQProtocolError ''Work IQ artifact is malformed'') v) (\<lambda>artifact.
     bindR (required_string ''artifact ID'' (json_get artifact ''artifactId'')) (\<lambda>artifact_id.
     bindR (require (artifact_id \<notin> set (ws_artifact_ids st))
              (WorkIQProtocolError ''duplicate Work IQ artifact ID'')) (\<lambda>_.
     bindR (as_bounded_list (WorkIQResponseLimitError ''Work IQ artifact part count is invalid'') 32
              (json_get artifact ''parts'')) (\<lambda>parts.
     bindR (normalize_parts q artifact_id 0 parts
              (st\<lparr>ws_artifact_ids := ws_artifact_ids st @ [artifact_id]\<rparr>)) (\<lambda>st1.
     normalize_artifacts q artifacts st1)))))"

record workiq_lineage =
  wl_context_id :: string
  wl_task_id :: string
  wl_artifact_ids :: "string list"
  wl_source_ids :: "string list"
  wl_protocol :: retrieval_protocol
  wl_request_ids :: "string list"

record workiq_retrieval =
  wr_evidence :: "evidence_item list"
  wr_lineage :: workiq_lineage

definition completed_status :: "json \<Rightarrow> bool" where
  "completed_status v =
     (case v of JDict d \<Rightarrow> json_get d ''state'' = JString ''TASK_STATE_COMPLETED'' | _ \<Rightarrow> False)"

definition normalize_a2a_evidence :: "workiq_request \<Rightarrow> json_dict \<Rightarrow> workiq_retrieval result" where
  "normalize_a2a_evidence q payload =
     bindR (as_dict (WorkIQProtocolError ''Work IQ result is missing'') (json_get payload ''result''))
       (\<lambda>result1.
     bindR (as_dict (WorkIQProtocolError ''Work IQ task is missing'') (json_get result1 ''task''))
       (\<lambda>task.
     bindR (require (completed_status (json_get task ''status''))
              (WorkIQProtocolError ''Work IQ task did not complete'')) (\<lambda>_.
     bindR (required_string ''context ID'' (json_get task ''contextId'')) (\<lambda>context_id.
     bindR (required_string ''task ID'' (json_get task ''id'')) (\<lambda>task_id.
     bindR (required_string ''expected source ID'' (JString (wq_expected_source_id q))) (\<lambda>expected.
     bindR (tenant_host (wq_sharepoint_host q)) (\<lambda>host.
     bindR (as_bounded_list (WorkIQResponseLimitError ''Work IQ artifact count is invalid'') 64
              (json_get task ''artifacts'')) (\<lambda>artifacts.
     bindR (normalize_artifacts
              (q\<lparr>wq_expected_source_id := expected, wq_sharepoint_host := host\<rparr>) artifacts
              empty_workiq_state) (\<lambda>st.
     Inr \<lparr>wr_evidence = ws_items st,
          wr_lineage =
            \<lparr>wl_context_id = context_id, wl_task_id = task_id,
             wl_artifact_ids = ws_artifact_ids st,
             wl_source_ids = map fst (ws_citation_sources st),
             wl_protocol = RP_a2a, wl_request_ids = []\<rparr>\<rparr>)))))))))"

section \<open>What an item may be\<close>

text \<open>
  What every item of an answer has, and what it takes to be a source statement: an address on a
  trusted host without credentials, the expected source and scope, an excerpt and a time.
\<close>

definition trusted_hosts :: "string \<Rightarrow> string set" where
  "trusted_hosts sharepoint = insert sharepoint (set ALLOWED_EXACT_HOSTS)"

definition trusted_address :: "string \<Rightarrow> string \<Rightarrow> bool" where
  "trusted_address sharepoint s \<longleftrightarrow>
     (\<exists>u port. urlsplit s = Inr u \<and> up_scheme u = ''https'' \<and>
        py_lower (url_hostname u) \<in> trusted_hosts sharepoint \<and> up_path u \<noteq> [] \<and>
        CHR ''@'' \<notin> set (up_netloc u) \<and> url_port u = Inr port \<and> port \<in> {None, Some 443})"

definition item_labelled :: "workiq_request \<Rightarrow> evidence_item \<Rightarrow> bool" where
  "item_labelled q item \<longleftrightarrow>
     ei_case_id item = wq_case_id q \<and> ei_retrieved_for_analysis_id item = wq_analysis_id q \<and>
     ei_retrieved_at item = Some (wq_retrieved_at q) \<and> ei_source_system item = ESS_WORK_IQ \<and>
     ei_runtime_mode item = RM_LIVE \<and> \<not> ei_synthetic item \<and>
     nonblank (ei_claim item) \<and> int (length (ei_claim item)) \<le> MAX_TEXT_CHARS"

definition item_is_context :: "evidence_item \<Rightarrow> bool" where
  "item_is_context item \<longleftrightarrow>
     ei_kind item = EK_CONTEXTUAL_EVIDENCE \<and> ei_requirement item = ER_CONTEXTUAL \<and>
     ei_authority_scope item = [] \<and> ei_excerpt item = None \<and> ei_citation_url item = None \<and>
     ei_uncertainty_state item = US_UNCERTAIN"

definition item_is_statement :: "workiq_request \<Rightarrow> evidence_item \<Rightarrow> bool" where
  "item_is_statement q item \<longleftrightarrow>
     ei_kind item = EK_SOURCE_STATEMENT \<and> ei_requirement item = ER_REQUIRED_AUTHORITATIVE \<and>
     ei_authority_scope item = [wq_expected_scope q] \<and>
     wq_expected_scope q \<in> {AS_SUPPLIER_STATEMENT, AS_COLLABORATION_STATEMENT} \<and>
     ei_source_id item = wq_expected_source_id q \<and> ei_source_timestamp item \<noteq> None \<and>
     (case ei_excerpt item of None \<Rightarrow> False | Some x \<Rightarrow> nonblank x) \<and>
     (case ei_citation_url item of
        None \<Rightarrow> False | Some s \<Rightarrow> trusted_address (wq_sharepoint_host q) s)"

definition item_ok :: "workiq_request \<Rightarrow> evidence_item \<Rightarrow> bool" where
  "item_ok q item \<longleftrightarrow> item_labelled q item \<and> (item_is_context item \<or> item_is_statement q item)"

lemma trusted_url_Some:
  "trusted_url h v = Some s \<Longrightarrow> v = JString s \<and> int (length s) \<le> MAX_URL_CHARS \<and> trusted_address h s"
  by (auto simp: trusted_url_def trusted_address_def trusted_hosts_def Let_def result_simps
      split: json.splits if_splits sum.splits prod.splits)

lemma dropWhile_length: "length (dropWhile p xs) \<le> length xs"
  by (induction xs) auto

lemma py_strip_length: "length (py_strip s) \<le> length s"
  unfolding py_strip_def length_rev
  by (rule order_trans [OF dropWhile_length]) (simp add: dropWhile_length)

lemma required_string_Inr:
  assumes "required_string label v = Inr t"
  shows "nonblank t \<and> int (length t) \<le> MAX_TEXT_CHARS \<and> (\<exists>s. v = JString s \<and> t = py_strip s)"
proof -
  from assms obtain s where "v = JString s" "t = py_strip s" "int (length s) \<le> MAX_TEXT_CHARS" "nonblank s"
    by (auto simp: required_string_def Let_def split: json.splits if_splits)
  with py_strip_length [of s] show ?thesis by auto
qed

lemma optional_string_Inr:
  "optional_string label v = Inr (Some t) \<Longrightarrow> required_string label v = Inr t"
  by (auto simp: optional_string_def result_simps split: if_splits)

lemma fact_scope_Some: "fact_scope entry = Some s \<Longrightarrow> s \<in> {AS_SUPPLIER_STATEMENT, AS_COLLABORATION_STATEMENT}"
  by (auto simp: fact_scope_def ALLOWED_SCOPES_def split: json.splits if_splits)

lemma fact_item_ok:
  assumes "fact_item q a p k entry = Inr item"
  shows "item_ok q item"
proof -
  from assms obtain claim fact_id source_id excerpt trusted where
    claim: "required_string ''fact claim'' (json_get entry ''claim'') = Inr claim" and
    excerpt: "optional_string ''citation excerpt'' (citation_get (fact_citation entry) ''excerpt'') = Inr excerpt" and
    trusted: "(if trusted_url (wq_sharepoint_host q) (citation_get (fact_citation entry) ''url'') \<noteq> None \<and>
        source_id \<noteq> None \<and> excerpt \<noteq> None \<and>
        json_timestamp (wq_iso q) (json_get entry ''sourceTimestamp'') \<noteq> None \<and>
        source_id = Some (wq_expected_source_id q) \<and> fact_scope entry = Some (wq_expected_scope q)
      then trusted_source_kind (citation_get (fact_citation entry) ''sourceType'') else Inr False) = Inr trusted" and
    item: "item = \<lparr>ei_evidence_id =
            (case fact_id of
               Some i \<Rightarrow> i
             | None \<Rightarrow> a @ '':part:'' @ py_str_int (int p) @ '':fact:'' @ py_str_int (int k)),
          ei_case_id = wq_case_id q,
          ei_kind = (if trusted then EK_SOURCE_STATEMENT else EK_CONTEXTUAL_EVIDENCE),
          ei_authority_scope =
            (if trusted then (case fact_scope entry of None \<Rightarrow> [] | Some s \<Rightarrow> [s]) else []),
          ei_source_system = ESS_WORK_IQ,
          ei_source_id = (case source_id of None \<Rightarrow> a | Some s \<Rightarrow> s),
          ei_source_timestamp = json_timestamp (wq_iso q) (json_get entry ''sourceTimestamp''),
          ei_retrieved_at = Some (wq_retrieved_at q),
          ei_retrieved_for_analysis_id = wq_analysis_id q,
          ei_retrieval_health = RH_HEALTHY,
          ei_effective_at = json_timestamp (wq_iso q) (json_get entry ''effectiveAt''),
          ei_expires_at = json_timestamp (wq_iso q) (json_get entry ''expiresAt''),
          ei_claim = claim,
          ei_excerpt = (if trusted then excerpt else None),
          ei_citation_url = (if trusted
             then trusted_url (wq_sharepoint_host q) (citation_get (fact_citation entry) ''url'') else None),
          ei_runtime_mode = RM_LIVE, ei_synthetic = False,
          ei_requirement = (if trusted then ER_REQUIRED_AUTHORITATIVE else ER_CONTEXTUAL),
          ei_uncertainty_state = (if trusted then US_CERTAIN else US_UNCERTAIN),
          ei_citation_classification = None, ei_navigable_citation_url = None,
          ei_citation_trusted_host = None\<rparr>"
    unfolding fact_item_def Let_def by (elim bindR_InrE) (drule Inr_inject, rule that, assumption+, erule sym)
  have labelled: "item_labelled q item"
    using required_string_Inr [OF claim] by (simp add: item item_labelled_def)
  show ?thesis
  proof (cases trusted)
    case False
    then show ?thesis using labelled by (simp add: item_ok_def item_is_context_def item)
  next
    case True
    with trusted obtain s x where "trusted_url (wq_sharepoint_host q) (citation_get (fact_citation entry) ''url'') = Some s"
      and "excerpt = Some x" "source_id = Some (wq_expected_source_id q)"
      "fact_scope entry = Some (wq_expected_scope q)"
      "json_timestamp (wq_iso q) (json_get entry ''sourceTimestamp'') \<noteq> None"
      by (auto split: if_splits)
    then have "item_is_statement q item"
      using trusted_url_Some fact_scope_Some [of entry "wq_expected_scope q"] True
        required_string_Inr [OF optional_string_Inr [OF excerpt [unfolded \<open>excerpt = Some x\<close>]]]
      by (simp add: item_is_statement_def item)
    with labelled show ?thesis by (simp add: item_ok_def)
  qed
qed

lemma contextual_text_ok:
  "required_string label v = Inr t \<Longrightarrow> item_ok q (contextual_text_item q a k t)"
  by (auto dest!: required_string_Inr
      simp: item_ok_def item_labelled_def item_is_context_def contextual_text_item_def)

section \<open>The loops\<close>

text \<open>What holds of the local variables after \<open>n\<close> texts.\<close>

definition state_ok :: "workiq_request \<Rightarrow> nat \<Rightarrow> workiq_state \<Rightarrow> bool" where
  "state_ok q n st \<longleftrightarrow>
     ws_evidence_ids st = map ei_evidence_id (ws_items st) \<and> distinct (map ei_evidence_id (ws_items st)) \<and>
     (\<forall>item \<in> set (ws_items st). item_ok q item) \<and> length (ws_items st) \<le> MAX_FACTS + n \<and>
     distinct (ws_artifact_ids st) \<and> distinct (map fst (ws_citation_sources st))"

lemma add_item_ok:
  assumes "add_item item st = Inr st'" and "item_ok q item" and "state_ok q n st"
    and "length (ws_items st) < MAX_FACTS + m" and "n \<le> m"
  shows "state_ok q m st' \<and> length (ws_items st') = Suc (length (ws_items st)) \<and>
    ws_artifact_ids st' = ws_artifact_ids st"
  using assms by (auto simp: add_item_def state_ok_def result_simps)

lemma note_fact_id_ok:
  "note_fact_id i st = Inr st' \<Longrightarrow> state_ok q n st \<Longrightarrow>
   state_ok q n st' \<and> ws_items st' = ws_items st \<and> ws_artifact_ids st' = ws_artifact_ids st"
  by (auto simp: note_fact_id_def state_ok_def result_simps split: option.splits)

lemma note_citation_cases:
  assumes "note_citation c st = Inr st'"
  shows "st' = st \<or> (\<exists>i url. i \<notin> fst ` set (ws_citation_sources st) \<and>
    st' = st\<lparr>ws_citation_sources := ws_citation_sources st @ [(i, url)]\<rparr>)"
proof (cases c)
  case None
  with assms show ?thesis by (simp add: note_citation_def)
next
  case (Some d)
  with assms obtain source_id where
    run: "(case (source_id, json_get d ''url'') of
            (Some i, JString url) \<Rightarrow>
              (case map_of (ws_citation_sources st) i of
                 None \<Rightarrow> Inr (st\<lparr>ws_citation_sources := ws_citation_sources st @ [(i, url)]\<rparr>)
               | Some prior \<Rightarrow>
                   bindR (require (prior = url)
                            (WorkIQProtocolError ''ambiguous duplicate Work IQ source ID'')) (\<lambda>_.
                   Inr st))
          | _ \<Rightarrow> Inr st) = Inr st'"
    by (auto simp: note_citation_def elim!: bindR_InrE)
  then show ?thesis
    by (cases source_id; cases "json_get d ''url''")
      (auto simp: map_of_eq_None_iff elim!: bindR_InrE split: option.splits)
qed

lemma note_citation_ok:
  assumes "note_citation c st = Inr st'" and "state_ok q n st"
  shows "state_ok q n st' \<and> ws_items st' = ws_items st \<and> ws_artifact_ids st' = ws_artifact_ids st"
  using note_citation_cases [OF assms(1)] assms(2) by (auto simp: state_ok_def)

lemma normalize_facts_ok:
  assumes "normalize_facts q a p k facts st = Inr st'" and "state_ok q n st"
    and "length (ws_items st) + length facts \<le> MAX_FACTS"
  shows "state_ok q n st' \<and> ws_artifact_ids st' = ws_artifact_ids st"
  using assms
proof (induction q a p k facts st rule: normalize_facts.induct)
  case (2 q a p k v facts st)
  from 2(2) obtain entry fact_id st1 st2 item st3 where
    1: "as_dict (WorkIQProtocolError ''Work IQ fact is malformed'') v = Inr entry"
      "optional_string ''fact ID'' (json_get entry ''factId'') = Inr fact_id"
      "note_fact_id fact_id st = Inr st1" "note_citation (fact_citation entry) st1 = Inr st2"
      "fact_item q a p k entry = Inr item" "add_item item st2 = Inr st3"
    and rest: "normalize_facts q a p (Suc k) facts st3 = Inr st'"
    by (auto elim!: bindR_InrE)
  have ok2: "state_ok q n st2 \<and> ws_items st2 = ws_items st \<and> ws_artifact_ids st2 = ws_artifact_ids st"
    using note_fact_id_ok [OF 1(3) 2(3)] note_citation_ok [OF 1(4)] by auto
  have ok3: "state_ok q n st3 \<and> length (ws_items st3) = Suc (length (ws_items st)) \<and>
      ws_artifact_ids st3 = ws_artifact_ids st"
    using add_item_ok [OF 1(6) fact_item_ok [OF 1(5)], of n n] ok2 2(4) by simp
  then show ?case using 2(1) [OF rest] 2(4) by simp
qed simp

lemma normalize_text_ok:
  assumes "normalize_text q a k v st = Inr st'" and "state_ok q n st"
  shows "state_ok q (Suc n) st' \<and> ws_artifact_ids st' = ws_artifact_ids st"
proof (cases "v = JNull")
  case True
  with assms show ?thesis by (auto simp: normalize_text_def state_ok_def)
next
  case False
  with assms(1) obtain t where "required_string ''artifact text'' v = Inr t"
    and add: "add_item (contextual_text_item q a k t) st = Inr st'"
    by (auto simp: normalize_text_def elim!: bindR_InrE)
  then have "item_ok q (contextual_text_item q a k t)" by (blast intro: contextual_text_ok)
  from add_item_ok [OF add this assms(2), of "Suc n"] assms(2) show ?thesis
    by (simp add: state_ok_def)
qed

lemma normalize_data_ok:
  assumes "normalize_data q a k v st = Inr st'" and "state_ok q n st"
  shows "state_ok q n st' \<and> ws_artifact_ids st' = ws_artifact_ids st"
  using assms normalize_facts_ok
  by (auto simp: normalize_data_def require_Inr_iff elim!: bindR_InrE split: if_splits)

lemma normalize_parts_ok:
  assumes "normalize_parts q a k parts st = Inr st'" and "state_ok q n st"
  shows "state_ok q (n + length parts) st' \<and> ws_artifact_ids st' = ws_artifact_ids st"
  using assms
proof (induction q a k parts st arbitrary: n rule: normalize_parts.induct)
  case (2 q a k v parts st)
  from 2(2) obtain part st1 st2 where
    1: "as_dict (WorkIQProtocolError ''Work IQ artifact part is malformed'') v = Inr part"
      "normalize_text q a k (json_get part ''text'') st = Inr st1"
      "normalize_data q a k (json_get part ''data'') st1 = Inr st2"
    and rest: "normalize_parts q a (Suc k) parts st2 = Inr st'"
    by (auto elim!: bindR_InrE)
  from normalize_text_ok [OF 1(2) 2(3)] normalize_data_ok [OF 1(3)]
  have "state_ok q (Suc n) st2 \<and> ws_artifact_ids st2 = ws_artifact_ids st" by auto
  then show ?case using 2(1) [OF rest, of "Suc n"] by simp
qed simp

lemma normalize_artifacts_ok:
  assumes "normalize_artifacts q artifacts st = Inr st'" and "state_ok q n st"
  shows "state_ok q (n + 32 * length artifacts) st' \<and>
    length (ws_artifact_ids st') = length (ws_artifact_ids st) + length artifacts"
  using assms
proof (induction q artifacts st arbitrary: n rule: normalize_artifacts.induct)
  case (2 q v artifacts st)
  from 2(2) obtain artifact a parts st1 where
    1: "as_dict (WorkIQProtocolError ''Work IQ artifact is malformed'') v = Inr artifact"
      "required_string ''artifact ID'' (json_get artifact ''artifactId'') = Inr a"
      "require (a \<notin> set (ws_artifact_ids st))
        (WorkIQProtocolError ''duplicate Work IQ artifact ID'') = Inr ()"
      "as_bounded_list (WorkIQResponseLimitError ''Work IQ artifact part count is invalid'') 32
        (json_get artifact ''parts'') = Inr parts"
      "normalize_parts q a 0 parts (st\<lparr>ws_artifact_ids := ws_artifact_ids st @ [a]\<rparr>) = Inr st1"
    and rest: "normalize_artifacts q artifacts st1 = Inr st'"
    by (auto elim!: bindR_InrE)
  have "state_ok q n (st\<lparr>ws_artifact_ids := ws_artifact_ids st @ [a]\<rparr>)"
    using 2(3) 1(3) by (simp add: state_ok_def require_Inr_iff)
  from normalize_parts_ok [OF 1(5) this] have
    parts: "state_ok q (n + length parts) st1" "ws_artifact_ids st1 = ws_artifact_ids st @ [a]" by simp_all
  have "length parts \<le> 32"
    using 1(4) by (cases "json_get artifact ''parts''") (auto split: if_splits)
  with parts(1) have "state_ok q (n + 32) st1" by (simp add: state_ok_def)
  from 2(1) [OF rest this] parts(2) show ?case by (simp add: add.assoc)
qed simp

lemma normalize_a2a_Inr:
  assumes "normalize_a2a_evidence q payload = Inr r"
  obtains host st where "tenant_host (wq_sharepoint_host q) = Inr host"
    and "state_ok (q\<lparr>wq_expected_source_id := py_strip (wq_expected_source_id q),
      wq_sharepoint_host := host\<rparr>) (32 * 64) st"
    and "length (ws_artifact_ids st) \<le> 64" and "wr_evidence r = ws_items st"
    and "wl_artifact_ids (wr_lineage r) = ws_artifact_ids st"
    and "wl_source_ids (wr_lineage r) = map fst (ws_citation_sources st)"
proof -
  from assms obtain expected host artifacts st v where
    1: "required_string ''expected source ID'' (JString (wq_expected_source_id q)) = Inr expected"
      "tenant_host (wq_sharepoint_host q) = Inr host"
      "as_bounded_list (WorkIQResponseLimitError ''Work IQ artifact count is invalid'') 64 v = Inr artifacts"
      "normalize_artifacts (q\<lparr>wq_expected_source_id := expected, wq_sharepoint_host := host\<rparr>) artifacts
        empty_workiq_state = Inr st"
    and r: "wr_evidence r = ws_items st" "wl_artifact_ids (wr_lineage r) = ws_artifact_ids st"
      "wl_source_ids (wr_lineage r) = map fst (ws_citation_sources st)"
    by (auto simp: normalize_a2a_evidence_def elim!: bindR_InrE)
  have expected: "expected = py_strip (wq_expected_source_id q)" using required_string_Inr [OF 1(1)] by simp
  have "length artifacts \<le> 64" using 1(3) by (cases v) (auto split: if_splits)
  moreover have "state_ok (q\<lparr>wq_expected_source_id := expected, wq_sharepoint_host := host\<rparr>) 0
      empty_workiq_state" by (simp add: state_ok_def empty_workiq_state_def)
  from normalize_artifacts_ok [OF 1(4) this]
  have "state_ok (q\<lparr>wq_expected_source_id := expected, wq_sharepoint_host := host\<rparr>)
      (32 * length artifacts) st" "length (ws_artifact_ids st) = length artifacts"
    by (simp_all add: empty_workiq_state_def)
  ultimately show ?thesis
    using that [OF 1(2) _ _ r] unfolding expected by (simp add: state_ok_def)
qed

section \<open>Properties\<close>

text \<open>
  C16. A normalised answer is well formed, whatever document the agent sent.  The evidence
  ids are distinct, as are the artifact ids and the source ids; at most 64 artifacts and 2176 items
  come out; every item is labelled as live, retrieved from Work IQ at the time of the request for
  its Case and analysis, and has a nonblank claim of bounded length.
\<close>

theorem workiq_answer_is_well_formed:
  assumes "normalize_a2a_evidence q payload = Inr r"
  shows "distinct (map ei_evidence_id (wr_evidence r)) \<and>
    distinct (wl_artifact_ids (wr_lineage r)) \<and> distinct (wl_source_ids (wr_lineage r)) \<and>
    length (wl_artifact_ids (wr_lineage r)) \<le> 64 \<and> length (wr_evidence r) \<le> 2176 \<and>
    (\<forall>item \<in> set (wr_evidence r). item_labelled q item)"
proof -
  obtain host st where
    "state_ok (q\<lparr>wq_expected_source_id := py_strip (wq_expected_source_id q),
      wq_sharepoint_host := host\<rparr>) (32 * 64) st"
    "length (ws_artifact_ids st) \<le> 64" "wr_evidence r = ws_items st"
    "wl_artifact_ids (wr_lineage r) = ws_artifact_ids st"
    "wl_source_ids (wr_lineage r) = map fst (ws_citation_sources st)"
    by (rule normalize_a2a_Inr [OF assms])
  then show ?thesis
    by (auto simp: state_ok_def item_ok_def item_labelled_def MAX_FACTS_def)
qed

text \<open>
  C26. Untrusted text never becomes authoritative.  An item of a normalised answer is an
  authoritative source statement only when its citation is an https address, without credentials
  and on the default port, of Teams, Outlook or the tenant's SharePoint, when it names the expected
  source and the expected scope (a supplier or a collaboration statement), and when it has a
  nonblank excerpt and a time; every other item is uncertain context without scope or citation.
\<close>

theorem workiq_statements_are_trusted:
  assumes "normalize_a2a_evidence q payload = Inr r" and "item \<in> set (wr_evidence r)"
  shows "item_is_context item \<or>
    (\<exists>host s x t. tenant_host (wq_sharepoint_host q) = Inr host \<and>
      ei_citation_url item = Some s \<and> trusted_address host s \<and>
      ei_source_id item = py_strip (wq_expected_source_id q) \<and>
      ei_authority_scope item = [wq_expected_scope q] \<and>
      wq_expected_scope q \<in> {AS_SUPPLIER_STATEMENT, AS_COLLABORATION_STATEMENT} \<and>
      ei_excerpt item = Some x \<and> nonblank x \<and> ei_source_timestamp item = Some t)"
proof -
  obtain host st where host: "tenant_host (wq_sharepoint_host q) = Inr host"
    and ok: "state_ok (q\<lparr>wq_expected_source_id := py_strip (wq_expected_source_id q),
      wq_sharepoint_host := host\<rparr>) (32 * 64) st"
    and "wr_evidence r = ws_items st"
    by (rule normalize_a2a_Inr [OF assms(1)])
  with assms(2) have "item_ok (q\<lparr>wq_expected_source_id := py_strip (wq_expected_source_id q),
      wq_sharepoint_host := host\<rparr>) item" by (simp add: state_ok_def)
  then show ?thesis
    by (auto simp: item_ok_def item_is_statement_def host split: option.splits)
qed

section \<open>Witnesses\<close>

definition example_request :: workiq_request where
  "example_request =
     \<lparr>wq_case_id = ''CASE'', wq_analysis_id = ''ANALYSIS'', wq_retrieved_at = 100,
      wq_expected_source_id = '' MAIL-1'', wq_expected_scope = AS_SUPPLIER_STATEMENT,
      wq_sharepoint_host = ''contoso.SharePoint.com.'', wq_iso = (\<lambda>_. Some (Aware 7))\<rparr>"

definition example_fact :: "string \<Rightarrow> json" where
  "example_fact url =
     JDict [(''claim'', JString ''late by a week''), (''sourceTimestamp'', JString ''now''),
            (''authorityScope'', JString ''supplier_statement''),
            (''citation'', JDict [(''url'', JString url), (''sourceId'', JString ''MAIL-1''),
               (''excerpt'', JString ''a week''), (''sourceType'', JString ''tenant'')])]"

definition example_payload :: "json_dict" where
  "example_payload =
     [(''result'', JDict [(''task'', JDict
        [(''status'', JDict [(''state'', JString ''TASK_STATE_COMPLETED'')]),
         (''contextId'', JString ''C''), (''id'', JString ''T''),
         (''artifacts'', JList [JDict [(''artifactId'', JString ''A''),
            (''parts'', JList [
               JDict [(''text'', JString ''hello'')],
               JDict [(''data'', JDict [(''facts'',
                  JList [example_fact ''https://Contoso.sharepoint.com/mail''])])],
               JDict [(''data'', JDict [(''facts'',
                  JList [JDict [(''claim'', JString ''hearsay'')]])])]])]])])])]"

definition example_answer :: "(evidence_requirement \<times> string option) list result" where
  "example_answer =
     bindR (normalize_a2a_evidence example_request example_payload) (\<lambda>r.
     Inr (map (\<lambda>item. (ei_requirement item, ei_citation_url item)) (wr_evidence r)))"

lemma example_answer_value:
  "example_answer =
     Inr [(ER_CONTEXTUAL, None),
          (ER_REQUIRED_AUTHORITATIVE, Some ''https://Contoso.sharepoint.com/mail''),
          (ER_CONTEXTUAL, None)]"
  by code_simp

text \<open>The item in the middle is the source statement.\<close>

lemma example_normalizes:
  "\<exists>r a item b. normalize_a2a_evidence example_request example_payload = Inr r \<and>
     wr_evidence r = [a, item, b] \<and> ei_requirement item = ER_REQUIRED_AUTHORITATIVE \<and>
     ei_citation_url item = Some ''https://Contoso.sharepoint.com/mail''"
proof (cases "normalize_a2a_evidence example_request example_payload")
  case (Inl e)
  with example_answer_value show ?thesis by (simp add: example_answer_def)
next
  case (Inr r)
  with example_answer_value obtain a item b where "wr_evidence r = [a, item, b]"
    "(ei_requirement item, ei_citation_url item) =
       (ER_REQUIRED_AUTHORITATIVE, Some ''https://Contoso.sharepoint.com/mail'')"
    by (simp only: example_answer_def bindR_simps sum.inject map_eq_Cons_conv map_is_Nil_conv) blast
  with Inr show ?thesis by (simp only: prod.inject) blast
qed

theorem workiq_answer_is_well_formed_witness:
  "\<exists>r. normalize_a2a_evidence example_request example_payload = Inr r \<and>
     length (wr_evidence r) = 3 \<and> distinct (map ei_evidence_id (wr_evidence r))"
proof -
  obtain r a item b where r: "normalize_a2a_evidence example_request example_payload = Inr r"
    and items: "wr_evidence r = [a, item, b]" using example_normalizes by blast
  have "length (wr_evidence r) = 3" by (simp only: items list.size)
  with workiq_answer_is_well_formed [OF r] r show ?thesis by blast
qed

theorem workiq_statements_are_trusted_witness:
  "\<exists>r item host. normalize_a2a_evidence example_request example_payload = Inr r \<and>
     item \<in> set (wr_evidence r) \<and> tenant_host (wq_sharepoint_host example_request) = Inr host \<and>
     ei_citation_url item = Some ''https://Contoso.sharepoint.com/mail'' \<and>
     trusted_address host ''https://Contoso.sharepoint.com/mail''"
proof -
  let ?s = "''https://Contoso.sharepoint.com/mail''"
  obtain r a item b where r: "normalize_a2a_evidence example_request example_payload = Inr r"
    and items: "wr_evidence r = [a, item, b]" and url: "ei_citation_url item = Some ?s"
    using example_normalizes by blast
  have item: "item \<in> set (wr_evidence r)" unfolding items by (intro list.set_intros)
  have "\<not> item_is_context item" unfolding item_is_context_def url by blast
  with workiq_statements_are_trusted [OF r item] obtain host where
    "tenant_host (wq_sharepoint_host example_request) = Inr host" "trusted_address host ?s"
    unfolding url option.inject by blast
  with r item url show ?thesis by blast
qed

end
