(* ===== verification/Presenter_Retention.thy ===== *)
theory Presenter_Retention
  imports Finance_Service Playback Supplier_Email
begin

text \<open>
  \<open>services/persistence/presenter_runs.py\<close> and its use in \<open>SqlAlchemyStore\<close>: only the newest
  presenter Cases are kept, the rows of the older ones are deleted from all twenty tables, children
  before parents.

  \<open>recorded_at\<close> of a Case is a column the database fills in with its clock; it is a parameter here.
  The database lock that a run takes first is left out, it only makes the runs serial.
\<close>

section \<open>Twenty tables\<close>

record 'p presenter_db =
  prd_cases :: "'p case_db"
  prd_execution :: execution_db
  prd_playback :: playback_db
  prd_mail :: mail_db

datatype aggregate_table =
    AT_PROJECTIONS | AT_OBSERVATIONS | AT_MAIL_REVISIONS | AT_MAIL_DELIVERIES | AT_DRAFTS
  | AT_ATTEMPTS | AT_EVENTS | AT_ACTION_PROJECTIONS | AT_PLAYBACKS | AT_OUTBOX | AT_SATISFACTIONS
  | AT_ACTIONS | AT_SELECTIONS | AT_REVIEWS | AT_DECISIONS | AT_EVIDENCE | AT_ANALYSES | AT_CLAIMS
  | AT_SNAPSHOTS | AT_CASES

definition PRESENTER_AGGREGATE_DELETE_ORDER :: "aggregate_table list" where
  "PRESENTER_AGGREGATE_DELETE_ORDER =
     [AT_PROJECTIONS, AT_OBSERVATIONS, AT_MAIL_REVISIONS, AT_MAIL_DELIVERIES, AT_DRAFTS,
      AT_ATTEMPTS, AT_EVENTS, AT_ACTION_PROJECTIONS, AT_PLAYBACKS, AT_OUTBOX, AT_SATISFACTIONS,
      AT_ACTIONS, AT_SELECTIONS, AT_REVIEWS, AT_DECISIONS, AT_EVIDENCE, AT_ANALYSES, AT_CLAIMS,
      AT_SNAPSHOTS, AT_CASES]"

text \<open>
  What retention and the foreign keys look at in a row: the five key columns (None where the table
  has no such column or it is NULL), the primary key if another table refers to it, and the foreign
  keys with the table they refer to.
\<close>

datatype row_id = Key string | Revision_Key string int

record row_view =
  rv_case :: "string option"
  rv_analysis :: "string option"
  rv_decision :: "string option"
  rv_action :: "string option"
  rv_playback :: "string option"
  rv_id :: "row_id option"
  rv_refs :: "(aggregate_table \<times> row_id) list"

definition ref_to :: "aggregate_table \<Rightarrow> string option \<Rightarrow> (aggregate_table \<times> row_id) list" where
  "ref_to t v = (case v of None \<Rightarrow> [] | Some i \<Rightarrow> [(t, Key i)])"

definition view_of ::
    "string option \<Rightarrow> string option \<Rightarrow> string option \<Rightarrow> string option \<Rightarrow> string option \<Rightarrow>
     row_id option \<Rightarrow> (aggregate_table \<times> row_id) list \<Rightarrow> row_view" where
  "view_of c a d x k i refs =
     \<lparr>rv_case = c, rv_analysis = a, rv_decision = d, rv_action = x, rv_playback = k, rv_id = i,
      rv_refs = refs\<rparr>"

definition case_view :: "case_row \<Rightarrow> row_view" where
  "case_view r = view_of (Some (crow_case_id r)) None None None None (Some (Key (crow_case_id r))) []"

definition snapshot_view :: "snapshot_row \<Rightarrow> row_view" where
  "snapshot_view r =
     view_of (Some (srow_case_id r)) None None None None None [(AT_CASES, Key (srow_case_id r))]"

definition claim_view :: "claim_row \<Rightarrow> row_view" where
  "claim_view r =
     view_of (Some (grow_case_id r)) None None None None None [(AT_CASES, Key (grow_case_id r))]"

definition selection_view :: "selection_row \<Rightarrow> row_view" where
  "selection_view r =
     view_of (Some (qrow_case_id r)) (Some (qrow_analysis_id r)) None None None
       (Some (Key (qrow_selection_id r)))
       ([(AT_CASES, Key (qrow_case_id r)), (AT_ANALYSES, Key (qrow_analysis_id r))] @
        ref_to AT_SELECTIONS (qrow_expected_selection_id r) @
        (case (qrow_finance_review_id r, qrow_finance_review_revision r) of
           (Some i, Some n) \<Rightarrow> [(AT_REVIEWS, Revision_Key i n)] | _ \<Rightarrow> []))"

definition case_projection_view :: "case_projection_row \<Rightarrow> row_view" where
  "case_projection_view r =
     view_of (Some (jrow_case_id r)) None None None None None
       ((AT_CASES, Key (jrow_case_id r)) # ref_to AT_ANALYSES (jrow_current_analysis_id r) @
        ref_to AT_SELECTIONS (jrow_current_selection_id r) @
        ref_to AT_DECISIONS (jrow_current_decision_id r))"

definition analysis_view :: "analysis_row \<Rightarrow> row_view" where
  "analysis_view r =
     view_of (Some (nrow_case_id r)) (Some (nrow_analysis_id r)) None None None
       (Some (Key (nrow_analysis_id r))) [(AT_CASES, Key (nrow_case_id r))]"

definition review_view :: "'p finance_row \<Rightarrow> row_view" where
  "review_view r =
     view_of (Some (frw_case_id r)) (Some (frw_analysis_id r)) None None None
       (Some (Revision_Key (frw_review_id r) (frw_revision r)))
       [(AT_CASES, Key (frw_case_id r)), (AT_ANALYSES, Key (frw_analysis_id r))]"

definition evidence_view :: "evidence_row \<Rightarrow> row_view" where
  "evidence_view r =
     view_of (Some (irow_case_id r)) (Some (irow_analysis_id r)) None None None None
       [(AT_ANALYSES, Key (irow_analysis_id r)), (AT_CASES, Key (irow_case_id r))]"

definition decision_view :: "decision_row \<Rightarrow> row_view" where
  "decision_view r =
     view_of (Some (lrow_case_id r)) (Some (lrow_analysis_id r)) (Some (lrow_decision_id r)) None None
       (Some (Key (lrow_decision_id r)))
       [(AT_CASES, Key (lrow_case_id r)), (AT_ANALYSES, Key (lrow_analysis_id r))]"

definition satisfaction_view :: "satisfaction_row \<Rightarrow> row_view" where
  "satisfaction_view r =
     view_of None (Some (frow_analysis_id r)) (frow_decision_id r) None None None
       ((AT_ANALYSES, Key (frow_analysis_id r)) # ref_to AT_DECISIONS (frow_decision_id r))"

definition outbox_view :: "outbox_row \<Rightarrow> row_view" where
  "outbox_view r =
     view_of None None (Some (orow_decision_id r)) None None None
       [(AT_DECISIONS, Key (orow_decision_id r))]"

definition action_view :: "action_row \<Rightarrow> row_view" where
  "action_view r =
     view_of (Some (arow_case_id r)) None (Some (arow_decision_id r)) (Some (arow_action_id r)) None
       (Some (Key (arow_action_id r)))
       [(AT_CASES, Key (arow_case_id r)), (AT_DECISIONS, Key (arow_decision_id r))]"

text \<open>The tables whose rows belong to an action.\<close>

definition action_child_view :: "string option \<Rightarrow> string \<Rightarrow> string \<Rightarrow> row_view" where
  "action_child_view c x d =
     view_of c None (Some d) (Some x) None None [(AT_ACTIONS, Key x), (AT_DECISIONS, Key d)]"

definition delivery_view :: "delivery_row \<Rightarrow> row_view" where
  "delivery_view r =
     view_of None None (Some (yrow_decision_id r)) None None None
       [(AT_DECISIONS, Key (yrow_decision_id r))]"

definition playback_view :: "playback_row \<Rightarrow> row_view" where
  "playback_view r =
     view_of (Some (kbrow_case_id r)) None (Some (kbrow_decision_id r)) None
       (Some (kbrow_playback_id r)) (Some (Key (kbrow_playback_id r)))
       [(AT_CASES, Key (kbrow_case_id r)), (AT_DECISIONS, Key (kbrow_decision_id r))]"

definition observation_view :: "observation_row \<Rightarrow> row_view" where
  "observation_view r =
     view_of (Some (obrow_case_id r)) None (Some (obrow_decision_id r)) (obrow_action_id r)
       (obrow_playback_id r) None
       ([(AT_CASES, Key (obrow_case_id r)), (AT_DECISIONS, Key (obrow_decision_id r))] @
        ref_to AT_PLAYBACKS (obrow_playback_id r) @ ref_to AT_ACTIONS (obrow_action_id r))"

fun table_rows :: "'p presenter_db \<Rightarrow> aggregate_table \<Rightarrow> row_view list" where
  "table_rows db AT_PROJECTIONS = map case_projection_view (cdb_projections (prd_cases db))"
| "table_rows db AT_OBSERVATIONS = map observation_view (pdb_observations (prd_playback db))"
| "table_rows db AT_MAIL_REVISIONS =
     map (\<lambda>r. action_child_view None (rrow_action_id r) (rrow_decision_id r))
       (mdb_revisions (prd_mail db))"
| "table_rows db AT_MAIL_DELIVERIES = map delivery_view (mdb_deliveries (prd_mail db))"
| "table_rows db AT_DRAFTS =
     map (\<lambda>r. action_child_view None (drow_action_id r) (drow_decision_id r))
       (edb_drafts (prd_execution db))"
| "table_rows db AT_ATTEMPTS =
     map (\<lambda>r. action_child_view None (trow_action_id r) (trow_decision_id r))
       (edb_attempts (prd_execution db))"
| "table_rows db AT_EVENTS =
     map (\<lambda>r. action_child_view None (vrow_action_id r) (vrow_decision_id r))
       (edb_events (prd_execution db))"
| "table_rows db AT_ACTION_PROJECTIONS =
     map (\<lambda>r. action_child_view (Some (prow_case_id r)) (prow_action_id r) (prow_decision_id r))
       (edb_projections (prd_execution db))"
| "table_rows db AT_PLAYBACKS = map playback_view (pdb_playbacks (prd_playback db))"
| "table_rows db AT_OUTBOX = map outbox_view (cdb_outbox (prd_cases db))"
| "table_rows db AT_SATISFACTIONS = map satisfaction_view (cdb_satisfactions (prd_cases db))"
| "table_rows db AT_ACTIONS = map action_view (edb_actions (prd_execution db))"
| "table_rows db AT_SELECTIONS = map selection_view (cdb_selections (prd_cases db))"
| "table_rows db AT_REVIEWS = map review_view (cdb_reviews (prd_cases db))"
| "table_rows db AT_DECISIONS = map decision_view (cdb_decisions (prd_cases db))"
| "table_rows db AT_EVIDENCE = map evidence_view (cdb_evidence (prd_cases db))"
| "table_rows db AT_ANALYSES = map analysis_view (cdb_analyses (prd_cases db))"
| "table_rows db AT_CLAIMS = map claim_view (cdb_claims (prd_cases db))"
| "table_rows db AT_SNAPSHOTS = map snapshot_view (cdb_snapshots (prd_cases db))"
| "table_rows db AT_CASES = map case_view (cdb_cases (prd_cases db))"

text \<open>The database with only the rows of one table that satisfy a predicate.\<close>

fun keep_rows ::
    "(row_view \<Rightarrow> bool) \<Rightarrow> aggregate_table \<Rightarrow> 'p presenter_db \<Rightarrow> 'p presenter_db" where
  "keep_rows p AT_PROJECTIONS db = db\<lparr>prd_cases := (prd_cases db)\<lparr>cdb_projections :=
     filter (\<lambda>r. p (case_projection_view r)) (cdb_projections (prd_cases db))\<rparr>\<rparr>"
| "keep_rows p AT_OBSERVATIONS db = db\<lparr>prd_playback := (prd_playback db)\<lparr>pdb_observations :=
     filter (\<lambda>r. p (observation_view r)) (pdb_observations (prd_playback db))\<rparr>\<rparr>"
| "keep_rows p AT_MAIL_REVISIONS db = db\<lparr>prd_mail := (prd_mail db)\<lparr>mdb_revisions :=
     filter (\<lambda>r. p (action_child_view None (rrow_action_id r) (rrow_decision_id r)))
       (mdb_revisions (prd_mail db))\<rparr>\<rparr>"
| "keep_rows p AT_MAIL_DELIVERIES db = db\<lparr>prd_mail := (prd_mail db)\<lparr>mdb_deliveries :=
     filter (\<lambda>r. p (delivery_view r)) (mdb_deliveries (prd_mail db))\<rparr>\<rparr>"
| "keep_rows p AT_DRAFTS db = db\<lparr>prd_execution := (prd_execution db)\<lparr>edb_drafts :=
     filter (\<lambda>r. p (action_child_view None (drow_action_id r) (drow_decision_id r)))
       (edb_drafts (prd_execution db))\<rparr>\<rparr>"
| "keep_rows p AT_ATTEMPTS db = db\<lparr>prd_execution := (prd_execution db)\<lparr>edb_attempts :=
     filter (\<lambda>r. p (action_child_view None (trow_action_id r) (trow_decision_id r)))
       (edb_attempts (prd_execution db))\<rparr>\<rparr>"
| "keep_rows p AT_EVENTS db = db\<lparr>prd_execution := (prd_execution db)\<lparr>edb_events :=
     filter (\<lambda>r. p (action_child_view None (vrow_action_id r) (vrow_decision_id r)))
       (edb_events (prd_execution db))\<rparr>\<rparr>"
| "keep_rows p AT_ACTION_PROJECTIONS db = db\<lparr>prd_execution := (prd_execution db)\<lparr>edb_projections :=
     filter (\<lambda>r. p (action_child_view (Some (prow_case_id r)) (prow_action_id r) (prow_decision_id r)))
       (edb_projections (prd_execution db))\<rparr>\<rparr>"
| "keep_rows p AT_PLAYBACKS db = db\<lparr>prd_playback := (prd_playback db)\<lparr>pdb_playbacks :=
     filter (\<lambda>r. p (playback_view r)) (pdb_playbacks (prd_playback db))\<rparr>\<rparr>"
| "keep_rows p AT_OUTBOX db = db\<lparr>prd_cases := (prd_cases db)\<lparr>cdb_outbox :=
     filter (\<lambda>r. p (outbox_view r)) (cdb_outbox (prd_cases db))\<rparr>\<rparr>"
| "keep_rows p AT_SATISFACTIONS db = db\<lparr>prd_cases := (prd_cases db)\<lparr>cdb_satisfactions :=
     filter (\<lambda>r. p (satisfaction_view r)) (cdb_satisfactions (prd_cases db))\<rparr>\<rparr>"
| "keep_rows p AT_ACTIONS db = db\<lparr>prd_execution := (prd_execution db)\<lparr>edb_actions :=
     filter (\<lambda>r. p (action_view r)) (edb_actions (prd_execution db))\<rparr>\<rparr>"
| "keep_rows p AT_SELECTIONS db = db\<lparr>prd_cases := (prd_cases db)\<lparr>cdb_selections :=
     filter (\<lambda>r. p (selection_view r)) (cdb_selections (prd_cases db))\<rparr>\<rparr>"
| "keep_rows p AT_REVIEWS db = db\<lparr>prd_cases := (prd_cases db)\<lparr>cdb_reviews :=
     filter (\<lambda>r. p (review_view r)) (cdb_reviews (prd_cases db))\<rparr>\<rparr>"
| "keep_rows p AT_DECISIONS db = db\<lparr>prd_cases := (prd_cases db)\<lparr>cdb_decisions :=
     filter (\<lambda>r. p (decision_view r)) (cdb_decisions (prd_cases db))\<rparr>\<rparr>"
| "keep_rows p AT_EVIDENCE db = db\<lparr>prd_cases := (prd_cases db)\<lparr>cdb_evidence :=
     filter (\<lambda>r. p (evidence_view r)) (cdb_evidence (prd_cases db))\<rparr>\<rparr>"
| "keep_rows p AT_ANALYSES db = db\<lparr>prd_cases := (prd_cases db)\<lparr>cdb_analyses :=
     filter (\<lambda>r. p (analysis_view r)) (cdb_analyses (prd_cases db))\<rparr>\<rparr>"
| "keep_rows p AT_CLAIMS db = db\<lparr>prd_cases := (prd_cases db)\<lparr>cdb_claims :=
     filter (\<lambda>r. p (claim_view r)) (cdb_claims (prd_cases db))\<rparr>\<rparr>"
| "keep_rows p AT_SNAPSHOTS db = db\<lparr>prd_cases := (prd_cases db)\<lparr>cdb_snapshots :=
     filter (\<lambda>r. p (snapshot_view r)) (cdb_snapshots (prd_cases db))\<rparr>\<rparr>"
| "keep_rows p AT_CASES db = db\<lparr>prd_cases := (prd_cases db)\<lparr>cdb_cases :=
     filter (\<lambda>r. p (case_view r)) (cdb_cases (prd_cases db))\<rparr>\<rparr>"

text \<open>
  \<open>DELETE FROM .. WHERE\<close> under the foreign keys: no row may refer to a deleted one.  The one
  table that refers to itself restricts, so the rows that go count as well.
\<close>

definition referenced :: "'p presenter_db \<Rightarrow> (aggregate_table \<times> row_id) list" where
  "referenced db = concat (map (\<lambda>t. concat (map rv_refs (table_rows db t)))
     PRESENTER_AGGREGATE_DELETE_ORDER)"

definition delete_rows ::
    "(row_view \<Rightarrow> bool) \<Rightarrow> aggregate_table \<Rightarrow> 'p presenter_db \<Rightarrow> ('p presenter_db \<times> nat) result" where
  "delete_rows p t db =
     (let gone = filter p (table_rows db t) in
      bindR (require (list_all (\<lambda>r. case rv_id r of None \<Rightarrow> True
                        | Some i \<Rightarrow> (t, i) \<notin> set (referenced db)) gone) IntegrityError) (\<lambda>_.
      Inr (keep_rows (\<lambda>r. \<not> p r) t db, length gone)))"

text \<open>\<open>UPDATE case_proposal_selections SET expected_selection_id = NULL WHERE\<close>\<close>

definition forget_expected ::
    "(row_view \<Rightarrow> bool) \<Rightarrow> 'p presenter_db \<Rightarrow> 'p presenter_db" where
  "forget_expected p db =
     db\<lparr>prd_cases := (prd_cases db)\<lparr>cdb_selections :=
          map (\<lambda>r. if p (selection_view r) then r\<lparr>qrow_expected_selection_id := None\<rparr> else r)
            (cdb_selections (prd_cases db))\<rparr>\<rparr>"

section \<open>Planning\<close>

record retention_plan =
  rp_current_case_id :: string
  rp_retained_case_ids :: "string list"
  rp_pruned_case_ids :: "string list"
  rp_planned_deletions :: "(aggregate_table \<times> nat) list"

definition empty_planned_deletions :: "(aggregate_table \<times> nat) list" where
  "empty_planned_deletions = map (\<lambda>t. (t, 0)) PRESENTER_AGGREGATE_DELETE_ORDER"

text \<open>The ids each key column is compared with; the subqueries read the current tables.\<close>

definition owned_ids ::
    "(row_view \<Rightarrow> string option) \<Rightarrow> 'p presenter_db \<Rightarrow> aggregate_table \<Rightarrow> string list \<Rightarrow> string list" where
  "owned_ids key db t case_ids =
     concat (map (\<lambda>r. case key r of None \<Rightarrow> [] | Some i \<Rightarrow> [i])
       (filter (\<lambda>r. case rv_case r of None \<Rightarrow> False | Some c \<Rightarrow> c \<in> set case_ids) (table_rows db t)))"

definition in_ids :: "string option \<Rightarrow> string list \<Rightarrow> bool" where
  "in_ids v ids = (case v of None \<Rightarrow> False | Some i \<Rightarrow> i \<in> set ids)"

definition parent_table :: "aggregate_table \<Rightarrow> bool" where
  "parent_table t \<longleftrightarrow> t \<in> {AT_CASES, AT_ANALYSES, AT_DECISIONS, AT_ACTIONS, AT_PLAYBACKS}"

definition aggregate_target ::
    "'p presenter_db \<Rightarrow> string list \<Rightarrow> aggregate_table \<Rightarrow> row_view \<Rightarrow> bool" where
  "aggregate_target db case_ids t r \<longleftrightarrow>
     in_ids (rv_case r) case_ids \<or>
     \<not> parent_table t \<and>
       (in_ids (rv_analysis r) (owned_ids rv_analysis db AT_ANALYSES case_ids) \<or>
        in_ids (rv_decision r) (owned_ids rv_decision db AT_DECISIONS case_ids) \<or>
        in_ids (rv_action r) (owned_ids rv_action db AT_ACTIONS case_ids) \<or>
        in_ids (rv_playback r) (owned_ids rv_playback db AT_PLAYBACKS case_ids))"

definition count_aggregate_deletions ::
    "'p presenter_db \<Rightarrow> string list \<Rightarrow> (aggregate_table \<times> nat) list" where
  "count_aggregate_deletions db case_ids =
     (if case_ids = [] then empty_planned_deletions
      else map (\<lambda>t. (t, length (filter (aggregate_target db case_ids t) (table_rows db t))))
        PRESENTER_AGGREGATE_DELETE_ORDER)"

text \<open>\<open>ORDER BY recorded_at DESC, case_id DESC\<close>\<close>

definition newest_first :: "(string \<Rightarrow> instant) \<Rightarrow> case_row list \<Rightarrow> case_row list" where
  "newest_first recorded rows =
     sort_key (\<lambda>r. - recorded (crow_case_id r)) (rev (sort_key crow_case_id rows))"

definition eligible_row :: "case_row \<Rightarrow> string option result" where
  "eligible_row r =
     bindR (json_or_error (crow_payload r)) (\<lambda>c.
     Inr (if ci_runtime_mode c = RM_LIVE \<and> ci_purpose c = CP_SHOWCASE \<and>
             ci_supplier_email c \<noteq> None \<and> ci_case_id c = crow_case_id r
          then Some (ci_case_id c) else None))"

definition eligible_case_ids :: "(string \<Rightarrow> instant) \<Rightarrow> 'p case_db \<Rightarrow> string list result" where
  "eligible_case_ids recorded db =
     bindR (mapR eligible_row
       (newest_first recorded
         (filter (\<lambda>r. crow_runtime_mode r = runtime_mode_value RM_LIVE \<and>
                      crow_purpose r = case_purpose_value CP_SHOWCASE) (cdb_cases db)))) (\<lambda>found.
     Inr (concat (map (\<lambda>x. case x of None \<Rightarrow> [] | Some i \<Rightarrow> [i]) found)))"

definition plan_presenter_retention ::
    "(string \<Rightarrow> instant) \<Rightarrow> string option \<Rightarrow> int \<Rightarrow> 'p presenter_db \<Rightarrow> retention_plan result" where
  "plan_presenter_retention recorded current_case_id historical_limit db =
     bindR (require (0 \<le> historical_limit) (ValueError ''historical_limit must be nonnegative'')) (\<lambda>_.
     bindR (eligible_case_ids recorded (prd_cases db)) (\<lambda>eligible.
     if current_case_id = None \<and> eligible = []
     then Inr \<lparr>rp_current_case_id = [], rp_retained_case_ids = [], rp_pruned_case_ids = [],
               rp_planned_deletions = empty_planned_deletions\<rparr>
     else
       let current = (case current_case_id of None \<Rightarrow> hd eligible | Some i \<Rightarrow> i) in
       bindR (require (current \<in> set eligible)
                (ValueError ''current Case must be live, showcase, and supplier-bound'')) (\<lambda>_.
       let history = filter (\<lambda>i. i \<noteq> current) eligible;
           pruned = drop (nat historical_limit) history in
       Inr \<lparr>rp_current_case_id = current,
            rp_retained_case_ids = current # take (nat historical_limit) history,
            rp_pruned_case_ids = pruned,
            rp_planned_deletions = count_aggregate_deletions db pruned\<rparr>)))"

section \<open>Deleting\<close>

fun delete_tables ::
    "string list \<Rightarrow> aggregate_table list \<Rightarrow> 'p presenter_db \<Rightarrow>
     ('p presenter_db \<times> (aggregate_table \<times> nat) list) result" where
  "delete_tables case_ids [] db = Inr (db, [])"
| "delete_tables case_ids (t # ts) db =
     (let db1 = (if t = AT_SELECTIONS then forget_expected (aggregate_target db case_ids t) db else db) in
      bindR (delete_rows (aggregate_target db1 case_ids t) t db1) (\<lambda>(db2, n).
      bindR (delete_tables case_ids ts db2) (\<lambda>(db3, counts).
      Inr (db3, (t, n) # counts))))"

definition delete_presenter_aggregates ::
    "string list \<Rightarrow> 'p presenter_db \<Rightarrow>
     ('p presenter_db \<times> (aggregate_table \<times> nat) list) result" where
  "delete_presenter_aggregates case_ids db =
     (if case_ids = [] then Inr (db, empty_planned_deletions)
      else delete_tables case_ids PRESENTER_AGGREGATE_DELETE_ORDER db)"

section \<open>The operations of the store\<close>

definition create_presenter_case ::
    "'p store_env \<Rightarrow> (string \<Rightarrow> instant) \<Rightarrow> case_instance \<Rightarrow> operational_snapshot \<Rightarrow> int \<Rightarrow>
     'p presenter_db \<Rightarrow> ('p presenter_db \<times> retention_plan \<times> (aggregate_table \<times> nat) list) result" where
  "create_presenter_case env recorded c s historical_limit db =
     bindR (validate_new_case env c s) (\<lambda>_.
     integrity_as (ImmutableRecordConflict ''case already exists'')
       (bindR (insert_case c s (prd_cases db)) (\<lambda>cases.
        let db1 = db\<lparr>prd_cases := cases\<rparr> in
        bindR (plan_presenter_retention recorded (Some (ci_case_id c)) historical_limit db1) (\<lambda>plan.
        bindR (delete_presenter_aggregates (rp_pruned_case_ids plan) db1) (\<lambda>(db2, deleted).
        Inr (db2, plan, deleted))))))"

definition preview_presenter_retention ::
    "(string \<Rightarrow> instant) \<Rightarrow> int \<Rightarrow> 'p presenter_db \<Rightarrow> retention_plan result" where
  "preview_presenter_retention recorded historical_limit db =
     plan_presenter_retention recorded None historical_limit db"

definition apply_presenter_retention ::
    "(string \<Rightarrow> instant) \<Rightarrow> retention_plan \<Rightarrow> 'p presenter_db \<Rightarrow>
     ('p presenter_db \<times> (aggregate_table \<times> nat) list) result" where
  "apply_presenter_retention recorded plan db =
     bindR (plan_presenter_retention recorded None
              (max 0 (int (length (rp_retained_case_ids plan)) - 1)) db) (\<lambda>current.
     bindR (require (current = plan) PresenterRetentionPlanChanged) (\<lambda>_.
     bindR (delete_presenter_aggregates (rp_pruned_case_ids plan) db) (\<lambda>(db', deleted).
     bindR (require (deleted = rp_planned_deletions current) PresenterRetentionPlanChanged) (\<lambda>_.
     Inr (db', deleted)))))"

section \<open>Filtering tables\<close>

lemma table_rows_keep:
  "table_rows (keep_rows p t db) t' = (if t' = t then filter p (table_rows db t) else table_rows db t')"
  by (cases t; cases t') (simp_all add: filter_map o_def)

lemma keep_rows_cong:
  "(\<And>r. r \<in> set (table_rows db t) \<Longrightarrow> p r = q r) \<Longrightarrow> keep_rows p t db = keep_rows q t db"
  by (cases t) (simp_all cong: filter_cong)

definition keep_all ::
    "(aggregate_table \<Rightarrow> row_view \<Rightarrow> bool) \<Rightarrow> aggregate_table list \<Rightarrow> 'p presenter_db \<Rightarrow> 'p presenter_db" where
  "keep_all p ts db = fold (\<lambda>t. keep_rows (p t) t) ts db"

lemma table_rows_keep_all:
  "distinct ts \<Longrightarrow> table_rows (keep_all p ts db) t =
     (if t \<in> set ts then filter (p t) (table_rows db t) else table_rows db t)"
  unfolding keep_all_def by (induction ts arbitrary: db) (auto simp: table_rows_keep)

lemma keep_all_snoc: "keep_all p (ts @ [t]) db = keep_rows (p t) t (keep_all p ts db)"
  by (simp add: keep_all_def)

lemma keep_all_cong:
  assumes "distinct ts" and "\<And>t r. r \<in> set (table_rows db t) \<Longrightarrow> p t r = q t r"
  shows "keep_all p ts db = keep_all q ts db"
  using assms(1)
proof (induction ts rule: rev_induct)
  case (snoc t ts)
  then have "keep_all p ts db = keep_all q ts db" by simp
  moreover have "keep_rows (p t) t (keep_all q ts db) = keep_rows (q t) t (keep_all q ts db)"
    by (rule keep_rows_cong) (use snoc.prems assms(2) in \<open>auto simp: table_rows_keep_all\<close>)
  ultimately show ?case by (simp only: keep_all_snoc)
qed (simp add: keep_all_def)

lemma keep_all_True: "keep_all (\<lambda>_ _. True) ts db = db"
proof -
  have "keep_rows (\<lambda>_. True) t db = db" for t by (cases t) simp_all
  then show ?thesis unfolding keep_all_def by (induction ts) simp_all
qed

lemma all_tables: "t \<in> set PRESENTER_AGGREGATE_DELETE_ORDER"
  by (cases t) (simp_all add: PRESENTER_AGGREGATE_DELETE_ORDER_def)

lemma distinct_order: "distinct PRESENTER_AGGREGATE_DELETE_ORDER"
  by (simp add: PRESENTER_AGGREGATE_DELETE_ORDER_def)

text \<open>Forgetting the expected selections changes neither keys nor other tables.\<close>

lemma forget_other [simp]: "t \<noteq> AT_SELECTIONS \<Longrightarrow> table_rows (forget_expected p db) t = table_rows db t"
  by (cases t) (simp_all add: forget_expected_def)

lemma selection_keys [simp]:
  "rv_case (selection_view (r\<lparr>qrow_expected_selection_id := None\<rparr>)) = rv_case (selection_view r)"
  "rv_analysis (selection_view (r\<lparr>qrow_expected_selection_id := None\<rparr>)) = rv_analysis (selection_view r)"
  "rv_decision (selection_view (r\<lparr>qrow_expected_selection_id := None\<rparr>)) = rv_decision (selection_view r)"
  "rv_action (selection_view (r\<lparr>qrow_expected_selection_id := None\<rparr>)) = rv_action (selection_view r)"
  "rv_playback (selection_view (r\<lparr>qrow_expected_selection_id := None\<rparr>)) = rv_playback (selection_view r)"
  by (simp_all add: selection_view_def view_of_def)

lemma target_forget_row [simp]:
  "aggregate_target db S t (selection_view (r\<lparr>qrow_expected_selection_id := None\<rparr>)) =
   aggregate_target db S t (selection_view r)"
  by (simp add: aggregate_target_def)

lemma target_forget_db [simp]:
  "aggregate_target (forget_expected p db) S t = aggregate_target db S t"
proof -
  have "owned_ids key (forget_expected p db) t S = owned_ids key db t S" if "t \<noteq> AT_SELECTIONS" for key t
    unfolding owned_ids_def forget_other [OF that] ..
  then show ?thesis by (intro ext) (simp add: aggregate_target_def)
qed

lemma keep_forget:
  assumes "\<And>r. p (selection_view (r\<lparr>qrow_expected_selection_id := None\<rparr>)) = p (selection_view r)"
  shows "keep_rows (\<lambda>r. \<not> p r) AT_SELECTIONS (forget_expected p db) = keep_rows (\<lambda>r. \<not> p r) AT_SELECTIONS db"
proof -
  have "filter (\<lambda>r. \<not> p (selection_view r))
      (map (\<lambda>r. if p (selection_view r) then r\<lparr>qrow_expected_selection_id := None\<rparr> else r) rows) =
    filter (\<lambda>r. \<not> p (selection_view r)) rows" for rows
    by (induction rows) (auto simp: assms)
  then show ?thesis by (simp add: forget_expected_def)
qed

lemma count_forget:
  assumes "\<And>r. p (selection_view (r\<lparr>qrow_expected_selection_id := None\<rparr>)) = p (selection_view r)"
  shows "length (filter p (table_rows (forget_expected p db) AT_SELECTIONS)) =
    length (filter p (table_rows db AT_SELECTIONS))"
proof -
  have "length (filter p (map selection_view
      (map (\<lambda>r. if p (selection_view r) then r\<lparr>qrow_expected_selection_id := None\<rparr> else r) rows))) =
    length (filter p (map selection_view rows))" for rows
    by (induction rows) (auto simp: assms)
  then show ?thesis by (simp only: forget_expected_def table_rows.simps) simp
qed

section \<open>Coherent databases\<close>

text \<open>
  A row belongs to a Case when all its keys do: its case column, and every row that its other key
  columns and its foreign keys name.  In a coherent database every row belongs to a Case and every
  foreign key resolves.
\<close>

definition owns :: "'p presenter_db \<Rightarrow> aggregate_table \<Rightarrow> row_id \<Rightarrow> string \<Rightarrow> bool" where
  "owns db t i c \<longleftrightarrow>
     (\<exists>q \<in> set (table_rows db t). rv_id q = Some i) \<and>
     (\<forall>q \<in> set (table_rows db t). rv_id q = Some i \<longrightarrow> rv_case q = Some c)"

definition belongs :: "'p presenter_db \<Rightarrow> row_view \<Rightarrow> string \<Rightarrow> bool" where
  "belongs db r c \<longleftrightarrow>
     (\<forall>i. rv_case r = Some i \<longrightarrow> i = c) \<and>
     (\<forall>i. rv_analysis r = Some i \<longrightarrow> owns db AT_ANALYSES (Key i) c) \<and>
     (\<forall>i. rv_decision r = Some i \<longrightarrow> owns db AT_DECISIONS (Key i) c) \<and>
     (\<forall>i. rv_action r = Some i \<longrightarrow> owns db AT_ACTIONS (Key i) c) \<and>
     (\<forall>i. rv_playback r = Some i \<longrightarrow> owns db AT_PLAYBACKS (Key i) c) \<and>
     (\<forall>(t, i) \<in> set (rv_refs r). owns db t i c)"

definition coherent :: "'p presenter_db \<Rightarrow> bool" where
  "coherent db \<longleftrightarrow>
     distinct (map rv_case (table_rows db AT_CASES)) \<and>
     (\<forall>t. \<forall>r \<in> set (table_rows db t). \<exists>c. belongs db r c)"

text \<open>The tables with a case column, and those whose rows may refer to a table.\<close>

definition case_column :: "aggregate_table \<Rightarrow> bool" where
  "case_column t \<longleftrightarrow> t \<notin> {AT_MAIL_REVISIONS, AT_MAIL_DELIVERIES, AT_DRAFTS, AT_ATTEMPTS, AT_EVENTS,
     AT_OUTBOX, AT_SATISFACTIONS}"

fun children :: "aggregate_table \<Rightarrow> aggregate_table set" where
  "children AT_CASES = {AT_SNAPSHOTS, AT_CLAIMS, AT_SELECTIONS, AT_PROJECTIONS, AT_ANALYSES, AT_REVIEWS,
     AT_EVIDENCE, AT_DECISIONS, AT_ACTIONS, AT_PLAYBACKS, AT_OBSERVATIONS}"
| "children AT_ANALYSES = {AT_SELECTIONS, AT_PROJECTIONS, AT_REVIEWS, AT_EVIDENCE, AT_DECISIONS,
     AT_SATISFACTIONS}"
| "children AT_SELECTIONS = {AT_SELECTIONS, AT_PROJECTIONS}"
| "children AT_REVIEWS = {AT_SELECTIONS}"
| "children AT_DECISIONS = {AT_PROJECTIONS, AT_SATISFACTIONS, AT_OUTBOX, AT_ACTIONS,
     AT_ACTION_PROJECTIONS, AT_DRAFTS, AT_MAIL_DELIVERIES, AT_MAIL_REVISIONS, AT_EVENTS, AT_ATTEMPTS,
     AT_PLAYBACKS, AT_OBSERVATIONS}"
| "children AT_ACTIONS = {AT_ACTION_PROJECTIONS, AT_DRAFTS, AT_MAIL_REVISIONS, AT_EVENTS, AT_ATTEMPTS,
     AT_OBSERVATIONS}"
| "children AT_PLAYBACKS = {AT_OBSERVATIONS}"
| "children _ = {}"

lemmas view_defs = view_of_def case_view_def snapshot_view_def claim_view_def selection_view_def
  case_projection_view_def analysis_view_def review_view_def evidence_view_def decision_view_def
  satisfaction_view_def outbox_view_def action_view_def action_child_view_def delivery_view_def
  playback_view_def observation_view_def

lemma refs_from_children:
  "r \<in> set (table_rows db t') \<Longrightarrow> (t, i) \<in> set (rv_refs r) \<Longrightarrow> t' \<in> children t"
  by (cases t') (auto simp: view_defs ref_to_def split: option.splits if_splits)

lemma case_column_rows:
  "r \<in> set (table_rows db t) \<Longrightarrow> case_column t \<longleftrightarrow> rv_case r \<noteq> None"
  by (cases t) (auto simp: view_defs case_column_def)

lemma no_case_keys:
  "r \<in> set (table_rows db t) \<Longrightarrow> rv_case r = None \<Longrightarrow> rv_analysis r \<noteq> None \<or> rv_decision r \<noteq> None"
  by (cases t) (auto simp: view_defs)

lemma parents_have_case_column: "parent_table t \<Longrightarrow> case_column t"
  by (auto simp: parent_table_def case_column_def)

lemma owner_ids:
  "r \<in> set (table_rows db AT_ANALYSES) \<Longrightarrow> rv_id r = map_option Key (rv_analysis r)"
  "r \<in> set (table_rows db AT_DECISIONS) \<Longrightarrow> rv_id r = map_option Key (rv_decision r)"
  "r \<in> set (table_rows db AT_ACTIONS) \<Longrightarrow> rv_id r = map_option Key (rv_action r)"
  "r \<in> set (table_rows db AT_PLAYBACKS) \<Longrightarrow> rv_id r = map_option Key (rv_playback r)"
  by (auto simp: view_defs)

lemma in_ids_iff: "in_ids v ids \<longleftrightarrow> (\<exists>i. v = Some i \<and> i \<in> set ids)"
  by (cases v) (simp_all add: in_ids_def)

lemma owned_ids_iff:
  "i \<in> set (owned_ids key db t S) \<longleftrightarrow>
   (\<exists>q \<in> set (table_rows db t). key q = Some i \<and> (\<exists>c \<in> set S. rv_case q = Some c))"
  by (auto simp: owned_ids_def split: option.splits)

lemma owns_owned:
  assumes "owns db t (Key i) c" and "\<And>q. q \<in> set (table_rows db t) \<Longrightarrow> rv_id q = map_option Key (key q)"
  shows "i \<in> set (owned_ids key db t S) \<longleftrightarrow> c \<in> set S"
proof -
  have id: "rv_id q = Some (Key i) \<longleftrightarrow> key q = Some i" if "q \<in> set (table_rows db t)" for q
    using assms(2) [OF that] by auto
  from assms(1) obtain q where q: "q \<in> set (table_rows db t)" "key q = Some i"
    using id by (auto simp: owns_def)
  have all: "rv_case q = Some c" if "q \<in> set (table_rows db t)" "key q = Some i" for q
    using assms(1) id that by (auto simp: owns_def)
  show ?thesis unfolding owned_ids_iff using q all by force
qed

lemma owned_key:
  assumes "\<And>q. q \<in> set (table_rows db t) \<Longrightarrow> rv_id q = map_option Key (key q)"
    and "\<forall>i. key r = Some i \<longrightarrow> owns db t (Key i) c"
  shows "in_ids (key r) (owned_ids key db t S) \<longleftrightarrow> key r \<noteq> None \<and> c \<in> set S"
proof (cases "key r")
  case (Some i)
  with assms(2) have "owns db t (Key i) c" by blast
  from owns_owned [OF this assms(1)] Some show ?thesis by (simp add: in_ids_def)
qed (simp add: in_ids_def)

lemma belongs_keys:
  assumes "belongs db r c"
  shows "in_ids (rv_analysis r) (owned_ids rv_analysis db AT_ANALYSES S) \<longleftrightarrow> rv_analysis r \<noteq> None \<and> c \<in> set S"
    and "in_ids (rv_decision r) (owned_ids rv_decision db AT_DECISIONS S) \<longleftrightarrow> rv_decision r \<noteq> None \<and> c \<in> set S"
    and "in_ids (rv_action r) (owned_ids rv_action db AT_ACTIONS S) \<longleftrightarrow> rv_action r \<noteq> None \<and> c \<in> set S"
    and "in_ids (rv_playback r) (owned_ids rv_playback db AT_PLAYBACKS S) \<longleftrightarrow> rv_playback r \<noteq> None \<and> c \<in> set S"
proof -
  note keys = assms [unfolded belongs_def]
  show "in_ids (rv_analysis r) (owned_ids rv_analysis db AT_ANALYSES S) \<longleftrightarrow> rv_analysis r \<noteq> None \<and> c \<in> set S"
    by (rule owned_key, erule owner_ids, use keys in blast)
  show "in_ids (rv_decision r) (owned_ids rv_decision db AT_DECISIONS S) \<longleftrightarrow> rv_decision r \<noteq> None \<and> c \<in> set S"
    by (rule owned_key, erule owner_ids, use keys in blast)
  show "in_ids (rv_action r) (owned_ids rv_action db AT_ACTIONS S) \<longleftrightarrow> rv_action r \<noteq> None \<and> c \<in> set S"
    by (rule owned_key, erule owner_ids, use keys in blast)
  show "in_ids (rv_playback r) (owned_ids rv_playback db AT_PLAYBACKS S) \<longleftrightarrow> rv_playback r \<noteq> None \<and> c \<in> set S"
    by (rule owned_key, erule owner_ids, use keys in blast)
qed

declare table_rows.simps [simp del]

text \<open>In a coherent database the rows that go are those of the pruned Cases.\<close>

lemma target_iff:
  assumes "r \<in> set (table_rows db t)" and "belongs db r c"
  shows "aggregate_target db S t r \<longleftrightarrow> c \<in> set S"
proof -
  have case_key: "in_ids (rv_case r) S \<longleftrightarrow> rv_case r \<noteq> None \<and> c \<in> set S"
    using assms(2) by (auto simp: in_ids_iff belongs_def)
  show ?thesis
    unfolding aggregate_target_def belongs_keys [OF assms(2)] case_key
    using case_column_rows [OF assms(1)] no_case_keys [OF assms(1)] parents_have_case_column [of t]
    by blast
qed

section \<open>Deleting in order\<close>

text \<open>Filtering leaves a row's keys owned by fewer rows.\<close>

lemma target_mono:
  assumes "\<And>t q. q \<in> set (table_rows db t) \<Longrightarrow> q \<in> set (table_rows db0 t)"
    and "aggregate_target db S t r"
  shows "aggregate_target db0 S t r"
proof -
  have "in_ids v (owned_ids key db0 t S)" if "in_ids v (owned_ids key db t S)" for v key t
    using that assms(1) unfolding owned_ids_iff in_ids_iff by blast
  with assms(2) show ?thesis unfolding aggregate_target_def by blast
qed

definition remaining ::
    "'p presenter_db \<Rightarrow> string list \<Rightarrow> aggregate_table list \<Rightarrow> 'p presenter_db" where
  "remaining db S ts = keep_all (\<lambda>t r. \<not> aggregate_target db S t r) ts db"

lemma rows_remaining:
  "distinct ts \<Longrightarrow> table_rows (remaining db S ts) t =
     (if t \<in> set ts then filter (\<lambda>r. \<not> aggregate_target db S t r) (table_rows db t)
      else table_rows db t)"
  by (simp add: remaining_def table_rows_keep_all)

lemma target_remaining:
  assumes "coherent db" and "distinct ts"
    and "case_column t \<or> AT_ANALYSES \<notin> set ts \<and> AT_DECISIONS \<notin> set ts"
    and "r \<in> set (table_rows db t)"
  shows "aggregate_target (remaining db S ts) S t r \<longleftrightarrow> aggregate_target db S t r"
proof
  assume "aggregate_target (remaining db S ts) S t r"
  then show "aggregate_target db S t r"
    by (rule target_mono [rotated]) (auto simp: rows_remaining [OF assms(2)] split: if_splits)
next
  assume target: "aggregate_target db S t r"
  from assms(1,4) obtain c where c: "belongs db r c" unfolding coherent_def by blast
  with target target_iff [OF assms(4)] have S: "c \<in> set S" by blast
  show "aggregate_target (remaining db S ts) S t r"
  proof (cases "rv_case r")
    case (Some i)
    with c S have "in_ids (rv_case r) S" by (simp add: belongs_def in_ids_def)
    then show ?thesis by (simp add: aggregate_target_def)
  next
    case None
    then have "\<not> case_column t" using case_column_rows [OF assms(4)] by simp
    then have parents: "AT_ANALYSES \<notin> set ts" "AT_DECISIONS \<notin> set ts" "\<not> parent_table t"
      using assms(3) parents_have_case_column by auto
    have same: "owned_ids key (remaining db S ts) u S = owned_ids key db u S"
      if "u \<in> {AT_ANALYSES, AT_DECISIONS}" for key u
      using that parents unfolding owned_ids_def by (auto simp only: rows_remaining [OF assms(2)] if_False)
    have "in_ids (rv_analysis r) (owned_ids rv_analysis db AT_ANALYSES S) \<or>
        in_ids (rv_decision r) (owned_ids rv_decision db AT_DECISIONS S)"
      using no_case_keys [OF assms(4) None] S unfolding belongs_keys [OF c] by blast
    then show ?thesis using parents(3) same [of AT_ANALYSES rv_analysis] same [of AT_DECISIONS rv_decision]
      by (auto simp: aggregate_target_def)
  qed
qed

text \<open>A row that goes is referred to only by rows that go, and those are gone already.\<close>

lemma gone_unreferenced:
  assumes "coherent db" and "r \<in> set (table_rows db t)" and "aggregate_target db S t r"
    and "rv_id r = Some i" and "q \<in> set (table_rows db t')" and "(t, i) \<in> set (rv_refs q)"
  shows "aggregate_target db S t' q"
proof -
  from assms(1,5) obtain c where c: "belongs db q c" unfolding coherent_def by blast
  with assms(6) have "owns db t i c" by (auto simp: belongs_def)
  with assms(2,4) have case_r: "rv_case r = Some c" by (auto simp: owns_def)
  from assms(1,2) obtain d where d: "belongs db r d" unfolding coherent_def by blast
  with case_r have "d = c" by (simp add: belongs_def)
  with d target_iff [OF assms(2) d] assms(3) have "c \<in> set S" by simp
  with target_iff [OF assms(5) c] show ?thesis by simp
qed

lemma referenced_iff:
  "(t, i) \<in> set (referenced db) \<longleftrightarrow> (\<exists>t'. \<exists>q \<in> set (table_rows db t'). (t, i) \<in> set (rv_refs q))"
  using all_tables by (auto simp: referenced_def)

text \<open>One step of the loop: the table comes after the tables that refer to it.\<close>

definition deletable :: "aggregate_table list \<Rightarrow> aggregate_table \<Rightarrow> bool" where
  "deletable ts t \<longleftrightarrow> t \<notin> set ts \<and> children t - {AT_SELECTIONS} \<subseteq> set ts \<and>
     (AT_SELECTIONS \<in> children t \<longrightarrow> t = AT_SELECTIONS \<or> AT_SELECTIONS \<in> set ts) \<and>
     (case_column t \<or> AT_ANALYSES \<notin> set ts \<and> AT_DECISIONS \<notin> set ts)"

lemma no_self_reference:
  assumes "q \<in> set (table_rows (forget_expected p db) AT_SELECTIONS)"
    and "(AT_SELECTIONS, i) \<in> set (rv_refs q)"
    and "\<And>r. p (selection_view (r\<lparr>qrow_expected_selection_id := None\<rparr>)) = p (selection_view r)"
  shows "q \<in> set (table_rows db AT_SELECTIONS) \<and> \<not> p q"
  using assms by (auto simp: forget_expected_def table_rows.simps split: if_splits)
    (auto simp: view_defs ref_to_def split: option.splits)

lemma list_all_mem: "(\<And>x. x \<in> set xs \<Longrightarrow> P x) \<Longrightarrow> list_all P xs"
  by (simp add: list_all_iff)

lemma forgotten_row:
  assumes "q \<in> set (table_rows (forget_expected p db) AT_SELECTIONS)"
    and "\<And>r. p (selection_view (r\<lparr>qrow_expected_selection_id := None\<rparr>)) = p (selection_view r)"
  shows "\<exists>r \<in> set (table_rows db AT_SELECTIONS). rv_id r = rv_id q \<and> p r = p q"
  using assms by (auto simp: forget_expected_def table_rows.simps) (auto simp: view_defs split: if_splits)

lemma delete_step:
  assumes ok: "coherent db" and ts: "distinct ts" "deletable ts t"
    and db1: "db1 = (if t = AT_SELECTIONS
      then forget_expected (aggregate_target (remaining db S ts) S t) (remaining db S ts)
      else remaining db S ts)"
  shows "delete_rows (aggregate_target db1 S t) t db1 =
    Inr (remaining db S (ts @ [t]), length (filter (aggregate_target db S t) (table_rows db t)))"
proof -
  let ?p = "aggregate_target (remaining db S ts) S t"
  have new: "t \<notin> set ts" and col: "case_column t \<or> AT_ANALYSES \<notin> set ts \<and> AT_DECISIONS \<notin> set ts"
    using ts(2) by (auto simp: deletable_def)
  have target: "aggregate_target db1 S t = ?p" by (simp add: db1)
  have same: "?p r \<longleftrightarrow> aggregate_target db S t r" if "r \<in> set (table_rows db t)" for r
    by (rule target_remaining [OF ok ts(1) col that])
  have rows: "table_rows (remaining db S ts) t = table_rows db t"
    using new by (simp add: rows_remaining [OF ts(1)])
  have kept: "keep_rows (\<lambda>r. \<not> ?p r) t db1 = remaining db S (ts @ [t])"
  proof -
    have "keep_rows (\<lambda>r. \<not> ?p r) t db1 = keep_rows (\<lambda>r. \<not> ?p r) t (remaining db S ts)"
      unfolding db1 using keep_forget [of ?p] by auto
    also have "\<dots> = keep_rows (\<lambda>r. \<not> aggregate_target db S t r) t (remaining db S ts)"
      by (rule keep_rows_cong) (use rows same in auto)
    finally show ?thesis by (simp add: remaining_def keep_all_snoc)
  qed
  have count: "length (filter ?p (table_rows db1 t)) = length (filter (aggregate_target db S t) (table_rows db t))"
  proof -
    have "length (filter ?p (table_rows db1 t)) = length (filter ?p (table_rows (remaining db S ts) t))"
      unfolding db1 using count_forget [of ?p] by auto
    also have "filter ?p (table_rows (remaining db S ts) t) = filter (aggregate_target db S t) (table_rows db t)"
      unfolding rows using same by (intro filter_cong) auto
    finally show ?thesis .
  qed
  have free: "(t, i) \<notin> set (referenced db1)" if r: "r \<in> set (table_rows db t)" "aggregate_target db S t r"
    "rv_id r = Some i" for r i
  proof
    assume "(t, i) \<in> set (referenced db1)"
    then obtain t' q where q: "q \<in> set (table_rows db1 t')" "(t, i) \<in> set (rv_refs q)"
      by (auto simp: referenced_iff)
    then have child: "t' \<in> children t" using refs_from_children by blast
    have "q \<in> set (table_rows (remaining db S ts) t') \<and> (t' = t \<longrightarrow> \<not> ?p q)"
    proof (cases "t = AT_SELECTIONS \<and> t' = t")
      case True
      with q show ?thesis using no_self_reference [of q ?p] by (simp add: db1)
    next
      case False
      then have "t' \<noteq> t" using child new ts(2) by (auto simp: deletable_def)
      with False q(1) show ?thesis by (auto simp: db1 split: if_splits)
    qed
    moreover have "t' \<in> set ts \<or> t' = t"
      using child ts(2) by (auto simp: deletable_def)
    ultimately have "q \<in> set (table_rows db t')" "\<not> aggregate_target db S t' q"
      using same new by (auto simp: rows_remaining [OF ts(1)] split: if_splits)
    then show False using gone_unreferenced [OF ok r _ q(2)] by blast
  qed
  have gone: "list_all (\<lambda>r. case rv_id r of None \<Rightarrow> True | Some i \<Rightarrow> (t, i) \<notin> set (referenced db1))
      (filter ?p (table_rows db1 t))"
  proof (rule list_all_mem)
    fix r assume "r \<in> set (filter ?p (table_rows db1 t))"
    then have r: "r \<in> set (table_rows db1 t)" "?p r" by simp_all
    then obtain r0 where r0: "r0 \<in> set (table_rows db t)" "rv_id r0 = rv_id r" "?p r0"
      using forgotten_row [of r ?p "remaining db S ts"] rows by (auto simp: db1 split: if_splits)
    with same free [OF r0(1)] show "case rv_id r of None \<Rightarrow> True | Some i \<Rightarrow> (t, i) \<notin> set (referenced db1)"
      by (auto split: option.splits)
  qed
  show ?thesis unfolding delete_rows_def target Let_def using gone by (simp add: require_def kept count)
qed

fun deletable_in_order :: "aggregate_table list \<Rightarrow> aggregate_table list \<Rightarrow> bool" where
  "deletable_in_order before_t [] \<longleftrightarrow> True"
| "deletable_in_order before_t (t # ts) \<longleftrightarrow> deletable before_t t \<and> deletable_in_order (before_t @ [t]) ts"

lemma delete_order: "deletable_in_order [] PRESENTER_AGGREGATE_DELETE_ORDER"
  unfolding PRESENTER_AGGREGATE_DELETE_ORDER_def deletable_in_order.simps deletable_def case_column_def
  by auto

lemma delete_tables_step:
  assumes "coherent db" and "distinct done_t" and "deletable_in_order done_t ts"
  shows "delete_tables S ts (remaining db S done_t) =
    Inr (remaining db S (done_t @ ts),
      map (\<lambda>t. (t, length (filter (aggregate_target db S t) (table_rows db t)))) ts)"
  using assms(2,3)
proof (induction ts arbitrary: done_t)
  case (Cons t ts)
  let ?db1 = "if t = AT_SELECTIONS
    then forget_expected (aggregate_target (remaining db S done_t) S t) (remaining db S done_t)
    else remaining db S done_t"
  from Cons.prems have t: "deletable done_t t" "deletable_in_order (done_t @ [t]) ts" by simp_all
  then have "distinct (done_t @ [t])" using Cons.prems(1) by (simp add: deletable_def)
  from Cons.IH [OF this t(2)] delete_step [OF assms(1) Cons.prems(1) t(1) refl, of S]
  show ?case by (simp only: delete_tables.simps Let_def) (simp add: append_assoc)
qed simp

lemma delete_presenter_aggregates_eq:
  assumes "coherent db"
  shows "delete_presenter_aggregates S db =
    Inr (remaining db S PRESENTER_AGGREGATE_DELETE_ORDER, count_aggregate_deletions db S)"
proof (cases "S = []")
  case True
  have "remaining db [] PRESENTER_AGGREGATE_DELETE_ORDER = keep_all (\<lambda>_ _. True) PRESENTER_AGGREGATE_DELETE_ORDER db"
    unfolding remaining_def by (rule keep_all_cong) (simp_all add: distinct_order aggregate_target_def owned_ids_def in_ids_def split: option.splits)
  with True show ?thesis
    by (simp add: delete_presenter_aggregates_def count_aggregate_deletions_def keep_all_True)
next
  case False
  with delete_tables_step [OF assms _ delete_order, of S] show ?thesis
    by (simp add: delete_presenter_aggregates_def count_aggregate_deletions_def remaining_def keep_all_def)
qed

lemma coherent_remaining:
  assumes ok: "coherent db"
  shows "coherent (remaining db S PRESENTER_AGGREGATE_DELETE_ORDER)"
proof -
  let ?db = "remaining db S PRESENTER_AGGREGATE_DELETE_ORDER"
  have rows: "table_rows ?db t = filter (\<lambda>r. \<not> aggregate_target db S t r) (table_rows db t)" for t
    by (simp add: rows_remaining [OF distinct_order] all_tables)
  have owned: "owns ?db t i c" if "owns db t i c" and "c \<notin> set S" for t i c
  proof -
    from that(1) obtain q where q: "q \<in> set (table_rows db t)" "rv_id q = Some i" "rv_case q = Some c"
      by (auto simp: owns_def)
    from ok q(1) obtain d where d: "belongs db q d" unfolding coherent_def by blast
    with q(3) have "d = c" by (simp add: belongs_def)
    with target_iff [OF q(1) d] that(2) have "\<not> aggregate_target db S t q" by simp
    with q that(1) show ?thesis by (auto simp: owns_def rows)
  qed
  have "\<exists>c. belongs ?db r c" if "r \<in> set (table_rows ?db t)" for t r
  proof -
    from that have r: "r \<in> set (table_rows db t)" "\<not> aggregate_target db S t r" by (simp_all add: rows)
    from ok r(1) obtain c where c: "belongs db r c" unfolding coherent_def by blast
    with target_iff [OF r(1) c] r(2) have "c \<notin> set S" by simp
    with c owned have "belongs ?db r c" unfolding belongs_def by blast
    then show ?thesis ..
  qed
  moreover have "distinct (map rv_case (table_rows ?db AT_CASES))"
    using ok by (simp add: rows coherent_def distinct_map_filter)
  ultimately show ?thesis unfolding coherent_def by blast
qed

text \<open>What is left, said with the Cases the rows belong to.\<close>

lemma remaining_eq:
  assumes "coherent db"
  shows "remaining db S PRESENTER_AGGREGATE_DELETE_ORDER =
    keep_all (\<lambda>_ r. \<not> (\<exists>c \<in> set S. belongs db r c)) PRESENTER_AGGREGATE_DELETE_ORDER db"
  unfolding remaining_def
proof (rule keep_all_cong [OF distinct_order])
  fix t r assume r: "r \<in> set (table_rows db t)"
  from assms r obtain c where "belongs db r c" unfolding coherent_def by blast
  with target_iff [OF r] show "(\<not> aggregate_target db S t r) = (\<not> (\<exists>c \<in> set S. belongs db r c))" by blast
qed

section \<open>The plan\<close>

lemma eligible_row_Some: "eligible_row r = Inr (Some i) \<Longrightarrow> i = crow_case_id r"
  by (auto simp: eligible_row_def result_simps split: if_splits)

lemma found_ids:
  fixes f :: "string \<Rightarrow> instant"
  assumes "list_all2 (\<lambda>r x. eligible_row r = Inr x) rows found"
    and "distinct (map crow_case_id rows)" and "sorted (map (\<lambda>r. - f (crow_case_id r)) rows)"
  shows "distinct (concat (map (\<lambda>x. case x of None \<Rightarrow> [] | Some i \<Rightarrow> [i]) found)) \<and>
    sorted_wrt (\<lambda>i j. f j \<le> f i) (concat (map (\<lambda>x. case x of None \<Rightarrow> [] | Some i \<Rightarrow> [i]) found)) \<and>
    set (concat (map (\<lambda>x. case x of None \<Rightarrow> [] | Some i \<Rightarrow> [i]) found)) \<subseteq> crow_case_id ` set rows"
  using assms
proof (induction rule: list_all2_induct)
  case (Cons r rows x found)
  let ?ids = "concat (map (\<lambda>x. case x of None \<Rightarrow> [] | Some i \<Rightarrow> [i]) found)"
  from Cons have ih: "distinct ?ids" "sorted_wrt (\<lambda>i j. f j \<le> f i) ?ids"
    "set ?ids \<subseteq> crow_case_id ` set rows" by simp_all
  show ?case
  proof (cases x)
    case None
    with ih show ?thesis by auto
  next
    case (Some i)
    with Cons(1) have "i = crow_case_id r" using eligible_row_Some by blast
    moreover have "f j \<le> f (crow_case_id r)" if "j \<in> set ?ids" for j
    proof -
      from ih(3) that obtain q where "q \<in> set rows" "j = crow_case_id q" by blast
      with Cons.prems(2) show ?thesis by simp
    qed
    moreover have "crow_case_id r \<notin> set ?ids" using ih(3) Cons.prems(1) by auto
    ultimately show ?thesis using Some ih
      by (simp only: list.map option.case concat.simps append_Cons append_Nil distinct.simps
          sorted_wrt.simps list.set) auto
  qed
qed simp

lemma eligible_ids:
  assumes "eligible_case_ids recorded db = Inr ids" and "distinct (map crow_case_id (cdb_cases db))"
  shows "distinct ids \<and> sorted_wrt (\<lambda>i j. recorded j \<le> recorded i) ids"
proof -
  let ?rows = "newest_first recorded
    (filter (\<lambda>r. crow_runtime_mode r = runtime_mode_value RM_LIVE \<and>
      crow_purpose r = case_purpose_value CP_SHOWCASE) (cdb_cases db))"
  from assms(1) obtain found where found: "list_all2 (\<lambda>r x. eligible_row r = Inr x) ?rows found"
    and ids: "ids = concat (map (\<lambda>x. case x of None \<Rightarrow> [] | Some i \<Rightarrow> [i]) found)"
    by (auto simp: eligible_case_ids_def result_simps)
  have "distinct (map crow_case_id ?rows)"
    using assms(2) by (simp add: newest_first_def distinct_map_sort_key rev_map [symmetric] distinct_map_filter)
  moreover have "sorted (map (\<lambda>r. - recorded (crow_case_id r)) ?rows)"
    by (simp add: newest_first_def)
  ultimately show ?thesis using found_ids [OF found] ids by blast
qed

lemma coherent_case_ids: "coherent db \<Longrightarrow> distinct (map crow_case_id (cdb_cases (prd_cases db)))"
  by (auto simp: coherent_def table_rows.simps case_view_def view_of_def distinct_map inj_on_def o_def)

text \<open>The plan of a preview cuts the list of the eligible Cases, newest first.\<close>

lemma preview_plan:
  assumes "coherent db" and "plan_presenter_retention recorded None limit db = Inr plan"
  obtains ids where "eligible_case_ids recorded (prd_cases db) = Inr ids" and "0 \<le> limit"
    and "distinct ids" and "sorted_wrt (\<lambda>i j. recorded j \<le> recorded i) ids"
    and "rp_retained_case_ids plan = take (Suc (nat limit)) ids"
    and "rp_pruned_case_ids plan = drop (Suc (nat limit)) ids"
    and "rp_current_case_id plan = (if ids = [] then [] else hd ids)"
    and "rp_planned_deletions plan = count_aggregate_deletions db (rp_pruned_case_ids plan)"
proof -
  from assms(2) obtain ids where ids: "eligible_case_ids recorded (prd_cases db) = Inr ids" "0 \<le> limit"
    by (auto simp: plan_presenter_retention_def result_simps)
  note facts = eligible_ids [OF ids(1) coherent_case_ids [OF assms(1)]]
  show ?thesis
  proof (cases ids)
    case Nil
    with assms(2) ids facts that [of ids] show ?thesis
      by (auto simp: plan_presenter_retention_def require_def bindR_def count_aggregate_deletions_def)
  next
    case (Cons i rest)
    with facts have "filter (\<lambda>j. j \<noteq> i) rest = rest" by (auto simp: filter_id_conv)
    with Cons assms(2) ids facts that [of ids] show ?thesis
      by (auto simp: plan_presenter_retention_def require_def bindR_def Let_def)
  qed
qed

lemma plan_again:
  assumes "coherent db" and "plan_presenter_retention recorded None limit db = Inr plan"
  shows "plan_presenter_retention recorded None
    (max 0 (int (length (rp_retained_case_ids plan)) - 1)) db = Inr plan"
proof -
  obtain ids where ids: "eligible_case_ids recorded (prd_cases db) = Inr ids" "0 \<le> limit" "distinct ids"
    "rp_retained_case_ids plan = take (Suc (nat limit)) ids"
    by (rule preview_plan [OF assms])
  show ?thesis
  proof (cases ids)
    case Nil
    with assms(2) ids show ?thesis by (simp add: plan_presenter_retention_def require_def bindR_def)
  next
    case (Cons i rest)
    then have same: "filter (\<lambda>j. j \<noteq> i) rest = rest" using ids(3) by (auto simp: filter_id_conv)
    have n: "nat (max 0 (int (length (rp_retained_case_ids plan)) - 1)) = min (nat limit) (length rest)"
      using Cons ids(4) by simp
    have cut: "take (min (nat limit) (length rest)) rest = take (nat limit) rest"
      "drop (min (nat limit) (length rest)) rest = drop (nat limit) rest"
      by (simp_all add: min_def)
    show ?thesis
      using assms(2) Cons ids(1,2) same
      by (simp add: plan_presenter_retention_def require_def bindR_def Let_def n cut)
  qed
qed

section \<open>Properties\<close>

text \<open>
  C34. Presenter retention deletes exactly the aggregates of the older Cases.  On a coherent
  database a previewed plan divides the eligible Cases: it keeps at most the limit and the current
  Case, all of them at least as recent as every pruned Case; applying it to the same database succeeds, without any foreign key
  in the way, deletes from every table the rows that belong to a pruned Case and no other row, as
  many as planned, and leaves a coherent database.
\<close>

theorem presenter_retention_is_exact:
  assumes "coherent db" and "preview_presenter_retention recorded limit db = Inr plan"
  shows "eligible_case_ids recorded (prd_cases db) =
      Inr (rp_retained_case_ids plan @ rp_pruned_case_ids plan) \<and>
    length (rp_retained_case_ids plan) \<le> Suc (nat limit) \<and>
    (\<forall>i \<in> set (rp_retained_case_ids plan). \<forall>j \<in> set (rp_pruned_case_ids plan).
       i \<noteq> j \<and> recorded j \<le> recorded i) \<and>
    (\<exists>db'. apply_presenter_retention recorded plan db = Inr (db', rp_planned_deletions plan) \<and>
       db' = keep_all (\<lambda>_ r. \<not> (\<exists>c \<in> set (rp_pruned_case_ids plan). belongs db r c))
         PRESENTER_AGGREGATE_DELETE_ORDER db \<and>
       coherent db')"
proof -
  note plan = assms(2) [unfolded preview_presenter_retention_def]
  obtain ids where eligible: "eligible_case_ids recorded (prd_cases db) = Inr ids"
    and ids: "distinct ids" "sorted_wrt (\<lambda>i j. recorded j \<le> recorded i) ids"
    "rp_retained_case_ids plan = take (Suc (nat limit)) ids"
    "rp_pruned_case_ids plan = drop (Suc (nat limit)) ids"
    "rp_planned_deletions plan = count_aggregate_deletions db (rp_pruned_case_ids plan)"
    by (rule preview_plan [OF assms(1) plan])
  have "distinct (take (Suc (nat limit)) ids @ drop (Suc (nat limit)) ids)"
    "sorted_wrt (\<lambda>i j. recorded j \<le> recorded i) (take (Suc (nat limit)) ids @ drop (Suc (nat limit)) ids)"
    using ids(1,2) by simp_all
  then have "\<forall>i \<in> set (take (Suc (nat limit)) ids). \<forall>j \<in> set (drop (Suc (nat limit)) ids).
      i \<noteq> j \<and> recorded j \<le> recorded i"
    unfolding distinct_append sorted_wrt_append by blast
  moreover have "apply_presenter_retention recorded plan db =
      Inr (remaining db (rp_pruned_case_ids plan) PRESENTER_AGGREGATE_DELETE_ORDER, rp_planned_deletions plan)"
    unfolding apply_presenter_retention_def plan_again [OF assms(1) plan]
      delete_presenter_aggregates_eq [OF assms(1)] by (simp add: require_def ids(5))
  ultimately show ?thesis
    using coherent_remaining [OF assms(1)] remaining_eq [OF assms(1)] eligible by (simp add: ids(3,4))
qed

section \<open>Witness\<close>

definition presenter_case :: "string \<Rightarrow> case_instance" where
  "presenter_case i =
     example_case\<lparr>ci_case_id := i, ci_purpose := CP_SHOWCASE,
       ci_supplier_email := Some
         \<lparr>ses_tenant_id = ''T'', ses_mailbox_object_id = ''M'', ses_internet_message_id = ''I'',
          ses_review_fingerprint = ''F'', ses_message_id = ''M'', ses_subject = ''S'',
          ses_sender = ''s@x'', ses_recipients = [''r@x''], ses_received_at = 0,
          ses_reviewed_at = 1, ses_citation_url = ''https://x/'', ses_facts =
            \<lparr>sdf_original_quantity = 2, sdf_part_id = ''P'', sdf_plant_name = ''N'',
             sdf_original_due_date = 1, sdf_partial_quantity = 1, sdf_partial_due_date = 1,
             sdf_additional_cost_per_unit = 0, sdf_remaining_quantity = 1,
             sdf_recovery_date = None\<rparr>\<rparr>\<rparr>"

definition two_presenter_cases :: "unit presenter_db" where
  "two_presenter_cases =
     \<lparr>prd_cases =
        \<lparr>cdb_cases = [case_row_of (presenter_case ''A''), case_row_of (presenter_case ''B'')],
         cdb_snapshots = [], cdb_projections =
           [case_projection_row_of (presenter_case ''A''), case_projection_row_of (presenter_case ''B'')],
         cdb_analyses = [], cdb_evidence = [], cdb_satisfactions = [], cdb_claims = [],
         cdb_selections = [], cdb_decisions = [], cdb_reviews = [], cdb_outbox = []\<rparr>,
      prd_execution = empty_execution_db,
      prd_playback = \<lparr>pdb_playbacks = [], pdb_observations = []\<rparr>,
      prd_mail = \<lparr>mdb_deliveries = [], mdb_revisions = []\<rparr>\<rparr>"

definition b_is_newer :: "string \<Rightarrow> instant" where
  "b_is_newer i = (if i = ''B'' then 2 else 1)"

lemma two_presenter_rows:
  "table_rows two_presenter_cases t =
     (if t = AT_CASES then [case_view (case_row_of (presenter_case ''A'')),
                            case_view (case_row_of (presenter_case ''B''))]
      else if t = AT_PROJECTIONS then [case_projection_view (case_projection_row_of (presenter_case ''A'')),
                            case_projection_view (case_projection_row_of (presenter_case ''B''))]
      else [])"
  by (cases t) (simp_all add: table_rows.simps two_presenter_cases_def empty_execution_db_def)

lemma two_presenter_cases_coherent: "coherent two_presenter_cases"
  by (auto simp: coherent_def belongs_def owns_def two_presenter_rows view_defs ref_to_def
      case_row_of_def case_projection_row_of_def presenter_case_def)

lemma two_presenter_preview:
  "map_sum id (\<lambda>plan. (rp_retained_case_ids plan, rp_pruned_case_ids plan))
     (preview_presenter_retention b_is_newer 0 two_presenter_cases) = Inr ([''B''], [''A''])"
  by code_simp

theorem presenter_retention_is_exact_witness:
  "\<exists>plan db'. preview_presenter_retention b_is_newer 0 two_presenter_cases = Inr plan \<and>
     rp_pruned_case_ids plan = [''A''] \<and>
     apply_presenter_retention b_is_newer plan two_presenter_cases = Inr (db', rp_planned_deletions plan) \<and>
     coherent db'"
proof -
  obtain plan where plan: "preview_presenter_retention b_is_newer 0 two_presenter_cases = Inr plan"
    and "rp_pruned_case_ids plan = [''A'']"
    using two_presenter_preview
    by (cases "preview_presenter_retention b_is_newer 0 two_presenter_cases") auto
  with presenter_retention_is_exact [OF two_presenter_cases_coherent plan] show ?thesis by blast
qed

end
