(* ===== verification/Backend_Runs.thy ===== *)
theory Backend_Runs
  imports Planning_Properties Presenter_Retention Supplier_Email_Service
begin


text \<open>
  All that commits, presenter retention included: runs of the whole back end over the twenty tables,
  and what becomes of a planning event in them.
\<close>

section \<open>Units of work\<close>

text \<open>
  The two operations that prune presenter Cases: creating one
  (\<open>apps/api/app/routes/inbox.py\<close>) and applying a previewed plan
  (\<open>scripts/prune_presenter_runs.py\<close>).
\<close>

inductive retention_step ::
    "'p service_env \<Rightarrow> string list \<Rightarrow> 'p presenter_db \<Rightarrow> 'p presenter_db \<Rightarrow> bool"
  for sv :: "'p service_env" where
  retain_create:
    "create_presenter_case (sve_store sv) recorded c snapshot limit db = Inr (db', plan, deleted) \<Longrightarrow>
     retention_step sv (rp_pruned_case_ids plan) db db'"
| retain_apply:
    "apply_presenter_retention recorded plan db = Inr (db', deleted) \<Longrightarrow>
     retention_step sv (rp_pruned_case_ids plan) db db'"

text \<open>The units of work of playback that are not calls of the execution service.\<close>

inductive playback_unit ::
    "'w playback_env \<Rightarrow> 'w playback_state \<Rightarrow> 'w playback_state \<Rightarrow> bool"
  for env :: "'w playback_env" where
  unit_begin: "start_unit env i actor now s = Inr (s', b) \<Longrightarrow> playback_unit env s s'"
| unit_fill: "fill_unit env i s = Inr (s', u) \<Longrightarrow> playback_unit env s s'"
| unit_complete: "completion_unit env b actions now s = Inr (s', b') \<Longrightarrow> playback_unit env s s'"
| unit_fail: "record_failure i now s = Inr (s', b) \<Longrightarrow> playback_unit env s s'"

text \<open>
  The units of work of the supplier email.  A status check writes to the state \<open>s\<close> that it finds
  after Graph has answered; what it read before is any state \<open>s0\<close>.
\<close>

inductive mail_unit :: "'w mail_env \<Rightarrow> 'w mail_state \<Rightarrow> 'w mail_state \<Rightarrow> bool"
  for env :: "'w mail_env" where
  unit_open: "open_email env s i now = Inr (s', view) \<Longrightarrow> mail_unit env s s'"
| unit_save: "save_email env busy s i n subject body actor now = Inr (s', view) \<Longrightarrow> mail_unit env s s'"
| unit_review: "review_email env busy s i n actor now = Inr (s', view) \<Longrightarrow> mail_unit env s s'"
| unit_claim: "send_claim env busy s i n actor k now = Inr (s', started) \<Longrightarrow> mail_unit env s s'"
| unit_finish: "send_finish busy s i k answer now = Inr (s', view) \<Longrightarrow> mail_unit env s s'"
| unit_check: "check_send_status env busy s0 s i actor get_message now = Inr (s', view) \<Longrightarrow>
     mail_unit env s s'"

inductive backend_step ::
    "'p service_env \<Rightarrow> worker_env \<Rightarrow> 'p presenter_db \<Rightarrow> 'p presenter_db \<Rightarrow> bool"
  for sv :: "'p service_env" and wk :: worker_env where
  backend_database:
    "database_step sv wk (prd_cases db, prd_execution db) (c, x) \<Longrightarrow>
     backend_step sv wk db (db\<lparr>prd_cases := c, prd_execution := x\<rparr>)"
| backend_playback:
    "pbe_cases pe = database_cases (sve_store sv) \<Longrightarrow>
     playback_unit pe (prd_cases db, prd_execution db, prd_playback db) (c, x, p) \<Longrightarrow>
     backend_step sv wk db (db\<lparr>prd_cases := c, prd_execution := x, prd_playback := p\<rparr>)"
| backend_mail:
    "me_cases me = database_cases (sve_store sv) \<Longrightarrow>
     mail_unit me (prd_cases db, prd_execution db, prd_mail db) (c, x, m) \<Longrightarrow>
     backend_step sv wk db (db\<lparr>prd_cases := c, prd_execution := x, prd_mail := m\<rparr>)"
| backend_retention: "retention_step sv ids db db' \<Longrightarrow> backend_step sv wk db db'"

definition empty_presenter_db :: "'p presenter_db" where
  "empty_presenter_db =
     \<lparr>prd_cases = empty_case_db, prd_execution = empty_execution_db,
      prd_playback = \<lparr>pdb_playbacks = [], pdb_observations = []\<rparr>,
      prd_mail = \<lparr>mdb_deliveries = [], mdb_revisions = []\<rparr>\<rparr>"

definition backend_reachable :: "'p service_env \<Rightarrow> worker_env \<Rightarrow> 'p presenter_db \<Rightarrow> bool" where
  "backend_reachable sv wk = (backend_step sv wk)\<^sup>*\<^sup>* empty_presenter_db"

section \<open>Playback and mail leave the events alone\<close>

lemma playback_unit_cases:
  assumes "playback_unit pe (w, x, p) (w', x', p')"
  shows "w' = w \<or> (\<exists>i d. cst_guard (pbe_cases pe) w i = Inr (w', d))"
  using assms
proof cases
  case (unit_begin i actor now b)
  then show ?thesis
    by (auto simp: start_unit_def elim!: bindR_InrE split: option.splits if_splits prod.splits)
next
  case (unit_fill i u)
  then show ?thesis
    by (auto simp: fill_unit_def Let_def elim!: bindR_InrE split: if_splits prod.splits)
next
  case (unit_complete b actions now b')
  then show ?thesis
    by (auto simp: completion_unit_def Let_def elim!: bindR_InrE split: if_splits prod.splits)
next
  case (unit_fail i now b)
  then show ?thesis
    by (auto simp: record_failure_def Let_def elim!: bindR_InrE split: if_splits)
qed

lemma email_transition_world:
  "email_transition busy (w, x, m) i k expected st code now = Inr ((w', x', m'), view) \<Longrightarrow> w' = w"
  by (auto simp: email_transition_def Let_def elim!: bindR_InrE split: if_splits option.splits prod.splits)

lemma send_records_guard:
  "send_records env (w, x, m) i n actor = Inr (w', found) \<Longrightarrow>
   \<exists>d. cst_guard (me_cases env) w i = Inr (w', d)"
  by (auto simp: send_records_def elim!: bindR_InrE split: prod.splits)

lemma mail_unit_cases:
  assumes "mail_unit env (w, x, m) (w', x', m')"
  shows "w' = w \<or> (\<exists>i d. cst_guard (me_cases env) w i = Inr (w', d))"
  using assms
proof cases
  case (unit_open i now view)
  then show ?thesis
    by (auto simp: open_email_def Let_def elim!: bindR_InrE split: option.splits prod.splits)
next
  case (unit_save busy i n subject body actor now view)
  then show ?thesis by (auto simp: save_email_def elim!: bindR_InrE split: prod.splits)
next
  case (unit_review busy i n actor now view)
  then show ?thesis
    by (auto simp: review_email_def Let_def elim!: bindR_InrE split: prod.splits if_splits)
next
  case (unit_claim busy i n actor k now started)
  then show ?thesis
    by (auto simp: send_claim_def Let_def elim!: bindR_InrE split: prod.splits if_splits option.splits
        dest!: send_records_guard)
next
  case (unit_finish busy i k answer now view)
  then show ?thesis by (cases answer) (auto dest: email_transition_world)
next
  case (unit_check busy s0 i actor get_message now view)
  then show ?thesis
    by (auto simp: check_send_status_def elim!: bindR_InrE dest: email_transition_world
        split: prod.splits if_splits option.splits)
qed

lemma guard_moves:
  assumes "w' = w \<or> (\<exists>i d. cst_guard (database_cases env) w i = Inr (w', d))"
  shows "worker_moves w w'"
  using assms by (auto simp: database_cases_def dest: guard_execution_grows intro: same_events_move)

section \<open>What retention deletes\<close>

definition doomed :: "string list \<Rightarrow> 'p case_db \<Rightarrow> string \<Rightarrow> bool" where
  "doomed ids db i \<longleftrightarrow>
     (\<exists>l \<in> set (cdb_decisions db). lrow_decision_id l = i \<and> lrow_case_id l \<in> set ids)"

definition pruned_from :: "string list \<Rightarrow> 'p case_db \<Rightarrow> 'p case_db \<Rightarrow> bool" where
  "pruned_from ids db db' \<longleftrightarrow>
     cdb_decisions db' = filter (\<lambda>l. lrow_case_id l \<notin> set ids) (cdb_decisions db) \<and>
     cdb_outbox db' = filter (\<lambda>r. \<not> doomed ids db (orow_decision_id r)) (cdb_outbox db)"

lemma keep_rows_kept:
  "t \<noteq> AT_OUTBOX \<Longrightarrow> t \<noteq> AT_DECISIONS \<Longrightarrow>
   kept (prd_cases db) (prd_cases (keep_rows p t db))"
  by (cases t) simp_all

lemma forget_expected_kept [simp]: "kept (prd_cases db) (prd_cases (forget_expected p db))"
  by (simp add: forget_expected_def)

lemma delete_rows_Inr:
  "delete_rows p t db = Inr (db', n) \<Longrightarrow> db' = keep_rows (\<lambda>r. \<not> p r) t db"
  by (auto simp: delete_rows_def Let_def result_simps)

lemma delete_tables_append:
  "delete_tables ids (ts @ us) db = Inr (db2, counts) \<Longrightarrow>
   \<exists>db1 n1 n2. delete_tables ids ts db = Inr (db1, n1) \<and> delete_tables ids us db1 = Inr (db2, n2)"
proof (induction ts arbitrary: db counts)
  case (Cons t ts)
  from Cons.prems obtain db1 n rest where
    1: "delete_rows (aggregate_target (if t = AT_SELECTIONS
        then forget_expected (aggregate_target db ids t) db else db) ids t) t
      (if t = AT_SELECTIONS then forget_expected (aggregate_target db ids t) db else db) = Inr (db1, n)"
    and 2: "delete_tables ids (ts @ us) db1 = Inr (db2, rest)"
    by (auto simp only: append_Cons delete_tables.simps Let_def elim!: bindR_InrE split: prod.splits)
  from Cons.IH [OF 2] 1 show ?case by (auto simp: Let_def bindR_def)
qed simp

lemma delete_tables_kept:
  "AT_OUTBOX \<notin> set ts \<Longrightarrow> AT_DECISIONS \<notin> set ts \<Longrightarrow> delete_tables ids ts db = Inr (db', counts) \<Longrightarrow>
   kept (prd_cases db) (prd_cases db')"
proof (induction ts arbitrary: db counts)
  case (Cons t ts)
  let ?db = "if t = AT_SELECTIONS then forget_expected (aggregate_target db ids t) db else db"
  from Cons.prems(3) obtain db1 n rest where
    1: "delete_rows (aggregate_target ?db ids t) t ?db = Inr (db1, n)"
    and 2: "delete_tables ids ts db1 = Inr (db', rest)"
    by (auto simp only: delete_tables.simps Let_def elim!: bindR_InrE split: prod.splits)
  have "kept (prd_cases db) (prd_cases ?db)" by simp
  moreover have "kept (prd_cases ?db) (prd_cases db1)"
    unfolding delete_rows_Inr [OF 1] using Cons.prems(1,2) by (intro keep_rows_kept) auto
  moreover have "kept (prd_cases db1) (prd_cases db')"
    using Cons.IH [OF _ _ 2] Cons.prems(1,2) by simp
  ultimately show ?case by simp
qed simp

lemma outbox_target:
  "aggregate_target db ids AT_OUTBOX (outbox_view r) \<longleftrightarrow> doomed ids (prd_cases db) (orow_decision_id r)"
  by (auto simp: aggregate_target_def in_ids_iff owned_ids_iff parent_table_def outbox_view_def
      view_of_def table_rows.simps decision_view_def doomed_def)

lemma decision_target:
  "aggregate_target db ids AT_DECISIONS (decision_view l) \<longleftrightarrow> lrow_case_id l \<in> set ids"
  by (simp add: aggregate_target_def in_ids_iff parent_table_def decision_view_def view_of_def)

lemma delete_order_split:
  obtains pre mid post where
    "PRESENTER_AGGREGATE_DELETE_ORDER = pre @ [AT_OUTBOX] @ mid @ [AT_DECISIONS] @ post"
    and "AT_OUTBOX \<notin> set (pre @ mid @ post)" and "AT_DECISIONS \<notin> set (pre @ mid @ post)"
proof
  show "PRESENTER_AGGREGATE_DELETE_ORDER =
      [AT_PROJECTIONS, AT_OBSERVATIONS, AT_MAIL_REVISIONS, AT_MAIL_DELIVERIES, AT_DRAFTS,
       AT_ATTEMPTS, AT_EVENTS, AT_ACTION_PROJECTIONS, AT_PLAYBACKS] @ [AT_OUTBOX] @
      [AT_SATISFACTIONS, AT_ACTIONS, AT_SELECTIONS, AT_REVIEWS] @ [AT_DECISIONS] @
      [AT_EVIDENCE, AT_ANALYSES, AT_CLAIMS, AT_SNAPSHOTS, AT_CASES]"
    by (simp add: PRESENTER_AGGREGATE_DELETE_ORDER_def)
qed simp_all

lemma delete_table_one:
  "delete_tables ids [t] db = Inr (db', counts) \<Longrightarrow> t \<noteq> AT_SELECTIONS \<Longrightarrow>
   db' = keep_rows (\<lambda>r. \<not> aggregate_target db ids t r) t db"
  by (auto simp: Let_def elim!: bindR_InrE split: prod.splits dest!: delete_rows_Inr)

lemma delete_aggregates_prune:
  assumes "delete_presenter_aggregates ids db = Inr (db', counts)"
  shows "pruned_from ids (prd_cases db) (prd_cases db')"
proof (cases "ids = []")
  case True
  with assms show ?thesis by (simp add: delete_presenter_aggregates_def pruned_from_def doomed_def)
next
  case False
  obtain pre mid post where order: "PRESENTER_AGGREGATE_DELETE_ORDER = pre @ [AT_OUTBOX] @ mid @ [AT_DECISIONS] @ post"
    and others: "AT_OUTBOX \<notin> set pre" "AT_DECISIONS \<notin> set pre" "AT_OUTBOX \<notin> set mid"
    "AT_DECISIONS \<notin> set mid" "AT_OUTBOX \<notin> set post" "AT_DECISIONS \<notin> set post"
    by (rule delete_order_split) simp
  from False assms have "delete_tables ids (pre @ [AT_OUTBOX] @ mid @ [AT_DECISIONS] @ post) db = Inr (db', counts)"
    by (simp only: delete_presenter_aggregates_def order if_False)
  from delete_tables_append [OF this] obtain db1 n1 m1 where
    1: "delete_tables ids pre db = Inr (db1, n1)"
    and r1: "delete_tables ids ([AT_OUTBOX] @ mid @ [AT_DECISIONS] @ post) db1 = Inr (db', m1)" by blast
  from delete_tables_append [OF r1] obtain db2 n2 m2 where
    2: "delete_tables ids [AT_OUTBOX] db1 = Inr (db2, n2)"
    and r2: "delete_tables ids (mid @ [AT_DECISIONS] @ post) db2 = Inr (db', m2)" by blast
  from delete_tables_append [OF r2] obtain db3 n3 m3 where
    3: "delete_tables ids mid db2 = Inr (db3, n3)"
    and r3: "delete_tables ids ([AT_DECISIONS] @ post) db3 = Inr (db', m3)" by blast
  from delete_tables_append [OF r3] obtain db4 n4 n5 where
    4: "delete_tables ids [AT_DECISIONS] db3 = Inr (db4, n4)"
    and 5: "delete_tables ids post db4 = Inr (db', n5)" by blast
  have db2: "db2 = keep_rows (\<lambda>r. \<not> aggregate_target db1 ids AT_OUTBOX r) AT_OUTBOX db1"
    and db4: "db4 = keep_rows (\<lambda>r. \<not> aggregate_target db3 ids AT_DECISIONS r) AT_DECISIONS db3"
    by (rule delete_table_one [OF 2], simp, rule delete_table_one [OF 4], simp)
  note k = delete_tables_kept [OF others(1,2) 1] delete_tables_kept [OF others(3,4) 3]
    delete_tables_kept [OF others(5,6) 5]
  from k show ?thesis
    by (simp add: db2 db4 pruned_from_def outbox_target decision_target doomed_def)
qed

lemma retention_prunes:
  assumes "retention_step sv ids db db'"
  shows "pruned_from ids (prd_cases db) (prd_cases db')"
  using assms
proof cases
  case (retain_create recorded c snapshot limit plan deleted)
  then obtain cases1 where 1: "insert_case c snapshot (prd_cases db) = Inr cases1"
    and 2: "delete_presenter_aggregates ids (db\<lparr>prd_cases := cases1\<rparr>) = Inr (db', deleted)"
    by (auto simp: create_presenter_case_def Let_def result_simps elim!: bindR_InrE split: prod.splits)
  from 1 have "kept (prd_cases db) cases1" by (auto simp: insert_case_def result_simps)
  with delete_aggregates_prune [OF 2] show ?thesis by (simp add: pruned_from_def doomed_def)
next
  case (retain_apply recorded plan deleted)
  then show ?thesis
    by (auto simp: apply_presenter_retention_def elim!: bindR_InrE split: prod.splits
        dest: delete_aggregates_prune)
qed

section \<open>Events in the runs of the back end\<close>

lemma pruned_events_ok:
  "pruned_from ids db db' \<Longrightarrow> events_ok (cdb_outbox db) \<Longrightarrow> events_ok (cdb_outbox db')"
  by (auto simp: pruned_from_def events_ok_def distinct_map_filter)

lemma doomed_iff:
  assumes "distinct (map lrow_decision_id (cdb_decisions db))" and "l \<in> set (cdb_decisions db)"
  shows "doomed ids db (lrow_decision_id l) \<longleftrightarrow> lrow_case_id l \<in> set ids"
  using assms by (auto simp: doomed_def distinct_map dest: inj_onD)

lemma filter_of_map: "map f xs = map g ys \<Longrightarrow> map f (filter (\<lambda>x. P (f x)) xs) = map g (filter (\<lambda>y. P (g y)) ys)"
  using filter_map [of P f xs] filter_map [of P g ys] by (simp add: o_def)

text \<open>Pruning takes the event of each approving Decision with it, and no other event.\<close>

lemma pruned_outbox:
  assumes "pruned_from ids db db'" and "outbox_of_decisions db"
  shows "outbox_of_decisions db'"
proof -
  let ?approved = "\<lambda>l. lrow_kind l = ''approved''"
  have dist: "distinct (map lrow_decision_id (cdb_decisions db))"
    and out: "map orow_decision_id (cdb_outbox db) =
      map lrow_decision_id (filter ?approved (cdb_decisions db))"
    using assms(2) by (simp_all add: outbox_of_decisions_def)
  have "map orow_decision_id (cdb_outbox db') =
      map lrow_decision_id (filter (\<lambda>l. \<not> doomed ids db (lrow_decision_id l))
        (filter ?approved (cdb_decisions db)))"
    using filter_of_map [OF out, of "\<lambda>i. \<not> doomed ids db i"] assms(1) by (simp add: pruned_from_def)
  also have "filter (\<lambda>l. \<not> doomed ids db (lrow_decision_id l)) (filter ?approved (cdb_decisions db)) =
      filter ?approved (cdb_decisions db')"
    using assms(1) doomed_iff [OF dist] by (auto simp: pruned_from_def intro!: filter_cong)
  finally show ?thesis
    using assms(1) dist by (simp add: outbox_of_decisions_def pruned_from_def distinct_map_filter)
qed

lemma backend_step_cases:
  assumes "backend_step sv wk s s'"
  shows "tables_grow (prd_cases s) (prd_cases s') \<and> new_decision (prd_cases s) (prd_cases s') \<or>
    worker_moves (prd_cases s) (prd_cases s') \<or> (\<exists>ids. retention_step sv ids s s')"
  using assms
proof cases
  case (backend_database c x)
  show ?thesis using database_step_moves [OF backend_database(2)] by (simp add: backend_database(1)) blast
next
  case (backend_playback pe c x p)
  have "worker_moves (prd_cases s) c"
    by (rule guard_moves) (use playback_unit_cases [OF backend_playback(3)] in \<open>simp only: backend_playback(2)\<close>)
  then show ?thesis by (simp add: backend_playback(1))
next
  case (backend_mail me c x m)
  have "worker_moves (prd_cases s) c"
    by (rule guard_moves) (use mail_unit_cases [OF backend_mail(3)] in \<open>simp only: backend_mail(2)\<close>)
  then show ?thesis by (simp add: backend_mail(1))
qed blast

lemma backend_step_ok:
  assumes "backend_step sv wk s s'"
    and "events_ok (cdb_outbox (prd_cases s))" and "outbox_of_decisions (prd_cases s)"
  shows "events_ok (cdb_outbox (prd_cases s')) \<and> outbox_of_decisions (prd_cases s')"
proof -
  consider (grow) "new_decision (prd_cases s) (prd_cases s')" "events_move (prd_cases s) (prd_cases s')"
    | (work) "worker_moves (prd_cases s) (prd_cases s')"
    | (prune) ids where "pruned_from ids (prd_cases s) (prd_cases s')"
    using backend_step_cases [OF assms(1)] new_events_move retention_prunes by blast
  then show ?thesis
  proof cases
    case grow
    then show ?thesis using assms(2,3) moved_outbox [of "prd_cases s" "prd_cases s'"]
      by (simp add: events_move_def)
  next
    case work
    then show ?thesis using assms(2,3) moved_outbox [of "prd_cases s" "prd_cases s'"]
      by (simp add: worker_moves_def events_move_def)
  next
    case prune
    then show ?thesis using assms(2,3) pruned_events_ok pruned_outbox by blast
  qed
qed

lemma backend_steps_ok:
  assumes "(backend_step sv wk)\<^sup>*\<^sup>* s s'"
    and "events_ok (cdb_outbox (prd_cases s))" and "outbox_of_decisions (prd_cases s)"
  shows "events_ok (cdb_outbox (prd_cases s')) \<and> outbox_of_decisions (prd_cases s')"
  using assms by (induction rule: rtranclp_induct) (auto dest: backend_step_ok)

lemma backend_reachable_ok:
  "backend_reachable sv wk s \<Longrightarrow>
   events_ok (cdb_outbox (prd_cases s)) \<and> outbox_of_decisions (prd_cases s)"
  unfolding backend_reachable_def
  by (erule backend_steps_ok)
    (simp_all add: empty_presenter_db_def empty_case_db_def events_ok_def outbox_of_decisions_def)

text \<open>An event goes only with its Case.\<close>

definition pruned_with_case ::
    "'p service_env \<Rightarrow> outbox_row \<Rightarrow> 'p presenter_db \<Rightarrow> 'p presenter_db \<Rightarrow> bool" where
  "pruned_with_case sv e s s' \<longleftrightarrow>
     (\<exists>ids. \<exists>e1 \<in> set (cdb_outbox (prd_cases s)). \<exists>l \<in> set (cdb_decisions (prd_cases s)).
       retention_step sv ids s s' \<and> event_grows e e1 \<and>
       lrow_decision_id l = orow_decision_id e \<and> lrow_case_id l \<in> set ids \<and>
       orow_decision_id e \<notin> orow_decision_id ` set (cdb_outbox (prd_cases s')))"

lemma backend_step_event:
  assumes "backend_step sv wk s s'" and "events_ok (cdb_outbox (prd_cases s))"
    and e1: "e1 \<in> set (cdb_outbox (prd_cases s))" "event_grows e e1"
  shows "(\<exists>e2 \<in> set (cdb_outbox (prd_cases s')). event_grows e e2) \<or> pruned_with_case sv e s s'"
proof -
  consider (move) "events_move (prd_cases s) (prd_cases s')" | (prune) ids where "retention_step sv ids s s'"
    using backend_step_cases [OF assms(1)] new_events_move by (auto simp: worker_moves_def)
  then show ?thesis
  proof cases
    case move
    with assms(2) have "list_grows event_grows (cdb_outbox (prd_cases s)) (cdb_outbox (prd_cases s'))"
      by (simp add: events_move_def)
    from list_growsD [OF this e1(1)] e1(2) show ?thesis by (blast intro: event_grows_trans)
  next
    case prune
    have id: "orow_decision_id e1 = orow_decision_id e" using e1(2) by (simp add: event_grows_def)
    show ?thesis
    proof (cases "doomed ids (prd_cases s) (orow_decision_id e1)")
      case True
      with retention_prunes [OF prune]
      have "orow_decision_id e \<notin> orow_decision_id ` set (cdb_outbox (prd_cases s'))"
        by (auto simp: pruned_from_def id)
      with True e1 prune show ?thesis unfolding doomed_def pruned_with_case_def id by blast
    next
      case False
      with retention_prunes [OF prune] e1 show ?thesis by (auto simp: pruned_from_def)
    qed
  qed
qed

lemma backend_steps_event:
  assumes "(backend_step sv wk)\<^sup>*\<^sup>* s s'"
    and "events_ok (cdb_outbox (prd_cases s))" and "outbox_of_decisions (prd_cases s)"
    and "e \<in> set (cdb_outbox (prd_cases s))"
  shows "(\<exists>e' \<in> set (cdb_outbox (prd_cases s')). event_grows e e') \<or>
    (\<exists>t t'. (backend_step sv wk)\<^sup>*\<^sup>* s t \<and> pruned_with_case sv e t t' \<and> (backend_step sv wk)\<^sup>*\<^sup>* t' s')"
  using assms(1)
proof (induction rule: rtranclp_induct)
  case base
  then show ?case using assms(4) event_grows_refl by blast
next
  case (step u v)
  from step.IH show ?case
  proof (elim disjE exE conjE bexE)
    fix e1 assume e1: "e1 \<in> set (cdb_outbox (prd_cases u))" "event_grows e e1"
    have "events_ok (cdb_outbox (prd_cases u))" using backend_steps_ok [OF step.hyps(1) assms(2,3)] ..
    from backend_step_event [OF step.hyps(2) this e1] step.hyps(1) show ?thesis by blast
  next
    fix t t' assume "(backend_step sv wk)\<^sup>*\<^sup>* s t" "pruned_with_case sv e t t'"
      "(backend_step sv wk)\<^sup>*\<^sup>* t' u"
    with step.hyps(2) show ?thesis by (blast intro: rtranclp.rtrancl_into_rtrancl)
  qed
qed

section \<open>Property\<close>

text \<open>
  C10. The transactional outbox.  Whatever the back end has committed, presenter retention included,
  Decisions have distinct ids and there is exactly one planning event for each approving Decision, in
  the same order; no committed event is left claimed.  Whatever it commits later, every event is
  still there, once, for the same Decision and with the same payload, its attempts are not forgotten
  and a processed or stale event has not changed, unless presenter retention has in between
  pruned the Case of the event's Decision, and the event with it.
\<close>

theorem planning_events_settle:
  assumes "backend_reachable sv wk s" and "(backend_step sv wk)\<^sup>*\<^sup>* s s'"
  shows "distinct (map lrow_decision_id (cdb_decisions (prd_cases s))) \<and>
    map orow_decision_id (cdb_outbox (prd_cases s)) =
      map lrow_decision_id
        (filter (\<lambda>l. lrow_kind l = ''approved'') (cdb_decisions (prd_cases s))) \<and>
    (\<forall>e \<in> set (cdb_outbox (prd_cases s)). event_settled e \<and>
      ((\<exists>!e'. e' \<in> set (cdb_outbox (prd_cases s')) \<and> orow_event_id e' = orow_event_id e) \<and>
       (\<exists>e' \<in> set (cdb_outbox (prd_cases s')). event_grows e e') \<or>
       (\<exists>t t' ids l. (backend_step sv wk)\<^sup>*\<^sup>* s t \<and> retention_step sv ids t t' \<and>
          (backend_step sv wk)\<^sup>*\<^sup>* t' s' \<and> (\<exists>e1 \<in> set (cdb_outbox (prd_cases t)). event_grows e e1) \<and>
          l \<in> set (cdb_decisions (prd_cases t)) \<and> lrow_decision_id l = orow_decision_id e \<and>
          lrow_case_id l \<in> set ids \<and>
          orow_decision_id e \<notin> orow_decision_id ` set (cdb_outbox (prd_cases t')))))"
proof -
  have ok: "events_ok (cdb_outbox (prd_cases s))" "outbox_of_decisions (prd_cases s)"
    using backend_reachable_ok [OF assms(1)] by simp_all
  have ok': "events_ok (cdb_outbox (prd_cases s'))" using backend_steps_ok [OF assms(2) ok] ..
  have once: "\<exists>!e'. e' \<in> set (cdb_outbox (prd_cases s')) \<and> orow_event_id e' = orow_event_id e"
    if "e' \<in> set (cdb_outbox (prd_cases s'))" "event_grows e e'" for e e'
  proof -
    from that(2) have "orow_event_id e' = orow_event_id e" by (simp add: event_grows_def)
    with that(1) show ?thesis using same_event [OF ok'] by metis
  qed
  show ?thesis
  proof (intro conjI ballI)
    show "distinct (map lrow_decision_id (cdb_decisions (prd_cases s)))"
      "map orow_decision_id (cdb_outbox (prd_cases s)) =
        map lrow_decision_id (filter (\<lambda>l. lrow_kind l = ''approved'') (cdb_decisions (prd_cases s)))"
      using ok(2) by (simp_all add: outbox_of_decisions_def)
    fix e assume e: "e \<in> set (cdb_outbox (prd_cases s))"
    with ok(1) show "event_settled e" by (simp add: events_ok_def)
    from backend_steps_event [OF assms(2) ok e] once
    show "(\<exists>!e'. e' \<in> set (cdb_outbox (prd_cases s')) \<and> orow_event_id e' = orow_event_id e) \<and>
        (\<exists>e' \<in> set (cdb_outbox (prd_cases s')). event_grows e e') \<or>
      (\<exists>t t' ids l. (backend_step sv wk)\<^sup>*\<^sup>* s t \<and> retention_step sv ids t t' \<and>
         (backend_step sv wk)\<^sup>*\<^sup>* t' s' \<and> (\<exists>e1 \<in> set (cdb_outbox (prd_cases t)). event_grows e e1) \<and>
         l \<in> set (cdb_decisions (prd_cases t)) \<and> lrow_decision_id l = orow_decision_id e \<and>
         lrow_case_id l \<in> set ids \<and>
         orow_decision_id e \<notin> orow_decision_id ` set (cdb_outbox (prd_cases t')))"
      unfolding pruned_with_case_def by blast
  qed
qed

section \<open>Witness\<close>

lemma database_run_in_backend:
  assumes "(database_step sv wk)\<^sup>*\<^sup>* s s'"
  shows "(backend_step sv wk)\<^sup>*\<^sup>* (empty_presenter_db\<lparr>prd_cases := fst s, prd_execution := snd s\<rparr>)
    (empty_presenter_db\<lparr>prd_cases := fst s', prd_execution := snd s'\<rparr>)"
  using assms
proof (induction rule: rtranclp_induct)
  case (step t u)
  let ?db = "empty_presenter_db\<lparr>prd_cases := fst t, prd_execution := snd t\<rparr>"
  have "backend_step sv wk ?db (?db\<lparr>prd_cases := fst u, prd_execution := snd u\<rparr>)"
    by (rule backend_database) (use step.hyps(2) in simp)
  then have "backend_step sv wk ?db (empty_presenter_db\<lparr>prd_cases := fst u, prd_execution := snd u\<rparr>)"
    by simp
  with step.IH show ?case by (rule rtranclp.rtrancl_into_rtrancl)
qed simp

theorem planning_events_settle_witness:
  "\<exists>s s' e e'. backend_reachable journey_service journey_worker s \<and>
     (backend_step journey_service journey_worker)\<^sup>*\<^sup>* s s' \<and>
     e \<in> set (cdb_outbox (prd_cases s)) \<and> event_settled e \<and>
     e' \<in> set (cdb_outbox (prd_cases s')) \<and> event_grows e e'"
proof -
  obtain db3 db4 x4 where
    1: "database_reachable journey_service journey_worker (db3, empty_execution_db)" and
    2: "process_outbox journey_store journey_worker NextUnattempted journey_ids 400
       (db3, empty_execution_db) = ((db4, x4), Inr True)" and 3: "planned_facts db3 db4 x4"
    using legacy_reachable by blast
  let ?s = "empty_presenter_db\<lparr>prd_cases := db3, prd_execution := empty_execution_db\<rparr>"
  let ?s' = "empty_presenter_db\<lparr>prd_cases := db4, prd_execution := x4\<rparr>"
  have step: "database_step journey_service journey_worker (db3, empty_execution_db) (db4, x4)"
    using 2 by (intro step_plan) (simp add: journey_service_def)
  have reach: "backend_reachable journey_service journey_worker ?s"
    using database_run_in_backend [OF 1 [unfolded database_reachable_def]]
    by (simp add: backend_reachable_def empty_presenter_db_def)
  have steps: "(backend_step journey_service journey_worker)\<^sup>*\<^sup>* ?s ?s'"
    using database_run_in_backend [OF r_into_rtranclp [where r = "database_step journey_service journey_worker", OF step]]
    by simp
  from 3 obtain e where e: "e \<in> set (cdb_outbox db3)" by (auto simp: planned_facts_def)
  have "event_settled e" using planning_events_settle [OF reach steps] e by simp
  moreover obtain e' where "e' \<in> set (cdb_outbox db4)" "event_grows e e'"
  proof -
    have "events_ok (cdb_outbox db3)" using database_reachable_events [OF 1] by simp
    with database_step_events [OF step] have "list_grows event_grows (cdb_outbox db3) (cdb_outbox db4)"
      by (simp add: events_move_def)
    from list_growsD [OF this e] that show ?thesis by blast
  qed
  ultimately show ?thesis using reach steps e
    by (intro exI [of _ ?s] exI [of _ ?s'] exI [of _ e] exI [of _ e']) simp
qed

end
