(* ===== verification/Authentication.thy ===== *)
theory Authentication
  imports Finance_Service Json_Values
begin

text \<open>
  \<open>AuthService\<close> of \<open>apps/api/app/auth.py\<close>: a bearer token becomes the actor every service is called
  with.  The signing keys of the tenant are cached, a verified token is matched with the configured
  persona of its user, and the actors the service made are remembered, so that nobody else's actor
  is ever exchanged for a downstream token.

  The \<open>jwt\<close> library is a parameter, and so are the answers of the identity provider, which may depend
  on everything that was requested before, and the readings of the clock.  The log of requests is
  the only thing in the state that the code does not keep; nothing reads it.  The in-memory state
  survives an exception, so an operation returns a state in either case.
\<close>

section \<open>Identifiers\<close>

text \<open>\<open>str(UUID(..))\<close>: thirty-two lower-case hexadecimal digits in five groups.\<close>

definition hex_char :: "nat \<Rightarrow> char" where
  "hex_char d = char_of (if d < 10 then d + 48 else d + 87)"

fun hex_text :: "nat \<Rightarrow> nat \<Rightarrow> string" where
  "hex_text 0 n = []"
| "hex_text (Suc k) n = hex_text k (n div 16) @ [hex_char (n mod 16)]"

definition uuid_text :: "nat \<Rightarrow> string" where
  "uuid_text n =
     (let h = hex_text 32 n in
      take 8 h @ ''-'' @ take 4 (drop 8 h) @ ''-'' @ take 4 (drop 12 h) @ ''-'' @
      take 4 (drop 16 h) @ ''-'' @ drop 20 h)"

definition auth_uuid :: "string \<Rightarrow> string \<Rightarrow> string result" where
  "auth_uuid v label =
     bindR (the_or (ValueError (label @ '' must be a UUID'')) (py_uuid v)) (\<lambda>n. Inr (uuid_text n))"

section \<open>Persona bindings\<close>

definition KNOWN_ROLES :: "string list" where
  "KNOWN_ROLES = [''material_planner'', ''response_approver'', ''quality_approver'', ''finance_approver'']"

record persona_binding =
  pb_tenant_id :: string
  pb_object_id :: string
  pb_persona_id :: string
  pb_allowed_roles :: "string list"
  pb_source_id :: string

definition mk_persona_binding ::
    "string \<Rightarrow> string \<Rightarrow> string \<Rightarrow> string list \<Rightarrow> string \<Rightarrow> persona_binding result" where
  "mk_persona_binding tenant_id object_id persona_id allowed_roles source_id =
     bindR (auth_uuid tenant_id ''binding tenant ID'') (\<lambda>tenant.
     bindR (auth_uuid object_id ''binding object ID'') (\<lambda>object1.
     bindR (require (nonblank persona_id \<and> nonblank source_id)
              (ValueError ''binding persona and source IDs must be nonblank'')) (\<lambda>_.
     bindR (require (allowed_roles \<noteq> [] \<and> distinct allowed_roles \<and>
                     set allowed_roles \<subseteq> set KNOWN_ROLES)
              (ValueError ''binding roles must be unique configured app roles'')) (\<lambda>_.
     Inr \<lparr>pb_tenant_id = tenant, pb_object_id = object1, pb_persona_id = py_strip persona_id,
          pb_allowed_roles = allowed_roles, pb_source_id = py_strip source_id\<rparr>))))"

definition binding_alex :: "string \<Rightarrow> string \<Rightarrow> persona_binding result" where
  "binding_alex tenant_id object_id =
     mk_persona_binding tenant_id object_id ''RL-PERSONA-ALEX''
       [''material_planner'', ''response_approver''] ''RL-ENTRA-ALEX''"

definition binding_taylor :: "string \<Rightarrow> string \<Rightarrow> persona_binding result" where
  "binding_taylor tenant_id object_id =
     mk_persona_binding tenant_id object_id ''RL-PERSONA-TAYLOR'' [''finance_approver'']
       ''RL-ENTRA-TAYLOR''"

section \<open>The service and its state\<close>

text \<open>The capability is the identity of the object \<open>AuthService\<close> makes for itself.\<close>

record auth_service =
  asv_tenant_id :: string
  asv_audience :: string
  asv_bindings :: "persona_binding list"
  asv_cache_ttl :: int
  asv_capability :: nat

fun add_bindings ::
    "string \<Rightarrow> persona_binding list \<Rightarrow> persona_binding list \<Rightarrow> persona_binding list result" where
  "add_bindings tenant seen [] = Inr seen"
| "add_bindings tenant seen (b # bs) =
     bindR (require (pb_tenant_id b = tenant \<and>
                     (pb_tenant_id b, pb_object_id b)
                       \<notin> set (map (\<lambda>s. (pb_tenant_id s, pb_object_id s)) seen) \<and>
                     pb_persona_id b \<notin> set (map pb_persona_id seen) \<and>
                     pb_source_id b \<notin> set (map pb_source_id seen))
              (ValueError ''persona binding configuration is ambiguous'')) (\<lambda>_.
     add_bindings tenant (seen @ [b]) bs)"

definition mk_auth_service ::
    "string \<Rightarrow> string \<Rightarrow> persona_binding list \<Rightarrow> int \<Rightarrow> nat \<Rightarrow> auth_service result" where
  "mk_auth_service tenant_id audience bindings cache_ttl capability =
     bindR (auth_uuid tenant_id ''tenant ID'') (\<lambda>tenant.
     bindR (auth_uuid audience ''audience'') (\<lambda>aud.
     bindR (require (30 \<le> cache_ttl \<and> cache_ttl \<le> 3600)
              (ValueError ''cache TTL must be between 30 and 3600 seconds'')) (\<lambda>_.
     bindR (require (bindings \<noteq> []) (ValueError ''at least one persona binding is required'')) (\<lambda>_.
     bindR (add_bindings tenant [] bindings) (\<lambda>bound.
     Inr \<lparr>asv_tenant_id = tenant, asv_audience = aud, asv_bindings = bound,
          asv_cache_ttl = cache_ttl, asv_capability = capability\<rparr>)))))"

definition auth_issuer :: "auth_service \<Rightarrow> string" where
  "auth_issuer sv = ''https://login.microsoftonline.com/'' @ asv_tenant_id sv @ ''/v2.0''"

definition metadata_url :: "auth_service \<Rightarrow> string" where
  "metadata_url sv = auth_issuer sv @ ''/.well-known/openid-configuration''"

definition expected_jwks_url :: "auth_service \<Rightarrow> string" where
  "expected_jwks_url sv =
     ''https://login.microsoftonline.com/'' @ asv_tenant_id sv @ ''/discovery/v2.0/keys''"

text \<open>
  An actor object: its identity, the service that made it and what it carries.  The registry of the
  service maps the identity of an actor to what it carried when it was made.
\<close>

record user_assertion =
  uas_token :: string
  uas_capability :: nat
  uas_ref :: nat

record actor_content =
  acc_tenant_id :: string
  acc_object_id :: string
  acc_persona_id :: string
  acc_effective_roles :: "string list"
  acc_source_id :: string
  acc_delegated_scopes :: "string list"
  acc_assertion :: user_assertion

record authenticated_actor =
  aac_ref :: nat
  aac_capability :: nat
  aac_content :: actor_content
  aac_display_name :: "string option"
  aac_user_principal_name :: "string option"

record auth_state =
  ast_keys :: "(string \<times> json_dict) list"
  ast_cache_expires_at :: rat
  ast_actors :: "(nat \<times> actor_content) list"
  ast_log :: "(string \<times> json result) list"

definition initial_auth_state :: auth_state where
  "initial_auth_state =
     \<lparr>ast_keys = [], ast_cache_expires_at = 0, ast_actors = [], ast_log = []\<rparr>"

text \<open>\<open>to_identity_snapshot\<close>\<close>

definition to_identity_snapshot :: "authenticated_actor \<Rightarrow> identity_snapshot" where
  "to_identity_snapshot a =
     (let c = aac_content a in
      canonicalize_roles
        \<lparr>is_persona_id = acc_persona_id c, is_effective_roles = acc_effective_roles c,
         is_identity_source = IS_ENTRA, is_source_id = acc_source_id c,
         is_tenant_id = Some (acc_tenant_id c), is_object_id = Some (acc_object_id c),
         is_display_name = aac_display_name a,
         is_user_principal_name = aac_user_principal_name a\<rparr>)"

text \<open>\<open>_validated_user_assertion\<close>; None stands for an object that is no actor.\<close>

definition validated_user_assertion ::
    "auth_service \<Rightarrow> auth_state \<Rightarrow> authenticated_actor option \<Rightarrow> user_assertion result" where
  "validated_user_assertion sv st actor =
     (let refused = Inl (AuthorizationError ''actor was not authenticated by this AuthService instance'') in
      case actor of
        None \<Rightarrow> refused
      | Some a \<Rightarrow>
          if map_of (ast_actors st) (aac_ref a) = Some (aac_content a) \<and>
             aac_capability a = asv_capability sv \<and>
             uas_capability (acc_assertion (aac_content a)) = asv_capability sv
          then Inr (acc_assertion (aac_content a))
          else refused)"

section \<open>Signing keys\<close>

type_synonym identity_provider = "(string \<times> json result) list \<Rightarrow> string \<Rightarrow> json result"

definition then_auth ::
    "auth_state \<times> 'a result \<Rightarrow> (auth_state \<Rightarrow> 'a \<Rightarrow> auth_state \<times> 'b result) \<Rightarrow>
     auth_state \<times> 'b result" where
  "then_auth p f = (case snd p of Inl e \<Rightarrow> (fst p, Inl e) | Inr x \<Rightarrow> f (fst p) x)"

text \<open>\<open>_fetch\<close>: an exception of the fetcher that is no \<open>AuthenticationError\<close> becomes one.\<close>

definition auth_fetch ::
    "identity_provider \<Rightarrow> string \<Rightarrow> auth_state \<Rightarrow> auth_state \<times> json_dict result" where
  "auth_fetch web url st =
     (let reply = web (ast_log st) url in
      (st\<lparr>ast_log := ast_log st @ [(url, reply)]\<rparr>,
       case reply of
         Inl (AuthenticationError m) \<Rightarrow> Inl (AuthenticationError m)
       | Inl _ \<Rightarrow> Inl (AuthenticationError ''identity metadata fetch failed'')
       | Inr v \<Rightarrow> as_dict (AuthenticationError ''identity metadata response is malformed'') v))"

text \<open>Asking whether a list or a dictionary is a key of a dictionary raises a \<open>TypeError\<close>.\<close>

fun unhashable :: "json \<Rightarrow> bool" where
  "unhashable (JList _) = True"
| "unhashable (JDict _) = True"
| "unhashable _ = False"

definition usable_key :: "(string \<times> json_dict) list \<Rightarrow> json_dict \<Rightarrow> (string \<times> json_dict) result" where
  "usable_key parsed key =
     (case json_get key ''kid'' of
        JString key_id \<Rightarrow>
          if key_id = [] \<or> key_id \<in> set (map fst parsed) \<or>
             json_get key ''kty'' \<noteq> JString ''RSA'' \<or>
             json_get key ''use'' \<notin> {JNull, JString ''sig''} \<or>
             json_get key ''alg'' \<notin> {JNull, JString ''RS256''}
          then Inl (AuthenticationError (if key_id \<in> set (map fst parsed)
                 then ''duplicate identity signing key'' else ''identity signing key is malformed''))
          else Inr (key_id, key)
      | v \<Rightarrow> Inl (if unhashable v then TypeError
                   else AuthenticationError ''identity signing key is malformed''))"

fun parse_keys ::
    "(string \<times> json_dict) list \<Rightarrow> json list \<Rightarrow> (string \<times> json_dict) list result" where
  "parse_keys parsed [] = Inr parsed"
| "parse_keys parsed (v # vs) =
     bindR (as_dict (AuthenticationError ''identity signing key is malformed'') v) (\<lambda>key.
     bindR (usable_key parsed key) (\<lambda>entry.
     parse_keys (parsed @ [entry]) vs))"

definition document_keys :: "json_dict \<Rightarrow> (string \<times> json_dict) list result" where
  "document_keys document =
     (let invalid = AuthenticationError ''identity signing key set has invalid size'' in
      bindR (as_list invalid (json_get document ''keys'')) (\<lambda>raw_keys.
      bindR (require (1 \<le> length raw_keys \<and> length raw_keys \<le> 16) invalid) (\<lambda>_.
      parse_keys [] raw_keys)))"

definition refresh_keys ::
    "auth_service \<Rightarrow> identity_provider \<Rightarrow> rat \<Rightarrow> bool \<Rightarrow> auth_state \<Rightarrow> auth_state \<times> unit result" where
  "refresh_keys sv web now refresh_metadata st =
     then_auth
       (if refresh_metadata then
          then_auth (auth_fetch web (metadata_url sv) st) (\<lambda>st metadata.
            (st, require (json_get metadata ''issuer'' = JString (auth_issuer sv) \<and>
                          json_get metadata ''jwks_uri'' = JString (expected_jwks_url sv))
                   (AuthenticationError ''identity metadata issuer is invalid'')))
        else (st, Inr ())) (\<lambda>st _.
     then_auth (auth_fetch web (expected_jwks_url sv) st) (\<lambda>st document.
     then_auth (st, document_keys document) (\<lambda>st parsed.
     (st\<lparr>ast_keys := parsed, ast_cache_expires_at := now + of_int (asv_cache_ttl sv)\<rparr>, Inr ()))))"

text \<open>
  \<open>_signing_key\<close>.  The clock is read at most three times: to look at the cache and at the end of each
  refresh.
\<close>

definition signing_key ::
    "auth_service \<Rightarrow> identity_provider \<Rightarrow> (nat \<Rightarrow> rat) \<Rightarrow> string \<Rightarrow> auth_state \<Rightarrow>
     auth_state \<times> json_dict result" where
  "signing_key sv web now key_id st =
     then_auth (if ast_cache_expires_at st \<le> now 0 then refresh_keys sv web (now 1) True st
                else (st, Inr ())) (\<lambda>st _.
     case map_of (ast_keys st) key_id of
       Some key \<Rightarrow> (st, Inr key)
     | None \<Rightarrow>
         then_auth (refresh_keys sv web (now 2) False st) (\<lambda>st _.
         (st, the_or (AuthenticationError ''bearer token signing key was not found'')
                (map_of (ast_keys st) key_id))))"

section \<open>Authorizing the claims\<close>

definition claim_string :: "json_dict \<Rightarrow> string \<Rightarrow> string option result" where
  "claim_string claims name =
     (case json_get claims name of
        JNull \<Rightarrow> Inr None
      | JString s \<Rightarrow>
          if \<not> nonblank s \<or> length s > 512
          then Inl (AuthenticationError (''bearer token '' @ name @ '' claim is malformed''))
          else Inr (Some s)
      | _ \<Rightarrow> Inl (AuthenticationError (''bearer token '' @ name @ '' claim is malformed'')))"

definition lifetime_ok :: "json_dict \<Rightarrow> rat \<Rightarrow> bool" where
  "lifetime_ok claims now =
     (case (json_get claims ''exp'', json_get claims ''nbf'') of
        (JNumber expires, JNumber nbf) \<Rightarrow> now < expires \<and> nbf \<le> now
      | _ \<Rightarrow> False)"

fun json_strings :: "json list \<Rightarrow> string list option" where
  "json_strings [] = Some []"
| "json_strings (JString s # vs) = map_option ((#) s) (json_strings vs)"
| "json_strings (_ # vs) = None"

definition claim_roles :: "json_dict \<Rightarrow> string list result" where
  "claim_roles claims =
     (let ambiguous = Inl (AuthorizationError ''token roles are missing or ambiguous'') in
      case json_get claims ''roles'' of
        JList vs \<Rightarrow>
          (case json_strings vs of
             Some roles \<Rightarrow> if roles \<noteq> [] \<and> distinct roles then Inr roles else ambiguous
           | None \<Rightarrow> ambiguous)
      | _ \<Rightarrow> ambiguous)"

definition binding_for :: "auth_service \<Rightarrow> string \<Rightarrow> string \<Rightarrow> persona_binding option" where
  "binding_for sv tenant_id object_id =
     find (\<lambda>b. pb_tenant_id b = tenant_id \<and> pb_object_id b = object_id) (asv_bindings sv)"

text \<open>\<open>_authorize\<close>, with the reference of the new actor object.\<close>

definition authorize_claims ::
    "auth_service \<Rightarrow> rat \<Rightarrow> json_dict \<Rightarrow> string \<Rightarrow> nat \<Rightarrow> authenticated_actor result" where
  "authorize_claims sv now claims bearer_assertion fresh =
     bindR (require (lifetime_ok claims now)
              (AuthenticationError ''bearer token lifetime is invalid'')) (\<lambda>_.
     bindR (case (json_get claims ''tid'', json_get claims ''oid'') of
              (JString tid, JString oid) \<Rightarrow>
                if tid = asv_tenant_id sv then Inr (tid, oid)
                else Inl (AuthenticationError ''bearer token tenant or object ID is invalid'')
            | _ \<Rightarrow> Inl (AuthenticationError ''bearer token tenant or object ID is invalid''))
       (\<lambda>(tenant_id, oid).
     bindR (case py_uuid oid of
              None \<Rightarrow> Inl (AuthenticationError ''bearer token object ID is invalid'')
            | Some n \<Rightarrow> Inr (uuid_text n)) (\<lambda>object_id.
     let idp = json_get claims ''idp'' in
     bindR (require (\<not> unhashable idp) TypeError) (\<lambda>_.
     bindR (require (idp \<in> {JNull, JString (auth_issuer sv),
                             JString (''https://sts.windows.net/'' @ asv_tenant_id sv @ ''/'')})
              (AuthenticationError ''guest or cross-tenant identities are not allowed'')) (\<lambda>_.
     bindR (the_or (AuthorizationError ''no exact persona binding for token tenant/object ID'')
              (binding_for sv tenant_id object_id)) (\<lambda>binding.
     bindR (claim_roles claims) (\<lambda>roles.
     bindR (require (set roles = set (pb_allowed_roles binding))
              (AuthorizationError ''token roles do not exactly match persona binding'')) (\<lambda>_.
     bindR (require (json_get claims ''scp'' = JString ''access_as_user'')
              (AuthorizationError ''token scope must be exactly access_as_user'')) (\<lambda>_.
     bindR (claim_string claims ''name'') (\<lambda>display_name.
     bindR (claim_string claims ''preferred_username'') (\<lambda>upn.
     Inr \<lparr>aac_ref = fresh, aac_capability = asv_capability sv,
          aac_content =
            \<lparr>acc_tenant_id = tenant_id, acc_object_id = object_id,
             acc_persona_id = pb_persona_id binding, acc_effective_roles = sort roles,
             acc_source_id = pb_source_id binding, acc_delegated_scopes = [''access_as_user''],
             acc_assertion = \<lparr>uas_token = bearer_assertion,
               uas_capability = asv_capability sv, uas_ref = fresh\<rparr>\<rparr>,
          aac_display_name = display_name, aac_user_principal_name = upn\<rparr>)))))))))))"

section \<open>Authenticating a token\<close>

text \<open>
  What \<open>jwt\<close> says to a token, its header alone or with a key, an audience and an issuer: a value, a
  rejection (\<open>InvalidTokenError\<close>, or a \<open>ValueError\<close> or \<open>TypeError\<close> while decoding), or any other
  exception.
\<close>

datatype jwt_answer = Jwt_value json_dict | Jwt_rejected | Jwt_error py_error

record jwt_library =
  jwt_unverified_header :: "string \<Rightarrow> jwt_answer"
  jwt_decode :: "string \<Rightarrow> json_dict \<Rightarrow> string \<Rightarrow> string \<Rightarrow> jwt_answer"

fun jwt_result :: "string \<Rightarrow> jwt_answer \<Rightarrow> json_dict result" where
  "jwt_result m (Jwt_value d) = Inr d"
| "jwt_result m Jwt_rejected = Inl (AuthenticationError m)"
| "jwt_result m (Jwt_error e) = Inl e"

text \<open>\<open>len(token.encode("utf-8"))\<close> on code points below 256.\<close>

definition utf8_length :: "string \<Rightarrow> nat" where
  "utf8_length s = sum_list (map (\<lambda>c. if (of_char c :: nat) < 128 then 1 else 2) s)"

definition token_key_id :: "jwt_library \<Rightarrow> string \<Rightarrow> string result" where
  "token_key_id jwt token =
     bindR (require (utf8_length token \<le> 32768)
              (AuthenticationError ''bearer token is too large'')) (\<lambda>_.
     bindR (require (count_list token (CHR ''.'') = 2)
              (AuthenticationError ''bearer token is malformed'')) (\<lambda>_.
     bindR (jwt_result ''bearer token is malformed'' (jwt_unverified_header jwt token)) (\<lambda>header.
     bindR (require (json_get header ''alg'' = JString ''RS256'')
              (AuthenticationError ''bearer token uses an unsupported algorithm'')) (\<lambda>_.
     case json_get header ''kid'' of
       JString key_id \<Rightarrow>
         if nonblank key_id then Inr key_id
         else Inl (AuthenticationError ''bearer token has no key identifier'')
     | _ \<Rightarrow> Inl (AuthenticationError ''bearer token has no key identifier'')))))"

text \<open>A new actor object is referred to by the number of actors made before it.\<close>

definition authenticate ::
    "auth_service \<Rightarrow> jwt_library \<Rightarrow> identity_provider \<Rightarrow> (nat \<Rightarrow> rat) \<Rightarrow> string \<Rightarrow> auth_state \<Rightarrow>
     auth_state \<times> authenticated_actor result" where
  "authenticate sv jwt web now token st =
     then_auth (st, token_key_id jwt token) (\<lambda>st key_id.
     then_auth (signing_key sv web now key_id st) (\<lambda>st key.
     then_auth (st,
       bindR (jwt_result ''bearer token validation failed''
                (jwt_decode jwt token key (asv_audience sv) (auth_issuer sv))) (\<lambda>claims.
       bindR (require (json_get claims ''aud'' = JString (asv_audience sv))
                (AuthenticationError ''bearer token audience is invalid'')) (\<lambda>_.
       authorize_claims sv (now 3) claims token (length (ast_actors st))))) (\<lambda>st actor.
     (st\<lparr>ast_actors := ast_actors st @ [(aac_ref actor, aac_content actor)]\<rparr>, Inr actor))))"

text \<open>What the service went through: any tokens, answers and times.\<close>

inductive auth_reachable :: "auth_service \<Rightarrow> jwt_library \<Rightarrow> auth_state \<Rightarrow> bool"
  for sv jwt where
  auth_start: "auth_reachable sv jwt initial_auth_state"
| auth_token: "auth_reachable sv jwt st \<Longrightarrow>
    auth_reachable sv jwt (fst (authenticate sv jwt web now token st))"

section \<open>Identifiers round trip\<close>

lemma length_hex_text [simp]: "length (hex_text k n) = k"
  by (induction k arbitrary: n) auto

definition hexadecimal :: "char \<Rightarrow> bool" where
  "hexadecimal c \<longleftrightarrow>
     (48 \<le> (of_char c :: nat) \<and> (of_char c :: nat) \<le> 57) \<or>
     (97 \<le> (of_char c :: nat) \<and> (of_char c :: nat) \<le> 102)"

lemma hex_char_digit:
  assumes "d < 16"
  shows "hex_value (hex_char d) = Some d" and "hexadecimal (hex_char d)"
  using assms by (auto simp: hex_char_def hex_value_def hexadecimal_def Let_def)

lemma hexadecimal_others:
  assumes "hexadecimal c"
  shows "c \<noteq> CHR ''-''" "c \<noteq> CHR ''_''" "c \<noteq> CHR ''+''" "c \<noteq> CHR ''x''" "c \<noteq> CHR ''X''"
    "c \<noteq> CHR ''u''" "c \<noteq> CHR ''{''" "c \<noteq> CHR ''}''" "\<not> py_isspace c"
  using assms by (auto simp: hexadecimal_def py_isspace_def)

lemma set_hex_text: "\<forall>c \<in> set (hex_text k n). hexadecimal c"
proof (induction k arbitrary: n)
  case (Suc k)
  show ?case using Suc.IH [of "n div 16"] hex_char_digit(2) [of "n mod 16"] by simp
qed simp

lemma hex_digits_text:
  "hex_digits p acc (hex_text k n @ ys) = hex_digits (p \<or> 0 < k) (acc * 16 ^ k + n mod 16 ^ k) ys"
proof (induction k arbitrary: n ys)
  case (Suc k)
  have c: "hex_value (hex_char (n mod 16)) = Some (n mod 16)"
    "hex_char (n mod 16) \<noteq> CHR ''_''"
    using hex_char_digit [of "n mod 16"] hexadecimal_others by auto
  have "n mod 16 ^ Suc k = 16 * (n div 16 mod 16 ^ k) + n mod 16"
    by (simp add: mod_mult2_eq)
  then show ?case using c by (simp add: Suc.IH algebra_simps)
qed simp

lemma hex_digits_bound: "hex_digits p acc cs = Some n \<Longrightarrow> n < (acc + 1) * 16 ^ length cs"
proof (induction p acc cs rule: hex_digits.induct)
  case (2 prev acc c cs)
  have weaken: "n < (acc + 1) * 16 ^ length cs \<Longrightarrow> n < (acc + 1) * 16 ^ length (c # cs)"
    by (erule less_le_trans) simp
  show ?case
  proof (cases "c = CHR ''_''")
    case True
    then show ?thesis using 2 weaken by (auto split: if_splits)
  next
    case False
    then obtain d where d: "hex_value c = Some d" "n < (16 * acc + d + 1) * 16 ^ length cs"
      using 2 by (auto split: option.splits)
    have "d < 16" using d(1) by (auto simp: hex_value_def Let_def split: if_splits)
    then have "(16 * acc + d + 1) * 16 ^ length cs \<le> (16 * (acc + 1)) * 16 ^ length cs"
      by (intro mult_right_mono) auto
    also have "\<dots> = (acc + 1) * 16 ^ length (c # cs)" by (simp add: algebra_simps)
    finally show ?thesis using d(2) by (rule less_le_trans [rotated])
  qed
qed (auto split: if_splits)

lemma remove_sub_id: "pat \<noteq> [] \<Longrightarrow> hd pat \<notin> set s \<Longrightarrow> remove_sub pat s = s"
  by (induction s) (auto simp: remove_sub.simps [of pat] neq_Nil_conv)

lemma remove_sub_char: "remove_sub [c] s = filter (\<lambda>x. x \<noteq> c) s"
  by (induction s) (auto simp: remove_sub.simps [of "[c]"])

lemma dropWhile_none: "(\<And>c. c \<in> set s \<Longrightarrow> \<not> P c) \<Longrightarrow> dropWhile P s = s"
  by (cases s) auto

lemma strip_chars_id: "set s \<inter> set cs = {} \<Longrightarrow> strip_chars cs s = s"
proof -
  assume "set s \<inter> set cs = {}"
  then have "dropWhile (\<lambda>c. c \<in> set cs) s = s" "dropWhile (\<lambda>c. c \<in> set cs) (rev s) = rev s"
    by (auto intro!: dropWhile_none)
  then show ?thesis by (simp add: strip_chars_def)
qed

lemma py_int16_bound: "py_int16 s = Some n \<Longrightarrow> n < 16 ^ length s"
proof -
  have strip: "length (py_strip s) \<le> length s"
    unfolding py_strip_def length_rev
    by (rule le_trans [OF length_dropWhile_le]) (simp add: length_dropWhile_le)
  have step: "hex_digits False 0 t = Some n \<Longrightarrow> length t \<le> length s \<Longrightarrow> n < 16 ^ length s" for t
    by (drule hex_digits_bound) (simp add: less_le_trans power_increasing)
  show "py_int16 s = Some n \<Longrightarrow> n < 16 ^ length s"
  proof (cases "py_strip s")
    case Nil
    then show "py_int16 s = Some n \<Longrightarrow> n < 16 ^ length s" by (simp add: py_int16_def)
  next
    case (Cons c cs)
    define t where "t = (if c = CHR ''+'' then cs else c # cs)"
    have t: "length t \<le> length s" using strip Cons by (simp add: t_def)
    show "py_int16 s = Some n \<Longrightarrow> n < 16 ^ length s"
      using t step [of t] step [of "tl (tl t)"] step [of "tl (tl (tl t))"]
      by (simp add: py_int16_def Cons flip: t_def del: hex_digits.simps split: list.splits if_splits)
  qed
qed

definition uuid_range :: nat where
  "uuid_range = 16 ^ 32"

lemma py_uuid_bound:
  assumes "py_uuid s = Some n"
  shows "n < uuid_range"
proof -
  obtain h where "length h = 32" "py_int16 h = Some n"
    using assms unfolding py_uuid_def Let_def by (auto split: if_splits)
  then show ?thesis using py_int16_bound [of h n] by (simp only: uuid_range_def)
qed

lemma py_int16_hex:
  assumes "h \<noteq> []" "\<forall>c \<in> set h. hexadecimal c"
  shows "py_int16 h = hex_digits False 0 h"
proof -
  have "\<not> py_isspace c" if "c \<in> set h" for c
    using that assms(2) hexadecimal_others(9) by simp
  then have "py_strip h = h"
    using dropWhile_none [of h py_isspace] dropWhile_none [of "rev h" py_isspace]
    by (simp add: py_strip_def)
  moreover obtain c cs where h: "h = c # cs" using assms(1) by (cases h) auto
  moreover have "c \<noteq> CHR ''+''" using assms(2) h hexadecimal_others by simp
  moreover have "x \<noteq> CHR ''x'' \<and> x \<noteq> CHR ''X''" if "cs = x # xs" for x xs
    using assms(2) h that hexadecimal_others by simp
  ultimately show ?thesis by (auto simp: py_int16_def Let_def split: list.splits)
qed

lemma take_drop_step: "take i (drop j h) @ drop (j + i) h = drop j h"
  using append_take_drop_id [of i "drop j h"] by (simp add: add.commute)

lemma take_drop_groups:
  "take 8 h @ take 4 (drop 8 h) @ take 4 (drop 12 h) @ take 4 (drop 16 h) @ drop 20 h = h"
proof -
  have sums: "(20::nat) = 16 + 4" "(16::nat) = 12 + 4" "(12::nat) = 8 + 4" by simp_all
  have "take 4 (drop 16 h) @ drop 20 h = drop 16 h" unfolding sums(1) by (rule take_drop_step)
  moreover have "take 4 (drop 12 h) @ drop 16 h = drop 12 h" unfolding sums(2) by (rule take_drop_step)
  moreover have "take 4 (drop 8 h) @ drop 12 h = drop 8 h" unfolding sums(3) by (rule take_drop_step)
  ultimately show ?thesis by (metis append_take_drop_id)
qed

lemma py_uuid_text:
  assumes "n < uuid_range"
  shows "py_uuid (uuid_text n) = Some n"
proof -
  define h where "h = hex_text 32 n"
  have h: "\<forall>c \<in> set h. hexadecimal c" "length h = 32"
    unfolding h_def using set_hex_text length_hex_text by blast+
  have sub: "\<forall>c \<in> set (take i (drop j h)). hexadecimal c" "\<forall>c \<in> set (drop j h). hexadecimal c"
    "\<forall>c \<in> set (take i h). hexadecimal c" for i j
    using h(1) by (meson in_set_takeD in_set_dropD)+
  have grouped: "uuid_text n = take 8 h @ ''-'' @ take 4 (drop 8 h) @ ''-'' @ take 4 (drop 12 h) @ ''-'' @
      take 4 (drop 16 h) @ ''-'' @ drop 20 h"
    by (simp only: uuid_text_def h_def Let_def)
  have chars: "\<forall>c \<in> set (uuid_text n). hexadecimal c \<or> c = CHR ''-''"
    unfolding grouped set_append ball_Un using sub by simp
  have keep: "filter (\<lambda>x. x \<noteq> CHR ''-'') xs = xs" if "\<forall>c \<in> set xs. hexadecimal c" for xs
    using that hexadecimal_others(1) by (auto intro!: filter_True)
  have "remove_sub ''-'' (uuid_text n) = h"
    unfolding remove_sub_char grouped using take_drop_groups [of h]
    by (simp only: filter_append filter.simps keep [OF sub(1)] keep [OF sub(2)] keep [OF sub(3)]) simp
  moreover have other: "c \<notin> set (uuid_text n)" if "\<not> hexadecimal c" "c \<noteq> CHR ''-''" for c
    using chars that by blast
  have "CHR ''u'' \<notin> set (uuid_text n)" "CHR ''{'' \<notin> set (uuid_text n)" "CHR ''}'' \<notin> set (uuid_text n)"
    by (rule other; use hexadecimal_others in \<open>blast | simp\<close>)+
  then have "strip_chars ''{}'' (remove_sub ''uuid:'' (remove_sub ''urn:'' (uuid_text n))) = uuid_text n"
    by (simp add: remove_sub_id strip_chars_id)
  ultimately have "py_uuid (uuid_text n) = py_int16 h"
    using h(2) by (simp add: py_uuid_def)
  also have "\<dots> = hex_digits False 0 (hex_text 32 n @ [])"
    using py_int16_hex [of h] h by (cases "h = []") (simp_all flip: h_def)
  also have "\<dots> = hex_digits True (n mod uuid_range) []"
    unfolding hex_digits_text uuid_range_def by simp
  also have "\<dots> = Some n"
    using assms by simp
  finally show ?thesis .
qed

lemma uuid_text_inj: "m < uuid_range \<Longrightarrow> n < uuid_range \<Longrightarrow> uuid_text m = uuid_text n \<Longrightarrow> m = n"
  by (metis option.inject py_uuid_text)

lemma auth_uuid_Inr:
  assumes "auth_uuid v label = Inr t"
  obtains n where "py_uuid v = Some n" "t = uuid_text n" "py_uuid t = Some n"
  using assms that py_uuid_text [OF py_uuid_bound] by (auto simp: auth_uuid_def result_simps)

section \<open>What the service has seen\<close>

lemma then_auth_simps [simp]:
  "then_auth (st, Inl e) f = (st, Inl e)"
  "then_auth (st, Inr x) f = f st x"
  by (simp_all add: then_auth_def)

text \<open>The provider published a key in an answer to the request for the tenant's keys.\<close>

definition published :: "auth_service \<Rightarrow> (string \<times> json result) list \<Rightarrow> json_dict \<Rightarrow> bool" where
  "published sv trace key \<longleftrightarrow>
     (\<exists>document ks. (expected_jwks_url sv, Inr (JDict document)) \<in> set trace \<and>
        json_get document ''keys'' = JList ks \<and> JDict key \<in> set ks)"

lemma published_mono: "published sv trace key \<Longrightarrow> published sv (trace @ l) key"
  by (auto simp: published_def)

definition signs :: "string \<times> json_dict \<Rightarrow> bool" where
  "signs entry \<longleftrightarrow>
     json_get (snd entry) ''kid'' = JString (fst entry) \<and> json_get (snd entry) ''kty'' = JString ''RSA'' \<and>
     json_get (snd entry) ''use'' \<in> {JNull, JString ''sig''} \<and>
     json_get (snd entry) ''alg'' \<in> {JNull, JString ''RS256''}"

definition keys_ok :: "auth_service \<Rightarrow> (string \<times> json result) list \<Rightarrow> (string \<times> json_dict) list \<Rightarrow> bool" where
  "keys_ok sv trace parsed \<longleftrightarrow>
     length parsed \<le> 16 \<and> distinct (map fst parsed) \<and>
     (\<forall>entry \<in> set parsed. signs entry \<and> published sv trace (snd entry))"

lemma keys_ok_mono: "keys_ok sv trace parsed \<Longrightarrow> keys_ok sv (trace @ l) parsed"
  by (auto simp: keys_ok_def published_mono)

lemma as_dict_Inr [result_simps]: "as_dict e v = Inr d \<longleftrightarrow> v = JDict d"
  by (cases v) auto

lemma as_list_Inr [result_simps]: "as_list e v = Inr xs \<longleftrightarrow> v = JList xs"
  by (cases v) auto

lemma usable_key_Inr:
  "usable_key parsed key = Inr entry \<Longrightarrow>
     snd entry = key \<and> signs entry \<and> fst entry \<notin> set (map fst parsed)"
  by (auto simp: usable_key_def signs_def image_iff split: json.splits if_splits)

lemma parse_keys_Inr:
  "parse_keys seen vs = Inr parsed \<Longrightarrow> distinct (map fst seen) \<Longrightarrow>
     \<exists>new. parsed = seen @ new \<and> map (\<lambda>e. JDict (snd e)) new = vs \<and> distinct (map fst parsed) \<and>
       (\<forall>entry \<in> set new. signs entry)"
proof (induction vs arbitrary: seen)
  case (Cons v vs)
  from Cons.prems(1) obtain key entry where v: "v = JDict key"
    and entry: "usable_key seen key = Inr entry" and rest: "parse_keys (seen @ [entry]) vs = Inr parsed"
    by (auto simp: result_simps)
  note e = usable_key_Inr [OF entry]
  then have "distinct (map fst (seen @ [entry]))" using Cons.prems(2) by simp
  from Cons.IH [OF rest this] e v show ?case by auto
qed simp

text \<open>A step only adds to the log: the addresses it requests, and what the answers give.\<close>

lemma auth_fetch_state: "fst (auth_fetch web url st) = st\<lparr>ast_log := ast_log st @ [(url, web (ast_log st) url)]\<rparr>"
  by (simp add: auth_fetch_def Let_def)

lemma auth_fetch_Inr: "snd (auth_fetch web url st) = Inr d \<Longrightarrow> web (ast_log st) url = Inr (JDict d)"
proof (cases "web (ast_log st) url")
  case (Inl e)
  then show "snd (auth_fetch web url st) = Inr d \<Longrightarrow> web (ast_log st) url = Inr (JDict d)"
    by (cases e) (simp_all add: auth_fetch_def)
qed (simp add: auth_fetch_def result_simps)

definition steps_to :: "auth_service \<Rightarrow> string list \<Rightarrow> auth_state \<Rightarrow> auth_state \<Rightarrow> bool" where
  "steps_to sv urls st st' \<longleftrightarrow>
     (\<exists>l. ast_log st' = ast_log st @ l \<and> map fst l = urls) \<and> ast_actors st' = ast_actors st \<and>
     (keys_ok sv (ast_log st) (ast_keys st) \<longrightarrow> keys_ok sv (ast_log st') (ast_keys st'))"

lemma steps_to_refl [simp]: "steps_to sv [] st st"
  by (simp add: steps_to_def)

lemma steps_to_trans: "steps_to sv us a b \<Longrightarrow> steps_to sv vs b c \<Longrightarrow> steps_to sv (us @ vs) a c"
  by (fastforce simp: steps_to_def)

lemma auth_fetch_steps:
  obtains st' r where "auth_fetch web url st = (st', r)" "steps_to sv [url] st st'"
    "ast_keys st' = ast_keys st" "ast_cache_expires_at st' = ast_cache_expires_at st"
    "\<And>d. r = Inr d \<Longrightarrow> (url, Inr (JDict d)) \<in> set (ast_log st')"
proof -
  obtain st' r where run: "auth_fetch web url st = (st', r)" by fastforce
  then have st': "st' = st\<lparr>ast_log := ast_log st @ [(url, web (ast_log st) url)]\<rparr>"
    using auth_fetch_state [of web url st] by simp
  show thesis
    by (rule that [OF run])
      (use st' run auth_fetch_Inr [of web url st] in \<open>auto simp: steps_to_def keys_ok_mono\<close>)
qed

text \<open>The addresses one refresh requests: it stops at the first answer it cannot use.\<close>

definition refresh_urls :: "auth_service \<Rightarrow> bool \<Rightarrow> string list" where
  "refresh_urls sv metadata = (if metadata then [metadata_url sv] else []) @ [expected_jwks_url sv]"

lemma document_keys_Inr:
  assumes "document_keys d = Inr parsed" and "(expected_jwks_url sv, Inr (JDict d)) \<in> set trace"
  shows "keys_ok sv trace parsed"
proof -
  obtain raw where raw: "json_get d ''keys'' = JList raw" "length raw \<le> 16" "parse_keys [] raw = Inr parsed"
    using assms(1) by (auto simp: document_keys_def result_simps Let_def)
  have p: "map (\<lambda>e. JDict (snd e)) parsed = raw" "distinct (map fst parsed)"
    "\<forall>entry \<in> set parsed. signs entry"
    using parse_keys_Inr [OF raw(3)] by auto
  moreover have "length parsed = length raw" using p(1) by auto
  moreover have "JDict (snd entry) \<in> set raw" if "entry \<in> set parsed" for entry
    using that p(1) by auto
  ultimately show ?thesis
    using raw assms(2) by (auto simp: keys_ok_def published_def)
qed

lemma fetch_keys_steps:
  obtains st' r where
    "then_auth (auth_fetch web (expected_jwks_url sv) st) (\<lambda>st document.
       then_auth (st, document_keys document) (\<lambda>st parsed.
       (st\<lparr>ast_keys := parsed, ast_cache_expires_at := now + of_int (asv_cache_ttl sv)\<rparr>, Inr ()))) =
     (st', r)" "steps_to sv [expected_jwks_url sv] st st'"
proof -
  obtain st1 r1 where f: "auth_fetch web (expected_jwks_url sv) st = (st1, r1)"
    "steps_to sv [expected_jwks_url sv] st st1" "ast_keys st1 = ast_keys st"
    "\<And>d. r1 = Inr d \<Longrightarrow> (expected_jwks_url sv, Inr (JDict d)) \<in> set (ast_log st1)"
    by (rule auth_fetch_steps [where web = web and url = "expected_jwks_url sv" and st = st and sv = sv])
      blast
  show thesis
  proof (cases "r1")
    case (Inl e)
    then show thesis using that f by simp
  next
    case d: (Inr d)
    show thesis
    proof (cases "document_keys d")
      case (Inl e)
      then show thesis using that f(1,2) d by simp
    next
      case (Inr parsed)
      have "keys_ok sv (ast_log st1) parsed"
        by (rule document_keys_Inr [OF Inr f(4) [OF d]])
      then have "steps_to sv [expected_jwks_url sv] st
          (st1\<lparr>ast_keys := parsed, ast_cache_expires_at := now + of_int (asv_cache_ttl sv)\<rparr>)"
        using f(2) by (simp add: steps_to_def)
      then show thesis using that f(1) d Inr by simp
    qed
  qed
qed

lemma refresh_keys_steps:
  obtains st' r urls where "refresh_keys sv web now metadata st = (st', r)" "steps_to sv urls st st'"
    "prefix urls (refresh_urls sv metadata)" "r = Inr () \<Longrightarrow> urls = refresh_urls sv metadata"
proof (cases metadata)
  case False
  obtain st' r where "refresh_keys sv web now metadata st = (st', r)"
    "steps_to sv [expected_jwks_url sv] st st'"
    by (rule fetch_keys_steps [where web = web and sv = sv and st = st and now = now]) (use False in \<open>simp add: refresh_keys_def\<close>)
  then show thesis using that False by (simp add: refresh_urls_def)
next
  case True
  obtain st1 r1 where f: "auth_fetch web (metadata_url sv) st = (st1, r1)"
    "steps_to sv [metadata_url sv] st st1"
    by (rule auth_fetch_steps [where web = web and url = "metadata_url sv" and st = st and sv = sv]) blast
  show thesis
  proof (cases "\<exists>d. r1 = Inr d \<and> json_get d ''issuer'' = JString (auth_issuer sv) \<and>
      json_get d ''jwks_uri'' = JString (expected_jwks_url sv)")
    case False
    then have "\<exists>e. refresh_keys sv web now metadata st = (st1, Inl e)"
      using f(1) True by (cases r1) (auto simp: refresh_keys_def require_def)
    then show thesis using that f(2) True by (auto simp: refresh_urls_def)
  next
    case ok: True
    obtain st' r where s: "refresh_keys sv web now metadata st = (st', r)"
      "steps_to sv [expected_jwks_url sv] st1 st'"
      by (rule fetch_keys_steps [where web = web and sv = sv and st = st1 and now = now])
        (use ok f(1) True in \<open>auto simp: refresh_keys_def require_def\<close>)
    show thesis
      by (rule that [OF s(1) steps_to_trans [OF f(2) s(2)]]) (simp_all add: refresh_urls_def True)
  qed
qed

text \<open>
  The addresses looking up a key may request, in this order and possibly not all of them: with a
  cache that is still good only the keys, and these only for an id that is not in it.
\<close>

definition lookup_urls :: "auth_service \<Rightarrow> rat \<Rightarrow> string \<Rightarrow> auth_state \<Rightarrow> string list" where
  "lookup_urls sv now key_id st =
     (if ast_cache_expires_at st \<le> now
      then [metadata_url sv, expected_jwks_url sv, expected_jwks_url sv]
      else if map_of (ast_keys st) key_id = None then [expected_jwks_url sv] else [])"

lemma find_key_steps:
  obtains st' r urls where
    "(case map_of (ast_keys st) key_id of
        Some key \<Rightarrow> (st, Inr key)
      | None \<Rightarrow>
          then_auth (refresh_keys sv web now False st) (\<lambda>st _.
          (st, the_or (AuthenticationError ''bearer token signing key was not found'')
                 (map_of (ast_keys st) key_id)))) = (st', r)"
    "steps_to sv urls st st'"
    "prefix urls (if map_of (ast_keys st) key_id = None then [expected_jwks_url sv] else [])"
    "\<And>key. r = Inr key \<Longrightarrow> map_of (ast_keys st') key_id = Some key"
proof (cases "map_of (ast_keys st) key_id")
  case (Some key)
  then show thesis using that [of st "Inr key" "[]"] by simp
next
  case None
  obtain st1 r1 urls where s: "refresh_keys sv web now False st = (st1, r1)" "steps_to sv urls st st1"
    "prefix urls [expected_jwks_url sv]"
    by (rule refresh_keys_steps [where sv = sv and web = web and now = now and metadata = False and st = st]) (auto simp: refresh_urls_def)
  show thesis
    by (rule that [of st1 "case r1 of Inl e \<Rightarrow> Inl e | Inr _ \<Rightarrow>
        the_or (AuthenticationError ''bearer token signing key was not found'') (map_of (ast_keys st1) key_id)"
        urls])
      (use None s in \<open>auto simp: result_simps split: sum.splits\<close>)
qed

lemma signing_key_steps:
  obtains st' r urls where "signing_key sv web now key_id st = (st', r)" "steps_to sv urls st st'"
    "prefix urls (lookup_urls sv (now 0) key_id st)"
    "\<And>key. r = Inr key \<Longrightarrow> map_of (ast_keys st') key_id = Some key"
proof (cases "ast_cache_expires_at st \<le> now 0")
  case False
  show thesis
    by (rule find_key_steps [where st = st and key_id = key_id and sv = sv and web = web and now = "now 2"], rule that)
      (use False in \<open>auto simp: signing_key_def lookup_urls_def\<close>)
next
  case True
  obtain st1 r1 us where s: "refresh_keys sv web (now 1) True st = (st1, r1)" "steps_to sv us st st1"
    "prefix us [metadata_url sv, expected_jwks_url sv]"
    "r1 = Inr () \<Longrightarrow> us = [metadata_url sv, expected_jwks_url sv]"
    by (rule refresh_keys_steps [where sv = sv and web = web and now = "now 1" and metadata = True and st = st]) (auto simp: refresh_urls_def)
  show thesis
  proof (cases r1)
    case (Inl e)
    show thesis
      by (rule that [of st1 "Inl e" us])
        (use True s Inl in \<open>auto simp: signing_key_def lookup_urls_def prefix_Cons\<close>)
  next
    case (Inr u)
    then have us: "us = [metadata_url sv, expected_jwks_url sv]" using s(4) by simp
    obtain st2 r2 vs where f: "(case map_of (ast_keys st1) key_id of
        Some key \<Rightarrow> (st1, Inr key)
      | None \<Rightarrow>
          then_auth (refresh_keys sv web (now 2) False st1) (\<lambda>st _.
          (st, the_or (AuthenticationError ''bearer token signing key was not found'')
                 (map_of (ast_keys st) key_id)))) = (st2, r2)"
      "steps_to sv vs st1 st2"
      "prefix vs (if map_of (ast_keys st1) key_id = None then [expected_jwks_url sv] else [])"
      "\<And>key. r2 = Inr key \<Longrightarrow> map_of (ast_keys st2) key_id = Some key"
      by (rule find_key_steps [where st = st1 and key_id = key_id and sv = sv and web = web and now = "now 2"])
        blast
    have "signing_key sv web now key_id st = (st2, r2)"
      using True s(1) Inr f(1) by (simp add: signing_key_def)
    moreover have "prefix (us @ vs) (lookup_urls sv (now 0) key_id st)"
      using True f(3) us by (auto simp: lookup_urls_def split: if_splits)
    ultimately show thesis using that steps_to_trans [OF s(2) f(2)] f(4) by blast
  qed
qed

section \<open>Actors\<close>

text \<open>
  What an actor carries is the configured persona of the user a published key verified the token
  of.
\<close>

definition vouched ::
    "auth_service \<Rightarrow> jwt_library \<Rightarrow> (string \<times> json result) list \<Rightarrow> actor_content \<Rightarrow> bool" where
  "vouched sv jwt trace c \<longleftrightarrow>
     (\<exists>key claims oid n binding.
        published sv trace key \<and>
        jwt_decode jwt (uas_token (acc_assertion c)) key (asv_audience sv) (auth_issuer sv) =
          Jwt_value claims \<and>
        json_get claims ''aud'' = JString (asv_audience sv) \<and>
        json_get claims ''tid'' = JString (asv_tenant_id sv) \<and>
        json_get claims ''oid'' = JString oid \<and> py_uuid oid = Some n \<and>
        json_get claims ''scp'' = JString ''access_as_user'' \<and>
        binding \<in> set (asv_bindings sv) \<and> pb_object_id binding = uuid_text n \<and>
        acc_tenant_id c = asv_tenant_id sv \<and> acc_object_id c = uuid_text n \<and>
        acc_persona_id c = pb_persona_id binding \<and> acc_source_id c = pb_source_id binding \<and>
        set (acc_effective_roles c) = set (pb_allowed_roles binding))"

lemma vouched_mono: "vouched sv jwt trace c \<Longrightarrow> vouched sv jwt (trace @ l) c"
  unfolding vouched_def using published_mono by blast

lemma authorize_claims_vouched:
  assumes "authorize_claims sv now claims token fresh = Inr a"
    and "jwt_decode jwt token key (asv_audience sv) (auth_issuer sv) = Jwt_value claims"
    and "json_get claims ''aud'' = JString (asv_audience sv)" and "published sv trace key"
  shows "vouched sv jwt trace (aac_content a)" and "aac_ref a = fresh"
proof -
  obtain oid n binding roles where
    c: "json_get claims ''tid'' = JString (asv_tenant_id sv)" "json_get claims ''oid'' = JString oid"
      "py_uuid oid = Some n" "binding_for sv (asv_tenant_id sv) (uuid_text n) = Some binding"
      "set roles = set (pb_allowed_roles binding)" "json_get claims ''scp'' = JString ''access_as_user''"
    and a: "aac_ref a = fresh"
      "aac_content a = \<lparr>acc_tenant_id = asv_tenant_id sv, acc_object_id = uuid_text n,
             acc_persona_id = pb_persona_id binding, acc_effective_roles = sort roles,
             acc_source_id = pb_source_id binding, acc_delegated_scopes = [''access_as_user''],
             acc_assertion = \<lparr>uas_token = token,
               uas_capability = asv_capability sv, uas_ref = fresh\<rparr>\<rparr>"
    using assms(1) unfolding authorize_claims_def
    by (auto simp: result_simps Let_def split: json.splits option.splits if_splits)
  have "binding \<in> set (asv_bindings sv) \<and> pb_object_id binding = uuid_text n"
    using c(4) by (auto simp: binding_for_def find_Some_iff)
  then show "vouched sv jwt trace (aac_content a)"
    unfolding vouched_def using assms(2-4) c a(2) by fastforce
  show "aac_ref a = fresh" by (fact a(1))
qed

definition auth_ok :: "auth_service \<Rightarrow> jwt_library \<Rightarrow> auth_state \<Rightarrow> bool" where
  "auth_ok sv jwt st \<longleftrightarrow>
     keys_ok sv (ast_log st) (ast_keys st) \<and>
     (\<forall>(ref, c) \<in> set (ast_actors st). vouched sv jwt (ast_log st) c)"

lemma auth_ok_steps: "steps_to sv urls st st' \<Longrightarrow> auth_ok sv jwt st \<Longrightarrow> auth_ok sv jwt st'"
  unfolding auth_ok_def steps_to_def by (auto intro!: vouched_mono)

text \<open>One call: the requests it makes, and what it leaves.\<close>

lemma authenticate_steps:
  assumes "authenticate sv jwt web now token st = (st', r)"
  shows "(\<exists>e. token_key_id jwt token = Inl e \<and> st' = st \<and> r = Inl e) \<or>
     (\<exists>key_id st1 urls. token_key_id jwt token = Inr key_id \<and> steps_to sv urls st st1 \<and>
        prefix urls (lookup_urls sv (now 0) key_id st) \<and>
        (st' = st1 \<and> (\<exists>e. r = Inl e) \<or>
         (\<exists>key claims a. map_of (ast_keys st1) key_id = Some key \<and>
            jwt_decode jwt token key (asv_audience sv) (auth_issuer sv) = Jwt_value claims \<and>
            json_get claims ''aud'' = JString (asv_audience sv) \<and>
            authorize_claims sv (now 3) claims token (length (ast_actors st1)) = Inr a \<and>
            st' = st1\<lparr>ast_actors := ast_actors st1 @ [(aac_ref a, aac_content a)]\<rparr> \<and> r = Inr a)))"
proof (cases "token_key_id jwt token")
  case (Inl e)
  then show ?thesis using assms by (simp add: authenticate_def)
next
  case key_id: (Inr key_id)
  obtain st1 r1 urls where s: "signing_key sv web now key_id st = (st1, r1)" "steps_to sv urls st st1"
    "prefix urls (lookup_urls sv (now 0) key_id st)"
    "\<And>key. r1 = Inr key \<Longrightarrow> map_of (ast_keys st1) key_id = Some key"
    by (rule signing_key_steps [where sv = sv and web = web and now = now and key_id = key_id and st = st]) blast
  show ?thesis
  proof (cases r1)
    case (Inl e)
    then show ?thesis using assms key_id s by (auto simp: authenticate_def)
  next
    case key: (Inr key)
    define made where "made = bindR (jwt_result ''bearer token validation failed''
        (jwt_decode jwt token key (asv_audience sv) (auth_issuer sv))) (\<lambda>claims.
      bindR (require (json_get claims ''aud'' = JString (asv_audience sv))
        (AuthenticationError ''bearer token audience is invalid'')) (\<lambda>_.
      authorize_claims sv (now 3) claims token (length (ast_actors st1))))"
    have run: "then_auth (st1, made) (\<lambda>st actor.
        (st\<lparr>ast_actors := ast_actors st @ [(aac_ref actor, aac_content actor)]\<rparr>, Inr actor)) = (st', r)"
      using assms key_id s(1) key by (simp add: authenticate_def made_def)
    show ?thesis
    proof (cases made)
      case (Inl e)
      then show ?thesis using run key_id s by auto
    next
      case (Inr a)
      then have "st' = st1\<lparr>ast_actors := ast_actors st1 @ [(aac_ref a, aac_content a)]\<rparr>" "r = Inr a"
        using run by auto
      moreover obtain claims where
        "jwt_decode jwt token key (asv_audience sv) (auth_issuer sv) = Jwt_value claims"
        "json_get claims ''aud'' = JString (asv_audience sv)"
        "authorize_claims sv (now 3) claims token (length (ast_actors st1)) = Inr a"
        using Inr unfolding made_def
        by (cases "jwt_decode jwt token key (asv_audience sv) (auth_issuer sv)") (auto simp: result_simps)
      moreover have "map_of (ast_keys st1) key_id = Some key" using s(4) key by simp
      ultimately show ?thesis using key_id s(2,3)
        by (intro disjI2 exI [of _ key_id] exI [of _ st1] exI [of _ urls] exI [of _ key] exI [of _ claims]
            exI [of _ a] conjI)
    qed
  qed
qed

lemma authenticate_ok:
  assumes "auth_ok sv jwt st"
  shows "auth_ok sv jwt (fst (authenticate sv jwt web now token st))"
proof -
  obtain st' r where run: "authenticate sv jwt web now token st = (st', r)" by fastforce
  have "auth_ok sv jwt st'"
    using authenticate_steps [OF run]
  proof (elim disjE exE conjE)
    fix key_id st1 urls key claims a
    assume s: "steps_to sv urls st st1" "map_of (ast_keys st1) key_id = Some key"
      and c: "jwt_decode jwt token key (asv_audience sv) (auth_issuer sv) = Jwt_value claims"
        "json_get claims ''aud'' = JString (asv_audience sv)"
        "authorize_claims sv (now 3) claims token (length (ast_actors st1)) = Inr a"
      and st': "st' = st1\<lparr>ast_actors := ast_actors st1 @ [(aac_ref a, aac_content a)]\<rparr>"
    have ok: "auth_ok sv jwt st1" by (rule auth_ok_steps [OF s(1) assms])
    then have "published sv (ast_log st1) key"
      using map_of_SomeD [OF s(2)] by (fastforce simp: auth_ok_def keys_ok_def)
    from authorize_claims_vouched(1) [OF c(3,1,2) this] show ?thesis
      using ok st' by (auto simp: auth_ok_def)
  qed (use assms auth_ok_steps in \<open>auto\<close>)
  then show ?thesis by (simp add: run)
qed

lemma auth_reachable_ok: "auth_reachable sv jwt st \<Longrightarrow> auth_ok sv jwt st"
proof (induction rule: auth_reachable.induct)
  case auth_start
  show ?case by (simp add: auth_ok_def initial_auth_state_def keys_ok_def)
next
  case (auth_token st web now token)
  show ?case by (rule authenticate_ok) (rule auth_token.IH)
qed

lemma validated_user_assertion_Inr:
  assumes "auth_reachable sv jwt st" and "validated_user_assertion sv st (Some a) = Inr assertion"
  shows "assertion = acc_assertion (aac_content a)" and "vouched sv jwt (ast_log st) (aac_content a)"
proof -
  have "assertion = acc_assertion (aac_content a) \<and>
      map_of (ast_actors st) (aac_ref a) = Some (aac_content a)"
    using assms(2) by (auto simp: validated_user_assertion_def Let_def split: if_splits)
  then show "assertion = acc_assertion (aac_content a)" "vouched sv jwt (ast_log st) (aac_content a)"
    using auth_reachable_ok [OF assms(1)] map_of_SomeD by (fastforce simp: auth_ok_def)+
qed

section \<open>Who can act\<close>

lemma binding_alex_Inr:
  assumes "binding_alex tenant_id object_id = Inr b"
  obtains t a where "py_uuid tenant_id = Some t" "py_uuid object_id = Some a" "t < uuid_range" "a < uuid_range"
    and "b = \<lparr>pb_tenant_id = uuid_text t, pb_object_id = uuid_text a, pb_persona_id = ''RL-PERSONA-ALEX'',
           pb_allowed_roles = [''material_planner'', ''response_approver''],
           pb_source_id = ''RL-ENTRA-ALEX''\<rparr>"
  using assms that py_uuid_bound
  by (auto simp: binding_alex_def mk_persona_binding_def auth_uuid_def result_simps py_strip_def
      py_isspace_def)

lemma binding_taylor_Inr:
  assumes "binding_taylor tenant_id object_id = Inr b"
  obtains t a where "py_uuid tenant_id = Some t" "py_uuid object_id = Some a" "t < uuid_range" "a < uuid_range"
    and "b = \<lparr>pb_tenant_id = uuid_text t, pb_object_id = uuid_text a, pb_persona_id = ''RL-PERSONA-TAYLOR'',
           pb_allowed_roles = [''finance_approver''], pb_source_id = ''RL-ENTRA-TAYLOR''\<rparr>"
  using assms that py_uuid_bound
  by (auto simp: binding_taylor_def mk_persona_binding_def auth_uuid_def result_simps py_strip_def
      py_isspace_def)

lemma add_bindings_Inr: "add_bindings tenant seen bs = Inr bound \<Longrightarrow> bound = seen @ bs"
proof (induction bs arbitrary: seen)
  case (Cons b bs)
  then have "add_bindings tenant (seen @ [b]) bs = Inr bound" by (auto simp: result_simps)
  from Cons.IH [OF this] show ?case by simp
qed simp

lemma mk_auth_service_Inr:
  assumes "mk_auth_service tenant_id audience bindings ttl capability = Inr sv"
  shows "asv_bindings sv = bindings" and "\<exists>t. py_uuid tenant_id = Some t \<and> asv_tenant_id sv = uuid_text t"
  using assms by (auto simp: mk_auth_service_def auth_uuid_def result_simps dest!: add_bindings_Inr)

lemma bound_actor_iff:
  assumes c: "acc_tenant_id (aac_content a) = uuid_text t" "acc_object_id (aac_content a) = uuid_text n"
    and range: "t < uuid_range" "n < uuid_range"
  shows "require_bound_actor p taylor (to_identity_snapshot a) =
    require (t = bfa_tenant_id p \<and>
        n = (if taylor then bfa_taylor_object_id p else bfa_alex_object_id p) \<and>
        acc_persona_id (aac_content a) = ''RL-PERSONA-'' @ (if taylor then ''TAYLOR'' else ''ALEX'') \<and>
        acc_source_id (aac_content a) = ''RL-ENTRA-'' @ (if taylor then ''TAYLOR'' else ''ALEX'') \<and>
        set (acc_effective_roles (aac_content a)) =
          (if taylor then {''finance_approver''} else {''material_planner'', ''response_approver''}))
      FinancePermissionDenied"
proof -
  have roles: "[''finance_approver''] = sorted_set [''finance_approver'']"
    "[''material_planner'', ''response_approver''] =
      sorted_set [''material_planner'', ''response_approver'']"
    by code_simp+
  have "(sorted_set xs = [''finance_approver'']) = (set xs = {''finance_approver''})"
    "(sorted_set xs = [''material_planner'', ''response_approver'']) =
      (set xs = {''material_planner'', ''response_approver''})" for xs
    by (subst roles, simp only: sorted_set_eq_iff list.set)+
  then show ?thesis
    using c py_uuid_text range
    by (simp add: require_bound_actor_def to_identity_snapshot_def canonicalize_roles_def py_uuid_opt_def
        Let_def)
qed

text \<open>
  C14.  Only the two configured people act.  Whatever tokens a service with the bindings of Alex and
  Taylor was given, and whatever the identity provider answered: an actor it vouches for was made
  from a token that a key verified which the provider had published at the address of the tenant,
  and the user of that token is either Alex, and then the actor passes the Finance workflow's check
  for Alex and fails the one for Taylor, or Taylor, and then it is the other way round.
\<close>

theorem authenticated_actors_are_bound_people:
  assumes "binding_alex tenant_id alex_id = Inr alex" and "binding_taylor tenant_id taylor_id = Inr taylor"
    and "mk_auth_service tenant_id audience [alex, taylor] ttl capability = Inr sv"
    and "py_uuid tenant_id = Some (bfa_tenant_id p)" and "py_uuid alex_id = Some (bfa_alex_object_id p)"
    and "py_uuid taylor_id = Some (bfa_taylor_object_id p)"
    and "auth_reachable sv jwt st" and "validated_user_assertion sv st (Some actor) = Inr assertion"
  shows "\<exists>key claims oid n.
    published sv (ast_log st) key \<and>
    jwt_decode jwt (uas_token assertion) key (asv_audience sv) (auth_issuer sv) = Jwt_value claims \<and>
    json_get claims ''oid'' = JString oid \<and> py_uuid oid = Some n \<and>
    (n = bfa_alex_object_id p \<and> require_alex p (to_identity_snapshot actor) = Inr () \<and>
       require_taylor p (to_identity_snapshot actor) = Inl FinancePermissionDenied \<or>
     n = bfa_taylor_object_id p \<and> require_taylor p (to_identity_snapshot actor) = Inr () \<and>
       require_alex p (to_identity_snapshot actor) = Inl FinancePermissionDenied)"
proof -
  let ?c = "aac_content actor"
  note v = validated_user_assertion_Inr [OF assms(7,8)]
  obtain key claims oid n b where
    k: "published sv (ast_log st) key"
      "jwt_decode jwt (uas_token (acc_assertion ?c)) key (asv_audience sv) (auth_issuer sv) =
        Jwt_value claims" "json_get claims ''oid'' = JString oid" "py_uuid oid = Some n"
    and b: "b \<in> set (asv_bindings sv)" "pb_object_id b = uuid_text n" "acc_object_id ?c = uuid_text n"
      "acc_tenant_id ?c = asv_tenant_id sv" "acc_persona_id ?c = pb_persona_id b"
      "acc_source_id ?c = pb_source_id b" "set (acc_effective_roles ?c) = set (pb_allowed_roles b)"
    using v(2) by (auto simp: vouched_def)
  obtain t a where a: "py_uuid tenant_id = Some t" "py_uuid alex_id = Some a" "t < uuid_range" "a < uuid_range"
    "alex = \<lparr>pb_tenant_id = uuid_text t, pb_object_id = uuid_text a, pb_persona_id = ''RL-PERSONA-ALEX'',
       pb_allowed_roles = [''material_planner'', ''response_approver''], pb_source_id = ''RL-ENTRA-ALEX''\<rparr>"
    by (rule binding_alex_Inr [OF assms(1)])
  obtain u d where d: "py_uuid tenant_id = Some u" "py_uuid taylor_id = Some d" "u < uuid_range" "d < uuid_range"
    "taylor = \<lparr>pb_tenant_id = uuid_text u, pb_object_id = uuid_text d,
       pb_persona_id = ''RL-PERSONA-TAYLOR'', pb_allowed_roles = [''finance_approver''],
       pb_source_id = ''RL-ENTRA-TAYLOR''\<rparr>"
    by (rule binding_taylor_Inr [OF assms(2)])
  have sv: "asv_bindings sv = [alex, taylor]" "asv_tenant_id sv = uuid_text t"
    using mk_auth_service_Inr [OF assms(3)] a(1) by auto
  have "n < uuid_range" by (rule py_uuid_bound [OF k(4)])
  note check = bound_actor_iff [OF b(4) [unfolded sv(2)] b(3) a(3) this]
  have p: "bfa_tenant_id p = t" "bfa_alex_object_id p = a" "bfa_taylor_object_id p = d"
    using assms(4-6) a(1,2) d(2) by auto
  consider "b = alex" | "b = taylor" using b(1) sv(1) by auto
  then have "n = a \<and> require_alex p (to_identity_snapshot actor) = Inr () \<and>
       require_taylor p (to_identity_snapshot actor) = Inl FinancePermissionDenied \<or>
     n = d \<and> require_taylor p (to_identity_snapshot actor) = Inr () \<and>
       require_alex p (to_identity_snapshot actor) = Inl FinancePermissionDenied"
  proof cases
    case 1
    then have "n = a" using uuid_text_inj b(2) a(4,5) \<open>n < uuid_range\<close> by simp
    then show ?thesis
      using 1 a(5) b(5-7) p by (simp add: require_alex_def require_taylor_def check require_def)
  next
    case 2
    then have "n = d" using uuid_text_inj b(2) d(4,5) \<open>n < uuid_range\<close> by simp
    then show ?thesis
      using 2 d(5) b(5-7) p by (simp add: require_alex_def require_taylor_def check require_def)
  qed
  then show ?thesis using k v(1) p by blast
qed

text \<open>
  C23.  Signing keys and the requests for them are bounded.  Whatever happened before, one token makes
  the service request the metadata and the keys of the tenant at most once, then once more the keys;
  while the cache is good, only the keys and only for an id that is not cached, and for a token
  whose header is refused, nothing.  What is cached afterwards are at most sixteen RSA signing keys
  with different ids, all published by the tenant.
\<close>

theorem signing_key_requests_are_bounded:
  assumes "auth_reachable sv jwt st" and "authenticate sv jwt web now token st = (st', r)"
  shows "length (ast_keys st') \<le> 16 \<and> distinct (map fst (ast_keys st')) \<and>
    (\<forall>entry \<in> set (ast_keys st'). signs entry \<and> published sv (ast_log st') (snd entry)) \<and>
    (\<exists>l. ast_log st' = ast_log st @ l \<and>
      (case token_key_id jwt token of
         Inl e \<Rightarrow> l = [] \<and> r = Inl e
       | Inr key_id \<Rightarrow>
           prefix (map fst l)
             (if ast_cache_expires_at st \<le> now 0
              then [metadata_url sv, expected_jwks_url sv, expected_jwks_url sv]
              else if map_of (ast_keys st) key_id = None then [expected_jwks_url sv] else [])))"
proof -
  have "auth_ok sv jwt st'"
    using authenticate_ok [OF auth_reachable_ok [OF assms(1)], of web now token] assms(2) by simp
  then show ?thesis
    using authenticate_steps [OF assms(2)]
    by (fastforce simp: auth_ok_def keys_ok_def steps_to_def lookup_urls_def)
qed

text \<open>The registry of actors only grows, by one for each token that is accepted.\<close>

lemma actors_are_never_forgotten:
  assumes "authenticate sv jwt web now token st = (st', r)"
  shows "ast_actors st' =
    ast_actors st @ (case r of Inl e \<Rightarrow> [] | Inr a \<Rightarrow> [(aac_ref a, aac_content a)])"
  using authenticate_steps [OF assms] by (auto simp: steps_to_def)

section \<open>An example\<close>

text \<open>Alex signs in at a service that starts with an empty cache.\<close>

definition example_service :: auth_service where
  "example_service =
     \<lparr>asv_tenant_id = uuid_text 1, asv_audience = uuid_text 1,
      asv_bindings =
        [\<lparr>pb_tenant_id = uuid_text 1, pb_object_id = uuid_text 2, pb_persona_id = ''RL-PERSONA-ALEX'',
          pb_allowed_roles = [''material_planner'', ''response_approver''],
          pb_source_id = ''RL-ENTRA-ALEX''\<rparr>,
         \<lparr>pb_tenant_id = uuid_text 1, pb_object_id = uuid_text 3, pb_persona_id = ''RL-PERSONA-TAYLOR'',
          pb_allowed_roles = [''finance_approver''], pb_source_id = ''RL-ENTRA-TAYLOR''\<rparr>],
      asv_cache_ttl = 300, asv_capability = 7\<rparr>"

definition example_claims :: json_dict where
  "example_claims =
     [(''aud'', JString (uuid_text 1)), (''exp'', JNumber 200), (''nbf'', JNumber 50),
      (''tid'', JString (uuid_text 1)), (''oid'', JString (uuid_text 2)),
      (''roles'', JList [JString ''response_approver'', JString ''material_planner'']),
      (''scp'', JString ''access_as_user'')]"

definition example_jwt :: jwt_library where
  "example_jwt =
     \<lparr>jwt_unverified_header = (\<lambda>_. Jwt_value [(''alg'', JString ''RS256''), (''kid'', JString ''k'')]),
      jwt_decode = (\<lambda>_ _ _ _. Jwt_value example_claims)\<rparr>"

definition example_key :: json_dict where
  "example_key = [(''kid'', JString ''k''), (''kty'', JString ''RSA'')]"

definition example_provider :: identity_provider where
  "example_provider trace url =
     (if url = metadata_url example_service
      then Inr (JDict [(''issuer'', JString (auth_issuer example_service)),
                       (''jwks_uri'', JString (expected_jwks_url example_service))])
      else Inr (JDict [(''keys'', JList [JDict example_key])]))"

definition example_actor :: authenticated_actor where
  "example_actor =
     \<lparr>aac_ref = 0, aac_capability = 7,
      aac_content =
        \<lparr>acc_tenant_id = uuid_text 1, acc_object_id = uuid_text 2, acc_persona_id = ''RL-PERSONA-ALEX'',
         acc_effective_roles = sort [''response_approver'', ''material_planner''],
         acc_source_id = ''RL-ENTRA-ALEX'', acc_delegated_scopes = [''access_as_user''],
         acc_assertion = \<lparr>uas_token = ''a.b.c'', uas_capability = 7, uas_ref = 0\<rparr>\<rparr>,
      aac_display_name = None, aac_user_principal_name = None\<rparr>"

definition example_signed_in :: auth_state where
  "example_signed_in =
     \<lparr>ast_keys = [(''k'', example_key)], ast_cache_expires_at = 400,
      ast_actors = [(0, aac_content example_actor)],
      ast_log = [(metadata_url example_service, example_provider [] (metadata_url example_service)),
                 (expected_jwks_url example_service,
                  example_provider [] (expected_jwks_url example_service))]\<rparr>"

lemma example_uuid_texts:
  "py_uuid (uuid_text 1) = Some 1" "py_uuid (uuid_text 2) = Some 2" "py_uuid (uuid_text 3) = Some 3"
  "uuid_text 2 \<noteq> uuid_text 3"
proof -
  have small: "(1::nat) < uuid_range" "(2::nat) < uuid_range" "(3::nat) < uuid_range"
    by (simp_all add: uuid_range_def)
  show "py_uuid (uuid_text 1) = Some 1" "py_uuid (uuid_text 2) = Some 2" "py_uuid (uuid_text 3) = Some 3"
    by (rule py_uuid_text, rule small)+
  then show "uuid_text 2 \<noteq> uuid_text 3" by auto
qed

lemma example_bindings:
  "binding_alex (uuid_text 1) (uuid_text 2) = Inr (hd (asv_bindings example_service))"
  "binding_taylor (uuid_text 1) (uuid_text 3) = Inr (last (asv_bindings example_service))"
  "mk_auth_service (uuid_text 1) (uuid_text 1)
     [hd (asv_bindings example_service), last (asv_bindings example_service)] 300 7 = Inr example_service"
  using example_uuid_texts
  by (simp_all add: binding_alex_def binding_taylor_def mk_persona_binding_def auth_uuid_def require_def
      KNOWN_ROLES_def nonblank_def py_strip_def py_isspace_def example_service_def mk_auth_service_def)

lemma example_refresh:
  "refresh_keys example_service example_provider 100 True initial_auth_state =
     (example_signed_in\<lparr>ast_actors := []\<rparr>, Inr ())"
proof -
  have "metadata_url example_service \<noteq> expected_jwks_url example_service"
    by (simp add: metadata_url_def auth_issuer_def expected_jwks_url_def)
  then show ?thesis
    by (simp add: refresh_keys_def auth_fetch_def example_provider_def initial_auth_state_def json_get_def
        require_def document_keys_def usable_key_def example_key_def example_signed_in_def
        example_service_def)
qed

lemma example_authorized:
  "authorize_claims example_service 100 example_claims ''a.b.c'' 0 = Inr example_actor"
  using example_uuid_texts
  by (simp add: authorize_claims_def example_claims_def json_get_def require_def lifetime_ok_def
      claim_roles_def claim_string_def binding_for_def example_service_def example_actor_def insert_commute)

lemma example_authentication:
  "authenticate example_service example_jwt example_provider (\<lambda>_. 100) ''a.b.c'' initial_auth_state =
     (example_signed_in, Inr example_actor)"
proof -
  have header: "token_key_id example_jwt ''a.b.c'' = Inr ''k''"
    by (simp add: token_key_id_def utf8_length_def require_def example_jwt_def json_get_def nonblank_def
        py_strip_def py_isspace_def)
  have "signing_key example_service example_provider (\<lambda>_. 100) ''k'' initial_auth_state =
      (example_signed_in\<lparr>ast_actors := []\<rparr>, Inr example_key)"
    using example_refresh by (simp add: signing_key_def initial_auth_state_def example_signed_in_def)
  moreover have "asv_audience example_service = uuid_text 1" by (simp add: example_service_def)
  moreover have "json_get example_claims ''aud'' = JString (uuid_text 1)"
    by (simp add: example_claims_def json_get_def)
  moreover have "jwt_decode example_jwt ''a.b.c'' key aud issuer = Jwt_value example_claims" for key aud issuer
    by (simp add: example_jwt_def)
  moreover have "example_signed_in\<lparr>ast_actors := [(aac_ref example_actor, aac_content example_actor)]\<rparr> =
      example_signed_in"
    by (simp add: example_signed_in_def example_actor_def)
  ultimately show ?thesis
    using header example_authorized by (simp add: authenticate_def require_def)
qed

lemma example_reachable: "auth_reachable example_service example_jwt example_signed_in"
  using auth_token [OF auth_start, of example_service example_jwt example_provider "\<lambda>_. 100" "''a.b.c''"]
  by (simp add: example_authentication)

theorem authenticated_actors_are_bound_people_witness:
  "\<exists>key claims oid n.
    published example_service (ast_log example_signed_in) key \<and>
    jwt_decode example_jwt ''a.b.c'' key (asv_audience example_service) (auth_issuer example_service) =
      Jwt_value claims \<and>
    json_get claims ''oid'' = JString oid \<and> py_uuid oid = Some n \<and>
    (n = 2 \<and> require_alex \<lparr>bfa_tenant_id = 1, bfa_alex_object_id = 2, bfa_taylor_object_id = 3\<rparr>
         (to_identity_snapshot example_actor) = Inr () \<and>
       require_taylor \<lparr>bfa_tenant_id = 1, bfa_alex_object_id = 2, bfa_taylor_object_id = 3\<rparr>
         (to_identity_snapshot example_actor) = Inl FinancePermissionDenied \<or>
     n = 3 \<and> require_taylor \<lparr>bfa_tenant_id = 1, bfa_alex_object_id = 2, bfa_taylor_object_id = 3\<rparr>
         (to_identity_snapshot example_actor) = Inr () \<and>
       require_alex \<lparr>bfa_tenant_id = 1, bfa_alex_object_id = 2, bfa_taylor_object_id = 3\<rparr>
         (to_identity_snapshot example_actor) = Inl FinancePermissionDenied)"
proof -
  have "validated_user_assertion example_service example_signed_in (Some example_actor) =
      Inr \<lparr>uas_token = ''a.b.c'', uas_capability = 7, uas_ref = 0\<rparr>"
    by (simp add: validated_user_assertion_def example_signed_in_def example_actor_def example_service_def)
  from authenticated_actors_are_bound_people [OF example_bindings _ _ _ example_reachable this,
      of "\<lparr>bfa_tenant_id = 1, bfa_alex_object_id = 2, bfa_taylor_object_id = 3\<rparr>"]
  show ?thesis using example_uuid_texts by simp
qed

theorem signing_key_requests_are_bounded_witness:
  "length (ast_keys example_signed_in) \<le> 16 \<and>
   (\<exists>l. ast_log example_signed_in = ast_log initial_auth_state @ l \<and>
      prefix (map fst l) [metadata_url example_service, expected_jwks_url example_service,
        expected_jwks_url example_service])"
proof -
  have "token_key_id example_jwt ''a.b.c'' = Inr ''k''"
    by (simp add: token_key_id_def utf8_length_def require_def example_jwt_def json_get_def nonblank_def
        py_strip_def py_isspace_def)
  with signing_key_requests_are_bounded [OF auth_start example_authentication]
  show ?thesis by (simp add: initial_auth_state_def)
qed

end
