(* ===== verification/Graph_Client.thy ===== *)
theory Graph_Client
  imports Authentication Supplier_Email_Service
begin

text \<open>
  The mail client: \<open>integrations/graph_mail/obo.py\<close> exchanges the token of the actor for a token of
  Microsoft Graph, \<open>integrations/graph_mail/client.py\<close> makes the requests and decides from the answers
  what is known about them: done, refused, or uncertain.

  What MSAL and \<open>httpx\<close> give is a parameter: one answer for each request of an operation, counted
  from 0.  \<open>json.loads\<close> and \<open>datetime.fromisoformat\<close> are parameters too (None when they raise).  Nothing
  is logged.
\<close>

section \<open>Exchanging the actor's token\<close>

definition GRAPH_DEFAULT_SCOPE :: string where
  "GRAPH_DEFAULT_SCOPE = ''https://graph.microsoft.com/.default''"

type_synonym msal_client = "string \<Rightarrow> string list \<Rightarrow> json result"

definition delegated_alex :: "authenticated_actor option \<Rightarrow> bool" where
  "delegated_alex actor \<longleftrightarrow>
     (case actor of
        None \<Rightarrow> False
      | Some a \<Rightarrow>
          acc_persona_id (aac_content a) = ''RL-PERSONA-ALEX'' \<and>
          acc_source_id (aac_content a) = ''RL-ENTRA-ALEX'' \<and>
          acc_effective_roles (aac_content a) = [''material_planner'', ''response_approver''] \<and>
          acc_delegated_scopes (aac_content a) = [''access_as_user''])"

definition exchange_sync ::
    "auth_service \<Rightarrow> auth_state \<Rightarrow> msal_client \<Rightarrow> authenticated_actor option \<Rightarrow> string result" where
  "exchange_sync sv st msal actor =
     (let failed = Inl (GraphAuthenticationError ''Graph delegated token exchange failed'') in
      bindR (require (delegated_alex actor)
               (GraphAuthenticationError ''Graph mail requires the validated delegated Alex actor''))
        (\<lambda>_.
      case validated_user_assertion sv st actor of
        Inl e \<Rightarrow> Inl (case e of
            AuthorizationError _ \<Rightarrow> GraphAuthenticationError
              ''Graph mail requires an actor from the configured AuthService''
          | _ \<Rightarrow> e)
      | Inr assertion \<Rightarrow>
          (case msal (uas_token assertion) [GRAPH_DEFAULT_SCOPE] of
             Inr (JDict d) \<Rightarrow>
               (case json_get d ''access_token'' of
                  JString token \<Rightarrow>
                    if nonblank token \<and> utf8_length token \<le> 32768 \<and>
                       json_get d ''token_type'' = JString ''Bearer''
                    then Inr token else failed
                | _ \<Rightarrow> failed)
           | _ \<Rightarrow> failed)))"

definition exchange_token ::
    "auth_service \<Rightarrow> auth_state \<Rightarrow> msal_client \<Rightarrow> authenticated_actor option \<Rightarrow> bool \<Rightarrow> string result" where
  "exchange_token sv st msal actor timed_out =
     (if timed_out then Inl (GraphAuthenticationError ''Graph delegated token exchange timed out'')
      else exchange_sync sv st msal actor)"

section \<open>Requests\<close>

definition SAFE_CODES :: "string list" where
  "SAFE_CODES =
     [''graph_authentication_failed'', ''graph_capability_failed'', ''graph_create_failed'',
      ''graph_get_failed'', ''graph_message_mismatch'', ''graph_response_invalid'',
      ''graph_send_failed'', ''graph_send_uncertain'']"

definition graph_mail_error :: "string \<Rightarrow> py_error" where
  "graph_mail_error code =
     GraphMailError (if code \<in> set SAFE_CODES then code else ''graph_response_invalid'')"

definition submission_uncertain :: py_error where
  "submission_uncertain = GraphMailSubmissionUncertain ''graph_send_uncertain''"

record request_stages =
  rst_obo :: string
  rst_http :: string
  rst_shape :: string

definition SENT_LIST_STAGES :: request_stages where
  "SENT_LIST_STAGES = \<lparr>rst_obo = ''sent_list_obo'', rst_http = ''sent_list_http'',
     rst_shape = ''sent_list_shape''\<rparr>"

definition EXACT_GET_STAGES :: request_stages where
  "EXACT_GET_STAGES = \<lparr>rst_obo = ''exact_get_obo'', rst_http = ''exact_get_http'',
     rst_shape = ''exact_get_shape''\<rparr>"

text \<open>What awaiting the exchange gives: a token, one of three kinds of exceptions, another object.\<close>

datatype token_answer = Token_granted string | Token_timeout | Token_transport | Token_failed | Token_foreign

fun obo_answer :: "string result \<Rightarrow> token_answer" where
  "obo_answer (Inr token) = Token_granted token"
| "obo_answer (Inl _) = Token_failed"

fun token_outcome :: "token_answer \<Rightarrow> string" where
  "token_outcome Token_timeout = ''timeout''"
| "token_outcome Token_transport = ''transport''"
| "token_outcome Token_foreign = ''invalid_shape''"
| "token_outcome _ = ''non_success''"

type_synonym http_headers = "(string \<times> string) list"

definition graph_headers :: "token_answer \<Rightarrow> string option \<Rightarrow> http_headers result" where
  "graph_headers answer stage =
     (case answer of
        Token_granted token \<Rightarrow>
          Inr [(''Authorization'', ''Bearer '' @ token), (''Accept'', ''application/json''),
               (''Prefer'', ''IdType=\"ImmutableId\", outlook.body-content-type=\"text\"'')]
      | _ \<Rightarrow> Inl (case stage of
               Some s \<Rightarrow> CapabilityDiagnosticError s (token_outcome answer)
             | None \<Rightarrow> graph_mail_error ''graph_authentication_failed''))"

record graph_call =
  gcl_method :: string
  gcl_url :: string
  gcl_headers :: http_headers
  gcl_json :: "json option"

text \<open>A response with its body in chunks and the way the stream ends.\<close>

datatype stream_ending = Stream_end | Stream_timeout | Stream_transport | Stream_undecodable

record http_response =
  hr_status :: int
  hr_content_length :: "string option"
  hr_content_type :: "string option"
  hr_chunks :: "string list"
  hr_ending :: stream_ending

datatype http_answer = Http_response http_response | Http_timeout | Http_transport

text \<open>\<open>httpx\<close> calls a status from 300 to 399 a redirect.\<close>

definition is_redirect :: "http_response \<Rightarrow> bool" where
  "is_redirect r \<longleftrightarrow> 300 \<le> hr_status r \<and> hr_status r \<le> 399"

record request_policy =
  rqp_failure_code :: string
  rqp_expect_json :: bool
  rqp_expected_statuses :: "int list"
  rqp_uncertain_after_submit :: bool
  rqp_stages :: "request_stages option"

definition invalid_shape :: "request_policy \<Rightarrow> py_error" where
  "invalid_shape p =
     (case rqp_stages p of
        Some s \<Rightarrow> CapabilityDiagnosticError (rst_shape s) ''invalid_shape''
      | None \<Rightarrow> graph_mail_error ''graph_response_invalid'')"

definition http_failure :: "request_policy \<Rightarrow> string \<Rightarrow> py_error" where
  "http_failure p outcome =
     (case rqp_stages p of
        Some s \<Rightarrow> CapabilityDiagnosticError (rst_http s) outcome
      | None \<Rightarrow> graph_mail_error (rqp_failure_code p))"

definition too_large :: "request_policy \<Rightarrow> py_error" where
  "too_large p = (if rqp_uncertain_after_submit p then submission_uncertain else invalid_shape p)"

definition MAX_RESPONSE_BYTES :: int where
  "MAX_RESPONSE_BYTES = 1024 * 1024"

text \<open>
  \<open>content_length.isdigit() and int(content_length)\<close>: the superscripts 1, 2 and 3 are digits that \<open>int\<close>
  refuses, and \<open>int\<close> refuses more than 4300 digits.
\<close>

definition ascii_digit :: "char \<Rightarrow> bool" where
  "ascii_digit c \<longleftrightarrow> 48 \<le> (of_char c :: nat) \<and> (of_char c :: nat) \<le> 57"

definition py_isdigit :: "string \<Rightarrow> bool" where
  "py_isdigit s \<longleftrightarrow> s \<noteq> [] \<and> list_all (\<lambda>c. ascii_digit c \<or> (of_char c :: nat) \<in> {178, 179, 185}) s"

definition decimal_value :: "string \<Rightarrow> int" where
  "decimal_value s = foldl (\<lambda>acc c. 10 * acc + (int (of_char c) - 48)) 0 s"

definition length_within_limit :: "string option \<Rightarrow> bool result" where
  "length_within_limit content_length =
     (case content_length of
        None \<Rightarrow> Inr True
      | Some s \<Rightarrow>
          if \<not> py_isdigit s then Inr True
          else if list_all ascii_digit s \<and> length s \<le> 4300
          then Inr (decimal_value s \<le> MAX_RESPONSE_BYTES)
          else Inl (ValueError ''invalid literal for int() with base 10''))"

text \<open>\<open>_json_media_type\<close>\<close>

definition json_media_type :: "string \<Rightarrow> bool" where
  "json_media_type v =
     (let media_type = py_lower (py_strip (fst (partition_at (CHR '';'') v))) in
      media_type = ''application/json'' \<or> suffix ''+json'' media_type)"

fun read_chunks :: "py_error \<Rightarrow> string \<Rightarrow> string list \<Rightarrow> string result" where
  "read_chunks e body [] = Inr body"
| "read_chunks e body (chunk # chunks) =
     (if int (length body) + int (length chunk) > MAX_RESPONSE_BYTES then Inl e
      else read_chunks e (body @ chunk) chunks)"

text \<open>
  Reading a response inside the \<open>try\<close> block: an exception that leaves it, or the kind of transport
  failure it ends with (Inl), or the body (Inr).
\<close>

definition read_response :: "request_policy \<Rightarrow> http_response \<Rightarrow> (string + string) result" where
  "read_response p r =
     bindR (require (\<not> is_redirect r \<and> hr_status r \<in> set (rqp_expected_statuses p))
              (if rqp_uncertain_after_submit p \<and> 500 \<le> hr_status r then submission_uncertain
               else http_failure p ''non_success'')) (\<lambda>_.
     bindR (length_within_limit (hr_content_length r)) (\<lambda>fits.
     bindR (require fits (too_large p)) (\<lambda>_.
     bindR (require (rqp_expect_json p \<longrightarrow>
                     json_media_type (case hr_content_type r of None \<Rightarrow> [] | Some t \<Rightarrow> t))
              (invalid_shape p)) (\<lambda>_.
     bindR (read_chunks (too_large p) [] (hr_chunks r)) (\<lambda>body.
     case hr_ending r of
       Stream_end \<Rightarrow> Inr (Inr body)
     | Stream_timeout \<Rightarrow> Inr (Inl ''timeout'')
     | Stream_transport \<Rightarrow> Inr (Inl ''transport'')
     | Stream_undecodable \<Rightarrow>
         Inl (if rqp_stages p = None then HttpDecodingError else invalid_shape p))))))"

record graph_world =
  gw_token :: "nat \<Rightarrow> token_answer"
  gw_http :: "nat \<Rightarrow> graph_call \<Rightarrow> http_answer"
  gw_loads :: "string \<Rightarrow> json option"
  gw_fromisoformat :: "string \<Rightarrow> datetime option"

definition graph_root :: "string \<Rightarrow> string" where
  "graph_root path = ''https://graph.microsoft.com/v1.0'' @ path"

text \<open>\<open>_request\<close>: the \<open>k\<close>-th request of an operation.\<close>

definition graph_request ::
    "graph_world \<Rightarrow> nat \<Rightarrow> request_policy \<Rightarrow> string \<Rightarrow> string \<Rightarrow> json option \<Rightarrow> json_dict option result" where
  "graph_request w k p method path payload =
     bindR (graph_headers (gw_token w k) (map_option rst_obo (rqp_stages p))) (\<lambda>headers.
     bindR (case gw_http w k \<lparr>gcl_method = method, gcl_url = graph_root path, gcl_headers = headers,
                    gcl_json = payload\<rparr> of
              Http_response r \<Rightarrow> read_response p r
            | Http_timeout \<Rightarrow> Inr (Inl ''timeout'')
            | Http_transport \<Rightarrow> Inr (Inl ''transport'')) (\<lambda>outcome.
     case outcome of
       Inl failure \<Rightarrow>
         Inl (if rqp_uncertain_after_submit p then submission_uncertain else http_failure p failure)
     | Inr body \<Rightarrow>
         if \<not> rqp_expect_json p
         then (if body \<noteq> [] then Inl submission_uncertain else Inr None)
         else (case gw_loads w body of
                 Some (JDict d) \<Rightarrow> Inr (Some d)
               | _ \<Rightarrow> Inl (invalid_shape p))))"

section \<open>Messages\<close>

definition valid_address :: "string \<Rightarrow> bool" where
  "valid_address v \<longleftrightarrow>
     (case partition_at (CHR ''@'') v of
        (local, separator, domain) \<Rightarrow>
          separator \<and> local \<noteq> [] \<and> domain \<noteq> [] \<and> list_all (\<lambda>c. \<not> py_isspace c) v)"

text \<open>The constructor of \<open>GraphMailClient\<close> gives the mailbox it is bound to.\<close>

definition mk_graph_mail_client :: "bool \<Rightarrow> string \<Rightarrow> string result" where
  "mk_graph_mail_client follow_redirects mailbox =
     bindR (require (\<not> follow_redirects) (ValueError ''Graph mail client must not follow redirects''))
       (\<lambda>_.
     bindR (require (mailbox = py_lower mailbox \<and> valid_address mailbox)
              (ValueError ''Graph mailbox address is invalid'')) (\<lambda>_.
     Inr mailbox))"

definition response_invalid :: py_error where
  "response_invalid = graph_mail_error ''graph_response_invalid''"

definition message_id :: "json \<Rightarrow> string result" where
  "message_id v =
     (case v of
        JString s \<Rightarrow>
          if s = [] \<or> length s > 256 \<or> (\<exists>c \<in> set s. (of_char c :: nat) < 33) then Inl response_invalid
          else Inr s
      | _ \<Rightarrow> Inl response_invalid)"

definition mail_address :: "json \<Rightarrow> string result" where
  "mail_address v =
     bindR (as_dict response_invalid v) (\<lambda>d.
     bindR (as_dict response_invalid (json_get d ''emailAddress'')) (\<lambda>email.
     case json_get email ''address'' of
       JString s \<Rightarrow> if valid_address s then Inr (py_lower s) else Inl response_invalid
     | _ \<Rightarrow> Inl response_invalid))"

text \<open>\<open>_provider_message\<close>: the recipients are looked at last.\<close>

definition sent_time :: "(string \<Rightarrow> datetime option) \<Rightarrow> json \<Rightarrow> datetime option result" where
  "sent_time fromiso v =
     (case v of
        JString s \<Rightarrow>
          if s = [] then Inr None
          else bindR (the_or response_invalid (fromiso s)) (\<lambda>t. Inr (Some t))
      | _ \<Rightarrow> Inr None)"

text \<open>The recipients, the subject, the content type and the content.\<close>

definition message_texts :: "json_dict \<Rightarrow> (json list \<times> string \<times> string \<times> string) result" where
  "message_texts v =
     (case (json_get v ''toRecipients'', json_get v ''body'', json_get v ''subject'') of
        (JList recipients, JDict body, JString subject) \<Rightarrow>
          (case (json_get body ''contentType'', json_get body ''content'') of
             (JString content_type, JString content) \<Rightarrow>
               Inr (recipients, subject, content_type, content)
           | _ \<Rightarrow> Inl response_invalid)
      | _ \<Rightarrow> Inl response_invalid)"

definition internet_message_id :: "json \<Rightarrow> string option result" where
  "internet_message_id v =
     (case v of JNull \<Rightarrow> Inr None | JString s \<Rightarrow> Inr (Some s) | _ \<Rightarrow> Inl response_invalid)"

definition provider_message_of ::
    "(string \<Rightarrow> datetime option) \<Rightarrow> json_dict \<Rightarrow> string \<Rightarrow> provider_message result" where
  "provider_message_of fromiso v expected_id =
     bindR (require (json_get v ''id'' = JString expected_id) response_invalid) (\<lambda>_.
     bindR (mail_address (json_get v ''sender'')) (\<lambda>sender.
     bindR (mail_address (json_get v ''from'')) (\<lambda>from_address.
     bindR (require (sender = from_address) response_invalid) (\<lambda>_.
     bindR (message_texts v) (\<lambda>(recipients, subject, content_type, content).
     bindR (sent_time fromiso (json_get v ''sentDateTime'')) (\<lambda>sent_at.
     bindR (internet_message_id (json_get v ''internetMessageId'')) (\<lambda>internet_id.
     bindR (mapR mail_address recipients) (\<lambda>to_addresses.
     Inr \<lparr>pm_provider_message_id = expected_id, pm_internet_message_id = internet_id,
          pm_sender_address = sender, pm_to_addresses = to_addresses, pm_subject = subject,
          pm_body_content_type = py_lower content_type, pm_body = content,
          pm_sent_at = sent_at\<rparr>))))))))"

definition matches_revision :: "provider_message \<Rightarrow> email_revision \<Rightarrow> string \<Rightarrow> bool" where
  "matches_revision m r mailbox \<longleftrightarrow>
     pm_sender_address m = mailbox \<and> mailbox = er_from_address r \<and>
     pm_to_addresses m = [er_to_address r] \<and> pm_subject m = er_subject r \<and>
     pm_body_content_type m = ''text'' \<and> pm_body m = er_body r"

text \<open>\<open>urllib.parse.quote(.., safe='')\<close> on code points below 256, which are one or two bytes in UTF-8.\<close>

definition hex_upper :: "nat \<Rightarrow> char" where
  "hex_upper d = char_of (if d < 10 then d + 48 else d + 55)"

definition percent_byte :: "nat \<Rightarrow> string" where
  "percent_byte n = [CHR ''%'', hex_upper (n div 16), hex_upper (n mod 16)]"

definition quote_char :: "char \<Rightarrow> string" where
  "quote_char c =
     (let n = (of_char c :: nat) in
      if ascii_digit c \<or> (65 \<le> n \<and> n \<le> 90) \<or> (97 \<le> n \<and> n \<le> 122) \<or> c \<in> set ''_.-~'' then [c]
      else if n < 128 then percent_byte n
      else percent_byte (192 + n div 64) @ percent_byte (128 + n mod 64))"

definition py_quote :: "string \<Rightarrow> string" where
  "py_quote s = concat (map quote_char s)"

section \<open>Operations\<close>

definition read_policy :: "string \<Rightarrow> request_stages option \<Rightarrow> request_policy" where
  "read_policy failure_code stages =
     \<lparr>rqp_failure_code = failure_code, rqp_expect_json = True, rqp_expected_statuses = [200],
      rqp_uncertain_after_submit = False, rqp_stages = stages\<rparr>"

definition send_policy :: request_policy where
  "send_policy =
     \<lparr>rqp_failure_code = ''graph_send_failed'', rqp_expect_json = False, rqp_expected_statuses = [202],
      rqp_uncertain_after_submit = True, rqp_stages = None\<rparr>"

definition message_payload :: "email_revision \<Rightarrow> json" where
  "message_payload r =
     JDict [(''subject'', JString (er_subject r)),
            (''body'', JDict [(''contentType'', JString ''Text''), (''content'', JString (er_body r))]),
            (''toRecipients'',
              JList [JDict [(''emailAddress'', JDict [(''address'', JString (er_to_address r))])]])]"

definition send_message :: "graph_world \<Rightarrow> email_revision \<Rightarrow> unit result" where
  "send_message w r =
     bindR (graph_request w 0 send_policy ''POST'' ''/me/sendMail''
              (Some (JDict [(''message'', message_payload r)]))) (\<lambda>_. Inr ())"

definition get_message :: "graph_world \<Rightarrow> nat \<Rightarrow> json \<Rightarrow> provider_message result" where
  "get_message w k provider_message_id =
     bindR (message_id provider_message_id) (\<lambda>safe_id.
     bindR (graph_request w k (read_policy ''graph_get_failed'' None) ''GET''
              (''/me/messages/'' @ py_quote safe_id @
               ''?$select=id,internetMessageId,subject,body,from,sender,toRecipients,sentDateTime'')
              None) (\<lambda>found.
     bindR (the_or AssertionError found) (\<lambda>v.
     provider_message_of (gw_fromisoformat w) v safe_id)))"

definition create_draft ::
    "graph_world \<Rightarrow> string \<Rightarrow> email_revision \<Rightarrow> (string \<times> string option) result" where
  "create_draft w mailbox r =
     bindR (graph_request w 0
              \<lparr>rqp_failure_code = ''graph_create_failed'', rqp_expect_json = True,
               rqp_expected_statuses = [201], rqp_uncertain_after_submit = False, rqp_stages = None\<rparr>
              ''POST'' ''/me/messages'' (Some (message_payload r))) (\<lambda>found.
     bindR (the_or AssertionError found) (\<lambda>created.
     bindR (message_id (json_get created ''id'')) (\<lambda>provider_id.
     bindR (get_message w 1 (JString provider_id)) (\<lambda>m.
     bindR (require (matches_revision m r mailbox) (graph_mail_error ''graph_message_mismatch'')) (\<lambda>_.
     Inr (provider_id, pm_internet_message_id m))))))"

definition send_draft :: "graph_world \<Rightarrow> json \<Rightarrow> unit result" where
  "send_draft w provider_message_id =
     bindR (message_id provider_message_id) (\<lambda>safe_id.
     bindR (graph_request w 0 send_policy ''POST''
              (''/me/messages/'' @ py_quote safe_id @ ''/send'') None) (\<lambda>_. Inr ()))"

text \<open>\<open>capability\<close>: the mailbox and the id of a sent message; a diagnostic never leaves it.\<close>

definition diagnosed :: "string \<Rightarrow> string \<Rightarrow> 'a result \<Rightarrow> 'a result" where
  "diagnosed stage outcome r =
     (case r of
        Inl (GraphMailError _) \<Rightarrow> Inl (CapabilityDiagnosticError stage outcome)
      | _ \<Rightarrow> r)"

definition capability_probe :: "graph_world \<Rightarrow> string \<Rightarrow> (string \<times> string) result" where
  "capability_probe w mailbox =
     bindR (graph_request w 0 (read_policy ''graph_capability_failed'' (Some SENT_LIST_STAGES)) ''GET''
              ''/me/mailFolders/sentitems/messages?$select=id&$top=1&$orderby=sentDateTime%20desc''
              None) (\<lambda>found.
     bindR (the_or (CapabilityDiagnosticError ''sent_list_shape'' ''invalid_shape'') found) (\<lambda>sent.
     let item_id = (case json_get sent ''value'' of
           JList [JDict item] \<Rightarrow> json_get item ''id'' | _ \<Rightarrow> JNull) in
     bindR (diagnosed ''sent_list_shape'' ''invalid_shape'' (message_id item_id)) (\<lambda>safe_id.
     bindR (graph_request w 1 (read_policy ''graph_capability_failed'' (Some EXACT_GET_STAGES)) ''GET''
              (''/me/messages/'' @ py_quote safe_id @ ''?$select=id,sender,from'') None) (\<lambda>found1.
     bindR (the_or (CapabilityDiagnosticError ''exact_get_shape'' ''invalid_shape'') found1) (\<lambda>exact.
     bindR (require (json_get exact ''id'' = JString safe_id)
              (CapabilityDiagnosticError ''exact_get_shape'' ''invalid_shape'')) (\<lambda>_.
     bindR (diagnosed ''exact_get_shape'' ''invalid_shape'' (mail_address (json_get exact ''sender'')))
       (\<lambda>sender.
     bindR (diagnosed ''exact_get_shape'' ''invalid_shape'' (mail_address (json_get exact ''from'')))
       (\<lambda>from_address.
     bindR (require (sender = from_address \<and> sender = mailbox)
              (CapabilityDiagnosticError ''sender_binding'' ''mismatch'')) (\<lambda>_.
     Inr (mailbox, safe_id))))))))))"

definition graph_capability :: "graph_world \<Rightarrow> string \<Rightarrow> (string \<times> string) result" where
  "graph_capability w mailbox =
     (case capability_probe w mailbox of
        Inl (CapabilityDiagnosticError _ _) \<Rightarrow> Inl (graph_mail_error ''graph_capability_failed'')
      | r \<Rightarrow> r)"

text \<open>
  What \<open>send\<close> of the email service makes of the submission; any other exception leaves it, with the
  email still being submitted.
\<close>

fun graph_outcome_of :: "unit result \<Rightarrow> graph_outcome option" where
  "graph_outcome_of (Inr _) = Some Graph_returned"
| "graph_outcome_of (Inl (GraphMailSubmissionUncertain code)) = Some (Graph_uncertain code)"
| "graph_outcome_of (Inl (GraphMailError code)) = Some (Graph_failed code)"
| "graph_outcome_of (Inl _) = None"

section \<open>What a submission tells\<close>

lemma SAFE_CODES_known [simp]:
  "graph_mail_error ''graph_send_failed'' = GraphMailError ''graph_send_failed''"
  "graph_mail_error ''graph_authentication_failed'' = GraphMailError ''graph_authentication_failed''"
  "graph_mail_error ''graph_capability_failed'' = GraphMailError ''graph_capability_failed''"
  by (simp_all add: graph_mail_error_def SAFE_CODES_def)

lemma read_chunks_Inl: "read_chunks e body chunks = Inl e' \<Longrightarrow> e' = e"
  by (induction e body chunks rule: read_chunks.induct) (auto split: if_splits)

lemma length_within_limit_Inl: "length_within_limit v = Inl e \<Longrightarrow> \<exists>m. e = ValueError m"
  by (auto simp: length_within_limit_def split: option.splits if_splits)

text \<open>The request a submission makes once it has a token.\<close>

definition submission :: "string \<Rightarrow> email_revision \<Rightarrow> graph_call" where
  "submission token r =
     \<lparr>gcl_method = ''POST'', gcl_url = graph_root ''/me/sendMail'',
      gcl_headers = [(''Authorization'', ''Bearer '' @ token), (''Accept'', ''application/json''),
        (''Prefer'', ''IdType=\"ImmutableId\", outlook.body-content-type=\"text\"'')],
      gcl_json = Some (JDict [(''message'', message_payload r)])\<rparr>"

text \<open>A response to it that is not 202 is conclusive below 500; one that is 202 never counts as refused.\<close>

lemma send_other_status:
  assumes "hr_status response \<noteq> 202"
  shows "read_response send_policy response =
    Inl (if 500 \<le> hr_status response then submission_uncertain else GraphMailError ''graph_send_failed'')"
  using assms by (simp add: read_response_def send_policy_def require_def http_failure_def)

lemma send_accepted_status:
  assumes "hr_status response = 202"
  shows "read_response send_policy response \<noteq> Inl (GraphMailError code)"
proof
  assume "read_response send_policy response = Inl (GraphMailError code)"
  then show False
    using assms
    by (cases "hr_ending response")
      (auto simp: read_response_def send_policy_def require_def is_redirect_def result_simps too_large_def
        submission_uncertain_def dest!: read_chunks_Inl length_within_limit_Inl split: if_splits)
qed

lemma send_message_granted:
  assumes "gw_token w 0 = Token_granted token"
  shows "send_message w r =
    bindR (case gw_http w 0 (submission token r) of
             Http_response response \<Rightarrow> read_response send_policy response
           | Http_timeout \<Rightarrow> Inr (Inl ''timeout'')
           | Http_transport \<Rightarrow> Inr (Inl ''transport'')) (\<lambda>outcome.
    case outcome of
      Inl failure \<Rightarrow> Inl submission_uncertain
    | Inr body \<Rightarrow> if body \<noteq> [] then Inl submission_uncertain else Inr ())"
  unfolding send_message_def graph_request_def
  using assms
  by (auto simp: graph_headers_def send_policy_def submission_def bindR_def
      split: sum.splits http_answer.splits)

lemma send_message_not_granted:
  assumes "\<And>token. gw_token w 0 \<noteq> Token_granted token"
  shows "send_message w r = Inl (GraphMailError ''graph_authentication_failed'')"
  using assms
  by (cases "gw_token w 0") (auto simp: send_message_def graph_request_def graph_headers_def send_policy_def)

lemma exchange_token_Inr:
  assumes "exchange_token sv st msal actor timed_out = Inr token"
  obtains a assertion where "actor = Some a" "delegated_alex actor"
    "validated_user_assertion sv st (Some a) = Inr assertion"
  using assms
  by (auto simp: exchange_token_def exchange_sync_def result_simps Let_def delegated_alex_def
      split: if_splits option.splits sum.splits)

text \<open>
  C21.  A submission counts as refused exactly when it was.  \<open>send_message\<close> fails without uncertainty,
  so that the email may be sent again, exactly when no request was made, because no token was
  granted, or when Graph answered it with a status below 500 that is not 202; it succeeds only on
  a 202.  And a request is only made with a token granted to Alex, on the assertion of an actor the
  authentication service vouches for.
\<close>

theorem submission_counts_as_refused_iff:
  assumes "auth_reachable sv jwt st"
    and "gw_token w 0 = obo_answer (exchange_token sv st msal actor timed_out)"
  shows "(graph_outcome_of (send_message w r) = Some (Graph_failed code)) =
      ((\<forall>token. gw_token w 0 \<noteq> Token_granted token) \<and> code = ''graph_authentication_failed'' \<or>
       (\<exists>token response. gw_token w 0 = Token_granted token \<and>
          gw_http w 0 (submission token r) = Http_response response \<and>
          hr_status response \<noteq> 202 \<and> hr_status response < 500 \<and> code = ''graph_send_failed'')) \<and>
    (graph_outcome_of (send_message w r) = Some Graph_returned \<longrightarrow>
       (\<exists>token response. gw_token w 0 = Token_granted token \<and>
          gw_http w 0 (submission token r) = Http_response response \<and> hr_status response = 202)) \<and>
    (\<forall>token. gw_token w 0 = Token_granted token \<longrightarrow>
       (\<exists>a. actor = Some a \<and> acc_persona_id (aac_content a) = ''RL-PERSONA-ALEX'' \<and>
          vouched sv jwt (ast_log st) (aac_content a)))"
proof (cases "\<exists>token. gw_token w 0 = Token_granted token")
  case False
  then show ?thesis using send_message_not_granted [of w r] by auto
next
  case True
  then obtain token where t: "gw_token w 0 = Token_granted token" by blast
  then have "exchange_token sv st msal actor timed_out = Inr token"
    using assms(2) by (cases "exchange_token sv st msal actor timed_out") auto
  then obtain a assertion where a: "actor = Some a" "delegated_alex actor"
    "validated_user_assertion sv st (Some a) = Inr assertion"
    by (rule exchange_token_Inr)
  have "vouched sv jwt (ast_log st) (aac_content a)"
    by (rule validated_user_assertion_Inr [OF assms(1) a(3)])
  then have alex: "\<exists>a. actor = Some a \<and> acc_persona_id (aac_content a) = ''RL-PERSONA-ALEX'' \<and>
      vouched sv jwt (ast_log st) (aac_content a)"
    using a(1,2) by (auto simp: delegated_alex_def)
  note send = send_message_granted [OF t, of r]
  show ?thesis
  proof (cases "gw_http w 0 (submission token r)")
    case (Http_response response)
    show ?thesis
    proof (cases "hr_status response = 202")
      case False
      then show ?thesis
        using t Http_response send send_other_status [OF False] alex
        by (auto simp: submission_uncertain_def)
    next
      case 202: True
      have "graph_outcome_of (send_message w r) \<noteq> Some (Graph_failed code)"
        using send send_accepted_status [OF 202] Http_response
        by (auto simp: submission_uncertain_def bindR_def split: sum.splits elim!: graph_outcome_of.elims)
      then show ?thesis using t Http_response 202 alex by auto
    qed
  qed (use t send alex in \<open>auto simp: submission_uncertain_def\<close>)
qed

text \<open>
  An accepted submission whose response cannot be decoded is not reported as uncertain: the
  exception of \<open>httpx\<close> leaves the client.
\<close>

lemma undecodable_answer_escapes:
  assumes "gw_token w 0 = Token_granted token"
    and "gw_http w 0 (submission token r) = Http_response \<lparr>hr_status = 202, hr_content_length = None,
      hr_content_type = None, hr_chunks = [], hr_ending = Stream_undecodable\<rparr>"
  shows "send_message w r = Inl HttpDecodingError" and "graph_outcome_of (send_message w r) = None"
  unfolding send_message_granted [OF assms(1)] assms(2)
  by (simp_all add: read_response_def require_def is_redirect_def send_policy_def length_within_limit_def)

section \<open>What reading tells\<close>

text \<open>A message that is read has the id that was asked for.\<close>

lemma provider_message_of_Inr:
  "provider_message_of fromiso v expected_id = Inr m \<Longrightarrow>
     pm_provider_message_id m = expected_id \<and> json_get v ''id'' = JString expected_id"
  by (auto simp: provider_message_of_def result_simps)

lemma get_message_Inr:
  "get_message w k v = Inr m \<Longrightarrow> v = JString (pm_provider_message_id m)"
  by (auto simp: get_message_def message_id_def result_simps dest!: provider_message_of_Inr
      split: json.splits if_splits)

text \<open>A draft is only reported when reading it back gave what was to be written.\<close>

lemma create_draft_reads_back:
  assumes "create_draft w mailbox r = Inr (provider_id, internet_id)"
  shows "\<exists>m. get_message w 1 (JString provider_id) = Inr m \<and> matches_revision m r mailbox \<and>
    internet_id = pm_internet_message_id m \<and> er_from_address r = mailbox"
  using assms unfolding create_draft_def by (auto simp: result_simps matches_revision_def)

text \<open>The capability is bound to the configured mailbox.\<close>

lemma graph_capability_mailbox:
  assumes "graph_capability w mailbox = Inr (address, sample)"
  shows "address = mailbox"
proof -
  have "capability_probe w mailbox = Inr (address, sample)"
    using assms by (auto simp: graph_capability_def split: sum.splits py_error.splits)
  then show ?thesis by (auto simp: capability_probe_def result_simps Let_def)
qed

section \<open>An example\<close>

text \<open>Graph refuses an email of Alex with status 400.\<close>

definition example_world :: graph_world where
  "example_world =
     \<lparr>gw_token = (\<lambda>_. obo_answer (exchange_token example_service example_signed_in
        (\<lambda>_ _. Inr (JDict [(''access_token'', JString ''t''), (''token_type'', JString ''Bearer'')]))
        (Some example_actor) False)),
      gw_http = (\<lambda>_ _. Http_response \<lparr>hr_status = 400, hr_content_length = None,
        hr_content_type = None, hr_chunks = [], hr_ending = Stream_end\<rparr>),
      gw_loads = (\<lambda>_. None), gw_fromisoformat = (\<lambda>_. None)\<rparr>"

lemma example_granted: "gw_token example_world 0 = Token_granted ''t''"
proof -
  have "sort [''response_approver'', ''material_planner''] = [''material_planner'', ''response_approver'']"
    by code_simp
  then have "delegated_alex (Some example_actor)"
    by (simp add: delegated_alex_def example_actor_def)
  moreover have "validated_user_assertion example_service example_signed_in (Some example_actor) =
      Inr (acc_assertion (aac_content example_actor))"
    by (simp add: validated_user_assertion_def example_signed_in_def example_actor_def example_service_def)
  ultimately show ?thesis
    by (simp add: example_world_def exchange_token_def exchange_sync_def require_def json_get_def
        nonblank_def py_strip_def py_isspace_def utf8_length_def)
qed

theorem submission_counts_as_refused_iff_witness:
  "(\<forall>r. graph_outcome_of (send_message example_world r) = Some (Graph_failed ''graph_send_failed'')) \<and>
   vouched example_service example_jwt (ast_log example_signed_in) (aac_content example_actor)"
proof -
  have granted: "gw_token example_world 0 = obo_answer (exchange_token example_service example_signed_in
        (\<lambda>_ _. Inr (JDict [(''access_token'', JString ''t''), (''token_type'', JString ''Bearer'')]))
        (Some example_actor) False)"
    by (simp add: example_world_def)
  have "gw_http example_world 0 call = Http_response \<lparr>hr_status = 400, hr_content_length = None,
        hr_content_type = None, hr_chunks = [], hr_ending = Stream_end\<rparr>" for call
    by (simp add: example_world_def)
  then show ?thesis
    using submission_counts_as_refused_iff [OF example_reachable granted, of _ "''graph_send_failed''"]
      example_granted
    by simp
qed

end
