(* ===== verification/Live_Evidence.thy ===== *)
theory Live_Evidence
  imports Case_Store Authentication WorkIQ_Evidence
begin

text \<open>
  What a live analysis is made from: the first half of \<open>apps/api/app/live.py\<close> and the messages of
  \<open>agents/orchestrator/contracts.py\<close>.  Three sources are asked, their answers are checked at the
  boundary, and the checked evidence becomes the command of the analysis.

  The ports (Fabric, Work IQ and the orchestrator with its agents) are the parameters of the
  service, as they are the arguments of its constructor.  The log lines are left out.
\<close>

section \<open>Addresses\<close>

text \<open>
  \<open>unquote(s)\<close> as a list of characters: a decoded byte is marked, so that it is not confused with a
  literal character above 127.
\<close>

fun percent_decode :: "string \<Rightarrow> (bool \<times> char) list" where
  "percent_decode [] = []"
| "percent_decode [c] = [(False, c)]"
| "percent_decode [c, d] = [(False, c), (False, d)]"
| "percent_decode (c # a # b # rest) =
     (case (if c = CHR ''%'' then (hex_value a, hex_value b) else (None, None)) of
        (Some m, Some n) \<Rightarrow> (True, char_of (16 * m + n)) # percent_decode rest
      | _ \<Rightarrow> (False, c) # percent_decode (a # b # rest))"

text \<open>
  \<open>.lower()\<close> of it.  The only decoded character above 127 with an ASCII letter as its lower-case
  form is the Kelvin sign, whose UTF-8 bytes are \<open>E2 84 AA\<close>; the other decoded bytes above 127 are
  left as they are, which no comparison with an ASCII text can tell from the character they encode.
\<close>

definition kelvin_sign :: "(bool \<times> char) list" where
  "kelvin_sign = [(True, CHR 0xE2), (True, CHR 0x84), (True, CHR 0xAA)]"

function lower_decoded :: "(bool \<times> char) list \<Rightarrow> string" where
  "lower_decoded xs =
     (case xs of
        [] \<Rightarrow> []
      | (byte, c) # rest \<Rightarrow>
          if take 3 xs = kelvin_sign then CHR ''k'' # lower_decoded (drop 2 rest)
          else (if byte \<and> 127 < (of_char c :: nat) then c else py_lower_char c) # lower_decoded rest)"
  by pat_completeness auto
termination by (relation "measure length") auto

declare lower_decoded.simps [simp del]

definition unquote_lower :: "string \<Rightarrow> string" where
  "unquote_lower s = lower_decoded (percent_decode s)"

definition SENSITIVE_NAMES :: "string list" where
  "SENSITIVE_NAMES =
     [''access_token'', ''assertion'', ''client_secret'', ''code'', ''sig'', ''token'']"

definition query_names :: "string \<Rightarrow> string list" where
  "query_names query =
     map (\<lambda>item. unquote_lower (fst (partition_at (CHR ''='') item)))
       (filter (\<lambda>item. item \<noteq> []) (split_on (CHR ''&'') query))"

definition carries_secret :: "string \<Rightarrow> bool" where
  "carries_secret query \<longleftrightarrow>
     (\<exists>name \<in> set SENSITIVE_NAMES. name \<in> set (query_names query) \<or>
        sublist (name @ ''='') (unquote_lower query))"

text \<open>\<open>parsed.hostname not in allowed_hosts\<close>: a missing host is never allowed.\<close>

definition host_allowed :: "string list \<Rightarrow> url_parts \<Rightarrow> bool" where
  "host_allowed hosts u \<longleftrightarrow> url_hostname u \<noteq> [] \<and> url_hostname u \<in> set hosts"

definition live_url_parts :: "string \<Rightarrow> string \<Rightarrow> (url_parts \<times> nat option) result" where
  "live_url_parts label s =
     (case bindR (urlsplit s) (\<lambda>u. bindR (url_port u) (\<lambda>port. Inr (u, port))) of
        Inl _ \<Rightarrow> Inl (ValueError (label @ '' is invalid''))
      | Inr parts \<Rightarrow> Inr parts)"

definition url_fragment :: "string \<Rightarrow> string" where
  "url_fragment s = snd (snd (partition_at (CHR ''#'') (url_clean s)))"

definition validate_live_https_url :: "string \<Rightarrow> string list \<Rightarrow> string result" where
  "validate_live_https_url s hosts =
     bindR (live_url_parts ''live URL'' s) (\<lambda>(u, port).
     bindR (require (up_scheme u = ''https'' \<and> host_allowed hosts u \<and>
                     CHR ''@'' \<notin> set (up_netloc u) \<and> port = None \<and> up_query u = [] \<and>
                     url_fragment s = [])
              (ValueError ''live URL is outside the trusted policy'')) (\<lambda>_.
     Inr s))"

definition validate_live_citation_url :: "string \<Rightarrow> string list \<Rightarrow> string result" where
  "validate_live_citation_url s hosts =
     bindR (live_url_parts ''live citation URL'' s) (\<lambda>(u, port).
     bindR (require (up_scheme u = ''https'' \<and> host_allowed hosts u \<and>
                     CHR ''@'' \<notin> set (up_netloc u) \<and> port = None \<and>
                     take 1 (up_path u) = ''/'' \<and> \<not> carries_secret (up_query u))
              (ValueError ''live citation URL is outside the trusted policy'')) (\<lambda>_.
     Inr s))"

section \<open>Checks of the evidence\<close>

text \<open>\<open>item.excerpt or ""\<close> and \<open>item.citation_url or ""\<close>\<close>

definition or_empty :: "string option \<Rightarrow> string" where
  "or_empty v = (case v of None \<Rightarrow> [] | Some s \<Rightarrow> s)"

text \<open>The conditions that \<open>_require_item\<close> and \<open>_validate_live_collection\<close> share.\<close>

definition live_item_complete :: "string \<Rightarrow> string \<Rightarrow> evidence_item \<Rightarrow> bool" where
  "live_item_complete case_id analysis_id item \<longleftrightarrow>
     ei_case_id item = case_id \<and> ei_retrieved_for_analysis_id item = analysis_id \<and>
     ei_runtime_mode item = RM_LIVE \<and> \<not> ei_synthetic item \<and>
     ei_requirement item = ER_REQUIRED_AUTHORITATIVE \<and> ei_retrieval_health item = RH_HEALTHY \<and>
     ei_source_timestamp item \<noteq> None \<and> ei_retrieved_at item \<noteq> None \<and>
     nonblank (ei_source_id item) \<and> nonblank (or_empty (ei_excerpt item)) \<and>
     or_empty (ei_citation_url item) \<noteq> []"

definition require_item ::
    "evidence_item list \<Rightarrow> evidence_source_system \<Rightarrow> authority_scope \<Rightarrow> string option \<Rightarrow> string \<Rightarrow>
     string \<Rightarrow> string list \<Rightarrow> unit result" where
  "require_item items system scope source_id analysis_id case_id hosts =
     (let matches = filter (\<lambda>item. ei_source_system item = system \<and>
                      scope \<in> set (ei_authority_scope item) \<and>
                      (case source_id of None \<Rightarrow> True | Some i \<Rightarrow> ei_source_id item = i)) items in
      bindR (require (matches \<noteq> [])
               (ValueError ''required authoritative live evidence is missing'')) (\<lambda>_.
      for_each (\<lambda>item.
        bindR (require (live_item_complete case_id analysis_id item)
                 (ValueError ''required authoritative live evidence is incomplete'')) (\<lambda>_.
        bindR (validate_live_citation_url (or_empty (ei_citation_url item)) hosts) (\<lambda>_.
        Inr ()))) matches))"

definition within_a_day :: "instant \<Rightarrow> evidence_item \<Rightarrow> bool" where
  "within_a_day started_at item \<longleftrightarrow>
     (case ei_retrieved_at item of
        None \<Rightarrow> False | Some t \<Rightarrow> \<bar>started_at - t\<bar> \<le> 24 * 60 * minutes 1)"

definition validate_live_collection ::
    "evidence_item list \<Rightarrow> evidence_source_system \<Rightarrow> authority_scope list \<Rightarrow> string option \<Rightarrow> string \<Rightarrow>
     string \<Rightarrow> instant \<Rightarrow> string list \<Rightarrow> evidence_item list result" where
  "validate_live_collection items system allowed_scopes source_id analysis_id case_id started_at hosts =
     bindR (require (items \<noteq> []) (ValueError ''live evidence collection is empty'')) (\<lambda>_.
     mapR (\<lambda>item.
       bindR (require (ei_source_system item = system \<and>
                       live_item_complete case_id analysis_id item \<and>
                       (case source_id of None \<Rightarrow> True | Some i \<Rightarrow> ei_source_id item = i) \<and>
                       ei_authority_scope item \<noteq> [] \<and>
                       set (ei_authority_scope item) \<subseteq> set allowed_scopes \<and>
                       within_a_day started_at item)
                (ValueError ''live evidence collection contains an invalid item'')) (\<lambda>_.
       bindR (validate_live_citation_url (or_empty (ei_citation_url item)) hosts) (\<lambda>_.
       Inr item))) items)"

section \<open>The orchestrator's messages\<close>

record retrieval_lineage =
  rln_context_id :: string
  rln_task_id :: string
  rln_artifact_ids :: "string list"
  rln_source_ids :: "string list"
  rln_protocol :: retrieval_protocol
  rln_request_ids :: "string list"

definition mk_retrieval_lineage :: "retrieval_lineage \<Rightarrow> retrieval_lineage result" where
  "mk_retrieval_lineage l =
     bindR (require (length (rln_context_id l) \<le> 256 \<and> length (rln_task_id l) \<le> 256 \<and>
                     length (rln_artifact_ids l) \<le> 64 \<and> length (rln_source_ids l) \<le> 64 \<and>
                     length (rln_request_ids l) \<le> 64)
              (ValueError ''validation error'')) (\<lambda>_.
     bindR (require (rln_protocol l = RP_a2a \<longrightarrow> rln_context_id l \<noteq> [])
              (ValueError ''A2A retrieval lineage requires context'')) (\<lambda>_.
     bindR (require (rln_protocol l = RP_a2a \<longrightarrow> rln_task_id l \<noteq> [])
              (ValueError ''A2A retrieval lineage requires a task ID'')) (\<lambda>_.
     bindR (require (rln_protocol l = RP_mcp \<longrightarrow> rln_task_id l = [] \<and> rln_artifact_ids l = [])
              (ValueError ''MCP retrieval lineage cannot contain A2A identifiers'')) (\<lambda>_.
     Inr l))))"

record extracted_reference =
  xr_evidence_id :: string
  xr_authority_scope :: authority_scope
  xr_source_span :: string

record extracted_facts =
  xf_facts :: "extracted_reference list"
  xf_uncertainties :: "extracted_reference list"

record decision_explanation =
  dx_recommended_option_id :: string
  dx_stage_references :: "string list"
  dx_explanation :: string

record orchestration_result =
  orr_analysis_version :: analysis_version
  orr_signal_extraction :: "extracted_facts option"
  orr_context_extraction :: "extracted_facts option"
  orr_decision_explanation :: "decision_explanation option"
  orr_explanation_status :: explanation_status

text \<open>
  How \<open>Orchestrator.analyze\<close> ends: with a result, with \<open>AgentExplanationUnavailable\<close>, which carries
  the version of its partial result, or with another exception.
\<close>

datatype orchestration =
  Orchestrated orchestration_result | Explanation_unavailable analysis_version
| Orchestration_failed py_error

section \<open>The ports\<close>

record live_operational_retrieval =
  lor_case :: case_instance
  lor_snapshot :: operational_snapshot
  lor_evidence :: "evidence_item list"
  lor_source_snapshot_id :: string
  lor_retrieved_at :: instant

text \<open>
  The answers of the three sources, when each of them ends, the orchestrator, and the JSON of its
  messages.
\<close>

record live_ports =
  lpt_operational :: "string \<Rightarrow> case_purpose \<Rightarrow> string \<Rightarrow> instant \<Rightarrow> live_operational_retrieval result"
  lpt_supplier :: "authenticated_actor \<Rightarrow> string \<Rightarrow> string \<Rightarrow> string \<Rightarrow> instant \<Rightarrow> workiq_retrieval result"
  lpt_bound_supplier ::
    "authenticated_actor \<Rightarrow> supplier_email_source \<Rightarrow> string \<Rightarrow> string \<Rightarrow> instant \<Rightarrow> workiq_retrieval result"
  lpt_quality :: "authenticated_actor \<Rightarrow> string \<Rightarrow> string \<Rightarrow> string \<Rightarrow> instant \<Rightarrow> workiq_retrieval result"
  lpt_ended :: "nat \<times> nat \<times> nat"
  lpt_orchestrate :: "analyze_case_command \<Rightarrow> retrieval_lineage list \<Rightarrow> orchestration"
  lpt_facts_json :: "extracted_facts \<Rightarrow> string"
  lpt_decision_json :: "decision_explanation \<Rightarrow> string"

text \<open>\<open>asyncio.gather\<close>: the failure that happened first is raised.\<close>

definition failure_at :: "nat \<Rightarrow> 'a result \<Rightarrow> (nat \<times> py_error) list" where
  "failure_at t r = (case r of Inl e \<Rightarrow> [(t, e)] | Inr _ \<Rightarrow> [])"

definition gather3 ::
    "nat \<times> nat \<times> nat \<Rightarrow> 'a result \<Rightarrow> 'b result \<Rightarrow> 'c result \<Rightarrow> ('a \<times> 'b \<times> 'c) result" where
  "gather3 ended a b c =
     (case ended of (ta, tb, tc) \<Rightarrow>
        (case sort_key fst (failure_at ta a @ failure_at tb b @ failure_at tc c) of
           (_, e) # _ \<Rightarrow> Inl e
         | [] \<Rightarrow> bindR a (\<lambda>x. bindR b (\<lambda>y. bindR c (\<lambda>z. Inr (x, y, z))))))"

section \<open>The service\<close>

record 'p live_service =
  lsv_store :: "'p store_env"
  lsv_version_sha256 :: "string \<Rightarrow> string"
  lsv_supplier_source_id :: string
  lsv_quality_source_id :: string
  lsv_sharepoint_host :: string
  lsv_wait_budget :: rat
  lsv_poll_interval :: rat

text \<open>The checks of the constructor.\<close>

definition mk_live_service :: "'p live_service \<Rightarrow> 'p live_service result" where
  "mk_live_service svc =
     bindR (require (se_runtime_mode (lsv_store svc) = RM_LIVE)
              (ValueError ''live analysis requires a live store'')) (\<lambda>_.
     bindR (require (0 < lsv_wait_budget svc \<and> lsv_wait_budget svc \<le> 90)
              (ValueError ''analysis wait budget must be within 90 seconds'')) (\<lambda>_.
     bindR (require (0 < lsv_poll_interval svc \<and> lsv_poll_interval svc \<le> lsv_wait_budget svc)
              (ValueError ''analysis poll interval must fit within its budget'')) (\<lambda>_.
     Inr svc)))"

definition fabric_hosts :: "string list" where
  "fabric_hosts = [''app.powerbi.com'']"

definition citation_hosts :: "'p live_service \<Rightarrow> string list" where
  "citation_hosts svc =
     [''app.powerbi.com'', ''outlook.office.com'', ''outlook.office365.com'', ''teams.microsoft.com'',
      lsv_sharepoint_host svc]"

text \<open>\<open>self._citation_hosts - {"app.powerbi.com"}\<close>\<close>

definition work_iq_hosts :: "'p live_service \<Rightarrow> string list" where
  "work_iq_hosts svc = filter (\<lambda>h. h \<notin> set fabric_hosts) (citation_hosts svc)"

text \<open>The readings of the clocks and the fresh identifiers of one call.\<close>

record live_moment =
  lmt_started_at :: instant
  lmt_read_again_at :: instant
  lmt_completed_at :: instant
  lmt_now :: instant
  lmt_claim_id :: string
  lmt_analysis_uuid :: string

definition live_analysis_id :: "live_moment \<Rightarrow> string" where
  "live_analysis_id m = ''RL-ANALYSIS-'' @ lmt_analysis_uuid m"

definition FABRIC_SCOPES :: "authority_scope list" where
  "FABRIC_SCOPES = [AS_OPERATIONAL_QUANTITY, AS_OPERATIONAL_DATE, AS_QUALIFICATION_STATE]"

definition ask_sources ::
    "'p live_service \<Rightarrow> live_ports \<Rightarrow> authenticated_actor \<Rightarrow> live_moment \<Rightarrow> case_instance \<Rightarrow>
     (live_operational_retrieval \<times> workiq_retrieval \<times> workiq_retrieval) result" where
  "ask_sources svc ports actor m c =
     (let analysis_id = live_analysis_id m; started_at = lmt_started_at m; case_id = ci_case_id c in
      gather3 (lpt_ended ports)
        (lpt_operational ports case_id (ci_purpose c) analysis_id started_at)
        (case ci_supplier_email c of
           None \<Rightarrow> lpt_supplier ports actor (lsv_supplier_source_id svc) case_id analysis_id started_at
         | Some source \<Rightarrow> lpt_bound_supplier ports actor source case_id analysis_id started_at)
        (lpt_quality ports actor (lsv_quality_source_id svc) case_id analysis_id started_at))"

text \<open>The source that the supplier's statement has to come from.\<close>

definition bound_source_id ::
    "'p live_service \<Rightarrow> case_instance \<Rightarrow> live_operational_retrieval \<Rightarrow> workiq_retrieval \<Rightarrow> string result" where
  "bound_source_id svc c operational supplier =
     (case ci_supplier_email c of
        None \<Rightarrow> Inr (lsv_supplier_source_id svc)
      | Some source \<Rightarrow>
          bindR (validate_supplier_facts (ses_facts source) (lor_snapshot operational)) (\<lambda>_.
          case wr_evidence supplier of
            [item] \<Rightarrow>
              bindR (require (wl_source_ids (wr_lineage supplier) = [ei_source_id item])
                       (ValueError ''bound email retrieval has inconsistent lineage'')) (\<lambda>_.
              Inr (ei_source_id item))
          | _ \<Rightarrow> Inl (ValueError ''bound email retrieval has inconsistent lineage'')))"

definition operational_unchanged ::
    "(operational_snapshot \<Rightarrow> string) \<Rightarrow> case_instance \<Rightarrow> string \<Rightarrow> live_operational_retrieval \<Rightarrow> unit result" where
  "operational_unchanged json c material operational =
     (let changed = ValueError ''live operational snapshot changed or is incomplete'';
          c' = lor_case operational in
      bindR (require (ci_case_id c' = ci_case_id c \<and> ci_purpose c' = ci_purpose c \<and>
                      ci_runtime_mode c' = RM_LIVE) changed) (\<lambda>_.
      bindR (canonical_operational_snapshot json (lor_snapshot operational)) (\<lambda>current.
      require (current = material \<and> nonblank (lor_source_snapshot_id operational)) changed)))"

text \<open>The address a reader may follow, with its host.\<close>

definition navigable :: "evidence_item \<Rightarrow> evidence_item result" where
  "navigable item =
     bindR (urlsplit (or_empty (ei_citation_url item))) (\<lambda>u.
     Inr (item\<lparr>ei_citation_classification :=
                 Some (if ei_source_system item = ESS_FABRIC then CC_fabric else CC_work_iq),
               ei_navigable_citation_url := ei_citation_url item,
               ei_citation_trusted_host :=
                 (if url_hostname u = [] then None else Some (url_hostname u))\<rparr>))"

definition analysis_lineage :: "retrieval_source_kind \<Rightarrow> workiq_retrieval \<Rightarrow> analysis_retrieval_lineage" where
  "analysis_lineage kind r =
     (let l = wr_lineage r in
      \<lparr>arl_source_kind = kind, arl_context_id = wl_context_id l, arl_task_id = wl_task_id l,
       arl_artifact_ids = wl_artifact_ids l, arl_source_ids = wl_source_ids l,
       arl_protocol = wl_protocol l, arl_request_ids = wl_request_ids l\<rparr>)"

text \<open>From the answers to the command, with the defaults of \<open>AnalyzeCaseCommand\<close>.\<close>

definition live_evidence ::
    "'p live_service \<Rightarrow> live_moment \<Rightarrow> case_instance \<Rightarrow> string \<Rightarrow> live_operational_retrieval \<Rightarrow>
     workiq_retrieval \<Rightarrow> workiq_retrieval \<Rightarrow> evidence_item list result" where
  "live_evidence svc m c supplier_source_id operational supplier quality =
     (let aid = live_analysis_id m; cid = ci_case_id c; started_at = lmt_started_at m in
      bindR (validate_live_collection (lor_evidence operational) ESS_FABRIC FABRIC_SCOPES None aid cid
               started_at fabric_hosts) (\<lambda>fabric_evidence.
      bindR (validate_live_collection (wr_evidence supplier) ESS_WORK_IQ [AS_SUPPLIER_STATEMENT]
               (Some supplier_source_id) aid cid started_at (work_iq_hosts svc)) (\<lambda>supplier_evidence.
      bindR (validate_live_collection (wr_evidence quality) ESS_WORK_IQ [AS_COLLABORATION_STATEMENT]
               (Some (lsv_quality_source_id svc)) aid cid started_at (work_iq_hosts svc))
        (\<lambda>quality_evidence.
      let evidence = fabric_evidence @ supplier_evidence @ quality_evidence in
      bindR (for_each (\<lambda>scope. require_item evidence ESS_FABRIC scope None aid cid (citation_hosts svc))
               FABRIC_SCOPES) (\<lambda>_.
      bindR (for_each (\<lambda>(scope, source_id).
                 require_item evidence ESS_WORK_IQ scope (Some source_id) aid cid (citation_hosts svc))
               [(AS_SUPPLIER_STATEMENT, supplier_source_id),
                (AS_COLLABORATION_STATEMENT, lsv_quality_source_id svc)]) (\<lambda>_.
      mapR navigable evidence))))))"

definition live_command ::
    "'p live_service \<Rightarrow> live_ports \<Rightarrow> authenticated_actor \<Rightarrow> live_moment \<Rightarrow> case_instance \<Rightarrow> string \<Rightarrow>
     (analyze_case_command \<times> analysis_retrieval_lineage list) result" where
  "live_command svc ports actor m c material =
     bindR (ask_sources svc ports actor m c) (\<lambda>(operational, supplier, quality).
     bindR (bound_source_id svc c operational supplier) (\<lambda>supplier_source_id.
     bindR (operational_unchanged (se_snapshot_json (lsv_store svc)) c material operational) (\<lambda>_.
     bindR (live_evidence svc m c supplier_source_id operational supplier quality) (\<lambda>evidence.
     Inr (\<lparr>cmd_analysis_id = live_analysis_id m, cmd_case = c, cmd_corpus = CPS_DEMO_CORPUS,
           cmd_operational_snapshot = lor_snapshot operational, cmd_evidence_items = evidence,
           cmd_standing_authorizations = [taylor_rl001],
           cmd_analysis_started_at = lmt_started_at m,
           cmd_created_at = max (lmt_read_again_at m) (lmt_started_at m),
           cmd_calculation_version = ''rl001-options-v1'', cmd_conflicts = [],
           cmd_conflict_resolutions = [], cmd_required_authority_scope = [],
           cmd_evidence_policy_version = EVIDENCE_POLICY_VERSION,
           cmd_approval_policy_version = None\<rparr>,
          [analysis_lineage RSK_supplier supplier, analysis_lineage RSK_quality quality])))))"

text \<open>The orchestrated version, with its lineage and explanation.\<close>

definition orchestrator_lineage :: "analysis_retrieval_lineage \<Rightarrow> retrieval_lineage result" where
  "orchestrator_lineage l =
     mk_retrieval_lineage
       \<lparr>rln_context_id = arl_context_id l, rln_task_id = arl_task_id l,
        rln_artifact_ids = arl_artifact_ids l, rln_source_ids = arl_source_ids l,
        rln_protocol = arl_protocol l, rln_request_ids = arl_request_ids l\<rparr>"

definition no_explanation :: analysis_explanation where
  "no_explanation =
     \<lparr>ax_status = XS_unavailable, ax_signal_json = None, ax_context_json = None,
      ax_decision_json = None\<rparr>"

definition explained ::
    "live_ports \<Rightarrow> orchestration \<Rightarrow> (analysis_version \<times> analysis_explanation) result" where
  "explained ports outcome =
     (case outcome of
        Orchestrated r \<Rightarrow>
          Inr (orr_analysis_version r,
               \<lparr>ax_status = orr_explanation_status r,
                ax_signal_json = map_option (lpt_facts_json ports) (orr_signal_extraction r),
                ax_context_json = map_option (lpt_facts_json ports) (orr_context_extraction r),
                ax_decision_json = map_option (lpt_decision_json ports) (orr_decision_explanation r)\<rparr>)
      | Explanation_unavailable version \<Rightarrow> Inr (version, no_explanation)
      | Orchestration_failed e \<Rightarrow> Inl e)"

definition live_analysis ::
    "'p live_service \<Rightarrow> live_ports \<Rightarrow> authenticated_actor \<Rightarrow> live_moment \<Rightarrow> case_instance \<Rightarrow> string \<Rightarrow>
     analysis_version result" where
  "live_analysis svc ports actor m c material =
     bindR (live_command svc ports actor m c material) (\<lambda>(cmd, lineage).
     bindR (mapR orchestrator_lineage lineage) (\<lambda>lineage'.
     bindR (explained ports (lpt_orchestrate ports cmd lineage')) (\<lambda>(version, explanation).
     Inr (version\<lparr>av_retrieval_lineage := lineage, av_explanation := explanation\<rparr>))))"

section \<open>What the checks establish\<close>

definition safe_citation :: "string list \<Rightarrow> string \<Rightarrow> url_parts \<Rightarrow> bool" where
  "safe_citation hosts s u \<longleftrightarrow>
     urlsplit s = Inr u \<and> up_scheme u = ''https'' \<and> host_allowed hosts u \<and> url_port u = Inr None \<and>
     CHR ''@'' \<notin> set (up_netloc u) \<and> take 1 (up_path u) = ''/'' \<and> \<not> carries_secret (up_query u)"

lemma citation_url_Inr_iff:
  "validate_live_citation_url s hosts = Inr r \<longleftrightarrow> r = s \<and> (\<exists>u. safe_citation hosts s u)"
  by (auto simp: validate_live_citation_url_def live_url_parts_def safe_citation_def result_simps
      split: sum.splits prod.splits)

definition collected ::
    "evidence_source_system \<Rightarrow> authority_scope list \<Rightarrow> string option \<Rightarrow> string \<Rightarrow> string \<Rightarrow> instant \<Rightarrow>
     string list \<Rightarrow> evidence_item \<Rightarrow> bool" where
  "collected system scopes source_id aid cid t hosts item \<longleftrightarrow>
     ei_source_system item = system \<and> live_item_complete cid aid item \<and>
     (case source_id of None \<Rightarrow> True | Some i \<Rightarrow> ei_source_id item = i) \<and>
     ei_authority_scope item \<noteq> [] \<and> set (ei_authority_scope item) \<subseteq> set scopes \<and> within_a_day t item \<and>
     (\<exists>u. safe_citation hosts (or_empty (ei_citation_url item)) u)"

text \<open>A collection is accepted exactly when all its items are.\<close>

lemma list_all2_itself: "list_all2 (\<lambda>x y. y = x \<and> P x) xs ys \<longleftrightarrow> ys = xs \<and> (\<forall>x \<in> set xs. P x)"
  by (induction xs arbitrary: ys) (auto simp: list_all2_Cons1)

lemma collection_Inr_iff:
  "validate_live_collection items system scopes source_id aid cid t hosts = Inr out \<longleftrightarrow>
     out = items \<and> items \<noteq> [] \<and> (\<forall>item \<in> set items. collected system scopes source_id aid cid t hosts item)"
proof -
  have "validate_live_collection items system scopes source_id aid cid t hosts = Inr out \<longleftrightarrow>
      items \<noteq> [] \<and> list_all2 (\<lambda>item y. y = item \<and> collected system scopes source_id aid cid t hosts item) items out"
    by (auto simp: validate_live_collection_def collected_def result_simps citation_url_Inr_iff
        elim: list_all2_mono)
  also have "list_all2 (\<lambda>item y. y = item \<and> collected system scopes source_id aid cid t hosts item) items out \<longleftrightarrow>
      out = items \<and> (\<forall>item \<in> set items. collected system scopes source_id aid cid t hosts item)"
    by (rule list_all2_itself)
  finally show ?thesis by auto
qed

lemma require_item_Inr_iff:
  "require_item items system scope source_id aid cid hosts = Inr u \<longleftrightarrow>
     (let matches = filter (\<lambda>item. ei_source_system item = system \<and> scope \<in> set (ei_authority_scope item) \<and>
            (case source_id of None \<Rightarrow> True | Some i \<Rightarrow> ei_source_id item = i)) items in
      matches \<noteq> [] \<and> (\<forall>item \<in> set matches. live_item_complete cid aid item \<and>
        (\<exists>u. safe_citation hosts (or_empty (ei_citation_url item)) u)))"
  by (simp add: require_item_def Let_def result_simps citation_url_Inr_iff)

lemma require_item_Inr:
  assumes "require_item items system scope source_id aid cid hosts = Inr u"
  shows "\<exists>item \<in> set items. scope \<in> set (ei_authority_scope item)"
  using assms by (auto simp: require_item_Inr_iff Let_def filter_empty_conv)

lemma navigable_safe:
  assumes "safe_citation hosts (or_empty (ei_citation_url item)) u"
  shows "navigable item = Inr (item\<lparr>ei_citation_classification :=
        Some (if ei_source_system item = ESS_FABRIC then CC_fabric else CC_work_iq),
      ei_navigable_citation_url := ei_citation_url item, ei_citation_trusted_host := Some (url_hostname u)\<rparr>)"
  using assms by (auto simp: navigable_def safe_citation_def host_allowed_def)

text \<open>An item of the command, and the source it comes from.\<close>

definition live_item ::
    "string list \<Rightarrow> authority_scope set \<Rightarrow> string \<Rightarrow> string \<Rightarrow> instant \<Rightarrow> evidence_item \<Rightarrow> bool" where
  "live_item hosts scopes aid cid t item \<longleftrightarrow>
     live_item_complete cid aid item \<and> within_a_day t item \<and>
     ei_authority_scope item \<noteq> [] \<and> set (ei_authority_scope item) \<subseteq> scopes \<and>
     ei_navigable_citation_url item = ei_citation_url item \<and>
     (\<exists>u. safe_citation hosts (or_empty (ei_citation_url item)) u \<and>
        ei_citation_trusted_host item = Some (url_hostname u))"

definition from_fabric :: "live_moment \<Rightarrow> string \<Rightarrow> evidence_item \<Rightarrow> bool" where
  "from_fabric m case_id item \<longleftrightarrow>
     ei_citation_classification item = Some CC_fabric \<and>
     live_item fabric_hosts (set FABRIC_SCOPES) (live_analysis_id m) case_id (lmt_started_at m) item"

definition from_work_iq ::
    "'p live_service \<Rightarrow> live_moment \<Rightarrow> string \<Rightarrow> authority_scope \<Rightarrow> string \<Rightarrow> evidence_item \<Rightarrow> bool" where
  "from_work_iq svc m case_id scope source_id item \<longleftrightarrow>
     ei_citation_classification item = Some CC_work_iq \<and> ei_source_id item = source_id \<and>
     live_item (work_iq_hosts svc) {scope} (live_analysis_id m) case_id (lmt_started_at m) item"

lemma collected_live_item:
  assumes "collected system scopes source_id aid cid t hosts item" and "navigable item = Inr item'"
  shows "live_item hosts (set scopes) aid cid t item'"
    and "ei_authority_scope item' = ei_authority_scope item" and "ei_source_id item' = ei_source_id item"
    and "ei_citation_classification item' = Some (if system = ESS_FABRIC then CC_fabric else CC_work_iq)"
proof -
  from assms(1) obtain u where u: "safe_citation hosts (or_empty (ei_citation_url item)) u"
    by (auto simp: collected_def)
  have item': "item' = item\<lparr>ei_citation_classification :=
        Some (if ei_source_system item = ESS_FABRIC then CC_fabric else CC_work_iq),
      ei_navigable_citation_url := ei_citation_url item, ei_citation_trusted_host := Some (url_hostname u)\<rparr>"
    using navigable_safe [OF u] assms(2) by simp
  show "live_item hosts (set scopes) aid cid t item'"
    "ei_authority_scope item' = ei_authority_scope item" "ei_source_id item' = ei_source_id item"
    "ei_citation_classification item' = Some (if system = ESS_FABRIC then CC_fabric else CC_work_iq)"
    using assms(1) u unfolding item'
    by (auto simp: live_item_def collected_def live_item_complete_def within_a_day_def)
qed

lemma collected_from_fabric:
  assumes "collected ESS_FABRIC FABRIC_SCOPES None (live_analysis_id m) cid (lmt_started_at m) fabric_hosts x"
    and "navigable x = Inr y"
  shows "from_fabric m cid y"
  using collected_live_item(1,4) [OF assms] by (simp add: from_fabric_def)

lemma collected_from_work_iq:
  assumes "collected ESS_WORK_IQ [scope] (Some source) (live_analysis_id m) cid (lmt_started_at m)
      (work_iq_hosts svc) x"
    and "navigable x = Inr y"
  shows "from_work_iq svc m cid scope source y"
  using collected_live_item(1,3,4) [OF assms] assms(1) by (simp add: from_work_iq_def collected_def)

lemma live_evidence_Inr:
  assumes "live_evidence svc m c source operational supplier quality = Inr items"
  shows "\<forall>item \<in> set items. from_fabric m (ci_case_id c) item \<or>
      from_work_iq svc m (ci_case_id c) AS_SUPPLIER_STATEMENT source item \<or>
      from_work_iq svc m (ci_case_id c) AS_COLLABORATION_STATEMENT (lsv_quality_source_id svc) item"
      (is "\<forall>item \<in> _. ?ok item")
    and "\<forall>scope \<in> set FABRIC_SCOPES \<union> {AS_SUPPLIER_STATEMENT, AS_COLLABORATION_STATEMENT}.
      \<exists>item \<in> set items. scope \<in> set (ei_authority_scope item)"
proof -
  let ?aid = "live_analysis_id m" and ?cid = "ci_case_id c" and ?t = "lmt_started_at m"
  from assms obtain fs ss qs where
    f: "validate_live_collection (lor_evidence operational) ESS_FABRIC FABRIC_SCOPES None ?aid ?cid ?t
      fabric_hosts = Inr fs"
    and s: "validate_live_collection (wr_evidence supplier) ESS_WORK_IQ [AS_SUPPLIER_STATEMENT] (Some source)
      ?aid ?cid ?t (work_iq_hosts svc) = Inr ss"
    and q: "validate_live_collection (wr_evidence quality) ESS_WORK_IQ [AS_COLLABORATION_STATEMENT]
      (Some (lsv_quality_source_id svc)) ?aid ?cid ?t (work_iq_hosts svc) = Inr qs"
    and r1: "\<forall>scope \<in> set FABRIC_SCOPES. require_item (fs @ ss @ qs) ESS_FABRIC scope None ?aid ?cid
      (citation_hosts svc) = Inr ()"
    and r2: "require_item (fs @ ss @ qs) ESS_WORK_IQ AS_SUPPLIER_STATEMENT (Some source) ?aid ?cid
      (citation_hosts svc) = Inr ()"
    "require_item (fs @ ss @ qs) ESS_WORK_IQ AS_COLLABORATION_STATEMENT (Some (lsv_quality_source_id svc))
      ?aid ?cid (citation_hosts svc) = Inr ()"
    and nav: "list_all2 (\<lambda>x y. navigable x = Inr y) (fs @ ss @ qs) items"
    by (auto simp: live_evidence_def Let_def result_simps elim!: bindR_InrE)
  note fs = f [unfolded collection_Inr_iff] and ss = s [unfolded collection_Inr_iff]
    and qs = q [unfolded collection_Inr_iff]
  have all: "?ok y \<and> ei_authority_scope y = ei_authority_scope x"
    if "x \<in> set (fs @ ss @ qs)" and y: "navigable x = Inr y" for x y
  proof -
    from that(1) consider "x \<in> set fs" | "x \<in> set ss" | "x \<in> set qs" by auto
    then show ?thesis
    proof cases
      case 1
      with fs y show ?thesis using collected_from_fabric collected_live_item(2) by metis
    next
      case 2
      with ss y show ?thesis using collected_from_work_iq collected_live_item(2) by metis
    next
      case 3
      with qs y show ?thesis using collected_from_work_iq collected_live_item(2) by metis
    qed
  qed
  show "\<forall>item \<in> set items. ?ok item"
    using all list_all2_set2 [OF nav] by metis
  show "\<forall>scope \<in> set FABRIC_SCOPES \<union> {AS_SUPPLIER_STATEMENT, AS_COLLABORATION_STATEMENT}.
      \<exists>item \<in> set items. scope \<in> set (ei_authority_scope item)"
  proof
    fix scope assume "scope \<in> set FABRIC_SCOPES \<union> {AS_SUPPLIER_STATEMENT, AS_COLLABORATION_STATEMENT}"
    then obtain x where x: "x \<in> set (fs @ ss @ qs)" "scope \<in> set (ei_authority_scope x)"
      using r1 r2 require_item_Inr by (metis UnE insertE singletonD)
    obtain y where "y \<in> set items" "navigable x = Inr y" using list_all2_set1 [OF nav x(1)] by blast
    with all x show "\<exists>item \<in> set items. scope \<in> set (ei_authority_scope item)" by metis
  qed
qed

lemma gather3_Inr:
  "gather3 ended a b c = Inr (x, y, z) \<Longrightarrow> a = Inr x \<and> b = Inr y \<and> c = Inr z"
  by (auto simp: gather3_def elim!: bindR_InrE split: prod.splits list.splits)

text \<open>What speaks for the supplier is what the supplier's source answered.\<close>

lemma silent_items:
  assumes "list_all2 (\<lambda>x y. navigable x = Inr y) xs ys"
    and "\<forall>x \<in> set xs. collected system scopes source_id aid cid t hosts x" and "scope \<notin> set scopes"
  shows "filter (\<lambda>i. scope \<in> set (ei_authority_scope i)) ys = []"
proof -
  have "scope \<notin> set (ei_authority_scope y)" if "y \<in> set ys" for y
  proof -
    from list_all2_set2 [OF assms(1) that] obtain x where x: "x \<in> set xs" "navigable x = Inr y" by blast
    with assms(2) have "collected system scopes source_id aid cid t hosts x" by blast
    with collected_live_item(2) [OF this x(2)] assms(3) show ?thesis by (auto simp: collected_def)
  qed
  then show ?thesis by (simp add: filter_empty_conv)
qed

lemma live_evidence_supplier:
  assumes "live_evidence svc m c source operational supplier quality = Inr items"
    and "wr_evidence supplier = [item]"
  shows "\<exists>y. navigable item = Inr y \<and>
    filter (\<lambda>i. AS_SUPPLIER_STATEMENT \<in> set (ei_authority_scope i)) items = [y]"
proof -
  let ?aid = "live_analysis_id m" and ?cid = "ci_case_id c" and ?t = "lmt_started_at m"
  from assms(1) obtain fs ss qs where
    f: "validate_live_collection (lor_evidence operational) ESS_FABRIC FABRIC_SCOPES None ?aid ?cid ?t
      fabric_hosts = Inr fs"
    and s: "validate_live_collection (wr_evidence supplier) ESS_WORK_IQ [AS_SUPPLIER_STATEMENT] (Some source)
      ?aid ?cid ?t (work_iq_hosts svc) = Inr ss"
    and q: "validate_live_collection (wr_evidence quality) ESS_WORK_IQ [AS_COLLABORATION_STATEMENT]
      (Some (lsv_quality_source_id svc)) ?aid ?cid ?t (work_iq_hosts svc) = Inr qs"
    and nav: "list_all2 (\<lambda>x y. navigable x = Inr y) (fs @ ss @ qs) items"
    by (auto simp: live_evidence_def Let_def result_simps elim!: bindR_InrE)
  note fs = f [unfolded collection_Inr_iff] and ss = s [unfolded collection_Inr_iff assms(2)]
    and qs = q [unfolded collection_Inr_iff]
  from nav ss obtain fs' y qs' where items: "items = fs' @ [y] @ qs'" and y: "navigable item = Inr y"
    and nf: "list_all2 (\<lambda>x y. navigable x = Inr y) fs fs'" and nq: "list_all2 (\<lambda>x y. navigable x = Inr y) qs qs'"
    by (auto simp: list_all2_append1 list_all2_Cons1)
  have "AS_SUPPLIER_STATEMENT \<notin> set FABRIC_SCOPES" by (simp add: FABRIC_SCOPES_def)
  with fs nf have 1: "filter (\<lambda>i. AS_SUPPLIER_STATEMENT \<in> set (ei_authority_scope i)) fs' = []"
    by (intro silent_items) auto
  have 2: "filter (\<lambda>i. AS_SUPPLIER_STATEMENT \<in> set (ei_authority_scope i)) qs' = []"
    using nq qs by (intro silent_items) auto
  from ss have item: "collected ESS_WORK_IQ [AS_SUPPLIER_STATEMENT] (Some source) ?aid ?cid ?t
      (work_iq_hosts svc) item" by simp
  then have "set (ei_authority_scope item) = {AS_SUPPLIER_STATEMENT}"
    by (cases "ei_authority_scope item") (auto simp: collected_def)
  then have "AS_SUPPLIER_STATEMENT \<in> set (ei_authority_scope y)"
    using collected_live_item(2) [OF item y] by simp
  with 1 2 y show ?thesis by (simp add: items)
qed

text \<open>
  Conversely, the collections are accepted together as soon as each is and Fabric's covers its
  scopes: the second round of checks adds nothing else.
\<close>

lemma safe_citation_mono: "safe_citation hosts s u \<Longrightarrow> set hosts \<subseteq> set hosts' \<Longrightarrow> safe_citation hosts' s u"
  by (auto simp: safe_citation_def host_allowed_def)

lemma collected_safe:
  assumes "collected system scopes source_id aid cid t hosts item" and "set hosts \<subseteq> set hosts'"
  shows "live_item_complete cid aid item \<and> (\<exists>u. safe_citation hosts' (or_empty (ei_citation_url item)) u)"
  using assms unfolding collected_def by (blast intro: safe_citation_mono)

lemma live_evidence_accepts:
  assumes fs: "lor_evidence operational \<noteq> []" "\<forall>item \<in> set (lor_evidence operational).
      collected ESS_FABRIC FABRIC_SCOPES None (live_analysis_id m) (ci_case_id c) (lmt_started_at m) fabric_hosts item"
    and ss: "wr_evidence supplier \<noteq> []" "\<forall>item \<in> set (wr_evidence supplier).
      collected ESS_WORK_IQ [AS_SUPPLIER_STATEMENT] (Some source) (live_analysis_id m) (ci_case_id c)
        (lmt_started_at m) (work_iq_hosts svc) item"
    and qs: "wr_evidence quality \<noteq> []" "\<forall>item \<in> set (wr_evidence quality).
      collected ESS_WORK_IQ [AS_COLLABORATION_STATEMENT] (Some (lsv_quality_source_id svc)) (live_analysis_id m)
        (ci_case_id c) (lmt_started_at m) (work_iq_hosts svc) item"
    and covered: "\<forall>scope \<in> set FABRIC_SCOPES.
      \<exists>item \<in> set (lor_evidence operational). scope \<in> set (ei_authority_scope item)"
  shows "\<exists>items. live_evidence svc m c source operational supplier quality = Inr items"
proof -
  let ?all = "lor_evidence operational @ wr_evidence supplier @ wr_evidence quality"
  have hosts: "set fabric_hosts \<subseteq> set (citation_hosts svc)" "set (work_iq_hosts svc) \<subseteq> set (citation_hosts svc)"
    by (auto simp: fabric_hosts_def citation_hosts_def work_iq_hosts_def)
  have ok: "live_item_complete (ci_case_id c) (live_analysis_id m) item \<and>
      (\<exists>u. safe_citation (citation_hosts svc) (or_empty (ei_citation_url item)) u)" if "item \<in> set ?all" for item
    using that fs(2) ss(2) qs(2) collected_safe [OF _ hosts(1)] collected_safe [OF _ hosts(2)] by auto
  have required: "require_item ?all system scope src (live_analysis_id m) (ci_case_id c) (citation_hosts svc) = Inr ()"
    if "\<exists>item \<in> set ?all. ei_source_system item = system \<and> scope \<in> set (ei_authority_scope item) \<and>
      (case src of None \<Rightarrow> True | Some i \<Rightarrow> ei_source_id item = i)" for system scope src
    unfolding require_item_Inr_iff Let_def using that ok by (auto simp: filter_empty_conv)
  have "require_item ?all ESS_FABRIC scope None (live_analysis_id m) (ci_case_id c) (citation_hosts svc) = Inr ()"
    if "scope \<in> set FABRIC_SCOPES" for scope
  proof (rule required)
    from covered that obtain item where "item \<in> set (lor_evidence operational)" "scope \<in> set (ei_authority_scope item)"
      by blast
    with fs(2) show "\<exists>item \<in> set ?all. ei_source_system item = ESS_FABRIC \<and> scope \<in> set (ei_authority_scope item) \<and>
        (case None of None \<Rightarrow> True | Some i \<Rightarrow> ei_source_id item = i)"
      by (intro bexI [of _ item]) (auto simp: collected_def)
  qed
  moreover have "require_item ?all ESS_WORK_IQ scope (Some i) (live_analysis_id m) (ci_case_id c)
      (citation_hosts svc) = Inr ()"
    if "item \<in> set ?all" "collected ESS_WORK_IQ [scope] (Some i) aid cid t hosts item" for item scope i aid cid t hosts
    by (rule required, rule bexI [OF _ that(1)]) (use that(2) in \<open>cases "ei_authority_scope item"; auto simp: collected_def\<close>)
  then have "require_item ?all ESS_WORK_IQ AS_SUPPLIER_STATEMENT (Some source) (live_analysis_id m) (ci_case_id c)
      (citation_hosts svc) = Inr ()"
    "require_item ?all ESS_WORK_IQ AS_COLLABORATION_STATEMENT (Some (lsv_quality_source_id svc)) (live_analysis_id m)
      (ci_case_id c) (citation_hosts svc) = Inr ()"
    using ss qs hd_in_set [of "wr_evidence supplier"] hd_in_set [of "wr_evidence quality"] by (metis Un_iff set_append)+
  moreover have "mapR navigable ?all = Inr (map (\<lambda>x. case navigable x of Inr y \<Rightarrow> y) ?all)"
  proof (rule mapR_total)
    fix item assume "item \<in> set ?all"
    then obtain u where "safe_citation (citation_hosts svc) (or_empty (ei_citation_url item)) u" using ok by blast
    from navigable_safe [OF this]
    show "navigable item = Inr (case navigable item of Inr y \<Rightarrow> y)" by simp
  qed
  moreover have "validate_live_collection (lor_evidence operational) ESS_FABRIC FABRIC_SCOPES None
      (live_analysis_id m) (ci_case_id c) (lmt_started_at m) fabric_hosts = Inr (lor_evidence operational)"
    "validate_live_collection (wr_evidence supplier) ESS_WORK_IQ [AS_SUPPLIER_STATEMENT] (Some source)
      (live_analysis_id m) (ci_case_id c) (lmt_started_at m) (work_iq_hosts svc) = Inr (wr_evidence supplier)"
    "validate_live_collection (wr_evidence quality) ESS_WORK_IQ [AS_COLLABORATION_STATEMENT]
      (Some (lsv_quality_source_id svc)) (live_analysis_id m) (ci_case_id c) (lmt_started_at m) (work_iq_hosts svc) =
      Inr (wr_evidence quality)"
    using fs ss qs by (simp_all add: collection_Inr_iff)
  moreover have "for_each (\<lambda>scope. require_item ?all ESS_FABRIC scope None (live_analysis_id m) (ci_case_id c)
      (citation_hosts svc)) FABRIC_SCOPES = Inr ()"
    using calculation(1) by (simp add: for_each_Inr_iff)
  ultimately show ?thesis
    by (simp add: live_evidence_def Let_def for_each_def)
qed

end
