(* ===== verification/Store_Errors.thy ===== *)
theory Store_Errors
  imports Proposal_Store
begin

text \<open>
  The store raises no \<open>WorkIQSourceError\<close>: what a failed analysis tells of a source was told by a
  source.
\<close>

section \<open>Computations without such an error\<close>

definition no_source_error :: "'a result \<Rightarrow> bool" where
  "no_source_error r \<longleftrightarrow> (\<forall>kind stage. r \<noteq> Inl (WorkIQSourceError kind stage))"

named_theorems quiet \<open>no WorkIQSourceError comes out of a computation\<close>

lemma no_source_error_Inr [quiet, simp]: "no_source_error (Inr x)"
  by (simp add: no_source_error_def)

lemma no_source_error_Inl [simp]:
  "no_source_error (Inl e) \<longleftrightarrow> (\<forall>kind stage. e \<noteq> WorkIQSourceError kind stage)"
  by (simp add: no_source_error_def)

lemma no_source_error_bindR [quiet]:
  "no_source_error r \<Longrightarrow> (\<And>x. no_source_error (f x)) \<Longrightarrow> no_source_error (bindR r f)"
  by (cases r) (simp_all add: no_source_error_def)

lemma no_source_error_require [quiet]: "no_source_error (Inl e) \<Longrightarrow> no_source_error (require b e)"
  by (simp add: require_def no_source_error_def)

lemma no_source_error_the_or [quiet]: "no_source_error (Inl e) \<Longrightarrow> no_source_error (the_or e x)"
  by (cases x) (simp_all add: no_source_error_def)

lemma no_source_error_mapR [quiet]: "(\<And>x. no_source_error (f x)) \<Longrightarrow> no_source_error (mapR f xs)"
  by (induction xs) (auto intro!: quiet)

lemma no_source_error_for_each [quiet]: "(\<And>x. no_source_error (f x)) \<Longrightarrow> no_source_error (for_each f xs)"
  unfolding for_each_def by (intro quiet)

lemma no_source_error_if [quiet]:
  "no_source_error r \<Longrightarrow> no_source_error s \<Longrightarrow> no_source_error (if b then r else s)"
  by simp

lemma no_source_error_option [quiet]:
  "no_source_error r \<Longrightarrow> (\<And>y. no_source_error (f y)) \<Longrightarrow>
   no_source_error (case x of None \<Rightarrow> r | Some y \<Rightarrow> f y)"
  by (cases x) simp_all

lemma no_source_error_prod [quiet]:
  "(\<And>y z. no_source_error (f y z)) \<Longrightarrow> no_source_error (case x of (y, z) \<Rightarrow> f y z)"
  by (cases x) simp

text \<open>The clauses that turn one exception into another.\<close>

lemma no_source_error_caught [quiet]:
  "no_source_error r \<Longrightarrow> no_source_error (violation_as msg r)"
  "no_source_error r \<Longrightarrow> no_source_error (provenance_as_integrity r)"
  "no_source_error r \<Longrightarrow> no_source_error (Inl e) \<Longrightarrow> no_source_error (integrity_as e r)"
  by (auto simp: no_source_error_def violation_as_def provenance_as_integrity_def integrity_as_def
      split: sum.splits py_error.splits)

lemma no_source_error_sum [quiet]:
  "(\<And>e. r = Inl e \<Longrightarrow> no_source_error (f e)) \<Longrightarrow> (\<And>x. no_source_error (g x)) \<Longrightarrow>
   no_source_error (case r of Inl e \<Rightarrow> f e | Inr x \<Rightarrow> g x)"
  by (cases r) simp_all

section \<open>Finance reviews\<close>

lemma no_source_error_rows [quiet]:
  "no_source_error (one_or_none rows)" "no_source_error (json_or_error x)"
  "no_source_error (insert_unique key rs r)" "no_source_error (insert_finance_row fdb row)"
  by (auto simp: one_or_none_def json_or_error_def insert_unique_def insert_finance_row_def
      intro!: quiet split: list.split)

lemma no_source_error_policy [quiet]:
  "no_source_error (require_uuid v label)" "no_source_error (require_aware d)"
  "no_source_error (require_actor actor persona source roles)"
  "no_source_error (require_proposal_submitter actor)"
  "no_source_error (validate_state r)" "no_source_error (mk_finance_review r)"
proof -
  show uuid [quiet]: "no_source_error (require_uuid v label)" for v label
    unfolding require_uuid_def by (intro quiet) simp
  show "no_source_error (require_aware d)" by (cases d) (simp_all add: require_aware_def)
  show actor [quiet]: "no_source_error (require_actor actor persona source roles)" for actor persona source roles
    unfolding require_actor_def by (intro quiet; simp)
  show "no_source_error (require_proposal_submitter actor)"
    unfolding require_proposal_submitter_def by (intro quiet)
  show state [quiet]: "no_source_error (validate_state r)" for r
    unfolding validate_state_def Let_def by (intro quiet; simp)
  show "no_source_error (mk_finance_review r)"
    unfolding mk_finance_review_def Let_def by (intro quiet; simp)
qed

lemma no_source_error_lifecycle [quiet]:
  "no_source_error (submit_finance_review i p actor now)"
  "no_source_error (resolve_finance_review r p actor ok reason now)"
  "no_source_error (supersede_finance_review r now)"
  unfolding submit_finance_review_def resolve_finance_review_def supersede_finance_review_def Let_def
  by (intro quiet; simp)+

lemma no_source_error_reading [quiet]:
  "no_source_error (from_row j db row)" "no_source_error (require_bound_analysis db r)"
  "no_source_error (get_latest j db i)" "no_source_error (get_revision j db i n)"
  "no_source_error (get_by_idempotency_key j db k)"
proof -
  show bound [quiet]: "no_source_error (require_bound_analysis db r)" for db r
    unfolding require_bound_analysis_def Let_def by (intro quiet; simp)
  show row [quiet]: "no_source_error (from_row j db row)" for j db row
    unfolding from_row_def Let_def by (intro quiet; simp)
  show "no_source_error (get_latest j db i)" "no_source_error (get_revision j db i n)"
    "no_source_error (get_by_idempotency_key j db k)"
    unfolding get_latest_def get_revision_def get_by_idempotency_key_def by (intro quiet; simp)+
qed

lemma no_source_error_current [quiet]: "no_source_error (current_finance_revision j db i)"
proof (cases "get_latest j db i")
  case (Inl e)
  with no_source_error_reading(3) [of j db i] show ?thesis
    by (cases e) (simp_all add: current_finance_revision_def)
next
  case (Inr x)
  then show ?thesis by (cases x) (simp add: current_finance_revision_def no_source_error_def)
qed

lemma no_source_error_append [quiet]:
  "no_source_error (first_revision r)" "no_source_error (next_revision previous n r)"
  "no_source_error (append_revision j db r expected k fp)"
proof -
  show first [quiet]: "no_source_error (first_revision r)" for r
    unfolding first_revision_def by (intro quiet; simp)
  show step [quiet]: "no_source_error (next_revision previous n r)" for previous n r
    unfolding next_revision_def canonical_transition_def by (intro quiet; simp)
  have plan [quiet]: "no_source_error (plan_append j db r expected k fp)"
    unfolding plan_append_def by (intro quiet; simp)
  show "no_source_error (append_revision j db r expected k fp)"
    unfolding append_revision_def
    by (rule no_source_error_bindR [OF plan]) (auto split: append_plan.split intro!: quiet)
qed

section \<open>Cases and analyses\<close>

lemma no_source_error_cases [quiet]:
  "no_source_error (require_configured_mode env m)" "no_source_error (stored_case db i)"
  "no_source_error (stored_snapshot db i)" "no_source_error (require_case_runtime env db i m)"
  "no_source_error (get_operational_snapshot env db i)"
  "no_source_error (require_case_projection_integrity row c stored)"
  "no_source_error (projection_at db i)" "no_source_error (get_projection env db i)"
  "no_source_error (update_projection_row i f db)"
  "no_source_error (canonical_operational_snapshot json s)" "no_source_error (case_model_copy g c)"
proof -
  show mode [quiet]: "no_source_error (require_configured_mode env m)" for env :: "'p store_env" and m
    unfolding require_configured_mode_def by (intro quiet; simp)
  show c [quiet]: "no_source_error (stored_case db i)" for db :: "'p case_db" and i
    unfolding stored_case_def by (intro quiet; simp)
  show s [quiet]: "no_source_error (stored_snapshot db i)" for db :: "'p case_db" and i
    unfolding stored_snapshot_def by (intro quiet; simp)
  show i [quiet]: "no_source_error (require_case_projection_integrity row c stored)" for row c stored
    unfolding require_case_projection_integrity_def by (intro quiet; simp)
  show p [quiet]: "no_source_error (projection_at db i)" for db :: "'p case_db" and i
    unfolding projection_at_def by (intro quiet)
  show "no_source_error (require_case_runtime env db i m)" "no_source_error (get_operational_snapshot env db i)"
    "no_source_error (get_projection env db i)" "no_source_error (update_projection_row i f db)"
    "no_source_error (canonical_operational_snapshot json s)"
    unfolding require_case_runtime_def get_operational_snapshot_def get_projection_def
      update_projection_row_def canonical_operational_snapshot_def
    by (intro quiet; simp)+
  show "no_source_error (case_model_copy g c)"
    unfolding case_model_copy_def Let_def by (intro quiet; simp)
qed

lemma no_source_error_analysis [quiet]:
  "no_source_error (require_analysis_provenance env db a)" "no_source_error (get_analysis env db i)"
proof -
  show provenance [quiet]: "no_source_error (require_analysis_provenance env db a)" for a
    unfolding require_analysis_provenance_def require_material_provenance_def
      require_satisfaction_provenance_def require_matching_runtime_def Let_def
    by (intro quiet; simp)
  show "no_source_error (get_analysis env db i)"
    unfolding get_analysis_def require_analysis_row_integrity_def by (intro quiet; simp)
qed

section \<open>Proposals and claims\<close>

lemma no_source_error_proposal [quiet]:
  "no_source_error (proposal_token_of db i)" "no_source_error (mk_proposal_state st)"
  "no_source_error (get_selection env db k)" "no_source_error (get_state env db i)"
  "no_source_error (cas_projection i t f db)" "no_source_error (append_review env r n k fp db)"
  "no_source_error (supersede_state env st now k op db)"
proof -
  show token [quiet]: "no_source_error (proposal_token_of db i)" for i
    unfolding proposal_token_of_def mk_proposal_token_def by (intro quiet; simp)
  show state [quiet]: "no_source_error (mk_proposal_state st)" for st
    unfolding mk_proposal_state_def by (intro quiet; simp)
  show selection [quiet]: "no_source_error (get_selection env db k)" for k
    unfolding get_selection_def decode_selection_def validate_binding_def require_executable_option_def
      require_pending_review_def require_independent_case_def Let_def
    by (intro quiet; simp)
  show append [quiet]: "no_source_error (append_review env r n k fp db)" for r n k fp
    unfolding append_review_def by (intro quiet)
  show "no_source_error (get_state env db i)" "no_source_error (cas_projection i t f db)"
    "no_source_error (supersede_state env st now k op db)"
    unfolding get_state_def cas_projection_def supersede_state_def Let_def by (intro quiet; simp)+
qed

lemma no_source_error_save [quiet]: "no_source_error (save_analysis_connection env a p now db)"
proof -
  have rows [quiet]: "no_source_error (insert_evidence_rows es db)"
    "no_source_error (insert_satisfaction_rows ss db)"
    "no_source_error (projected_values a stored p row)" for es ss stored row and db :: "'p case_db"
    unfolding insert_evidence_rows_def insert_satisfaction_rows_def projected_values_def Let_def
    by (intro quiet; simp)+
  show ?thesis unfolding save_analysis_connection_def by (intro quiet; simp)
qed

lemma no_source_error_claims [quiet]:
  "no_source_error (try_claim_analysis env i v k t l db)"
  "no_source_error (complete_analysis_claim env a c v k t now db)"
  unfolding try_claim_analysis_def complete_analysis_claim_def Let_def by (intro quiet; simp)+

end
