(* ===== verification/Live_Analysis.thy ===== *)
theory Live_Analysis
  imports Live_Evidence Store_Errors Database_History Journey
begin

text \<open>
  The application services of analysis: \<open>LiveAnalysisApplicationService.create\<close> with
  \<open>_wait_for_winner\<close> (\<open>apps/api/app/live.py\<close>) and \<open>FallbackAnalysisApplicationService\<close>
  (\<open>services/analysis/application.py\<close>).  A live analysis first claims the material it is made from,
  so that one caller asks the sources; the others wait until the winner's version is current.

  Between two of its units of work other callers may do anything to the tables: what they do is a
  parameter (\<open>live_world\<close>), as are the tables a waiting caller finds and the monotonic clock it
  reads.  Seconds are exact rationals.
\<close>

section \<open>The live service\<close>

record 'p live_world =
  lwd_before_claim :: "'p case_db \<Rightarrow> 'p case_db"
  lwd_while_analysing :: "'p case_db \<Rightarrow> 'p case_db"
  lwd_view :: "nat \<Rightarrow> 'p case_db"
  lwd_monotonic :: "nat \<Rightarrow> rat"

text \<open>\<open>SqlAlchemyStore.get_case\<close>\<close>

definition get_case :: "'p store_env \<Rightarrow> 'p case_db \<Rightarrow> string \<Rightarrow> case_instance result" where
  "get_case env db case_id =
     bindR (projection_at db case_id) (\<lambda>found.
     bindR (the_or (RecordNotFound ''case does not exist'') found) (\<lambda>row.
     bindR (json_or_error (jrow_payload row)) (\<lambda>c.
     bindR (stored_case db case_id) (\<lambda>stored.
     bindR (require_case_projection_integrity row c stored) (\<lambda>_.
     bindR (require_configured_mode env (ci_runtime_mode c)) (\<lambda>_.
     Inr c))))))"

lemma get_case_projection:
  "get_case env db case_id = bindR (get_projection env db case_id) (\<lambda>p. Inr (cpj_case p))"
  by (simp add: get_case_def get_projection_def bindR_assoc)

text \<open>The version a Case has now, if it has one.\<close>

definition current_analysis ::
    "'p store_env \<Rightarrow> 'p case_db \<Rightarrow> string \<Rightarrow> analysis_version option result" where
  "current_analysis env db case_id =
     bindR (get_projection env db case_id) (\<lambda>p.
     case cpj_current_analysis_id p of
       None \<Rightarrow> Inr None
     | Some i \<Rightarrow> bindR (get_analysis env db i) (\<lambda>a. Inr (Some a)))"

definition own_mailbox :: "authenticated_actor \<Rightarrow> case_instance \<Rightarrow> bool" where
  "own_mailbox actor c \<longleftrightarrow>
     (case ci_supplier_email c of
        None \<Rightarrow> True
      | Some s \<Rightarrow> ses_tenant_id s = acc_tenant_id (aac_content actor) \<and>
          ses_mailbox_object_id s = acc_object_id (aac_content actor))"

datatype live_start = Already_analysed analysis_version | To_analyse case_instance string

definition prepare_live ::
    "'p live_service \<Rightarrow> authenticated_actor \<Rightarrow> string \<Rightarrow> 'p case_db \<Rightarrow> live_start result" where
  "prepare_live svc actor case_id db =
     (let env = lsv_store svc in
      bindR (get_case env db case_id) (\<lambda>c.
      bindR (require (ci_runtime_mode c = RM_LIVE)
               (RuntimeModeConflict ''live analysis cannot access a fallback Case'')) (\<lambda>_.
      bindR (require (own_mailbox actor c)
               (ValueError ''bound email is outside the authenticated mailbox'')) (\<lambda>_.
      bindR (current_analysis env db case_id) (\<lambda>existing.
      case existing of
        Some a \<Rightarrow> Inr (Already_analysed a)
      | None \<Rightarrow>
          bindR (get_operational_snapshot env db case_id) (\<lambda>snapshot.
          bindR (canonical_operational_snapshot (se_snapshot_json env) snapshot) (\<lambda>material.
          Inr (To_analyse c material))))))))"

text \<open>
  \<open>_wait_for_winner\<close> from its \<open>k\<close>-th poll on.  None means that it never returns.  The tables in the
  result are those of the last poll.
\<close>

partial_function (option) wait_loop ::
    "'p live_service \<Rightarrow> 'p live_world \<Rightarrow> string \<Rightarrow> rat \<Rightarrow> nat \<Rightarrow>
     ('p case_db \<times> analysis_version result) option" where
  "wait_loop svc world case_id deadline k =
     (case current_analysis (lsv_store svc) (lwd_view world k) case_id of
        Inl _ \<Rightarrow> Some (lwd_view world k, Inl (LiveSourceUnavailable None))
      | Inr (Some a) \<Rightarrow> Some (lwd_view world k, Inr a)
      | Inr None \<Rightarrow>
          if deadline - lwd_monotonic world (Suc k) \<le> 0
          then Some (lwd_view world k, Inl (LiveSourceUnavailable None))
          else wait_loop svc world case_id deadline (Suc k))"

definition wait_for_winner ::
    "'p live_service \<Rightarrow> 'p live_world \<Rightarrow> string \<Rightarrow> ('p case_db \<times> analysis_version result) option" where
  "wait_for_winner svc world case_id =
     wait_loop svc world case_id (lwd_monotonic world 0 + lsv_wait_budget svc) 0"

text \<open>
  The three \<open>except\<close> clauses.  The claim is released when there is one to release.
\<close>

definition source_failure :: "py_error \<Rightarrow> (string \<times> string) option" where
  "source_failure e = (case e of WorkIQSourceError kind stage \<Rightarrow> Some (kind, stage) | _ \<Rightarrow> None)"

definition live_failure ::
    "'p live_service \<Rightarrow> 'p live_world \<Rightarrow> string \<Rightarrow> (string \<times> string) option \<Rightarrow> py_error \<Rightarrow> 'p case_db \<Rightarrow>
     ('p case_db \<times> analysis_version result) option" where
  "live_failure svc world case_id claim e db =
     (case e of
        RuntimeModeConflict _ \<Rightarrow> Some (db, Inl e)
      | AnalysisClaimBusy _ \<Rightarrow> wait_for_winner svc world case_id
      | _ \<Rightarrow>
          Some ((case claim of
                   None \<Rightarrow> db
                 | Some (version, claim_id) \<Rightarrow> release_analysis_claim case_id version claim_id db),
                Inl (LiveSourceUnavailable (source_failure e))))"

text \<open>
  The wait inside the \<open>try\<close> block, for a caller who did not get the claim: its failure goes through
  the same clauses.
\<close>

definition wait_claimless ::
    "'p live_service \<Rightarrow> 'p live_world \<Rightarrow> string \<Rightarrow> string \<times> string \<Rightarrow>
     ('p case_db \<times> analysis_version result) option" where
  "wait_claimless svc world case_id claim =
     (case wait_for_winner svc world case_id of
        Some (db, Inl e) \<Rightarrow> live_failure svc world case_id (Some claim) e db
      | outcome \<Rightarrow> outcome)"

definition analyse_claimed ::
    "'p live_service \<Rightarrow> live_ports \<Rightarrow> 'p live_world \<Rightarrow> authenticated_actor \<Rightarrow> live_moment \<Rightarrow>
     case_instance \<Rightarrow> string \<Rightarrow> 'p case_db \<Rightarrow> ('p case_db \<times> analysis_version result) option" where
  "analyse_claimed svc ports world actor m c material db =
     (let version = lsv_version_sha256 svc material; claim_id = lmt_claim_id m in
      case bindR (live_analysis svc ports actor m c material) (\<lambda>a.
           bindR (case_model_copy (\<lambda>c. c\<lparr>ci_status := CS_AWAITING_DECISION\<rparr>) c) (\<lambda>projected.
           complete_analysis_claim (lsv_store svc) a projected version claim_id (lmt_completed_at m)
             (lmt_now m) db)) of
        Inl e \<Rightarrow> live_failure svc world (ci_case_id c) (Some (version, claim_id)) e db
      | Inr (db', a) \<Rightarrow> Some (db', Inr a))"

definition create_live ::
    "'p live_service \<Rightarrow> live_ports \<Rightarrow> 'p live_world \<Rightarrow> authenticated_actor \<Rightarrow> live_moment \<Rightarrow> string \<Rightarrow>
     'p case_db \<Rightarrow> ('p case_db \<times> analysis_version result) option" where
  "create_live svc ports world actor m case_id db =
     (case prepare_live svc actor case_id db of
        Inl e \<Rightarrow> live_failure svc world case_id None e db
      | Inr (Already_analysed a) \<Rightarrow> Some (db, Inr a)
      | Inr (To_analyse c material) \<Rightarrow>
          let version = lsv_version_sha256 svc material; claim = (version, lmt_claim_id m);
              db0 = lwd_before_claim world db in
          case try_claim_analysis (lsv_store svc) case_id version (lmt_claim_id m) (lmt_started_at m)
                 default_claim_lease db0 of
            Inl e \<Rightarrow> live_failure svc world case_id (Some claim) e db0
          | Inr (db1, False) \<Rightarrow> wait_claimless svc world case_id claim
          | Inr (db1, True) \<Rightarrow>
              analyse_claimed svc ports world actor m c material (lwd_while_analysing world db1))"

section \<open>The fallback service\<close>

text \<open>
  \<open>FallbackAnalysisApplicationService.create\<close>; its two writes are two units of work, so the first
  one stays when the second fails.
\<close>

record fallback_moment =
  fbm_started_at :: instant
  fbm_read_again_at :: instant
  fbm_now :: instant
  fbm_analysis_uuid :: string

definition fallback_command :: "fallback_moment \<Rightarrow> case_instance \<Rightarrow> analyze_case_command" where
  "fallback_command m c =
     (let snapshot = snd (instantiate_rl001 (ci_case_id c) (ci_purpose c) (ci_runtime_mode c) None);
          analysis_id = ''RL-ANALYSIS-'' @ fbm_analysis_uuid m in
      \<lparr>cmd_analysis_id = analysis_id, cmd_case = c, cmd_corpus = CPS_DEMO_CORPUS,
       cmd_operational_snapshot = snapshot,
       cmd_evidence_items = build_rl001_evidence snapshot analysis_id (fbm_started_at m),
       cmd_standing_authorizations = [taylor_rl001], cmd_analysis_started_at = fbm_started_at m,
       cmd_created_at = max (fbm_read_again_at m) (fbm_started_at m),
       cmd_calculation_version = ''rl001-options-v1'', cmd_conflicts = [],
       cmd_conflict_resolutions = [], cmd_required_authority_scope = [],
       cmd_evidence_policy_version = EVIDENCE_POLICY_VERSION, cmd_approval_policy_version = None\<rparr>)"

definition create_fallback ::
    "'p store_env \<Rightarrow> fallback_moment \<Rightarrow> string \<Rightarrow> 'p case_db \<Rightarrow> 'p case_db \<times> analysis_version result" where
  "create_fallback env m case_id db =
     (case bindR (get_projection env db case_id) (\<lambda>projection.
           let c = cpj_case projection in
           bindR (analyze_case (se_snapshot_json env) (se_material_hash env) (fallback_command m c))
             (\<lambda>a.
           bindR (save_analysis env a None (fbm_now m) db) (\<lambda>db1. Inr (c, a, db1)))) of
        Inl e \<Rightarrow> (db, Inl e)
      | Inr (c, a, db1) \<Rightarrow>
          (case bindR (case_model_copy (\<lambda>c. c\<lparr>ci_status := CS_AWAITING_DECISION\<rparr>) c) (\<lambda>c'.
                save_case_projection env c' db1) of
             Inl e \<Rightarrow> (db1, Inl e)
           | Inr db2 \<Rightarrow> (db2, Inr a)))"


section \<open>Waiting\<close>

definition wait_over :: "'p live_service \<Rightarrow> 'p live_world \<Rightarrow> string \<Rightarrow> rat \<Rightarrow> nat \<Rightarrow> bool" where
  "wait_over svc world case_id deadline k \<longleftrightarrow>
     current_analysis (lsv_store svc) (lwd_view world k) case_id \<noteq> Inr None \<or>
     deadline \<le> lwd_monotonic world (Suc k)"

definition wait_answer :: "'p live_service \<Rightarrow> 'p live_world \<Rightarrow> string \<Rightarrow> nat \<Rightarrow> analysis_version result" where
  "wait_answer svc world case_id k =
     (case current_analysis (lsv_store svc) (lwd_view world k) case_id of
        Inr (Some a) \<Rightarrow> Inr a | _ \<Rightarrow> Inl (LiveSourceUnavailable None))"

lemma wait_loop_step:
  "wait_loop svc world i d k =
     (if wait_over svc world i d k then Some (lwd_view world k, wait_answer svc world i k)
      else wait_loop svc world i d (Suc k))"
  by (subst wait_loop.simps) (auto simp: wait_over_def wait_answer_def split: sum.splits option.splits)

lemma wait_loop_first:
  assumes "k \<le> n" and "\<And>j. k \<le> j \<Longrightarrow> j < n \<Longrightarrow> \<not> wait_over svc world i d j" and "wait_over svc world i d n"
  shows "wait_loop svc world i d k = Some (lwd_view world n, wait_answer svc world i n)"
  using assms
proof (induction k rule: inc_induct)
  case base
  then show ?case by (subst wait_loop_step) simp
next
  case (step k)
  then show ?case by (subst wait_loop_step) simp
qed

lemma wait_loop_Some:
  assumes "wait_loop svc world i d k = Some x"
  shows "\<exists>n. x = (lwd_view world n, wait_answer svc world i n)"
proof (rule wait_loop.raw_induct [OF _ assms], goal_cases)
  case (1 loop svc world i d k x)
  have "x = (lwd_view world k, wait_answer svc world i k) \<or> loop svc world i d (Suc k) = Some x"
    using 1(2) by (auto simp: wait_answer_def split: sum.splits option.splits if_splits)
  with 1(1) show ?case by blast
qed

lemma wait_for_winner_Some:
  "wait_for_winner svc world i = Some (db, r) \<Longrightarrow> \<exists>n. db = lwd_view world n \<and> r = wait_answer svc world i n"
  by (auto simp: wait_for_winner_def dest: wait_loop_Some)

text \<open>While nothing has ended the wait, the clock is one interval further with every poll.\<close>

lemma waiting_clock:
  assumes mono: "\<And>k. lwd_monotonic world k \<le> lwd_monotonic world (Suc k)"
    and sleep: "\<And>k. lwd_monotonic world (Suc k) < d \<Longrightarrow>
      min d (lwd_monotonic world (Suc k) + p) \<le> lwd_monotonic world (Suc (Suc k))"
    and before: "\<And>i. i < j \<Longrightarrow> lwd_monotonic world (Suc i) < d"
  shows "min d (lwd_monotonic world 0 + of_nat j * p) \<le> lwd_monotonic world (Suc j)"
  using before
proof (induction j)
  case 0
  then show ?case using mono [of 0] by simp
next
  case (Suc j)
  then have "min d (lwd_monotonic world 0 + of_nat j * p) \<le> lwd_monotonic world (Suc j)"
    and "lwd_monotonic world (Suc j) < d" by simp_all
  with sleep [of j] show ?case by (simp add: algebra_simps min_def split: if_splits)
qed

section \<open>What storing an analysis leaves in the tables\<close>

lemma filter_map_keeps:
  "(\<And>r. k (f r) = k r) \<Longrightarrow> filter (\<lambda>r. k r = i) (map f xs) = map f (filter (\<lambda>r. k r = i) xs)"
  by (simp add: filter_map comp_def)

text \<open>Two projection rows that read alike: they differ in the proposal at most.\<close>

definition reads_alike :: "case_projection_row \<Rightarrow> case_projection_row \<Rightarrow> bool" where
  "reads_alike r r' \<longleftrightarrow>
     r'\<lparr>jrow_current_selection_id := jrow_current_selection_id r,
        jrow_proposal_generation := jrow_proposal_generation r\<rparr> = r"

lemma reads_alike_sel:
  assumes "reads_alike r r'"
  shows "jrow_case_id r' = jrow_case_id r" and "jrow_purpose r' = jrow_purpose r"
    and "jrow_runtime_mode r' = jrow_runtime_mode r" and "jrow_status r' = jrow_status r"
    and "jrow_scenario_effective_time r' = jrow_scenario_effective_time r"
    and "jrow_current_analysis_id r' = jrow_current_analysis_id r"
    and "jrow_current_decision_id r' = jrow_current_decision_id r"
    and "jrow_payload r' = jrow_payload r"
  using assms unfolding reads_alike_def by (cases r; cases r'; simp)+

lemma set_projection_row:
  assumes "projection_at db i = Inr (Some row)" and "update_projection_row i f db = Inr db'"
    and "\<And>r. jrow_case_id (f r) = jrow_case_id r"
  shows "\<exists>row'. projection_at db' i = Inr (Some row') \<and> reads_alike (f row) row' \<and>
    db' = db\<lparr>cdb_projections := cdb_projections db'\<rparr>"
proof -
  have "filter (\<lambda>r. jrow_case_id r = i) (cdb_projections db) = [row]"
    using assms(1) by (auto simp: projection_at_def dest: one_or_none_Some)
  moreover from this have "jrow_case_id row = i" by (rule filter_one)
  moreover have db': "db' = set_projection i f db"
    using update_projection_row_Inr [OF assms(2)] by simp
  ultimately have "projection_at db' i = Inr (Some (f row))"
    unfolding db' projection_at_def set_projection_def
    by (simp add: filter_map_keeps [where k = jrow_case_id] assms(3) one_or_none_def)
  then show ?thesis by (auto simp: reads_alike_def db' set_projection_def)
qed

lemma cas_projection_row:
  assumes "projection_at db i = Inr (Some row)" and "cas_projection i t f db = Inr db'"
    and "\<And>r. jrow_case_id (f r) = jrow_case_id r"
  shows "\<exists>row' n. projection_at db' i = Inr (Some row') \<and>
    row' = (f row)\<lparr>jrow_proposal_generation := n\<rparr> \<and> db' = db\<lparr>cdb_projections := cdb_projections db'\<rparr>"
proof -
  define hit where "hit = (\<lambda>r. jrow_case_id r = i \<and> token_of_row r = t)"
  define g where "g = (\<lambda>r. if hit r then (f r)\<lparr>jrow_proposal_generation := pt_generation t + 1\<rparr> else r)"
  have one: "filter (\<lambda>r. jrow_case_id r = i) (cdb_projections db) = [row]"
    using assms(1) by (auto simp: projection_at_def dest: one_or_none_Some)
  have db': "db' = db\<lparr>cdb_projections := map g (cdb_projections db)\<rparr>"
    and len: "length (filter hit (cdb_projections db)) = 1"
    using assms(2) unfolding cas_projection_def Let_def hit_def [symmetric] g_def
    by (auto simp: result_simps)
  have "filter hit (cdb_projections db) = filter hit (filter (\<lambda>r. jrow_case_id r = i) (cdb_projections db))"
    by (auto simp: hit_def intro: filter_cong)
  with len one have "hit row" by (auto split: if_splits)
  moreover have "jrow_case_id (g r) = jrow_case_id r" for r by (simp add: g_def assms(3))
  then have "projection_at db' i = Inr (Some (g row))"
    unfolding db' projection_at_def
    by (simp add: filter_map_keeps [where k = jrow_case_id] one one_or_none_def)
  ultimately show ?thesis by (auto simp: g_def db')
qed

lemma append_review_tables:
  "append_review env r n k fp db = Inr (db', x) \<Longrightarrow> db' = db\<lparr>cdb_reviews := cdb_reviews db'\<rparr>"
  by (auto simp: append_review_def elim!: bindR_InrE split: prod.splits)

lemma supersede_tables:
  "supersede_state env s now i op db = Inr db' \<Longrightarrow> db' = db\<lparr>cdb_reviews := cdb_reviews db'\<rparr>"
  by (auto simp: supersede_state_def elim!: bindR_InrE dest: append_review_tables
      split: option.splits prod.splits)

lemma save_connection_effect:
  assumes "save_analysis_connection env a p now db = Inr db'"
  obtains stored row f row' where
    "require_analysis_provenance env db a = Inr ()" "stored_case db (av_case_id a) = Inr stored"
    "projection_at db (av_case_id a) = Inr (Some row)" "projected_values a stored p row = Inr f"
    "projection_at db' (av_case_id a) = Inr (Some row')" "reads_alike (f row) row'"
    "cdb_cases db' = cdb_cases db" "cdb_snapshots db' = cdb_snapshots db"
    "cdb_claims db' = cdb_claims db"
    "cdb_analyses db' = cdb_analyses db @ [analysis_row_of a]"
    "av_analysis_id a \<notin> nrow_analysis_id ` set (cdb_analyses db)"
proof -
  from assms obtain c st rows db1 db2 row f where
    prov: "require_analysis_provenance env db a = Inr ()"
    and c: "stored_case db (av_case_id a) = Inr c"
    and rows: "insert_unique nrow_analysis_id (cdb_analyses db) (analysis_row_of a) = Inr rows"
    and db1: "insert_evidence_rows (map (evidence_row_of (av_analysis_id a)) (av_evidence_items a))
      (db\<lparr>cdb_analyses := rows\<rparr>) = Inr db1"
    and db2: "insert_satisfaction_rows
      (map (\<lambda>s. (satisfaction_row_of None s)\<lparr>frow_analysis_id := av_analysis_id a\<rparr>)
        (av_approval_satisfactions a)) db1 = Inr db2"
    and row: "bindR (projection_at db2 (av_case_id a)) (\<lambda>found.
      the_or (RecordNotFound ''case projection does not exist'') found) = Inr row"
    and f: "projected_values a c p row = Inr f"
    and db': "(case st of
       None \<Rightarrow> update_projection_row (av_case_id a) f db2
     | Some state \<Rightarrow>
         bindR (cas_projection (av_case_id a) (pst_token state)
                  (\<lambda>r. (f r)\<lparr>jrow_current_selection_id := None\<rparr>) db2) (\<lambda>db3.
         supersede_state env state now (av_analysis_id a) ''analysis-supersede'' db3)) = Inr db'"
    unfolding save_analysis_connection_def by (elim bindR_InrE) (rule that; simp)
  have 2: "db2 = db\<lparr>cdb_analyses := rows, cdb_evidence := cdb_evidence db2,
      cdb_satisfactions := cdb_satisfactions db2\<rparr>"
    using db1 db2 by (auto simp: insert_evidence_rows_def insert_satisfaction_rows_def Let_def split: if_splits)
  have row2: "projection_at db2 (av_case_id a) = Inr (Some row)"
    using row by (auto simp: result_simps)
  have at: "projection_at db (av_case_id a) = Inr (Some row)"
    using row2 by (subst (asm) 2) (simp add: projection_at_def)
  have f_id: "jrow_case_id (f r) = jrow_case_id r" for r using projected_values_keeps [OF f] by simp
  have "\<exists>row'. projection_at db' (av_case_id a) = Inr (Some row') \<and> reads_alike (f row) row' \<and>
      db' = db2\<lparr>cdb_projections := cdb_projections db', cdb_reviews := cdb_reviews db'\<rparr>"
  proof (cases st)
    case None
    with db' have "update_projection_row (av_case_id a) f db2 = Inr db'" by simp
    from set_projection_row [OF row2 this f_id] show ?thesis
      by (elim exE conjE) (intro exI conjI; (assumption | (erule ssubst, simp)))
  next
    case (Some state)
    with db' obtain db3 where
      3: "cas_projection (av_case_id a) (pst_token state)
        (\<lambda>r. (f r)\<lparr>jrow_current_selection_id := None\<rparr>) db2 = Inr db3"
      and 4: "supersede_state env state now (av_analysis_id a) ''analysis-supersede'' db3 = Inr db'"
      by (auto elim!: bindR_InrE)
    from cas_projection_row [OF row2 3] f_id obtain row' n where
      "projection_at db3 (av_case_id a) = Inr (Some row')"
      and row': "row' = (f row)\<lparr>jrow_current_selection_id := None, jrow_proposal_generation := n\<rparr>"
      and t3: "db3 = db2\<lparr>cdb_projections := cdb_projections db3\<rparr>" by auto
    moreover have t4: "db' = db3\<lparr>cdb_reviews := cdb_reviews db'\<rparr>" by (rule supersede_tables [OF 4])
    moreover from arg_cong [OF t4, of cdb_projections]
    have "projection_at db' i = projection_at db3 i" for i by (simp add: projection_at_def)
    moreover have "db' = db2\<lparr>cdb_projections := cdb_projections db', cdb_reviews := cdb_reviews db'\<rparr>"
      by (subst t4, subst t3, subst (2) t4) simp
    moreover have "reads_alike (f row) row'" by (simp add: row' reads_alike_def)
    ultimately show ?thesis by auto
  qed
  then obtain row' where row': "projection_at db' (av_case_id a) = Inr (Some row')" "reads_alike (f row) row'"
    and t: "db' = db2\<lparr>cdb_projections := cdb_projections db', cdb_reviews := cdb_reviews db'\<rparr>" by blast
  have "cdb_cases db' = cdb_cases db" "cdb_snapshots db' = cdb_snapshots db"
    "cdb_claims db' = cdb_claims db" "cdb_analyses db' = rows"
    by (subst t, subst 2, simp)+
  then show ?thesis
    using insert_unique_Inr [OF rows]
    by (intro that [OF prov c at f row']) (simp_all, simp add: analysis_row_of_def)
qed

lemma stored_case_cong: "cdb_cases db' = cdb_cases db \<Longrightarrow> stored_case db' i = stored_case db i"
  by (simp add: stored_case_def)

lemma provenance_cong:
  assumes "cdb_cases db' = cdb_cases db" and "cdb_snapshots db' = cdb_snapshots db"
  shows "require_analysis_provenance env db' a = require_analysis_provenance env db a"
  unfolding require_analysis_provenance_def require_case_runtime_def stored_snapshot_def
    stored_case_cong [OF assms(1)] assms(2) ..

lemma get_analysis_cong:
  assumes "cdb_cases db' = cdb_cases db" and "cdb_snapshots db' = cdb_snapshots db"
    and "cdb_analyses db' = cdb_analyses db"
  shows "get_analysis env db' = get_analysis env db"
  by (rule ext) (simp add: get_analysis_def provenance_cong [OF assms(1,2)] assms(3))

text \<open>The new row is one that the Case reads from.\<close>

lemma projection_integrity_cong:
  assumes "require_case_projection_integrity row c stored = Inr ()"
    and "jrow_case_id row' = jrow_case_id row" "jrow_purpose row' = jrow_purpose row"
    "jrow_runtime_mode row' = jrow_runtime_mode row"
    "jrow_scenario_effective_time row' = jrow_scenario_effective_time row"
    and "jrow_status row' = case_status_value (ci_status c')" and "c'\<lparr>ci_status := ci_status c\<rparr> = c"
  shows "require_case_projection_integrity row' c' stored = Inr ()"
proof -
  have "c = c'\<lparr>ci_status := ci_status c\<rparr>" using assms(7) by simp
  then have "ci_case_id c = ci_case_id c'" "ci_purpose c = ci_purpose c'"
    "ci_runtime_mode c = ci_runtime_mode c'" "ci_template_id c = ci_template_id c'"
    "ci_scenario_effective_time c = ci_scenario_effective_time c'"
    "ci_scenario_timezone c = ci_scenario_timezone c'" "ci_supplier_email c = ci_supplier_email c'"
    "ci_presenter_run_id c = ci_presenter_run_id c'"
    "effective_workflow_version c = effective_workflow_version c'"
    by (cases c, cases c', simp add: effective_workflow_version_def)+
  with assms(1-6) show ?thesis
    by (auto simp: require_case_projection_integrity_def require_Inr_iff)
qed

lemma projected_row_reads:
  assumes "projected_values a stored p row = Inr f"
    and "json_or_error (jrow_payload row) = Inr c0"
    and "require_case_projection_integrity row c0 stored = Inr ()"
  shows "\<exists>c'. jrow_payload (f row) = Some c' \<and> require_case_projection_integrity (f row) c' stored = Inr () \<and>
    jrow_current_analysis_id (f row) = Some (av_analysis_id a)"
proof -
  have ok: "require_case_projection_integrity
      (row\<lparr>jrow_status := case_status_value (ci_status c), jrow_payload := Some c\<rparr>) c stored = Inr ()"
    if "p = Some c" for c
    using assms(1) that by (auto simp: projected_values_def elim!: bindR_InrE)
  have c0: "jrow_payload row = Some c0" using assms(2) by (simp add: json_or_error_def result_simps)
  have s0: "jrow_status row = case_status_value (ci_status c0)"
    using assms(3) by (simp add: require_case_projection_integrity_def require_Inr_iff)
  define written where "written = (\<lambda>final. row\<lparr>jrow_status := case_status_value (ci_status final),
    jrow_payload := Some final, jrow_current_analysis_id := Some (av_analysis_id a),
    jrow_current_analysis_hash := Some (av_material_hash a)\<rparr>)"
  have same: "row\<lparr>jrow_current_analysis_id := Some (av_analysis_id a),
      jrow_current_analysis_hash := Some (av_material_hash a)\<rparr> = written c0"
    using c0 s0 unfolding written_def by (cases row) simp
  have "f row = written c0 \<or> f row = written (c0\<lparr>ci_status := CS_REANALYSIS_REQUIRED\<rparr>) \<or>
      (\<exists>c. p = Some c \<and> f row = written c)"
    using assms(1,2) same
    by (cases p) (auto simp: projected_values_def result_simps written_def split: if_splits)
  then obtain final where f: "f row = written final"
    and "final = c0 \<or> final = c0\<lparr>ci_status := CS_REANALYSIS_REQUIRED\<rparr> \<or> p = Some final" by blast
  then have "require_case_projection_integrity (f row) final stored = Inr ()"
    using projection_integrity_cong [OF ok, of final "f row" final]
      projection_integrity_cong [OF assms(3), of "f row" final]
    by (auto simp: written_def)
  with f show ?thesis by (simp add: written_def)
qed

lemma get_projection_Inr:
  assumes "get_projection env db i = Inr p"
  obtains row c stored where "projection_at db i = Inr (Some row)"
    "json_or_error (jrow_payload row) = Inr c" "stored_case db i = Inr stored"
    "require_case_projection_integrity row c stored = Inr ()"
    "require_configured_mode env (ci_runtime_mode c) = Inr ()"
  using assms unfolding get_projection_def
  by (elim bindR_InrE) (rule that; auto simp: result_simps)

lemma get_projection_intro:
  assumes "projection_at db i = Inr (Some row)" and "jrow_payload row = Some c"
    and "stored_case db i = Inr stored" and "require_case_projection_integrity row c stored = Inr ()"
    and "require_configured_mode env (ci_runtime_mode c) = Inr ()"
  shows "\<exists>p. get_projection env db i = Inr p \<and> cpj_case p = c \<and>
    cpj_current_analysis_id p = jrow_current_analysis_id row"
  using assms by (simp add: get_projection_def json_or_error_def)

lemma saved_analysis_is_current:
  assumes save: "save_analysis_connection env a q now db = Inr db'"
    and before: "get_projection env db (av_case_id a) = Inr p"
  shows "current_analysis env db' (av_case_id a) = Inr (Some a)"
proof -
  from save obtain stored row f row' where
    prov: "require_analysis_provenance env db a = Inr ()" and st: "stored_case db (av_case_id a) = Inr stored"
    and row: "projection_at db (av_case_id a) = Inr (Some row)"
    and f: "projected_values a stored q row = Inr f"
    and row': "projection_at db' (av_case_id a) = Inr (Some row')" "reads_alike (f row) row'"
    and same: "cdb_cases db' = cdb_cases db" "cdb_snapshots db' = cdb_snapshots db"
    and rows: "cdb_analyses db' = cdb_analyses db @ [analysis_row_of a]"
      "av_analysis_id a \<notin> nrow_analysis_id ` set (cdb_analyses db)"
    by (rule save_connection_effect)
  from before obtain c0 where c0: "json_or_error (jrow_payload row) = Inr c0"
    "require_case_projection_integrity row c0 stored = Inr ()"
    "require_configured_mode env (ci_runtime_mode c0) = Inr ()"
    by (rule get_projection_Inr) (use row st in auto)
  from projected_row_reads [OF f c0(1,2)] obtain c' where c': "jrow_payload (f row) = Some c'"
    "require_case_projection_integrity (f row) c' stored = Inr ()"
    "jrow_current_analysis_id (f row) = Some (av_analysis_id a)" by blast
  note sel = reads_alike_sel [OF row'(2)]
  have "require_case_projection_integrity row' c' stored = Inr ()"
    using c'(2) by (rule projection_integrity_cong)
      (use c'(2) sel in \<open>simp_all add: require_case_projection_integrity_def require_Inr_iff\<close>)
  moreover have "ci_runtime_mode c' = ci_runtime_mode c0"
    using c'(2) c0(2) by (simp add: require_case_projection_integrity_def require_Inr_iff)
  ultimately have "\<exists>p. get_projection env db' (av_case_id a) = Inr p \<and>
      cpj_current_analysis_id p = Some (av_analysis_id a)"
    using get_projection_intro [OF row'(1), of c' stored env] c' c0(3) sel st stored_case_cong [OF same(1)]
    by auto
  moreover have "filter (\<lambda>r. nrow_analysis_id r = av_analysis_id a) (cdb_analyses db') = [analysis_row_of a]"
    using rows by (auto simp: analysis_row_of_def filter_empty_conv image_iff)
  then have "get_analysis env db' (av_analysis_id a) = Inr a"
    using prov provenance_cong [OF same, of env a]
    by (simp add: get_analysis_def one_or_none_def json_or_error_def analysis_row_of_def
        require_analysis_row_integrity_def require_def provenance_as_integrity_def)
  ultimately show ?thesis by (auto simp: current_analysis_def)
qed

lemma completed_analysis:
  assumes "complete_analysis_claim env a c version claim_id completed_at now db = Inr (db', b)"
  obtains db1 row where "b = a" "save_analysis_connection env a (Some c) now db = Inr db1"
    "db' = db1\<lparr>cdb_claims := cdb_claims db'\<rparr>" "row \<in> set (cdb_claims db)"
    "grow_case_id row = av_case_id a" "grow_material_version row = version" "grow_claim_id row = claim_id"
    "completed_at \<le> grow_claim_expires_at row"
    "\<forall>r \<in> set (cdb_claims db'). \<not> (grow_case_id r = av_case_id a \<and> grow_material_version r = version \<and>
       grow_claim_id r = claim_id)"
proof -
  from assms obtain found db1 where
    f: "one_or_none (filter (\<lambda>r. grow_case_id r = av_case_id a \<and> grow_material_version r = version)
          (cdb_claims db)) = Inr found"
    and ok: "case found of None \<Rightarrow> False
      | Some r \<Rightarrow> grow_claim_id r = claim_id \<and> completed_at \<le> grow_claim_expires_at r"
    and s: "save_analysis_connection env a (Some c) now db = Inr db1" and "b = a"
    and db': "db' = db1\<lparr>cdb_claims := filter (\<lambda>r. \<not> (grow_case_id r = av_case_id a \<and>
      grow_material_version r = version \<and> grow_claim_id r = claim_id)) (cdb_claims db1)\<rparr>"
    by (auto simp: complete_analysis_claim_def result_simps Let_def elim!: bindR_InrE)
  from ok obtain row where row: "found = Some row" by (cases found) auto
  with f have "filter (\<lambda>r. grow_case_id r = av_case_id a \<and> grow_material_version r = version)
      (cdb_claims db) = [row]" by (auto dest: one_or_none_Some)
  then have "row \<in> set (filter (\<lambda>r. grow_case_id r = av_case_id a \<and> grow_material_version r = version)
      (cdb_claims db))" by simp
  then show ?thesis using ok row db' by (intro that [OF \<open>b = a\<close> s, of row]) auto
qed

lemma get_projection_claims:
  "get_projection env (db\<lparr>cdb_claims := cs\<rparr>) i = get_projection env db i"
proof -
  have "projection_at (db\<lparr>cdb_claims := cs\<rparr>) i = projection_at db i"
    "stored_case (db\<lparr>cdb_claims := cs\<rparr>) i = stored_case db i"
    "planning_error (db\<lparr>cdb_claims := cs\<rparr>) d = planning_error db d" for d
    by (simp_all add: projection_at_def stored_case_def planning_error_def)
  then show ?thesis by (simp only: get_projection_def)
qed

lemma current_analysis_claims [simp]:
  "current_analysis env (db\<lparr>cdb_claims := cs\<rparr>) i = current_analysis env db i"
proof -
  have "get_analysis env (db\<lparr>cdb_claims := cs\<rparr>) = get_analysis env db"
    by (rule get_analysis_cong) simp_all
  then show ?thesis by (simp only: current_analysis_def get_projection_claims)
qed

section \<open>How a call ends\<close>

text \<open>Tables that differ in the claims at most.\<close>

definition claims_only :: "'p case_db \<Rightarrow> 'p case_db \<Rightarrow> bool" where
  "claims_only db db' \<longleftrightarrow> db' = db\<lparr>cdb_claims := cdb_claims db'\<rparr>"

lemma claims_only_refl [simp]: "claims_only db db"
  by (simp add: claims_only_def)

lemma release_claims_only [simp]: "claims_only db (release_analysis_claim i v k db)"
  by (simp add: claims_only_def release_analysis_claim_def)

lemma try_claim_claims_only: "try_claim_analysis env i v k t l db = Inr (db', b) \<Longrightarrow> claims_only db db'"
  by (auto simp: try_claim_analysis_def claims_only_def Let_def elim!: bindR_InrE split: if_splits)

text \<open>The tables a call may find: when it starts, when it claims, when its sources have answered, at a poll.\<close>

definition live_tables :: "'p live_world \<Rightarrow> 'p case_db \<Rightarrow> 'p case_db set" where
  "live_tables world db =
     {db, lwd_before_claim world db} \<union> range (lwd_view world) \<union>
     lwd_while_analysing world ` {db1. claims_only (lwd_before_claim world db) db1}"

definition boundary_error :: "py_error \<Rightarrow> bool" where
  "boundary_error e \<longleftrightarrow> (\<exists>t. e = RuntimeModeConflict t) \<or> (\<exists>s. e = LiveSourceUnavailable s)"

lemma boundary_error_simps [simp]:
  "boundary_error (RuntimeModeConflict t)" "boundary_error (LiveSourceUnavailable s)"
  by (simp_all add: boundary_error_def)

text \<open>An outcome that was not made by this call: a failure, or a version that was current already.\<close>

definition not_own ::
    "'p live_service \<Rightarrow> string \<Rightarrow> 'p case_db set \<Rightarrow> 'p case_db \<Rightarrow> analysis_version result \<Rightarrow> bool" where
  "not_own svc case_id tables db' r \<longleftrightarrow>
     (case r of
        Inl e \<Rightarrow> boundary_error e \<and> (\<exists>seen \<in> tables. claims_only seen db')
      | Inr a \<Rightarrow> db' \<in> tables \<and> current_analysis (lsv_store svc) db' case_id = Inr (Some a))"

lemma wait_not_own:
  assumes "wait_for_winner svc world i = Some (db', r)"
  shows "not_own svc i (live_tables world db) db' r"
proof -
  obtain n where n: "db' = lwd_view world n" "r = wait_answer svc world i n"
    using wait_for_winner_Some [OF assms] by blast
  have "db' \<in> live_tables world db" by (simp add: live_tables_def n)
  then show ?thesis
    unfolding not_own_def n wait_answer_def
    by (auto split: sum.splits option.splits intro: bexI [where x = "lwd_view world n"])
qed

lemma live_failure_not_own:
  assumes "live_failure svc world i claim e seen = Some (db', r)" and "seen \<in> live_tables world db"
  shows "not_own svc i (live_tables world db) db' r"
proof (cases "\<exists>t. e = AnalysisClaimBusy t")
  case True
  then show ?thesis using assms(1) wait_not_own [of svc world i db' r db] by (auto simp: live_failure_def)
next
  case False
  then have "claims_only seen db' \<and> (\<exists>x. r = Inl x \<and> boundary_error x)"
    using assms(1) by (cases e) (auto simp: live_failure_def split: option.splits prod.splits)
  with assms(2) show ?thesis by (auto simp: not_own_def)
qed

lemma wait_claimless_not_own:
  assumes "wait_claimless svc world i claim = Some (db', r)"
  shows "not_own svc i (live_tables world db) db' r"
proof (cases "wait_for_winner svc world i")
  case None
  with assms show ?thesis by (simp add: wait_claimless_def)
next
  case (Some outcome)
  obtain w x where w: "outcome = (w, x)" by (cases outcome)
  have "w \<in> live_tables world db"
    using wait_for_winner_Some [OF Some [unfolded w]] by (auto simp: live_tables_def)
  then show ?thesis
    using assms Some w live_failure_not_own [of svc world i "Some claim" _ w db' r db]
      wait_not_own [of svc world i db' r db]
    by (cases x) (auto simp: wait_claimless_def)
qed

text \<open>The version a call has made and stored itself.\<close>

definition own_version ::
    "'p live_service \<Rightarrow> live_ports \<Rightarrow> authenticated_actor \<Rightarrow> live_moment \<Rightarrow> string \<Rightarrow> 'p case_db \<Rightarrow>
     'p case_db \<Rightarrow> 'p case_db \<Rightarrow> analysis_version \<Rightarrow> bool" where
  "own_version svc ports actor m case_id db seen db' a \<longleftrightarrow>
     (\<exists>c material projected.
        prepare_live svc actor case_id db = Inr (To_analyse c material) \<and>
        live_analysis svc ports actor m c material = Inr a \<and>
        projected = c\<lparr>ci_status := CS_AWAITING_DECISION\<rparr> \<and>
        complete_analysis_claim (lsv_store svc) a projected (lsv_version_sha256 svc material)
          (lmt_claim_id m) (lmt_completed_at m) (lmt_now m) seen = Inr (db', a))"

lemma analyse_claimed_cases:
  assumes "analyse_claimed svc ports world actor m c material seen = Some (db', r)"
    and "prepare_live svc actor case_id db = Inr (To_analyse c material)"
    and "seen \<in> live_tables world db"
  shows "not_own svc (ci_case_id c) (live_tables world db) db' r \<or>
    (\<exists>a. r = Inr a \<and> own_version svc ports actor m case_id db seen db' a)"
proof (cases "bindR (live_analysis svc ports actor m c material) (\<lambda>a.
    bindR (case_model_copy (\<lambda>c. c\<lparr>ci_status := CS_AWAITING_DECISION\<rparr>) c) (\<lambda>projected.
    complete_analysis_claim (lsv_store svc) a projected (lsv_version_sha256 svc material)
      (lmt_claim_id m) (lmt_completed_at m) (lmt_now m) seen))")
  case (Inl e)
  with assms(1) have "live_failure svc world (ci_case_id c)
      (Some (lsv_version_sha256 svc material, lmt_claim_id m)) e seen = Some (db', r)"
    by (simp add: analyse_claimed_def Let_def)
  from live_failure_not_own [OF this assms(3)] show ?thesis by blast
next
  case (Inr y)
  obtain b where b: "y = (db', b)" "r = Inr b"
    using assms(1) Inr by (cases y) (simp add: analyse_claimed_def Let_def)
  from Inr obtain a where a: "live_analysis svc ports actor m c material = Inr a"
    and compl: "complete_analysis_claim (lsv_store svc) a (c\<lparr>ci_status := CS_AWAITING_DECISION\<rparr>)
      (lsv_version_sha256 svc material) (lmt_claim_id m) (lmt_completed_at m) (lmt_now m) seen = Inr (db', b)"
    unfolding b by (auto elim!: bindR_InrE simp: case_model_copy_Inr_iff)
  have "b = a" by (rule completed_analysis [OF compl])
  with a compl assms(2) b(2) show ?thesis by (auto simp: own_version_def)
qed

lemma get_case_id: "get_case env db i = Inr c \<Longrightarrow> ci_case_id c = i"
  by (auto simp: get_case_projection get_projection_def projection_at_def require_case_projection_integrity_def
      result_simps dest!: one_or_none_Some filter_one)

lemma prepare_live_To_analyse:
  assumes "prepare_live svc actor i db = Inr (To_analyse c material)"
  shows "ci_case_id c = i" and "ci_runtime_mode c = RM_LIVE" and "own_mailbox actor c"
    and "current_analysis (lsv_store svc) db i = Inr None"
  using assms by (auto simp: prepare_live_def Let_def get_case_id elim!: bindR_InrE
      simp: require_Inr_iff split: option.splits)

lemma create_live_cases:
  assumes "create_live svc ports world actor m case_id db = Some (db', r)"
  shows "not_own svc case_id (live_tables world db) db' r \<or>
    (\<exists>seen a. seen \<in> live_tables world db \<and> r = Inr a \<and> own_version svc ports actor m case_id db seen db' a)"
proof (cases "prepare_live svc actor case_id db")
  case (Inl e)
  have "db \<in> live_tables world db" by (simp add: live_tables_def)
  with Inl assms show ?thesis by (auto simp: create_live_def intro: live_failure_not_own)
next
  case prep: (Inr start)
  show ?thesis
  proof (cases start)
    case (Already_analysed a)
    with prep have "current_analysis (lsv_store svc) db case_id = Inr (Some a)"
      by (auto simp: prepare_live_def Let_def elim!: bindR_InrE split: option.splits)
    with assms prep Already_analysed show ?thesis
      by (auto simp: create_live_def not_own_def live_tables_def)
  next
    case (To_analyse c material)
    then have id: "ci_case_id c = case_id"
      using prepare_live_To_analyse(1) prep by metis
    let ?db0 = "lwd_before_claim world db" and ?claim = "(lsv_version_sha256 svc material, lmt_claim_id m)"
    have db0: "?db0 \<in> live_tables world db" by (simp add: live_tables_def)
    show ?thesis
    proof (cases "try_claim_analysis (lsv_store svc) case_id (fst ?claim) (lmt_claim_id m)
        (lmt_started_at m) default_claim_lease ?db0")
      case (Inl e)
      with assms prep To_analyse have "live_failure svc world case_id (Some ?claim) e ?db0 = Some (db', r)"
        by (simp add: create_live_def Let_def)
      from live_failure_not_own [OF this db0] show ?thesis by blast
    next
      case (Inr x)
      obtain db1 mine where x: "x = (db1, mine)" by (cases x)
      show ?thesis
      proof (cases mine)
        case False
        with assms prep To_analyse Inr x have "wait_claimless svc world case_id ?claim = Some (db', r)"
          by (simp add: create_live_def Let_def)
        from wait_claimless_not_own [OF this] show ?thesis by blast
      next
        case True
        with assms prep To_analyse Inr x have
          "analyse_claimed svc ports world actor m c material (lwd_while_analysing world db1) = Some (db', r)"
          by (simp add: create_live_def Let_def)
        moreover have "lwd_while_analysing world db1 \<in> live_tables world db"
          using try_claim_claims_only [OF Inr [unfolded x]] by (auto simp: live_tables_def)
        ultimately show ?thesis
          using analyse_claimed_cases [where case_id = case_id and db = db] prep To_analyse id by blast
      qed
    qed
  qed
qed

section \<open>What a failure tells\<close>








section \<open>The claim\<close>

text \<open>A claim that has not expired is not taken over.\<close>

lemma live_claim_stays:
  assumes "distinct (map (\<lambda>r. (grow_case_id r, grow_material_version r)) (cdb_claims db))"
    and "row \<in> set (cdb_claims db)" "grow_case_id row = i" "grow_material_version row = v"
    and "t \<le> grow_claim_expires_at row"
  shows "try_claim_analysis env i v k t l db \<noteq> Inr (db', True)"
proof
  assume "try_claim_analysis env i v k t l db = Inr (db', True)"
  moreover have "\<not> (grow_case_id r = i \<and> grow_material_version r = v \<and> grow_claim_expires_at r < t)"
    if r: "r \<in> set (cdb_claims db)" for r
  proof
    assume "grow_case_id r = i \<and> grow_material_version r = v \<and> grow_claim_expires_at r < t"
    with assms r have "r = row" by (auto simp: distinct_map dest: inj_onD)
    with assms(5) \<open>grow_case_id r = i \<and> _\<close> show False by simp
  qed
  then have "filter (\<lambda>r. grow_case_id r = i \<and> grow_material_version r = v \<and> grow_claim_expires_at r < t)
      (cdb_claims db) = []" by (simp add: filter_empty_conv)
  ultimately show False
    using assms(2-4) by (auto simp: try_claim_analysis_def Let_def elim!: bindR_InrE split: if_splits)
qed

section \<open>The fallback\<close>

lemma save_case_projection_reads:
  assumes save: "save_case_projection env c db = Inr db'"
    and "current_analysis env db (ci_case_id c) = Inr (Some a)"
  shows "get_case env db' (ci_case_id c) = Inr c \<and> current_analysis env db' (ci_case_id c) = Inr (Some a)"
proof -
  let ?i = "ci_case_id c"
  from assms(2) obtain p aid where p: "get_projection env db ?i = Inr p"
    and aid: "cpj_current_analysis_id p = Some aid" "get_analysis env db aid = Inr a"
    by (auto simp: current_analysis_def elim!: bindR_InrE split: option.splits)
  from p obtain row where row: "projection_at db ?i = Inr (Some row)"
    "cpj_current_analysis_id p = jrow_current_analysis_id row"
    by (auto simp: get_projection_def result_simps)
  from save obtain stored f where
    st: "stored_case db ?i = Inr stored" "ci_runtime_mode stored = ci_runtime_mode c"
    and mode: "require_configured_mode env (ci_runtime_mode c) = Inr ()"
    and same: "effective_workflow_version c = effective_workflow_version stored"
      "ci_template_id c = ci_template_id stored \<and> ci_purpose c = ci_purpose stored \<and>
       ci_scenario_effective_time c = ci_scenario_effective_time stored \<and>
       ci_scenario_timezone c = ci_scenario_timezone stored \<and>
       ci_supplier_email c = ci_supplier_email stored \<and>
       ci_presenter_run_id c = ci_presenter_run_id stored"
    and f: "f = (\<lambda>r. r\<lparr>jrow_purpose := case_purpose_value (ci_purpose c),
              jrow_runtime_mode := runtime_mode_value (ci_runtime_mode c),
              jrow_status := case_status_value (ci_status c),
              jrow_scenario_effective_time := ci_scenario_effective_time c, jrow_payload := Some c\<rparr>)"
      "update_projection_row ?i f db = Inr db'"
    by (auto simp: save_case_projection_def require_case_runtime_def require_Inr_iff elim!: bindR_InrE)
  have "\<exists>row'. projection_at db' ?i = Inr (Some row') \<and> reads_alike (f row) row' \<and>
      db' = db\<lparr>cdb_projections := cdb_projections db'\<rparr>"
    by (rule set_projection_row [OF row(1) f(2)]) (simp add: f(1))
  then obtain row' where row': "projection_at db' ?i = Inr (Some row')" "reads_alike (f row) row'"
    and t: "db' = db\<lparr>cdb_projections := cdb_projections db'\<rparr>" by blast
  have tables: "cdb_cases db' = cdb_cases db" "cdb_snapshots db' = cdb_snapshots db"
    "cdb_analyses db' = cdb_analyses db" by (subst t, simp)+
  have "jrow_case_id row = ?i"
    using row(1) by (auto simp: projection_at_def dest!: one_or_none_Some filter_one)
  then have "require_case_projection_integrity row' c stored = Inr ()"
    using reads_alike_sel [OF row'(2)] same st(2)
    by (simp add: require_case_projection_integrity_def require_Inr_iff f(1))
  from get_projection_intro [OF row'(1) _ _ this mode] st(1) stored_case_cong [OF tables(1)]
    reads_alike_sel(6,8) [OF row'(2)]
  obtain q where q: "get_projection env db' ?i = Inr q" "cpj_case q = c"
    "cpj_current_analysis_id q = jrow_current_analysis_id row" by (auto simp: f(1))
  then show ?thesis
    using aid row(2) get_analysis_cong [OF tables, of env]
    by (simp add: get_case_projection current_analysis_def)
qed

text \<open>A fallback analysis ends with its version current and its Case awaiting a Decision.\<close>

lemma fallback_analysis_is_current:
  assumes "create_fallback env m case_id db = (db', Inr a)"
  shows "current_analysis env db' case_id = Inr (Some a) \<and>
    (\<exists>c. get_case env db' case_id = Inr c \<and> ci_status c = CS_AWAITING_DECISION)"
proof -
  let ?waiting = "\<lambda>c. c\<lparr>ci_status := CS_AWAITING_DECISION\<rparr>"
  from assms obtain p db1 where p: "get_projection env db case_id = Inr p"
    and a: "analyze_case (se_snapshot_json env) (se_material_hash env) (fallback_command m (cpj_case p)) = Inr a"
    and save: "save_analysis env a None (fbm_now m) db = Inr db1"
    and proj: "save_case_projection env (?waiting (cpj_case p)) db1 = Inr db'"
    by (auto simp: create_fallback_def Let_def result_simps case_model_copy_Inr_iff split: sum.splits)
  have case_id: "ci_case_id (cpj_case p) = case_id"
    using p get_case_id [of env db case_id "cpj_case p"] by (simp add: get_case_projection)
  moreover have "av_case_id a = ci_case_id (cpj_case p)"
    using a create_analysis_version_parts(6)
    by (auto simp: analyze_case_def fallback_command_def Let_def elim!: bindR_InrE)
  moreover have "save_analysis_connection env a None (fbm_now m) db = Inr db1"
    using save by (simp add: save_analysis_def integrity_as_Inr)
  ultimately have "current_analysis env db1 case_id = Inr (Some a)"
    using saved_analysis_is_current p by metis
  then show ?thesis
    using save_case_projection_reads [OF proj] case_id by auto
qed

section \<open>Properties\<close>

text \<open>
  C1. A live analysis is stored as a whole and is what everybody reads afterwards.  A version that
  \<open>create\<close> returns either was the current one of the Case in the tables the call found, which it then
  left alone, or was made by the call: then the call's own claim was still there and had not
  expired, the tables get exactly one more version, that one, the claim is gone, and where the Case
  could be read before it now reads the new version as its current one, which is what the callers
  that wait for the claim return.
\<close>

theorem live_analysis_is_read_back:
  assumes "create_live svc ports world actor m case_id db = Some (db', Inr a)"
  shows "\<exists>seen \<in> live_tables world db.
    (db' = seen \<and> current_analysis (lsv_store svc) db' case_id = Inr (Some a)) \<or>
    ((\<exists>row \<in> set (cdb_claims seen). grow_claim_id row = lmt_claim_id m \<and>
        lmt_completed_at m \<le> grow_claim_expires_at row \<and>
        (\<forall>r \<in> set (cdb_claims db'). \<not> (grow_case_id r = grow_case_id row \<and>
           grow_material_version r = grow_material_version row \<and> grow_claim_id r = lmt_claim_id m))) \<and>
     cdb_analyses db' = cdb_analyses seen @ [analysis_row_of a] \<and>
     cdb_cases db' = cdb_cases seen \<and> cdb_snapshots db' = cdb_snapshots seen \<and>
     ((\<exists>p. get_projection (lsv_store svc) seen (av_case_id a) = Inr p) \<longrightarrow>
        current_analysis (lsv_store svc) db' (av_case_id a) = Inr (Some a)))"
proof -
  from create_live_cases [OF assms] consider
    (found) "not_own svc case_id (live_tables world db) db' (Inr a)"
  | (own) seen where "seen \<in> live_tables world db" "own_version svc ports actor m case_id db seen db' a"
    by auto
  then show ?thesis
  proof cases
    case found
    then show ?thesis by (auto simp: not_own_def)
  next
    case own
    from own(2) obtain c version where
      "complete_analysis_claim (lsv_store svc) a c version (lmt_claim_id m) (lmt_completed_at m) (lmt_now m) seen =
        Inr (db', a)" by (auto simp: own_version_def)
    then obtain db1 row where
      save: "save_analysis_connection (lsv_store svc) a (Some c) (lmt_now m) seen = Inr db1"
      and db': "db' = db1\<lparr>cdb_claims := cdb_claims db'\<rparr>" and row: "row \<in> set (cdb_claims seen)"
      "grow_case_id row = av_case_id a" "grow_material_version row = version"
      "grow_claim_id row = lmt_claim_id m" "lmt_completed_at m \<le> grow_claim_expires_at row"
      "\<forall>r \<in> set (cdb_claims db'). \<not> (grow_case_id r = av_case_id a \<and> grow_material_version r = version \<and>
         grow_claim_id r = lmt_claim_id m)" by (rule completed_analysis)
    from save have tables: "cdb_cases db1 = cdb_cases seen \<and> cdb_snapshots db1 = cdb_snapshots seen \<and>
        cdb_analyses db1 = cdb_analyses seen @ [analysis_row_of a]" by (rule save_connection_effect) simp
    have "cdb_cases db' = cdb_cases db1" "cdb_snapshots db' = cdb_snapshots db1"
      "cdb_analyses db' = cdb_analyses db1" by (subst db', simp)+
    moreover have "current_analysis (lsv_store svc) db' (av_case_id a) = Inr (Some a)"
      if "get_projection (lsv_store svc) seen (av_case_id a) = Inr p" for p
      using saved_analysis_is_current [OF save that] by (subst db') simp
    moreover have "\<exists>row \<in> set (cdb_claims seen). grow_claim_id row = lmt_claim_id m \<and>
        lmt_completed_at m \<le> grow_claim_expires_at row \<and>
        (\<forall>r \<in> set (cdb_claims db'). \<not> (grow_case_id r = grow_case_id row \<and>
           grow_material_version r = grow_material_version row \<and> grow_claim_id r = lmt_claim_id m))"
      using row by (intro bexI [OF _ row(1)]) simp
    ultimately show ?thesis
      by (intro bexI [OF _ own(1)] disjI2 conjI) (use tables in auto)
  qed
qed

text \<open>
  C6. A live analysis is made from checked evidence only, whatever the sources answer.  Every item
  of the command is live, required, healthy and not synthetic, belongs to this Case and this
  analysis, was retrieved within a day of its start, has an excerpt, and cites an https address
  without credentials, port or secret parameter: one of Power BI for an operational item, one of
  Outlook, Teams or the tenant for a statement, which speaks for its one scope and comes from its
  one source.  Every required scope is covered and the snapshot is the one that was claimed.  Where
  an email is bound to the Case its facts agree with the snapshot, the supplier's source is asked for
  that email, and its answer, one item from the one source that its lineage names, is the only item
  of the command that speaks for the supplier.  (The source id in the answer is taken as it is: the
  service does not compare it with the email.)
\<close>

theorem live_command_is_trusted:
  assumes "live_command svc ports actor m c material = Inr (cmd, lineage)"
  shows "\<exists>source.
    (\<forall>item \<in> set (cmd_evidence_items cmd).
       from_fabric m (ci_case_id c) item \<or>
       from_work_iq svc m (ci_case_id c) AS_SUPPLIER_STATEMENT source item \<or>
       from_work_iq svc m (ci_case_id c) AS_COLLABORATION_STATEMENT (lsv_quality_source_id svc) item) \<and>
    (\<forall>scope \<in> set FABRIC_SCOPES \<union> {AS_SUPPLIER_STATEMENT, AS_COLLABORATION_STATEMENT}.
      \<exists>item \<in> set (cmd_evidence_items cmd). scope \<in> set (ei_authority_scope item)) \<and>
    canonical_operational_snapshot (se_snapshot_json (lsv_store svc)) (cmd_operational_snapshot cmd) =
      Inr material \<and>
    (case ci_supplier_email c of
       None \<Rightarrow> source = lsv_supplier_source_id svc
     | Some email \<Rightarrow> validate_supplier_facts (ses_facts email) (cmd_operational_snapshot cmd) = Inr () \<and>
         arl_source_ids (hd lineage) = [source] \<and>
         (\<exists>answer item final.
            lpt_bound_supplier ports actor email (ci_case_id c) (live_analysis_id m) (lmt_started_at m) =
              Inr answer \<and>
            wr_evidence answer = [item] \<and> ei_source_id item = source \<and>
            wl_source_ids (wr_lineage answer) = [source] \<and>
            hd lineage = analysis_lineage RSK_supplier answer \<and> navigable item = Inr final \<and>
            filter (\<lambda>i. AS_SUPPLIER_STATEMENT \<in> set (ei_authority_scope i)) (cmd_evidence_items cmd) =
              [final]))"
proof -
  from assms obtain operational supplier quality source items where
    ask: "ask_sources svc ports actor m c = Inr (operational, supplier, quality)"
    and s: "bound_source_id svc c operational supplier = Inr source"
    and o: "operational_unchanged (se_snapshot_json (lsv_store svc)) c material operational = Inr ()"
    and e: "live_evidence svc m c source operational supplier quality = Inr items"
    and cmd: "cmd_evidence_items cmd = items" "cmd_operational_snapshot cmd = lor_snapshot operational"
    and l: "lineage = [analysis_lineage RSK_supplier supplier, analysis_lineage RSK_quality quality]"
    by (auto simp: live_command_def elim!: bindR_InrE)
  have "canonical_operational_snapshot (se_snapshot_json (lsv_store svc)) (lor_snapshot operational) = Inr material"
    using o by (auto simp: operational_unchanged_def Let_def result_simps elim!: bindR_InrE)
  moreover have "case ci_supplier_email c of
       None \<Rightarrow> source = lsv_supplier_source_id svc
     | Some email \<Rightarrow> validate_supplier_facts (ses_facts email) (lor_snapshot operational) = Inr () \<and>
         arl_source_ids (hd lineage) = [source] \<and>
         (\<exists>answer item final.
            lpt_bound_supplier ports actor email (ci_case_id c) (live_analysis_id m) (lmt_started_at m) =
              Inr answer \<and>
            wr_evidence answer = [item] \<and> ei_source_id item = source \<and>
            wl_source_ids (wr_lineage answer) = [source] \<and>
            hd lineage = analysis_lineage RSK_supplier answer \<and> navigable item = Inr final \<and>
            filter (\<lambda>i. AS_SUPPLIER_STATEMENT \<in> set (ei_authority_scope i)) items = [final])"
  proof (cases "ci_supplier_email c")
    case None
    with s show ?thesis by (simp add: bound_source_id_def)
  next
    case (Some email)
    with s obtain item where bound: "validate_supplier_facts (ses_facts email) (lor_snapshot operational) = Inr ()"
      "wr_evidence supplier = [item]" "wl_source_ids (wr_lineage supplier) = [source]" "ei_source_id item = source"
      by (auto simp: bound_source_id_def result_simps elim!: bindR_InrE split: list.splits)
    have "lpt_bound_supplier ports actor email (ci_case_id c) (live_analysis_id m) (lmt_started_at m) = Inr supplier"
      using gather3_Inr [OF ask [unfolded ask_sources_def Let_def]] Some by simp
    with bound live_evidence_supplier [OF e bound(2)] Some show ?thesis
      by (simp add: l analysis_lineage_def Let_def)
  qed
  ultimately show ?thesis using live_evidence_Inr [OF e] unfolding cmd by blast
qed

text \<open>
  C11. Waiting ends in time.  A caller who lost the claim returns, provided the monotonic clock does
  not go back and a sleep lasts as long as asked: after at most one poll more than the budget has
  intervals, with the version that is current at the first poll that finds one; with
  \<open>LiveSourceUnavailable\<close> if a poll cannot read the Case, or if the budget is spent.
\<close>

theorem waiting_ends_in_time:
  assumes "0 < lsv_poll_interval svc"
    and "\<And>k. lwd_monotonic world k \<le> lwd_monotonic world (Suc k)"
    and "\<And>k. lwd_monotonic world (Suc k) < lwd_monotonic world 0 + lsv_wait_budget svc \<Longrightarrow>
      min (lwd_monotonic world 0 + lsv_wait_budget svc)
          (lwd_monotonic world (Suc k) + lsv_poll_interval svc) \<le> lwd_monotonic world (Suc (Suc k))"
  shows "\<exists>n r. wait_for_winner svc world case_id = Some (lwd_view world n, r) \<and>
    (n = 0 \<or> of_nat (n - 1) * lsv_poll_interval svc < lsv_wait_budget svc) \<and>
    (\<forall>j < n. current_analysis (lsv_store svc) (lwd_view world j) case_id = Inr None) \<and>
    (case current_analysis (lsv_store svc) (lwd_view world n) case_id of
       Inr (Some a) \<Rightarrow> r = Inr a
     | Inr None \<Rightarrow> r = Inl (LiveSourceUnavailable None) \<and>
         lwd_monotonic world 0 + lsv_wait_budget svc \<le> lwd_monotonic world (Suc n)
     | Inl _ \<Rightarrow> r = Inl (LiveSourceUnavailable None))"
proof -
  define d where "d = lwd_monotonic world 0 + lsv_wait_budget svc"
  let ?over = "wait_over svc world case_id d"
  have early: "of_nat j * lsv_poll_interval svc < lsv_wait_budget svc" if "\<And>i. i \<le> j \<Longrightarrow> \<not> ?over i" for j
  proof -
    have less: "lwd_monotonic world (Suc i) < d" if "i \<le> j" for i
      using \<open>\<And>i. i \<le> j \<Longrightarrow> \<not> ?over i\<close> [OF that] by (simp add: wait_over_def)
    have "min d (lwd_monotonic world 0 + of_nat j * lsv_poll_interval svc) \<le> lwd_monotonic world (Suc j)"
      by (rule waiting_clock) (use assms(2,3) less in \<open>auto simp: d_def\<close>)
    with less [of j] show ?thesis by (simp add: d_def min_def split: if_splits)
  qed
  have "\<exists>n. ?over n"
  proof (rule ccontr)
    assume "\<nexists>n. ?over n"
    moreover obtain j where "lsv_wait_budget svc < of_nat j * lsv_poll_interval svc"
      using ex_less_of_nat_mult [OF assms(1)] by blast
    ultimately show False using early [of j] by auto
  qed
  then obtain n where n: "?over n" and first: "\<And>j. j < n \<Longrightarrow> \<not> ?over j"
    by (metis exists_least_iff)
  have "wait_for_winner svc world case_id = Some (lwd_view world n, wait_answer svc world case_id n)"
    unfolding wait_for_winner_def d_def [symmetric] by (rule wait_loop_first) (use n first in auto)
  moreover have "n = 0 \<or> of_nat (n - 1) * lsv_poll_interval svc < lsv_wait_budget svc"
    using early [of "n - 1"] first by (cases n) auto
  moreover have "\<forall>j < n. current_analysis (lsv_store svc) (lwd_view world j) case_id = Inr None"
    using first by (auto simp: wait_over_def)
  moreover have "case current_analysis (lsv_store svc) (lwd_view world n) case_id of
      Inr (Some a) \<Rightarrow> wait_answer svc world case_id n = Inr a
    | Inr None \<Rightarrow> wait_answer svc world case_id n = Inl (LiveSourceUnavailable None) \<and>
        lwd_monotonic world 0 + lsv_wait_budget svc \<le> lwd_monotonic world (Suc n)
    | Inl _ \<Rightarrow> wait_answer svc world case_id n = Inl (LiveSourceUnavailable None)"
    using n by (auto simp: wait_over_def wait_answer_def d_def split: sum.splits option.splits)
  ultimately show ?thesis by blast
qed


text \<open>
  C28. One caller at a time asks the sources.  While a claim on the material of a Case has not
  expired, another call neither asks a source nor the orchestrator: it ends the same whatever they
  would answer.
\<close>

theorem live_claim_excludes_others:
  assumes "prepare_live svc actor case_id db = Inr (To_analyse c material)"
    and "distinct (map (\<lambda>r. (grow_case_id r, grow_material_version r)) (cdb_claims (lwd_before_claim world db)))"
    and "row \<in> set (cdb_claims (lwd_before_claim world db))"
    and "grow_case_id row = case_id" and "grow_material_version row = lsv_version_sha256 svc material"
    and "lmt_started_at m \<le> grow_claim_expires_at row"
  shows "create_live svc ports world actor m case_id db = create_live svc ports' world actor m case_id db"
  using live_claim_stays [OF assms(2-6), of "lsv_store svc" "lmt_claim_id m" default_claim_lease] assms(1)
  by (auto simp: create_live_def Let_def split: sum.splits bool.splits)

section \<open>Witnesses\<close>

text \<open>
  A Case of the legacy workflow is analysed live: Fabric and Work IQ answer with one item each, and
  the orchestrator with a version that was made for the Case.
\<close>

definition live_example :: "finance_review live_service" where
  "live_example =
     \<lparr>lsv_store = journey_store, lsv_version_sha256 = (\<lambda>s. s), lsv_supplier_source_id = ''MAIL'',
      lsv_quality_source_id = ''POST'', lsv_sharepoint_host = ''contoso.sharepoint.com'',
      lsv_wait_budget = 90, lsv_poll_interval = 1 / 10\<rparr>"

definition live_example_item ::
    "evidence_source_system \<Rightarrow> authority_scope list \<Rightarrow> string \<Rightarrow> string \<Rightarrow> string \<Rightarrow> instant \<Rightarrow> evidence_item" where
  "live_example_item system scopes source_id url analysis_id t =
     \<lparr>ei_evidence_id = source_id, ei_case_id = ''CASE'', ei_kind = EK_SOURCE_STATEMENT,
      ei_authority_scope = scopes, ei_source_system = system, ei_source_id = source_id,
      ei_source_timestamp = Some 0, ei_retrieved_at = Some t,
      ei_retrieved_for_analysis_id = analysis_id, ei_retrieval_health = RH_HEALTHY,
      ei_effective_at = None, ei_expires_at = None, ei_claim = ''late'', ei_excerpt = Some ''late'',
      ei_citation_url = Some url, ei_runtime_mode = RM_LIVE, ei_synthetic = False,
      ei_requirement = ER_REQUIRED_AUTHORITATIVE, ei_uncertainty_state = US_CERTAIN,
      ei_citation_classification = None, ei_navigable_citation_url = None,
      ei_citation_trusted_host = None\<rparr>"

definition live_example_answer :: "authority_scope \<Rightarrow> string \<Rightarrow> string \<Rightarrow> string \<Rightarrow> instant \<Rightarrow> workiq_retrieval" where
  "live_example_answer scope source_id url analysis_id t =
     \<lparr>wr_evidence = [live_example_item ESS_WORK_IQ [scope] source_id url analysis_id t],
      wr_lineage =
        \<lparr>wl_context_id = ''C'', wl_task_id = ''T'', wl_artifact_ids = [''A''], wl_source_ids = [source_id],
         wl_protocol = RP_a2a, wl_request_ids = []\<rparr>\<rparr>"

definition live_example_ports :: live_ports where
  "live_example_ports =
     \<lparr>lpt_operational = (\<lambda>case_id purpose analysis_id t. Inr
        \<lparr>lor_case = legacy_case, lor_snapshot = journey_snapshot,
         lor_evidence = [live_example_item ESS_FABRIC FABRIC_SCOPES ''ROW''
           ''https://app.powerbi.com/rows'' analysis_id t],
         lor_source_snapshot_id = ''S'', lor_retrieved_at = t\<rparr>),
      lpt_supplier = (\<lambda>actor source_id case_id analysis_id t. Inr
        (live_example_answer AS_SUPPLIER_STATEMENT source_id ''https://outlook.office.com/mail/1''
           analysis_id t)),
      lpt_bound_supplier = (\<lambda>actor email case_id analysis_id t. Inl (ValueError ''unbound'')),
      lpt_quality = (\<lambda>actor source_id case_id analysis_id t. Inr
        (live_example_answer AS_COLLABORATION_STATEMENT source_id
           ''https://contoso.sharepoint.com/p?toke%6es=1'' analysis_id t)),
      lpt_ended = (1, 2, 3),
      lpt_orchestrate = (\<lambda>cmd lineage. Explanation_unavailable legacy_version),
      lpt_facts_json = (\<lambda>_. []), lpt_decision_json = (\<lambda>_. [])\<rparr>"

definition live_example_world :: "finance_review case_db \<Rightarrow> finance_review live_world" where
  "live_example_world db =
     \<lparr>lwd_before_claim = (\<lambda>d. d), lwd_while_analysing = (\<lambda>d. d), lwd_view = (\<lambda>_. db),
      lwd_monotonic = (\<lambda>k. of_nat k)\<rparr>"

definition live_example_moment :: live_moment where
  "live_example_moment =
     \<lparr>lmt_started_at = 40, lmt_read_again_at = 45, lmt_completed_at = 50, lmt_now = 50,
      lmt_claim_id = ''CLAIM'', lmt_analysis_uuid = ''U''\<rparr>"

definition live_example_version :: analysis_version where
  "live_example_version =
     legacy_version\<lparr>av_retrieval_lineage :=
         [analysis_lineage RSK_supplier (live_example_answer AS_SUPPLIER_STATEMENT ''MAIL'' [] [] 0),
          analysis_lineage RSK_quality (live_example_answer AS_COLLABORATION_STATEMENT ''POST'' [] [] 0)],
       av_explanation := no_explanation\<rparr>"

lemma live_example_addresses:
  "safe_citation fabric_hosts ''https://app.powerbi.com/rows''
     \<lparr>up_scheme = ''https'', up_netloc = ''app.powerbi.com'', up_path = ''/rows'', up_query = []\<rparr>"
  "safe_citation (work_iq_hosts live_example) ''https://outlook.office.com/mail/1''
     \<lparr>up_scheme = ''https'', up_netloc = ''outlook.office.com'', up_path = ''/mail/1'', up_query = []\<rparr>"
  "safe_citation (work_iq_hosts live_example) ''https://contoso.sharepoint.com/p?toke%6es=1''
     \<lparr>up_scheme = ''https'', up_netloc = ''contoso.sharepoint.com'', up_path = ''/p'', up_query = ''toke%6es=1''\<rparr>"
  by code_simp+

lemma live_example_collected:
  assumes "safe_citation hosts url u" and "url \<noteq> []" and "nonblank source_id" and "scopes \<noteq> []"
  shows "collected system scopes (if system = ESS_FABRIC then None else Some source_id) aid ''CASE'' 40 hosts
    (live_example_item system scopes source_id url aid 40)"
proof -
  have "nonblank ''late''" by code_simp
  with assms show ?thesis
    by (auto simp: collected_def live_item_complete_def live_example_item_def or_empty_def within_a_day_def
        minutes_def microseconds_per_second_def)
qed

lemma live_example_evidence:
  "\<exists>items. live_evidence live_example live_example_moment legacy_case ''MAIL''
     \<lparr>lor_case = legacy_case, lor_snapshot = journey_snapshot,
      lor_evidence = [live_example_item ESS_FABRIC FABRIC_SCOPES ''ROW'' ''https://app.powerbi.com/rows''
        (live_analysis_id live_example_moment) 40], lor_source_snapshot_id = ''S'', lor_retrieved_at = 40\<rparr>
     (live_example_answer AS_SUPPLIER_STATEMENT ''MAIL'' ''https://outlook.office.com/mail/1''
        (live_analysis_id live_example_moment) 40)
     (live_example_answer AS_COLLABORATION_STATEMENT ''POST''
        ''https://contoso.sharepoint.com/p?toke%6es=1'' (live_analysis_id live_example_moment) 40) = Inr items"
proof -
  have ids: "ci_case_id legacy_case = ''CASE''" "lmt_started_at live_example_moment = 40"
    "lsv_quality_source_id live_example = ''POST''"
    by (simp_all add: legacy_case_def example_case_def live_example_moment_def live_example_def)
  have names: "nonblank ''ROW''" "nonblank ''MAIL''" "nonblank ''POST''" by code_simp+
  have scopes: "FABRIC_SCOPES \<noteq> []" by (simp add: FABRIC_SCOPES_def)
  show ?thesis
    by (rule live_evidence_accepts)
      (use live_example_collected [OF live_example_addresses(1) _ names(1) scopes, of ESS_FABRIC]
          live_example_collected [OF live_example_addresses(2) _ names(2), of "[AS_SUPPLIER_STATEMENT]" ESS_WORK_IQ]
          live_example_collected [OF live_example_addresses(3) _ names(3), of "[AS_COLLABORATION_STATEMENT]" ESS_WORK_IQ]
       in \<open>simp_all add: ids live_example_answer_def\<close>, simp add: live_example_item_def)
qed

lemma live_example_analysis:
  "live_analysis live_example live_example_ports example_actor live_example_moment legacy_case [] =
     Inr live_example_version"
proof -
  obtain items where items: "live_evidence live_example live_example_moment legacy_case ''MAIL''
     \<lparr>lor_case = legacy_case, lor_snapshot = journey_snapshot,
      lor_evidence = [live_example_item ESS_FABRIC FABRIC_SCOPES ''ROW'' ''https://app.powerbi.com/rows''
        (live_analysis_id live_example_moment) 40], lor_source_snapshot_id = ''S'', lor_retrieved_at = 40\<rparr>
     (live_example_answer AS_SUPPLIER_STATEMENT ''MAIL'' ''https://outlook.office.com/mail/1''
        (live_analysis_id live_example_moment) 40)
     (live_example_answer AS_COLLABORATION_STATEMENT ''POST''
        ''https://contoso.sharepoint.com/p?toke%6es=1'' (live_analysis_id live_example_moment) 40) = Inr items"
    using live_example_evidence by blast
  have unchanged: "operational_unchanged (\<lambda>_. []) legacy_case []
     \<lparr>lor_case = legacy_case, lor_snapshot = journey_snapshot, lor_evidence = ev,
      lor_source_snapshot_id = ''S'', lor_retrieved_at = 40\<rparr> = Inr ()" for ev by code_simp
  have fields: "ci_supplier_email legacy_case = None" "lsv_supplier_source_id live_example = ''MAIL''"
    "lsv_quality_source_id live_example = ''POST''" "se_snapshot_json (lsv_store live_example) = (\<lambda>_. [])"
    "lmt_started_at live_example_moment = 40"
    by (simp_all add: legacy_case_def example_case_def live_example_def live_example_moment_def journey_store_def)
  show ?thesis
    unfolding live_analysis_def live_command_def ask_sources_def bound_source_id_def Let_def fields
    by (simp add: live_example_ports_def gather3_def failure_at_def items items [unfolded live_example_answer_def]
        unchanged orchestrator_lineage_def analysis_lineage_def mk_retrieval_lineage_def require_def explained_def
        live_example_version_def live_example_answer_def Let_def)
qed

definition live_example_claim :: claim_row where
  "live_example_claim =
     \<lparr>grow_case_id = ''CASE'', grow_material_version = [], grow_claim_id = ''CLAIM'', grow_claimed_at = 40,
      grow_claim_expires_at = 40 + default_claim_lease\<rparr>"

definition live_example_run :: bool where
  "live_example_run =
     (case create_case journey_store legacy_case journey_snapshot empty_case_db of
        Inl _ \<Rightarrow> False
      | Inr db \<Rightarrow>
          prepare_live live_example example_actor ''CASE'' db = Inr (To_analyse legacy_case []) \<and>
     (case try_claim_analysis journey_store ''CASE'' [] ''CLAIM'' 40 default_claim_lease db of
        Inl _ \<Rightarrow> False
      | Inr (db1, mine) \<Rightarrow> mine \<and> cdb_claims db1 = [live_example_claim] \<and>
          prepare_live live_example example_actor ''CASE'' db1 = Inr (To_analyse legacy_case []) \<and>
     (case complete_analysis_claim journey_store live_example_version
             (legacy_case\<lparr>ci_status := CS_AWAITING_DECISION\<rparr>) [] ''CLAIM'' 50 50 db1 of
        Inl _ \<Rightarrow> False
      | Inr (db2, a) \<Rightarrow> map nrow_analysis_id (cdb_analyses db2) = [''ANALYSIS''])))"

lemma live_example_runs: live_example_run
  by code_simp

lemma live_example_steps:
  "\<exists>db db1 db2. create_case journey_store legacy_case journey_snapshot empty_case_db = Inr db \<and>
     prepare_live live_example example_actor ''CASE'' db = Inr (To_analyse legacy_case []) \<and>
     try_claim_analysis journey_store ''CASE'' [] ''CLAIM'' 40 default_claim_lease db = Inr (db1, True) \<and>
     cdb_claims db1 = [live_example_claim] \<and>
     prepare_live live_example example_actor ''CASE'' db1 = Inr (To_analyse legacy_case []) \<and>
     complete_analysis_claim journey_store live_example_version
       (legacy_case\<lparr>ci_status := CS_AWAITING_DECISION\<rparr>) [] ''CLAIM'' 50 50 db1 = Inr (db2, live_example_version) \<and>
     map nrow_analysis_id (cdb_analyses db2) = [''ANALYSIS'']"
proof -
  note run = live_example_runs [unfolded live_example_run_def]
  obtain db where db: "create_case journey_store legacy_case journey_snapshot empty_case_db = Inr db"
    using run by (cases "create_case journey_store legacy_case journey_snapshot empty_case_db :: finance_review case_db result") simp_all
  note run1 = run [unfolded db sum.case]
  obtain db1 mine where db1: "try_claim_analysis journey_store ''CASE'' [] ''CLAIM'' 40 default_claim_lease db =
      Inr (db1, mine)"
    using run1 by (cases "try_claim_analysis journey_store ''CASE'' [] ''CLAIM'' 40 default_claim_lease db") auto
  note run2 = run1 [unfolded db1 sum.case prod.case]
  obtain db2 a where db2: "complete_analysis_claim journey_store live_example_version
      (legacy_case\<lparr>ci_status := CS_AWAITING_DECISION\<rparr>) [] ''CLAIM'' 50 50 db1 = Inr (db2, a)"
    using run2 by (cases "complete_analysis_claim journey_store live_example_version
      (legacy_case\<lparr>ci_status := CS_AWAITING_DECISION\<rparr>) [] ''CLAIM'' 50 50 db1") auto
  have "a = live_example_version" using db2 by (rule completed_analysis)
  moreover have "mine = True" using run2 by blast
  ultimately show ?thesis
    using db db1 db2 run2 [unfolded db2 sum.case prod.case] by (intro exI [of _ db] exI [of _ db1] exI [of _ db2]) simp
qed

lemma live_example_creates:
  assumes "prepare_live live_example example_actor ''CASE'' db = Inr (To_analyse legacy_case [])"
    and "try_claim_analysis journey_store ''CASE'' [] ''CLAIM'' 40 default_claim_lease db = Inr (db1, True)"
    and "complete_analysis_claim journey_store live_example_version
       (legacy_case\<lparr>ci_status := CS_AWAITING_DECISION\<rparr>) [] ''CLAIM'' 50 50 db1 = Inr (db2, live_example_version)"
  shows "create_live live_example live_example_ports (live_example_world db) example_actor
      live_example_moment ''CASE'' db = Some (db2, Inr live_example_version)"
proof -
  have "case_model_copy (\<lambda>c. c\<lparr>ci_status := CS_AWAITING_DECISION\<rparr>) legacy_case =
      Inr (legacy_case\<lparr>ci_status := CS_AWAITING_DECISION\<rparr>)" by code_simp
  then show ?thesis
    using assms live_example_analysis
    by (simp add: create_live_def analyse_claimed_def live_example_world_def live_example_moment_def
        live_example_def Let_def)
qed

theorem live_analysis_is_read_back_witness:
  "\<exists>db db' seen. create_live live_example live_example_ports (live_example_world db) example_actor
       live_example_moment ''CASE'' db = Some (db', Inr live_example_version) \<and>
     seen \<in> live_tables (live_example_world db) db \<and>
     (db' = seen \<or> cdb_analyses db' = cdb_analyses seen @ [analysis_row_of live_example_version])"
proof -
  from live_example_steps obtain db db1 db2 where
    "prepare_live live_example example_actor ''CASE'' db = Inr (To_analyse legacy_case [])"
    "try_claim_analysis journey_store ''CASE'' [] ''CLAIM'' 40 default_claim_lease db = Inr (db1, True)"
    "complete_analysis_claim journey_store live_example_version
       (legacy_case\<lparr>ci_status := CS_AWAITING_DECISION\<rparr>) [] ''CLAIM'' 50 50 db1 = Inr (db2, live_example_version)"
    by blast
  note run = live_example_creates [OF this]
  from live_analysis_is_read_back [OF run] run show ?thesis by blast
qed

theorem live_command_is_trusted_witness:
  "\<exists>cmd lineage. live_command live_example live_example_ports example_actor live_example_moment
       legacy_case [] = Inr (cmd, lineage) \<and>
     (\<exists>item \<in> set (cmd_evidence_items cmd). AS_COLLABORATION_STATEMENT \<in> set (ei_authority_scope item)) \<and>
     canonical_operational_snapshot (\<lambda>_. []) (cmd_operational_snapshot cmd) = Inr []"
proof -
  obtain cmd lineage where run: "live_command live_example live_example_ports example_actor live_example_moment
      legacy_case [] = Inr (cmd, lineage)"
    using live_example_analysis by (auto simp: live_analysis_def elim!: bindR_InrE)
  have "se_snapshot_json (lsv_store live_example) = (\<lambda>_. [])"
    by (simp add: live_example_def journey_store_def)
  with live_command_is_trusted [OF run] run show ?thesis by auto
qed

theorem waiting_ends_in_time_witness:
  "\<exists>db db2. wait_for_winner live_example
       \<lparr>lwd_before_claim = (\<lambda>d. d), lwd_while_analysing = (\<lambda>d. d),
        lwd_view = (\<lambda>k. if k < 2 then db else db2), lwd_monotonic = (\<lambda>k. of_nat k / 10)\<rparr> ''CASE'' =
     Some (db2, Inr live_example_version)"
proof -
  from live_example_steps obtain db db1 db2 where
    prep: "prepare_live live_example example_actor ''CASE'' db = Inr (To_analyse legacy_case [])"
    and claim: "try_claim_analysis journey_store ''CASE'' [] ''CLAIM'' 40 default_claim_lease db = Inr (db1, True)"
    and compl: "complete_analysis_claim journey_store live_example_version
       (legacy_case\<lparr>ci_status := CS_AWAITING_DECISION\<rparr>) [] ''CLAIM'' 50 50 db1 = Inr (db2, live_example_version)"
    by blast
  let ?env = "lsv_store live_example"
  have env: "?env = journey_store" by (simp add: live_example_def)
  have none: "current_analysis ?env db ''CASE'' = Inr None" by (rule prepare_live_To_analyse(4) [OF prep])
  then obtain p where "get_projection journey_store db ''CASE'' = Inr p"
    by (auto simp: current_analysis_def env elim!: bindR_InrE)
  moreover have "get_projection journey_store db1 ''CASE'' = get_projection journey_store db ''CASE''"
    using try_claim_claims_only [OF claim] get_projection_claims [where env = journey_store and db = db and cs = "cdb_claims db1"]
    by (simp add: claims_only_def)
  moreover have case_id: "av_case_id live_example_version = ''CASE''" by code_simp
  ultimately have reads: "get_projection journey_store db1 (av_case_id live_example_version) = Inr p" by simp
  obtain dbs where save: "save_analysis_connection journey_store live_example_version
      (Some (legacy_case\<lparr>ci_status := CS_AWAITING_DECISION\<rparr>)) 50 db1 = Inr dbs"
    and db2: "db2 = dbs\<lparr>cdb_claims := cdb_claims db2\<rparr>" using compl by (rule completed_analysis)
  have some: "current_analysis ?env db2 ''CASE'' = Inr (Some live_example_version)"
    unfolding env using saved_analysis_is_current [OF save reads] case_id by (subst db2) simp
  let ?w = "\<lparr>lwd_before_claim = (\<lambda>d. d), lwd_while_analysing = (\<lambda>d. d),
    lwd_view = (\<lambda>k. if k < 2 then db else db2), lwd_monotonic = (\<lambda>k. of_nat k / 10)\<rparr>"
  have budget: "lsv_wait_budget live_example = 90" "lsv_poll_interval live_example = 1 / 10"
    by (simp_all add: live_example_def)
  have clock: "0 < lsv_poll_interval live_example" "lwd_monotonic ?w k \<le> lwd_monotonic ?w (Suc k)"
    "min (lwd_monotonic ?w 0 + lsv_wait_budget live_example)
       (lwd_monotonic ?w (Suc k) + lsv_poll_interval live_example) \<le> lwd_monotonic ?w (Suc (Suc k))" for k
    by (simp_all add: budget field_simps min_def)
  from waiting_ends_in_time [of live_example ?w "''CASE''", OF clock]
  obtain n r where n: "wait_for_winner live_example ?w ''CASE'' = Some (lwd_view ?w n, r)"
    and res: "case current_analysis ?env (lwd_view ?w n) ''CASE'' of
       Inr (Some a) \<Rightarrow> r = Inr a
     | Inr None \<Rightarrow> r = Inl (LiveSourceUnavailable None) \<and>
         lwd_monotonic ?w 0 + lsv_wait_budget live_example \<le> lwd_monotonic ?w (Suc n)
     | Inl _ \<Rightarrow> r = Inl (LiveSourceUnavailable None)" by blast
  have "\<not> n < 2" using res none by (auto simp: budget)
  with n res some show ?thesis by auto
qed




theorem live_claim_excludes_others_witness:
  "\<exists>db. cdb_claims db = [live_example_claim] \<and>
     create_live live_example live_example_ports (live_example_world db) example_actor
       (live_example_moment\<lparr>lmt_claim_id := ''OTHER''\<rparr>) ''CASE'' db =
     create_live live_example
       (live_example_ports\<lparr>lpt_orchestrate := \<lambda>cmd lineage. Orchestration_failed KeyError\<rparr>)
       (live_example_world db) example_actor (live_example_moment\<lparr>lmt_claim_id := ''OTHER''\<rparr>) ''CASE'' db"
proof -
  from live_example_steps obtain db where claims: "cdb_claims db = [live_example_claim]"
    and prep: "prepare_live live_example example_actor ''CASE'' db = Inr (To_analyse legacy_case [])" by blast
  have world: "lwd_before_claim (live_example_world db) db = db" by (simp add: live_example_world_def)
  have claim: "grow_case_id live_example_claim = ''CASE''"
    "grow_material_version live_example_claim = lsv_version_sha256 live_example []"
    "lmt_started_at (live_example_moment\<lparr>lmt_claim_id := ''OTHER''\<rparr>) \<le> grow_claim_expires_at live_example_claim"
    by (simp_all add: live_example_claim_def live_example_def live_example_moment_def default_claim_lease_def
        minutes_def microseconds_per_second_def)
  show ?thesis
    by (intro exI conjI, rule claims, rule live_claim_excludes_others [OF prep _ _ claim])
      (simp_all add: world claims)
qed

end
