(* ===== verification/Spec2Isabelle.thy ===== *)
theory Spec2Isabelle
  imports Exposure Finance_Revisions Supplier_Email_Safety Playback_Liveness Proposal_Tokens Planning_Properties
    WorkIQ_Evidence Backend_Runs Graph_Client Live_Analysis
begin

text \<open>
  Verification of the supply response service, a Python program that turns a supplier disruption
  into an exposure calculation, ranked response options, a reviewed Decision and its simulated or
  communicated execution.  The theories are translations of the Python sources; nothing of the
  program is assumed except what is named as a parameter below.

  \<^bold>\<open>How the program works, and which theory holds what.\<close>

  A Case is a disruption of one part (\<open>data/domain/cases.py\<close>) with its operational snapshot and
  evidence.  The analysis pipeline (\<open>services/analysis/service.py\<close>) validates the evidence,
  computes the exposure, evaluates five response options, ranks them and records an immutable,
  hashed Analysis Version.  A Decision approves one option of a version; expensive ones of the
  independent workflow need a Finance review first, whose revisions are an append-only log.  An
  approved Decision is planned into execution actions; their attempts and status events are
  stored by the execution repository, a playback completes them and records the simulated
  outcomes, and a reviewed supplier email may be sent through Microsoft Graph.  Everything is
  stored in one SQL database; the current proposal of a Case is named by a token (generation,
  analysis, selection) that every command of Finance has to present, and a planning event written
  together with an approving Decision tells the worker to plan it.

  \<^enum> \<open>Prelude\<close>: text, instants, money (exact rationals for \<open>Decimal\<close>), the exceptions of the program
    as the datatype \<open>py_error\<close>, results as \<open>py_error + 'a\<close> with \<open>bindR\<close>, \<open>mapR\<close> and \<open>require\<close>, and the
    used part of Python's library (\<open>strip\<close>, \<open>sorted\<close>, dictionaries, \<open>min\<close> by key).
  \<^enum> \<open>Interfaces\<close>: three locales.  \<open>recommender\<close> is what the analysis asks of the ranking
    (interpreted in \<open>Ranking\<close>), \<open>lifecycle\<close> a status machine with terminal states (interpreted in
    \<open>Execution_Store\<close> for actions), \<open>ranked_lifecycle\<close> one whose every step lowers a rank
    (interpreted in \<open>Finance_Review\<close> for reviews).
  \<^enum> \<open>Domain_Evidence\<close>, \<open>Domain_Cases\<close>, \<open>Domain_Operations\<close>, \<open>Domain_Analysis\<close>, \<open>Analysis_Material\<close>,
    \<open>Domain_Decisions\<close>: the records of \<open>data/domain/\<close>, field for field, with each validator as a
    predicate \<open>wf_...\<close> or a constructor \<open>mk_...\<close> that can fail; \<open>Domain_Operations\<close> also has the
    RL-001 scenario of \<open>data/synthetic/rl001.py\<close>.
  \<^enum> \<open>Exposure\<close> (\<open>services/exposure/calculator.py\<close>), \<open>Allocation\<close> (\<open>services/analysis/exposure.py\<close>),
    \<open>Options\<close> (\<open>services/analysis/options.py\<close>), \<open>Ranking\<close> (\<open>services/analysis/ranking.py\<close>).
  \<^enum> \<open>Std_Url\<close> and \<open>Evidence_Policy\<close> (\<open>services/policy/evidence.py\<close>), \<open>Approvals\<close>
    (\<open>services/policy/approvals.py\<close>, \<open>workflow.py\<close>), \<open>Analysis_Service\<close> (\<open>services/analysis/service.py\<close>).
  \<^enum> \<open>Finance_Review\<close> (\<open>services/policy/finance_review.py\<close>), \<open>Finance_Revisions\<close>
    (\<open>services/persistence/finance_reviews.py\<close>), \<open>Decision_Policy\<close> (the policy of
    \<open>services/decisions/service.py\<close>).
  \<^enum> \<open>Case_Store\<close>, \<open>Proposal_Store\<close> and \<open>Decision_Store\<close>: the database record \<open>case_db\<close> with the Case,
    Decision and outbox repositories of \<open>services/persistence/store.py\<close>, the proposal repository of
    \<open>proposals.py\<close> and the guard of \<open>services/execution/currentness.py\<close>; \<open>database_cases\<close> gives the
    execution theories these repositories.
  \<^enum> \<open>Finance_Service\<close>: the commands and services of \<open>services/finance/\<close> and \<open>DecisionService.record\<close>,
    each with its unit of work, its replay and its handling of a lost race.
  \<^enum> \<open>Planning_Worker\<close>: \<open>ActionPlanningWorker\<close> of \<open>services/execution/worker.py\<close> and the loops over
    planning events of \<open>apps/api/app/runtime.py\<close> and \<open>dependencies.py\<close>.
  \<^enum> \<open>Database_History\<close>, \<open>Planning_History\<close>, \<open>Proposal_Tokens\<close> and \<open>Planning_Properties\<close>: how the
    tables change over time in runs of the services (\<open>database_step\<close>) and what follows for tokens and
    events; \<open>Backend_Runs\<close> adds presenter retention, playback and the supplier email
    (\<open>backend_step\<close>); \<open>Journey\<close> runs the services from empty tables for the witnesses.
  \<^enum> \<open>Execution_Store\<close> and \<open>Execution_Service\<close> (the execution repository of
    \<open>services/persistence/store.py\<close> and \<open>ExecutionService\<close> of \<open>services/execution/worker.py\<close>), with
    \<open>Execution_Lives\<close> and \<open>Execution_Invariants\<close> as their theory.
  \<^enum> \<open>Planner\<close>, \<open>Playback\<close> and \<open>Playback_Liveness\<close> (\<open>services/execution/planner.py\<close>, \<open>playback.py\<close>).
  \<^enum> \<open>Supplier_Email\<close>, \<open>Supplier_Email_Service\<close> and \<open>Supplier_Email_Safety\<close>
    (\<open>services/execution/mail_service.py\<close> and its repository).
  \<^enum> \<open>WorkIQ_Evidence\<close> (\<open>integrations/workiq/normalizer.py\<close>): the untrusted answer of an agent
    becomes evidence items.  \<open>Presenter_Retention\<close> (\<open>services/persistence/presenter_runs.py\<close>): the
    aggregates of older Cases are deleted from all twenty tables.
  \<^enum> \<open>Authentication\<close> (\<open>AuthService\<close> of \<open>apps/api/app/auth.py\<close>) and \<open>Graph_Client\<close>
    (\<open>integrations/graph_mail/obo.py\<close> and \<open>client.py\<close>): from a bearer token to the actor of a call, and
    from that actor to the requests to Microsoft Graph.  \<open>Json_Values\<close> has the untrusted documents.
  \<^enum> \<open>Live_Evidence\<close> and \<open>Live_Analysis\<close> (\<open>apps/api/app/live.py\<close>, the messages of
    \<open>agents/orchestrator/contracts.py\<close> and \<open>services/analysis/application.py\<close>): a live analysis
    claims the material it is made from, asks Fabric and Work IQ, checks their answers, has the
    version orchestrated and stores it, while the callers without the claim wait (\<open>wait_loop\<close>); a
    fallback analysis is made from the synthetic corpus.  \<open>Store_Errors\<close>: no operation of the store that
    it uses raises an error of a source.

  \<^bold>\<open>How the model is made.\<close>  A database table is a list of row records, a unit of work a function
  from the tables to an error or the new tables: an error leaves the tables as they were, which
  is what the transaction's rollback does.  Interleavings of units of work are inductive
  reachability relations (\<open>execution_reachable\<close>, \<open>mail_reachable\<close>, \<open>playback_reachable\<close>,
  \<open>database_reachable\<close>, \<open>backend_reachable\<close>, \<open>auth_reachable\<close>), so a property of a reachable state holds
  whatever callers do concurrently.  Only the runs of \<open>backend_reachable\<close> have presenter retention in
  them, which deletes the rows of older Cases; C4, C12, C35 to C38 and C40 are about runs without it.  Fresh identifiers and clock readings are arguments of the operations.  Every loop of the code is a structural recursion
  or a \<open>function\<close> with a termination proof, except two that may not end, the one that drains the
  planning events (\<open>process_while\<close>) and the one that waits for an analysis (\<open>wait_loop\<close>): each is a
  \<open>partial_function (option)\<close> where None means that it does not return, and is shown to return.  No fuel is used anywhere.

  \<^bold>\<open>Simplifications.\<close>  The \<open>updated_at\<close> columns, which nothing reads back, are left out, and so are
  engines, locking hints, the database lock of retention, the \<open>after_plan\<close> hook of the worker
  and log lines.  To the review log an analysis that does not read back is absent, because both
  are a \<open>PersistenceIntegrityError\<close> there.  A unique constraint ignores rows with a NULL key.  A live
  analysis reads everything before its claim from the same tables; what other callers do between
  its later units of work is a parameter (\<open>live_world\<close>).  The seconds of its waiting are exact
  rationals.

  \<^bold>\<open>Parameters\<close> stand for code that is not in the repository: the SHA-256 hash and the JSON
  printer of the Analysis Version, of commands and of supersessions, the JSON of a snapshot and of
  a review with their parsers, \<open>uuid5\<close>, the string form of a \<open>Decimal\<close>, \<open>datetime.fromisoformat\<close>,
  \<open>json.loads\<close>, the database's clock for \<open>recorded_at\<close>, the \<open>jwt\<close> library, the answers of the identity
  provider, of MSAL and of Microsoft Graph, the ports that a live analysis is constructed
  with (Fabric, Work IQ and the orchestrator with its agents), and, for the theories of execution
  and playback, the Decision and Case repositories with the currentness guard, which
  \<open>Decision_Store\<close> instantiates.  Hypotheses on them are named in the theorems that need them:
  \<open>json_inverse\<close> (parsing a printed review returns it), \<open>decisions_immutable\<close> (a Decision reads back
  the same), \<open>stays_current\<close> (the guard lets the run proceed) and injectivity of \<open>uuid5\<close>.

  \<^bold>\<open>What the properties show.\<close>  C1, C11, C17 and C28: a live analysis is
  stored whole and is what everybody reads afterwards, one caller at a time makes it, the others
  wait for a bounded time, and a failure leaves the tables as they were but for claims and tells no
  more than which Work IQ source failed where.  C2 and C3:
  the exposure is that of the daily balance.  C4: a proposal token lets at most one command of
  Finance through.  C5 and C7: allocation conserves supply on any input, gives no order more
  than its demand, never less than nothing where pool, releases and demands are not negative, and is
  monotone.  C6: the command of a live analysis has only checked evidence, and what speaks for the
  supplier is the answer about the bound email where there is one.  C8 and C9: evaluating
  the options always ends, and their feasibility is as contracted, on any input and on RL-001.  C10,
  C12 and C13: every approving Decision has one planning event, which stays until retention prunes its
  Case, an event is processed only together with its stored actions, and draining the events ends.  C14 and C23: only the two configured
  people act, on tokens verified by published keys, and the requests for keys are bounded.  C15 and
  C18: the ranking rejects duplicate ids and is otherwise sound and equal to a thresholded
  lexicographic choice.  C16 and C26: an answer
  of Work IQ becomes well-formed evidence, authoritative only with a trusted citation of the
  expected source and scope.  C19, C20, C22, C24 and C25: evidence is accepted exactly when the
  policy trusts it, approvals are authorized, and a recommendation rests on both.  C21: a submission
  to Graph counts as refused exactly when it was.  C27 and C29 to C33: duties are separated in the
  Finance review and in the Decision, and the log of review revisions is linear and idempotent.
  C34: presenter retention deletes exactly the aggregates of the older Cases.  C35 to C37: the
  stored history of an action is a legal run of its state machine, operations succeed exactly where
  they may, and histories only grow.  C38: a supplier email is handed over at most once unless Graph
  refused it.  C39 and C40: a planned playback completes its actions in their order, and
  it shows exactly the predicted outcomes when it has.  The same theories show more of the calculators: the cumulative balance
  (\<open>projection_is_cumulative_balance\<close>), due-date allocation (\<open>due_ordered_allocation_is_on_time\<close>),
  that mitigation improves outcomes (\<open>mitigation_outcomes_improve\<close>), that the ranking ignores the
  order of the options (\<open>ranking_order_independent\<close>) and that a review has at most two transitions
  (\<open>finance_review_history_bounded\<close>).

  \<^bold>\<open>Not modelled\<close>: the FastAPI routes (\<open>apps/api\<close>, but for authentication, live analysis and the loops above), the
  agents (\<open>agents\<close>, whose checks of model output rest on regular expressions and Unicode
  normalisation), the other clients of Work IQ and Fabric (\<open>integrations\<close>), report and deployment
  scripts (\<open>fabric\<close>, \<open>scripts\<close>, \<open>migrations\<close>) and the web client: input and output around the
  modelled services.
\<close>

end
